(* ===== verification/Prelude.thy ===== *)
theory Prelude
  imports Main "HOL-Library.AList" "HOL-Library.Char_ord" "HOL-Library.List_Lexorder"
    "HOL-Library.Multiset"
begin

text \<open>
  Vocabulary shared by every component: Python exceptions as values, results as sums,
  Python dictionaries as association lists in insertion order, decimal rendering of
  integers, the character classes the source's regular expressions use, and the
  generic list lemmas the component proofs rest on.

  A Python \<open>str\<close> is a \<^typ>\<open>string\<close>: each \<^typ>\<open>char\<close> stands for the code point of the
  same number, so the model speaks about strings over U+0000 to U+00FF.
\<close>

named_theorems res_simps \<open>unfolding of the result combinators\<close>
named_theorems dict_simps \<open>lookups and updates of insertion-ordered dictionaries\<close>

section \<open>Exceptions and results\<close>

datatype py_exc =
    ValueError string
  | TypeError string
  | RuntimeError string
  | OverflowError
  | ZeroDivisionError
  | KeyError string
  | ValidationError string
  | PyError string string \<comment> \<open>an exception class of the source and its message\<close>

definition res_bind :: "'e + 'a \<Rightarrow> ('a \<Rightarrow> 'e + 'b) \<Rightarrow> 'e + 'b" where
  "res_bind m f = (case m of Inl e \<Rightarrow> Inl e | Inr x \<Rightarrow> f x)"

lemma res_bind_simps [simp, res_simps]:
  "res_bind (Inl e) f = Inl e"
  "res_bind (Inr x) f = f x"
  by (simp_all add: res_bind_def)

lemma res_bind_Inr_iff: "res_bind m f = Inr y \<longleftrightarrow> (\<exists>x. m = Inr x \<and> f x = Inr y)"
  by (cases m) auto

lemma res_bind_Inl_iff: "res_bind m f = Inl e \<longleftrightarrow> m = Inl e \<or> (\<exists>x. m = Inr x \<and> f x = Inl e)"
  by (cases m) auto

lemma res_bind_split:
  "P (res_bind m f) \<longleftrightarrow> (\<forall>e. m = Inl e \<longrightarrow> P (Inl e)) \<and> (\<forall>x. m = Inr x \<longrightarrow> P (f x))"
  by (cases m) auto

text \<open>A loop that appends one checked result per element and stops at the first exception.\<close>

fun res_map :: "('a \<Rightarrow> 'e + 'b) \<Rightarrow> 'a list \<Rightarrow> 'e + 'b list" where
  "res_map f [] = Inr []"
| "res_map f (x # xs) =
     res_bind (f x) (\<lambda>y. res_bind (res_map f xs) (\<lambda>ys. Inr (y # ys)))"

lemma res_map_Inr_iff:
  "res_map f xs = Inr ys \<longleftrightarrow> list_all2 (\<lambda>x y. f x = Inr y) xs ys"
proof (induction xs arbitrary: ys)
  case Nil
  then show ?case by (cases ys) auto
next
  case (Cons x xs)
  then show ?case by (cases ys) (auto simp: res_bind_Inr_iff)
qed

lemma res_map_length: "res_map f xs = Inr ys \<Longrightarrow> length ys = length xs"
  by (simp add: res_map_Inr_iff list_all2_lengthD)

lemma res_map_total: "(\<And>x. x \<in> set xs \<Longrightarrow> f x = Inr (g x)) \<Longrightarrow> res_map f xs = Inr (map g xs)"
  by (induction xs) auto

lemma res_map_fails: "x \<in> set xs \<Longrightarrow> f x = Inl e \<Longrightarrow> \<exists>e'. res_map f xs = Inl e'"
proof (induction xs)
  case (Cons y ys)
  then show ?case by (cases "f y") (auto simp: res_bind_Inl_iff)
qed simp

section \<open>Insertion-ordered dictionaries\<close>

text \<open>
  \<open>AList.update\<close> overwrites in place or appends at the end and \<open>AList.delete\<close>
  removes the entry, as a Python \<open>dict\<close> or \<open>OrderedDict\<close> does; \<open>map_of\<close> is \<open>get\<close>.
\<close>

type_synonym ('k, 'v) dict = "('k \<times> 'v) list"

definition dict_keys :: "('k, 'v) dict \<Rightarrow> 'k list" where
  "dict_keys d = map fst d"

abbreviation dict_ok :: "('k, 'v) dict \<Rightarrow> bool" where
  "dict_ok d \<equiv> distinct (map fst d)"

lemma dict_update_fresh [dict_simps]:
  "map_of d k = None \<Longrightarrow> AList.update k v d = d @ [(k, v)]"
  by (induction d) (auto split: if_splits)

lemma dict_ok_filter [dict_simps, intro]: "dict_ok d \<Longrightarrow> dict_ok (filter P d)"
  by (simp add: distinct_map_filter)

lemma dict_ok_drop [dict_simps, intro]: "dict_ok d \<Longrightarrow> dict_ok (drop n d)"
  by (simp add: drop_map [symmetric] distinct_drop)

lemma dict_ok_snoc [dict_simps, intro]: "dict_ok d \<Longrightarrow> map_of d k = None \<Longrightarrow> dict_ok (d @ [(k, v)])"
  by (auto simp: map_of_eq_None_iff)

lemma map_of_filter_None:
  "dict_ok d \<Longrightarrow> map_of (filter P d) k = None \<longleftrightarrow> (\<forall>v. map_of d k = Some v \<longrightarrow> \<not> P (k, v))"
  by (induction d) (auto simp: map_of_eq_None_iff split: if_splits dest: map_of_SomeD)

lemma map_of_filter_Some:
  "dict_ok d \<Longrightarrow> map_of (filter P d) k = Some v \<longleftrightarrow> map_of d k = Some v \<and> P (k, v)"
  by (induction d) (auto split: if_splits dest!: map_of_SomeD intro!: rev_image_eqI)

lemma map_of_drop_None [dict_simps]: "map_of d k = None \<Longrightarrow> map_of (drop n d) k = None"
  by (meson map_of_eq_None_iff set_drop_subset subsetD image_mono)

lemma foldl_delete:
  "foldl (\<lambda>d k. AList.delete k d) d ks = filter (\<lambda>p. fst p \<notin> set ks) d"
  by (induction ks arbitrary: d) (auto simp: AList.delete_eq intro: filter_cong)

lemma comprehension_keys [dict_simps]:
  "concat (map (\<lambda>(k, v). if P v then [k] else []) d) = map fst (filter (\<lambda>p. P (snd p)) d)"
  by (induction d) auto

lemma comprehension_values [dict_simps]:
  "concat (map (\<lambda>(k, v). if P v then [f v] else []) d) = map (\<lambda>p. f (snd p)) (filter (\<lambda>p. P (snd p)) d)"
  by (induction d) auto

lemma filter_keys_not:
  assumes "dict_ok d"
  shows "filter (\<lambda>p. fst p \<notin> set (map fst (filter Q d))) d = filter (\<lambda>p. \<not> Q p) d"
proof (rule filter_cong [OF refl])
  fix p assume "p \<in> set d"
  then show "(fst p \<notin> set (map fst (filter Q d))) = (\<not> Q p)"
    using assms by (auto simp: distinct_map inj_on_def)
qed

section \<open>Rendering integers\<close>

fun nat_str :: "nat \<Rightarrow> string" where
  "nat_str n = (if n < 10 then [char_of (48 + n)]
                else nat_str (n div 10) @ [char_of (48 + n mod 10)])"

declare nat_str.simps [simp del]

definition int_str :: "int \<Rightarrow> string" where
  "int_str i = (if i < 0 then CHR ''-'' # nat_str (nat (- i)) else nat_str (nat i))"

lemma nat_str_nonempty [simp]: "nat_str n \<noteq> []"
  by (subst nat_str.simps) simp

lemma length_nat_str_pos: "1 \<le> length (nat_str n)"
  using nat_str_nonempty [of n] by (cases "nat_str n") auto

lemma length_nat_str_bound: "n < 10 ^ Suc k \<Longrightarrow> length (nat_str n) \<le> Suc k"
proof (induction k arbitrary: n)
  case 0
  then show ?case by (subst nat_str.simps) simp
next
  case (Suc k)
  show ?case
  proof (cases "n < 10")
    case True
    then show ?thesis by (subst nat_str.simps) simp
  next
    case False
    have "n div 10 < 10 ^ Suc k" using Suc.prems by (simp add: less_mult_imp_div_less)
    then have "length (nat_str (n div 10)) \<le> Suc k" by (rule Suc.IH)
    with False show ?thesis by (subst nat_str.simps) simp
  qed
qed

section \<open>Character classes\<close>

definition is_lower :: "char \<Rightarrow> bool" where
  "is_lower c = (97 \<le> (of_char c :: nat) \<and> (of_char c :: nat) \<le> 122)"

definition is_upper :: "char \<Rightarrow> bool" where
  "is_upper c = (65 \<le> (of_char c :: nat) \<and> (of_char c :: nat) \<le> 90)"

definition is_digit :: "char \<Rightarrow> bool" where
  "is_digit c = (48 \<le> (of_char c :: nat) \<and> (of_char c :: nat) \<le> 57)"

lemma nat_str_digits: "list_all is_digit (nat_str n)"
proof (induction n rule: nat_str.induct)
  case (1 n)
  have d: "is_digit (char_of (48 + k))" if "k < 10" for k :: nat
    using that by (simp add: is_digit_def)
  show ?case
  proof (cases "n < 10")
    case True then show ?thesis by (subst nat_str.simps) (simp add: d)
  next
    case False then show ?thesis by (subst nat_str.simps) (simp add: d 1)
  qed
qed

definition is_hex_lower :: "char \<Rightarrow> bool" where
  "is_hex_lower c = (is_digit c \<or> (97 \<le> (of_char c :: nat) \<and> (of_char c :: nat) \<le> 102))"

text \<open>The source's \<open>^[0-9a-f]{64}$\<close> under \<open>fullmatch\<close>.\<close>

definition is_sha256 :: "string \<Rightarrow> bool" where
  "is_sha256 s = (length s = 64 \<and> list_all is_hex_lower s)"

definition starts_with :: "string \<Rightarrow> string \<Rightarrow> bool" where
  "starts_with s p = (take (length p) s = p)"

fun is_infix_of :: "string \<Rightarrow> string \<Rightarrow> bool" where
  "is_infix_of p [] = (p = [])"
| "is_infix_of p (c # cs) = (take (length p) (c # cs) = p \<or> is_infix_of p cs)"

text \<open>\<open>str.lower\<close> on ASCII letters; other code points of the model are left as they are.\<close>

definition lower_char :: "char \<Rightarrow> char" where
  "lower_char c = (if is_upper c then char_of ((of_char c :: nat) + 32) else c)"

section \<open>Stable sorting and counting\<close>

text \<open>\<open>list.sort(key=...)\<close> is \<^const>\<open>sort_key\<close>: both are stable.\<close>

lemma sort_key_filter: "sort_key f (filter P xs) = filter P (sort_key f xs)"
  by (simp add: filter_sort)

lemma length_filter_imp:
  "(\<And>x. x \<in> set xs \<Longrightarrow> P x \<Longrightarrow> Q x) \<Longrightarrow> length (filter P xs) \<le> length (filter Q xs)"
  by (induction xs) auto

lemma length_filter_pos: "x \<in> set xs \<Longrightarrow> P x \<Longrightarrow> 1 \<le> length (filter P xs)"
  by (induction xs) auto

lemma card_set_map_le: "card (set (map f xs)) \<le> length xs"
  by (metis card_length length_map)

end
