(* ===== verification/Sha256.thy ===== *)
theory Sha256
  imports "HOL-Library.Word" Prelude
begin

unbundle bit_operations_syntax

text \<open>
  What the source uses of the standard library's \<open>hashlib\<close> and \<open>hmac\<close>: SHA-256 (FIPS
  180-4) over a byte string, its lowercase hexadecimal digest and HMAC (RFC 2104). A byte
  string is a \<^typ>\<open>string\<close> here, one character per byte. Nothing below assumes that
  SHA-256 has no collisions: where a component relies on that, its theorem names the
  exact documents that would have to collide.
\<close>

type_synonym u32 = "32 word"

definition rotr :: "nat \<Rightarrow> u32 \<Rightarrow> u32" where
  "rotr n x = (drop_bit n x) OR (push_bit (32 - n) x)"

definition sha_ch :: "u32 \<Rightarrow> u32 \<Rightarrow> u32 \<Rightarrow> u32" where
  "sha_ch x y z = (x AND y) XOR (NOT x AND z)"

definition sha_maj :: "u32 \<Rightarrow> u32 \<Rightarrow> u32 \<Rightarrow> u32" where
  "sha_maj x y z = (x AND y) XOR (x AND z) XOR (y AND z)"

definition sha_bsig0 :: "u32 \<Rightarrow> u32" where
  "sha_bsig0 x = rotr 2 x XOR rotr 13 x XOR rotr 22 x"

definition sha_bsig1 :: "u32 \<Rightarrow> u32" where
  "sha_bsig1 x = rotr 6 x XOR rotr 11 x XOR rotr 25 x"

definition sha_ssig0 :: "u32 \<Rightarrow> u32" where
  "sha_ssig0 x = rotr 7 x XOR rotr 18 x XOR drop_bit 3 x"

definition sha_ssig1 :: "u32 \<Rightarrow> u32" where
  "sha_ssig1 x = rotr 17 x XOR rotr 19 x XOR drop_bit 10 x"

definition sha_k :: "u32 list" where
  "sha_k =
    [1116352408, 1899447441, 3049323471, 3921009573, 961987163, 1508970993, 2453635748, 2870763221,
     3624381080, 310598401, 607225278, 1426881987, 1925078388, 2162078206, 2614888103, 3248222580,
     3835390401, 4022224774, 264347078, 604807628, 770255983, 1249150122, 1555081692, 1996064986,
     2554220882, 2821834349, 2952996808, 3210313671, 3336571891, 3584528711, 113926993, 338241895,
     666307205, 773529912, 1294757372, 1396182291, 1695183700, 1986661051, 2177026350, 2456956037,
     2730485921, 2820302411, 3259730800, 3345764771, 3516065817, 3600352804, 4094571909, 275423344,
     430227734, 506948616, 659060556, 883997877, 958139571, 1322822218, 1537002063, 1747873779,
     1955562222, 2024104815, 2227730452, 2361852424, 2428436474, 2756734187, 3204031479, 3329325298]"

definition sha_init :: "u32 list" where
  "sha_init = [1779033703, 3144134277, 1013904242, 2773480762,
               1359893119, 2600822924, 528734635, 1541459225]"

definition word_of_byte :: "char \<Rightarrow> u32" where
  "word_of_byte c = of_nat (of_char c)"

fun words_of_bytes :: "string \<Rightarrow> u32 list" where
  "words_of_bytes (a # b # c # d # rest) =
     (push_bit 24 (word_of_byte a) OR push_bit 16 (word_of_byte b)
      OR push_bit 8 (word_of_byte c) OR word_of_byte d) # words_of_bytes rest"
| "words_of_bytes _ = []"

text \<open>The message schedule is kept newest first while it grows.\<close>

fun sha_extend :: "nat \<Rightarrow> u32 list \<Rightarrow> u32 list" where
  "sha_extend 0 w = w"
| "sha_extend (Suc n) w =
     sha_extend n ((sha_ssig1 (w ! 1) + w ! 6 + sha_ssig0 (w ! 14) + w ! 15) # w)"

definition sha_schedule :: "u32 list \<Rightarrow> u32 list" where
  "sha_schedule w = rev (sha_extend 48 (rev w))"

fun sha_round :: "u32 list \<Rightarrow> u32 \<times> u32 \<Rightarrow> u32 list" where
  "sha_round [a, b, c, d, e, f, g, h] (k, w) =
     (let t1 = h + sha_bsig1 e + sha_ch e f g + k + w;
          t2 = sha_bsig0 a + sha_maj a b c
      in [t1 + t2, a, b, c, d + t1, e, f, g])"
| "sha_round st _ = st"

definition sha_block :: "u32 list \<Rightarrow> u32 list \<Rightarrow> u32 list" where
  "sha_block st w = map2 (+) st (foldl sha_round st (zip sha_k (sha_schedule w)))"

fun be_bytes :: "nat \<Rightarrow> nat \<Rightarrow> string" where
  "be_bytes 0 n = []"
| "be_bytes (Suc k) n = be_bytes k (n div 256) @ [char_of (n mod 256)]"

definition sha_pad :: "string \<Rightarrow> string" where
  "sha_pad m = m @ [char_of (128 :: nat)] @ replicate ((119 - length m mod 64) mod 64) (char_of (0 :: nat))
               @ be_bytes 8 (8 * length m)"

fun sha_blocks :: "nat \<Rightarrow> u32 list \<Rightarrow> u32 list \<Rightarrow> u32 list" where
  "sha_blocks 0 st ws = st"
| "sha_blocks (Suc n) st ws = sha_blocks n (sha_block st (take 16 ws)) (drop 16 ws)"

definition sha256_words :: "string \<Rightarrow> u32 list" where
  "sha256_words m = (let p = sha_pad m in sha_blocks (length p div 64) sha_init (words_of_bytes p))"

definition sha256 :: "string \<Rightarrow> string" where
  "sha256 m = concat (map (\<lambda>w. be_bytes 4 (unat w)) (sha256_words m))"

definition hex_char :: "nat \<Rightarrow> char" where
  "hex_char d = (if d < 10 then char_of (48 + d) else char_of (87 + d))"

definition hexdigest :: "string \<Rightarrow> string" where
  "hexdigest bs = concat (map (\<lambda>c. [hex_char (of_char c div 16), hex_char (of_char c mod 16)]) bs)"

definition sha256_hex :: "string \<Rightarrow> string" where
  "sha256_hex m = hexdigest (sha256 m)"

definition hmac_key :: "string \<Rightarrow> string" where
  "hmac_key k = (let k' = (if 64 < length k then sha256 k else k)
                 in k' @ replicate (64 - length k') (char_of (0 :: nat)))"

definition xor_bytes :: "nat \<Rightarrow> string \<Rightarrow> string" where
  "xor_bytes p bs = map (\<lambda>c. char_of ((of_char c :: nat) XOR p)) bs"

definition hmac_sha256_hex :: "string \<Rightarrow> string \<Rightarrow> string" where
  "hmac_sha256_hex k m =
     sha256_hex (xor_bytes 0x5c (hmac_key k) @ sha256 (xor_bytes 0x36 (hmac_key k) @ m))"

section \<open>Shape of a digest\<close>

lemma length_be_bytes [simp]: "length (be_bytes k n) = k"
  by (induction k arbitrary: n) auto

lemma length_sha_round: "length st = 8 \<Longrightarrow> length (sha_round st kw) = 8"
  by (cases "(st, kw)" rule: sha_round.cases) (auto simp: Let_def)

lemma length_sha_rounds: "length st = 8 \<Longrightarrow> length (foldl sha_round st kws) = 8"
  by (induction kws arbitrary: st) (auto simp: length_sha_round)

lemma length_sha_blocks: "length st = 8 \<Longrightarrow> length (sha_blocks n st ws) = 8"
  by (induction n arbitrary: st ws) (auto simp: sha_block_def length_sha_rounds)

lemma length_sha256_words: "length (sha256_words m) = 8"
  by (simp add: sha256_words_def Let_def length_sha_blocks sha_init_def)

lemma length_concat_const: "(\<And>x. x \<in> set xs \<Longrightarrow> length (f x) = k) \<Longrightarrow> length (concat (map f xs)) = k * length xs"
  by (induction xs) auto

lemma length_sha256 [simp]: "length (sha256 m) = 32"
  by (simp add: sha256_def length_concat_const [where k = 4] length_sha256_words)

lemma hex_char_hex: "d < 16 \<Longrightarrow> is_hex_lower (hex_char d)"
  by (auto simp: hex_char_def is_hex_lower_def is_digit_def of_char_of)

lemma hexdigest_hex: "list_all is_hex_lower (hexdigest bs)"
proof -
  have "is_hex_lower (hex_char (of_char c div 16)) \<and> is_hex_lower (hex_char (of_char c mod 16))"
    for c :: char
  proof -
    have "(of_char c :: nat) < 256" by simp
    then have "(of_char c :: nat) div 16 < 16" by (simp add: less_mult_imp_div_less)
    then show ?thesis by (auto intro: hex_char_hex)
  qed
  then show ?thesis by (induction bs) (auto simp: hexdigest_def)
qed

lemma length_hexdigest: "length (hexdigest bs) = 2 * length bs"
  unfolding hexdigest_def by (rule length_concat_const) simp

lemma is_sha256_sha256_hex [simp]: "is_sha256 (sha256_hex m)"
  by (simp add: is_sha256_def sha256_hex_def hexdigest_hex length_hexdigest)

lemma is_sha256_hmac [simp]: "is_sha256 (hmac_sha256_hex k m)"
  by (simp add: hmac_sha256_hex_def)

end
