(* ===== verification/Clock.thy ===== *)
theory Clock
  imports Sha256 "HOL-Library.Word"
begin

text \<open>
  \<open>src/src/synthetic_realtime/clock.py\<close>: timezone-aware instants, the injectable clocks
  and seed derivation. A \<open>datetime\<close> is its wall-clock reading in microseconds since the
  epoch and its UTC offset in microseconds, \<open>None\<close> for a naive value; two aware values
  compare by instant. Arithmetic leaves the years 1 to 9999 with \<open>OverflowError\<close>.
\<close>

section \<open>The datetime values the package uses\<close>

record pydatetime =
  dt_local :: int
  dt_off :: "int option"

type_synonym timedelta = int

definition dt_instant :: "pydatetime \<Rightarrow> int" where
  "dt_instant d = dt_local d - (case dt_off d of None \<Rightarrow> 0 | Some z \<Rightarrow> z)"

definition utc :: "int \<Rightarrow> pydatetime" where
  "utc us = \<lparr>dt_local = us, dt_off = Some 0\<rparr>"

definition MIN_LOCAL :: int where
  "MIN_LOCAL = -62135596800000000"

definition MAX_LOCAL :: int where
  "MAX_LOCAL = 253402300799999999"

definition dt_add :: "pydatetime \<Rightarrow> timedelta \<Rightarrow> py_exc + pydatetime" where
  "dt_add d delta =
     (let l = dt_local d + delta
      in if MIN_LOCAL \<le> l \<and> l \<le> MAX_LOCAL then Inr (d\<lparr>dt_local := l\<rparr>) else Inl OverflowError)"

text \<open>What every value of the type satisfies: a local time in range, an offset below one day.\<close>

definition python_datetime :: "pydatetime \<Rightarrow> bool" where
  "python_datetime d =
     (MIN_LOCAL \<le> dt_local d \<and> dt_local d \<le> MAX_LOCAL \<and>
      (case dt_off d of None \<Rightarrow> True | Some z \<Rightarrow> \<bar>z\<bar> < 86400000000))"

definition seconds :: "int \<Rightarrow> timedelta" where
  "seconds n = n * 1000000"

definition aware :: "pydatetime \<Rightarrow> bool" where
  "aware d = (dt_off d \<noteq> None)"

lemma dt_instant_utc [simp]: "dt_instant (utc us) = us"
  by (simp add: dt_instant_def utc_def)

lemma aware_utc [simp]: "aware (utc us)"
  by (simp add: aware_def utc_def)

lemma dt_add_Inr: "dt_add d delta = Inr d' \<Longrightarrow> dt_instant d' = dt_instant d + delta \<and> aware d' = aware d"
  by (auto simp: dt_add_def dt_instant_def aware_def Let_def split: if_splits)

section \<open>Validation\<close>

definition require_timezone_aware :: "pydatetime \<Rightarrow> string \<Rightarrow> py_exc + pydatetime" where
  "require_timezone_aware v field_name =
     (if dt_off v = None then Inl (ValueError (field_name @ '' must be timezone-aware.'')) else Inr v)"

definition require_utc :: "pydatetime \<Rightarrow> string \<Rightarrow> py_exc + pydatetime" where
  "require_utc v field_name =
     res_bind (require_timezone_aware v field_name) (\<lambda>_.
       if dt_off v \<noteq> Some 0 then Inl (ValueError (field_name @ '' must be UTC (utcoffset zero).''))
       else Inr v)"

lemma require_timezone_aware_iff:
  "require_timezone_aware v f = Inr w \<longleftrightarrow> aware v \<and> w = v"
  by (auto simp: require_timezone_aware_def aware_def)

lemma require_timezone_aware_ok [simp]: "aware v \<Longrightarrow> require_timezone_aware v f = Inr v"
  by (simp add: require_timezone_aware_iff)

lemma require_utc_iff: "require_utc v f = Inr w \<longleftrightarrow> dt_off v = Some 0 \<and> w = v"
  by (auto simp: require_utc_def require_timezone_aware_def)

definition MIN_SEED :: int where "MIN_SEED = 0"

definition MAX_SEED :: int where "MAX_SEED = 2147483647"

definition validate_seed :: "int \<Rightarrow> py_exc + int" where
  "validate_seed seed =
     (if \<not> (MIN_SEED \<le> seed \<and> seed \<le> MAX_SEED)
      then Inl (ValueError (''seed must be between '' @ int_str MIN_SEED @ '' and '' @ int_str MAX_SEED @ ''.''))
      else Inr seed)"

section \<open>Clocks\<close>

record fixed_clock =
  fc_current :: pydatetime

definition fixed_clock_init :: "pydatetime \<Rightarrow> py_exc + fixed_clock" where
  "fixed_clock_init current =
     res_bind (require_utc current ''current'') (\<lambda>c. Inr \<lparr>fc_current = c\<rparr>)"

definition fixed_clock_now :: "fixed_clock \<Rightarrow> pydatetime" where
  "fixed_clock_now c = fc_current c"

definition fixed_clock_advance :: "fixed_clock \<Rightarrow> timedelta \<Rightarrow> py_exc + fixed_clock" where
  "fixed_clock_advance c delta =
     (if delta < 0
      then Inl (ValueError ''delta must not be negative; FixedClock cannot move backward.'')
      else res_bind (dt_add (fc_current c) delta) (\<lambda>d. Inr (c\<lparr>fc_current := d\<rparr>)))"

definition fixed_clock_set :: "fixed_clock \<Rightarrow> pydatetime \<Rightarrow> py_exc + fixed_clock" where
  "fixed_clock_set c v = res_bind (require_utc v ''value'') (\<lambda>d. Inr (c\<lparr>fc_current := d\<rparr>))"

record sequence_clock =
  sc_instants :: "pydatetime list"
  sc_index :: nat

fun require_all_utc :: "nat \<Rightarrow> pydatetime list \<Rightarrow> py_exc + pydatetime list" where
  "require_all_utc i [] = Inr []"
| "require_all_utc i (d # ds) =
     res_bind (require_utc d (''instants['' @ nat_str i @ '']''))
       (\<lambda>d'. res_bind (require_all_utc (Suc i) ds) (\<lambda>ds'. Inr (d' # ds')))"

definition sequence_clock_init :: "pydatetime list \<Rightarrow> py_exc + sequence_clock" where
  "sequence_clock_init instants =
     (if instants = [] then Inl (ValueError ''instants must be non-empty.'')
      else res_bind (require_all_utc 0 instants)
             (\<lambda>ds. Inr \<lparr>sc_instants = ds, sc_index = 0\<rparr>))"

definition sequence_clock_now :: "sequence_clock \<Rightarrow> py_exc + (pydatetime \<times> sequence_clock)" where
  "sequence_clock_now c =
     (if length (sc_instants c) \<le> sc_index c
      then Inl (RuntimeError ''SequenceClock exhausted: no more instants to return.'')
      else Inr (sc_instants c ! sc_index c, c\<lparr>sc_index := sc_index c + 1\<rparr>))"

definition sequence_clock_remaining :: "sequence_clock \<Rightarrow> int" where
  "sequence_clock_remaining c = int (length (sc_instants c)) - int (sc_index c)"

text \<open>Calling \<open>now\<close> as often as a consumer does, collecting what it returns.\<close>

fun sequence_clock_take :: "nat \<Rightarrow> sequence_clock \<Rightarrow> py_exc + (pydatetime list \<times> sequence_clock)" where
  "sequence_clock_take 0 c = Inr ([], c)"
| "sequence_clock_take (Suc n) c =
     res_bind (sequence_clock_now c) (\<lambda>(d, c').
       res_bind (sequence_clock_take n c') (\<lambda>(ds, c''). Inr (d # ds, c'')))"

section \<open>Seed derivation\<close>

fun utf8 :: "string \<Rightarrow> string" where
  "utf8 [] = []"
| "utf8 (c # cs) =
     (if (of_char c :: nat) < 128 then [c]
      else [char_of (192 + (of_char c :: nat) div 64), char_of (128 + (of_char c :: nat) mod 64)]) @ utf8 cs"

definition be_nat :: "string \<Rightarrow> nat" where
  "be_nat bs = foldl (\<lambda>n c. n * 256 + of_char c) 0 bs"

definition derive_seed :: "int \<Rightarrow> string \<Rightarrow> py_exc + int" where
  "derive_seed seed label =
     res_bind (validate_seed seed) (\<lambda>_.
       if label = [] then Inl (ValueError ''label must be non-empty.'')
       else (let digest = sha256 (utf8 (int_str seed @ '':'' @ label));
                 derived = int (be_nat (take 4 digest))
             in Inr (derived mod (MAX_SEED + 1))))"

section \<open>Facts\<close>

lemma fixed_clock_advance_monotone:
  "fixed_clock_advance c delta = Inr c' \<Longrightarrow>
     dt_instant (fixed_clock_now c') = dt_instant (fixed_clock_now c) + delta \<and> 0 \<le> delta \<and>
     dt_off (fc_current c') = dt_off (fc_current c)"
  by (auto simp: fixed_clock_advance_def fixed_clock_now_def res_bind_Inr_iff dt_add_def
      dt_instant_def Let_def split: if_splits)

lemma require_all_utc_iff:
  "require_all_utc i ds = Inr es \<longleftrightarrow> es = ds \<and> (\<forall>d \<in> set ds. dt_off d = Some 0)"
  by (induction ds arbitrary: i es) (auto simp: res_bind_Inr_iff require_utc_iff)

lemma sequence_clock_take_eq:
  "sc_index c + n \<le> length (sc_instants c) \<Longrightarrow>
   sequence_clock_take n c =
     Inr (take n (drop (sc_index c) (sc_instants c)), c\<lparr>sc_index := sc_index c + n\<rparr>)"
proof (induction n arbitrary: c)
  case (Suc n)
  then have lt: "sc_index c < length (sc_instants c)" by simp
  have "sequence_clock_take n (c\<lparr>sc_index := sc_index c + 1\<rparr>) =
      Inr (take n (drop (sc_index c + 1) (sc_instants c)), c\<lparr>sc_index := sc_index c + 1 + n\<rparr>)"
    using Suc.IH [of "c\<lparr>sc_index := sc_index c + 1\<rparr>"] Suc.prems by simp
  with lt show ?case
    by (simp add: sequence_clock_now_def Cons_nth_drop_Suc [symmetric])
qed simp

lemma derive_seed_Inr:
  "derive_seed seed label = Inr s \<Longrightarrow> MIN_SEED \<le> s \<and> s \<le> MAX_SEED"
  by (auto simp: derive_seed_def res_bind_Inr_iff Let_def MIN_SEED_def MAX_SEED_def split: if_splits)

text \<open>
  A \<open>SequenceClock\<close> built from n valid instants replays exactly those instants, in
  order, on its first n calls of \<open>now\<close>, and call n + 1 raises instead of wrapping.
\<close>

theorem sequence_clock_replays:
  assumes "sequence_clock_init instants = Inr c"
  shows "\<exists>c'. sequence_clock_take (length instants) c = Inr (instants, c') \<and>
              sequence_clock_remaining c' = 0 \<and>
              sequence_clock_now c' =
                Inl (RuntimeError ''SequenceClock exhausted: no more instants to return.'')"
proof -
  have "c = \<lparr>sc_instants = instants, sc_index = 0\<rparr>"
    using assms by (auto simp: sequence_clock_init_def res_bind_Inr_iff require_all_utc_iff split: if_splits)
  then show ?thesis
    using sequence_clock_take_eq [of c "length instants"]
    by (simp add: sequence_clock_remaining_def sequence_clock_now_def)
qed

theorem sequence_clock_replays_witness:
  "\<exists>c c'. sequence_clock_init [utc 7, utc 3] = Inr c \<and>
     sequence_clock_take 2 c = Inr ([utc 7, utc 3], c')"
proof -
  have i: "sequence_clock_init [utc 7, utc 3] = Inr \<lparr>sc_instants = [utc 7, utc 3], sc_index = 0\<rparr>"
    by (simp add: sequence_clock_init_def require_utc_def require_timezone_aware_def utc_def)
  show ?thesis using i sequence_clock_replays [OF i] by (auto simp: numeral_2_eq_2)
qed

end
