(* ===== verification/Py_Float.thy ===== *)
theory Py_Float
  imports Complex_Main "HOL-Library.Log_Nat" Prelude
begin

text \<open>
  Python's \<open>float\<close>: IEEE 754 binary64 with round-half-to-even, written over exact
  rationals. \<open>Fin q\<close> is a finite value (its rational value; the sign of a zero is not
  tracked), and every arithmetic operation rounds its exact result once with \<open>fl\<close>, so
  overflow to infinity, underflow to zero and rounding are all visible in the model.
  \<open>fmt1\<close> is the format \<open>:.1f\<close>, which CPython computes exactly from the binary value.
\<close>

section \<open>Rounding\<close>

definition round_half_even :: "rat \<Rightarrow> int" where
  "round_half_even x =
     (let f = \<lfloor>x\<rfloor>; r = x - of_int f
      in if r < 1/2 then f else if r > 1/2 then f + 1 else if even f then f else f + 1)"

definition pow2 :: "int \<Rightarrow> rat" where
  "pow2 e = (if 0 \<le> e then 2 ^ nat e else 1 / 2 ^ nat (- e))"

text \<open>\<open>ilog2 x\<close> is the exponent \<open>e\<close> with \<open>2^e \<le> x < 2^(e+1)\<close>, for positive \<open>x\<close>.\<close>

definition ilog2 :: "rat \<Rightarrow> int" where
  "ilog2 x = (let (a, b) = quotient_of x; e = bitlen a - bitlen b
              in if pow2 e \<le> x then e else e - 1)"

definition ulp :: "rat \<Rightarrow> rat" where
  "ulp x = pow2 (max (ilog2 x) (-1022) - 52)"

text \<open>Rounding of a positive rational to the binary64 grid, before the overflow check.\<close>

definition fl_pos :: "rat \<Rightarrow> rat" where
  "fl_pos x = of_int (round_half_even (x / ulp x)) * ulp x"

definition fl_raw :: "rat \<Rightarrow> rat" where
  "fl_raw x = (if x = 0 then 0 else if 0 < x then fl_pos x else - fl_pos (- x))"

section \<open>Values and operations\<close>

datatype pyfloat = Fin rat | PInf | NInf | NaN

definition fl :: "rat \<Rightarrow> pyfloat" where
  "fl x = (let y = fl_raw x
           in if pow2 1024 \<le> y then PInf else if y \<le> - pow2 1024 then NInf else Fin y)"

definition is_finite :: "pyfloat \<Rightarrow> bool" where
  "is_finite x = (case x of Fin _ \<Rightarrow> True | _ \<Rightarrow> False)"

fun fneg :: "pyfloat \<Rightarrow> pyfloat" where
  "fneg (Fin x) = Fin (- x)"
| "fneg PInf = NInf"
| "fneg NInf = PInf"
| "fneg NaN = NaN"

fun fadd :: "pyfloat \<Rightarrow> pyfloat \<Rightarrow> pyfloat" where
  "fadd (Fin x) (Fin y) = fl (x + y)"
| "fadd NaN _ = NaN"
| "fadd _ NaN = NaN"
| "fadd PInf NInf = NaN"
| "fadd NInf PInf = NaN"
| "fadd PInf _ = PInf"
| "fadd NInf _ = NInf"
| "fadd _ PInf = PInf"
| "fadd _ NInf = NInf"

definition fsub :: "pyfloat \<Rightarrow> pyfloat \<Rightarrow> pyfloat" where
  "fsub x y = fadd x (fneg y)"

fun fle :: "pyfloat \<Rightarrow> pyfloat \<Rightarrow> bool" where
  "fle (Fin x) (Fin y) = (x \<le> y)"
| "fle NaN _ = False"
| "fle _ NaN = False"
| "fle NInf _ = True"
| "fle _ PInf = True"
| "fle _ _ = False"

fun flt :: "pyfloat \<Rightarrow> pyfloat \<Rightarrow> bool" where
  "flt (Fin x) (Fin y) = (x < y)"
| "flt NaN _ = False"
| "flt _ NaN = False"
| "flt NInf y = (y \<noteq> NInf)"
| "flt x PInf = (x \<noteq> PInf)"
| "flt _ _ = False"

text \<open>
  Division. Python raises \<open>ZeroDivisionError\<close> for a zero divisor; a finite value divided
  by an infinity is zero, and infinities divided by each other are NaN. The sign of an
  infinite dividend is kept for a positive divisor and flipped for a negative one.
\<close>

fun fdiv :: "pyfloat \<Rightarrow> pyfloat \<Rightarrow> py_exc + pyfloat" where
  "fdiv x (Fin y) =
     (if y = 0 then Inl ZeroDivisionError
      else Inr (case x of Fin v \<Rightarrow> fl (v / y)
                        | PInf \<Rightarrow> (if 0 < y then PInf else NInf)
                        | NInf \<Rightarrow> (if 0 < y then NInf else PInf)
                        | NaN \<Rightarrow> NaN))"
| "fdiv x NaN = Inr NaN"
| "fdiv (Fin x) _ = Inr (Fin 0)"
| "fdiv _ _ = Inr NaN"

fun fmul :: "pyfloat \<Rightarrow> pyfloat \<Rightarrow> pyfloat" where
  "fmul (Fin x) (Fin y) = fl (x * y)"
| "fmul NaN _ = NaN"
| "fmul _ NaN = NaN"
| "fmul (Fin x) y = (if x = 0 then NaN else if (0 < x) = (y = PInf) then PInf else NInf)"
| "fmul x (Fin y) = (if y = 0 then NaN else if (0 < y) = (x = PInf) then PInf else NInf)"
| "fmul x y = (if x = y then PInf else NInf)"

text \<open>\<open>float(n)\<close> and true division of integers round the exact rational once.\<close>

definition float_of_int :: "int \<Rightarrow> pyfloat" where
  "float_of_int n = fl (of_int n)"

text \<open>\<open>min(a, b)\<close> of the builtins keeps \<open>a\<close> unless \<open>b < a\<close>, \<open>max\<close> unless \<open>b > a\<close>.\<close>

definition fmin :: "pyfloat \<Rightarrow> pyfloat \<Rightarrow> pyfloat" where
  "fmin a b = (if flt b a then b else a)"

definition fmax :: "pyfloat \<Rightarrow> pyfloat \<Rightarrow> pyfloat" where
  "fmax a b = (if flt a b then b else a)"

fun fabs :: "pyfloat \<Rightarrow> pyfloat" where
  "fabs (Fin x) = Fin \<bar>x\<bar>"
| "fabs PInf = PInf"
| "fabs NInf = PInf"
| "fabs NaN = NaN"

text \<open>
  The builtin \<open>sum\<close> of CPython 3.12 over floats: compensated (Neumaier) summation. The
  state is the running sum and the compensation; the compensation is added at the end
  when it is non-zero and finite. An empty sum is the integer 0, here the float 0.
\<close>

definition neumaier_step :: "pyfloat \<times> pyfloat \<Rightarrow> pyfloat \<Rightarrow> pyfloat \<times> pyfloat" where
  "neumaier_step st x =
     (let (s, c) = st; t = fadd s x
      in (t, if fle (fabs x) (fabs s) then fadd c (fadd (fsub s t) x)
             else fadd c (fadd (fsub x t) s)))"

definition neumaier_result :: "pyfloat \<times> pyfloat \<Rightarrow> pyfloat" where
  "neumaier_result st =
     (let (s, c) = st in if is_finite c \<and> c \<noteq> Fin 0 then fadd s c else s)"

definition py_sum :: "pyfloat list \<Rightarrow> pyfloat" where
  "py_sum xs = (case xs of [] \<Rightarrow> Fin 0
                | y # ys \<Rightarrow> neumaier_result (foldl neumaier_step (y, Fin 0) ys))"

section \<open>Formatting\<close>

text \<open>The format \<open>:.1f\<close>.\<close>

fun fmt1 :: "pyfloat \<Rightarrow> string" where
  "fmt1 (Fin x) =
     (let n = round_half_even (\<bar>x\<bar> * 10); q = nat (n div 10); d = nat (n mod 10)
      in (if x < 0 then ''-'' else []) @ nat_str q @ ''.'' @ nat_str d)"
| "fmt1 PInf = ''inf''"
| "fmt1 NInf = ''-inf''"
| "fmt1 NaN = ''nan''"

text \<open>The format \<open>:.0%\<close> multiplies by 100 in floating point and prints no decimals.\<close>

fun fmt_pct :: "pyfloat \<Rightarrow> string" where
  "fmt_pct x = (case fmul x (Fin 100) of
     Fin y \<Rightarrow> (if y < 0 then ''-'' else []) @ nat_str (nat (round_half_even \<bar>y\<bar>)) @ ''%''
   | PInf \<Rightarrow> ''inf%'' | NInf \<Rightarrow> ''-inf%'' | NaN \<Rightarrow> ''nan%'')"

section \<open>Facts about rounding\<close>

lemma round_half_even_int [simp]: "round_half_even (of_int n) = n"
  by (simp add: round_half_even_def)

lemma round_half_even_mono: "x \<le> y \<Longrightarrow> round_half_even x \<le> round_half_even y"
proof -
  assume le: "x \<le> y"
  show ?thesis
  proof (cases "\<lfloor>x\<rfloor> = \<lfloor>y\<rfloor>")
    case True
    with le show ?thesis by (simp add: round_half_even_def Let_def)
  next
    case False
    with le have "\<lfloor>x\<rfloor> + 1 \<le> \<lfloor>y\<rfloor>" using floor_mono [OF le] by linarith
    then show ?thesis by (auto simp: round_half_even_def Let_def)
  qed
qed

lemma round_half_even_le: "x \<le> of_int n \<Longrightarrow> round_half_even x \<le> n"
  using round_half_even_mono [of x "of_int n"] by simp

lemma round_half_even_ge: "of_int n \<le> x \<Longrightarrow> n \<le> round_half_even x"
  using round_half_even_mono [of "of_int n" x] by simp

lemma pow2_pos [simp]: "0 < pow2 e"
  by (simp add: pow2_def)

lemma pow2_nonneg [simp]: "0 \<le> pow2 e"
  by (simp add: pow2_def)

lemma pow2_not_neg [simp]: "\<not> pow2 e < 0"
  by (simp add: not_less)

lemma pow2_neq_0 [simp]: "pow2 e \<noteq> 0"
  using pow2_pos [of e] by linarith

lemma pow2_powi: "pow2 e = power_int 2 e"
  by (simp add: pow2_def power_int_def field_simps)

lemma pow2_add: "pow2 (a + b) = pow2 a * pow2 b"
  by (simp add: pow2_powi power_int_add)

lemma pow2_mono: "a \<le> b \<Longrightarrow> pow2 a \<le> pow2 b"
  by (simp add: pow2_powi power_int_increasing)

lemma pow2_nat: "pow2 (int n) = 2 ^ n"
  by (simp add: pow2_def)

lemma ulp_pos [simp]: "0 < ulp x"
  by (simp add: ulp_def)

lemma fl_pos_nonneg: "0 \<le> x \<Longrightarrow> 0 \<le> fl_pos x"
proof -
  assume "0 \<le> x"
  then have "of_int 0 \<le> x / ulp x"
    using divide_nonneg_pos [OF _ ulp_pos [of x], of x] by simp
  then have "0 \<le> round_half_even (x / ulp x)" by (rule round_half_even_ge)
  moreover have "0 \<le> ulp x" using ulp_pos [of x] by linarith
  ultimately show ?thesis by (simp add: fl_pos_def)
qed

lemma pow2_strict_mono: "a < b \<Longrightarrow> pow2 a < pow2 b"
  by (simp add: pow2_powi power_int_strict_increasing)

lemma pow2_less_iff: "pow2 a < pow2 b \<longleftrightarrow> a < b"
  using pow2_strict_mono [of a b] pow2_mono [of b a] by linarith

lemma pow2_bitlen:
  assumes "0 < a"
  shows "pow2 (bitlen a - 1) \<le> of_int a" and "of_int a < pow2 (bitlen a)"
proof -
  have pos: "0 < bitlen a" using assms
    by (metis bitlen_eq_zero_iff bitlen_nonneg less_le not_less)
  have b: "2 ^ nat (bitlen a - 1) \<le> a \<and> a < 2 ^ nat (bitlen a)"
    using assms by (rule bitlen_bounds)
  have "pow2 (bitlen a - 1) = of_int (2 ^ nat (bitlen a - 1))"
    using pos by (simp add: pow2_def)
  with b show "pow2 (bitlen a - 1) \<le> of_int a" by (simp only: of_int_le_iff)
  have "pow2 (bitlen a) = of_int (2 ^ nat (bitlen a))"
    using pos by (simp add: pow2_def)
  with b show "of_int a < pow2 (bitlen a)" by (simp only: of_int_less_iff)
qed

lemma ilog2_bounds:
  assumes "0 < x"
  shows "pow2 (ilog2 x) \<le> x \<and> x < pow2 (ilog2 x + 1)"
proof -
  obtain a b where q: "quotient_of x = (a, b)" by (cases "quotient_of x")
  have b: "0 < b" using quotient_of_denom_pos [OF q] .
  have x: "x = of_int a / of_int b" using quotient_of_div [OF q] .
  have rb: "(0::rat) < of_int b" using b by simp
  have a: "0 < a" using assms rb unfolding x by (simp add: zero_less_divide_iff)
  have "x < pow2 (bitlen a) / of_int b"
    unfolding x using pow2_bitlen(2) [OF a] rb by (simp add: divide_strict_right_mono)
  also have "\<dots> \<le> pow2 (bitlen a) / pow2 (bitlen b - 1)"
    using pow2_bitlen(1) [OF b] rb by (intro divide_left_mono) simp_all
  also have "\<dots> = pow2 (bitlen a - bitlen b + 1)"
    by (simp add: pow2_powi power_int_diff power_int_add)
  finally have up: "x < pow2 (bitlen a - bitlen b + 1)" .
  have "pow2 (bitlen a - bitlen b - 1) = pow2 (bitlen a - 1) / pow2 (bitlen b)"
    by (simp add: pow2_powi power_int_diff power_int_add)
  also have "\<dots> \<le> of_int a / pow2 (bitlen b)"
    using pow2_bitlen(1) [OF a] pow2_pos [of "bitlen b"] by (intro divide_right_mono) simp_all
  also have "\<dots> \<le> x"
    unfolding x using pow2_bitlen(2) [OF b] rb a by (intro divide_left_mono) simp_all
  finally have lo: "pow2 (bitlen a - bitlen b - 1) \<le> x" .
  have e: "ilog2 x = (if pow2 (bitlen a - bitlen b) \<le> x then bitlen a - bitlen b
                      else bitlen a - bitlen b - 1)"
    by (simp add: ilog2_def q Let_def)
  show ?thesis using up lo by (cases "pow2 (bitlen a - bitlen b) \<le> x") (simp_all add: e not_le)
qed

lemma ilog2_unique:
  assumes "pow2 e \<le> x" and "x < pow2 (e + 1)"
  shows "ilog2 x = e"
proof -
  have "0 < x" using assms(1) pow2_pos [of e] by linarith
  then have b: "pow2 (ilog2 x) \<le> x" "x < pow2 (ilog2 x + 1)" using ilog2_bounds by auto
  have "pow2 (ilog2 x) < pow2 (e + 1)" using b(1) assms(2) by linarith
  moreover have "pow2 e < pow2 (ilog2 x + 1)" using b(2) assms(1) by linarith
  ultimately show ?thesis by (simp add: pow2_less_iff)
qed

text \<open>A value with at most 53 significant bits and a representable exponent is not changed.\<close>

lemma fl_pos_exact:
  assumes "0 < m" and "m < 2 ^ 53" and "-1074 \<le> k" and "x = of_int m * pow2 k"
  shows "fl_pos x = x"
proof -
  define u where "u = max (ilog2 x) (-1022) - 52"
  have x0: "0 < x" using assms by simp
  have "(of_int m :: rat) < of_int (2 ^ 53)" using assms(2) by (simp only: of_int_less_iff)
  then have "of_int m < pow2 53" by (simp add: pow2_def)
  then have "x < pow2 53 * pow2 k"
    unfolding assms(4) by (intro mult_strict_right_mono) simp_all
  then have "x < pow2 (k + 53)" by (simp add: pow2_add mult.commute)
  then have "pow2 (ilog2 x) < pow2 (k + 53)" using ilog2_bounds [OF x0] by linarith
  then have "u \<le> k" using assms(3) by (simp add: pow2_less_iff u_def)
  then obtain n where n: "k = u + int n" using zle_iff_zadd by blast
  have ulp: "ulp x = pow2 u" by (simp add: ulp_def u_def)
  have "x = of_int (m * 2 ^ n) * pow2 u"
    using assms(4) by (simp add: n pow2_add pow2_nat)
  then have "x / ulp x = of_int (m * 2 ^ n)"
    by (metis ulp nonzero_eq_divide_eq pow2_neq_0)
  then have "fl_pos x = of_int (m * 2 ^ n) * ulp x" by (simp only: fl_pos_def round_half_even_int)
  also have "\<dots> = x" using \<open>x = of_int (m * 2 ^ n) * pow2 u\<close> unfolding ulp by (rule sym)
  finally show ?thesis .
qed

lemma fl_exact:
  assumes "\<bar>m\<bar> < 2 ^ 53" and "-1074 \<le> k" and "k \<le> 971" and "x = of_int m * pow2 k"
  shows "fl x = Fin x"
proof -
  have raw: "fl_raw x = x"
  proof (cases "m = 0")
    case False
    then consider "0 < m" | "m < 0" by linarith
    then show ?thesis
    proof cases
      case 1
      then have "fl_pos x = x" using assms by (intro fl_pos_exact [of m k]) simp_all
      then show ?thesis using 1 assms(4) by (simp add: fl_raw_def zero_less_mult_iff)
    next
      case 2
      then have "fl_pos (- x) = - x" using assms by (intro fl_pos_exact [of "- m" k]) simp_all
      then show ?thesis using 2 assms(4) by (simp add: fl_raw_def zero_less_mult_iff not_less)
    qed
  qed (simp add: assms(4) fl_raw_def)
  have "\<bar>of_int m\<bar> < (of_int (2 ^ 53) :: rat)" using assms(1) by (simp only: of_int_less_iff flip: of_int_abs)
  then have "\<bar>of_int m\<bar> < pow2 53" by (simp add: pow2_def)
  then have "\<bar>x\<bar> < pow2 53 * pow2 k"
    unfolding assms(4) by (simp add: abs_mult mult_strict_right_mono)
  also have "\<dots> = pow2 (53 + k)" by (simp only: pow2_add)
  also have "\<dots> \<le> pow2 1024" using assms(3) by (intro pow2_mono) simp
  finally have "\<bar>x\<bar> < pow2 1024" .
  then show ?thesis by (simp add: fl_def raw Let_def not_le abs_less_iff)
qed

lemma float_of_int_exact: "\<bar>n\<bar> < 2 ^ 53 \<Longrightarrow> float_of_int n = Fin (of_int n)"
  unfolding float_of_int_def by (rule fl_exact [of n 0]) (simp_all add: pow2_def)

lemma fl_0 [simp]: "fl 0 = Fin 0"
  by (simp add: fl_def fl_raw_def not_le)

text \<open>Rounding is monotone; exact end points then bound the result.\<close>

lemma fl_pos_binade:
  assumes "0 < x" and "e = max (ilog2 x) (-1022)"
  shows "fl_pos x \<le> pow2 (e + 1)" and "-1022 < e \<Longrightarrow> pow2 e \<le> fl_pos x"
proof -
  have ulp: "ulp x = pow2 (e - 52)" by (simp add: ulp_def assms(2))
  have b: "pow2 (ilog2 x) \<le> x" "x < pow2 (ilog2 x + 1)" using ilog2_bounds [OF assms(1)] by auto
  have u53: "of_int (2 ^ 53) * ulp x = pow2 (53 + (e - 52))"
    by (simp only: ulp pow2_add) (simp add: pow2_def [of 53])
  have u52: "of_int (2 ^ 52) * ulp x = pow2 (52 + (e - 52))"
    by (simp only: ulp pow2_add) (simp add: pow2_def [of 52])
  have "pow2 (ilog2 x + 1) \<le> pow2 (e + 1)" by (rule pow2_mono) (simp add: assms(2))
  with b(2) have "x \<le> pow2 (e + 1)" by linarith
  then have "x \<le> pow2 (53 + (e - 52))" by (simp add: add.commute)
  then have "x \<le> of_int (2 ^ 53) * ulp x" by (simp only: u53)
  then have "x / ulp x \<le> of_int (2 ^ 53)" by (simp add: divide_le_eq)
  then have "round_half_even (x / ulp x) \<le> 2 ^ 53" by (rule round_half_even_le)
  then have "fl_pos x \<le> of_int (2 ^ 53) * ulp x"
    unfolding fl_pos_def by (intro mult_right_mono) (simp_all only: of_int_le_iff less_imp_le ulp_pos)
  also have "\<dots> = pow2 (e + 1)" unfolding u53 by (simp add: add.commute)
  finally show "fl_pos x \<le> pow2 (e + 1)" .
  assume "-1022 < e"
  then have "e = ilog2 x" using assms(2) by linarith
  with b(1) have "pow2 (52 + (e - 52)) \<le> x" by simp
  then have "of_int (2 ^ 52) * ulp x \<le> x" by (simp only: u52)
  then have "of_int (2 ^ 52) \<le> x / ulp x" by (simp add: le_divide_eq)
  then have "2 ^ 52 \<le> round_half_even (x / ulp x)" by (rule round_half_even_ge)
  then have "of_int (2 ^ 52) * ulp x \<le> fl_pos x"
    unfolding fl_pos_def by (intro mult_right_mono) (simp_all only: of_int_le_iff less_imp_le ulp_pos)
  then show "pow2 e \<le> fl_pos x" unfolding u52 by simp
qed

lemma ilog2_mono:
  assumes "0 < x" and "x \<le> y"
  shows "ilog2 x \<le> ilog2 y"
proof -
  have "pow2 (ilog2 x) < pow2 (ilog2 y + 1)"
    using ilog2_bounds [of x] ilog2_bounds [of y] assms by linarith
  then show ?thesis by (simp add: pow2_less_iff)
qed

lemma fl_pos_mono:
  assumes "0 < x" and "x \<le> y"
  shows "fl_pos x \<le> fl_pos y"
proof -
  define ex where "ex = max (ilog2 x) (-1022)"
  define ey where "ey = max (ilog2 y) (-1022)"
  have y: "0 < y" using assms by linarith
  have "ex \<le> ey" using ilog2_mono [OF assms] by (simp add: ex_def ey_def)
  then consider "ex = ey" | "ex < ey" by linarith
  then show ?thesis
  proof cases
    case 1
    then have u: "ulp x = ulp y" by (simp add: ulp_def ex_def ey_def)
    have "x / ulp x \<le> y / ulp x" using assms(2) by (simp add: divide_right_mono less_imp_le)
    then have "round_half_even (x / ulp x) \<le> round_half_even (y / ulp x)" by (rule round_half_even_mono)
    then show ?thesis
      unfolding fl_pos_def u [symmetric]
      by (intro mult_right_mono) (simp_all only: of_int_le_iff less_imp_le ulp_pos)
  next
    case 2
    have "fl_pos x \<le> pow2 (ex + 1)" using fl_pos_binade(1) [OF assms(1) ex_def] .
    also have "\<dots> \<le> pow2 ey" using 2 by (intro pow2_mono) simp
    also have "\<dots> \<le> fl_pos y"
      using fl_pos_binade(2) [OF y ey_def] 2 by (simp add: ex_def)
    finally show ?thesis .
  qed
qed

lemma fl_raw_nonneg: "0 \<le> x \<Longrightarrow> 0 \<le> fl_raw x"
  by (simp add: fl_raw_def fl_pos_nonneg)

lemma fl_raw_mono: "0 \<le> x \<Longrightarrow> x \<le> y \<Longrightarrow> fl_raw x \<le> fl_raw y"
  by (auto simp: fl_raw_def fl_pos_nonneg fl_pos_mono)

lemma fl_raw_int: "\<bar>n\<bar> < 2 ^ 53 \<Longrightarrow> fl_raw (of_int n) = of_int n"
proof -
  assume "\<bar>n\<bar> < 2 ^ 53"
  then have "fl (of_int n) = Fin (of_int n)" using float_of_int_exact [of n] by (simp add: float_of_int_def)
  then show ?thesis by (auto simp: fl_def Let_def split: if_splits)
qed

text \<open>Rounding a value between two small integers stays between them and is finite.\<close>

lemma fl_between:
  assumes "of_int a \<le> x" and "x \<le> of_int b" and "0 \<le> a" and "b < 2 ^ 53"
  shows "\<exists>y. fl x = Fin y \<and> of_int a \<le> y \<and> y \<le> of_int b"
proof -
  have ab: "a \<le> b" using assms(1,2) by (metis of_int_le_iff order_trans)
  have x0: "0 \<le> x" using assms(1,3) by (meson of_int_0_le_iff order_trans)
  have lo: "of_int a \<le> fl_raw x"
    using fl_raw_mono [of "of_int a" x] assms ab by (simp add: fl_raw_int)
  have hi: "fl_raw x \<le> of_int b"
    using fl_raw_mono [OF x0 assms(2)] assms(3,4) ab by (simp add: fl_raw_int)
  have "(of_int b :: rat) < of_int (2 ^ 53)" using assms(4) by (simp only: of_int_less_iff)
  also have "of_int (2 ^ 53) = pow2 53" by (simp add: pow2_def)
  also have "pow2 53 \<le> pow2 1024" by (rule pow2_mono) simp
  finally have "fl_raw x < pow2 1024" using hi by linarith
  moreover have "- pow2 1024 < fl_raw x"
    using fl_raw_nonneg [OF x0] pow2_pos [of 1024] by linarith
  ultimately show ?thesis using lo hi by (simp add: fl_def Let_def)
qed

end
