(* ===== verification/Contracts.thy ===== *)
theory Contracts
  imports Clock Py_Float
begin

text \<open>
  \<open>src/src/synthetic_realtime/contracts.py\<close>: the closed vocabularies, the field types and
  their patterns, and the three strict models with their validators. A pydantic model is
  its record plus the check its constructor runs; every failure is a \<open>ValidationError\<close>.
  Patterns of field types are matched by pydantic's own engine, where \<open>$\<close> is the end of
  the text; the window-feature keys are matched by Python's \<open>re\<close>, where \<open>$\<close> also accepts
  one final newline.
\<close>

section \<open>Bounds\<close>

definition MAX_TOKEN_BODY_LENGTH :: nat where "MAX_TOKEN_BODY_LENGTH = 60"
definition MAX_ID_LENGTH :: nat where "MAX_ID_LENGTH = 64"
definition MAX_CATEGORICAL_TOKEN_LENGTH :: nat where "MAX_CATEGORICAL_TOKEN_LENGTH = 32"
definition MAX_AMOUNT :: pyfloat where "MAX_AMOUNT = Fin 1000000"
definition MAX_DESCRIPTION_LENGTH :: nat where "MAX_DESCRIPTION_LENGTH = 200"
definition MAX_REASON_CODE_LENGTH :: nat where "MAX_REASON_CODE_LENGTH = 64"
definition MAX_TRIGGERED_SIGNALS :: nat where "MAX_TRIGGERED_SIGNALS = 64"
definition MAX_WINDOW_FEATURES :: nat where "MAX_WINDOW_FEATURES = 128"
definition MAX_WINDOW_FEATURE_KEY_LENGTH :: nat where "MAX_WINDOW_FEATURE_KEY_LENGTH = 64"
definition WINDOW_FEATURE_VALUE_BOUND :: pyfloat where "WINDOW_FEATURE_VALUE_BOUND = Fin 1000000"
definition MAX_LATENCY_SECONDS :: pyfloat where "MAX_LATENCY_SECONDS = Fin 60"

definition MIN_EVENT_TIME :: pydatetime where "MIN_EVENT_TIME = utc 946684800000000"
definition MAX_EVENT_TIME :: pydatetime where "MAX_EVENT_TIME = utc 4102444800000000"

definition FORBIDDEN_TERMS :: "string list" where
  "FORBIDDEN_TERMS =
     [''approve'', ''approved'', ''block'', ''blocked'', ''fraud_probability'',
      ''fraud probability'', ''razorpay risk score'']"

section \<open>Closed vocabularies\<close>

datatype outcome = Success | Declined | Failed
datatype decision = BelowReviewThreshold | HumanReview | UnavailableFailClosed
datatype currency = INR | USD
datatype duplicate_status = New | Duplicate
datatype ordering_status = InOrder | Late

section \<open>Field types\<close>

definition is_token_char :: "char \<Rightarrow> bool" where
  "is_token_char c = (is_lower c \<or> is_digit c)"

text \<open>\<open>[a-z0-9]+(?:_[a-z0-9]+)*\<close>: non-empty segments separated by single underscores.\<close>

fun token_segments :: "bool \<Rightarrow> string \<Rightarrow> bool" where
  "token_segments seen [] = seen"
| "token_segments seen (c # cs) =
     (if c = CHR ''_'' then seen \<and> token_segments False cs
      else is_token_char c \<and> token_segments True cs)"

definition is_entity_token :: "string \<Rightarrow> bool" where
  "is_entity_token s =
     (length ''syn_'' + 1 \<le> length s \<and> length s \<le> MAX_ID_LENGTH \<and>
      starts_with s ''syn_'' \<and> token_segments False (drop 4 s))"

definition id_token_body :: "string \<Rightarrow> bool" where
  "id_token_body b =
     (1 \<le> length b \<and> length b \<le> 60 \<and> list_all (\<lambda>c. is_token_char c \<or> c = CHR ''_'') b)"

definition is_event_id_token :: "string \<Rightarrow> bool" where
  "is_event_id_token s =
     (length ''evt_'' + 1 \<le> length s \<and> length s \<le> MAX_ID_LENGTH \<and>
      starts_with s ''evt_'' \<and> id_token_body (drop 4 s))"

definition is_request_id_token :: "string \<Rightarrow> bool" where
  "is_request_id_token s =
     (length ''req_'' + 1 \<le> length s \<and> length s \<le> MAX_ID_LENGTH \<and>
      starts_with s ''req_'' \<and> id_token_body (drop 4 s))"

definition is_categorical_token :: "string \<Rightarrow> bool" where
  "is_categorical_token s =
     (1 \<le> length s \<and> length s \<le> MAX_CATEGORICAL_TOKEN_LENGTH \<and>
      list_all (\<lambda>c. is_upper c \<or> is_lower c \<or> is_digit c \<or> c = CHR ''_'') s)"

definition is_amount_value :: "pyfloat \<Rightarrow> bool" where
  "is_amount_value a = (is_finite a \<and> flt (Fin 0) a \<and> fle a MAX_AMOUNT)"

fun snake_name :: "string \<Rightarrow> bool" where
  "snake_name [] = False"
| "snake_name (c # cs) =
     (is_lower c \<and> list_all (\<lambda>d. is_token_char d \<or> d = CHR ''_'') cs)"

definition is_reason_code :: "string \<Rightarrow> bool" where
  "is_reason_code s = (1 \<le> length s \<and> length s \<le> MAX_REASON_CODE_LENGTH \<and> snake_name s)"

text \<open>\<open>re.compile(r"^[a-z][a-z0-9_]*$").match(key)\<close>.\<close>

definition newline :: char where "newline = char_of (10 :: nat)"

definition window_feature_key_match :: "string \<Rightarrow> bool" where
  "window_feature_key_match key =
     (snake_name key \<or> (key \<noteq> [] \<and> last key = newline \<and> snake_name (butlast key)))"

definition reject_forbidden_terms :: "string \<Rightarrow> string \<Rightarrow> py_exc + unit" where
  "reject_forbidden_terms txt field_name =
     (let lowered = map lower_char txt
      in case filter (\<lambda>term. is_infix_of term lowered) FORBIDDEN_TERMS of
           [] \<Rightarrow> Inr ()
         | term # _ \<Rightarrow> Inl (ValueError (field_name @ '' must not contain the forbidden term ''
                                        @ [CHR 0x27] @ term @ [CHR 0x27] @ ''.'')))"

section \<open>The event contract\<close>

record synthetic_event =
  event_id :: string
  event_time :: pydatetime
  account_id :: string
  device_id :: string
  payment_method_id :: string
  merchant_id :: string
  address_id :: string
  ip_id :: string
  amount :: pyfloat
  ev_currency :: currency
  ev_outcome :: outcome
  account_country :: string
  event_country :: string
  event_region :: string
  billing_shipping_match :: bool
  vpn_or_proxy :: bool
  retry_group_id :: "string option"

definition event_time_ok :: "pydatetime \<Rightarrow> bool" where
  "event_time_ok t =
     (dt_off t \<noteq> None \<and>
      \<not> (dt_instant t < dt_instant MIN_EVENT_TIME \<or> dt_instant t > dt_instant MAX_EVENT_TIME))"

definition event_valid :: "synthetic_event \<Rightarrow> bool" where
  "event_valid e =
     (is_event_id_token (event_id e) \<and> event_time_ok (event_time e) \<and>
      is_entity_token (account_id e) \<and> is_entity_token (device_id e) \<and>
      is_entity_token (payment_method_id e) \<and> is_entity_token (merchant_id e) \<and>
      is_entity_token (address_id e) \<and> is_entity_token (ip_id e) \<and>
      is_amount_value (amount e) \<and>
      is_categorical_token (account_country e) \<and> is_categorical_token (event_country e) \<and>
      is_categorical_token (event_region e) \<and>
      (case retry_group_id e of None \<Rightarrow> True | Some g \<Rightarrow> is_entity_token g))"

definition make_event :: "synthetic_event \<Rightarrow> py_exc + synthetic_event" where
  "make_event e = (if event_valid e then Inr e else Inl (ValidationError ''SyntheticEvent''))"

text \<open>
  Model equality compares every field; two aware times are equal when they denote the
  same instant, whatever their offsets.
\<close>

definition event_eq :: "synthetic_event \<Rightarrow> synthetic_event \<Rightarrow> bool" where
  "event_eq a b =
     (a\<lparr>event_time := utc 0\<rparr> = b\<lparr>event_time := utc 0\<rparr> \<and>
      (dt_off (event_time a) = None \<longleftrightarrow> dt_off (event_time b) = None) \<and>
      dt_instant (event_time a) = dt_instant (event_time b))"

section \<open>Derived output\<close>

record triggered_signal =
  reason_code :: string
  description :: string
  contribution :: pyfloat

definition signal_valid :: "triggered_signal \<Rightarrow> bool" where
  "signal_valid s =
     (is_reason_code (reason_code s) \<and>
      1 \<le> length (description s) \<and> length (description s) \<le> MAX_DESCRIPTION_LENGTH \<and>
      fle (Fin 0) (contribution s) \<and> fle (contribution s) (Fin 1) \<and>
      reject_forbidden_terms (description s) ''description'' = Inr () \<and>
      reject_forbidden_terms (reason_code s) ''reason_code'' = Inr ())"

definition make_signal :: "triggered_signal \<Rightarrow> py_exc + triggered_signal" where
  "make_signal s = (if signal_valid s then Inr s else Inl (ValidationError ''TriggeredSignal''))"

record plumbing_result =
  pr_event_id :: string
  pr_request_id :: string
  pr_decision :: decision
  pr_context_signal_score :: pyfloat
  pr_triggered_signals :: "triggered_signal list"
  pr_window_features :: "(string, pyfloat) dict"
  pr_processed_at :: pydatetime
  pr_latency_seconds :: pyfloat
  pr_duplicate_status :: duplicate_status
  pr_ordering_status :: ordering_status

definition window_feature_ok :: "string \<times> pyfloat \<Rightarrow> bool" where
  "window_feature_ok kv =
     (let (key, v) = kv
      in \<not> (length key > MAX_WINDOW_FEATURE_KEY_LENGTH \<or> \<not> window_feature_key_match key) \<and>
         is_finite v \<and> fle (fneg WINDOW_FEATURE_VALUE_BOUND) v \<and> fle v WINDOW_FEATURE_VALUE_BOUND)"

definition window_features_ok :: "(string, pyfloat) dict \<Rightarrow> bool" where
  "window_features_ok d = (length d \<le> MAX_WINDOW_FEATURES \<and> list_all window_feature_ok d)"

definition plumbing_result_valid :: "plumbing_result \<Rightarrow> bool" where
  "plumbing_result_valid r =
     (is_event_id_token (pr_event_id r) \<and> is_request_id_token (pr_request_id r) \<and>
      fle (Fin 0) (pr_context_signal_score r) \<and> fle (pr_context_signal_score r) (Fin 1) \<and>
      length (pr_triggered_signals r) \<le> MAX_TRIGGERED_SIGNALS \<and>
      list_all signal_valid (pr_triggered_signals r) \<and>
      aware (pr_processed_at r) \<and>
      is_finite (pr_latency_seconds r) \<and> fle (Fin 0) (pr_latency_seconds r) \<and>
      fle (pr_latency_seconds r) MAX_LATENCY_SECONDS \<and>
      window_features_ok (pr_window_features r))"

definition make_plumbing_result :: "plumbing_result \<Rightarrow> py_exc + plumbing_result" where
  "make_plumbing_result r =
     (if plumbing_result_valid r then Inr r else Inl (ValidationError ''SyntheticPlumbingResult''))"

section \<open>Facts\<close>

lemma event_eq_refl [simp]: "event_eq e e"
  by (simp add: event_eq_def)

lemma event_eq_sym: "event_eq a b \<Longrightarrow> event_eq b a"
  by (simp add: event_eq_def eq_commute)

lemma event_eq_trans: "event_eq a b \<Longrightarrow> event_eq b c \<Longrightarrow> event_eq a c"
  by (simp add: event_eq_def)

lemma event_eq_id: "event_eq a b \<Longrightarrow> event_id a = event_id b"
  unfolding event_eq_def by (metis synthetic_event.select_convs(1) synthetic_event.surjective synthetic_event.update_convs(2))

lemma make_signal_Inr: "make_signal s = Inr t \<longleftrightarrow> signal_valid s \<and> t = s"
  by (auto simp: make_signal_def)

lemma make_event_Inr: "make_event e = Inr f \<longleftrightarrow> event_valid e \<and> f = e"
  by (auto simp: make_event_def)

lemma event_valid_aware: "event_valid e \<Longrightarrow> aware (event_time e)"
  by (simp add: event_valid_def event_time_ok_def aware_def)

lemma event_valid_amount:
  "event_valid e \<Longrightarrow> \<exists>q. amount e = Fin q \<and> 0 < q \<and> q \<le> 1000000"
  by (cases "amount e") (auto simp: event_valid_def is_amount_value_def is_finite_def MAX_AMOUNT_def)

lemma event_lookback_in_range:
  assumes "event_valid e" and "python_datetime (event_time e)" and "0 \<le> d" and "d \<le> seconds (24 * 3600)"
  shows "\<exists>c. dt_add (event_time e) (- d) = Inr c"
  using assms
  by (auto simp: event_valid_def event_time_ok_def python_datetime_def dt_add_def dt_instant_def
      MIN_EVENT_TIME_def MAX_EVENT_TIME_def utc_def MIN_LOCAL_def MAX_LOCAL_def seconds_def Let_def)

end
