(* ===== verification/Py_Values.thy ===== *)
theory Py_Values
  imports Py_Float Sha256
begin

text \<open>
  Values whose type the source checks at run time (\<open>isinstance\<close>), the \<open>repr\<close> of strings and
  string lists that its messages contain, and the compact JSON text that its digests are
  taken over (\<open>json.dumps(value, separators=(",", ":"), sort_keys=True)\<close> with ASCII output).
  Mapping keys are strings, as in every JSON document.
\<close>

datatype pyval =
    PNone
  | PBool bool
  | PInt int
  | PFloat pyfloat
  | PStr string
  | PList "pyval list"
  | PDict "(string \<times> pyval) list"

text \<open>\<open>isinstance(v, int) and not isinstance(v, bool)\<close>: a Boolean is an \<open>int\<close> in Python.\<close>

definition int_of :: "pyval \<Rightarrow> int option" where
  "int_of v = (case v of PInt i \<Rightarrow> Some i | _ \<Rightarrow> None)"

definition str_of :: "pyval \<Rightarrow> string option" where
  "str_of v = (case v of PStr s \<Rightarrow> Some s | _ \<Rightarrow> None)"

text \<open>\<open>d.get(k)\<close>.\<close>

definition py_get :: "(string \<times> pyval) list \<Rightarrow> string \<Rightarrow> pyval" where
  "py_get d k = (case map_of d k of None \<Rightarrow> PNone | Some v \<Rightarrow> v)"

section \<open>White space\<close>

text \<open>\<open>str.isspace\<close> of one character, and stripping at both ends.\<close>

definition is_space :: "char \<Rightarrow> bool" where
  "is_space c = (let n = (of_char c :: nat) in n = 32 \<or> (9 \<le> n \<and> n \<le> 13) \<or> (28 \<le> n \<and> n \<le> 31) \<or> n = 133 \<or> n = 160)"

definition strip_by :: "(char \<Rightarrow> bool) \<Rightarrow> string \<Rightarrow> string" where
  "strip_by P s = rev (dropWhile P (rev (dropWhile P s)))"

section \<open>\<open>repr\<close>\<close>

definition hex2 :: "nat \<Rightarrow> string" where
  "hex2 n = [hex_char (n div 16), hex_char (n mod 16)]"

definition repr_char :: "char \<Rightarrow> char \<Rightarrow> string" where
  "repr_char q c =
     (let n = (of_char c :: nat)
      in if n = 92 \<or> c = q then [CHR 0x5C, c]
         else if n = 9 then [CHR 0x5C, CHR ''t'']
         else if n = 10 then [CHR 0x5C, CHR ''n'']
         else if n = 13 then [CHR 0x5C, CHR ''r'']
         else if n < 32 \<or> (127 \<le> n \<and> n \<le> 160) \<or> n = 173 then [CHR 0x5C, CHR ''x''] @ hex2 n
         else [c])"

definition repr_str :: "string \<Rightarrow> string" where
  "repr_str s =
     (let q = (if CHR 0x27 \<in> set s \<and> CHR 0x22 \<notin> set s then CHR 0x22 else CHR 0x27)
      in [q] @ concat (map (repr_char q) s) @ [q])"

definition join :: "string \<Rightarrow> string list \<Rightarrow> string" where
  "join sep xs = (case xs of [] \<Rightarrow> [] | y # ys \<Rightarrow> y @ concat (map (\<lambda>x. sep @ x) ys))"

definition repr_str_list :: "string list \<Rightarrow> string" where
  "repr_str_list xs = ''['' @ join '', '' (map repr_str xs) @ '']''"

section \<open>Compact JSON\<close>

text \<open>\<open>ensure_ascii\<close> escapes everything outside the printable ASCII characters.\<close>

definition json_char :: "char \<Rightarrow> string" where
  "json_char c =
     (let n = (of_char c :: nat); bs = CHR 0x5C
      in if n = 34 \<or> n = 92 then [bs, c]
         else if n = 8 then [bs, CHR ''b'']
         else if n = 9 then [bs, CHR ''t'']
         else if n = 10 then [bs, CHR ''n'']
         else if n = 12 then [bs, CHR ''f'']
         else if n = 13 then [bs, CHR ''r'']
         else if n < 32 \<or> 127 \<le> n then [bs, CHR ''u'', CHR ''0'', CHR ''0''] @ hex2 n
         else [c])"

definition json_str :: "string \<Rightarrow> string" where
  "json_str s = [CHR 0x22] @ concat (map json_char s) @ [CHR 0x22]"

section \<open>\<open>float.__repr__\<close>\<close>

text \<open>
  The shortest decimal that rounds back to the value, the nearest one when several have that
  length, in fixed notation for decimal points from -3 to 16 and in exponent notation
  otherwise.
\<close>

definition pow10 :: "int \<Rightarrow> rat" where
  "pow10 e = (if 0 \<le> e then 10 ^ nat e else 1 / 10 ^ nat (- e))"

definition ilog10 :: "rat \<Rightarrow> int" where
  "ilog10 x = (if 1 \<le> x then int (length (nat_str (nat \<lfloor>x\<rfloor>))) - 1
               else - int (length (nat_str (nat (\<lceil>1 / x\<rceil> - 1)))))"

definition decimal_candidate :: "rat \<Rightarrow> int \<Rightarrow> int option" where
  "decimal_candidate x k =
     (let s = pow10 k; lo = \<lfloor>x / s\<rfloor>; hi = \<lceil>x / s\<rceil>;
          ok = (\<lambda>c. fl_raw (of_int c * s) = x)
      in if ok lo \<and> ok hi then
           Some (if x / s - of_int lo < of_int hi - x / s then lo
                 else if of_int hi - x / s < x / s - of_int lo then hi
                 else if even lo then lo else hi)
         else if ok lo then Some lo else if ok hi then Some hi else None)"

fun shortest_from :: "nat \<Rightarrow> rat \<Rightarrow> int \<Rightarrow> int \<times> int" where
  "shortest_from 0 x k = (round_half_even (x / pow10 k), k)"
| "shortest_from (Suc n) x k =
     (case decimal_candidate x k of Some c \<Rightarrow> (c, k) | None \<Rightarrow> shortest_from n x (k - 1))"

definition strip_zeros :: "string \<Rightarrow> string" where
  "strip_zeros s = rev (dropWhile (\<lambda>c. c = CHR ''0'') (rev s))"

definition float_repr_pos :: "rat \<Rightarrow> string" where
  "float_repr_pos x =
     (let (c, k) = shortest_from 16 x (ilog10 x);
          ds0 = nat_str (nat c); decpt = int (length ds0) + k; ds = strip_zeros ds0; n = int (length ds)
      in if -4 < decpt \<and> decpt \<le> 16 then
           (if decpt \<le> 0 then ''0.'' @ replicate (nat (- decpt)) (CHR ''0'') @ ds
            else if decpt \<ge> n then ds @ replicate (nat (decpt - n)) (CHR ''0'') @ ''.0''
            else take (nat decpt) ds @ ''.'' @ drop (nat decpt) ds)
         else (let e = decpt - 1; es = nat_str (nat \<bar>e\<bar>)
               in take 1 ds @ (if n = 1 then [] else ''.'' @ drop 1 ds) @ ''e'' @
                  (if e < 0 then ''-'' else ''+'') @ (if length es < 2 then ''0'' @ es else es)))"

definition float_repr :: "rat \<Rightarrow> string" where
  "float_repr x = (if x = 0 then ''0.0'' else if x < 0 then ''-'' @ float_repr_pos (- x) else float_repr_pos x)"

definition repr_float :: "pyfloat \<Rightarrow> string" where
  "repr_float x = (case x of Fin q \<Rightarrow> float_repr q | PInf \<Rightarrow> ''inf'' | NInf \<Rightarrow> ''-inf'' | NaN \<Rightarrow> ''nan'')"

section \<open>\<open>json.dumps\<close>\<close>

text \<open>Compact, with sorted keys and \<open>allow_nan=False\<close>: the keys of a dictionary are distinct, so
  sorting the items is sorting by key.\<close>

lemma res_map_cong [fundef_cong]:
  "xs = ys \<Longrightarrow> (\<And>x. x \<in> set ys \<Longrightarrow> f x = g x) \<Longrightarrow> res_map f xs = res_map g ys"
  by (induction xs arbitrary: ys) auto

function json_dumps :: "pyval \<Rightarrow> py_exc + string" where
  "json_dumps PNone = Inr ''null''"
| "json_dumps (PBool b) = Inr (if b then ''true'' else ''false'')"
| "json_dumps (PInt i) = Inr (int_str i)"
| "json_dumps (PFloat x) =
     (case x of Fin q \<Rightarrow> Inr (float_repr q)
      | _ \<Rightarrow> Inl (ValueError ''Out of range float values are not JSON compliant''))"
| "json_dumps (PStr s) = Inr (json_str s)"
| "json_dumps (PList vs) =
     res_bind (res_map json_dumps vs) (\<lambda>ts. Inr (''['' @ join '','' ts @ '']''))"
| "json_dumps (PDict d) =
     res_bind (res_map (\<lambda>kv. res_bind (json_dumps (snd kv)) (\<lambda>t. Inr (json_str (fst kv) @ '':'' @ t)))
                 (sort_key fst d))
       (\<lambda>ts. Inr (''{'' @ join '','' ts @ ''}''))"
  by pat_completeness auto
termination
proof (relation "measure size", goal_cases)
  case (2 vs v)
  then show ?case by (induction vs) auto
next
  case (3 d kv)
  then have "kv \<in> set d" by simp
  then show ?case by (induction d) (auto split: prod.split)
qed simp

end
