(* ===== verification/Event_Store.thy ===== *)
theory Event_Store
  imports Contracts Py_Values
begin

text \<open>
  \<open>src/src/synthetic_realtime/store.py\<close>: the bounded in-memory event store. The
  \<open>OrderedDict\<close> is an insertion-ordered dictionary; an operation that mutates the store
  returns the new store beside its result, on the exceptional paths too. \<open>now\<close> is the
  instant the injected clock returned for the call, and events are values of the event
  contract, so their times are aware.
\<close>

section \<open>State\<close>

definition DEFAULT_RETENTION :: timedelta where "DEFAULT_RETENTION = seconds (24 * 3600)"
definition DEFAULT_MAX_EVENTS :: int where "DEFAULT_MAX_EVENTS = 100000"
definition MIN_MAX_EVENTS :: int where "MIN_MAX_EVENTS = 1"

record record_result =
  rr_duplicate_status :: duplicate_status
  rr_ordering_status :: ordering_status
  rr_stored_event :: synthetic_event

record stored_record =
  sr_event :: synthetic_event
  sr_ordering_status :: ordering_status

record event_store =
  es_retention :: timedelta
  es_max_events :: int
  es_records :: "(string, stored_record) dict"
  es_watermark :: "pydatetime option"

definition store_init :: "timedelta \<Rightarrow> int \<Rightarrow> py_exc + event_store" where
  "store_init retention max_events =
     (if retention \<le> 0 then Inl (ValueError ''retention must be positive.'')
      else if max_events < MIN_MAX_EVENTS
        then Inl (ValueError (''max_events must be at least '' @ int_str MIN_MAX_EVENTS @ ''.''))
      else Inr \<lparr>es_retention = retention, es_max_events = max_events, es_records = [], es_watermark = None\<rparr>)"

section \<open>Queries\<close>

abbreviation event_instant :: "synthetic_event \<Rightarrow> int" where
  "event_instant e \<equiv> dt_instant (event_time e)"

definition store_len :: "event_store \<Rightarrow> nat" where
  "store_len s = length (es_records s)"

definition store_get :: "event_store \<Rightarrow> string \<Rightarrow> synthetic_event option" where
  "store_get s eid = (case map_of (es_records s) eid of None \<Rightarrow> None | Some r \<Rightarrow> Some (sr_event r))"

definition events_in_range :: "event_store \<Rightarrow> pydatetime \<Rightarrow> pydatetime \<Rightarrow> py_exc + synthetic_event list" where
  "events_in_range s start_t end_t =
     res_bind (require_timezone_aware start_t ''start'') (\<lambda>_.
     res_bind (require_timezone_aware end_t ''end'') (\<lambda>_.
       if dt_instant start_t > dt_instant end_t then Inl (ValueError ''start must not be after end.'')
       else (let matching = [sr_event r. (_, r) \<leftarrow> es_records s,
                               dt_instant start_t \<le> event_instant (sr_event r) \<and>
                               event_instant (sr_event r) \<le> dt_instant end_t]
             in Inr (sort_key event_instant matching))))"

section \<open>Updates\<close>

definition evict_expired :: "event_store \<Rightarrow> pydatetime \<Rightarrow> py_exc + (nat \<times> event_store)" where
  "evict_expired s now =
     res_bind (dt_add now (- es_retention s)) (\<lambda>cutoff.
       let expired_ids = [eid. (eid, r) \<leftarrow> es_records s, event_instant (sr_event r) < dt_instant cutoff]
       in Inr (length expired_ids,
               s\<lparr>es_records := foldl (\<lambda>d eid. AList.delete eid d) (es_records s) expired_ids\<rparr>))"

definition store_reset :: "event_store \<Rightarrow> event_store" where
  "store_reset s = s\<lparr>es_records := [], es_watermark := None\<rparr>"

text \<open>\<open>while len(records) > max_events: popitem(last=False)\<close>, with \<open>max_events \<ge> 1\<close>.\<close>

fun enforce_capacity :: "int \<Rightarrow> (string, stored_record) dict \<Rightarrow> (string, stored_record) dict" where
  "enforce_capacity m [] = []"
| "enforce_capacity m (p # ps) = (if m < int (length (p # ps)) then enforce_capacity m ps else p # ps)"

definition record_event ::
  "event_store \<Rightarrow> pydatetime \<Rightarrow> synthetic_event \<Rightarrow> (py_exc + record_result) \<times> event_store" where
  "record_event s now e =
     (case evict_expired s now of
        Inl x \<Rightarrow> (Inl x, s)
      | Inr (_, s1) \<Rightarrow>
          (case map_of (es_records s1) (event_id e) of
             Some existing \<Rightarrow>
               if \<not> event_eq (sr_event existing) e
               then (Inl (PyError ''DuplicateEventConflictError''
                       (''event_id '' @ repr_str (event_id e) @ '' was already recorded with a different payload.'')), s1)
               else (Inr \<lparr>rr_duplicate_status = Duplicate,
                          rr_ordering_status = sr_ordering_status existing,
                          rr_stored_event = sr_event existing\<rparr>, s1)
           | None \<Rightarrow>
               let ordering = (case es_watermark s1 of
                                 None \<Rightarrow> InOrder
                               | Some w \<Rightarrow> if event_instant e < dt_instant w then Late else InOrder);
                   wm = (case es_watermark s1 of
                           None \<Rightarrow> Some (event_time e)
                         | Some w \<Rightarrow> if event_instant e > dt_instant w then Some (event_time e) else Some w);
                   recs = AList.update (event_id e) \<lparr>sr_event = e, sr_ordering_status = ordering\<rparr> (es_records s1)
               in (Inr \<lparr>rr_duplicate_status = New, rr_ordering_status = ordering, rr_stored_event = e\<rparr>,
                   s1\<lparr>es_watermark := wm, es_records := enforce_capacity (es_max_events s1) recs\<rparr>)))"

section \<open>The store under its clock, as a state machine\<close>

record store_system =
  sys_clock :: fixed_clock
  sys_store :: event_store

inductive store_step :: "store_system \<Rightarrow> store_system \<Rightarrow> bool" where
  advance: "fixed_clock_advance (sys_clock y) d = Inr c \<Longrightarrow> store_step y (y\<lparr>sys_clock := c\<rparr>)"
| set_clock: "fixed_clock_set (sys_clock y) t = Inr c \<Longrightarrow> store_step y (y\<lparr>sys_clock := c\<rparr>)"
| submit: "event_valid e \<Longrightarrow>
     store_step y (y\<lparr>sys_store := snd (record_event (sys_store y) (fixed_clock_now (sys_clock y)) e)\<rparr>)"
| evict: "evict_expired (sys_store y) (fixed_clock_now (sys_clock y)) = Inr (n, s) \<Longrightarrow>
     store_step y (y\<lparr>sys_store := s\<rparr>)"
| reset: "store_step y (y\<lparr>sys_store := store_reset (sys_store y)\<rparr>)"

inductive store_reachable :: "store_system \<Rightarrow> bool" where
  start: "fixed_clock_init t = Inr c \<Longrightarrow> store_init r m = Inr s \<Longrightarrow>
     store_reachable \<lparr>sys_clock = c, sys_store = s\<rparr>"
| step: "store_reachable y \<Longrightarrow> store_step y z \<Longrightarrow> store_reachable z"

text \<open>A sequence of submissions, each with the instant the clock returned for it.\<close>

fun store_run :: "event_store \<Rightarrow> (pydatetime \<times> synthetic_event) list \<Rightarrow>
    (py_exc + record_result) list \<times> event_store" where
  "store_run s [] = ([], s)"
| "store_run s ((now, e) # xs) =
     (let (r, s1) = record_event s now e; (rs, s2) = store_run s1 xs in (r # rs, s2))"

section \<open>Invariant\<close>

definition store_inv :: "event_store \<Rightarrow> bool" where
  "store_inv s =
     (0 < es_retention s \<and> 1 \<le> es_max_events s \<and>
      dict_ok (es_records s) \<and> int (length (es_records s)) \<le> es_max_events s \<and>
      (\<forall>(k, r) \<in> set (es_records s).
         event_id (sr_event r) = k \<and> aware (event_time (sr_event r)) \<and>
         (\<exists>w. es_watermark s = Some w \<and> event_instant (sr_event r) \<le> dt_instant w)))"

definition retained_events :: "event_store \<Rightarrow> synthetic_event list" where
  "retained_events s = map (\<lambda>(_, r). sr_event r) (es_records s)"

definition unexpired :: "event_store \<Rightarrow> int \<Rightarrow> string \<times> stored_record \<Rightarrow> bool" where
  "unexpired s now p = (now - es_retention s \<le> event_instant (sr_event (snd p)))"

lemma evict_expired_eq:
  assumes "dict_ok (es_records s)"
  shows "evict_expired s now = Inr (n, s') \<longleftrightarrow>
    (\<exists>c. dt_add now (- es_retention s) = Inr c) \<and>
    s' = s\<lparr>es_records := filter (unexpired s (dt_instant now)) (es_records s)\<rparr> \<and>
    n = length (filter (\<lambda>p. \<not> unexpired s (dt_instant now) p) (es_records s))"
proof -
  have cut: "(\<lambda>p. event_instant (sr_event (snd p)) < dt_instant c) = (\<lambda>p. \<not> unexpired s (dt_instant now) p)"
    if "dt_add now (- es_retention s) = Inr c" for c
    using dt_add_Inr [OF that] by (auto simp: unexpired_def fun_eq_iff)
  have cut': "(\<lambda>p. \<not> event_instant (sr_event (snd p)) < dt_instant c) = unexpired s (dt_instant now)"
    if "dt_add now (- es_retention s) = Inr c" for c
    using dt_add_Inr [OF that] by (auto simp: unexpired_def fun_eq_iff)
  show ?thesis
    using assms
    by (auto simp: evict_expired_def res_bind_Inr_iff Let_def comprehension_keys foldl_delete
        filter_keys_not cut cut' simp del: set_map)
qed

lemma evict_expired_Inl:
  "evict_expired s now = Inl x \<longleftrightarrow> dt_add now (- es_retention s) = Inl x"
  by (auto simp: evict_expired_def res_bind_Inl_iff Let_def)

definition evicted :: "event_store \<Rightarrow> pydatetime \<Rightarrow> event_store" where
  "evicted s now = s\<lparr>es_records := filter (unexpired s (dt_instant now)) (es_records s)\<rparr>"

lemma evicted_simps [simp]:
  "es_retention (evicted s now) = es_retention s"
  "es_max_events (evicted s now) = es_max_events s"
  "es_watermark (evicted s now) = es_watermark s"
  "es_records (evicted s now) = filter (unexpired s (dt_instant now)) (es_records s)"
  by (simp_all add: evicted_def)

lemma enforce_capacity_drop: "0 \<le> m \<Longrightarrow> enforce_capacity m d = drop (length d - nat m) d"
proof (induction m d rule: enforce_capacity.induct)
  case (2 m p ps)
  show ?case
  proof (cases "m < int (length (p # ps))")
    case True
    with 2 have "length (p # ps) - nat m = Suc (length ps - nat m)" by simp
    with 2 True show ?thesis by simp
  qed (use 2 in simp)
qed simp

lemma enforce_capacity_fits: "0 \<le> m \<Longrightarrow> int (length (enforce_capacity m d)) \<le> m"
  by (simp add: enforce_capacity_drop)

lemma enforce_capacity_snoc:
  "1 \<le> m \<Longrightarrow> enforce_capacity m (d @ [x]) = drop (Suc (length d) - nat m) d @ [x]"
  by (simp add: enforce_capacity_drop)

text \<open>The three ways a submission returns, over the store after expiry.\<close>

lemma record_event_expiry_fails:
  "dt_add now (- es_retention s) = Inl x \<Longrightarrow> record_event s now e = (Inl x, s)"
  by (simp add: record_event_def evict_expired_def)

lemma record_event_known:
  assumes "store_inv s" and "dt_add now (- es_retention s) = Inr c"
    and "map_of (es_records (evicted s now)) (event_id e) = Some r"
  shows "record_event s now e =
    (if event_eq (sr_event r) e
     then Inr \<lparr>rr_duplicate_status = Duplicate, rr_ordering_status = sr_ordering_status r,
               rr_stored_event = sr_event r\<rparr>
     else Inl (PyError ''DuplicateEventConflictError''
            (''event_id '' @ repr_str (event_id e) @ '' was already recorded with a different payload.'')),
     evicted s now)"
proof -
  have "dict_ok (es_records s)" using assms(1) by (simp add: store_inv_def)
  then have "\<exists>n. evict_expired s now = Inr (n, evicted s now)"
    using assms(2) by (simp add: evict_expired_eq evicted_def)
  with assms(3) show ?thesis by (auto simp: record_event_def)
qed

definition late_against :: "synthetic_event \<Rightarrow> pydatetime option \<Rightarrow> ordering_status" where
  "late_against e wm = (case wm of None \<Rightarrow> InOrder
                        | Some w \<Rightarrow> if event_instant e < dt_instant w then Late else InOrder)"

definition raise_watermark :: "synthetic_event \<Rightarrow> pydatetime option \<Rightarrow> pydatetime option" where
  "raise_watermark e wm = (case wm of None \<Rightarrow> Some (event_time e)
                           | Some w \<Rightarrow> if event_instant e > dt_instant w then Some (event_time e) else Some w)"

lemma record_event_new:
  assumes "store_inv s" and "dt_add now (- es_retention s) = Inr c"
    and "map_of (es_records (evicted s now)) (event_id e) = None"
  shows "record_event s now e =
    (Inr \<lparr>rr_duplicate_status = New, rr_ordering_status = late_against e (es_watermark s), rr_stored_event = e\<rparr>,
     s\<lparr>es_records := drop (Suc (length (es_records (evicted s now))) - nat (es_max_events s))
                         (es_records (evicted s now)) @
                      [(event_id e, \<lparr>sr_event = e, sr_ordering_status = late_against e (es_watermark s)\<rparr>)],
       es_watermark := raise_watermark e (es_watermark s)\<rparr>)"
proof -
  have inv: "dict_ok (es_records s)" "1 \<le> es_max_events s" using assms(1) by (simp_all add: store_inv_def)
  then have ev: "\<exists>n. evict_expired s now = Inr (n, evicted s now)"
    using assms(2) by (simp add: evict_expired_eq evicted_def)
  have "AList.update (event_id e) v (es_records (evicted s now)) = es_records (evicted s now) @ [(event_id e, v)]" for v
    using assms(3) by (rule dict_update_fresh)
  with ev inv(2) assms(3) show ?thesis
    by (auto simp: record_event_def Let_def late_against_def raise_watermark_def
        enforce_capacity_snoc evicted_def split: option.splits)
qed

lemma raise_watermark_Some:
  "\<exists>w. raise_watermark e wm = Some w \<and> event_instant e \<le> dt_instant w \<and>
       (\<forall>w0. wm = Some w0 \<longrightarrow> dt_instant w0 \<le> dt_instant w)"
  by (auto simp: raise_watermark_def split: option.splits)

lemma store_inv_evicted: "store_inv s \<Longrightarrow> store_inv (evicted s now)"
  by (force simp: store_inv_def dict_ok_filter intro: order_trans [OF of_nat_mono [OF length_filter_le]])

lemma store_inv_init: "store_init r m = Inr s \<Longrightarrow> store_inv s"
  by (auto simp: store_init_def store_inv_def MIN_MAX_EVENTS_def split: if_splits)

lemma store_inv_reset: "store_inv s \<Longrightarrow> store_inv (store_reset s)"
  by (simp add: store_inv_def store_reset_def)

lemma store_inv_append:
  assumes inv: "store_inv s" and fresh: "map_of (es_records s) (event_id e) = None" and aw: "aware (event_time e)"
  shows "store_inv (s\<lparr>es_records := drop (Suc (length (es_records s)) - nat (es_max_events s)) (es_records s) @
                        [(event_id e, \<lparr>sr_event = e, sr_ordering_status = st\<rparr>)],
                      es_watermark := raise_watermark e (es_watermark s)\<rparr>)"
proof -
  define n where "n = Suc (length (es_records s)) - nat (es_max_events s)"
  obtain w where w: "raise_watermark e (es_watermark s) = Some w" "event_instant e \<le> dt_instant w"
    "\<forall>w0. es_watermark s = Some w0 \<longrightarrow> dt_instant w0 \<le> dt_instant w"
    using raise_watermark_Some by blast
  have "map_of (drop n (es_records s)) (event_id e) = None"
    using fresh by (rule map_of_drop_None)
  then have "dict_ok (drop n (es_records s) @ [(event_id e, \<lparr>sr_event = e, sr_ordering_status = st\<rparr>)])"
    using inv by (intro dict_ok_snoc dict_ok_drop) (simp_all add: store_inv_def)
  moreover have "int (length (drop n (es_records s)) + 1) \<le> es_max_events s"
  proof -
    have "1 \<le> es_max_events s" "int (length (es_records s)) \<le> es_max_events s"
      using inv by (simp_all add: store_inv_def)
    then show ?thesis unfolding n_def by simp
  qed
  moreover have "event_id (sr_event r) = k \<and> aware (event_time (sr_event r)) \<and>
      event_instant (sr_event r) \<le> dt_instant w"
    if "(k, r) \<in> set (drop n (es_records s))" for k r
  proof -
    have "(k, r) \<in> set (es_records s)" using that by (rule in_set_dropD)
    with inv w(3) show ?thesis by (fastforce simp: store_inv_def)
  qed
  ultimately show ?thesis
    using inv w aw by (auto simp: store_inv_def n_def [symmetric])
qed

lemma record_event_inv:
  assumes "store_inv s" and "aware (event_time e)"
  shows "store_inv (snd (record_event s now e))"
proof (cases "dt_add now (- es_retention s)")
  case (Inl x)
  then show ?thesis using assms by (simp add: record_event_expiry_fails)
next
  case (Inr c)
  show ?thesis
  proof (cases "map_of (es_records (evicted s now)) (event_id e)")
    case None
    then show ?thesis
      using store_inv_append [OF store_inv_evicted [OF assms(1)] None assms(2)]
      by (simp add: record_event_new [OF assms(1) Inr None] evicted_def)
  next
    case (Some r)
    then show ?thesis
      using store_inv_evicted [OF assms(1)] by (simp add: record_event_known [OF assms(1) Inr Some])
  qed
qed

lemma store_step_inv: "store_step y z \<Longrightarrow> store_inv (sys_store y) \<Longrightarrow> store_inv (sys_store z)"
proof (induction rule: store_step.induct)
  case (submit e y)
  then show ?case by (simp add: record_event_inv event_valid_aware)
next
  case (evict y n s)
  then have "s = evicted (sys_store y) (fixed_clock_now (sys_clock y))"
    by (simp add: evict_expired_eq evicted_def store_inv_def)
  with evict show ?case by (simp add: store_inv_evicted)
qed (simp_all add: store_inv_reset)

lemma store_reachable_inv: "store_reachable y \<Longrightarrow> store_inv (sys_store y)"
  by (induction rule: store_reachable.induct) (auto simp: store_inv_init intro: store_step_inv)

lemma store_inv_distinct_ids: "store_inv s \<Longrightarrow> distinct (map event_id (retained_events s))"
proof -
  assume "store_inv s"
  then have "map event_id (retained_events s) = map fst (es_records s)" and "dict_ok (es_records s)"
    by (auto simp: retained_events_def store_inv_def)
  then show ?thesis by simp
qed

lemma store_inv_len: "store_inv s \<Longrightarrow> int (store_len s) \<le> es_max_events s"
  by (simp add: store_inv_def store_len_def)

lemma store_inv_retained:
  assumes "store_inv s" and "e \<in> set (retained_events s)"
  shows "store_get s (event_id e) = Some e \<and>
    (\<exists>w. es_watermark s = Some w \<and> event_instant e \<le> dt_instant w)"
proof -
  obtain k r where kr: "(k, r) \<in> set (es_records s)" "e = sr_event r"
    using assms(2) by (auto simp: retained_events_def)
  have "dict_ok (es_records s)" "event_id e = k"
    "\<exists>w. es_watermark s = Some w \<and> event_instant e \<le> dt_instant w"
    using assms(1) kr by (auto simp: store_inv_def)
  with kr show ?thesis by (simp add: store_get_def)
qed

text \<open>
  C16. Every state of the store that submissions, expiry and resets reach under a \<open>FixedClock\<close>,
  which may be advanced and set to any time, earlier ones too, is well formed: event ids are
  unique keys that name the stored event, the capacity bound holds, and no retained
  event is ahead of the watermark.
\<close>

theorem store_reachable_well_formed:
  "store_reachable y \<Longrightarrow>
     distinct (map event_id (retained_events (sys_store y))) \<and>
     int (store_len (sys_store y)) \<le> es_max_events (sys_store y) \<and>
     (\<forall>e \<in> set (retained_events (sys_store y)).
        store_get (sys_store y) (event_id e) = Some e \<and>
        (\<exists>w. es_watermark (sys_store y) = Some w \<and> event_instant e \<le> dt_instant w))"
proof -
  assume "store_reachable y"
  then have inv: "store_inv (sys_store y)" by (rule store_reachable_inv)
  have "store_get (sys_store y) (event_id e) = Some e \<and>
      (\<exists>w. es_watermark (sys_store y) = Some w \<and> event_instant e \<le> dt_instant w)"
    if "e \<in> set (retained_events (sys_store y))" for e
    using inv that by (rule store_inv_retained)
  with inv show ?thesis by (simp add: store_inv_distinct_ids store_inv_len)
qed

section \<open>Idempotency\<close>

lemma event_eq_instant: "event_eq a b \<Longrightarrow> event_instant a = event_instant b"
  by (simp add: event_eq_def)

lemma evicted_lookup:
  "store_inv s \<Longrightarrow> map_of (es_records (evicted s now)) k = Some r \<longleftrightarrow>
     map_of (es_records s) k = Some r \<and> dt_instant now - es_retention s \<le> event_instant (sr_event r)"
  by (simp add: map_of_filter_Some store_inv_def unexpired_def)

text \<open>A submission that returned a result left its stored event in the store.\<close>

lemma record_event_stored:
  assumes "store_inv s" and "record_event s now e = (Inr r, s1)"
  shows "map_of (es_records s1) (event_id e) =
      Some \<lparr>sr_event = rr_stored_event r, sr_ordering_status = rr_ordering_status r\<rparr> \<and>
    event_eq (rr_stored_event r) e \<and> es_retention s1 = es_retention s"
proof (cases "dt_add now (- es_retention s)")
  case (Inl x)
  then show ?thesis using assms(2) by (simp add: record_event_expiry_fails)
next
  case (Inr c)
  show ?thesis
  proof (cases "map_of (es_records (evicted s now)) (event_id e)")
    case None
    then have "map_of (drop n (es_records (evicted s now))) (event_id e) = None" for n
      by (rule map_of_drop_None)
    then show ?thesis
      using assms(2) record_event_new [OF assms(1) Inr None] by (auto simp: map_add_def)
  next
    case (Some q)
    then show ?thesis
      using assms(2) record_event_known [OF assms(1) Inr Some] by (auto split: if_splits)
  qed
qed

text \<open>
  Idempotent retry: after any accepted submission, resubmitting an equal payload
  while the event is inside the retention window replays the original ordering
  classification and the originally stored event as a duplicate, and the store only
  loses its expired records; the classification is never recomputed against a newer
  watermark.
\<close>

theorem resubmission_replays_original:
  assumes "store_inv s" and "aware (event_time e)" and "record_event s now e = (Inr r, s1)"
    and "dt_add now' (- es_retention s) = Inr c"
    and "dt_instant now' - es_retention s \<le> event_instant e" and "event_eq e e'"
  shows "record_event s1 now' e' =
    (Inr \<lparr>rr_duplicate_status = Duplicate, rr_ordering_status = rr_ordering_status r,
          rr_stored_event = rr_stored_event r\<rparr>, evicted s1 now')"
proof -
  have inv: "store_inv s1" using record_event_inv [OF assms(1,2), of now] assms(3) by simp
  have st: "map_of (es_records s1) (event_id e') =
      Some \<lparr>sr_event = rr_stored_event r, sr_ordering_status = rr_ordering_status r\<rparr>"
    "event_eq (rr_stored_event r) e" "es_retention s1 = es_retention s"
    using record_event_stored [OF assms(1,3)] event_eq_id [OF assms(6)] by auto
  have "map_of (es_records (evicted s1 now')) (event_id e') =
      Some \<lparr>sr_event = rr_stored_event r, sr_ordering_status = rr_ordering_status r\<rparr>"
    using st assms(5) event_eq_instant [OF st(2)] unfolding evicted_lookup [OF inv] by simp
  moreover have "event_eq (rr_stored_event r) e'" using st(2) assms(6) by (rule event_eq_trans)
  moreover have "dt_add now' (- es_retention s1) = Inr c" using assms(4) st(3) by simp
  ultimately show ?thesis by (simp add: record_event_known [OF inv])
qed

text \<open>
  A payload conflict is never resolved silently: reusing the id of a retained event
  for a different payload raises \<open>DuplicateEventConflictError\<close>, keeps the stored event
  and changes nothing but the removal of expired records.
\<close>

theorem payload_conflict_refused:
  assumes "store_inv s" and "dt_add now (- es_retention s) = Inr c"
    and "store_get s (event_id e) = Some old" and "dt_instant now - es_retention s \<le> event_instant old"
    and "\<not> event_eq old e"
  shows "\<exists>msg. record_event s now e = (Inl (PyError ''DuplicateEventConflictError'' msg), evicted s now) \<and>
           store_get (evicted s now) (event_id e) = Some old"
proof -
  obtain r where "map_of (es_records s) (event_id e) = Some r" "sr_event r = old"
    using assms(3) by (auto simp: store_get_def split: option.splits)
  then have "map_of (es_records (evicted s now)) (event_id e) = Some r"
    unfolding evicted_lookup [OF assms(1)] using assms(4) by simp
  then show ?thesis
    using \<open>sr_event r = old\<close> assms(5)
    by (simp add: record_event_known [OF assms(1,2)] store_get_def)
qed

section \<open>Ordering and capacity\<close>

lemma record_event_watermark:
  assumes "store_inv s" and "record_event s now e = (r, s1)"
  shows "(\<exists>w. es_watermark s1 = Some w \<and> x < dt_instant w) \<longleftrightarrow>
    (\<exists>w. es_watermark s = Some w \<and> x < dt_instant w) \<or> ((\<exists>q. r = Inr q) \<and> x < event_instant e)"
proof (cases "dt_add now (- es_retention s)")
  case (Inl y)
  then show ?thesis using assms(2) by (auto simp: record_event_expiry_fails)
next
  case (Inr c)
  show ?thesis
  proof (cases "map_of (es_records (evicted s now)) (event_id e)")
    case None
    then show ?thesis
      using assms(2) record_event_new [OF assms(1) Inr None]
      by (auto simp: raise_watermark_def split: option.splits if_splits)
  next
    case (Some q)
    then have "sr_event q \<in> set (retained_events s)"
      unfolding evicted_lookup [OF assms(1)] by (force simp: retained_events_def dest: map_of_SomeD)
    then obtain w where "es_watermark s = Some w" "event_instant (sr_event q) \<le> dt_instant w"
      using store_inv_retained [OF assms(1)] by blast
    then show ?thesis
      using assms(2) record_event_known [OF assms(1) Inr Some]
      by (auto simp: evicted_def dest: event_eq_instant split: if_splits)
  qed
qed

lemma record_event_ordering:
  assumes "store_inv s" and "record_event s now e = (Inr q, s1)" and "rr_duplicate_status q = New"
  shows "rr_ordering_status q = Late \<longleftrightarrow> (\<exists>w. es_watermark s = Some w \<and> event_instant e < dt_instant w)"
proof (cases "dt_add now (- es_retention s)")
  case (Inl y)
  then show ?thesis using assms(2) by (simp add: record_event_expiry_fails)
next
  case (Inr c)
  show ?thesis
  proof (cases "map_of (es_records (evicted s now)) (event_id e)")
    case None
    then show ?thesis
      using assms(2) record_event_new [OF assms(1) Inr None]
      by (auto simp: late_against_def split: option.splits if_splits)
  next
    case (Some p)
    then show ?thesis
      using assms(2,3) record_event_known [OF assms(1) Inr Some] by (auto split: if_splits)
  qed
qed

lemma store_run_late_gen:
  assumes "store_inv s" and "\<forall>(now, e) \<in> set xs. aware (event_time e)" and "store_run s xs = (rs, s')"
    and "i < length xs" and "rs ! i = Inr q" and "rr_duplicate_status q = New"
  shows "rr_ordering_status q = Late \<longleftrightarrow>
    (\<exists>w. es_watermark s = Some w \<and> event_instant (snd (xs ! i)) < dt_instant w) \<or>
    (\<exists>j<i. (\<exists>p. rs ! j = Inr p) \<and> event_instant (snd (xs ! i)) < event_instant (snd (xs ! j)))"
  using assms
proof (induction xs arbitrary: s rs i s')
  case (Cons x xs)
  obtain now e where x: "x = (now, e)" by (cases x)
  obtain r s1 where r: "record_event s now e = (r, s1)" by (cases "record_event s now e")
  obtain rs1 s2 where run: "store_run s1 xs = (rs1, s2)" by (cases "store_run s1 xs")
  have rs: "rs = r # rs1" using Cons.prems(3) by (simp add: x r run)
  have inv: "store_inv s1"
    using record_event_inv [OF Cons.prems(1), of e now] Cons.prems(2) r by (auto simp: x)
  show ?case
  proof (cases i)
    case 0
    then show ?thesis
      using record_event_ordering [OF Cons.prems(1)] Cons.prems(5,6) r by (simp add: rs x)
  next
    case (Suc i')
    have "rr_ordering_status q = Late \<longleftrightarrow>
        (\<exists>w. es_watermark s1 = Some w \<and> event_instant (snd (xs ! i')) < dt_instant w) \<or>
        (\<exists>j<i'. (\<exists>p. rs1 ! j = Inr p) \<and> event_instant (snd (xs ! i')) < event_instant (snd (xs ! j)))"
      using Cons.IH [OF inv _ run] Cons.prems Suc by (auto simp: rs)
    then show ?thesis
      unfolding record_event_watermark [OF Cons.prems(1) r]
      by (simp add: Suc rs x Ex_less_Suc2 disj_ac)
  qed
qed simp

text \<open>
  C8. Late means late: in any sequence of submissions to a fresh store, a newly recorded
  event is classified \<open>late\<close> exactly when an earlier accepted submission carried a
  strictly later event time, whatever was evicted in between.
\<close>

theorem late_iff_behind_an_earlier_event:
  assumes "store_init r m = Inr s" and "\<forall>(now, e) \<in> set xs. aware (event_time e)"
    and "store_run s xs = (rs, s')" and "i < length xs" and "rs ! i = Inr q"
    and "rr_duplicate_status q = New"
  shows "rr_ordering_status q = Late \<longleftrightarrow>
    (\<exists>j<i. (\<exists>p. rs ! j = Inr p) \<and> event_instant (snd (xs ! i)) < event_instant (snd (xs ! j)))"
proof -
  have "es_watermark s = None" using assms(1) by (auto simp: store_init_def split: if_splits)
  then show ?thesis using store_run_late_gen [OF store_inv_init [OF assms(1)] assms(2-)] by simp
qed

text \<open>
  Capacity eviction is first in, first out and never drops the event just recorded:
  after a new submission the store holds the unexpired events in arrival order, less the
  oldest arrivals needed to respect the bound, followed by the new event.
\<close>

theorem capacity_is_fifo:
  assumes "store_inv s" and "record_event s now e = (Inr q, s1)" and "rr_duplicate_status q = New"
  shows "retained_events s1 =
    drop (Suc (length (retained_events (evicted s now))) - nat (es_max_events s))
         (retained_events (evicted s now)) @ [e]"
proof (cases "dt_add now (- es_retention s)")
  case (Inl y)
  then show ?thesis using assms(2) by (simp add: record_event_expiry_fails)
next
  case (Inr c)
  show ?thesis
  proof (cases "map_of (es_records (evicted s now)) (event_id e)")
    case None
    then show ?thesis
      using assms(2) record_event_new [OF assms(1) Inr None]
      by (auto simp: retained_events_def drop_map)
  next
    case (Some p)
    then show ?thesis
      using assms(2,3) record_event_known [OF assms(1) Inr Some] by (auto split: if_splits)
  qed
qed

section \<open>The history interface the feature families read\<close>

text \<open>
  What a client of the store may rely on: a query with aware, ordered bounds returns the
  retained events between them, both ends included, in stable event-time order.
\<close>

locale event_history =
  fixes history :: "'s \<Rightarrow> synthetic_event list"
    and query :: "'s \<Rightarrow> pydatetime \<Rightarrow> pydatetime \<Rightarrow> py_exc + synthetic_event list"
    and wf :: "'s \<Rightarrow> bool"
  assumes query_ok: "aware a \<Longrightarrow> aware b \<Longrightarrow> dt_instant a \<le> dt_instant b \<Longrightarrow>
      query s a b = Inr (sort_key event_instant
        (filter (\<lambda>e. dt_instant a \<le> event_instant e \<and> event_instant e \<le> dt_instant b) (history s)))"
    and query_refuses: "\<not> aware a \<or> \<not> aware b \<or> dt_instant b < dt_instant a \<Longrightarrow>
      \<exists>m. query s a b = Inl (ValueError m)"
    and ids_unique: "wf s \<Longrightarrow> distinct (map event_id (history s))"
begin

lemma query_exact:
  assumes "query s a b = Inr es"
  shows "sorted (map event_instant es) \<and>
    mset es = filter_mset (\<lambda>e. dt_instant a \<le> event_instant e \<and> event_instant e \<le> dt_instant b)
                (mset (history s))"
proof -
  have "aware a" "aware b" "dt_instant a \<le> dt_instant b"
    using assms query_refuses [of a b s] by force+
  then show ?thesis using assms query_ok [of a b s] by (auto simp: mset_filter)
qed

lemma lookback_ok:
  assumes "aware (event_time e)" and "0 \<le> d" and "dt_add (event_time e) (- d) = Inr c"
  shows "res_bind (dt_add (event_time e) (- d)) (\<lambda>st. query s st (event_time e)) =
    Inr (sort_key event_instant
      (filter (\<lambda>x. event_instant e - d \<le> event_instant x \<and> event_instant x \<le> event_instant e) (history s)))"
  using dt_add_Inr [OF assms(3)] assms query_ok [of c "event_time e" s] by simp

lemma lookback_same_event:
  assumes "wf s" and "e \<in> set (history s)" and "x \<in> set (history s)" and "event_id x = event_id e"
  shows "x = e"
  using ids_unique [OF assms(1)] assms(2-4) by (simp add: distinct_map inj_on_def)

end

interpretation store_history: event_history retained_events events_in_range store_inv
proof
  fix a b s
  have vals: "[sr_event r. (_, r) \<leftarrow> es_records s, P (sr_event r)] = filter P (retained_events s)" for P
    by (simp only: comprehension_values) (simp add: retained_events_def filter_map comp_def case_prod_unfold)
  show "aware a \<Longrightarrow> aware b \<Longrightarrow> dt_instant a \<le> dt_instant b \<Longrightarrow>
    events_in_range s a b = Inr (sort_key event_instant
      (filter (\<lambda>e. dt_instant a \<le> event_instant e \<and> event_instant e \<le> dt_instant b) (retained_events s)))"
    using vals [of "\<lambda>e. dt_instant a \<le> event_instant e \<and> event_instant e \<le> dt_instant b"]
    by (simp add: events_in_range_def Let_def)
  show "\<not> aware a \<or> \<not> aware b \<or> dt_instant b < dt_instant a \<Longrightarrow>
    \<exists>m. events_in_range s a b = Inl (ValueError m)"
    by (auto simp: events_in_range_def require_timezone_aware_def aware_def)
qed (rule store_inv_distinct_ids)

text \<open>
  A range query that returns is exact: its result is in event-time order and holds
  precisely the retained events whose time lies between the two bounds, both included,
  each as often as the store holds it.
\<close>

theorem events_in_range_exact:
  "events_in_range s a b = Inr es \<Longrightarrow>
     sorted (map event_instant es) \<and>
     mset es = filter_mset (\<lambda>e. dt_instant a \<le> event_instant e \<and> event_instant e \<le> dt_instant b)
                 (mset (retained_events s))"
  by (rule store_history.query_exact)

section \<open>Concrete runs\<close>

definition sample_event :: "string \<Rightarrow> string \<Rightarrow> int \<Rightarrow> synthetic_event" where
  "sample_event eid acct sec =
     \<lparr>event_id = eid, event_time = utc (946684800000000 + seconds sec), account_id = acct,
      device_id = ''syn_dev_1'', payment_method_id = ''syn_pm_1'', merchant_id = ''syn_mer_1'',
      address_id = ''syn_addr_1'', ip_id = ''syn_ip_1'', amount = Fin 100, ev_currency = INR,
      ev_outcome = Success, account_country = ''IN'', event_country = ''IN'', event_region = ''APAC'',
      billing_shipping_match = True, vpn_or_proxy = False, retry_group_id = None\<rparr>"

definition sample_now :: "int \<Rightarrow> pydatetime" where
  "sample_now sec = utc (946684800000000 + seconds sec)"

definition sample_store :: event_store where
  "sample_store = \<lparr>es_retention = seconds 3600, es_max_events = 2, es_records = [], es_watermark = None\<rparr>"

lemmas sample_simps = sample_event_def sample_now_def sample_store_def seconds_def utc_def

lemma sample_store_init: "store_init (seconds 3600) 2 = Inr sample_store"
  by (simp add: store_init_def sample_simps MIN_MAX_EVENTS_def)

lemma sample_store_inv: "store_inv sample_store"
  using sample_store_init by (rule store_inv_init)

lemma sample_event_aware: "aware (event_time (sample_event i a t))"
  by (simp add: sample_event_def)

theorem late_iff_behind_an_earlier_event_witness:
  "\<exists>rs s' q. store_run sample_store
       [(sample_now 0, sample_event ''evt_a'' ''syn_acct_1'' 10), (sample_now 1, sample_event ''evt_b'' ''syn_acct_1'' 5)] = (rs, s') \<and>
     rs ! 1 = Inr q \<and> rr_duplicate_status q = New \<and> rr_ordering_status q = Late"
proof -
  let ?xs = "[(sample_now 0, sample_event ''evt_a'' ''syn_acct_1'' 10), (sample_now 1, sample_event ''evt_b'' ''syn_acct_1'' 5)]"
  obtain rs s' where run: "store_run sample_store ?xs = (rs, s')" by (cases "store_run sample_store ?xs")
  have "fst (store_run sample_store ?xs) ! 0 =
      Inr \<lparr>rr_duplicate_status = New, rr_ordering_status = InOrder, rr_stored_event = sample_event ''evt_a'' ''syn_acct_1'' 10\<rparr>"
    by code_simp
  moreover have "case fst (store_run sample_store ?xs) ! 1 of Inl _ \<Rightarrow> False | Inr q \<Rightarrow> rr_duplicate_status q = New"
    by code_simp
  ultimately obtain q p where q: "rs ! 1 = Inr q" "rr_duplicate_status q = New" and p: "rs ! 0 = Inr p"
    using run by (auto split: sum.splits)
  have aw: "\<forall>(now, e) \<in> set ?xs. aware (event_time e)" by (simp add: sample_event_aware)
  have "rr_ordering_status q = Late"
    using p by (subst late_iff_behind_an_earlier_event [OF sample_store_init aw run _ q])
       (auto simp: sample_simps dt_instant_def)
  with run q show ?thesis by blast
qed

theorem events_in_range_exact_witness:
  "\<exists>es. events_in_range (snd (record_event sample_store (sample_now 0) (sample_event ''evt_a'' ''syn_acct_1'' 10)))
          (sample_now 0) (sample_now 60) = Inr es \<and> sorted (map event_instant es) \<and> es \<noteq> []"
proof -
  let ?s = "snd (record_event sample_store (sample_now 0) (sample_event ''evt_a'' ''syn_acct_1'' 10))"
  have q: "events_in_range ?s (sample_now 0) (sample_now 60) = Inr [sample_event ''evt_a'' ''syn_acct_1'' 10]"
    by code_simp
  show ?thesis using q events_in_range_exact [OF q] by blast
qed

theorem resubmission_replays_original_witness:
  "\<exists>s1. record_event s1 (sample_now 5) (sample_event ''evt_a'' ''syn_acct_1'' 10) =
     (Inr \<lparr>rr_duplicate_status = Duplicate, rr_ordering_status = InOrder,
           rr_stored_event = sample_event ''evt_a'' ''syn_acct_1'' 10\<rparr>, evicted s1 (sample_now 5))"
proof -
  let ?e = "sample_event ''evt_a'' ''syn_acct_1'' 10"
  let ?r = "\<lparr>rr_duplicate_status = New, rr_ordering_status = InOrder, rr_stored_event = ?e\<rparr>"
  obtain s1 where r: "record_event sample_store (sample_now 0) ?e = (Inr ?r, s1)"
  proof -
    have "fst (record_event sample_store (sample_now 0) ?e) = Inr ?r" by code_simp
    then show thesis using that by (metis prod.collapse)
  qed
  have c: "dt_add (sample_now 5) (- es_retention sample_store) = Inr (sample_now (5 - 3600))"
    by code_simp
  have t: "dt_instant (sample_now 5) - es_retention sample_store \<le> event_instant ?e" by code_simp
  show ?thesis
    using resubmission_replays_original [OF sample_store_inv sample_event_aware r c t event_eq_refl]
    by auto
qed

theorem payload_conflict_refused_witness:
  "\<exists>s1 msg. record_event s1 (sample_now 5) (sample_event ''evt_a'' ''syn_acct_2'' 10) =
     (Inl (PyError ''DuplicateEventConflictError'' msg), evicted s1 (sample_now 5))"
proof -
  let ?e = "sample_event ''evt_a'' ''syn_acct_1'' 10"
  let ?f = "sample_event ''evt_a'' ''syn_acct_2'' 10"
  let ?s = "snd (record_event sample_store (sample_now 0) ?e)"
  have inv: "store_inv ?s" using sample_store_inv sample_event_aware by (rule record_event_inv)
  have c: "dt_add (sample_now 5) (- es_retention ?s) = Inr (sample_now (5 - 3600))" by code_simp
  have g: "store_get ?s (event_id ?f) = Some ?e" by code_simp
  have t: "dt_instant (sample_now 5) - es_retention ?s \<le> event_instant ?e" by code_simp
  have n: "\<not> event_eq ?e ?f" by code_simp
  show ?thesis using payload_conflict_refused [OF inv c g t n] by blast
qed

theorem capacity_is_fifo_witness:
  "\<exists>s1. retained_events s1 =
     [sample_event ''evt_b'' ''syn_acct_1'' 20, sample_event ''evt_c'' ''syn_acct_1'' 30]"
proof -
  let ?a = "sample_event ''evt_a'' ''syn_acct_1'' 10"
  let ?b = "sample_event ''evt_b'' ''syn_acct_1'' 20"
  let ?c = "sample_event ''evt_c'' ''syn_acct_1'' 30"
  let ?s = "snd (record_event (snd (record_event sample_store (sample_now 0) ?a)) (sample_now 0) ?b)"
  have inv: "store_inv ?s"
    by (intro record_event_inv sample_store_inv sample_event_aware)
  obtain q s1 where r: "record_event ?s (sample_now 0) ?c = (Inr q, s1)" "rr_duplicate_status q = New"
  proof -
    have "case fst (record_event ?s (sample_now 0) ?c) of Inl _ \<Rightarrow> False | Inr q \<Rightarrow> rr_duplicate_status q = New"
      by code_simp
    then show thesis using that by (cases "record_event ?s (sample_now 0) ?c") (auto split: sum.splits)
  qed
  have "drop (Suc (length (retained_events (evicted ?s (sample_now 0)))) - nat (es_max_events ?s))
         (retained_events (evicted ?s (sample_now 0))) = [?b]"
    by code_simp
  then show ?thesis using capacity_is_fifo [OF inv r] by auto
qed

text \<open>Two submissions, the clock set back between them, in a store of two events.\<close>

theorem store_reachable_well_formed_witness:
  "\<exists>y. store_reachable y \<and> fixed_clock_now (sys_clock y) = sample_now (-60) \<and>
     retained_events (sys_store y) = [sample_event ''evt_a'' ''syn_acct_1'' 10, sample_event ''evt_b'' ''syn_acct_1'' 5] \<and>
     store_get (sys_store y) ''evt_b'' = Some (sample_event ''evt_b'' ''syn_acct_1'' 5) \<and> store_len (sys_store y) \<le> 2"
proof -
  let ?a = "sample_event ''evt_a'' ''syn_acct_1'' 10"
  let ?b = "sample_event ''evt_b'' ''syn_acct_1'' 5"
  let ?c = "\<lambda>t. \<lparr>fc_current = sample_now t\<rparr>"
  let ?s = "snd (record_event sample_store (sample_now 0) ?a)"
  let ?t = "snd (record_event ?s (sample_now (-60)) ?b)"
  have v: "event_valid ?a" "event_valid ?b" by code_simp+
  have "fixed_clock_init (sample_now 0) = Inr (?c 0)" by code_simp
  then have "store_reachable \<lparr>sys_clock = ?c 0, sys_store = sample_store\<rparr>"
    using sample_store_init by (rule store_reachable.start)
  then have "store_reachable \<lparr>sys_clock = ?c 0, sys_store = ?s\<rparr>"
    using store_step.submit [OF v(1), of "\<lparr>sys_clock = ?c 0, sys_store = sample_store\<rparr>"] store_reachable.step
    by (simp add: fixed_clock_now_def)
  moreover have "fixed_clock_set (?c 0) (sample_now (-60)) = Inr (?c (-60))" by code_simp
  ultimately have "store_reachable \<lparr>sys_clock = ?c (-60), sys_store = ?s\<rparr>"
    using store_step.set_clock [of "\<lparr>sys_clock = ?c 0, sys_store = ?s\<rparr>"] store_reachable.step by fastforce
  then have r: "store_reachable \<lparr>sys_clock = ?c (-60), sys_store = ?t\<rparr>"
    using store_step.submit [OF v(2), of "\<lparr>sys_clock = ?c (-60), sys_store = ?s\<rparr>"] store_reachable.step
    by (simp add: fixed_clock_now_def)
  have e: "retained_events ?t = [?a, ?b]" "event_id ?b = ''evt_b''" "es_max_events ?t = 2" by code_simp+
  from store_reachable_well_formed [OF r] e
  have "store_get ?t ''evt_b'' = Some ?b" "store_len ?t \<le> 2" by auto
  with r e show ?thesis by (intro exI [of _ "\<lparr>sys_clock = ?c (-60), sys_store = ?t\<rparr>"]) (simp add: fixed_clock_now_def)
qed

end
