(* ===== verification/Windows.thy ===== *)
theory Windows
  imports Event_Store
begin

text \<open>
  \<open>src/src/synthetic_realtime/windows.py\<close>: event-time windows over a sequence of events.
  A window is the closed interval from \<open>as_of - duration\<close> to \<open>as_of\<close>.
\<close>

definition WINDOW_DURATIONS :: "(string, timedelta) dict" where
  "WINDOW_DURATIONS = [(''1m'', seconds 60), (''1h'', seconds 3600), (''24h'', seconds (24 * 3600))]"

record window_bounds_t =
  wb_start :: pydatetime
  wb_end :: pydatetime

definition window_bounds :: "pydatetime \<Rightarrow> string \<Rightarrow> py_exc + window_bounds_t" where
  "window_bounds as_of window =
     res_bind (require_timezone_aware as_of ''as_of'') (\<lambda>_.
       case map_of WINDOW_DURATIONS window of
         None \<Rightarrow> Inl (ValueError (''Unknown window '' @ repr_str window @ ''. Known windows: ('' @
           join '', '' (map (repr_str \<circ> fst) WINDOW_DURATIONS) @ '').''))
       | Some duration \<Rightarrow>
           res_bind (dt_add as_of (- duration)) (\<lambda>st. Inr \<lparr>wb_start = st, wb_end = as_of\<rparr>))"

definition select_window_events ::
  "synthetic_event list \<Rightarrow> pydatetime \<Rightarrow> string \<Rightarrow> py_exc + synthetic_event list" where
  "select_window_events events as_of window =
     res_bind (window_bounds as_of window) (\<lambda>b.
       let matching = filter (\<lambda>e. dt_instant (wb_start b) \<le> event_instant e \<and>
                                  event_instant e \<le> dt_instant (wb_end b)) events
       in Inr (sort_key event_instant matching))"

record window_counts_t =
  count_1m :: nat
  count_1h :: nat
  count_24h :: nat

definition event_count :: "synthetic_event list \<Rightarrow> nat" where
  "event_count events = length events"

definition window_counts :: "synthetic_event list \<Rightarrow> pydatetime \<Rightarrow> py_exc + window_counts_t" where
  "window_counts events as_of =
     res_bind (require_timezone_aware as_of ''as_of'') (\<lambda>_.
     res_bind (select_window_events events as_of ''1m'') (\<lambda>a.
     res_bind (select_window_events events as_of ''1h'') (\<lambda>b.
     res_bind (select_window_events events as_of ''24h'') (\<lambda>c.
       Inr \<lparr>count_1m = event_count a, count_1h = event_count b, count_24h = event_count c\<rparr>))))"

definition sum_amount :: "synthetic_event list \<Rightarrow> pyfloat" where
  "sum_amount events = py_sum (map amount events)"

definition mean_amount :: "synthetic_event list \<Rightarrow> py_exc + pyfloat" where
  "mean_amount events =
     (if events = [] then Inr (Fin 0)
      else fdiv (sum_amount events) (float_of_int (int (length events))))"

definition max_amount :: "synthetic_event list \<Rightarrow> pyfloat" where
  "max_amount events =
     (case events of [] \<Rightarrow> Fin 0 | e # es \<Rightarrow> foldl fmax (amount e) (map amount es))"

definition distinct_count :: "synthetic_event list \<Rightarrow> (synthetic_event \<Rightarrow> string) \<Rightarrow> nat" where
  "distinct_count events key = card (set (map key events))"

section \<open>Facts\<close>

lemma window_durations [simp]:
  "map_of WINDOW_DURATIONS ''1m'' = Some (seconds 60)"
  "map_of WINDOW_DURATIONS ''1h'' = Some (seconds 3600)"
  "map_of WINDOW_DURATIONS ''24h'' = Some (seconds (24 * 3600))"
  by (simp_all add: WINDOW_DURATIONS_def)

lemma window_bounds_Inr:
  "window_bounds as_of window = Inr b \<Longrightarrow>
     \<exists>d. map_of WINDOW_DURATIONS window = Some d \<and> aware as_of \<and> aware (wb_start b) \<and>
         dt_instant (wb_start b) = dt_instant as_of - d \<and> wb_end b = as_of"
  by (auto simp: window_bounds_def res_bind_Inr_iff require_timezone_aware_iff
      dest: dt_add_Inr split: option.splits)

lemma window_duration_pos: "map_of WINDOW_DURATIONS window = Some d \<Longrightarrow> 0 < d"
  by (auto simp: WINDOW_DURATIONS_def seconds_def split: if_splits)

lemma select_window_events_Inr:
  assumes "select_window_events events as_of window = Inr es"
  shows "\<exists>d. map_of WINDOW_DURATIONS window = Some d \<and>
    es = sort_key event_instant (filter (\<lambda>e. dt_instant as_of - d \<le> event_instant e \<and>
                                            event_instant e \<le> dt_instant as_of) events)"
  using assms by (auto simp: select_window_events_def res_bind_Inr_iff Let_def dest!: window_bounds_Inr)

lemma distinct_count_le: "distinct_count events key \<le> length events"
  unfolding distinct_count_def by (rule card_set_map_le)

lemma distinct_count_pos: "e \<in> set events \<Longrightarrow> 1 \<le> distinct_count events key"
  unfolding distinct_count_def using card_gt_0_iff [of "set (map key events)"] by force

lemma sum_amount_single [simp]: "sum_amount [e] = amount e"
  by (simp add: sum_amount_def py_sum_def neumaier_result_def)

text \<open>
  C17. The two layers never disagree about a boundary event: selecting a window from all
  retained events gives exactly the list the store's own range query returns for the
  window's bounds.
\<close>

theorem window_agrees_with_store:
  assumes "window_bounds as_of window = Inr b"
  shows "select_window_events (retained_events s) as_of window =
         events_in_range s (wb_start b) (wb_end b)"
proof -
  obtain d where d: "map_of WINDOW_DURATIONS window = Some d" "aware as_of" "aware (wb_start b)"
    "dt_instant (wb_start b) = dt_instant as_of - d" "wb_end b = as_of"
    using window_bounds_Inr [OF assms] by blast
  have "dt_instant (wb_start b) \<le> dt_instant (wb_end b)"
    using d window_duration_pos [OF d(1)] by simp
  then show ?thesis
    using d store_history.query_ok [of "wb_start b" "wb_end b" s]
    by (simp add: select_window_events_def assms Let_def)
qed

theorem window_agrees_with_store_witness:
  "select_window_events (retained_events sample_store) (sample_now 60) ''1m'' =
     events_in_range sample_store (sample_now 0) (sample_now 60)"
proof -
  have b: "window_bounds (sample_now 60) ''1m'' = Inr \<lparr>wb_start = sample_now 0, wb_end = sample_now 60\<rparr>"
    by code_simp
  show ?thesis using window_agrees_with_store [OF b, of sample_store] by simp
qed

text \<open>
  Velocity windows nest: whenever the three counts are produced, the one-minute count
  is at most the one-hour count, which is at most the 24-hour count, and none exceeds the
  number of events given.
\<close>

theorem window_counts_nest:
  assumes "window_counts events as_of = Inr c"
  shows "count_1m c \<le> count_1h c \<and> count_1h c \<le> count_24h c \<and> count_24h c \<le> length events"
proof -
  have "c = \<lparr>count_1m = length (filter (\<lambda>e. dt_instant as_of - seconds 60 \<le> event_instant e \<and> event_instant e \<le> dt_instant as_of) events),
      count_1h = length (filter (\<lambda>e. dt_instant as_of - seconds 3600 \<le> event_instant e \<and> event_instant e \<le> dt_instant as_of) events),
      count_24h = length (filter (\<lambda>e. dt_instant as_of - seconds (24 * 3600) \<le> event_instant e \<and> event_instant e \<le> dt_instant as_of) events)\<rparr>"
    using assms
    by (auto simp: window_counts_def res_bind_Inr_iff event_count_def dest!: select_window_events_Inr)
  then show ?thesis by (auto simp: seconds_def intro!: length_filter_imp)
qed

theorem window_counts_nest_witness:
  "\<exists>c. window_counts [sample_event ''evt_a'' ''syn_acct_1'' 10, sample_event ''evt_b'' ''syn_acct_1'' 5000]
          (sample_now 5030) = Inr c \<and> count_1m c \<le> count_1h c \<and> count_1h c \<le> count_24h c"
proof -
  have c: "window_counts [sample_event ''evt_a'' ''syn_acct_1'' 10, sample_event ''evt_b'' ''syn_acct_1'' 5000]
          (sample_now 5030) = Inr \<lparr>count_1m = 1, count_1h = 1, count_24h = 2\<rparr>"
    by code_simp
  show ?thesis using c window_counts_nest [OF c] by blast
qed

end
