(* ===== verification/Feature_Families.thy ===== *)
theory Feature_Families
  imports Windows
begin

text \<open>
  \<open>src/src/synthetic_realtime/features/\<close>: the eight feature families. Each reads the
  store's history back from the event's time, builds its window features and constructs
  its signals one by one; a signal whose constructor rejects its text raises, so every
  family returns a result or an exception. The eight result classes have the same two
  fields and share one record.
\<close>

record family_features =
  ff_triggered_signals :: "triggered_signal list"
  ff_window_features :: "(string, pyfloat) dict"

definition flag :: "bool \<Rightarrow> pyfloat" where
  "flag b = (if b then Fin 1 else Fin 0)"

definition float_of_nat :: "nat \<Rightarrow> pyfloat" where
  "float_of_nat n = float_of_int (int n)"

text \<open>The two lines every family starts with.\<close>

definition lookback_events :: "event_store \<Rightarrow> synthetic_event \<Rightarrow> string \<Rightarrow> py_exc + synthetic_event list" where
  "lookback_events s e window =
     (case map_of WINDOW_DURATIONS window of
        None \<Rightarrow> Inl (KeyError window)
      | Some d \<Rightarrow> res_bind (dt_add (event_time e) (- d)) (\<lambda>st. events_in_range s st (event_time e)))"

text \<open>Signals are appended in order, each under its condition, through the checking constructor.\<close>

definition emit :: "(bool \<times> triggered_signal) list \<Rightarrow> py_exc + triggered_signal list" where
  "emit candidates = res_map make_signal (map snd (filter fst candidates))"

section \<open>Device\<close>

definition DEVICE_FAN_OUT_LOOKBACK_HOURS :: nat where "DEVICE_FAN_OUT_LOOKBACK_HOURS = 24"
definition DEVICE_FAN_OUT_ACCOUNT_THRESHOLD :: nat where "DEVICE_FAN_OUT_ACCOUNT_THRESHOLD = 3"
definition NEW_DEVICE_CONTRIBUTION :: pyfloat where "NEW_DEVICE_CONTRIBUTION = fl (2/10)"
definition DEVICE_FAN_OUT_CONTRIBUTION :: pyfloat where "DEVICE_FAN_OUT_CONTRIBUTION = fl (3/10)"

definition compute_device_features :: "event_store \<Rightarrow> synthetic_event \<Rightarrow> py_exc + family_features" where
  "compute_device_features s e =
     res_bind (lookback_events s e ''24h'') (\<lambda>candidates.
     let device_events = filter (\<lambda>c. device_id c = device_id e) candidates;
         prior = filter (\<lambda>c. account_id c = account_id e \<and> event_id c \<noteq> event_id e) device_events;
         is_new = (length prior = 0);
         distinct_accounts = distinct_count device_events account_id;
         features = [(''device_new_to_account'', flag is_new),
                     (''device_fan_out_distinct_accounts_24h'', float_of_nat distinct_accounts)]
     in res_bind (emit
          [(is_new,
            \<lparr>reason_code = ''device_new_to_account'',
             description = ''This device has not been paired with this account before, in the '' @
                           ''synthetic history available.'',
             contribution = NEW_DEVICE_CONTRIBUTION\<rparr>),
           (distinct_accounts > DEVICE_FAN_OUT_ACCOUNT_THRESHOLD,
            \<lparr>reason_code = ''device_fan_out_high'',
             description = ''This device has been used by '' @ nat_str distinct_accounts @
                           '' distinct synthetic accounts in the last '' @ nat_str DEVICE_FAN_OUT_LOOKBACK_HOURS @
                           ''h, above the illustrative baseline of '' @
                           nat_str DEVICE_FAN_OUT_ACCOUNT_THRESHOLD @ ''.'',
             contribution = DEVICE_FAN_OUT_CONTRIBUTION\<rparr>)])
        (\<lambda>signals. Inr \<lparr>ff_triggered_signals = signals, ff_window_features = features\<rparr>))"

section \<open>Payment method\<close>

definition PAYMENT_METHOD_FAN_OUT_LOOKBACK_HOURS :: nat where "PAYMENT_METHOD_FAN_OUT_LOOKBACK_HOURS = 24"
definition PAYMENT_METHOD_FAN_OUT_ACCOUNT_THRESHOLD :: nat where "PAYMENT_METHOD_FAN_OUT_ACCOUNT_THRESHOLD = 3"
definition NEW_PAYMENT_METHOD_CONTRIBUTION :: pyfloat where "NEW_PAYMENT_METHOD_CONTRIBUTION = fl (2/10)"
definition PAYMENT_METHOD_FAN_OUT_CONTRIBUTION :: pyfloat where "PAYMENT_METHOD_FAN_OUT_CONTRIBUTION = fl (3/10)"

definition compute_payment_method_features :: "event_store \<Rightarrow> synthetic_event \<Rightarrow> py_exc + family_features" where
  "compute_payment_method_features s e =
     res_bind (lookback_events s e ''24h'') (\<lambda>candidates.
     let pm_events = filter (\<lambda>c. payment_method_id c = payment_method_id e) candidates;
         prior = filter (\<lambda>c. account_id c = account_id e \<and> event_id c \<noteq> event_id e) pm_events;
         is_new = (length prior = 0);
         distinct_accounts = distinct_count pm_events account_id;
         features = [(''payment_method_new_to_account'', flag is_new),
                     (''payment_method_fan_out_distinct_accounts_24h'', float_of_nat distinct_accounts)]
     in res_bind (emit
          [(is_new,
            \<lparr>reason_code = ''payment_method_new_to_account'',
             description = ''This payment method has not been paired with this account before, in '' @
                           ''the synthetic history available.'',
             contribution = NEW_PAYMENT_METHOD_CONTRIBUTION\<rparr>),
           (distinct_accounts > PAYMENT_METHOD_FAN_OUT_ACCOUNT_THRESHOLD,
            \<lparr>reason_code = ''payment_method_fan_out_high'',
             description = ''This payment method has been used by '' @ nat_str distinct_accounts @
                           '' distinct '' @ ''synthetic accounts in the last '' @
                           nat_str PAYMENT_METHOD_FAN_OUT_LOOKBACK_HOURS @ ''h, '' @
                           ''above the illustrative baseline of '' @
                           nat_str PAYMENT_METHOD_FAN_OUT_ACCOUNT_THRESHOLD @ ''.'',
             contribution = PAYMENT_METHOD_FAN_OUT_CONTRIBUTION\<rparr>)])
        (\<lambda>signals. Inr \<lparr>ff_triggered_signals = signals, ff_window_features = features\<rparr>))"

section \<open>Address\<close>

definition ADDRESS_FAN_OUT_LOOKBACK_HOURS :: nat where "ADDRESS_FAN_OUT_LOOKBACK_HOURS = 24"
definition ADDRESS_FAN_OUT_ACCOUNT_THRESHOLD :: nat where "ADDRESS_FAN_OUT_ACCOUNT_THRESHOLD = 3"
definition NEW_ADDRESS_CONTRIBUTION :: pyfloat where "NEW_ADDRESS_CONTRIBUTION = fl (2/10)"
definition ADDRESS_FAN_OUT_CONTRIBUTION :: pyfloat where "ADDRESS_FAN_OUT_CONTRIBUTION = fl (3/10)"
definition BILLING_SHIPPING_MISMATCH_CONTRIBUTION :: pyfloat where
  "BILLING_SHIPPING_MISMATCH_CONTRIBUTION = fl (15/100)"

definition compute_address_features :: "event_store \<Rightarrow> synthetic_event \<Rightarrow> py_exc + family_features" where
  "compute_address_features s e =
     res_bind (lookback_events s e ''24h'') (\<lambda>candidates.
     let address_events = filter (\<lambda>c. address_id c = address_id e) candidates;
         prior = filter (\<lambda>c. account_id c = account_id e \<and> event_id c \<noteq> event_id e) address_events;
         is_new = (length prior = 0);
         distinct_accounts = distinct_count address_events account_id;
         features = [(''address_new_to_account'', flag is_new),
                     (''address_fan_out_distinct_accounts_24h'', float_of_nat distinct_accounts),
                     (''address_billing_shipping_mismatch'',
                        (if billing_shipping_match e then Fin 0 else Fin 1))]
     in res_bind (emit
          [(is_new,
            \<lparr>reason_code = ''address_new_to_account'',
             description = ''This address has not been paired with this account before, in the '' @
                           ''synthetic history available.'',
             contribution = NEW_ADDRESS_CONTRIBUTION\<rparr>),
           (distinct_accounts > ADDRESS_FAN_OUT_ACCOUNT_THRESHOLD,
            \<lparr>reason_code = ''address_fan_out_high'',
             description = ''This address has been used by '' @ nat_str distinct_accounts @
                           '' distinct synthetic '' @ ''accounts in the last '' @
                           nat_str ADDRESS_FAN_OUT_LOOKBACK_HOURS @ ''h, above the '' @
                           ''illustrative baseline of '' @ nat_str ADDRESS_FAN_OUT_ACCOUNT_THRESHOLD @ ''.'',
             contribution = ADDRESS_FAN_OUT_CONTRIBUTION\<rparr>),
           (\<not> billing_shipping_match e,
            \<lparr>reason_code = ''address_billing_shipping_mismatch'',
             description = ''Billing and shipping addresses do not match for this synthetic transaction.'',
             contribution = BILLING_SHIPPING_MISMATCH_CONTRIBUTION\<rparr>)])
        (\<lambda>signals. Inr \<lparr>ff_triggered_signals = signals, ff_window_features = features\<rparr>))"

section \<open>Geography\<close>

definition IP_FAN_OUT_LOOKBACK_HOURS :: nat where "IP_FAN_OUT_LOOKBACK_HOURS = 24"
definition IP_FAN_OUT_ACCOUNT_THRESHOLD :: nat where "IP_FAN_OUT_ACCOUNT_THRESHOLD = 3"
definition COUNTRY_MISMATCH_CONTRIBUTION :: pyfloat where "COUNTRY_MISMATCH_CONTRIBUTION = fl (2/10)"
definition VPN_OR_PROXY_CONTRIBUTION :: pyfloat where "VPN_OR_PROXY_CONTRIBUTION = fl (25/100)"
definition IP_FAN_OUT_CONTRIBUTION :: pyfloat where "IP_FAN_OUT_CONTRIBUTION = fl (3/10)"

definition compute_geography_features :: "event_store \<Rightarrow> synthetic_event \<Rightarrow> py_exc + family_features" where
  "compute_geography_features s e =
     res_bind (lookback_events s e ''24h'') (\<lambda>candidates.
     let ip_events = filter (\<lambda>c. ip_id c = ip_id e) candidates;
         distinct_accounts = distinct_count ip_events account_id;
         country_mismatch = (account_country e \<noteq> event_country e);
         features = [(''geography_country_mismatch'', flag country_mismatch),
                     (''geography_vpn_or_proxy'', flag (vpn_or_proxy e)),
                     (''geography_ip_fan_out_distinct_accounts_24h'', float_of_nat distinct_accounts)]
     in res_bind (emit
          [(country_mismatch,
            \<lparr>reason_code = ''geography_country_mismatch'',
             description = [CHR ''T'', CHR ''h'', CHR ''e''] @ '' synthetic account'' @ [CHR 0x27] @
                           ''s home country and this transaction'' @ [CHR 0x27] @ ''s event '' @
                           ''country do not match.'',
             contribution = COUNTRY_MISMATCH_CONTRIBUTION\<rparr>),
           (vpn_or_proxy e,
            \<lparr>reason_code = ''geography_vpn_or_proxy'',
             description = ''This synthetic transaction is flagged as originating via VPN or proxy.'',
             contribution = VPN_OR_PROXY_CONTRIBUTION\<rparr>),
           (distinct_accounts > IP_FAN_OUT_ACCOUNT_THRESHOLD,
            \<lparr>reason_code = ''geography_ip_fan_out_high'',
             description = ''This IP has been used by '' @ nat_str distinct_accounts @
                           '' distinct synthetic '' @ ''accounts in the last '' @
                           nat_str IP_FAN_OUT_LOOKBACK_HOURS @ ''h, above the '' @
                           ''illustrative baseline of '' @ nat_str IP_FAN_OUT_ACCOUNT_THRESHOLD @ ''.'',
             contribution = IP_FAN_OUT_CONTRIBUTION\<rparr>)])
        (\<lambda>signals. Inr \<lparr>ff_triggered_signals = signals, ff_window_features = features\<rparr>))"

section \<open>Amount\<close>

definition AMOUNT_LOOKBACK_HOURS :: nat where "AMOUNT_LOOKBACK_HOURS = 24"
definition AMOUNT_DEVIATION_THRESHOLD_MULTIPLIER :: pyfloat where "AMOUNT_DEVIATION_THRESHOLD_MULTIPLIER = Fin 3"
definition AMOUNT_DEVIATION_RATIO_CAP :: pyfloat where "AMOUNT_DEVIATION_RATIO_CAP = Fin 100"
definition AMOUNT_DEVIATION_CONTRIBUTION :: pyfloat where "AMOUNT_DEVIATION_CONTRIBUTION = fl (3/10)"

definition compute_amount_features :: "event_store \<Rightarrow> synthetic_event \<Rightarrow> py_exc + family_features" where
  "compute_amount_features s e =
     res_bind (lookback_events s e ''24h'') (\<lambda>candidates.
     let prior = filter (\<lambda>c. account_id c = account_id e \<and> event_id c \<noteq> event_id e) candidates;
         has_baseline = (length prior > 0)
     in res_bind (if has_baseline then mean_amount prior else Inr (Fin 0)) (\<lambda>baseline_mean.
        res_bind (if has_baseline then fdiv (amount e) baseline_mean else Inr (Fin 0)) (\<lambda>raw_ratio.
     let deviation_ratio = fmin raw_ratio AMOUNT_DEVIATION_RATIO_CAP;
         features = [(''amount_has_baseline'', flag has_baseline),
                     (''amount_baseline_mean_24h'', baseline_mean),
                     (''amount_deviation_ratio'', deviation_ratio)]
     in res_bind (emit
          [(has_baseline \<and> flt AMOUNT_DEVIATION_THRESHOLD_MULTIPLIER raw_ratio,
            \<lparr>reason_code = ''amount_unusual_deviation_high'',
             description = ''This transaction'' @ [CHR 0x27] @ ''s amount is '' @ fmt1 raw_ratio @
                           ''x this account'' @ [CHR 0x27] @ ''s synthetic '' @
                           nat_str AMOUNT_LOOKBACK_HOURS @ ''h baseline, above the illustrative multiplier of '' @
                           fmt1 AMOUNT_DEVIATION_THRESHOLD_MULTIPLIER @ ''x.'',
             contribution = AMOUNT_DEVIATION_CONTRIBUTION\<rparr>)])
        (\<lambda>signals. Inr \<lparr>ff_triggered_signals = signals, ff_window_features = features\<rparr>))))"

section \<open>Merchant\<close>

definition FAILED_OUTCOMES :: "outcome list" where "FAILED_OUTCOMES = [Declined, Failed]"
definition MERCHANT_LOOKBACK_HOURS :: nat where "MERCHANT_LOOKBACK_HOURS = 24"
definition MERCHANT_MIN_SAMPLE_SIZE :: nat where "MERCHANT_MIN_SAMPLE_SIZE = 5"
definition MERCHANT_FAILURE_RATE_THRESHOLD :: pyfloat where "MERCHANT_FAILURE_RATE_THRESHOLD = Fin (1/2)"
definition NEW_MERCHANT_CONTRIBUTION :: pyfloat where "NEW_MERCHANT_CONTRIBUTION = fl (2/10)"
definition MERCHANT_FAILURE_RATE_CONTRIBUTION :: pyfloat where "MERCHANT_FAILURE_RATE_CONTRIBUTION = fl (3/10)"

definition compute_merchant_features :: "event_store \<Rightarrow> synthetic_event \<Rightarrow> py_exc + family_features" where
  "compute_merchant_features s e =
     res_bind (lookback_events s e ''24h'') (\<lambda>candidates.
     let merchant_events = filter (\<lambda>c. merchant_id c = merchant_id e) candidates;
         prior = filter (\<lambda>c. account_id c = account_id e \<and> event_id c \<noteq> event_id e) merchant_events;
         is_new = (length prior = 0);
         total_count = length merchant_events;
         failure_count = length (filter (\<lambda>c. ev_outcome c \<in> set FAILED_OUTCOMES) merchant_events);
         has_sufficient_sample = (total_count \<ge> MERCHANT_MIN_SAMPLE_SIZE);
         failure_rate = (if total_count > 0 then fl (of_nat failure_count / of_nat total_count) else Fin 0);
         features = [(''merchant_new_to_account'', flag is_new),
                     (''merchant_transaction_count_24h'', float_of_nat total_count),
                     (''merchant_failure_rate_24h'', failure_rate)]
     in res_bind (emit
          [(is_new,
            \<lparr>reason_code = ''merchant_new_to_account'',
             description = ''This merchant has not been paired with this account before, in the '' @
                           ''synthetic history available.'',
             contribution = NEW_MERCHANT_CONTRIBUTION\<rparr>),
           (has_sufficient_sample \<and> flt MERCHANT_FAILURE_RATE_THRESHOLD failure_rate,
            \<lparr>reason_code = ''merchant_failure_rate_high'',
             description = ''This merchant had a '' @ fmt_pct failure_rate @ '' synthetic decline/failure rate '' @
                           ''over '' @ nat_str total_count @ '' transactions in the last '' @
                           nat_str MERCHANT_LOOKBACK_HOURS @ ''h, '' @
                           ''above the illustrative baseline of '' @
                           fmt_pct MERCHANT_FAILURE_RATE_THRESHOLD @ ''.'',
             contribution = MERCHANT_FAILURE_RATE_CONTRIBUTION\<rparr>)])
        (\<lambda>signals. Inr \<lparr>ff_triggered_signals = signals, ff_window_features = features\<rparr>))"

section \<open>Retry\<close>

definition RETRY_LOOKBACK_HOURS :: nat where "RETRY_LOOKBACK_HOURS = 1"
definition RETRY_GROUP_SIZE_THRESHOLD :: nat where "RETRY_GROUP_SIZE_THRESHOLD = 3"
definition ACCOUNT_FAILURE_COUNT_THRESHOLD :: nat where "ACCOUNT_FAILURE_COUNT_THRESHOLD = 3"
definition RETRY_GROUP_SIZE_CONTRIBUTION :: pyfloat where "RETRY_GROUP_SIZE_CONTRIBUTION = fl (25/100)"
definition ACCOUNT_FAILURE_COUNT_CONTRIBUTION :: pyfloat where "ACCOUNT_FAILURE_COUNT_CONTRIBUTION = fl (25/100)"

definition compute_retry_features :: "event_store \<Rightarrow> synthetic_event \<Rightarrow> py_exc + family_features" where
  "compute_retry_features s e =
     res_bind (lookback_events s e ''1h'') (\<lambda>candidates.
     let has_retry_group = (retry_group_id e \<noteq> None);
         retry_group_size = (if has_retry_group
                             then length (filter (\<lambda>c. retry_group_id c = retry_group_id e) candidates)
                             else 0);
         account_failure_count = length (filter (\<lambda>c. account_id c = account_id e \<and>
                                                     ev_outcome c \<in> set FAILED_OUTCOMES) candidates);
         features = [(''retry_has_group'', flag has_retry_group),
                     (''retry_group_size_1h'', float_of_nat retry_group_size),
                     (''retry_account_failure_count_1h'', float_of_nat account_failure_count)]
     in res_bind (emit
          [(has_retry_group \<and> retry_group_size > RETRY_GROUP_SIZE_THRESHOLD,
            \<lparr>reason_code = ''retry_group_size_high'',
             description = ''This synthetic retry group has '' @ nat_str retry_group_size @
                           '' attempts in the last '' @ nat_str RETRY_LOOKBACK_HOURS @
                           ''h, above the illustrative baseline of '' @ nat_str RETRY_GROUP_SIZE_THRESHOLD @ ''.'',
             contribution = RETRY_GROUP_SIZE_CONTRIBUTION\<rparr>),
           (account_failure_count > ACCOUNT_FAILURE_COUNT_THRESHOLD,
            \<lparr>reason_code = ''retry_account_failure_count_high'',
             description = ''This account had '' @ nat_str account_failure_count @
                           '' declined or failed synthetic '' @ ''attempts in the last '' @
                           nat_str RETRY_LOOKBACK_HOURS @ ''h, above the illustrative '' @
                           ''baseline of '' @ nat_str ACCOUNT_FAILURE_COUNT_THRESHOLD @ ''.'',
             contribution = ACCOUNT_FAILURE_COUNT_CONTRIBUTION\<rparr>)])
        (\<lambda>signals. Inr \<lparr>ff_triggered_signals = signals, ff_window_features = features\<rparr>))"

section \<open>Velocity\<close>

definition VELOCITY_ENTITY_EXTRACTORS :: "(string, synthetic_event \<Rightarrow> string) dict" where
  "VELOCITY_ENTITY_EXTRACTORS =
     [(''account'', account_id), (''device'', device_id),
      (''payment_method'', payment_method_id), (''merchant'', merchant_id)]"

definition VELOCITY_COUNT_THRESHOLDS :: "(string, nat) dict" where
  "VELOCITY_COUNT_THRESHOLDS = [(''1m'', 3), (''1h'', 10), (''24h'', 50)]"

definition VELOCITY_SIGNAL_CONTRIBUTION :: pyfloat where "VELOCITY_SIGNAL_CONTRIBUTION = fl (25/100)"

text \<open>The body of the inner loop: one feature, and a signal when the count is above its threshold.\<close>

definition velocity_window ::
  "string \<Rightarrow> string \<times> nat \<Rightarrow> py_exc + ((string \<times> pyfloat) \<times> triggered_signal list)" where
  "velocity_window entity_label wc =
     (let (window, window_count) = wc
      in case map_of VELOCITY_COUNT_THRESHOLDS window of
           None \<Rightarrow> Inl (KeyError window)
         | Some threshold \<Rightarrow>
             res_bind (emit
               [(window_count > threshold,
                 \<lparr>reason_code = ''velocity_'' @ entity_label @ ''_'' @ window @ ''_count_high'',
                  description = ''This '' @ entity_label @ '' had '' @ nat_str window_count @
                                '' synthetic transactions '' @ ''in the last '' @ window @
                                '', above the illustrative baseline of '' @ nat_str threshold @ ''.'',
                  contribution = VELOCITY_SIGNAL_CONTRIBUTION\<rparr>)])
             (\<lambda>signals. Inr ((''velocity_'' @ entity_label @ ''_'' @ window @ ''_count'',
                              float_of_nat window_count), signals)))"

text \<open>The body of the outer loop for one entity dimension.\<close>

definition velocity_entity ::
  "synthetic_event list \<Rightarrow> synthetic_event \<Rightarrow> string \<times> (synthetic_event \<Rightarrow> string) \<Rightarrow>
   py_exc + ((string \<times> pyfloat) \<times> triggered_signal list) list" where
  "velocity_entity candidates e le =
     (let (entity_label, extractor) = le;
          entity_events = filter (\<lambda>c. extractor c = extractor e) candidates
      in res_bind (window_counts entity_events (event_time e)) (\<lambda>counts.
           res_map (velocity_window entity_label)
             [(''1m'', count_1m counts), (''1h'', count_1h counts), (''24h'', count_24h counts)]))"

definition compute_velocity_features :: "event_store \<Rightarrow> synthetic_event \<Rightarrow> py_exc + family_features" where
  "compute_velocity_features s e =
     res_bind (lookback_events s e ''24h'') (\<lambda>candidates.
     res_bind (res_map (velocity_entity candidates e) VELOCITY_ENTITY_EXTRACTORS) (\<lambda>rows.
       Inr \<lparr>ff_triggered_signals = concat (map snd (concat rows)),
            ff_window_features = map fst (concat rows)\<rparr>))"

end
