(* ===== verification/Feature_Facts.thy ===== *)
theory Feature_Facts
  imports Feature_Families
begin

text \<open>
  What the feature families promise: their signals and features satisfy the output
  contract of \<open>contracts.py\<close>, the pairing and fan-out signals fire exactly when the
  retained history says so, and the one case where a family raises on valid input.
\<close>

named_theorems family_simps

section \<open>Texts with interpolated numbers\<close>

lemma is_infix_of_iff: "is_infix_of p s \<longleftrightarrow> (\<exists>u v. s = u @ p @ v)"
proof (induction s)
  case (Cons c cs)
  have t: "take (length p) (c # cs) = p \<longleftrightarrow> (\<exists>v. c # cs = p @ v)"
    by (metis append_eq_conv_conj append_take_drop_id)
  have "(\<exists>u v. c # cs = u @ p @ v) \<longleftrightarrow> (\<exists>v. c # cs = p @ v) \<or> (\<exists>u v. cs = u @ p @ v)"
    by (metis (no_types, opaque_lifting) append_Cons append_Nil list.inject neq_Nil_conv)
  then show ?case using Cons.IH t by simp
qed simp

text \<open>A term without a separating character cannot straddle the separator.\<close>

lemma infix_split_separator:
  assumes "c \<notin> set p" and "is_infix_of p (a @ c # b)"
  shows "is_infix_of p a \<or> is_infix_of p b"
proof -
  obtain u v where uv: "a @ c # b = u @ p @ v" using assms(2) by (auto simp: is_infix_of_iff)
  from uv consider (left) w where "u = a @ c # w" | (right) w where "a = u @ p @ w" | (mid) "c \<in> set p"
  proof (cases "length u > length a")
    case True
    then have "take (length u) (a @ c # b) = a @ c # take (length u - length a - 1) b"
      by (simp add: take_Cons')
    moreover have "take (length u) (a @ c # b) = u" unfolding uv by simp
    ultimately show thesis using that(1) by metis
  next
    case False
    show thesis
    proof (cases "length (u @ p) \<le> length a")
      case True
      have "take (length (u @ p)) (a @ c # b) = u @ p" using uv by simp
      then have "take (length (u @ p)) a = u @ p" using True by simp
      then have "a = u @ p @ drop (length (u @ p)) a" by (metis append_assoc append_take_drop_id)
      then show thesis by (rule that(2))
    next
      case long: False
      have "(u @ p @ v) ! length a = c" using uv by (metis nth_append_length)
      moreover have "(u @ p @ v) ! length a = p ! (length a - length u)"
        using False long by (auto simp: nth_append)
      moreover have "length a - length u < length p" using False long by auto
      ultimately have "c \<in> set p" using nth_mem by metis
      then show thesis by (rule that(3))
    qed
  qed
  then show ?thesis
  proof cases
    case left
    then have "b = w @ p @ v" using uv by simp
    then show ?thesis by (auto simp: is_infix_of_iff)
  next
    case right then show ?thesis by (auto simp: is_infix_of_iff)
  next
    case mid then show ?thesis using assms(1) by simp
  qed
qed

lemma lower_digit: "is_digit c \<Longrightarrow> lower_char c = c"
  by (simp add: is_digit_def lower_char_def is_upper_def)

lemma map_lower_nat_str [simp]: "map lower_char (nat_str n) = nat_str n"
  using nat_str_digits [of n] by (intro map_idI) (auto simp: list_all_iff lower_digit)

lemma infix_split_number:
  assumes "\<forall>c \<in> set p. \<not> is_digit c" and "p \<noteq> []" and "is_infix_of p (a @ nat_str n @ b)"
  shows "is_infix_of p a \<or> is_infix_of p b"
proof -
  have gen: "is_infix_of p (a @ d @ b) \<Longrightarrow> list_all is_digit d \<Longrightarrow> d \<noteq> [] \<Longrightarrow>
    is_infix_of p a \<or> is_infix_of p b" for d
  proof (induction d arbitrary: a)
    case (Cons x xs)
    have "x \<notin> set p" using Cons.prems(2) assms(1) by auto
    then have i: "is_infix_of p a \<or> is_infix_of p (xs @ b)"
      using infix_split_separator [of x p a "xs @ b"] Cons.prems(1) by simp
    show ?case
    proof (cases xs)
      case Nil then show ?thesis using i by simp
    next
      case (Cons y ys)
      have "is_infix_of p ([] @ xs @ b) \<Longrightarrow> is_infix_of p [] \<or> is_infix_of p b"
        using Cons.IH [of "[]"] Cons.prems(2) Cons by simp
      then show ?thesis using i assms(2) by auto
    qed
  qed simp
  show ?thesis using gen [OF assms(3) nat_str_digits] by simp
qed

definition clean :: "string \<Rightarrow> bool" where
  "clean txt = list_all (\<lambda>term. \<not> is_infix_of term (map lower_char txt)) FORBIDDEN_TERMS"

lemma reject_clean: "reject_forbidden_terms txt f = Inr () \<longleftrightarrow> clean txt"
proof -
  have "reject_forbidden_terms txt f = Inr () \<longleftrightarrow>
      filter (\<lambda>term. is_infix_of term (map lower_char txt)) FORBIDDEN_TERMS = []"
    by (simp add: reject_forbidden_terms_def Let_def split: list.split)
  then show ?thesis by (simp add: clean_def list_all_iff filter_empty_conv)
qed

lemma forbidden_terms_shape: "list_all (\<lambda>p. p \<noteq> [] \<and> list_all (\<lambda>c. \<not> is_digit c) p) FORBIDDEN_TERMS"
  by code_simp

lemma clean_number: "clean a \<Longrightarrow> clean b \<Longrightarrow> clean (a @ nat_str n @ b)"
  using forbidden_terms_shape infix_split_number
  unfolding clean_def list_all_iff by (metis map_append map_lower_nat_str)


section \<open>Signals that always pass their constructor\<close>

text \<open>A description with one interpolated number of at most seven digits.\<close>

lemma signal_valid_number:
  assumes n: "n \<le> 1000000" and c: "\<exists>y. c = Fin y \<and> 0 \<le> y \<and> y \<le> 1"
    and "is_reason_code code" and "clean code" and "clean a" and "clean b"
    and "length a + length b \<le> 193" and "1 \<le> length a"
  shows "signal_valid \<lparr>reason_code = code, description = a @ nat_str n @ b, contribution = c\<rparr>"
proof -
  have "length (nat_str n) \<le> Suc 6" using n by (intro length_nat_str_bound) simp
  moreover have "clean (a @ nat_str n @ b)" using assms(5,6) by (rule clean_number)
  ultimately show ?thesis
    using assms by (auto simp: signal_valid_def MAX_DESCRIPTION_LENGTH_def reject_clean)
qed

lemma signal_valid_text:
  assumes "\<exists>y. c = Fin y \<and> 0 \<le> y \<and> y \<le> 1" and "is_reason_code code" and "clean code"
    and "clean a" and "1 \<le> length a" and "length a \<le> 200"
  shows "signal_valid \<lparr>reason_code = code, description = a, contribution = c\<rparr>"
  using assms by (auto simp: signal_valid_def MAX_DESCRIPTION_LENGTH_def reject_clean)

lemma unit_fl: "0 \<le> x \<Longrightarrow> x \<le> 1 \<Longrightarrow> \<exists>y. fl x = Fin y \<and> 0 \<le> y \<and> y \<le> 1"
  using fl_between [of 0 x 1] by simp

lemma float_of_nat_ok: "n \<le> 1000000 \<Longrightarrow> float_of_nat n = Fin (of_nat n)"
  using float_of_int_exact [of "int n"] by (simp add: float_of_nat_def)

lemma emit_valid: "list_all (\<lambda>(b, x). b \<longrightarrow> signal_valid x) cs \<Longrightarrow>
    emit cs = Inr (map snd (filter fst cs))"
  by (induction cs) (auto simp: emit_def make_signal_def split: prod.splits)

lemma nat_str_consts: "nat_str 24 = ''24''" "nat_str 3 = ''3''" "nat_str (Suc 0) = ''1''" "nat_str 10 = ''10''" "nat_str 50 = ''50''"
  by code_simp+


section \<open>The history a family reads\<close>

definition recent :: "event_store \<Rightarrow> synthetic_event \<Rightarrow> timedelta \<Rightarrow> synthetic_event list" where
  "recent s e d = sort_key event_instant
     (filter (\<lambda>x. event_instant e - d \<le> event_instant x \<and> event_instant x \<le> event_instant e)
       (retained_events s))"

lemma lookback_events_ok:
  assumes "event_valid e" and "python_datetime (event_time e)" and "map_of WINDOW_DURATIONS w = Some d"
  shows "lookback_events s e w = Inr (recent s e d)"
proof -
  have d: "0 \<le> d" "d \<le> seconds (24 * 3600)"
    using assms(3) by (auto simp: WINDOW_DURATIONS_def seconds_def split: if_splits)
  obtain c where "dt_add (event_time e) (- d) = Inr c"
    using event_lookback_in_range [OF assms(1,2) d] by blast
  then show ?thesis
    using store_history.lookback_ok [OF event_valid_aware [OF assms(1)] d(1)]
    by (simp add: lookback_events_def assms(3) recent_def)
qed

lemma recent_length: "length (recent s e d) \<le> length (retained_events s)"
  by (simp add: recent_def)

lemma recent_filter_length: "length (filter P (recent s e d)) \<le> length (retained_events s)"
  using length_filter_le [of P "recent s e d"] recent_length [of s e d] by linarith

lemma recent_distinct_count:
  "distinct_count (filter P (recent s e d)) key \<le> length (retained_events s)"
  using distinct_count_le [of "filter P (recent s e d)" key] recent_filter_length [of P s e d] by linarith

text \<open>The output contract a family has to meet, and the inputs it is promised for.\<close>

definition family_contract :: "(event_store \<Rightarrow> synthetic_event \<Rightarrow> py_exc + family_features) \<Rightarrow>
    event_store \<Rightarrow> synthetic_event \<Rightarrow> bool" where
  "family_contract f s e = (case f s e of Inl _ \<Rightarrow> False
     | Inr r \<Rightarrow> list_all signal_valid (ff_triggered_signals r) \<and> window_features_ok (ff_window_features r))"

definition family_input :: "event_store \<Rightarrow> synthetic_event \<Rightarrow> bool" where
  "family_input s e = (event_valid e \<and> python_datetime (event_time e) \<and>
     length (retained_events s) \<le> 1000000)"

definition pairing_codes :: "event_store \<Rightarrow> synthetic_event \<Rightarrow> (synthetic_event \<Rightarrow> string) \<Rightarrow>
    string \<Rightarrow> string \<Rightarrow> string list" where
  "pairing_codes s e key new_code fan_code =
     (let same = filter (\<lambda>x. key x = key e) (recent s e (seconds (24 * 3600)))
      in (if list_ex (\<lambda>x. account_id x = account_id e \<and> event_id x \<noteq> event_id e) same then [] else [new_code]) @
         (if card (account_id ` set same) > 3 then [fan_code] else []))"

lemmas contribution_defs = NEW_DEVICE_CONTRIBUTION_def DEVICE_FAN_OUT_CONTRIBUTION_def
  NEW_PAYMENT_METHOD_CONTRIBUTION_def PAYMENT_METHOD_FAN_OUT_CONTRIBUTION_def
  NEW_ADDRESS_CONTRIBUTION_def ADDRESS_FAN_OUT_CONTRIBUTION_def BILLING_SHIPPING_MISMATCH_CONTRIBUTION_def
  COUNTRY_MISMATCH_CONTRIBUTION_def VPN_OR_PROXY_CONTRIBUTION_def IP_FAN_OUT_CONTRIBUTION_def
  NEW_MERCHANT_CONTRIBUTION_def MERCHANT_FAILURE_RATE_CONTRIBUTION_def
  RETRY_GROUP_SIZE_CONTRIBUTION_def ACCOUNT_FAILURE_COUNT_CONTRIBUTION_def VELOCITY_SIGNAL_CONTRIBUTION_def
  AMOUNT_DEVIATION_CONTRIBUTION_def

lemma contributions_unit:
  "\<exists>y. fl (2/10) = Fin y \<and> 0 \<le> y \<and> y \<le> 1" "\<exists>y. fl (3/10) = Fin y \<and> 0 \<le> y \<and> y \<le> 1"
  "\<exists>y. fl (25/100) = Fin y \<and> 0 \<le> y \<and> y \<le> 1" "\<exists>y. fl (15/100) = Fin y \<and> 0 \<le> y \<and> y \<le> 1"
  by (rule unit_fl; simp)+

lemma flag_ok: "\<exists>y. flag b = Fin y \<and> 0 \<le> y \<and> y \<le> 1"
  by (simp add: flag_def)

lemma feature_ok_unit:
  "length key \<le> 64 \<Longrightarrow> snake_name key \<Longrightarrow> \<exists>y. v = Fin y \<and> 0 \<le> y \<and> y \<le> 1 \<Longrightarrow> window_feature_ok (key, v)"
  by (auto simp: window_feature_ok_def window_feature_key_match_def MAX_WINDOW_FEATURE_KEY_LENGTH_def
      WINDOW_FEATURE_VALUE_BOUND_def is_finite_def)

lemma feature_ok_count:
  "length key \<le> 64 \<Longrightarrow> snake_name key \<Longrightarrow> n \<le> 1000000 \<Longrightarrow> window_feature_ok (key, float_of_nat n)"
  by (simp add: float_of_nat_ok window_feature_ok_def window_feature_key_match_def is_finite_def
      MAX_WINDOW_FEATURE_KEY_LENGTH_def WINDOW_FEATURE_VALUE_BOUND_def)


section \<open>The families, one by one\<close>

lemma emit_contract:
  assumes "list_all (\<lambda>(b, x). b \<longrightarrow> signal_valid x) cs" and "window_features_ok fs"
    and "map (reason_code \<circ> snd) (filter fst cs) = codes"
  shows "\<exists>r. res_bind (emit cs) (\<lambda>sigs. Inr \<lparr>ff_triggered_signals = sigs, ff_window_features = fs\<rparr>) = Inr r \<and>
     list_all signal_valid (ff_triggered_signals r) \<and> window_features_ok (ff_window_features r) \<and>
     map reason_code (ff_triggered_signals r) = codes"
  using assms by (auto simp: emit_valid list_all_iff)

lemma features_ok_split: "length fs \<le> 128 \<Longrightarrow> list_all window_feature_ok fs \<Longrightarrow> window_features_ok fs"
  by (simp add: window_features_ok_def MAX_WINDOW_FEATURES_def)

lemma no_prior: "(length (filter P xs) = 0) = (\<not> list_ex P xs)"
  by (induction xs) auto

lemma feature_flag: "length key \<le> 64 \<Longrightarrow> snake_name key \<Longrightarrow> window_feature_ok (key, flag b)"
  by (rule feature_ok_unit [OF _ _ flag_ok])

lemma signal_when: "signal_valid x \<Longrightarrow> (case (b, x) of (b, x) \<Rightarrow> b \<longrightarrow> signal_valid x)"
  by simp

lemma list_all_intros: "list_all P []" "P x \<Longrightarrow> list_all P xs \<Longrightarrow> list_all P (x # xs)"
  by simp_all

lemma feature_if: "length key \<le> 64 \<Longrightarrow> snake_name key \<Longrightarrow>
    window_feature_ok (key, if b then Fin 0 else Fin 1)"
  by (rule feature_ok_unit) simp_all

lemmas signal_rules = list_all_intros signal_when signal_valid_number signal_valid_text contributions_unit
lemmas feature_rules = list_all_intros feature_flag feature_if feature_ok_count
lemmas threshold_defs = DEVICE_FAN_OUT_ACCOUNT_THRESHOLD_def PAYMENT_METHOD_FAN_OUT_ACCOUNT_THRESHOLD_def
  ADDRESS_FAN_OUT_ACCOUNT_THRESHOLD_def IP_FAN_OUT_ACCOUNT_THRESHOLD_def
  RETRY_GROUP_SIZE_THRESHOLD_def ACCOUNT_FAILURE_COUNT_THRESHOLD_def

lemma family_inputD:
  assumes "family_input s e"
  shows "event_valid e" and "python_datetime (event_time e)" and "length (retained_events s) \<le> 1000000"
    and "distinct_count (filter P (recent s e d)) key \<le> 1000000"
    and "length (filter P (recent s e d)) \<le> 1000000"
  using assms recent_distinct_count [of P s e d key] recent_filter_length [of P s e d]
  by (auto simp: family_input_def)

definition geography_codes :: "event_store \<Rightarrow> synthetic_event \<Rightarrow> string list" where
  "geography_codes s e =
     (if account_country e \<noteq> event_country e then [''geography_country_mismatch''] else []) @
     (if vpn_or_proxy e then [''geography_vpn_or_proxy''] else []) @
     (if 3 < card (account_id ` set (filter (\<lambda>x. ip_id x = ip_id e) (recent s e (seconds (24 * 3600)))))
      then [''geography_ip_fan_out_high''] else [])"

definition retry_codes :: "event_store \<Rightarrow> synthetic_event \<Rightarrow> string list" where
  "retry_codes s e =
     (let hour = recent s e (seconds 3600)
      in (if retry_group_id e \<noteq> None \<and> 3 < length (filter (\<lambda>x. retry_group_id x = retry_group_id e) hour)
          then [''retry_group_size_high''] else []) @
         (if 3 < length (filter (\<lambda>x. account_id x = account_id e \<and> ev_outcome x \<in> {Declined, Failed}) hour)
          then [''retry_account_failure_count_high''] else []))"

lemma device_family:
  assumes "family_input s e"
  shows "\<exists>r. compute_device_features s e = Inr r \<and> list_all signal_valid (ff_triggered_signals r) \<and>
    window_features_ok (ff_window_features r) \<and>
    map reason_code (ff_triggered_signals r) = pairing_codes s e device_id ''device_new_to_account'' ''device_fan_out_high''"
proof -
  note b = family_inputD(4,5) [OF assms]
  show ?thesis
    unfolding compute_device_features_def Let_def contribution_defs
      lookback_events_ok [OF family_inputD(1,2) [OF assms] window_durations(3)] res_bind_simps
    apply (rule emit_contract)
      apply ((rule signal_rules b | code_simp)+)[1]
     apply (rule features_ok_split, simp, (rule feature_rules b | code_simp)+)[1]
    by ((simp only: no_prior)?, simp add: pairing_codes_def Let_def threshold_defs distinct_count_def)
qed

lemma payment_method_family:
  assumes "family_input s e"
  shows "\<exists>r. compute_payment_method_features s e = Inr r \<and> list_all signal_valid (ff_triggered_signals r) \<and>
    window_features_ok (ff_window_features r) \<and>
    map reason_code (ff_triggered_signals r) = pairing_codes s e payment_method_id ''payment_method_new_to_account'' ''payment_method_fan_out_high''"
proof -
  note b = family_inputD(4,5) [OF assms]
  show ?thesis
    unfolding compute_payment_method_features_def Let_def contribution_defs
      lookback_events_ok [OF family_inputD(1,2) [OF assms] window_durations(3)] res_bind_simps
    apply (rule emit_contract)
      apply ((rule signal_rules b | code_simp)+)[1]
     apply (rule features_ok_split, simp, (rule feature_rules b | code_simp)+)[1]
    by ((simp only: no_prior)?, simp add: pairing_codes_def Let_def threshold_defs distinct_count_def)
qed

lemma address_family:
  assumes "family_input s e"
  shows "\<exists>r. compute_address_features s e = Inr r \<and> list_all signal_valid (ff_triggered_signals r) \<and>
    window_features_ok (ff_window_features r) \<and>
    map reason_code (ff_triggered_signals r) = pairing_codes s e address_id ''address_new_to_account'' ''address_fan_out_high'' @
      (if billing_shipping_match e then [] else [''address_billing_shipping_mismatch''])"
proof -
  note b = family_inputD(4,5) [OF assms]
  show ?thesis
    unfolding compute_address_features_def Let_def contribution_defs
      lookback_events_ok [OF family_inputD(1,2) [OF assms] window_durations(3)] res_bind_simps
    apply (rule emit_contract)
      apply ((rule signal_rules b | code_simp)+)[1]
     apply (rule features_ok_split, simp, (rule feature_rules b | code_simp)+)[1]
    by ((simp only: no_prior)?, simp add: pairing_codes_def Let_def threshold_defs distinct_count_def)
qed

lemma geography_family:
  assumes "family_input s e"
  shows "\<exists>r. compute_geography_features s e = Inr r \<and> list_all signal_valid (ff_triggered_signals r) \<and>
    window_features_ok (ff_window_features r) \<and>
    map reason_code (ff_triggered_signals r) = geography_codes s e"
proof -
  note b = family_inputD(4,5) [OF assms]
  show ?thesis
    unfolding compute_geography_features_def Let_def contribution_defs
      lookback_events_ok [OF family_inputD(1,2) [OF assms] window_durations(3)] res_bind_simps
    apply (rule emit_contract)
      apply ((rule signal_rules b | code_simp)+)[1]
     apply (rule features_ok_split, simp, (rule feature_rules b | code_simp)+)[1]
    by ((simp only: no_prior)?, simp add: geography_codes_def Let_def threshold_defs distinct_count_def)
qed

lemma retry_bound: "n \<le> 1000000 \<Longrightarrow> (if b then n else 0) \<le> (1000000 :: nat)"
  by simp

lemma retry_family:
  assumes "family_input s e"
  shows "\<exists>r. compute_retry_features s e = Inr r \<and> list_all signal_valid (ff_triggered_signals r) \<and>
    window_features_ok (ff_window_features r) \<and>
    map reason_code (ff_triggered_signals r) = retry_codes s e"
proof -
  note b = family_inputD(4,5) [OF assms] retry_bound [OF family_inputD(5) [OF assms]]
  show ?thesis
    unfolding compute_retry_features_def Let_def contribution_defs
      lookback_events_ok [OF family_inputD(1,2) [OF assms] window_durations(2)] res_bind_simps
    apply (rule emit_contract)
      apply ((rule signal_rules b | code_simp)+)[1]
     apply (rule features_ok_split, simp, (rule feature_rules b | code_simp)+)[1]
    by ((simp only: no_prior)?, simp add: FAILED_OUTCOMES_def retry_codes_def Let_def threshold_defs distinct_count_def)
qed



section \<open>Merchants: a rate in floating point\<close>

lemma fl_mono: "fl x = Fin a \<Longrightarrow> fl y = Fin b \<Longrightarrow> 0 \<le> x \<Longrightarrow> x \<le> y \<Longrightarrow> a \<le> b"
  using fl_raw_mono [of x y] by (auto simp: fl_def Let_def split: if_splits)

text \<open>The floating comparison with one half is the exact one for counts below a million.\<close>

lemma failure_rate_exact:
  assumes "f \<le> t" and "0 < t" and "t \<le> 1000000"
  shows "\<exists>y. fl (of_nat f / of_nat t) = Fin y \<and> 0 \<le> y \<and> y \<le> 1 \<and> (1/2 < y \<longleftrightarrow> t < 2 * f)"
proof -
  let ?x = "of_nat f / of_nat t :: rat"
  have x: "0 \<le> ?x" "?x \<le> 1" using assms by simp_all
  then obtain y where y: "fl ?x = Fin y" "0 \<le> y" "y \<le> 1" using unit_fl by blast
  have half: "fl (1/2) = Fin (1/2)" by (rule fl_exact [of 1 "-1"]) (simp_all add: pow2_def)
  have up: "fl (1/2 + 1/4194304) = Fin (1/2 + 1/4194304)"
    by (rule fl_exact [of 2097153 "-22"]) (simp_all add: pow2_def)
  have "1/2 < y \<longleftrightarrow> t < 2 * f"
  proof (cases "t < 2 * f")
    case True
    have tp: "(0 :: rat) < of_nat t" using assms(2) by simp
    have "1/2 + 1/(2 * of_nat t) \<le> ?x"
    proof -
      have "of_nat (t + 1) \<le> (of_nat (2 * f) :: rat)" using True by (simp only: of_nat_le_iff)
      then have "(of_nat t + 1) / (2 * of_nat t) \<le> (2 * of_nat f) / (2 * of_nat t :: rat)"
        using tp by (intro divide_right_mono) simp_all
      then show ?thesis using tp by (simp add: field_simps)
    qed
    moreover have "1/4194304 \<le> 1 / (2 * of_nat t :: rat)"
    proof -
      have "(of_nat t :: rat) \<le> of_nat 1000000" using assms(3) by (simp only: of_nat_le_iff)
      then show ?thesis using tp by (intro divide_left_mono) simp_all
    qed
    ultimately have "1/2 + 1/4194304 \<le> ?x" by linarith
    then have "1/2 + 1/4194304 \<le> y" by (intro fl_mono [OF up y(1)]) simp_all
    then show ?thesis using True by linarith
  next
    case False
    have "of_nat (2 * f) \<le> (of_nat t :: rat)" using False by (simp only: of_nat_le_iff)
    then have "?x \<le> 1/2" using assms(2) by (simp add: field_simps)
    then have "y \<le> 1/2" using fl_mono [OF y(1) half x(1)] by simp
    then show ?thesis using False by linarith
  qed
  then show ?thesis using y by blast
qed

lemma fmt_pct_unit:
  assumes "0 \<le> y" and "y \<le> 1"
  shows "\<exists>n. n \<le> 100 \<and> fmt_pct (Fin y) = nat_str n @ ''%''"
proof -
  obtain z where z: "fl (y * 100) = Fin z" "0 \<le> z" "z \<le> 100"
    using fl_between [of 0 "y * 100" 100] assms by auto
  have "round_half_even z \<le> 100" using round_half_even_le [of z 100] z by simp
  then have "nat (round_half_even z) \<le> 100" by simp
  then show ?thesis using z by auto
qed

definition merchant_codes :: "event_store \<Rightarrow> synthetic_event \<Rightarrow> string list" where
  "merchant_codes s e =
     (let same = filter (\<lambda>x. merchant_id x = merchant_id e) (recent s e (seconds (24 * 3600)));
          failures = length (filter (\<lambda>x. ev_outcome x \<in> {Declined, Failed}) same)
      in (if list_ex (\<lambda>x. account_id x = account_id e \<and> event_id x \<noteq> event_id e) same
          then [] else [''merchant_new_to_account'']) @
         (if 5 \<le> length same \<and> length same < 2 * failures then [''merchant_failure_rate_high''] else []))"

lemma signal_valid_two_numbers:
  assumes "n \<le> 1000000" and "m \<le> 1000000" and c: "\<exists>y. c = Fin y \<and> 0 \<le> y \<and> y \<le> 1"
    and "is_reason_code code" and "clean code" and "clean a" and "clean b" and "clean d"
    and "length a + length b + length d \<le> 186" and "1 \<le> length a"
  shows "signal_valid \<lparr>reason_code = code, description = a @ nat_str m @ b @ nat_str n @ d, contribution = c\<rparr>"
proof -
  have "length (nat_str n) \<le> Suc 6" "length (nat_str m) \<le> Suc 6"
    using assms(1,2) by (intro length_nat_str_bound; simp)+
  moreover have "clean (a @ nat_str m @ b @ nat_str n @ d)" using assms by (intro clean_number)
  ultimately show ?thesis
    using assms by (auto simp: signal_valid_def MAX_DESCRIPTION_LENGTH_def reject_clean)
qed

lemma merchant_rate_signal:
  assumes "n \<le> 1000000" and "\<exists>k. k \<le> 1000000 \<and> pct = nat_str k @ ''%''"
  shows "signal_valid \<lparr>reason_code = ''merchant_failure_rate_high'',
     description = ''This merchant had a '' @ pct @ '' synthetic decline/failure rate '' @
                   ''over '' @ nat_str n @ '' transactions in the last '' @
                   nat_str MERCHANT_LOOKBACK_HOURS @ ''h, '' @
                   ''above the illustrative baseline of '' @ ''50%'' @ ''.'',
     contribution = fl (3/10)\<rparr>"
proof -
  obtain k where k: "k \<le> 1000000" "pct = nat_str k @ ''%''" using assms(2) by blast
  have "signal_valid \<lparr>reason_code = ''merchant_failure_rate_high'',
     description = ''This merchant had a '' @ nat_str k @ (''%'' @ '' synthetic decline/failure rate '' @
                   ''over '') @ nat_str n @ '' transactions in the last '' @
                   nat_str MERCHANT_LOOKBACK_HOURS @ ''h, '' @
                   ''above the illustrative baseline of '' @ ''50%'' @ ''.'',
     contribution = fl (3/10)\<rparr>"
    by (rule signal_valid_two_numbers [OF assms(1) k(1) contributions_unit(2)]; code_simp)
  then show ?thesis by (simp only: k append_assoc)
qed

lemma pct_half: "fmt_pct MERCHANT_FAILURE_RATE_THRESHOLD = ''50%''"
proof -
  have "fl 50 = Fin 50" by (rule fl_exact [of 50 0]) (simp_all add: pow2_def)
  moreover have "round_half_even 50 = 50" using round_half_even_int [of 50] by simp
  moreover have "nat_str 50 = ''50''" by code_simp
  ultimately show ?thesis by (simp add: MERCHANT_FAILURE_RATE_THRESHOLD_def)
qed

lemma merchant_family:
  assumes "family_input s e"
  shows "\<exists>r. compute_merchant_features s e = Inr r \<and> list_all signal_valid (ff_triggered_signals r) \<and>
    window_features_ok (ff_window_features r) \<and>
    map reason_code (ff_triggered_signals r) = merchant_codes s e"
proof -
  let ?same = "filter (\<lambda>c. merchant_id c = merchant_id e) (recent s e (seconds (24 * 3600)))"
  let ?bad = "filter (\<lambda>c. ev_outcome c \<in> set FAILED_OUTCOMES) ?same"
  note b = family_inputD(4,5) [OF assms]
  have bad: "length ?bad \<le> length ?same" by (rule length_filter_le)
  define rate where "rate = (if 0 < length ?same then fl (of_nat (length ?bad) / of_nat (length ?same)) else Fin 0)"
  have rate: "\<exists>y. rate = Fin y \<and> 0 \<le> y \<and> y \<le> 1 \<and> (1/2 < y \<longleftrightarrow> length ?same < 2 * length ?bad)"
  proof (cases "0 < length ?same")
    case True then show ?thesis unfolding rate_def using failure_rate_exact [OF bad True b(2)] by simp
  next
    case False then show ?thesis unfolding rate_def by auto
  qed
  then obtain y where y: "rate = Fin y" "0 \<le> y" "y \<le> 1" "1/2 < y \<longleftrightarrow> length ?same < 2 * length ?bad"
    by blast
  then have rate1: "\<exists>y. rate = Fin y \<and> 0 \<le> y \<and> y \<le> 1" by blast
  obtain k where "k \<le> 100" "fmt_pct rate = nat_str k @ ''%''" using fmt_pct_unit [OF y(2,3)] y(1) by blast
  then have pct: "\<exists>k. k \<le> 1000000 \<and> fmt_pct rate = nat_str k @ ''%''" by (intro exI [of _ k]) simp
  have thr: "flt MERCHANT_FAILURE_RATE_THRESHOLD rate \<longleftrightarrow> length ?same < 2 * length ?bad"
    using y(1,4) by (simp add: MERCHANT_FAILURE_RATE_THRESHOLD_def)
  show ?thesis
    unfolding compute_merchant_features_def Let_def contribution_defs pct_half rate_def [symmetric]
      lookback_events_ok [OF family_inputD(1,2) [OF assms] window_durations(3)] res_bind_simps
    apply (rule emit_contract)
      apply ((rule merchant_rate_signal pct signal_rules b | code_simp)+)[1]
     apply (rule features_ok_split, simp, (rule feature_rules feature_ok_unit [OF _ _ rate1] b | code_simp)+)[1]
    by (simp only: no_prior thr, simp add: merchant_codes_def Let_def MERCHANT_MIN_SAMPLE_SIZE_def FAILED_OUTCOMES_def)
qed

section \<open>Velocity\<close>

text \<open>The twelve (entity, window) cells: label, window, threshold and the exact count.\<close>

definition entity_cells :: "event_store \<Rightarrow> synthetic_event \<Rightarrow> string \<times> (synthetic_event \<Rightarrow> string) \<Rightarrow>
    (string \<times> string \<times> nat \<times> nat) list" where
  "entity_cells s e lk = map (\<lambda>(w, d, t). (fst lk, w, t, length (filter (\<lambda>x. snd lk x = snd lk e) (recent s e d))))
       [(''1m'', seconds 60, 3), (''1h'', seconds 3600, 10), (''24h'', seconds (24 * 3600), 50)]"

definition velocity_cells :: "event_store \<Rightarrow> synthetic_event \<Rightarrow> (string \<times> string \<times> nat \<times> nat) list" where
  "velocity_cells s e = concat (map (entity_cells s e)
     [(''account'', account_id), (''device'', device_id),
      (''payment_method'', payment_method_id), (''merchant'', merchant_id)])"

definition velocity_key :: "string \<Rightarrow> string \<Rightarrow> string" where
  "velocity_key label w = ''velocity_'' @ label @ ''_'' @ w @ ''_count''"

lemma velocity_signal_valid:
  assumes n: "n \<le> 1000000" and l: "l \<in> {''account'', ''device'', ''payment_method'', ''merchant''}"
    and w: "(w, t) \<in> {(''1m'', 3), (''1h'', 10), (''24h'', 50)}"
  shows "signal_valid \<lparr>reason_code = ''velocity_'' @ l @ ''_'' @ w @ ''_count_high'',
                  description = ''This '' @ l @ '' had '' @ nat_str n @
                                '' synthetic transactions '' @ ''in the last '' @ w @
                                '', above the illustrative baseline of '' @ nat_str t @ ''.'',
                  contribution = fl (25/100)\<rparr>"
proof -
  have a: "clean (''This '' @ l @ '' had '')" "length (''This '' @ l @ '' had '') \<le> 24"
    using l by (elim insertE emptyE; hypsubst; code_simp)+
  have b: "clean ('' synthetic transactions '' @ ''in the last '' @ w @ '', above the illustrative baseline of '' @ nat_str t @ ''.'') \<and>
    length ('' synthetic transactions '' @ ''in the last '' @ w @ '', above the illustrative baseline of '' @ nat_str t @ ''.'') \<le> 100"
    using w by (elim insertE emptyE Pair_inject; hypsubst; code_simp)
  have c: "is_reason_code (''velocity_'' @ l @ ''_'' @ w @ ''_count_high'') \<and>
     clean (''velocity_'' @ l @ ''_'' @ w @ ''_count_high'')"
    using l w by (elim insertE emptyE Pair_inject; hypsubst; code_simp)
  have "signal_valid \<lparr>reason_code = ''velocity_'' @ l @ ''_'' @ w @ ''_count_high'',
                  description = (''This '' @ l @ '' had '') @ nat_str n @
                                ('' synthetic transactions '' @ ''in the last '' @ w @
                                '', above the illustrative baseline of '' @ nat_str t @ ''.''),
                  contribution = fl (25/100)\<rparr>"
    using a b c by (intro signal_valid_number [OF n contributions_unit(3)]) (blast | simp)+
  then show ?thesis by (simp only: append_assoc)
qed

lemma velocity_feature_ok:
  assumes "n \<le> 1000000" and "l \<in> {''account'', ''device'', ''payment_method'', ''merchant''}"
    and "w \<in> {''1m'', ''1h'', ''24h''}"
  shows "window_feature_ok (velocity_key l w, float_of_nat n)"
proof -
  have "length (velocity_key l w) \<le> 64 \<and> snake_name (velocity_key l w)"
    using assms(2,3) by (elim insertE emptyE; hypsubst; code_simp)
  then show ?thesis using feature_ok_count assms(1) by blast
qed

lemma velocity_window_ok:
  assumes "n \<le> 1000000" and "l \<in> {''account'', ''device'', ''payment_method'', ''merchant''}"
    and "(w, t) \<in> {(''1m'', 3), (''1h'', 10), (''24h'', 50)}"
  shows "\<exists>sigs. velocity_window l (w, n) = Inr ((velocity_key l w, float_of_nat n), sigs) \<and>
    list_all signal_valid sigs \<and>
    map reason_code sigs = (if t < n then [''velocity_'' @ l @ ''_'' @ w @ ''_count_high''] else [])"
proof -
  have t: "map_of VELOCITY_COUNT_THRESHOLDS w = Some t"
    using assms(3) by (auto simp: VELOCITY_COUNT_THRESHOLDS_def)
  show ?thesis
    using velocity_signal_valid [OF assms]
    by (simp add: velocity_window_def t emit_def VELOCITY_SIGNAL_CONTRIBUTION_def make_signal_def velocity_key_def)
qed

lemma select_recent:
  assumes "event_valid e" and "python_datetime (event_time e)" and "map_of WINDOW_DURATIONS w = Some d"
  shows "select_window_events (filter P (recent s e (seconds (24 * 3600)))) (event_time e) w =
    Inr (filter P (recent s e d))"
proof -
  have d: "0 \<le> d" "d \<le> seconds (24 * 3600)"
    using assms(3) by (auto simp: WINDOW_DURATIONS_def seconds_def split: if_splits)
  obtain c where c: "dt_add (event_time e) (- d) = Inr c"
    using event_lookback_in_range [OF assms(1,2) d] by blast
  have aw: "require_timezone_aware (event_time e) f = Inr (event_time e)" for f
    using event_valid_aware [OF assms(1)] by (simp add: require_timezone_aware_def aware_def)
  let ?f = "\<lambda>x. event_instant x"
  let ?R = "\<lambda>k x. event_instant e - k \<le> event_instant x \<and> event_instant x \<le> event_instant e"
  let ?L = "sort_key ?f (filter (?R (seconds (24 * 3600))) (retained_events s))"
  have "sort_key ?f (filter (?R d) (filter P ?L)) = filter (?R d) (filter P ?L)"
    by (simp add: sort_key_id_if_sorted sorted_filter sort_key_filter [symmetric])
  also have "\<dots> = filter P (sort_key ?f (filter (\<lambda>x. ?R d x \<and> ?R (seconds (24 * 3600)) x) (retained_events s)))"
    by (simp add: sort_key_filter [symmetric] filter_filter conj_ac conj_left_commute)
  also have "(\<lambda>x. ?R d x \<and> ?R (seconds (24 * 3600)) x) = ?R d" using d by auto
  finally show ?thesis
    using dt_add_Inr [OF c] c
    by (simp add: select_window_events_def window_bounds_def aw assms(3) recent_def)
qed

lemma velocity_counts_ok:
  assumes "family_input s e"
  shows "window_counts (filter P (recent s e (seconds (24 * 3600)))) (event_time e) = Inr
     \<lparr>count_1m = length (filter P (recent s e (seconds 60))),
      count_1h = length (filter P (recent s e (seconds 3600))),
      count_24h = length (filter P (recent s e (seconds (24 * 3600))))\<rparr>"
  using select_recent [OF family_inputD(1,2) [OF assms] window_durations(1)]
    select_recent [OF family_inputD(1,2) [OF assms] window_durations(2)]
    select_recent [OF family_inputD(1,2) [OF assms] window_durations(3)]
    event_valid_aware [OF family_inputD(1) [OF assms]]
  by (simp add: window_counts_def event_count_def require_timezone_aware_def aware_def)

definition cell_feature :: "string \<times> string \<times> nat \<times> nat \<Rightarrow> string \<times> pyfloat" where
  "cell_feature c = (velocity_key (fst c) (fst (snd c)), float_of_nat (snd (snd (snd c))))"

definition cell_code :: "string \<times> string \<times> nat \<times> nat \<Rightarrow> string" where
  "cell_code c = ''velocity_'' @ fst c @ ''_'' @ fst (snd c) @ ''_count_high''"

definition cell_over :: "string \<times> string \<times> nat \<times> nat \<Rightarrow> bool" where
  "cell_over c = (fst (snd (snd c)) < snd (snd (snd c)))"

lemma velocity_entity_ok:
  assumes "family_input s e" and "(l, key) \<in> set VELOCITY_ENTITY_EXTRACTORS"
  shows "\<exists>rows. velocity_entity (recent s e (seconds (24 * 3600))) e (l, key) = Inr rows \<and>
    (list_all (list_all signal_valid \<circ> snd) rows \<and> list_all (window_feature_ok \<circ> fst) rows \<and> length rows = 3 \<and>
     map fst rows = map cell_feature (entity_cells s e (l, key)) \<and>
     map reason_code (concat (map snd rows)) = map cell_code (filter cell_over (entity_cells s e (l, key))))"
proof -
  define D where "D = seconds (24 * 3600)"
  have l: "l \<in> {''account'', ''device'', ''payment_method'', ''merchant''}"
    using assms(2) by (auto simp: VELOCITY_ENTITY_EXTRACTORS_def)
  let ?n = "\<lambda>d. length (filter (\<lambda>x. key x = key e) (recent s e d))"
  have n: "?n d \<le> 1000000" for d by (rule family_inputD(5) [OF assms(1)])
  obtain sm where sm: "velocity_window l (''1m'', ?n (seconds 60)) = Inr ((velocity_key l ''1m'', float_of_nat (?n (seconds 60))), sm)"
    "list_all signal_valid sm" "map reason_code sm = (if 3 < ?n (seconds 60) then [''velocity_'' @ l @ ''_'' @ ''1m'' @ ''_count_high''] else [])"
    using velocity_window_ok [OF n l, of "''1m''" 3] by blast
  obtain sh where sh: "velocity_window l (''1h'', ?n (seconds 3600)) = Inr ((velocity_key l ''1h'', float_of_nat (?n (seconds 3600))), sh)"
    "list_all signal_valid sh" "map reason_code sh = (if 10 < ?n (seconds 3600) then [''velocity_'' @ l @ ''_'' @ ''1h'' @ ''_count_high''] else [])"
    using velocity_window_ok [OF n l, of "''1h''" 10] by blast
  obtain sd where sd: "velocity_window l (''24h'', ?n (D)) = Inr ((velocity_key l ''24h'', float_of_nat (?n (D))), sd)"
    "list_all signal_valid sd" "map reason_code sd = (if 50 < ?n (D) then [''velocity_'' @ l @ ''_'' @ ''24h'' @ ''_count_high''] else [])"
    using velocity_window_ok [OF n l, of "''24h''" 50] by blast
  have f: "window_feature_ok (velocity_key l w, float_of_nat (?n d))" if "w \<in> {''1m'', ''1h'', ''24h''}" for w d
    using that by (rule velocity_feature_ok [OF n l])
  show ?thesis
    unfolding velocity_entity_def prod.case Let_def velocity_counts_ok [OF assms(1), folded D_def] res_bind_simps
      window_counts_t.simps entity_cells_def D_def [symmetric]
    by (simp add: sm sh sd f cell_feature_def cell_code_def cell_over_def del: append_Cons append.simps)
qed


lemma velocity_entity_all:
  assumes "family_input s e" and "lk \<in> set VELOCITY_ENTITY_EXTRACTORS"
  shows "\<exists>rows. velocity_entity (recent s e (seconds (24 * 3600))) e lk = Inr rows \<and>
    (list_all (list_all signal_valid \<circ> snd) rows \<and> list_all (window_feature_ok \<circ> fst) rows \<and> length rows = 3 \<and>
     map fst rows = map cell_feature (entity_cells s e lk) \<and>
     map reason_code (concat (map snd rows)) = map cell_code (filter cell_over (entity_cells s e lk)))"
  using velocity_entity_ok [of s e "fst lk" "snd lk"] assms by simp

lemma res_map_list_all2:
  assumes "\<And>x. x \<in> set xs \<Longrightarrow> \<exists>y. f x = Inr y \<and> Q x y"
  shows "\<exists>ys. res_map f xs = Inr ys \<and> list_all2 Q xs ys"
  using assms
proof (induction xs)
  case (Cons x xs)
  obtain y where "f x = Inr y" "Q x y" using Cons.prems [of x] by auto
  moreover obtain ys where "res_map f xs = Inr ys" "list_all2 Q xs ys"
    using Cons.IH Cons.prems by auto
  ultimately show ?case by simp
qed simp

definition velocity_codes :: "event_store \<Rightarrow> synthetic_event \<Rightarrow> string list" where
  "velocity_codes s e = map cell_code (filter cell_over (velocity_cells s e))"

lemma list_all_concat: "list_all P (concat xss) = list_all (list_all P) xss"
  by (induction xss) simp_all

lemma velocity_rows:
  assumes "list_all2 (\<lambda>lk rows. list_all (list_all signal_valid \<circ> snd) rows \<and>
      list_all (window_feature_ok \<circ> fst) rows \<and> length rows = 3 \<and>
      map fst rows = map cell_feature (entity_cells s e lk) \<and>
      map reason_code (concat (map snd rows)) = map cell_code (filter cell_over (entity_cells s e lk))) lks rs"
  shows "list_all signal_valid (concat (map snd (concat rs))) \<and>
    list_all (window_feature_ok \<circ> fst) (concat rs) \<and> length (concat rs) = 3 * length lks \<and>
    map fst (concat rs) = map cell_feature (concat (map (entity_cells s e) lks)) \<and>
    map reason_code (concat (map snd (concat rs))) =
      map cell_code (filter cell_over (concat (map (entity_cells s e) lks)))"
  using assms
proof (induction rule: list_all2_induct)
  case (Cons lk lks rows rs)
  have "list_all signal_valid (concat (map snd rows))"
    unfolding list_all_concat list.pred_map using Cons(1) by blast
  moreover note Cons(1,3)
  ultimately show ?case by (simp add: comp_def)
qed simp

lemma velocity_family:
  assumes "family_input s e"
  shows "\<exists>r. compute_velocity_features s e = Inr r \<and> list_all signal_valid (ff_triggered_signals r) \<and>
    window_features_ok (ff_window_features r) \<and>
    map reason_code (ff_triggered_signals r) = velocity_codes s e \<and>
    ff_window_features r = map cell_feature (velocity_cells s e)"
proof -
  let ?c = "recent s e (seconds (24 * 3600))"
  obtain rs where rs: "res_map (velocity_entity ?c e) VELOCITY_ENTITY_EXTRACTORS = Inr rs"
    "list_all2 (\<lambda>lk rows. list_all (list_all signal_valid \<circ> snd) rows \<and>
      list_all (window_feature_ok \<circ> fst) rows \<and> length rows = 3 \<and>
      map fst rows = map cell_feature (entity_cells s e lk) \<and>
      map reason_code (concat (map snd rows)) = map cell_code (filter cell_over (entity_cells s e lk)))
      VELOCITY_ENTITY_EXTRACTORS rs"
    using res_map_list_all2 [OF velocity_entity_all [OF assms], of VELOCITY_ENTITY_EXTRACTORS] by fast
  have lb: "lookback_events s e ''24h'' = Inr ?c"
    by (rule lookback_events_ok [OF family_inputD(1,2) [OF assms] window_durations(3)])
  have len: "length VELOCITY_ENTITY_EXTRACTORS = 4" by (simp add: VELOCITY_ENTITY_EXTRACTORS_def)
  note rows = velocity_rows [OF rs(2), folded velocity_cells_def [of s e, folded VELOCITY_ENTITY_EXTRACTORS_def]]
  have "window_features_ok (map fst (concat rs))"
    unfolding window_features_ok_def MAX_WINDOW_FEATURES_def length_map list.pred_map
    using rows len by (intro conjI) (linarith | blast)+
  then show ?thesis
    using rows unfolding compute_velocity_features_def lb res_bind_simps rs(1)
    by - (intro exI conjI, rule refl, simp_all only: family_features.simps velocity_codes_def simp_thms)
qed


section \<open>Amounts\<close>

definition amount_baseline :: "event_store \<Rightarrow> synthetic_event \<Rightarrow> synthetic_event list" where
  "amount_baseline s e = filter (\<lambda>x. account_id x = account_id e \<and> event_id x \<noteq> event_id e)
     (recent s e (seconds (24 * 3600)))"

lemma amount_family_no_baseline:
  assumes "event_valid e" and "python_datetime (event_time e)" and "amount_baseline s e = []"
  shows "compute_amount_features s e = Inr \<lparr>ff_triggered_signals = [],
    ff_window_features = [(''amount_has_baseline'', Fin 0), (''amount_baseline_mean_24h'', Fin 0),
                          (''amount_deviation_ratio'', Fin 0)]\<rparr>"
  using assms(3) unfolding compute_amount_features_def lookback_events_ok [OF assms(1,2) window_durations(3)] res_bind_simps
    amount_baseline_def
  by (simp add: emit_def flag_def fmin_def AMOUNT_DEVIATION_RATIO_CAP_def)

lemma length_nat_str_lower: "10 ^ k \<le> n \<Longrightarrow> k < length (nat_str n)"
proof (induction k arbitrary: n)
  case 0 then show ?case by simp
next
  case (Suc k)
  have "(10 :: nat) \<le> 10 ^ Suc k" by simp
  then have "10 \<le> n" using Suc.prems by linarith
  moreover have "10 ^ k \<le> n div 10" using Suc.prems by (simp add: less_eq_div_iff_mult_less_eq)
  ultimately show ?case using Suc.IH [of "n div 10"] by (subst nat_str.simps) simp
qed

definition tiny_event :: synthetic_event where
  "tiny_event = (sample_event ''evt_a'' ''syn_acct_1'' 10)\<lparr>amount := Fin (pow2 (-400))\<rparr>"

definition usual_event :: synthetic_event where
  "usual_event = (sample_event ''evt_b'' ''syn_acct_1'' 20)\<lparr>amount := Fin 1\<rparr>"

definition tiny_store :: event_store where
  "tiny_store = snd (record_event (snd (record_event sample_store (sample_now 20) tiny_event)) (sample_now 20) usual_event)"

lemma tiny_store_events: "retained_events tiny_store = [tiny_event, usual_event]"
proof -
  have "retained_events (snd (record_event (snd (record_event sample_store (sample_now 20)
      ((sample_event ''evt_a'' ''syn_acct_1'' 10)\<lparr>amount := q\<rparr>))) (sample_now 20) ((sample_event ''evt_b'' ''syn_acct_1'' 20)\<lparr>amount := r\<rparr>))) =
    [(sample_event ''evt_a'' ''syn_acct_1'' 10)\<lparr>amount := q\<rparr>, (sample_event ''evt_b'' ''syn_acct_1'' 20)\<lparr>amount := r\<rparr>]" for q r
    by code_simp
  then show ?thesis unfolding tiny_store_def tiny_event_def usual_event_def .
qed

lemma sample_event_valid: "event_valid (sample_event ''evt_a'' ''syn_acct_1'' 10)" "event_valid (sample_event ''evt_b'' ''syn_acct_1'' 20)"
  by code_simp+

lemma tiny_events_valid: "event_valid tiny_event" "event_valid usual_event"
proof -
  have "event_valid (e\<lparr>amount := Fin q\<rparr>)" if "event_valid e" "0 < q" "q \<le> 1000000" for e q
    using that by (simp add: event_valid_def is_amount_value_def is_finite_def MAX_AMOUNT_def)
  moreover have "pow2 (-400) \<le> 1000000" by (simp add: pow2_def)
  ultimately show "event_valid tiny_event" "event_valid usual_event"
    by (simp_all add: tiny_event_def usual_event_def sample_event_valid)
qed

lemma tiny_baseline: "amount_baseline tiny_store usual_event = [tiny_event]"
proof -
  have "event_instant usual_event - seconds (24 * 3600) \<le> event_instant tiny_event"
     "event_instant tiny_event \<le> event_instant usual_event"
    by (simp_all add: tiny_event_def usual_event_def sample_simps dt_instant_def)
  moreover have "0 \<le> seconds (24 * 3600)" by (simp add: seconds_def)
  ultimately have "recent tiny_store usual_event (seconds (24 * 3600)) = [tiny_event, usual_event]"
    by (simp add: recent_def tiny_store_events insort_key_def sort_key_def)
  then show ?thesis by (simp add: amount_baseline_def tiny_event_def usual_event_def sample_event_def)
qed

lemma long_ratio_rejected:
  "\<not> signal_valid \<lparr>reason_code = c, description = a @ fmt1 (Fin (pow2 400)) @ b, contribution = k\<rparr>" if "100 \<le> length a + length b"
proof -
  have r: "round_half_even (\<bar>pow2 400\<bar> * 10) = 2 ^ 400 * 10"
    using round_half_even_int [of "2 ^ 400 * 10"] by (simp add: pow2_def)
  have "100 < length (nat_str (nat (2 ^ 400 * 10 div 10)))"
    by (rule length_nat_str_lower) simp
  then have "100 < length (fmt1 (Fin (pow2 400)))" using r by (simp add: Let_def)
  then show ?thesis using that by (simp add: signal_valid_def MAX_DESCRIPTION_LENGTH_def)
qed

lemma tiny_ratio: "compute_amount_features tiny_store usual_event = Inl (ValidationError ''TriggeredSignal'')"
proof -
  have "python_datetime (event_time usual_event)" by (simp add: usual_event_def sample_event_def) code_simp
  note lb = lookback_events_ok [OF tiny_events_valid(2) this window_durations(3), of tiny_store]
  have f1: "float_of_int 1 = Fin 1" using float_of_int_exact [of 1] by simp
  have "fl (pow2 (-400)) = Fin (pow2 (-400))" by (rule fl_exact [of 1 "-400"]) simp_all
  then have mean: "mean_amount [tiny_event] = Inr (Fin (pow2 (-400)))"
    by (simp add: mean_amount_def f1 tiny_event_def)
  have inv: "1 / pow2 (-400) = pow2 400" by (simp add: pow2_def)
  have "fl (pow2 400) = Fin (pow2 400)" by (rule fl_exact [of 1 400]) simp_all
  then have ratio: "fdiv (amount usual_event) (Fin (pow2 (-400))) = Inr (Fin (pow2 400))"
    by (simp add: usual_event_def inv)
  have big: "flt AMOUNT_DEVIATION_THRESHOLD_MULTIPLIER (Fin (pow2 400))"
    by (simp add: AMOUNT_DEVIATION_THRESHOLD_MULTIPLIER_def pow2_def)
  note prior = tiny_baseline [unfolded amount_baseline_def]
  have len: "100 \<le> length (''This transaction'' @ [CHR 0x27] @ ''s amount is '') +
     length (''x this account'' @ [CHR 0x27] @ ''s synthetic '' @ nat_str AMOUNT_LOOKBACK_HOURS @
       ''h baseline, above the illustrative multiplier of '' @ fmt1 AMOUNT_DEVIATION_THRESHOLD_MULTIPLIER @ ''x.'')"
    using length_nat_str_pos [of AMOUNT_LOOKBACK_HOURS]
      length_nat_str_pos [of "nat (round_half_even (30) mod 10)"]
    by (simp add: AMOUNT_DEVIATION_THRESHOLD_MULTIPLIER_def Let_def)
  note bad = long_ratio_rejected [OF len, unfolded append_assoc]
  show ?thesis
    unfolding compute_amount_features_def lb res_bind_simps prior Let_def
    by (simp add: mean ratio big bad emit_def make_signal_def del: fmt1.simps fdiv.simps append_Cons append.simps)
qed

section \<open>The properties of the families\<close>

lemma tiny_input: "family_input tiny_store usual_event"
proof -
  have "python_datetime (event_time usual_event)" by (simp add: usual_event_def sample_event_def) code_simp
  then show ?thesis by (simp add: family_input_def tiny_events_valid tiny_store_events)
qed

lemma amount_contract_no_baseline:
  assumes "family_input s e" and "amount_baseline s e = []"
  shows "family_contract compute_amount_features s e"
proof -
  have "window_features_ok [(''amount_has_baseline'', Fin 0), (''amount_baseline_mean_24h'', Fin 0), (''amount_deviation_ratio'', Fin 0)]"
    by code_simp
  then show ?thesis
    using amount_family_no_baseline [OF family_inputD(1,2) [OF assms(1)] assms(2)] by (simp add: family_contract_def)
qed

text \<open>
  C22. For a valid event and a history of at most a million events, seven of the eight families
  (all but the amount family) return a result and never raise: every signal they construct passes
  the output contract and every window feature is a legal, bounded one. The amount family does so
  when the account has no other event of the last 24 hours; it is no exception by accident, since
  there are a valid event and history for which it breaks the contract.
\<close>

theorem families_meet_output_contract:
  assumes "family_input s e"
  shows "list_all (\<lambda>f. family_contract f s e)
     [compute_device_features, compute_payment_method_features, compute_address_features,
      compute_geography_features, compute_merchant_features, compute_retry_features,
      compute_velocity_features] \<and>
    (amount_baseline s e = [] \<longrightarrow> family_contract compute_amount_features s e) \<and>
    (\<exists>s' e'. family_input s' e' \<and> \<not> family_contract compute_amount_features s' e')"
proof (intro conjI impI)
  show "list_all (\<lambda>f. family_contract f s e)
     [compute_device_features, compute_payment_method_features, compute_address_features,
      compute_geography_features, compute_merchant_features, compute_retry_features,
      compute_velocity_features]"
    using device_family [OF assms] payment_method_family [OF assms] address_family [OF assms]
      geography_family [OF assms] merchant_family [OF assms] retry_family [OF assms] velocity_family [OF assms]
    by (auto simp: family_contract_def)
  show "family_contract compute_amount_features s e" if none: "amount_baseline s e = []"
    using assms none by (rule amount_contract_no_baseline)
  show "\<exists>s' e'. family_input s' e' \<and> \<not> family_contract compute_amount_features s' e'"
    using tiny_input tiny_ratio by (intro exI [of _ tiny_store] exI [of _ usual_event]) (simp add: family_contract_def)
qed

theorem families_meet_output_contract_witness:
  "family_contract compute_merchant_features tiny_store usual_event \<and>
   family_contract compute_velocity_features tiny_store usual_event"
  using families_meet_output_contract [OF tiny_input] by simp

text \<open>
  The pairing signals are exact. A device, payment method or address is reported as new
  to the account precisely when no other retained event of the last 24 hours pairs them,
  and as fanned out precisely when more than three distinct accounts used it in that time;
  the address family adds the billing mismatch exactly when the event carries it.
\<close>

theorem pairing_signals_exact:
  assumes "family_input s e"
  shows "\<exists>d p a. compute_device_features s e = Inr d \<and> compute_payment_method_features s e = Inr p \<and>
    compute_address_features s e = Inr a \<and>
    map reason_code (ff_triggered_signals d) =
      pairing_codes s e device_id ''device_new_to_account'' ''device_fan_out_high'' \<and>
    map reason_code (ff_triggered_signals p) =
      pairing_codes s e payment_method_id ''payment_method_new_to_account'' ''payment_method_fan_out_high'' \<and>
    map reason_code (ff_triggered_signals a) =
      pairing_codes s e address_id ''address_new_to_account'' ''address_fan_out_high'' @
        (if billing_shipping_match e then [] else [''address_billing_shipping_mismatch''])"
  using device_family [OF assms] payment_method_family [OF assms] address_family [OF assms] by blast

theorem pairing_signals_exact_witness:
  "\<exists>d. compute_device_features tiny_store usual_event = Inr d \<and>
     map reason_code (ff_triggered_signals d) =
       pairing_codes tiny_store usual_event device_id ''device_new_to_account'' ''device_fan_out_high''"
  using pairing_signals_exact [OF tiny_input] by blast

text \<open>
  The merchant family's failure-rate signal, computed in floating point, fires exactly
  when at least five transactions were seen and more than half of them were declined or
  failed as integers: rounding never moves an event across the threshold.
\<close>

theorem merchant_rate_signal_exact:
  assumes "family_input s e"
  shows "\<exists>r. compute_merchant_features s e = Inr r \<and>
    map reason_code (ff_triggered_signals r) = merchant_codes s e"
  using merchant_family [OF assms] by blast

theorem merchant_rate_signal_exact_witness:
  "\<exists>r. compute_merchant_features tiny_store usual_event = Inr r \<and>
     map reason_code (ff_triggered_signals r) = merchant_codes tiny_store usual_event"
  using merchant_rate_signal_exact [OF tiny_input] by blast

text \<open>
  The velocity family reports all twelve (entity, window) counts, each the exact number
  of retained events in that window that share the entity, and signals precisely the cells
  whose count exceeds the threshold of the window.
\<close>

theorem velocity_family_exact:
  assumes "family_input s e"
  shows "\<exists>r. compute_velocity_features s e = Inr r \<and>
    ff_window_features r = map cell_feature (velocity_cells s e) \<and>
    map reason_code (ff_triggered_signals r) = velocity_codes s e"
  using velocity_family [OF assms] by blast

theorem velocity_family_exact_witness:
  "\<exists>r. compute_velocity_features tiny_store usual_event = Inr r \<and>
    ff_window_features r = map cell_feature (velocity_cells tiny_store usual_event)"
  using velocity_family_exact [OF tiny_input] by blast

text \<open>
  The amount family is not total on valid input: a valid account history with one tiny
  amount makes the deviation ratio so long that the description exceeds 200 characters, and
  the signal's own constructor raises out of the family.
\<close>

theorem amount_family_rejects_its_own_signal:
  "event_valid tiny_event \<and> family_input tiny_store usual_event \<and>
   retained_events tiny_store = [tiny_event, usual_event] \<and>
   compute_amount_features tiny_store usual_event = Inl (ValidationError ''TriggeredSignal'')"
  using tiny_events_valid(1) tiny_input tiny_store_events tiny_ratio by blast


end
