(* ===== verification/Order_Integrity.thy ===== *)
theory Order_Integrity
  imports Py_Values
begin

text \<open>
  \<open>src/src/order_integrity/catalog.py\<close> and \<open>verifier.py\<close>: client cart lines carry a SKU and a
  quantity only, the server reconstructs the amount from a trusted catalog in integer minor
  units, binds it in a quote and checks a confirmation against it; a ledger replays the
  outcome of a confirmation event and lets a quote be verified once.
\<close>

section \<open>The catalog\<close>

definition CATALOG_VERSION :: string where "CATALOG_VERSION = ''synthetic-catalog-v1''"
definition CATALOG_CURRENCY :: string where "CATALOG_CURRENCY = ''XTS''"

definition CATALOG :: "(string, pyval) dict" where
  "CATALOG = [(''SKU_ALPHA'', PInt 129900), (''SKU_BETA'', PInt 4550), (''SKU_GAMMA'', PInt 87325)]"

definition CATALOG_VERSION_NEXT :: string where "CATALOG_VERSION_NEXT = ''synthetic-catalog-v2''"

definition CATALOG_NEXT :: "(string, pyval) dict" where
  "CATALOG_NEXT = [(''SKU_ALPHA'', PInt 139900), (''SKU_BETA'', PInt 4550), (''SKU_GAMMA'', PInt 87325)]"

definition MAX_QUANTITY_PER_LINE :: int where "MAX_QUANTITY_PER_LINE = 100"
definition MAX_LINES_PER_CART :: nat where "MAX_LINES_PER_CART = 20"
definition MAX_TOTAL_MINOR :: int where "MAX_TOTAL_MINOR = 1000000000"

section \<open>Outcomes and data\<close>

datatype integrity_outcome = VERIFIED | MISMATCH | UNAVAILABLE | INVALID

definition ALLOWED_CLIENT_LINE_FIELDS :: "string list" where
  "ALLOWED_CLIENT_LINE_FIELDS = [''sku'', ''quantity'']"

definition FORBIDDEN_CLIENT_FIELDS :: "string list" where
  "FORBIDDEN_CLIENT_FIELDS =
     [''price'', ''unit_price'', ''unitPrice'', ''amount'', ''amount_minor'', ''total'',
      ''total_amount'', ''totalAmount'', ''subtotal'', ''grand_total'', ''discount'',
      ''discount_amount'', ''tax'', ''tax_amount'', ''shipping'', ''shipping_cost'',
      ''currency'', ''payment_status'', ''paymentStatus'', ''status'', ''paid'',
      ''captured'', ''captured_amount'', ''fulfilment_status'', ''fulfillment_status'']"

abbreviation OrderIntegrityError :: "string \<Rightarrow> py_exc" where
  "OrderIntegrityError m \<equiv> PyError ''OrderIntegrityError'' m"

record cart_line =
  cl_sku :: string
  cl_quantity :: int

record quote =
  q_quote_id :: string
  q_cart_digest :: string
  q_catalog_version :: string
  q_currency :: string
  q_expected_amount_minor :: int
  q_lines :: "cart_line list"
  q_issued_at_sequence :: int
  q_expires_at_sequence :: int

record integrity_result =
  ir_outcome :: integrity_outcome
  ir_reason_code :: string
  ir_quote_id :: "string option"
  ir_detail :: "(string, pyval) dict"

definition fulfilment_eligible :: "integrity_result \<Rightarrow> bool" where
  "fulfilment_eligible r = (ir_outcome r = VERIFIED)"

section \<open>Canonical carts\<close>

text \<open>\<open>merged[line.sku] = merged.get(line.sku, 0) + line.quantity\<close>, then \<open>sorted(merged.items())\<close>;
  the keys of a dictionary are distinct, so sorting the pairs is sorting by key.\<close>

definition merge_line :: "(string, int) dict \<Rightarrow> cart_line \<Rightarrow> (string, int) dict" where
  "merge_line merged line =
     AList.update (cl_sku line)
       ((case map_of merged (cl_sku line) of None \<Rightarrow> 0 | Some q \<Rightarrow> q) + cl_quantity line) merged"

definition canonical_cart :: "cart_line list \<Rightarrow> (string \<times> int) list" where
  "canonical_cart lines = sort_key fst (foldl merge_line [] lines)"

definition cart_json :: "(string \<times> int) list \<Rightarrow> string" where
  "cart_json canonical =
     ''['' @ join '','' (map (\<lambda>(sku, q). ''['' @ json_str sku @ '','' @ int_str q @ '']'') canonical) @ '']''"

definition cart_digest :: "cart_line list \<Rightarrow> string" where
  "cart_digest lines = sha256_hex (cart_json (canonical_cart lines))"

section \<open>Client input\<close>

definition parse_client_line :: "pyval \<Rightarrow> py_exc + cart_line" where
  "parse_client_line raw =
     (case raw of
        PDict d \<Rightarrow>
          (let supplied = map fst d;
               forbidden = filter (\<lambda>f. f \<in> set FORBIDDEN_CLIENT_FIELDS) supplied;
               unexpected = filter (\<lambda>f. f \<notin> set ALLOWED_CLIENT_LINE_FIELDS) supplied
           in if forbidden \<noteq> [] then
                Inl (OrderIntegrityError (''Client-supplied field(s) rejected: '' @
                  repr_str_list (sort forbidden) @ ''. '' @ ''The server reconstructs every amount.''))
              else if unexpected \<noteq> [] then
                Inl (OrderIntegrityError (''Unexpected field(s) rejected: '' @
                  repr_str_list (sort unexpected) @ ''.''))
              else case str_of (py_get d ''sku'') of
                None \<Rightarrow> Inl (OrderIntegrityError ''Each line requires a string sku.'')
              | Some sku \<Rightarrow>
                  if sku = [] then Inl (OrderIntegrityError ''Each line requires a string sku.'')
                  else case int_of (py_get d ''quantity'') of
                    None \<Rightarrow> Inl (OrderIntegrityError ''Quantity must be an integer.'')
                  | Some quantity \<Rightarrow>
                      if quantity < 1 then Inl (OrderIntegrityError ''Quantity must be positive.'')
                      else if quantity > MAX_QUANTITY_PER_LINE then
                        Inl (OrderIntegrityError ''Quantity exceeds the permitted bound.'')
                      else Inr \<lparr>cl_sku = sku, cl_quantity = quantity\<rparr>)
      | _ \<Rightarrow> Inl (OrderIntegrityError ''Each cart line must be an object.''))"

definition parse_client_lines :: "pyval \<Rightarrow> py_exc + cart_line list" where
  "parse_client_lines payload =
     (case payload of
        PList raws \<Rightarrow>
          if raws = [] then Inl (OrderIntegrityError ''Cart must contain at least one line.'')
          else if length raws > MAX_LINES_PER_CART then
            Inl (OrderIntegrityError ''Cart exceeds the maximum line count.'')
          else res_bind (res_map parse_client_line raws) (\<lambda>lines.
            if list_ex (\<lambda>(sku, merged). merged > MAX_QUANTITY_PER_LINE) (canonical_cart lines) then
              Inl (OrderIntegrityError ''Merged quantity for a SKU exceeds the permitted bound.'')
            else Inr lines)
      | _ \<Rightarrow> Inl (OrderIntegrityError ''Cart must be a list of lines.''))"

section \<open>Amounts\<close>

text \<open>The loop of \<open>reconstruct_amount_minor\<close> over the canonical cart.\<close>

fun reconstruct_loop :: "(string, pyval) dict \<Rightarrow> int \<Rightarrow> (string \<times> int) list \<Rightarrow> py_exc + int" where
  "reconstruct_loop catalog acc [] = Inr acc"
| "reconstruct_loop catalog acc ((sku, quantity) # rest) =
     (case map_of catalog sku of
        None \<Rightarrow> Inl (OrderIntegrityError (''SKU '' @ repr_str sku @ '' is not in the trusted catalog.''))
      | Some price \<Rightarrow>
          (case int_of price of
             None \<Rightarrow> Inl (OrderIntegrityError ''Catalog prices must be non-negative integers.'')
           | Some unit_minor \<Rightarrow>
               if unit_minor < 0 then
                 Inl (OrderIntegrityError ''Catalog prices must be non-negative integers.'')
               else if quantity < 1 \<or> quantity > MAX_QUANTITY_PER_LINE then
                 Inl (OrderIntegrityError ''Quantity outside the permitted bound.'')
               else (let acc = acc + unit_minor * quantity
                     in if acc > MAX_TOTAL_MINOR then
                          Inl (OrderIntegrityError ''Reconstructed total exceeds the permitted bound.'')
                        else reconstruct_loop catalog acc rest)))"

definition reconstruct_amount_minor :: "cart_line list \<Rightarrow> (string, pyval) dict option \<Rightarrow> py_exc + int" where
  "reconstruct_amount_minor lines catalog =
     (case catalog of
        None \<Rightarrow> Inl (OrderIntegrityError ''Trusted catalog is unavailable.'')
      | Some c \<Rightarrow> reconstruct_loop c 0 (canonical_cart lines))"

definition build_quote ::
  "string \<Rightarrow> cart_line list \<Rightarrow> (string, pyval) dict option \<Rightarrow> string \<Rightarrow> string \<Rightarrow> int \<Rightarrow> int \<Rightarrow> py_exc + quote" where
  "build_quote quote_id lines catalog catalog_version currency issued_at_sequence validity_sequences =
     (if quote_id = [] then Inl (OrderIntegrityError ''quote_id is required.'')
      else res_bind (reconstruct_amount_minor lines catalog) (\<lambda>expected.
        Inr \<lparr>q_quote_id = quote_id, q_cart_digest = cart_digest lines,
             q_catalog_version = catalog_version, q_currency = currency,
             q_expected_amount_minor = expected, q_lines = lines,
             q_issued_at_sequence = issued_at_sequence,
             q_expires_at_sequence = issued_at_sequence + validity_sequences\<rparr>))"

section \<open>The ledger\<close>

record confirmation_ledger =
  lg_events :: "(string, integrity_result) dict"
  lg_settled_quotes :: "string set"

definition ledger_init :: confirmation_ledger where
  "ledger_init = \<lparr>lg_events = [], lg_settled_quotes = {}\<rparr>"

definition ledger_seen :: "confirmation_ledger \<Rightarrow> string \<Rightarrow> integrity_result option" where
  "ledger_seen lg event_id = map_of (lg_events lg) event_id"

definition ledger_record ::
  "confirmation_ledger \<Rightarrow> string \<Rightarrow> integrity_result \<Rightarrow> integrity_result \<times> confirmation_ledger" where
  "ledger_record lg event_id result =
     (let lg = lg\<lparr>lg_events := AList.update event_id result (lg_events lg)\<rparr>
      in (result,
          case ir_quote_id result of
            Some qid \<Rightarrow> if ir_outcome result = VERIFIED
                        then lg\<lparr>lg_settled_quotes := insert qid (lg_settled_quotes lg)\<rparr> else lg
          | None \<Rightarrow> lg))"

definition ledger_is_settled :: "confirmation_ledger \<Rightarrow> string \<Rightarrow> bool" where
  "ledger_is_settled lg qid = (qid \<in> lg_settled_quotes lg)"

definition ledger_event_count :: "confirmation_ledger \<Rightarrow> nat" where
  "ledger_event_count lg = length (lg_events lg)"

section \<open>Verification\<close>

record confirmation =
  cf_quote :: "quote option"
  cf_event_id :: string
  cf_captured_amount_minor :: pyval
  cf_captured_currency :: string
  cf_catalog :: "(string, pyval) dict option"
  cf_current_sequence :: int
  cf_active_catalog_version :: string

definition plain_result :: "integrity_outcome \<Rightarrow> string \<Rightarrow> string option \<Rightarrow> integrity_result" where
  "plain_result out reason qid =
     \<lparr>ir_outcome = out, ir_reason_code = reason, ir_quote_id = qid, ir_detail = []\<rparr>"

text \<open>The outcome of a confirmation that is not a replay, for a given quote and catalog.\<close>

definition judge_confirmation ::
  "confirmation \<Rightarrow> quote \<Rightarrow> (string, pyval) dict \<Rightarrow> confirmation_ledger \<Rightarrow> integrity_result" where
  "judge_confirmation c q catalog lg =
     (let bad = (\<lambda>out reason. plain_result out reason (Some (q_quote_id q)))
      in if ledger_is_settled lg (q_quote_id q) then bad MISMATCH ''quote_already_settled''
         else if cf_current_sequence c < q_issued_at_sequence q then bad MISMATCH ''out_of_order_confirmation''
         else if cf_current_sequence c > q_expires_at_sequence q then bad MISMATCH ''expired_quote''
         else if q_catalog_version q \<noteq> cf_active_catalog_version c then bad MISMATCH ''stale_catalog_version''
         else if cf_captured_currency c \<noteq> q_currency q then bad MISMATCH ''currency_mismatch''
         else case int_of (cf_captured_amount_minor c) of
           None \<Rightarrow> bad INVALID ''captured_amount_not_integer_minor_units''
         | Some captured \<Rightarrow>
             (case reconstruct_amount_minor (q_lines q) (Some catalog) of
                Inl _ \<Rightarrow> bad UNAVAILABLE ''reconstruction_failed''
              | Inr recomputed \<Rightarrow>
                  if cart_digest (q_lines q) \<noteq> q_cart_digest q then bad MISMATCH ''quote_mutated_after_issue''
                  else if recomputed \<noteq> q_expected_amount_minor q then bad MISMATCH ''catalog_amount_changed''
                  else if captured \<noteq> q_expected_amount_minor q then bad MISMATCH ''amount_mismatch''
                  else \<lparr>ir_outcome = VERIFIED,
                        ir_reason_code = ''expected_quoted_and_captured_amounts_match'',
                        ir_quote_id = Some (q_quote_id q),
                        ir_detail = [(''amount_minor'', PInt recomputed), (''currency'', PStr (q_currency q))]\<rparr>))"

definition verify_confirmation ::
  "confirmation_ledger \<Rightarrow> confirmation \<Rightarrow> integrity_result \<times> confirmation_ledger" where
  "verify_confirmation lg c =
     (if cf_event_id c = [] then (plain_result INVALID ''missing_event_id'' None, lg)
      else case ledger_seen lg (cf_event_id c) of
        Some previous \<Rightarrow> (previous, lg)
      | None \<Rightarrow>
          (case cf_quote c of
             None \<Rightarrow> ledger_record lg (cf_event_id c) (plain_result MISMATCH ''unknown_quote'' None)
           | Some q \<Rightarrow>
               (case cf_catalog c of
                  None \<Rightarrow> ledger_record lg (cf_event_id c)
                            (plain_result UNAVAILABLE ''trusted_catalog_unavailable'' (Some (q_quote_id q)))
                | Some catalog \<Rightarrow> ledger_record lg (cf_event_id c) (judge_confirmation c q catalog lg))))"

fun verify_all :: "confirmation_ledger \<Rightarrow> confirmation list \<Rightarrow> integrity_result list \<times> confirmation_ledger" where
  "verify_all lg [] = ([], lg)"
| "verify_all lg (c # cs) =
     (let (r, lg1) = verify_confirmation lg c; (rs, lg2) = verify_all lg1 cs in (r # rs, lg2))"

section \<open>Signatures\<close>

definition sign_synthetic_body :: "string \<Rightarrow> string \<Rightarrow> string" where
  "sign_synthetic_body raw_body secret = hmac_sha256_hex secret raw_body"

text \<open>\<open>hmac.compare_digest\<close> is equality on ASCII strings.\<close>

definition verify_synthetic_signature :: "string \<Rightarrow> string \<Rightarrow> string \<Rightarrow> bool" where
  "verify_synthetic_signature raw_body sig secret = (hmac_sha256_hex secret raw_body = sig)"

section \<open>Facts about carts\<close>

definition sku_total :: "cart_line list \<Rightarrow> string \<Rightarrow> int" where
  "sku_total lines sku = sum_list (map cl_quantity (filter (\<lambda>l. cl_sku l = sku) lines))"

abbreviation skus :: "cart_line list \<Rightarrow> string set" where
  "skus lines \<equiv> cl_sku ` set lines"

lemma dict_ok_merge: "dict_ok d \<Longrightarrow> dict_ok (foldl merge_line d lines)"
  by (induction lines arbitrary: d) (simp_all add: merge_line_def AList.distinct_update)

lemma map_of_merge_line:
  "map_of (merge_line d l) sku =
     (if sku = cl_sku l then Some ((case map_of d sku of None \<Rightarrow> 0 | Some q \<Rightarrow> q) + cl_quantity l)
      else map_of d sku)"
  by (simp add: merge_line_def AList.update_conv')

lemma sku_total_Nil [simp]: "sku_total [] sku = 0"
  by (simp add: sku_total_def)

lemma sku_total_Cons [simp]:
  "sku_total (l # lines) sku = (if cl_sku l = sku then cl_quantity l else 0) + sku_total lines sku"
  by (simp add: sku_total_def)

lemma sku_total_absent: "sku \<notin> skus lines \<Longrightarrow> sku_total lines sku = 0"
  by (induction lines) auto

lemma map_of_merge:
  "map_of (foldl merge_line d lines) sku =
     (case map_of d sku of
        Some q \<Rightarrow> Some (q + sku_total lines sku)
      | None \<Rightarrow> if sku \<in> skus lines then Some (sku_total lines sku) else None)"
proof (induction lines arbitrary: d)
  case (Cons l lines)
  show ?case
    using sku_total_absent [of sku lines]
    by (auto simp: Cons.IH map_of_merge_line split: option.split)
qed (simp split: option.split)

lemma map_of_same_elements:
  assumes "dict_ok d" and "mset d' = mset d"
  shows "map_of d' = map_of d"
proof -
  have "set d' = set d" "dict_ok d'"
    using assms mset_eq_setD [OF assms(2)] mset_eq_imp_distinct_iff [of "map fst d'" "map fst d"] by simp_all
  then show ?thesis using assms(1) by (metis map_of_inject_set)
qed

lemma canonical_cart_map_of:
  "map_of (canonical_cart lines) sku = (if sku \<in> skus lines then Some (sku_total lines sku) else None)"
proof -
  have "map_of (canonical_cart lines) = map_of (foldl merge_line [] lines)"
    by (rule map_of_same_elements) (simp_all add: canonical_cart_def dict_ok_merge)
  then show ?thesis by (simp add: map_of_merge)
qed

lemma canonical_cart_dict_ok: "dict_ok (canonical_cart lines)"
proof -
  have "mset (map fst (canonical_cart lines)) = mset (map fst (foldl merge_line [] lines))"
    by (simp add: canonical_cart_def)
  then show ?thesis using mset_eq_imp_distinct_iff dict_ok_merge [of "[]" lines] by (metis distinct.simps(1) list.simps(8))
qed

lemma canonical_cart_sorted: "sorted (map fst (canonical_cart lines))"
  by (simp add: canonical_cart_def)

lemma dict_rebuild: "dict_ok d \<Longrightarrow> map (\<lambda>k. (k, the (map_of d k))) (map fst d) = d"
  unfolding map_map by (rule map_idI) (auto simp: comp_def)

lemma dict_eqI:
  assumes "dict_ok d" and "map_of d = map_of e" and "map fst d = map fst e"
  shows "d = e"
  using dict_rebuild [OF assms(1)] dict_rebuild [of e] assms by metis

text \<open>The canonical cart depends only on which SKUs occur and on their total quantities.\<close>

lemma canonical_cart_eqI:
  assumes "skus a = skus b" and "\<And>sku. sku_total a sku = sku_total b sku"
  shows "canonical_cart a = canonical_cart b"
proof -
  have m: "map_of (canonical_cart a) = map_of (canonical_cart b)"
    by (rule ext) (simp add: canonical_cart_map_of assms)
  have s: "set (canonical_cart a) = set (canonical_cart b)"
    using map_of_inject_set [OF canonical_cart_dict_ok canonical_cart_dict_ok] m by blast
  then have "map fst (canonical_cart a) = map fst (canonical_cart b)"
    using canonical_cart_sorted canonical_cart_dict_ok
    by (metis list.set_map sorted_distinct_set_unique)
  then show ?thesis
    using dict_eqI [OF canonical_cart_dict_ok m] by blast
qed

section \<open>Facts about amounts\<close>

definition catalog_price :: "(string, pyval) dict \<Rightarrow> string \<Rightarrow> int" where
  "catalog_price catalog sku = (case map_of catalog sku of Some (PInt p) \<Rightarrow> p | _ \<Rightarrow> 0)"

definition priced :: "(string, pyval) dict \<Rightarrow> string \<Rightarrow> bool" where
  "priced catalog sku = (case map_of catalog sku of Some (PInt p) \<Rightarrow> 0 \<le> p | _ \<Rightarrow> False)"

definition cart_amount :: "(string, pyval) dict \<Rightarrow> cart_line list \<Rightarrow> int" where
  "cart_amount catalog lines = sum_list (map (\<lambda>l. catalog_price catalog (cl_sku l) * cl_quantity l) lines)"

definition weigh :: "(string, pyval) dict \<Rightarrow> (string \<times> int) list \<Rightarrow> int" where
  "weigh catalog xs = sum_list (map (\<lambda>(sku, q). catalog_price catalog sku * q) xs)"

lemma pricedE:
  assumes "priced catalog sku"
  obtains p where "map_of catalog sku = Some (PInt p)" "catalog_price catalog sku = p" "0 \<le> p"
  using assms by (auto simp: priced_def catalog_price_def split: option.splits pyval.splits)

lemma catalog_price_nonneg: "priced catalog sku \<Longrightarrow> 0 \<le> catalog_price catalog sku"
  by (auto elim: pricedE)

lemma weigh_Nil [simp]: "weigh catalog [] = 0"
  by (simp add: weigh_def)

lemma weigh_Cons [simp]: "weigh catalog ((sku, q) # xs) = catalog_price catalog sku * q + weigh catalog xs"
  by (simp add: weigh_def)

lemma weigh_merge_line:
  "dict_ok d \<Longrightarrow> weigh catalog (merge_line d l) = weigh catalog d + catalog_price catalog (cl_sku l) * cl_quantity l"
proof (induction d)
  case (Cons p d)
  then show ?case
    by (cases p) (auto simp: merge_line_def weigh_def algebra_simps map_of_eq_None_iff [symmetric] split: option.splits)
qed (simp add: merge_line_def)

lemma weigh_canonical: "weigh catalog (canonical_cart lines) = cart_amount catalog lines"
proof -
  have "dict_ok d \<Longrightarrow> weigh catalog (foldl merge_line d lines) = weigh catalog d + cart_amount catalog lines" for d
  proof (induction lines arbitrary: d)
    case (Cons l lines)
    have "dict_ok (merge_line d l)" using dict_ok_merge [of d "[l]"] Cons.prems by simp
    then show ?case using Cons.IH weigh_merge_line [OF Cons.prems] by (simp add: cart_amount_def)
  qed (simp add: cart_amount_def)
  moreover have "weigh catalog xs = sum_mset (image_mset (\<lambda>(sku, q). catalog_price catalog sku * q) (mset xs))" for xs
    by (simp only: weigh_def sum_mset_sum_list [symmetric] mset_map)
  then have "weigh catalog (canonical_cart lines) = weigh catalog (foldl merge_line [] lines)"
    by (simp only: canonical_cart_def mset_sort)
  ultimately show ?thesis by simp
qed

lemma reconstruct_loop_Inr:
  "reconstruct_loop catalog acc xs = Inr t \<Longrightarrow> t = acc + weigh catalog xs \<and> acc \<le> t \<and>
     (xs \<noteq> [] \<longrightarrow> t \<le> MAX_TOTAL_MINOR) \<and>
     (\<forall>(sku, q) \<in> set xs. priced catalog sku \<and> 1 \<le> q \<and> q \<le> MAX_QUANTITY_PER_LINE)"
proof (induction xs arbitrary: acc)
  case (Cons x xs)
  obtain sku q where x: "x = (sku, q)" by (cases x)
  from Cons.prems x obtain p where p: "map_of catalog sku = Some (PInt p)" "0 \<le> p" "1 \<le> q"
    "q \<le> MAX_QUANTITY_PER_LINE" "acc + p * q \<le> MAX_TOTAL_MINOR"
    "reconstruct_loop catalog (acc + p * q) xs = Inr t"
    by (auto simp: int_of_def Let_def split: option.splits pyval.splits if_splits)
  have pr: "priced catalog sku" "catalog_price catalog sku = p"
    using p(1,2) by (simp_all add: priced_def catalog_price_def)
  have "0 \<le> p * q" using p by simp
  moreover note ih = Cons.IH [OF p(6)]
  moreover have "t \<le> MAX_TOTAL_MINOR"
  proof (cases "xs = []")
    case True then show ?thesis using p(5,6) by simp
  next
    case False then show ?thesis using ih by blast
  qed
  ultimately show ?case using pr p(3,4) x by simp
qed simp

lemma reconstruct_loop_ok:
  assumes "\<forall>(sku, q) \<in> set xs. priced catalog sku \<and> 1 \<le> q \<and> q \<le> MAX_QUANTITY_PER_LINE"
    and "acc + weigh catalog xs \<le> MAX_TOTAL_MINOR"
  shows "reconstruct_loop catalog acc xs = Inr (acc + weigh catalog xs)"
  using assms
proof (induction xs arbitrary: acc)
  case (Cons x xs)
  obtain sku q where x: "x = (sku, q)" by (cases x)
  then obtain p where p: "map_of catalog sku = Some (PInt p)" "catalog_price catalog sku = p" "0 \<le> p"
    using Cons.prems(1) by (auto elim: pricedE)
  have "0 \<le> weigh catalog xs"
    using Cons.prems(1) unfolding weigh_def by (intro sum_list_nonneg) (auto dest!: catalog_price_nonneg)
  then have "acc + p * q \<le> MAX_TOTAL_MINOR" using Cons.prems(2) p x by simp
  then show ?case using Cons p x by (simp add: int_of_def Let_def)
qed simp

lemma canonical_cart_entries:
  "(sku, q) \<in> set (canonical_cart lines) \<longleftrightarrow> sku \<in> skus lines \<and> q = sku_total lines sku"
  using canonical_cart_map_of [of lines sku] map_of_eq_Some_iff [OF canonical_cart_dict_ok, of lines sku q]
  by (auto split: if_splits)

lemma reconstruct_amount_Inr:
  assumes "reconstruct_amount_minor lines (Some catalog) = Inr t"
  shows "t = cart_amount catalog lines" and "0 \<le> t" and "lines \<noteq> [] \<longrightarrow> t \<le> MAX_TOTAL_MINOR"
    and "\<forall>sku \<in> skus lines. priced catalog sku \<and> 1 \<le> sku_total lines sku \<and> sku_total lines sku \<le> MAX_QUANTITY_PER_LINE"
proof -
  note r = reconstruct_loop_Inr [of catalog 0 "canonical_cart lines" t]
  have l: "reconstruct_loop catalog 0 (canonical_cart lines) = Inr t"
    using assms by (simp add: reconstruct_amount_minor_def)
  show "t = cart_amount catalog lines" "0 \<le> t" using r [OF l] by (simp_all add: weigh_canonical)
  show "lines \<noteq> [] \<longrightarrow> t \<le> MAX_TOTAL_MINOR"
  proof
    assume "lines \<noteq> []"
    then obtain l where "l \<in> set lines" by (cases lines) auto
    then have "canonical_cart lines \<noteq> []"
      using canonical_cart_entries [of "cl_sku l" "sku_total lines (cl_sku l)" lines] by force
    then show "t \<le> MAX_TOTAL_MINOR" using r [OF l] by blast
  qed
  show "\<forall>sku \<in> skus lines. priced catalog sku \<and> 1 \<le> sku_total lines sku \<and> sku_total lines sku \<le> MAX_QUANTITY_PER_LINE"
    using r [OF l] canonical_cart_entries by blast
qed

section \<open>Facts about the ledger\<close>

definition ledger_inv :: "confirmation_ledger \<Rightarrow> bool" where
  "ledger_inv lg \<longleftrightarrow>
     (\<forall>ev r. map_of (lg_events lg) ev = Some r \<longrightarrow> ir_outcome r = VERIFIED \<longrightarrow>
        (\<exists>qid. ir_quote_id r = Some qid \<and> qid \<in> lg_settled_quotes lg)) \<and>
     (\<forall>e1 e2 r1 r2. map_of (lg_events lg) e1 = Some r1 \<longrightarrow> map_of (lg_events lg) e2 = Some r2 \<longrightarrow>
        ir_outcome r1 = VERIFIED \<longrightarrow> ir_outcome r2 = VERIFIED \<longrightarrow> ir_quote_id r1 = ir_quote_id r2 \<longrightarrow> e1 = e2)"

lemma ledger_inv_init: "ledger_inv ledger_init"
  by (simp add: ledger_inv_def ledger_init_def)

lemma ledger_record_seen:
  assumes "ledger_record lg ev r = (out, lg')"
  shows "out = r" and "ledger_seen lg' e = (if e = ev then Some r else ledger_seen lg e)"
    and "lg_settled_quotes lg' = lg_settled_quotes lg \<union>
      (if ir_outcome r = VERIFIED then set_option (ir_quote_id r) else {})"
  using assms by (auto simp: ledger_record_def ledger_seen_def AList.update_conv' Let_def
      split: option.splits if_splits)

lemma ledger_inv_record_unverified:
  assumes "ledger_inv lg" and "ledger_seen lg ev = None" and "ledger_record lg ev r = (out, lg')"
    and "ir_outcome r \<noteq> VERIFIED"
  shows "ledger_inv lg'"
  using assms(1,4) ledger_record_seen [OF assms(3)] unfolding ledger_inv_def ledger_seen_def
  by (auto split: if_splits)

lemma ledger_inv_record_verified:
  assumes "ledger_inv lg" and "ledger_seen lg ev = None" and "ledger_record lg ev r = (out, lg')"
    and "ir_outcome r = VERIFIED" and "ir_quote_id r = Some qid" and "\<not> ledger_is_settled lg qid"
  shows "ledger_inv lg'"
proof -
  have s: "lg_settled_quotes lg' = insert qid (lg_settled_quotes lg)"
    using ledger_record_seen(3) [OF assms(3)] assms(4,5) by simp
  have m: "map_of (lg_events lg') e = (if e = ev then Some r else map_of (lg_events lg) e)" for e
    using ledger_record_seen(2) [OF assms(3)] by (simp add: ledger_seen_def)
  have old: "ir_quote_id r' \<noteq> Some qid" if "map_of (lg_events lg) e = Some r'" "ir_outcome r' = VERIFIED" for e r'
    using assms(1,6) that unfolding ledger_inv_def ledger_is_settled_def by fastforce
  have "e1 = e2" if "map_of (lg_events lg') e1 = Some r1" "map_of (lg_events lg') e2 = Some r2"
    "ir_outcome r1 = VERIFIED" "ir_outcome r2 = VERIFIED" "ir_quote_id r1 = ir_quote_id r2" for e1 e2 r1 r2
    using that old [of e1 r1] old [of e2 r2] assms(1,5) unfolding ledger_inv_def m
    by (auto split: if_splits)
  moreover have "\<exists>q. ir_quote_id r1 = Some q \<and> q \<in> lg_settled_quotes lg'"
    if "map_of (lg_events lg') e1 = Some r1" "ir_outcome r1 = VERIFIED" for e1 r1
  proof (cases "e1 = ev")
    case True then show ?thesis using that assms(5) s m by simp
  next
    case False
    then have "map_of (lg_events lg) e1 = Some r1" using that m by simp
    then show ?thesis using that(2) assms(1) s unfolding ledger_inv_def by blast
  qed
  ultimately show ?thesis unfolding ledger_inv_def by blast
qed

lemma judge_quote_id: "ir_quote_id (judge_confirmation c q catalog lg) = Some (q_quote_id q)"
  by (simp add: judge_confirmation_def plain_result_def Let_def split: option.split sum.split)

lemma judge_verified_iff:
  "ir_outcome (judge_confirmation c q catalog lg) = VERIFIED \<longleftrightarrow>
     \<not> ledger_is_settled lg (q_quote_id q) \<and>
     q_issued_at_sequence q \<le> cf_current_sequence c \<and> cf_current_sequence c \<le> q_expires_at_sequence q \<and>
     q_catalog_version q = cf_active_catalog_version c \<and> cf_captured_currency c = q_currency q \<and>
     cf_captured_amount_minor c = PInt (q_expected_amount_minor q) \<and>
     reconstruct_amount_minor (q_lines q) (Some catalog) = Inr (q_expected_amount_minor q) \<and>
     cart_digest (q_lines q) = q_cart_digest q"
  by (auto simp: judge_confirmation_def plain_result_def Let_def int_of_def split: option.split sum.split pyval.split)

lemma verify_confirmation_step:
  assumes "verify_confirmation lg c = (r, lg')" and "ledger_inv lg"
  shows "ledger_inv lg'" and "ledger_seen lg ev = Some r0 \<Longrightarrow> ledger_seen lg' ev = Some r0"
    and "cf_event_id c \<noteq> [] \<Longrightarrow> ledger_seen lg' (cf_event_id c) = Some r"
    and "cf_event_id c = [] \<Longrightarrow> ir_outcome r = INVALID"
proof -
  consider (empty) "cf_event_id c = []" "lg' = lg" "ir_outcome r = INVALID"
    | (replay) "cf_event_id c \<noteq> []" "ledger_seen lg (cf_event_id c) = Some r" "lg' = lg"
    | (plain) "cf_event_id c \<noteq> []" "ledger_seen lg (cf_event_id c) = None" "ledger_record lg (cf_event_id c) r = (r, lg')"
        "ir_outcome r \<noteq> VERIFIED"
    | (judged) q catalog where "cf_event_id c \<noteq> []" "ledger_seen lg (cf_event_id c) = None" "ledger_record lg (cf_event_id c) r = (r, lg')"
        "r = judge_confirmation c q catalog lg" "ir_outcome r = VERIFIED"
  proof (cases "cf_event_id c = [] \<or> ledger_seen lg (cf_event_id c) \<noteq> None")
    case True
    show thesis
    proof (cases "cf_event_id c = []")
      case empty: True
      then have "lg' = lg" "ir_outcome r = INVALID"
        using assms(1) by (auto simp: verify_confirmation_def plain_result_def)
      then show thesis by (rule that(1) [OF empty])
    next
      case named: False
      then have "ledger_seen lg (cf_event_id c) = Some r" "lg' = lg"
        using assms(1) True by (auto simp: verify_confirmation_def)
      then show thesis by (rule that(2) [OF named])
    qed
  next
    case False
    then have fresh: "cf_event_id c \<noteq> []" "ledger_seen lg (cf_event_id c) = None" by simp_all
    have "\<exists>r'. ledger_record lg (cf_event_id c) r' = (r, lg') \<and>
      (ir_outcome r' = VERIFIED \<longrightarrow> (\<exists>q catalog. r' = judge_confirmation c q catalog lg))"
    proof (cases "cf_quote c")
      case None then show ?thesis
        using assms(1) fresh by (auto simp: verify_confirmation_def plain_result_def)
    next
      case q: (Some q)
      show ?thesis
      proof (cases "cf_catalog c")
        case None then show ?thesis
          using assms(1) fresh q by (auto simp: verify_confirmation_def plain_result_def)
      next
        case (Some catalog)
        then have "ledger_record lg (cf_event_id c) (judge_confirmation c q catalog lg) = (r, lg')"
          using assms(1) fresh q by (simp add: verify_confirmation_def)
        then show ?thesis by blast
      qed
    qed
    then obtain r' where rec: "ledger_record lg (cf_event_id c) r' = (r, lg')"
      "ir_outcome r' = VERIFIED \<longrightarrow> (\<exists>q catalog. r' = judge_confirmation c q catalog lg)"
      by blast
    have "r' = r" using ledger_record_seen(1) [OF rec(1)] by simp
    note rec = rec [unfolded this]
    show thesis
    proof (cases "ir_outcome r = VERIFIED")
      case True then show thesis using that(4) [OF fresh rec(1)] rec(2) by blast
    next
      case unverified: False show thesis by (rule that(3) [OF fresh rec(1) unverified])
    qed
  qed
  note cases = this
  show "ledger_inv lg'"
  proof (cases rule: cases)
    case plain then show ?thesis using ledger_inv_record_unverified [OF assms(2)] by blast
  next
    case judged
    have "\<not> ledger_is_settled lg (q_quote_id q)"
      using judged(5) unfolding judged(4) judge_verified_iff by blast
    then show ?thesis
      using ledger_inv_record_verified [OF assms(2) judged(2,3,5)] judge_quote_id judged(4) by metis
  qed (use assms(2) in simp_all)
  show "ledger_seen lg ev = Some r0 \<Longrightarrow> ledger_seen lg' ev = Some r0"
    by (cases rule: cases) (auto simp: ledger_record_seen(2))
  show "cf_event_id c \<noteq> [] \<Longrightarrow> ledger_seen lg' (cf_event_id c) = Some r"
    by (cases rule: cases) (auto simp: ledger_record_seen(2))
  show "cf_event_id c = [] \<Longrightarrow> ir_outcome r = INVALID"
    by (cases rule: cases) auto
qed

lemma verify_all_final:
  assumes "verify_all lg cs = (rs, lg')" and "ledger_inv lg"
  shows "ledger_inv lg' \<and> length rs = length cs \<and>
    (\<forall>ev r. ledger_seen lg ev = Some r \<longrightarrow> ledger_seen lg' ev = Some r) \<and>
    (\<forall>i < length cs. if cf_event_id (cs ! i) = [] then ir_outcome (rs ! i) = INVALID
                    else ledger_seen lg' (cf_event_id (cs ! i)) = Some (rs ! i))"
  using assms
proof (induction cs arbitrary: lg rs)
  case (Cons c cs)
  obtain r lg1 where v: "verify_confirmation lg c = (r, lg1)" by (cases "verify_confirmation lg c")
  obtain rs2 where a: "verify_all lg1 cs = (rs2, lg')" "rs = r # rs2"
    using Cons.prems(1) v by (auto split: prod.splits)
  note step = verify_confirmation_step [OF v Cons.prems(2)]
  note ih = Cons.IH [OF a(1) step(1)]
  have "if cf_event_id ((c # cs) ! i) = [] then ir_outcome (rs ! i) = INVALID
        else ledger_seen lg' (cf_event_id ((c # cs) ! i)) = Some (rs ! i)" if "i < length (c # cs)" for i
    using that ih step(3,4) a(2) by (cases i) auto
  then show ?case using ih step(2) a(2) by auto
qed simp

section \<open>The properties\<close>

lemma parse_client_line_Inr:
  assumes "parse_client_line raw = Inr l"
  shows "\<exists>d. raw = PDict d \<and> fst ` set d \<subseteq> {''sku'', ''quantity''} \<and>
    map_of d ''sku'' = Some (PStr (cl_sku l)) \<and> cl_sku l \<noteq> [] \<and>
    map_of d ''quantity'' = Some (PInt (cl_quantity l)) \<and> 1 \<le> cl_quantity l \<and> cl_quantity l \<le> MAX_QUANTITY_PER_LINE"
  using assms
  by (auto simp: parse_client_line_def Let_def str_of_def int_of_def py_get_def filter_empty_conv
      ALLOWED_CLIENT_LINE_FIELDS_def split: pyval.splits if_splits option.splits)

text \<open>
  Accepting a client cart means that every line was an object with no field but a SKU
  and a quantity (so no client-supplied amount survives), that the lines are taken over
  unchanged and in order, that there are at most 20 of them, and that both each quantity
  and the merged quantity of each SKU lie within 1 to 100.
\<close>

theorem accepted_cart_carries_no_money:
  assumes "parse_client_lines payload = Inr lines"
  shows "\<exists>raws. payload = PList raws \<and> length raws = length lines \<and> 1 \<le> length lines \<and> length lines \<le> MAX_LINES_PER_CART \<and>
    (\<forall>i < length lines. \<exists>d. raws ! i = PDict d \<and> fst ` set d \<subseteq> {''sku'', ''quantity''} \<and>
       map_of d ''sku'' = Some (PStr (cl_sku (lines ! i))) \<and>
       map_of d ''quantity'' = Some (PInt (cl_quantity (lines ! i)))) \<and>
    (\<forall>l \<in> set lines. 1 \<le> cl_quantity l \<and> sku_total lines (cl_sku l) \<le> MAX_QUANTITY_PER_LINE)"
proof -
  obtain raws where r: "payload = PList raws" "raws \<noteq> []" "length raws \<le> MAX_LINES_PER_CART"
    "res_map parse_client_line raws = Inr lines"
    "\<not> list_ex (\<lambda>(sku, merged). merged > MAX_QUANTITY_PER_LINE) (canonical_cart lines)"
    using assms by (auto simp: parse_client_lines_def res_bind_Inr_iff split: pyval.splits if_splits)
  have all: "list_all2 (\<lambda>raw l. parse_client_line raw = Inr l) raws lines"
    using r(4) by (simp add: res_map_Inr_iff)
  have len: "length raws = length lines" using all by (rule list_all2_lengthD)
  have line: "parse_client_line (raws ! i) = Inr (lines ! i)" if "i < length lines" for i
    using all that len by (simp add: list_all2_conv_all_nth)
  have total: "sku_total lines (cl_sku l) \<le> MAX_QUANTITY_PER_LINE" if "l \<in> set lines" for l
  proof -
    have "(cl_sku l, sku_total lines (cl_sku l)) \<in> set (canonical_cart lines)"
      using that by (simp add: canonical_cart_entries)
    then show ?thesis using r(5) by (force simp: list_ex_iff)
  qed
  have pos: "1 \<le> cl_quantity l" if "l \<in> set lines" for l
    using that line parse_client_line_Inr by (metis in_set_conv_nth)
  have "1 \<le> length lines" using r(2) len by (cases raws) auto
  then show ?thesis
    using r(1,3) len line parse_client_line_Inr total pos by (intro exI [of _ raws] conjI) (simp_all, blast+)
qed

text \<open>
  Merging, ordering or splitting lines cannot change what a cart costs or how it is
  identified: two carts with the same SKUs and the same total quantity of each have the
  same canonical form, the same digest and the same reconstructed amount or error.
\<close>

theorem digest_and_amount_ignore_line_layout:
  assumes "skus a = skus b" and "\<And>sku. sku_total a sku = sku_total b sku"
  shows "canonical_cart a = canonical_cart b \<and> cart_digest a = cart_digest b \<and>
    reconstruct_amount_minor a catalog = reconstruct_amount_minor b catalog"
  using canonical_cart_eqI [OF assms] by (simp add: cart_digest_def reconstruct_amount_minor_def split: option.split)

text \<open>
  C19. A reconstructed amount is exactly the catalog sum, price times quantity over the
  lines, it is non-negative and at most the guard of one billion minor units, and it exists
  only when every SKU has a non-negative integer price in the trusted catalog.
\<close>

theorem amount_is_catalog_sum:
  assumes "reconstruct_amount_minor lines (Some catalog) = Inr t" and "lines \<noteq> []"
  shows "t = (\<Sum>l \<leftarrow> lines. catalog_price catalog (cl_sku l) * cl_quantity l) \<and> 0 \<le> t \<and> t \<le> MAX_TOTAL_MINOR \<and>
    (\<forall>l \<in> set lines. priced catalog (cl_sku l))"
  using reconstruct_amount_Inr [OF assms(1)] assms(2) by (auto simp: cart_amount_def)

text \<open>What holds of a confirmation, a quote and a catalog when the judgement is \<open>VERIFIED\<close>.\<close>

definition everything_matches :: "confirmation \<Rightarrow> quote \<Rightarrow> (string, pyval) dict \<Rightarrow> bool" where
  "everything_matches c q catalog \<longleftrightarrow>
     cf_quote c = Some q \<and> cf_catalog c = Some catalog \<and>
     cf_captured_amount_minor c = PInt (q_expected_amount_minor q) \<and>
     q_expected_amount_minor q = cart_amount catalog (q_lines q) \<and>
     cf_captured_currency c = q_currency q \<and> q_catalog_version q = cf_active_catalog_version c \<and>
     cart_digest (q_lines q) = q_cart_digest q \<and>
     q_issued_at_sequence q \<le> cf_current_sequence c \<and> cf_current_sequence c \<le> q_expires_at_sequence q"

lemma fresh_verified_matches:
  assumes "verify_confirmation lg c = (r, lg')" and "ir_outcome r = VERIFIED"
    and "ledger_seen lg (cf_event_id c) = None"
  shows "\<exists>q catalog. everything_matches c q catalog \<and>
    \<not> ledger_is_settled lg (q_quote_id q) \<and> ledger_is_settled lg' (q_quote_id q)"
proof -
  have ne: "cf_event_id c \<noteq> []"
    using assms(1,2) by (auto simp: verify_confirmation_def plain_result_def)
  obtain q where q: "cf_quote c = Some q"
    using assms ne by (cases "cf_quote c") (auto simp: verify_confirmation_def plain_result_def ledger_record_def Let_def)
  obtain catalog where cat: "cf_catalog c = Some catalog"
    using assms ne q by (cases "cf_catalog c") (auto simp: verify_confirmation_def plain_result_def ledger_record_def Let_def)
  have rec: "ledger_record lg (cf_event_id c) (judge_confirmation c q catalog lg) = (r, lg')"
    using assms(1,3) ne q cat by (simp add: verify_confirmation_def)
  have r: "r = judge_confirmation c q catalog lg" using ledger_record_seen(1) [OF rec] .
  have j: "ir_outcome (judge_confirmation c q catalog lg) = VERIFIED" using assms(2) r by simp
  note j = j [unfolded judge_verified_iff]
  have "ledger_is_settled lg' (q_quote_id q)"
    using ledger_record_seen(3) [OF rec] assms(2) r judge_quote_id [of c q catalog lg]
    by (simp add: ledger_is_settled_def)
  then show ?thesis
    using j q cat reconstruct_amount_Inr(1) unfolding everything_matches_def by (intro exI [of _ q] exI [of _ catalog]) simp
qed

lemma verify_confirmation_other_seen:
  assumes "ev \<noteq> cf_event_id c"
  shows "ledger_seen (snd (verify_confirmation lg c)) ev = ledger_seen lg ev"
proof -
  have "ledger_seen (snd (ledger_record lg (cf_event_id c) r)) ev = ledger_seen lg ev" for r
    using ledger_record_seen(2) [of lg "cf_event_id c" r _ "snd (ledger_record lg (cf_event_id c) r)" ev] assms
    by (metis prod.collapse)
  then show ?thesis by (auto simp: verify_confirmation_def split: option.split)
qed

lemma verify_all_unseen:
  "ev \<notin> cf_event_id ` set cs \<Longrightarrow> ledger_seen (snd (verify_all lg cs)) ev = ledger_seen lg ev"
proof (induction cs arbitrary: lg)
  case (Cons c cs)
  then show ?case using verify_confirmation_other_seen [of ev c lg] by (simp add: split_beta)
qed simp

lemma verify_all_nth:
  "j < length cs \<Longrightarrow> fst (verify_all lg cs) ! j = fst (verify_confirmation (snd (verify_all lg (take j cs))) (cs ! j))"
proof (induction cs arbitrary: lg j)
  case (Cons c cs)
  obtain r lg1 where v: "verify_confirmation lg c = (r, lg1)" by (cases "verify_confirmation lg c")
  show ?case
  proof (cases j)
    case 0
    then show ?thesis by (simp add: v split: prod.split)
  next
    case (Suc n)
    then show ?thesis using Cons.IH [of n lg1] Cons.prems by (simp add: v split_beta)
  qed
qed simp

lemma verified_when_first_confirmed:
  assumes "verify_all ledger_init cs = (rs, lg)" and "i < length cs" and "ir_outcome (rs ! i) = VERIFIED"
  shows "\<exists>j q catalog. j \<le> i \<and> cf_event_id (cs ! j) = cf_event_id (cs ! i) \<and> rs ! j = rs ! i \<and>
    (\<forall>k < j. cf_event_id (cs ! k) \<noteq> cf_event_id (cs ! i)) \<and> everything_matches (cs ! j) q catalog \<and>
    \<not> ledger_is_settled (snd (verify_all ledger_init (take j cs))) (q_quote_id q)"
proof -
  define j where "j = (LEAST k. cf_event_id (cs ! k) = cf_event_id (cs ! i))"
  have j: "cf_event_id (cs ! j) = cf_event_id (cs ! i)" "j \<le> i"
    unfolding j_def by (rule LeastI [of _ i], simp, rule Least_le, simp)
  have first: "\<forall>k < j. cf_event_id (cs ! k) \<noteq> cf_event_id (cs ! i)"
    using not_less_Least unfolding j_def by blast
  let ?lg = "snd (verify_all ledger_init (take j cs))"
  note final = verify_all_final [OF assms(1) ledger_inv_init]
  have "cf_event_id (cs ! i) \<noteq> []" using final assms(2,3) by (metis integrity_outcome.distinct(5))
  then have same: "rs ! j = rs ! i" using final assms(2) j by (metis option.inject order.strict_trans1)
  have "cf_event_id (cs ! j) \<notin> cf_event_id ` set (take j cs)"
    proof
    assume "cf_event_id (cs ! j) \<in> cf_event_id ` set (take j cs)"
    then obtain k where "k < j" "cf_event_id (cs ! k) = cf_event_id (cs ! j)" by (auto simp: in_set_conv_nth)
    then show False using first j(1) by auto
  qed
  then have "ledger_seen ?lg (cf_event_id (cs ! j)) = None"
    by (simp add: verify_all_unseen) (simp add: ledger_seen_def ledger_init_def)
  moreover have "fst (verify_confirmation ?lg (cs ! j)) = rs ! j"
    using verify_all_nth [of j cs ledger_init] assms(1,2) j(2) by simp
  ultimately obtain q catalog where "everything_matches (cs ! j) q catalog" "\<not> ledger_is_settled ?lg (q_quote_id q)"
    using fresh_verified_matches [of ?lg "cs ! j" "rs ! j" "snd (verify_confirmation ?lg (cs ! j))"] same assms(3)
    by (metis prod.collapse)
  with j first same show ?thesis by blast
qed

text \<open>
  C18. A result is verified only when everything agreed. In any sequence of confirmations from an
  empty ledger, a verified result is the one that the first confirmation with that event id
  received; at that confirmation the captured integer amount, the quoted amount and the amount
  recomputed then from the trusted catalog were equal, the currency and the catalog version
  matched, the cart was the quoted one, and the quote was in its validity range and not settled
  before. (Later confirmations with the same event id replay the result, whatever they carry.)
\<close>

theorem verified_means_everything_matches:
  assumes "verify_all ledger_init cs = (rs, lg)" and "i < length cs" and "ir_outcome (rs ! i) = VERIFIED"
  shows "\<exists>j q catalog. j \<le> i \<and> cf_event_id (cs ! j) = cf_event_id (cs ! i) \<and> rs ! j = rs ! i \<and>
    (\<forall>k < j. cf_event_id (cs ! k) \<noteq> cf_event_id (cs ! i)) \<and>
    cf_quote (cs ! j) = Some q \<and> cf_catalog (cs ! j) = Some catalog \<and>
    cf_captured_amount_minor (cs ! j) = PInt (q_expected_amount_minor q) \<and>
    q_expected_amount_minor q = cart_amount catalog (q_lines q) \<and>
    cf_captured_currency (cs ! j) = q_currency q \<and> q_catalog_version q = cf_active_catalog_version (cs ! j) \<and>
    cart_digest (q_lines q) = q_cart_digest q \<and>
    q_issued_at_sequence q \<le> cf_current_sequence (cs ! j) \<and> cf_current_sequence (cs ! j) \<le> q_expires_at_sequence q \<and>
    \<not> ledger_is_settled (snd (verify_all ledger_init (take j cs))) (q_quote_id q)"
  using verified_when_first_confirmed [OF assms] unfolding everything_matches_def by blast

text \<open>
  C3. Settlement happens at most once. In any sequence of confirmations starting from an
  empty ledger, with any mixture of quotes, catalogs and replays, two results that verify
  the same quote belong to the same confirmation event; and two confirmations with the same
  event id always get the same answer.
\<close>

theorem quote_verified_at_most_once:
  assumes "verify_all ledger_init cs = (rs, lg)" and "i < length cs" and "j < length cs"
  shows "(ir_outcome (rs ! i) = VERIFIED \<and> ir_outcome (rs ! j) = VERIFIED \<and>
            ir_quote_id (rs ! i) = ir_quote_id (rs ! j) \<longrightarrow> cf_event_id (cs ! i) = cf_event_id (cs ! j)) \<and>
         (cf_event_id (cs ! i) = cf_event_id (cs ! j) \<and> cf_event_id (cs ! i) \<noteq> [] \<longrightarrow> rs ! i = rs ! j)"
proof -
  note f = verify_all_final [OF assms(1) ledger_inv_init]
  have i: "if cf_event_id (cs ! i) = [] then ir_outcome (rs ! i) = INVALID
      else ledger_seen lg (cf_event_id (cs ! i)) = Some (rs ! i)" using f assms(2) by blast
  have j: "if cf_event_id (cs ! j) = [] then ir_outcome (rs ! j) = INVALID
      else ledger_seen lg (cf_event_id (cs ! j)) = Some (rs ! j)" using f assms(3) by blast
  have u: "e1 = e2" if "ledger_seen lg e1 = Some r1" "ledger_seen lg e2 = Some r2" "ir_outcome r1 = VERIFIED"
    "ir_outcome r2 = VERIFIED" "ir_quote_id r1 = ir_quote_id r2" for e1 e2 r1 r2
    using f that unfolding ledger_inv_def ledger_seen_def by blast
  show ?thesis
  proof (intro conjI impI, elim conjE)
    assume v: "ir_outcome (rs ! i) = VERIFIED" "ir_outcome (rs ! j) = VERIFIED" "ir_quote_id (rs ! i) = ir_quote_id (rs ! j)"
    then have "cf_event_id (cs ! i) \<noteq> []" "cf_event_id (cs ! j) \<noteq> []" using i j by (metis integrity_outcome.distinct(5))+
    then show "cf_event_id (cs ! i) = cf_event_id (cs ! j)" using u i j v by metis
  next
    assume e: "cf_event_id (cs ! i) = cf_event_id (cs ! j) \<and> cf_event_id (cs ! i) \<noteq> []"
    then show "rs ! i = rs ! j" using i j by (metis option.inject)
  qed
qed

text \<open>
  A quote issued for an accepted cart is honoured: confirming it with a fresh event id,
  in its validity range, in its currency, for the quoted amount and against the catalog it
  was issued from is verified, whatever else the ledger has seen, unless that quote was
  settled already.
\<close>

theorem issued_quote_is_honoured:
  assumes "build_quote qid lines (Some catalog) version cur issued validity = Inr q"
    and "cf_quote c = Some q" and "cf_catalog c = Some catalog" and "cf_event_id c \<noteq> []"
    and "ledger_seen lg (cf_event_id c) = None" and "\<not> ledger_is_settled lg qid"
    and "cf_captured_amount_minor c = PInt (q_expected_amount_minor q)" and "cf_captured_currency c = cur"
    and "cf_active_catalog_version c = version"
    and "issued \<le> cf_current_sequence c" and "cf_current_sequence c \<le> issued + validity"
  shows "ir_outcome (fst (verify_confirmation lg c)) = VERIFIED \<and>
    ledger_is_settled (snd (verify_confirmation lg c)) qid"
proof -
  have q: "q_quote_id q = qid" "q_cart_digest q = cart_digest lines" "q_lines q = lines" "q_currency q = cur"
    "q_catalog_version q = version" "q_issued_at_sequence q = issued" "q_expires_at_sequence q = issued + validity"
    "reconstruct_amount_minor lines (Some catalog) = Inr (q_expected_amount_minor q)"
    using assms(1) by (auto simp: build_quote_def res_bind_Inr_iff split: if_splits)
  have "ir_outcome (judge_confirmation c q catalog lg) = VERIFIED"
    unfolding judge_verified_iff using assms q by simp
  moreover have v: "verify_confirmation lg c = ledger_record lg (cf_event_id c) (judge_confirmation c q catalog lg)"
    using assms by (simp add: verify_confirmation_def)
  ultimately show ?thesis
    using judge_quote_id [of c q catalog lg] q(1)
    by (simp add: v ledger_record_def ledger_is_settled_def Let_def)
qed

section \<open>Concrete runs\<close>

definition sample_lines :: "cart_line list" where
  "sample_lines = [\<lparr>cl_sku = ''SKU_BETA'', cl_quantity = 1\<rparr>, \<lparr>cl_sku = ''SKU_ALPHA'', cl_quantity = 2\<rparr>,
                   \<lparr>cl_sku = ''SKU_BETA'', cl_quantity = 3\<rparr>]"

definition sample_quote :: quote where
  "sample_quote = \<lparr>q_quote_id = ''q1'', q_cart_digest = cart_digest sample_lines,
     q_catalog_version = CATALOG_VERSION, q_currency = CATALOG_CURRENCY, q_expected_amount_minor = 278000,
     q_lines = sample_lines, q_issued_at_sequence = 1, q_expires_at_sequence = 11\<rparr>"

definition sample_confirmation :: "string \<Rightarrow> confirmation" where
  "sample_confirmation ev = \<lparr>cf_quote = Some sample_quote, cf_event_id = ev, cf_captured_amount_minor = PInt 278000,
     cf_captured_currency = CATALOG_CURRENCY, cf_catalog = Some CATALOG, cf_current_sequence = 2,
     cf_active_catalog_version = CATALOG_VERSION\<rparr>"

lemma sample_amount: "reconstruct_amount_minor sample_lines (Some CATALOG) = Inr 278000"
  by code_simp

lemma sample_quote_built:
  "build_quote ''q1'' sample_lines (Some CATALOG) CATALOG_VERSION CATALOG_CURRENCY 1 10 = Inr sample_quote"
  by (simp add: build_quote_def sample_amount sample_quote_def)

theorem issued_quote_is_honoured_witness:
  "ir_outcome (fst (verify_confirmation ledger_init (sample_confirmation ''ev1''))) = VERIFIED"
proof -
  have "ledger_seen ledger_init ''ev1'' = None" "\<not> ledger_is_settled ledger_init ''q1''"
    by (simp_all add: ledger_seen_def ledger_init_def ledger_is_settled_def)
  then show ?thesis
    using issued_quote_is_honoured [OF sample_quote_built, of "sample_confirmation ''ev1''" ledger_init]
    by (simp add: sample_confirmation_def sample_quote_def)
qed

lemma sample_verified:
  "\<exists>lg. verify_confirmation ledger_init (sample_confirmation ev) = (\<lparr>ir_outcome = VERIFIED,
     ir_reason_code = ''expected_quoted_and_captured_amounts_match'', ir_quote_id = Some ''q1'',
     ir_detail = [(''amount_minor'', PInt 278000), (''currency'', PStr CATALOG_CURRENCY)]\<rparr>, lg)" if "ev \<noteq> []"
  using that sample_amount
  by (simp add: verify_confirmation_def ledger_seen_def ledger_init_def sample_confirmation_def judge_confirmation_def
      sample_quote_def ledger_is_settled_def ledger_record_def Let_def int_of_def)

theorem verified_means_everything_matches_witness:
  "\<exists>rs lg. verify_all ledger_init [sample_confirmation ''ev1'',
       (sample_confirmation ''ev1'')\<lparr>cf_captured_amount_minor := PInt 1, cf_captured_currency := ''EUR''\<rparr>] = (rs, lg) \<and>
     ir_outcome (rs ! 1) = VERIFIED \<and> rs ! 0 = rs ! 1 \<and> cart_amount CATALOG sample_lines = 278000"
proof -
  let ?a = "sample_confirmation ''ev1''"
  let ?b = "?a\<lparr>cf_captured_amount_minor := PInt 1, cf_captured_currency := ''EUR''\<rparr>"
  obtain r lg where v: "verify_confirmation ledger_init ?a = (r, lg)" "ir_outcome r = VERIFIED"
    using sample_verified [of "''ev1''"] by auto
  have "ledger_seen lg ''ev1'' = Some r"
    using verify_confirmation_step(3) [OF v(1) ledger_inv_init] by (simp add: sample_confirmation_def)
  then have "verify_confirmation lg ?b = (r, lg)" by (simp add: verify_confirmation_def sample_confirmation_def)
  then have run: "verify_all ledger_init [?a, ?b] = ([r, r], lg)" using v(1) by simp
  obtain j q catalog where j: "j \<le> 1" "\<forall>k < j. cf_event_id ([?a, ?b] ! k) \<noteq> cf_event_id ([?a, ?b] ! 1)"
    and q: "cf_quote ([?a, ?b] ! j) = Some q" "cf_catalog ([?a, ?b] ! j) = Some catalog"
      "cf_captured_amount_minor ([?a, ?b] ! j) = PInt (q_expected_amount_minor q)"
      "q_expected_amount_minor q = cart_amount catalog (q_lines q)"
    using verified_means_everything_matches [OF run, of 1] v(2) by auto
  have "j = 0" using j by (cases j) (auto simp: sample_confirmation_def)
  then have "cart_amount CATALOG sample_lines = 278000" using q by (auto simp: sample_confirmation_def sample_quote_def)
  then show ?thesis using run v(2) by simp
qed

theorem quote_verified_at_most_once_witness:
  "\<exists>rs lg. verify_all ledger_init [sample_confirmation ''ev1'', sample_confirmation ''ev1''] = (rs, lg) \<and>
     rs ! 0 = rs ! 1"
proof -
  obtain rs lg where v: "verify_all ledger_init [sample_confirmation ''ev1'', sample_confirmation ''ev1''] = (rs, lg)"
    by (cases "verify_all ledger_init [sample_confirmation ''ev1'', sample_confirmation ''ev1'']")
  show ?thesis
    using v quote_verified_at_most_once [OF v, of 0 1] by (simp add: sample_confirmation_def)
qed

theorem accepted_cart_carries_no_money_witness:
  "\<exists>lines. parse_client_lines (PList [PDict [(''sku'', PStr ''SKU_BETA''), (''quantity'', PInt 4)]]) = Inr lines \<and>
     length lines \<le> MAX_LINES_PER_CART \<and> (\<forall>l \<in> set lines. 1 \<le> cl_quantity l)"
proof -
  have p: "parse_client_lines (PList [PDict [(''sku'', PStr ''SKU_BETA''), (''quantity'', PInt 4)]]) =
      Inr [\<lparr>cl_sku = ''SKU_BETA'', cl_quantity = 4\<rparr>]" (is "_ = Inr ?ls")
    by code_simp
  have "length ?ls \<le> MAX_LINES_PER_CART \<and> (\<forall>l \<in> set ?ls. 1 \<le> cl_quantity l)"
    using accepted_cart_carries_no_money [OF p] by (elim exE conjE) simp
  with p show ?thesis by (intro exI [of _ ?ls]) simp
qed

theorem digest_and_amount_ignore_line_layout_witness:
  "cart_digest sample_lines =
     cart_digest [\<lparr>cl_sku = ''SKU_ALPHA'', cl_quantity = 2\<rparr>, \<lparr>cl_sku = ''SKU_BETA'', cl_quantity = 4\<rparr>]"
proof -
  let ?b = "[\<lparr>cl_sku = ''SKU_ALPHA'', cl_quantity = 2\<rparr>, \<lparr>cl_sku = ''SKU_BETA'', cl_quantity = 4\<rparr>]"
  have "skus sample_lines = skus ?b" by (auto simp: sample_lines_def)
  moreover have "sku_total sample_lines sku = sku_total ?b sku" for sku by (simp add: sample_lines_def)
  ultimately show ?thesis using digest_and_amount_ignore_line_layout [of sample_lines ?b] by blast
qed

theorem amount_is_catalog_sum_witness:
  "(\<Sum>l \<leftarrow> sample_lines. catalog_price CATALOG (cl_sku l) * cl_quantity l) = 278000"
  using amount_is_catalog_sum [OF sample_amount] by (simp add: sample_lines_def)

end
