(* ===== verification/Write_Once.thy ===== *)
theory Write_Once
  imports Prelude
begin

text \<open>
  The contract every idempotency store of the program shares: once a key has an outcome
  that counts as final, no operation of any kind changes that outcome. The contract is
  stated over a step relation, so that a store's operations, its crashes and its clock can
  be interleaved at will; what follows for whole runs is proved once here.
\<close>

locale write_once =
  fixes step :: "'s \<Rightarrow> 's \<Rightarrow> bool"
    and inv :: "'s \<Rightarrow> bool"
    and final :: "'s \<Rightarrow> 'k \<Rightarrow> 'v \<Rightarrow> bool"
  assumes inv_step: "inv s \<Longrightarrow> step s s' \<Longrightarrow> inv s'"
    and final_step: "inv s \<Longrightarrow> step s s' \<Longrightarrow> final s k v \<Longrightarrow> final s' k v"
    and final_unique: "final s k v \<Longrightarrow> final s k w \<Longrightarrow> v = w"
begin

lemma inv_run: "step\<^sup>*\<^sup>* s s' \<Longrightarrow> inv s \<Longrightarrow> inv s'"
  by (induction rule: rtranclp_induct) (auto intro: inv_step)

lemma final_run:
  assumes "step\<^sup>*\<^sup>* s s'" and "inv s" and "final s k v"
  shows "final s' k v"
  using assms
proof (induction rule: rtranclp_induct)
  case (step y z)
  then show ?case using inv_run final_step by blast
qed simp

text \<open>Two final outcomes seen at two moments of one run agree.\<close>

lemma final_agree:
  assumes "step\<^sup>*\<^sup>* s s'" and "inv s" and "final s k v" and "final s' k w"
  shows "v = w"
  using final_run [OF assms(1-3)] assms(4) by (rule final_unique)

end

end
