(* ===== verification/Durable_Idempotency.thy ===== *)
theory Durable_Idempotency
  imports Write_Once Py_Values
begin

text \<open>
  \<open>src/src/operations/durable_idempotency.py\<close>: the single-node SQLite idempotency store. The
  table is a dictionary from the hashed key to its row; every statement runs in autocommit
  mode, so a crash leaves the last table and the next \<open>__init__\<close> runs \<open>_recover\<close>. The wall
  clock string of \<open>_utc_now\<close> is an argument. The file-system facts \<open>__init__\<close> tests are
  given as a record.
\<close>

datatype dur_state = PENDING | COMPLETED | FAILED | UNRESOLVED

definition ALLOWED_DECISIONS :: "string list" where
  "ALLOWED_DECISIONS = [''human_review'', ''below_review_threshold'', ''unavailable_fail_closed'']"

abbreviation DurableIdempotencyError :: "string \<Rightarrow> py_exc" where
  "DurableIdempotencyError m \<equiv> PyError ''DurableIdempotencyError'' m"

record dur_row =
  dr_input_digest :: string
  dr_state :: dur_state
  dr_decision :: "string option"
  dr_model_version :: "string option"
  dr_audit_event_hash :: "string option"
  dr_created_utc :: string
  dr_resolved_utc :: "string option"

type_synonym dur_table = "(string, dur_row) dict"

record dur_reservation =
  rv_key_sha256 :: string
  rv_owner :: bool
  rv_state :: dur_state
  rv_decision :: "string option"
  rv_model_version :: "string option"
  rv_audit_event_hash :: "string option"

section \<open>Operations\<close>

text \<open>\<open>request_id.encode("ascii")\<close> raises on a code point above 127.\<close>

definition encode_ascii :: "string \<Rightarrow> py_exc + string" where
  "encode_ascii s =
     (if list_all (\<lambda>c. (of_char c :: nat) < 128) s then Inr s
      else Inl (PyError ''UnicodeEncodeError'' ''ordinal not in range(128)''))"

definition key_digest :: "string \<Rightarrow> py_exc + string" where
  "key_digest request_id = res_bind (encode_ascii request_id) (\<lambda>b. Inr (sha256_hex b))"

definition dur_require_sha256 :: "string \<Rightarrow> string \<Rightarrow> py_exc + string" where
  "dur_require_sha256 v label =
     (if length v \<noteq> 64 \<or> list_ex (\<lambda>c. \<not> is_hex_lower c) v
      then Inl (DurableIdempotencyError (label @ '' must be a lowercase hex SHA-256 digest.''))
      else Inr v)"

text \<open>\<open>UPDATE ... WHERE key = ?\<close> on the row with that key, if there is one.\<close>

definition update_row :: "dur_table \<Rightarrow> string \<Rightarrow> (dur_row \<Rightarrow> dur_row) \<Rightarrow> dur_table" where
  "update_row t key f = map (\<lambda>(k, r). if k = key then (k, f r) else (k, r)) t"

definition dur_recover :: "string \<Rightarrow> dur_table \<Rightarrow> int \<times> dur_table" where
  "dur_recover now t =
     (int (length (filter (\<lambda>(k, r). dr_state r = PENDING) t)),
      map (\<lambda>(k, r). if dr_state r = PENDING
                    then (k, r\<lparr>dr_state := UNRESOLVED, dr_resolved_utc := Some now\<rparr>) else (k, r)) t)"

record path_facts =
  pf_is_absolute :: bool
  pf_is_symlink :: bool
  pf_parent_is_dir :: bool
  pf_parent_in_repo :: bool

text \<open>\<open>__init__\<close>: the table is that of the file, empty when the file is new.\<close>

definition dur_open :: "path_facts \<Rightarrow> bool \<Rightarrow> string \<Rightarrow> dur_table \<Rightarrow> py_exc + (int \<times> dur_table)" where
  "dur_open p allow_inside_repo now t =
     (if \<not> pf_is_absolute p then Inl (DurableIdempotencyError ''Database path must be absolute.'')
      else if pf_is_symlink p then Inl (DurableIdempotencyError ''Database path must not be a symlink.'')
      else if \<not> pf_parent_is_dir p then
        Inl (DurableIdempotencyError ''Database parent directory must already exist.'')
      else if \<not> allow_inside_repo \<and> pf_parent_in_repo p then
        Inl (DurableIdempotencyError ''Database must live outside the repository.'')
      else Inr (dur_recover now t))"

definition dur_reserve ::
  "string \<Rightarrow> string \<Rightarrow> string \<Rightarrow> dur_table \<Rightarrow> (py_exc + dur_reservation) \<times> dur_table" where
  "dur_reserve now request_id input_digest t =
     (case dur_require_sha256 input_digest ''input_digest_sha256'' of Inl e \<Rightarrow> (Inl e, t)
      | Inr _ \<Rightarrow>
      (case key_digest request_id of Inl e \<Rightarrow> (Inl e, t)
       | Inr key \<Rightarrow>
           let owner = \<lparr>rv_key_sha256 = key, rv_owner = True, rv_state = PENDING, rv_decision = None,
                        rv_model_version = None, rv_audit_event_hash = None\<rparr>
           in case map_of t key of
                None \<Rightarrow>
                  (Inr owner,
                   t @ [(key, \<lparr>dr_input_digest = input_digest, dr_state = PENDING, dr_decision = None,
                               dr_model_version = None, dr_audit_event_hash = None,
                               dr_created_utc = now, dr_resolved_utc = None\<rparr>)])
              | Some row \<Rightarrow>
                  if dr_input_digest row \<noteq> input_digest then
                    (Inl (PyError ''IdempotencyConflict''
                       ''The request ID was already used for different canonical input.''), t)
                  else case dr_state row of
                    UNRESOLVED \<Rightarrow>
                      (Inl (PyError ''UnresolvedRequestError''
                         (''A previous attempt for this request ID did not resolve. It will not be '' @
                          ''rescored; inspect the audit evidence before retrying.'')), t)
                  | PENDING \<Rightarrow>
                      (Inl (PyError ''UnresolvedRequestError''
                         ''This request ID is already in flight in this process.''), t)
                  | FAILED \<Rightarrow>
                      (Inr owner, update_row t key (\<lambda>r. r\<lparr>dr_state := PENDING, dr_resolved_utc := None\<rparr>))
                  | COMPLETED \<Rightarrow>
                      (Inr \<lparr>rv_key_sha256 = key, rv_owner = False, rv_state = COMPLETED,
                            rv_decision = dr_decision row, rv_model_version = dr_model_version row,
                            rv_audit_event_hash = dr_audit_event_hash row\<rparr>, t)))"

definition dur_complete ::
  "string \<Rightarrow> dur_reservation \<Rightarrow> string \<Rightarrow> string \<Rightarrow> string \<Rightarrow> dur_table \<Rightarrow> (py_exc + unit) \<times> dur_table" where
  "dur_complete now rv decision model_version audit_event_hash t =
     (if \<not> rv_owner rv then (Inl (DurableIdempotencyError ''Only an owner reservation can be completed.''), t)
      else if decision \<notin> set ALLOWED_DECISIONS then
        (Inl (DurableIdempotencyError (''Decision '' @ repr_str decision @ '' is not on the allowlist.'')), t)
      else case dur_require_sha256 audit_event_hash ''audit_event_hash'' of Inl e \<Rightarrow> (Inl e, t)
      | Inr _ \<Rightarrow>
          (Inr (), update_row t (rv_key_sha256 rv) (\<lambda>r. if dr_state r = PENDING
             then r\<lparr>dr_state := COMPLETED, dr_decision := Some decision,
                    dr_model_version := Some model_version,
                    dr_audit_event_hash := Some audit_event_hash, dr_resolved_utc := Some now\<rparr>
             else r)))"

definition dur_fail ::
  "string \<Rightarrow> dur_reservation \<Rightarrow> bool \<Rightarrow> dur_table \<Rightarrow> (py_exc + unit) \<times> dur_table" where
  "dur_fail now rv audit_event_durable t =
     (if \<not> rv_owner rv then (Inl (DurableIdempotencyError ''Only an owner reservation can fail.''), t)
      else (Inr (), update_row t (rv_key_sha256 rv)
              (\<lambda>r. r\<lparr>dr_state := (if audit_event_durable then UNRESOLVED else FAILED),
                     dr_resolved_utc := Some now\<rparr>)))"

definition dur_state_of :: "string \<Rightarrow> dur_table \<Rightarrow> py_exc + dur_state option" where
  "dur_state_of request_id t =
     res_bind (key_digest request_id) (\<lambda>key. Inr (map_option dr_state (map_of t key)))"

definition dur_count :: "dur_table \<Rightarrow> nat" where
  "dur_count t = length t"

section \<open>A process that follows the protocol\<close>

text \<open>
  The state of the service: the table and the keys of the owner reservations still in the
  hands of the process. The process resolves a reservation at most once, by completing or
  failing it; it may crash at any moment, which loses the reservations and reopens the
  table with \<open>_recover\<close>.
\<close>

record dur_system =
  ds_table :: dur_table
  ds_live :: "string set"

inductive dur_step :: "dur_system \<Rightarrow> dur_system \<Rightarrow> bool" where
  reserve_owner: "dur_reserve now rid dig (ds_table s) = (Inr rv, t) \<Longrightarrow> rv_owner rv \<Longrightarrow>
     dur_step s (s\<lparr>ds_table := t, ds_live := insert (rv_key_sha256 rv) (ds_live s)\<rparr>)"
| reserve_replay: "dur_reserve now rid dig (ds_table s) = (Inr rv, t) \<Longrightarrow> \<not> rv_owner rv \<Longrightarrow>
     dur_step s (s\<lparr>ds_table := t\<rparr>)"
| reserve_refused: "dur_reserve now rid dig (ds_table s) = (Inl e, t) \<Longrightarrow> dur_step s (s\<lparr>ds_table := t\<rparr>)"
| complete: "rv_key_sha256 rv \<in> ds_live s \<Longrightarrow> dur_complete now rv dec mv h (ds_table s) = (Inr (), t) \<Longrightarrow>
     dur_step s (s\<lparr>ds_table := t, ds_live := ds_live s - {rv_key_sha256 rv}\<rparr>)"
| complete_refused: "dur_complete now rv dec mv h (ds_table s) = (Inl e, t) \<Longrightarrow> dur_step s (s\<lparr>ds_table := t\<rparr>)"
| fail: "rv_key_sha256 rv \<in> ds_live s \<Longrightarrow> dur_fail now rv durable (ds_table s) = (Inr (), t) \<Longrightarrow>
     dur_step s (s\<lparr>ds_table := t, ds_live := ds_live s - {rv_key_sha256 rv}\<rparr>)"
| crash: "dur_open p allow now (ds_table s) = Inr (n, t) \<Longrightarrow>
     dur_step s (s\<lparr>ds_table := t, ds_live := {}\<rparr>)"

definition dur_init :: dur_system where
  "dur_init = \<lparr>ds_table = [], ds_live = {}\<rparr>"

section \<open>Facts\<close>

lemma map_of_update_row:
  "map_of (update_row t key f) k = (if k = key then map_option f (map_of t k) else map_of t k)"
  by (induction t) (auto simp: update_row_def)

lemma keys_update_row: "map fst (update_row t key f) = map fst t"
  by (induction t) (auto simp: update_row_def)

lemma map_of_recover:
  "map_of (snd (dur_recover now t)) k = map_option (\<lambda>r. if dr_state r = PENDING
     then r\<lparr>dr_state := UNRESOLVED, dr_resolved_utc := Some now\<rparr> else r) (map_of t k)"
  by (induction t) (simp_all add: dur_recover_def split_beta)

lemma keys_recover: "map fst (snd (dur_recover now t)) = map fst t"
  by (induction t) (auto simp: dur_recover_def)

lemma dur_open_table: "dur_open p allow now t = Inr (n, t') \<Longrightarrow> t' = snd (dur_recover now t)"
  by (auto simp: dur_open_def split: if_splits dest: arg_cong [where f = snd])

text \<open>What a reservation attempt does to the table, by the row it finds.\<close>

lemma dur_reserve_cases:
  assumes "dur_reserve now rid dig t = (res, t')"
  obtains (error) e where "res = Inl e" "t' = t"
    | (fresh) key rv r where "key_digest rid = Inr key" "map_of t key = None" "res = Inr rv" "rv_owner rv"
        "rv_key_sha256 rv = key" "t' = t @ [(key, r)]" "dr_state r = PENDING" "dr_input_digest r = dig"
    | (retry) key rv row where "key_digest rid = Inr key" "map_of t key = Some row" "dr_state row = FAILED"
        "res = Inr rv" "rv_owner rv" "rv_key_sha256 rv = key" "dr_input_digest row = dig"
        "t' = update_row t key (\<lambda>r. r\<lparr>dr_state := PENDING, dr_resolved_utc := None\<rparr>)"
    | (replay) key rv row where "key_digest rid = Inr key" "map_of t key = Some row" "dr_state row = COMPLETED"
        "res = Inr rv" "\<not> rv_owner rv" "t' = t" "dr_input_digest row = dig"
proof (cases "dur_require_sha256 dig ''input_digest_sha256''")
  case (Inl e) then show thesis using assms by (intro error [of e]) (simp_all add: dur_reserve_def)
next
  case d: (Inr _)
  show thesis
  proof (cases "key_digest rid")
    case (Inl e) then show thesis using assms d by (intro error [of e]) (simp_all add: dur_reserve_def)
  next
    case k: (Inr key)
    show thesis
    proof (cases "map_of t key")
      case None
      show thesis
        by (rule fresh [OF k None]) (use assms d k None in \<open>auto simp: dur_reserve_def Let_def\<close>)
    next
      case (Some row)
      note unfold = assms [unfolded dur_reserve_def, simplified d k Some sum.case option.case Let_def]
      consider "dr_input_digest row \<noteq> dig" | "dr_input_digest row = dig" "dr_state row \<in> {UNRESOLVED, PENDING}"
        | "dr_input_digest row = dig" "dr_state row = FAILED" | "dr_input_digest row = dig" "dr_state row = COMPLETED"
        by (cases "dr_state row") auto
      then show thesis
      proof cases
        case 1 then show thesis using unfold error by fastforce
      next
        case 2 then show thesis using unfold error by fastforce
      next
        case 3
        show thesis by (rule retry [OF k Some 3(2)]) (use unfold 3 in auto)
      next
        case 4
        show thesis by (rule replay [OF k Some 4(2)]) (use unfold 4 in auto)
      qed
    qed
  qed
qed

lemma dur_complete_ok:
  assumes "dur_complete now rv dec mv h t = (Inr (), t')"
  shows "\<exists>f. t' = update_row t (rv_key_sha256 rv) f \<and> (\<forall>r. dr_state r \<noteq> PENDING \<longrightarrow> f r = r) \<and>
    (\<forall>r. dr_state r = PENDING \<longrightarrow> dr_state (f r) = COMPLETED)"
  using assms by (force simp: dur_complete_def split: if_splits sum.splits)

lemma dur_complete_refused: "dur_complete now rv dec mv h t = (Inl e, t') \<Longrightarrow> t' = t"
  by (auto simp: dur_complete_def split: if_splits sum.splits)

lemma dur_fail_ok:
  assumes "dur_fail now rv durable t = (Inr (), t')"
  shows "\<exists>f. t' = update_row t (rv_key_sha256 rv) f \<and>
    (\<forall>r. dr_state (f r) = (if durable then UNRESOLVED else FAILED))"
  using assms by (auto simp: dur_fail_def split: if_splits)

definition dur_inv :: "dur_system \<Rightarrow> bool" where
  "dur_inv s \<longleftrightarrow> (\<forall>k. k \<in> ds_live s \<longleftrightarrow>
      (\<exists>r. map_of (ds_table s) k = Some r \<and> dr_state r = PENDING))"

definition dur_final :: "dur_system \<Rightarrow> string \<Rightarrow> dur_row \<Rightarrow> bool" where
  "dur_final s k r \<longleftrightarrow> map_of (ds_table s) k = Some r \<and> (dr_state r = COMPLETED \<or> dr_state r = UNRESOLVED)"

lemma dur_step_row:
  assumes "dur_inv s" and "dur_step s s'"
  shows "dur_inv s'" and "dur_final s k r \<Longrightarrow> dur_final s' k r"
proof -
  have "dur_inv s' \<and> (\<forall>k r. dur_final s k r \<longrightarrow> dur_final s' k r)"
    using assms(2)
  proof cases
    case (reserve_owner now rid dig rv t)
    from reserve_owner(2) show ?thesis
    proof (cases rule: dur_reserve_cases)
      case (fresh key)
      then show ?thesis using assms(1) reserve_owner(1)
        by (auto simp: dur_inv_def dur_final_def map_add_Some_iff)
    next
      case (retry key)
      then show ?thesis using assms(1) reserve_owner(1)
        by (auto simp: dur_inv_def dur_final_def map_of_update_row)
    qed (use reserve_owner in auto)
  next
    case (reserve_replay now rid dig rv t)
    from reserve_replay(2) show ?thesis
      by (cases rule: dur_reserve_cases) (use reserve_replay assms(1) in auto)
  next
    case (reserve_refused now rid dig e t)
    from reserve_refused(2) show ?thesis
      by (cases rule: dur_reserve_cases) (use reserve_refused assms(1) in auto)
  next
    case (complete rv now dec mv h t)
    obtain f where f: "t = update_row (ds_table s) (rv_key_sha256 rv) f" "\<forall>r. dr_state r \<noteq> PENDING \<longrightarrow> f r = r"
      "\<forall>r. dr_state r = PENDING \<longrightarrow> dr_state (f r) = COMPLETED"
      using dur_complete_ok [OF complete(3)] by blast
    have "dr_state (f r) \<noteq> PENDING" for r by (cases "dr_state r = PENDING") (use f in auto)
    then show ?thesis using assms(1) f(1,2) unfolding complete(1) dur_inv_def dur_final_def
      by (auto simp: map_of_update_row)
  next
    case (complete_refused now rv dec mv h e t)
    then show ?thesis using assms(1) dur_complete_refused by (metis dur_system.surjective dur_system.update_convs(1) old.unit.exhaust)
  next
    case (fail rv now durable t)
    obtain f where f: "t = update_row (ds_table s) (rv_key_sha256 rv) f"
      "\<forall>r. dr_state (f r) = (if durable then UNRESOLVED else FAILED)"
      using dur_fail_ok [OF fail(3)] by blast
    show ?thesis using assms(1) f fail(2) unfolding fail(1) dur_inv_def dur_final_def
      by (auto simp: map_of_update_row split: if_splits)
  next
    case (crash p allow now n t)
    then have "t = snd (dur_recover now (ds_table s))" using dur_open_table by blast
    then show ?thesis using crash(1) assms(1) unfolding dur_inv_def dur_final_def
      by (auto simp: map_of_recover split: if_splits)
  qed
  then show "dur_inv s'" "dur_final s k r \<Longrightarrow> dur_final s' k r" by blast+
qed

interpretation dur_once: write_once dur_step dur_inv dur_final
  by unfold_locales (auto intro: dur_step_row, simp add: dur_final_def)

lemma dur_inv_init: "dur_inv dur_init"
  by (simp add: dur_inv_def dur_init_def)

section \<open>The properties\<close>

lemma dur_reach_inv: "dur_step\<^sup>*\<^sup>* dur_init s \<Longrightarrow> dur_inv s"
  using dur_once.inv_run dur_inv_init by blast

lemma reserve_final_row:
  assumes "map_of t key = Some r" and "key_digest rid = Inr key" and "is_sha256 (dr_input_digest r)"
    and "dr_state r = COMPLETED \<or> dr_state r = UNRESOLVED"
  shows "dur_reserve now rid (dr_input_digest r) t =
    (if dr_state r = COMPLETED
     then Inr \<lparr>rv_key_sha256 = key, rv_owner = False, rv_state = COMPLETED, rv_decision = dr_decision r,
               rv_model_version = dr_model_version r, rv_audit_event_hash = dr_audit_event_hash r\<rparr>
     else Inl (PyError ''UnresolvedRequestError''
        (''A previous attempt for this request ID did not resolve. It will not be '' @
         ''rescored; inspect the audit evidence before retrying.'')), t)"
proof -
  have "dur_require_sha256 (dr_input_digest r) l = Inr (dr_input_digest r)" for l
    using assms(3) by (auto simp: dur_require_sha256_def is_sha256_def list_all_iff list_ex_iff)
  then show ?thesis using assms(1,2,4) by (auto simp: dur_reserve_def Let_def split: dur_state.split)
qed

text \<open>
  C14. Once completed, answered the same way forever. In any run of a process that resolves
  each owner reservation at most once, with any interleaving of requests, failures and
  crashes, a completed key keeps its row, and every later reservation of the same request
  with the same input is a replay of that very decision, model version and audit hash,
  never a new ownership.
\<close>

theorem completed_request_replays_forever:
  assumes "dur_step\<^sup>*\<^sup>* dur_init s" and "dur_step\<^sup>*\<^sup>* s s'"
    and "key_digest rid = Inr key" and "map_of (ds_table s) key = Some r" and "dr_state r = COMPLETED"
    and "is_sha256 (dr_input_digest r)"
  shows "dur_reserve now rid (dr_input_digest r) (ds_table s') =
    (Inr \<lparr>rv_key_sha256 = key, rv_owner = False, rv_state = COMPLETED, rv_decision = dr_decision r,
          rv_model_version = dr_model_version r, rv_audit_event_hash = dr_audit_event_hash r\<rparr>, ds_table s')"
proof -
  have "dur_final s key r" using assms(4,5) by (simp add: dur_final_def)
  then have "dur_final s' key r" using dur_once.final_run [OF assms(2) dur_reach_inv [OF assms(1)]] by blast
  then show ?thesis
    using reserve_final_row [OF _ assms(3,6)] assms(5) by (simp add: dur_final_def)
qed

text \<open>
  C4. A request whose process crashed is never scored again. If the process dies while a
  key is pending, then in every later state the reservation of that request is refused,
  whatever input it carries, and the table is left alone.
\<close>

theorem crashed_request_is_never_rescored:
  assumes "dur_step\<^sup>*\<^sup>* dur_init s" and "map_of (ds_table s) key = Some r" and "dr_state r = PENDING"
    and "dur_open p allow t0 (ds_table s) = Inr (n, t)"
    and "dur_step\<^sup>*\<^sup>* \<lparr>ds_table = t, ds_live = {}\<rparr> s'" and "key_digest rid = Inr key"
  shows "\<exists>e. dur_reserve now rid dig (ds_table s') = (Inl e, ds_table s')"
proof -
  let ?s1 = "\<lparr>ds_table = t, ds_live = {}\<rparr>"
  let ?r = "r\<lparr>dr_state := UNRESOLVED, dr_resolved_utc := Some t0\<rparr>"
  have "dur_step s (s\<lparr>ds_table := t, ds_live := {}\<rparr>)" using assms(4) by (rule dur_step.crash)
  then have "dur_inv ?s1" using dur_step_row(1) dur_reach_inv [OF assms(1)] by (metis dur_system.surjective dur_system.update_convs old.unit.exhaust)
  moreover have "dur_final ?s1 key ?r"
    using dur_open_table [OF assms(4)] assms(2,3) by (simp add: dur_final_def map_of_recover)
  ultimately have row: "map_of (ds_table s') key = Some ?r"
    using dur_once.final_run [OF assms(5)] by (auto simp: dur_final_def)
  obtain res t2 where rv: "dur_reserve now rid dig (ds_table s') = (res, t2)"
    by (cases "dur_reserve now rid dig (ds_table s')")
  then show ?thesis by (cases rule: dur_reserve_cases) (use rv row assms(6) in auto)
qed

definition sample_digest :: string where "sample_digest = replicate 64 (CHR ''a'')"

definition owner_of :: "string \<Rightarrow> dur_reservation" where
  "owner_of key = \<lparr>rv_key_sha256 = key, rv_owner = True, rv_state = PENDING, rv_decision = None,
     rv_model_version = None, rv_audit_event_hash = None\<rparr>"

lemma require_sha256_ok: "is_sha256 d \<Longrightarrow> dur_require_sha256 d l = Inr d"
  by (auto simp: dur_require_sha256_def is_sha256_def list_all_iff list_ex_iff)

lemma sample_digest_ok: "is_sha256 sample_digest" "dur_require_sha256 sample_digest l = Inr sample_digest"
proof -
  show "is_sha256 sample_digest" by code_simp
  then show "dur_require_sha256 sample_digest l = Inr sample_digest" by (rule require_sha256_ok)
qed

lemma sample_key: "key_digest ''r1'' = Inr (sha256_hex ''r1'')"
  by (simp add: key_digest_def encode_ascii_def)

definition pending_table :: dur_table where
  "pending_table = snd (dur_reserve ''t0'' ''r1'' sample_digest [])"

definition completed_table :: dur_table where
  "completed_table = snd (dur_complete ''t1'' (owner_of (sha256_hex ''r1'')) ''human_review'' ''m1'' sample_digest pending_table)"

lemma sample_reserve: "dur_reserve ''t0'' ''r1'' sample_digest [] = (Inr (owner_of (sha256_hex ''r1'')), pending_table)"
  by (simp add: pending_table_def dur_reserve_def sample_digest_ok sample_key owner_of_def Let_def)

lemma sample_complete:
  "dur_complete ''t1'' (owner_of (sha256_hex ''r1'')) ''human_review'' ''m1'' sample_digest pending_table =
     (Inr (), completed_table)"
  by (simp add: completed_table_def dur_complete_def owner_of_def sample_digest_ok ALLOWED_DECISIONS_def)

lemma pending_row: "map_of pending_table (sha256_hex ''r1'') = Some \<lparr>dr_input_digest = sample_digest, dr_state = PENDING,
    dr_decision = None, dr_model_version = None, dr_audit_event_hash = None, dr_created_utc = ''t0'', dr_resolved_utc = None\<rparr>"
  by (simp add: pending_table_def dur_reserve_def sample_digest_ok sample_key Let_def)

lemma completed_row: "map_of completed_table (sha256_hex ''r1'') = Some \<lparr>dr_input_digest = sample_digest, dr_state = COMPLETED,
    dr_decision = Some ''human_review'', dr_model_version = Some ''m1'', dr_audit_event_hash = Some sample_digest,
    dr_created_utc = ''t0'', dr_resolved_utc = Some ''t1''\<rparr>"
  by (simp add: completed_table_def dur_complete_def owner_of_def sample_digest_ok ALLOWED_DECISIONS_def
      map_of_update_row pending_row)

lemma pending_reachable: "dur_step\<^sup>*\<^sup>* dur_init \<lparr>ds_table = pending_table, ds_live = {sha256_hex ''r1''}\<rparr>"
  using dur_step.reserve_owner [of "''t0''" "''r1''" sample_digest dur_init] sample_reserve
  by (simp add: dur_init_def owner_of_def r_into_rtranclp)

lemma completed_reachable: "dur_step\<^sup>*\<^sup>* dur_init \<lparr>ds_table = completed_table, ds_live = {}\<rparr>"
proof -
  have "dur_step \<lparr>ds_table = pending_table, ds_live = {sha256_hex ''r1''}\<rparr> \<lparr>ds_table = completed_table, ds_live = {}\<rparr>"
    using dur_step.complete [of "owner_of (sha256_hex ''r1'')" "\<lparr>ds_table = pending_table, ds_live = {sha256_hex ''r1''}\<rparr>"]
      sample_complete by (simp add: owner_of_def)
  with pending_reachable show ?thesis by (rule rtranclp.rtrancl_into_rtrancl)
qed

theorem completed_request_replays_forever_witness:
  "\<exists>rv. dur_reserve ''t9'' ''r1'' sample_digest completed_table = (Inr rv, completed_table) \<and>
     \<not> rv_owner rv \<and> rv_decision rv = Some ''human_review''"
proof -
  have c: "map_of (ds_table \<lparr>ds_table = completed_table, ds_live = {}\<rparr>) (sha256_hex ''r1'') =
      map_of completed_table (sha256_hex ''r1'')" by simp
  show ?thesis
    using completed_request_replays_forever
      [OF completed_reachable rtranclp.rtrancl_refl sample_key c [unfolded completed_row], of "''t9''"]
    by (simp add: sample_digest_ok)
qed

theorem crashed_request_is_never_rescored_witness:
  "\<exists>e. dur_reserve ''t9'' ''r1'' sample_digest (snd (dur_recover ''t5'' pending_table)) =
     (Inl e, snd (dur_recover ''t5'' pending_table))"
proof -
  let ?p = "\<lparr>pf_is_absolute = True, pf_is_symlink = False, pf_parent_is_dir = True, pf_parent_in_repo = False\<rparr>"
  have o: "dur_open ?p False ''t5'' (ds_table \<lparr>ds_table = pending_table, ds_live = {sha256_hex ''r1''}\<rparr>) =
      Inr (fst (dur_recover ''t5'' pending_table), snd (dur_recover ''t5'' pending_table))"
    by (simp add: dur_open_def)
  have c: "map_of (ds_table \<lparr>ds_table = pending_table, ds_live = {sha256_hex ''r1''}\<rparr>) (sha256_hex ''r1'') =
      map_of pending_table (sha256_hex ''r1'')" by simp
  show ?thesis
    using crashed_request_is_never_rescored
      [OF pending_reachable c [unfolded pending_row] _ o rtranclp.rtrancl_refl sample_key, of "''t9''" sample_digest]
    by simp
qed

text \<open>
  The store itself does not enforce the protocol: \<open>fail\<close> updates the row whatever its
  state. A completed decision followed by one more \<open>fail\<close> with the same reservation becomes
  \<open>FAILED\<close>, and the next request with the same id and input becomes an owner and is scored
  a second time.
\<close>

theorem stale_failure_reopens_completed_request:
  "dur_step\<^sup>*\<^sup>* dur_init \<lparr>ds_table = completed_table, ds_live = {}\<rparr> \<and>
   (\<exists>r. map_of completed_table (sha256_hex ''r1'') = Some r \<and> dr_state r = COMPLETED) \<and>
   (\<exists>t rv t'. dur_fail ''t2'' (owner_of (sha256_hex ''r1'')) False completed_table = (Inr (), t) \<and>
      dur_reserve ''t3'' ''r1'' sample_digest t = (Inr rv, t') \<and> rv_owner rv)"
proof -
  obtain t where t: "dur_fail ''t2'' (owner_of (sha256_hex ''r1'')) False completed_table = (Inr (), t)"
    by (simp add: dur_fail_def owner_of_def)
  then have "t = update_row completed_table (sha256_hex ''r1'') (\<lambda>r. r\<lparr>dr_state := FAILED, dr_resolved_utc := Some ''t2''\<rparr>)"
    by (auto simp: dur_fail_def owner_of_def)
  then have "\<exists>rv t'. dur_reserve ''t3'' ''r1'' sample_digest t = (Inr rv, t') \<and> rv_owner rv"
    by (simp add: dur_reserve_def sample_digest_ok sample_key Let_def map_of_update_row completed_row)
  then obtain rv t' where "dur_reserve ''t3'' ''r1'' sample_digest t = (Inr rv, t') \<and> rv_owner rv" by (elim exE)
  then have "\<exists>t rv t'. dur_fail ''t2'' (owner_of (sha256_hex ''r1'')) False completed_table = (Inr (), t) \<and>
      dur_reserve ''t3'' ''r1'' sample_digest t = (Inr rv, t') \<and> rv_owner rv"
    using t by (intro exI [of _ t] exI [of _ rv] exI [of _ t'] conjI) simp_all
  moreover have "\<exists>r. map_of completed_table (sha256_hex ''r1'') = Some r \<and> dr_state r = COMPLETED"
    by (simp add: completed_row)
  ultimately show ?thesis using completed_reachable by (intro conjI)
qed

end
