(* ===== verification/Hash_Chain.thy ===== *)
theory Hash_Chain
  imports Prelude
begin

text \<open>
  What both audit chains of the program share: an entry determines a document, a document
  carries the hash of its predecessor, and a verifier that accepts a chain starting from one
  hash and ending in another has checked each link. From that alone, two accepted chains of
  the same length between the same two hashes carry the same documents, or else two
  different documents with the same digest sit at the same place of the two chains.
\<close>

locale hash_chain =
  fixes doc :: "'e \<Rightarrow> 'd"
    and digest :: "'d \<Rightarrow> string"
    and prev :: "'d \<Rightarrow> string"
    and accepts :: "string \<Rightarrow> 'e list \<Rightarrow> string \<Rightarrow> bool"
  assumes accepts_Nil: "accepts p [] q \<Longrightarrow> p = q"
    and accepts_Cons: "accepts p (e # es) q \<Longrightarrow> prev (doc e) = p \<and> accepts (digest (doc e)) es q"
begin

lemma accepts_last: "accepts p (es @ [e]) q \<Longrightarrow> digest (doc e) = q"
proof (induction es arbitrary: p)
  case Nil
  then show ?case by (auto dest!: accepts_Cons accepts_Nil)
next
  case (Cons x xs)
  then show ?case using accepts_Cons [of p x "xs @ [e]" q] by auto
qed

lemma linked: "accepts p es q \<Longrightarrow> Suc i < length es \<Longrightarrow> prev (doc (es ! Suc i)) = digest (doc (es ! i))"
proof (induction es arbitrary: p i)
  case (Cons e es)
  have c: "accepts (digest (doc e)) es q" using accepts_Cons [OF Cons.prems(1)] by blast
  show ?case
  proof (cases i)
    case 0
    then obtain x xs where "es = x # xs" using Cons.prems(2) by (cases es) auto
    then show ?thesis using 0 c accepts_Cons [of "digest (doc e)" x xs q] by simp
  next
    case (Suc j)
    then show ?thesis using Cons.IH [OF c] Cons.prems(2) by simp
  qed
qed simp

lemma head: "accepts p es q \<Longrightarrow> es \<noteq> [] \<Longrightarrow> digest (doc (last es)) = q"
  using accepts_last by (metis append_butlast_last_id)

lemma tamper_evident:
  assumes "accepts p es q" and "accepts p' es' q" and "length es = length es'"
  shows "map doc es = map doc es' \<or>
    (\<exists>i < length es. doc (es ! i) \<noteq> doc (es' ! i) \<and> digest (doc (es ! i)) = digest (doc (es' ! i)))"
proof (cases "\<exists>i < length es. doc (es ! i) \<noteq> doc (es' ! i)")
  case False
  then show ?thesis using assms(3) by (auto intro: nth_equalityI)
next
  case True
  define D where "D = {i. i < length es \<and> doc (es ! i) \<noteq> doc (es' ! i)}"
  have fin: "finite D" and ne: "D \<noteq> {}" using True by (auto simp: D_def)
  define i where "i = Max D"
  have i: "i < length es" "doc (es ! i) \<noteq> doc (es' ! i)"
    using Max_in [OF fin ne] by (auto simp: D_def i_def)
  have "digest (doc (es ! i)) = digest (doc (es' ! i))"
  proof (cases "Suc i < length es")
    case True
    then have "Suc i \<notin> D" using Max_ge [OF fin] unfolding i_def by (metis Suc_n_not_le_n)
    then have "doc (es ! Suc i) = doc (es' ! Suc i)" using True by (simp add: D_def)
    then show ?thesis using linked [OF assms(1) True] linked [OF assms(2), of i] True assms(3) by simp
  next
    case False
    then have "i = length es - 1" "es \<noteq> []" "es' \<noteq> []" using i(1) assms(3) by auto
    then show ?thesis
      using head [OF assms(1)] head [OF assms(2)] assms(3) by (simp add: last_conv_nth)
  qed
  then show ?thesis using i by blast
qed

end

end
