(* ===== verification/Bounded_Response.thy ===== *)
theory Bounded_Response
  imports Py_Values
begin

text \<open>
  \<open>src/api/scale_response.py\<close>: the score-free response that the PostgreSQL profile stores and
  replays, its JSON document, the strict validation of a stored document and its digest.
  Literal types are datatypes; validation reads a document of run-time values.
\<close>

datatype bounded_decision = Human_Review | Below_Review_Threshold
datatype evidence_category =
    Synthetic_Demo_Inference | New_Authorized_Development_Evidence | Historical_Reference_Demo_Inference

fun decision_name :: "bounded_decision \<Rightarrow> string" where
  "decision_name Human_Review = ''human_review''"
| "decision_name Below_Review_Threshold = ''below_review_threshold''"

fun evidence_name :: "evidence_category \<Rightarrow> string" where
  "evidence_name Synthetic_Demo_Inference = ''synthetic_demo_inference''"
| "evidence_name New_Authorized_Development_Evidence = ''new_authorized_development_evidence''"
| "evidence_name Historical_Reference_Demo_Inference = ''historical_reference_demo_inference''"

definition V2_SCHEMA_VERSION :: string where "V2_SCHEMA_VERSION = ''2.0''"
definition V2_RESPONSE_PROFILE :: string where "V2_RESPONSE_PROFILE = ''postgres-scale-bounded-v1''"

record model_provenance =
  mp_model_version :: string
  mp_bundle_format_version :: string
  mp_model_artifact_sha256 :: string
  mp_training_data_fingerprint :: string
  mp_evidence_category :: evidence_category
  mp_historical_taint :: bool
  mp_decision_eligible :: bool
  mp_historical_metrics_claimed :: bool
  mp_evaluation_performed :: bool

record policy_provenance =
  pp_producer_policy :: string
  pp_producer_policy_sha256 :: string
  pp_operating_threshold :: pyfloat
  pp_threshold_source :: string
  pp_threshold_model_linkage :: string
  pp_threshold_purpose :: string
  pp_threshold_calibrated :: bool
  pp_threshold_cost_optimal :: bool
  pp_threshold_razorpay_approved :: bool
  pp_threshold_production_approved :: bool

record bounded_response =
  br_decision :: bounded_decision
  br_model :: model_provenance
  br_policy :: policy_provenance
  br_feature_schema_sha256 :: string

section \<open>The document\<close>

definition model_document :: "model_provenance \<Rightarrow> pyval" where
  "model_document m = PDict
     [(''model_version'', PStr (mp_model_version m)),
      (''bundle_format_version'', PStr (mp_bundle_format_version m)),
      (''model_artifact_sha256'', PStr (mp_model_artifact_sha256 m)),
      (''training_data_fingerprint'', PStr (mp_training_data_fingerprint m)),
      (''evidence_category'', PStr (evidence_name (mp_evidence_category m))),
      (''historical_taint'', PBool (mp_historical_taint m)),
      (''decision_eligible'', PBool (mp_decision_eligible m)),
      (''historical_metrics_claimed'', PBool (mp_historical_metrics_claimed m)),
      (''evaluation_performed'', PBool (mp_evaluation_performed m))]"

definition policy_document :: "policy_provenance \<Rightarrow> pyval" where
  "policy_document p = PDict
     [(''producer_policy'', PStr (pp_producer_policy p)),
      (''producer_policy_sha256'', PStr (pp_producer_policy_sha256 p)),
      (''operating_threshold'', PFloat (pp_operating_threshold p)),
      (''threshold_source'', PStr (pp_threshold_source p)),
      (''threshold_model_linkage'', PStr (pp_threshold_model_linkage p)),
      (''threshold_purpose'', PStr (pp_threshold_purpose p)),
      (''threshold_calibrated'', PBool (pp_threshold_calibrated p)),
      (''threshold_cost_optimal'', PBool (pp_threshold_cost_optimal p)),
      (''threshold_razorpay_approved'', PBool (pp_threshold_razorpay_approved p)),
      (''threshold_production_approved'', PBool (pp_threshold_production_approved p))]"

definition schema_document :: "string \<Rightarrow> pyval" where
  "schema_document digest = PDict
     [(''api_schema_version'', PStr V2_SCHEMA_VERSION), (''feature_schema_sha256'', PStr digest)]"

text \<open>\<open>response.model_dump(mode="json", by_alias=True)\<close>.\<close>

definition bounded_document :: "bounded_response \<Rightarrow> pyval" where
  "bounded_document r = PDict
     [(''schema_version'', PStr V2_SCHEMA_VERSION), (''response_profile'', PStr V2_RESPONSE_PROFILE),
      (''status'', PStr ''completed''), (''decision'', PStr (decision_name (br_decision r))),
      (''model'', model_document (br_model r)), (''policy'', policy_document (br_policy r)),
      (''schema'', schema_document (br_feature_schema_sha256 r))]"

definition canonical_response_bytes :: "bounded_response \<Rightarrow> py_exc + string" where
  "canonical_response_bytes r = json_dumps (bounded_document r)"

definition response_sha256 :: "bounded_response \<Rightarrow> py_exc + string" where
  "response_sha256 r = res_bind (canonical_response_bytes r) (\<lambda>b. Inr (sha256_hex b))"

section \<open>Strict validation\<close>

definition get_str :: "(string \<times> pyval) list \<Rightarrow> string \<Rightarrow> string option" where
  "get_str d k = (case map_of d k of Some (PStr s) \<Rightarrow> Some s | _ \<Rightarrow> None)"

definition get_bool :: "(string \<times> pyval) list \<Rightarrow> string \<Rightarrow> bool option" where
  "get_bool d k = (case map_of d k of Some (PBool b) \<Rightarrow> Some b | _ \<Rightarrow> None)"

text \<open>A strict \<open>float\<close> field takes a float or an integer, which it converts, and no Boolean.\<close>

definition get_float :: "(string \<times> pyval) list \<Rightarrow> string \<Rightarrow> pyfloat option" where
  "get_float d k = (case map_of d k of Some (PFloat x) \<Rightarrow> Some x | Some (PInt i) \<Rightarrow> Some (float_of_int i) | _ \<Rightarrow> None)"

text \<open>A literal field with a default may be missing.\<close>

definition literal_ok :: "(string \<times> pyval) list \<Rightarrow> string \<Rightarrow> string \<Rightarrow> bool" where
  "literal_ok d k v = (case map_of d k of None \<Rightarrow> True | Some (PStr s) \<Rightarrow> s = v | _ \<Rightarrow> False)"

definition keys_allowed :: "(string \<times> pyval) list \<Rightarrow> string list \<Rightarrow> bool" where
  "keys_allowed d ks = list_all (\<lambda>kv. fst kv \<in> set ks) d"

definition decision_of :: "string \<Rightarrow> bounded_decision option" where
  "decision_of s = map_of [(''human_review'', Human_Review), (''below_review_threshold'', Below_Review_Threshold)] s"

definition evidence_of :: "string \<Rightarrow> evidence_category option" where
  "evidence_of s = map_of
     [(''synthetic_demo_inference'', Synthetic_Demo_Inference),
      (''new_authorized_development_evidence'', New_Authorized_Development_Evidence),
      (''historical_reference_demo_inference'', Historical_Reference_Demo_Inference)] s"

definition validate_model :: "pyval \<Rightarrow> model_provenance option" where
  "validate_model v =
     (case v of PDict d \<Rightarrow>
        if \<not> keys_allowed d [''model_version'', ''bundle_format_version'', ''model_artifact_sha256'',
             ''training_data_fingerprint'', ''evidence_category'', ''historical_taint'', ''decision_eligible'',
             ''historical_metrics_claimed'', ''evaluation_performed''] then None
        else
          Option.bind (get_str d ''model_version'') (\<lambda>a.
          Option.bind (get_str d ''bundle_format_version'') (\<lambda>b.
          Option.bind (get_str d ''model_artifact_sha256'') (\<lambda>c.
          Option.bind (get_str d ''training_data_fingerprint'') (\<lambda>f.
          Option.bind (Option.bind (get_str d ''evidence_category'') evidence_of) (\<lambda>e.
          Option.bind (get_bool d ''historical_taint'') (\<lambda>h.
          Option.bind (get_bool d ''decision_eligible'') (\<lambda>i.
          Option.bind (get_bool d ''historical_metrics_claimed'') (\<lambda>j.
          Option.bind (get_bool d ''evaluation_performed'') (\<lambda>k.
            Some \<lparr>mp_model_version = a, mp_bundle_format_version = b, mp_model_artifact_sha256 = c,
                  mp_training_data_fingerprint = f, mp_evidence_category = e, mp_historical_taint = h,
                  mp_decision_eligible = i, mp_historical_metrics_claimed = j,
                  mp_evaluation_performed = k\<rparr>)))))))))
      | _ \<Rightarrow> None)"

definition validate_policy :: "pyval \<Rightarrow> policy_provenance option" where
  "validate_policy v =
     (case v of PDict d \<Rightarrow>
        if \<not> keys_allowed d [''producer_policy'', ''producer_policy_sha256'', ''operating_threshold'',
             ''threshold_source'', ''threshold_model_linkage'', ''threshold_purpose'', ''threshold_calibrated'',
             ''threshold_cost_optimal'', ''threshold_razorpay_approved'', ''threshold_production_approved''] then None
        else
          Option.bind (get_str d ''producer_policy'') (\<lambda>a.
          Option.bind (get_str d ''producer_policy_sha256'') (\<lambda>b.
          Option.bind (get_float d ''operating_threshold'') (\<lambda>c.
          Option.bind (get_str d ''threshold_source'') (\<lambda>e.
          Option.bind (get_str d ''threshold_model_linkage'') (\<lambda>f.
          Option.bind (get_str d ''threshold_purpose'') (\<lambda>g.
          Option.bind (get_bool d ''threshold_calibrated'') (\<lambda>h.
          Option.bind (get_bool d ''threshold_cost_optimal'') (\<lambda>i.
          Option.bind (get_bool d ''threshold_razorpay_approved'') (\<lambda>j.
          Option.bind (get_bool d ''threshold_production_approved'') (\<lambda>k.
            Some \<lparr>pp_producer_policy = a, pp_producer_policy_sha256 = b, pp_operating_threshold = c,
                  pp_threshold_source = e, pp_threshold_model_linkage = f, pp_threshold_purpose = g,
                  pp_threshold_calibrated = h, pp_threshold_cost_optimal = i,
                  pp_threshold_razorpay_approved = j, pp_threshold_production_approved = k\<rparr>))))))))))
      | _ \<Rightarrow> None)"

definition validate_schema :: "pyval \<Rightarrow> string option" where
  "validate_schema v =
     (case v of PDict d \<Rightarrow>
        if keys_allowed d [''api_schema_version'', ''feature_schema_sha256''] \<and>
           literal_ok d ''api_schema_version'' V2_SCHEMA_VERSION
        then get_str d ''feature_schema_sha256'' else None
      | _ \<Rightarrow> None)"

text \<open>
  \<open>BoundedPredictionRepresentation.model_validate\<close>. The schema provenance may stand under its
  alias or, when the alias is absent, under its field name (\<open>populate_by_name\<close>).
\<close>

definition validate_bounded :: "pyval \<Rightarrow> py_exc + bounded_response" where
  "validate_bounded v =
     (let bad = Inl (ValidationError ''BoundedPredictionRepresentation'')
      in case v of
        PDict d \<Rightarrow>
          (let schema_key = (if map_of d ''schema'' = None then ''schema_provenance'' else ''schema'')
           in if keys_allowed d [''schema_version'', ''response_profile'', ''status'', ''decision'', ''model'',
                 ''policy'', schema_key] \<and>
                 literal_ok d ''schema_version'' V2_SCHEMA_VERSION \<and>
                 literal_ok d ''response_profile'' V2_RESPONSE_PROFILE \<and> literal_ok d ''status'' ''completed''
              then case (Option.bind (get_str d ''decision'') decision_of,
                         Option.bind (map_of d ''model'') validate_model,
                         Option.bind (map_of d ''policy'') validate_policy,
                         Option.bind (map_of d schema_key) validate_schema) of
                     (Some dec, Some m, Some p, Some digest) \<Rightarrow>
                       Inr \<lparr>br_decision = dec, br_model = m, br_policy = p, br_feature_schema_sha256 = digest\<rparr>
                   | _ \<Rightarrow> bad
              else bad)
      | _ \<Rightarrow> bad)"

section \<open>Building a response from the loaded bundle\<close>

text \<open>
  The fields of the verified bundle and of the service's prediction result that the builder
  reads; \<open>bundle.validate()\<close> belongs to \<open>src/src/artifacts/bundle.py\<close> and is given by its result.
\<close>

record bundle_view =
  bv_validation :: "py_exc + unit"
  bv_model_artifact_sha256 :: "string option"
  bv_model_version :: string
  bv_training_data_fingerprint :: string
  bv_evidence_category :: evidence_category
  bv_historical_taint :: bool
  bv_decision_eligible :: bool
  bv_historical_metrics_claimed :: bool
  bv_evaluation_performed :: bool
  bv_producer_policy :: string
  bv_producer_policy_sha256 :: string
  bv_operating_threshold :: pyfloat
  bv_feature_schema :: "string list"
  bv_threshold_source :: string
  bv_threshold_model_linkage :: string
  bv_threshold_purpose :: string
  bv_threshold_calibrated :: bool
  bv_threshold_cost_optimal :: bool
  bv_threshold_razorpay_approved :: bool
  bv_threshold_production_approved :: bool

record result_view =
  rs_decision :: bounded_decision
  rs_model_version :: string
  rs_bundle_format_version :: string
  rs_operating_threshold :: pyfloat
  rs_training_data_fingerprint :: string
  rs_evidence_category :: evidence_category
  rs_historical_taint :: bool
  rs_decision_eligible :: bool
  rs_historical_metrics_claimed :: bool
  rs_evaluation_performed :: bool

definition provenance_matches :: "bundle_view \<Rightarrow> result_view \<Rightarrow> bool" where
  "provenance_matches b r =
     (rs_training_data_fingerprint r = bv_training_data_fingerprint b \<and>
      rs_evidence_category r = bv_evidence_category b \<and> rs_historical_taint r = bv_historical_taint b \<and>
      rs_decision_eligible r = bv_decision_eligible b \<and>
      rs_historical_metrics_claimed r = bv_historical_metrics_claimed b \<and>
      rs_evaluation_performed r = bv_evaluation_performed b)"

text \<open>Equality of two floats is false on NaN.\<close>

definition feq :: "pyfloat \<Rightarrow> pyfloat \<Rightarrow> bool" where
  "feq x y = (x \<noteq> NaN \<and> x = y)"

definition build_bounded_prediction_response ::
  "string \<Rightarrow> bundle_view \<Rightarrow> result_view \<Rightarrow> py_exc + bounded_response" where
  "build_bounded_prediction_response BUNDLE_FORMAT_VERSION b r =
     res_bind (bv_validation b) (\<lambda>_.
       case bv_model_artifact_sha256 b of
         None \<Rightarrow> Inl (PyError ''BoundedResponseIntegrityError''
                   ''A verified model-artifact fingerprint is required for bounded replay.'')
       | Some fingerprint \<Rightarrow>
           if rs_model_version r \<noteq> bv_model_version b \<or>
              rs_bundle_format_version r \<noteq> BUNDLE_FORMAT_VERSION \<or>
              \<not> feq (rs_operating_threshold r) (bv_operating_threshold b) \<or>
              \<not> provenance_matches b r
           then Inl (PyError ''BoundedResponseIntegrityError''
                   ''Prediction provenance does not match the loaded bundle.'')
           else res_bind (json_dumps (PList (map PStr (bv_feature_schema b)))) (\<lambda>schema_json.
             Inr \<lparr>br_decision = rs_decision r,
                  br_model = \<lparr>mp_model_version = bv_model_version b,
                    mp_bundle_format_version = BUNDLE_FORMAT_VERSION,
                    mp_model_artifact_sha256 = fingerprint,
                    mp_training_data_fingerprint = bv_training_data_fingerprint b,
                    mp_evidence_category = bv_evidence_category b,
                    mp_historical_taint = bv_historical_taint b,
                    mp_decision_eligible = bv_decision_eligible b,
                    mp_historical_metrics_claimed = bv_historical_metrics_claimed b,
                    mp_evaluation_performed = bv_evaluation_performed b\<rparr>,
                  br_policy = \<lparr>pp_producer_policy = bv_producer_policy b,
                    pp_producer_policy_sha256 = bv_producer_policy_sha256 b,
                    pp_operating_threshold = bv_operating_threshold b,
                    pp_threshold_source = bv_threshold_source b,
                    pp_threshold_model_linkage = bv_threshold_model_linkage b,
                    pp_threshold_purpose = bv_threshold_purpose b,
                    pp_threshold_calibrated = bv_threshold_calibrated b,
                    pp_threshold_cost_optimal = bv_threshold_cost_optimal b,
                    pp_threshold_razorpay_approved = bv_threshold_razorpay_approved b,
                    pp_threshold_production_approved = bv_threshold_production_approved b\<rparr>,
                  br_feature_schema_sha256 = sha256_hex schema_json\<rparr>))"

section \<open>Facts\<close>

lemma decision_of_name [simp]: "decision_of (decision_name d) = Some d"
  by (cases d) (simp_all add: decision_of_def)

lemma evidence_of_name [simp]: "evidence_of (evidence_name e) = Some e"
  by (cases e) (simp_all add: evidence_of_def)

lemma validate_model_document: "validate_model (model_document m) = Some m"
  by (simp add: model_document_def validate_model_def keys_allowed_def get_str_def get_bool_def)

lemma validate_policy_document: "validate_policy (policy_document p) = Some p"
  by (simp add: policy_document_def validate_policy_def keys_allowed_def get_str_def get_bool_def get_float_def)

lemma validate_schema_document: "validate_schema (schema_document h) = Some h"
  by (simp add: schema_document_def validate_schema_def keys_allowed_def get_str_def literal_ok_def)

text \<open>
  C20. A stored response survives its round trip: the strict validation of the document a
  response is dumped to accepts it and rebuilds exactly that response, so its digest is
  recomputed unchanged.
\<close>

theorem stored_response_round_trip: "validate_bounded (bounded_document r) = Inr r"
  by (simp add: validate_bounded_def bounded_document_def keys_allowed_def literal_ok_def get_str_def
      validate_model_document validate_policy_document validate_schema_document Let_def)

end
