(* ===== verification/Postgres_Audit.thy ===== *)
theory Postgres_Audit
  imports Hash_Chain Bounded_Response Clock
begin

text \<open>
  \<open>src/api/postgres_audit.py\<close>: the canonical audit event of the PostgreSQL profile, its
  recomputation from a stored row and the full verification of the chain, its head and its
  linkage to the completed idempotency rows. The three tables are lists of rows with the
  columns of \<open>src/api/migrations/postgres\<close>; a \<open>jsonb\<close> column keeps the document it was given.
\<close>

definition AUDIT_SCHEMA_VERSION :: string where "AUDIT_SCHEMA_VERSION = ''postgres-audit-v1''"
definition AUDIT_CHAIN_ID :: string where "AUDIT_CHAIN_ID = ''primary''"
definition GENESIS_HASH :: string where "GENESIS_HASH = replicate 64 (CHR ''0'')"

abbreviation PostgresAuditIntegrityError :: "string \<Rightarrow> py_exc" where
  "PostgresAuditIntegrityError m \<equiv> PyError ''PostgresAuditIntegrityError'' m"

section \<open>The tables\<close>

record idem_row =
  pi_request_digest :: string
  pi_state :: string
  pi_reservation_expires_at :: int
  pi_retention_until :: int
  pi_response_document :: "pyval option"
  pi_response_sha256 :: "string option"
  pi_audit_receipt_sha256 :: "string option"

record event_row =
  ev_event_id :: string
  ev_chain_id :: string
  ev_sequence :: int
  ev_previous_hash :: string
  ev_key_digest :: string
  ev_request_digest :: string
  ev_decision :: string
  ev_bounded_response :: pyval
  ev_response_sha256 :: string
  ev_occurred_at :: pydatetime
  ev_event_hash :: string

record pg_db =
  pg_idempotency :: "(string, idem_row) dict"
  pg_events :: "event_row list"
  pg_heads :: "(string, int \<times> string) dict"

text \<open>The state migration 0002 seeds.\<close>

definition pg_init :: pg_db where
  "pg_init = \<lparr>pg_idempotency = [], pg_events = [], pg_heads = [(AUDIT_CHAIN_ID, (0, GENESIS_HASH))]\<rparr>"

section \<open>Timestamps and identifiers\<close>

text \<open>The proleptic Gregorian date of a day number counted from 1970-01-01.\<close>

definition civil_from_days :: "int \<Rightarrow> int \<times> int \<times> int" where
  "civil_from_days days =
     (let z = days + 719468; era = z div 146097; doe = z mod 146097;
          yoe = (doe - doe div 1460 + doe div 36524 - doe div 146096) div 365;
          doy = doe - (365 * yoe + yoe div 4 - yoe div 100);
          mp = (5 * doy + 2) div 153;
          d = doy - (153 * mp + 2) div 5 + 1;
          m = (if mp < 10 then mp + 3 else mp - 9)
      in (yoe + era * 400 + (if m \<le> 2 then 1 else 0), m, d))"

definition pad_int :: "nat \<Rightarrow> int \<Rightarrow> string" where
  "pad_int w n = (let s = nat_str (nat n) in replicate (w - length s) (CHR ''0'') @ s)"

text \<open>\<open>value.astimezone(timezone.utc).isoformat(timespec="microseconds").replace("+00:00", "Z")\<close>.\<close>

definition canonical_timestamp :: "pydatetime \<Rightarrow> py_exc + string" where
  "canonical_timestamp v =
     (if dt_off v = None then
        Inl (PostgresAuditIntegrityError ''Audit timestamps must include a timezone.'')
      else let us = dt_instant v
           in if us < MIN_LOCAL \<or> MAX_LOCAL < us then Inl OverflowError
              else let (y, m, d) = civil_from_days (us div 86400000000);
                       r = us mod 86400000000; sec = r div 1000000
                   in Inr (pad_int 4 y @ ''-'' @ pad_int 2 m @ ''-'' @ pad_int 2 d @ ''T'' @
                           pad_int 2 (sec div 3600) @ '':'' @ pad_int 2 (sec div 60 mod 60) @ '':'' @
                           pad_int 2 (sec mod 60) @ ''.'' @ pad_int 6 (r mod 1000000) @ ''Z''))"

text \<open>
  \<open>uuid.UUID(identifier)\<close>: after dropping \<open>urn:\<close>, \<open>uuid:\<close>, outer braces and hyphens there must be
  32 characters that \<open>int(_, 16)\<close> reads. Single underscores between digits, one sign, a
  \<open>0x\<close> prefix and surrounding white space are what \<open>int\<close> allows beside hexadecimal digits.
\<close>

definition is_hex :: "char \<Rightarrow> bool" where
  "is_hex c = (is_hex_lower (lower_char c))"

fun hex_digits :: "string \<Rightarrow> bool" where
  "hex_digits [] = False"
| "hex_digits [c] = is_hex c"
| "hex_digits (c # d # cs) =
     (is_hex c \<and> (if d = CHR ''_'' then hex_digits cs else hex_digits (d # cs)))"

definition int16_ok :: "string \<Rightarrow> bool" where
  "int16_ok s =
     (let s1 = strip_by is_space s;
          s2 = (case s1 of c # cs \<Rightarrow> if c = CHR ''+'' \<or> c = CHR ''-'' then cs else s1 | [] \<Rightarrow> s1);
          s3 = (if starts_with s2 ''0x'' \<or> starts_with s2 ''0X''
                then (case drop 2 s2 of c # cs \<Rightarrow> if c = CHR ''_'' then cs else drop 2 s2 | [] \<Rightarrow> [])
                else s2)
      in hex_digits s3)"

fun remove_all :: "string \<Rightarrow> string \<Rightarrow> string" where
  "remove_all p [] = []"
| "remove_all p (c # cs) =
     (if p \<noteq> [] \<and> starts_with (c # cs) p then remove_all p (drop (length p - 1) cs) else c # remove_all p cs)"

definition uuid_ok :: "string \<Rightarrow> bool" where
  "uuid_ok s =
     (let h = remove_all ''-'' (strip_by (\<lambda>c. c = CHR ''{'' \<or> c = CHR ''}'')
                (remove_all ''uuid:'' (remove_all ''urn:'' s)))
      in length h = 32 \<and> int16_ok h)"

section \<open>Events\<close>

definition event_document ::
  "string \<Rightarrow> string \<Rightarrow> int \<Rightarrow> string \<Rightarrow> string \<Rightarrow> string \<Rightarrow> string \<Rightarrow> pyval \<Rightarrow> string \<Rightarrow> pydatetime \<Rightarrow> py_exc + pyval" where
  "event_document event_id chain_id sequence previous_hash key_digest request_digest decision
     bounded_response response_digest occurred_at =
     res_bind (canonical_timestamp occurred_at) (\<lambda>ts.
       Inr (PDict [(''audit_schema_version'', PStr AUDIT_SCHEMA_VERSION),
                   (''bounded_response'', bounded_response),
                   (''chain_id'', PStr chain_id), (''decision'', PStr decision),
                   (''event_id'', PStr event_id), (''idempotency_key_hmac_sha256'', PStr key_digest),
                   (''occurred_at'', PStr ts), (''previous_hash'', PStr previous_hash),
                   (''request_digest_sha256'', PStr request_digest),
                   (''response_sha256'', PStr response_digest), (''sequence'', PInt sequence)]))"

definition document_hash :: "pyval \<Rightarrow> py_exc + string" where
  "document_hash doc = res_bind (json_dumps doc) (\<lambda>b. Inr (sha256_hex b))"

text \<open>\<open>build_audit_event\<close>; the fresh \<open>uuid4\<close> of the source is the argument \<open>new_id\<close>.\<close>

definition build_audit_event ::
  "string \<Rightarrow> int \<Rightarrow> string \<Rightarrow> string \<Rightarrow> string \<Rightarrow> bounded_response \<Rightarrow> pydatetime \<Rightarrow> string option \<Rightarrow> string \<Rightarrow>
   py_exc + event_row" where
  "build_audit_event chain_id sequence previous_hash key_digest request_digest response occurred_at event_id new_id =
     (if sequence < 1 then Inl (PostgresAuditIntegrityError ''Audit sequence must be positive.'')
      else if \<not> (is_sha256 previous_hash \<and> is_sha256 key_digest \<and> is_sha256 request_digest) then
        Inl (PostgresAuditIntegrityError ''Audit digests must be lowercase SHA-256.'')
      else let identifier = (case event_id of Some i \<Rightarrow> if i = [] then new_id else i | None \<Rightarrow> new_id)
           in if \<not> uuid_ok identifier then Inl (PostgresAuditIntegrityError ''Audit event ID is invalid.'')
              else res_bind (response_sha256 response) (\<lambda>response_digest.
                   res_bind (event_document identifier chain_id sequence previous_hash key_digest request_digest
                       (decision_name (br_decision response)) (bounded_document response)
                       response_digest occurred_at) (\<lambda>doc.
                   res_bind (document_hash doc) (\<lambda>digest.
                     Inr \<lparr>ev_event_id = identifier, ev_chain_id = chain_id, ev_sequence = sequence,
                          ev_previous_hash = previous_hash, ev_key_digest = key_digest,
                          ev_request_digest = request_digest,
                          ev_decision = decision_name (br_decision response),
                          ev_bounded_response = bounded_document response,
                          ev_response_sha256 = response_digest, ev_occurred_at = occurred_at,
                          ev_event_hash = digest\<rparr>))))"

text \<open>
  \<open>_validate_event_row\<close>: the event is rebuilt from the row. Every exception the rebuilding can
  raise here but an \<open>OverflowError\<close> is caught and replaced.
\<close>

definition validate_event_row :: "event_row \<Rightarrow> string \<Rightarrow> py_exc + string" where
  "validate_event_row row expected_previous =
     (case res_bind (validate_bounded (ev_bounded_response row)) (\<lambda>response.
             build_audit_event (ev_chain_id row) (ev_sequence row) (ev_previous_hash row) (ev_key_digest row)
               (ev_request_digest row) response (ev_occurred_at row) (Some (ev_event_id row)) []) of
        Inl OverflowError \<Rightarrow> Inl OverflowError
      | Inl _ \<Rightarrow> Inl (PostgresAuditIntegrityError ''Audit event encoding is invalid.'')
      | Inr event \<Rightarrow>
          if ev_previous_hash event \<noteq> expected_previous then
            Inl (PostgresAuditIntegrityError ''Audit chain previous-hash linkage failed.'')
          else if ev_decision event \<noteq> ev_decision row then
            Inl (PostgresAuditIntegrityError ''Audit decision does not match its bounded response.'')
          else if ev_response_sha256 event \<noteq> ev_response_sha256 row then
            Inl (PostgresAuditIntegrityError ''Audit response digest is invalid.'')
          else if ev_event_hash event \<noteq> ev_event_hash row then
            Inl (PostgresAuditIntegrityError ''Audit event hash is invalid.'')
          else Inr (ev_event_hash event))"

section \<open>The verifier\<close>

record chain_verification =
  cv_chain_id :: string
  cv_event_count :: nat
  cv_last_sequence :: nat
  cv_last_hash :: string

fun verify_rows :: "nat \<Rightarrow> string \<Rightarrow> event_row list \<Rightarrow> py_exc + string" where
  "verify_rows expected_sequence expected_previous [] = Inr expected_previous"
| "verify_rows expected_sequence expected_previous (row # rows) =
     (if ev_sequence row \<noteq> int expected_sequence then
        Inl (PostgresAuditIntegrityError ''Audit sequence is not contiguous.'')
      else res_bind (validate_event_row row expected_previous)
             (\<lambda>h. verify_rows (Suc expected_sequence) h rows))"

text \<open>
  The full join of the consistency query on key digest and receipt, restricted to the
  completed rows and the events: its inconsistent results are the completed rows without
  their event, the events without their row, and the pairs that disagree.
\<close>

definition joins :: "string \<times> idem_row \<Rightarrow> event_row \<Rightarrow> bool" where
  "joins kr ev = (fst kr = ev_key_digest ev \<and> pi_audit_receipt_sha256 (snd kr) = Some (ev_event_hash ev))"

definition pair_inconsistent :: "idem_row \<Rightarrow> event_row \<Rightarrow> bool" where
  "pair_inconsistent r ev =
     (pi_state r \<noteq> ''completed'' \<or> pi_request_digest r \<noteq> ev_request_digest ev \<or>
      (case pi_response_sha256 r of None \<Rightarrow> False | Some h \<Rightarrow> h \<noteq> ev_response_sha256 ev) \<or>
      (case pi_response_document r of None \<Rightarrow> False | Some d \<Rightarrow> d \<noteq> ev_bounded_response ev))"

definition inconsistent_count :: "pg_db \<Rightarrow> nat" where
  "inconsistent_count db =
     length (filter (\<lambda>(kr, ev). joins kr ev \<and> pair_inconsistent (snd kr) ev)
              (List.product (pg_idempotency db) (pg_events db))) +
     length (filter (\<lambda>kr. pi_state (snd kr) = ''completed'' \<and> \<not> list_ex (joins kr) (pg_events db))
              (pg_idempotency db)) +
     length (filter (\<lambda>ev. \<not> list_ex (\<lambda>kr. joins kr ev) (pg_idempotency db)) (pg_events db))"

definition verify_audit_chain :: "pg_db \<Rightarrow> py_exc + chain_verification" where
  "verify_audit_chain db =
     (case map_of (pg_heads db) AUDIT_CHAIN_ID of
        None \<Rightarrow> Inl (PostgresAuditIntegrityError ''The seeded audit chain head is missing.'')
      | Some (last_sequence, last_hash) \<Rightarrow>
          if length (pg_heads db) \<noteq> 1 \<or>
             length (filter (\<lambda>ev. ev_chain_id ev \<noteq> AUDIT_CHAIN_ID) (pg_events db)) \<noteq> 0
          then Inl (PostgresAuditIntegrityError ''The audit chain boundary is not singular.'')
          else
            let rows = sort_key ev_sequence (filter (\<lambda>ev. ev_chain_id ev = AUDIT_CHAIN_ID) (pg_events db))
            in res_bind (verify_rows 1 GENESIS_HASH rows) (\<lambda>expected_previous.
              if last_sequence \<noteq> int (length rows) then
                Inl (PostgresAuditIntegrityError ''Audit chain head count does not match events.'')
              else if last_hash \<noteq> expected_previous then
                Inl (PostgresAuditIntegrityError ''Audit chain head hash does not match events.'')
              else if inconsistent_count db \<noteq> 0 then
                Inl (PostgresAuditIntegrityError ''Audit events and completed idempotency rows are inconsistent.'')
              else Inr \<lparr>cv_chain_id = AUDIT_CHAIN_ID, cv_event_count = length rows,
                        cv_last_sequence = length rows, cv_last_hash = expected_previous\<rparr>))"

end
