(* ===== verification/Postgres_Store.thy ===== *)
theory Postgres_Store
  imports Postgres_Audit Write_Once
begin

text \<open>
  \<open>src/api/postgres_idempotency.py\<close>: durable reservations, their atomic completion together
  with the audit event and the chain head, failure, the bounded wait and the composed
  execution. A transaction is one function from the database to the database; a rollback
  returns the database it was given. The database clock, the application clock and the fresh
  UUID are arguments. The constraints of \<open>src/api/migrations/postgres\<close> that an insertion can
  violate are checked, since the driver's exception is a branch of the code.
\<close>

datatype reservation_kind = R_owner | R_completed | R_reserved | R_stale | R_failed

record pg_reservation =
  pr_kind :: reservation_kind
  pr_key_digest :: string
  pr_request_digest :: string
  pr_response :: "bounded_response option"
  pr_response_hash :: "string option"
  pr_audit_receipt :: "string option"

record pg_settings =
  ps_hmac_secret :: string
  ps_reservation_ttl :: timedelta
  ps_retention :: timedelta

abbreviation pg_error :: "string \<Rightarrow> string \<Rightarrow> py_exc" where
  "pg_error \<equiv> PyError"

definition FORBIDDEN_RESPONSE_KEYS :: "string list" where
  "FORBIDDEN_RESPONSE_KEYS =
     [''raw_score'', ''decision_score'', ''calibrated_probability'', ''score'', ''score_type'', ''request_id'',
      ''features'', ''payload'']"

definition idempotency_key_digest :: "string \<Rightarrow> string \<Rightarrow> string" where
  "idempotency_key_digest secret request_id = hmac_sha256_hex secret (utf8 request_id)"

definition validate_request_digest :: "string \<Rightarrow> py_exc + unit" where
  "validate_request_digest v =
     (if \<not> is_sha256 v then Inl (ValueError ''request_digest must be a lowercase SHA-256 digest.'') else Inr ())"

text \<open>\<open>_validate_response_keys\<close> reduced to the question whether some nested object has a forbidden key.\<close>

function has_forbidden_key :: "pyval \<Rightarrow> bool" where
  "has_forbidden_key (PDict d) =
     (list_ex (\<lambda>kv. fst kv \<in> set FORBIDDEN_RESPONSE_KEYS) d \<or> list_ex (\<lambda>kv. has_forbidden_key (snd kv)) d)"
| "has_forbidden_key (PList vs) = list_ex has_forbidden_key vs"
| "has_forbidden_key PNone = False"
| "has_forbidden_key (PBool b) = False"
| "has_forbidden_key (PInt i) = False"
| "has_forbidden_key (PFloat x) = False"
| "has_forbidden_key (PStr s) = False"
  by pat_completeness auto
termination
proof (relation "measure size", goal_cases)
  case (2 d kv) then show ?case by (induction d) (auto split: prod.split)
next
  case (3 vs v) then show ?case by (induction vs) auto
qed simp

definition validate_response_keys :: "pyval \<Rightarrow> py_exc + unit" where
  "validate_response_keys v =
     (if has_forbidden_key v
      then Inl (pg_error ''StoredResponseIntegrityError'' ''Bounded response contains a forbidden field.'')
      else Inr ())"

definition pg_store_init :: "string \<Rightarrow> timedelta \<Rightarrow> timedelta \<Rightarrow> timedelta \<Rightarrow> timedelta \<Rightarrow> py_exc + pg_settings" where
  "pg_store_init secret reservation_ttl retention wait_timeout poll_interval =
     (if reservation_ttl \<le> 0 \<or> retention \<le> reservation_ttl then
        Inl (ValueError ''Retention must be greater than the positive reservation TTL.'')
      else if wait_timeout \<le> 0 \<or> poll_interval \<le> 0 then
        Inl (ValueError ''Wait and poll durations must be positive.'')
      else Inr \<lparr>ps_hmac_secret = secret, ps_reservation_ttl = reservation_ttl, ps_retention = retention\<rparr>)"

section \<open>Reading a row\<close>

definition plain_reservation :: "reservation_kind \<Rightarrow> string \<Rightarrow> string \<Rightarrow> pg_reservation" where
  "plain_reservation kind key digest =
     \<lparr>pr_kind = kind, pr_key_digest = key, pr_request_digest = digest, pr_response = None,
      pr_response_hash = None, pr_audit_receipt = None\<rparr>"

text \<open>
  \<open>_from_row\<close>; \<open>now\<close> is the database clock that decides \<open>is_stale\<close>. A missing response hash
  becomes the string \<open>None\<close>, which is no digest.
\<close>

definition from_row :: "int \<Rightarrow> string \<Rightarrow> idem_row \<Rightarrow> string \<Rightarrow> py_exc + pg_reservation" where
  "from_row now key row request_digest =
     (if pi_request_digest row \<noteq> request_digest then
        Inl (pg_error ''DurableIdempotencyConflictError''
               ''The request ID was already used for different canonical input.'')
      else if pi_state row = ''reserved'' then
        Inr (plain_reservation (if pi_reservation_expires_at row \<le> now then R_stale else R_reserved) key request_digest)
      else if pi_state row = ''failed'' then Inr (plain_reservation R_failed key request_digest)
      else if pi_state row \<noteq> ''completed'' then
        Inl (pg_error ''StoredResponseIntegrityError'' ''Stored reservation has an invalid state.'')
      else
        let stored_hash = (case pi_response_sha256 row of None \<Rightarrow> ''None'' | Some h \<Rightarrow> h)
        in case pi_response_document row of
             Some (PDict d) \<Rightarrow>
               if \<not> is_sha256 stored_hash then
                 Inl (pg_error ''StoredResponseIntegrityError'' ''Stored bounded response is incomplete.'')
               else res_bind (validate_response_keys (PDict d)) (\<lambda>_.
                 case validate_bounded (PDict d) of
                   Inl _ \<Rightarrow> Inl (pg_error ''StoredResponseIntegrityError'' ''Stored bounded response is invalid.'')
                 | Inr response \<Rightarrow> res_bind (response_sha256 response) (\<lambda>actual_hash.
                     if stored_hash \<noteq> actual_hash then
                       Inl (pg_error ''StoredResponseIntegrityError'' ''Stored bounded response hash does not match.'')
                     else case pi_audit_receipt_sha256 row of
                       None \<Rightarrow> Inl (pg_error ''StoredResponseIntegrityError'' ''Stored audit receipt is invalid.'')
                     | Some receipt \<Rightarrow>
                         if \<not> is_sha256 receipt then
                           Inl (pg_error ''StoredResponseIntegrityError'' ''Stored audit receipt is invalid.'')
                         else Inr \<lparr>pr_kind = R_completed, pr_key_digest = key, pr_request_digest = request_digest,
                                   pr_response = Some response, pr_response_hash = Some stored_hash,
                                   pr_audit_receipt = Some receipt\<rparr>))
           | _ \<Rightarrow> Inl (pg_error ''StoredResponseIntegrityError'' ''Stored bounded response is incomplete.''))"

section \<open>Transactions\<close>

definition pg_reserve ::
  "pg_settings \<Rightarrow> int \<Rightarrow> string \<Rightarrow> string \<Rightarrow> pg_db \<Rightarrow> (py_exc + pg_reservation) \<times> pg_db" where
  "pg_reserve st now request_id request_digest db =
     (case validate_request_digest request_digest of Inl e \<Rightarrow> (Inl e, db)
      | Inr _ \<Rightarrow>
          let key = idempotency_key_digest (ps_hmac_secret st) request_id
          in case map_of (pg_idempotency db) key of
               None \<Rightarrow>
                 (Inr (plain_reservation R_owner key request_digest),
                  db\<lparr>pg_idempotency := pg_idempotency db @
                      [(key, \<lparr>pi_request_digest = request_digest, pi_state = ''reserved'',
                              pi_reservation_expires_at = now + ps_reservation_ttl st,
                              pi_retention_until = now + ps_retention st,
                              pi_response_document = None, pi_response_sha256 = None,
                              pi_audit_receipt_sha256 = None\<rparr>)]\<rparr>)
             | Some row \<Rightarrow> (from_row now key row request_digest, db))"

definition pg_read :: "int \<Rightarrow> string \<Rightarrow> string \<Rightarrow> pg_db \<Rightarrow> py_exc + pg_reservation" where
  "pg_read now key request_digest db =
     (case map_of (pg_idempotency db) key of
        None \<Rightarrow> Inl (pg_error ''StateStoreUnavailableError'' ''The durable reservation disappeared.'')
      | Some row \<Rightarrow> from_row now key row request_digest)"

definition update_idem :: "(string, idem_row) dict \<Rightarrow> string \<Rightarrow> (idem_row \<Rightarrow> idem_row) \<Rightarrow> (string, idem_row) dict" where
  "update_idem t key f = map (\<lambda>(k, r). if k = key then (k, f r) else (k, r)) t"

text \<open>The unique constraints of \<open>audit_events\<close> and its reference to the idempotency row.\<close>

definition event_insertable :: "pg_db \<Rightarrow> event_row \<Rightarrow> bool" where
  "event_insertable db ev =
     (map_of (pg_idempotency db) (ev_key_digest ev) \<noteq> None \<and>
      \<not> list_ex (\<lambda>x. ev_event_id x = ev_event_id ev \<or> ev_event_hash x = ev_event_hash ev \<or>
                     ev_key_digest x = ev_key_digest ev \<or>
                     (ev_chain_id x = ev_chain_id ev \<and> ev_sequence x = ev_sequence ev)) (pg_events db))"

text \<open>
  The transaction of \<open>complete_reservation\<close>, given the document and digest of the response.
  An audit integrity error inside it leaves as a stored-response error.
\<close>

definition as_stored_error :: "py_exc \<Rightarrow> py_exc" where
  "as_stored_error e =
     (case e of PyError c m \<Rightarrow>
        if c = ''PostgresAuditIntegrityError'' then pg_error ''StoredResponseIntegrityError'' m else e
      | _ \<Rightarrow> e)"

definition complete_transaction ::
  "int \<Rightarrow> pydatetime \<Rightarrow> string \<Rightarrow> pg_reservation \<Rightarrow> bounded_response \<Rightarrow> string \<Rightarrow> pg_db \<Rightarrow>
   py_exc + (event_row \<times> pg_db)" where
  "complete_transaction now occurred_at new_id rv response digest db =
     (case map_of (pg_idempotency db) (pr_key_digest rv) of
        None \<Rightarrow> Inl (pg_error ''StateStoreUnavailableError'' ''The durable reservation disappeared before completion.'')
      | Some row \<Rightarrow>
          if pi_request_digest row \<noteq> pr_request_digest rv then
            Inl (pg_error ''DurableIdempotencyConflictError''
                   ''The request ID was already used for different canonical input.'')
          else if pi_state row \<noteq> ''reserved'' \<or> pi_reservation_expires_at row \<le> now then
            Inl (pg_error ''StaleReservationError'' ''The reservation cannot complete after expiry or state change.'')
          else case map_of (pg_heads db) AUDIT_CHAIN_ID of
            None \<Rightarrow> Inl (PostgresAuditIntegrityError ''The seeded audit chain head is missing.'')
          | Some (last_sequence, last_hash) \<Rightarrow>
              res_bind (build_audit_event AUDIT_CHAIN_ID (last_sequence + 1) last_hash (pr_key_digest rv)
                          (pr_request_digest rv) response occurred_at None new_id) (\<lambda>event.
                if \<not> event_insertable db event then
                  Inl (pg_error ''StateStoreUnavailableError''
                         ''The postgres-scale state store is unavailable (IntegrityError).'')
                else Inr (event,
                  db\<lparr>pg_events := pg_events db @ [event],
                     pg_idempotency := update_idem (pg_idempotency db) (pr_key_digest rv)
                       (\<lambda>r. r\<lparr>pi_state := ''completed'', pi_response_document := Some (bounded_document response),
                              pi_response_sha256 := Some digest,
                              pi_audit_receipt_sha256 := Some (ev_event_hash event)\<rparr>),
                     pg_heads := AList.update AUDIT_CHAIN_ID (ev_sequence event, ev_event_hash event) (pg_heads db)\<rparr>)))"

text \<open>
  \<open>complete_reservation\<close>. The fault hook is given by what it raises at its two points: before
  the commit it rolls the transaction back, after the commit it only hides the success.
\<close>

definition pg_complete ::
  "int \<Rightarrow> pydatetime \<Rightarrow> string \<Rightarrow> (string \<Rightarrow> py_exc option) \<Rightarrow> pg_reservation \<Rightarrow> bounded_response \<Rightarrow> pg_db \<Rightarrow>
   (py_exc + pg_reservation) \<times> pg_db" where
  "pg_complete now occurred_at new_id fault_hook rv response db =
     (if pr_kind rv \<noteq> R_owner then (Inl (RuntimeError ''Only the reservation owner can complete work.''), db)
      else case res_bind (validate_response_keys (bounded_document response)) (\<lambda>_. response_sha256 response) of
        Inl e \<Rightarrow> (Inl e, db)
      | Inr digest \<Rightarrow>
          (case complete_transaction now occurred_at new_id rv response digest db of
             Inl e \<Rightarrow> (Inl (as_stored_error e), db)
           | Inr (event, db') \<Rightarrow>
               (case fault_hook ''before_commit'' of
                  Some e \<Rightarrow> (Inl (as_stored_error e), db)
                | None \<Rightarrow>
                    (case fault_hook ''after_commit'' of
                       Some e \<Rightarrow> (Inl (as_stored_error e), db')
                     | None \<Rightarrow>
                         (Inr \<lparr>pr_kind = R_completed, pr_key_digest = pr_key_digest rv,
                               pr_request_digest = pr_request_digest rv, pr_response = Some response,
                               pr_response_hash = Some digest,
                               pr_audit_receipt = Some (ev_event_hash event)\<rparr>, db')))))"

definition pg_fail :: "pg_reservation \<Rightarrow> pg_db \<Rightarrow> (py_exc + unit) \<times> pg_db" where
  "pg_fail rv db =
     (if pr_kind rv \<noteq> R_owner then (Inl (RuntimeError ''Only the reservation owner can record failure.''), db)
      else (Inr (), db\<lparr>pg_idempotency := update_idem (pg_idempotency db) (pr_key_digest rv)
              (\<lambda>r. if pi_request_digest r = pr_request_digest rv \<and> pi_state r = ''reserved''
                   then r\<lparr>pi_state := ''failed''\<rparr> else r)\<rparr>))"

section \<open>Waiting and executing\<close>

text \<open>
  The polling loop over the reads it makes before its deadline, in order; an exhausted list
  is the deadline.
\<close>

fun wait_loop :: "(py_exc + pg_reservation) list \<Rightarrow> py_exc + pg_reservation" where
  "wait_loop [] = Inl (pg_error ''ReservationInProgressError''
     ''The durable reservation is still in progress after the bounded wait.'')"
| "wait_loop (Inl e # reads) = Inl e"
| "wait_loop (Inr current # reads) =
     (if pr_kind current = R_completed \<and> pr_response current \<noteq> None then Inr current
      else if pr_kind current = R_stale then
        Inl (pg_error ''StaleReservationError'' ''The durable reservation became stale; retry is refused.'')
      else if pr_kind current = R_failed then
        Inl (pg_error ''FailedReservationError'' ''The durable reservation failed.'')
      else wait_loop reads)"

definition wait_for_reservation :: "pg_reservation \<Rightarrow> (py_exc + pg_reservation) list \<Rightarrow> py_exc + pg_reservation" where
  "wait_for_reservation rv reads =
     (if pr_kind rv = R_completed \<and> pr_response rv \<noteq> None then Inr rv
      else if pr_kind rv = R_stale then
        Inl (pg_error ''StaleReservationError'' ''The durable reservation is stale; retry is refused.'')
      else if pr_kind rv = R_failed then
        Inl (pg_error ''FailedReservationError'' ''The durable reservation previously failed.'')
      else if pr_kind rv \<noteq> R_reserved then Inl (RuntimeError ''Only observed reservations can be awaited.'')
      else wait_loop reads)"

record execution_result =
  xr_response :: bounded_response
  xr_receipt :: string
  xr_replayed :: bool

text \<open>
  What the environment supplies to one execution: the clock of the reservation, the reads
  of the wait, the scoring result, and the clocks, identifier and fault hook of the
  completion. The completion runs on the database other workers have left by then.
\<close>

record execution_env =
  xe_reserve_now :: int
  xe_reads :: "(py_exc + pg_reservation) list"
  xe_operation :: "py_exc + bounded_response"
  xe_complete_now :: int
  xe_occurred_at :: pydatetime
  xe_new_id :: string
  xe_fault_hook :: "string \<Rightarrow> py_exc option"

definition as_replay :: "pg_reservation \<Rightarrow> string \<Rightarrow> py_exc + execution_result" where
  "as_replay rv msg =
     (case (pr_response rv, pr_audit_receipt rv) of
        (Some r, Some h) \<Rightarrow> Inr \<lparr>xr_response = r, xr_receipt = h, xr_replayed = True\<rparr>
      | _ \<Rightarrow> Inl (pg_error ''StoredResponseIntegrityError'' msg))"

text \<open>
  The owner's part of \<open>execute_detailed\<close>: score, complete, and on any exception record the
  failure (ignoring an error of doing so) and raise again.
\<close>

definition execute_owner :: "execution_env \<Rightarrow> pg_reservation \<Rightarrow> pg_db \<Rightarrow> (py_exc + execution_result) \<times> pg_db" where
  "execute_owner x rv db =
     (let failed = (\<lambda>e db. (Inl e, snd (pg_fail rv db)))
      in case xe_operation x of
           Inl e \<Rightarrow> failed e db
         | Inr response \<Rightarrow>
             (case pg_complete (xe_complete_now x) (xe_occurred_at x) (xe_new_id x) (xe_fault_hook x) rv response db of
                (Inl e, db') \<Rightarrow> failed e db'
              | (Inr completed, db') \<Rightarrow>
                  (case (pr_response completed, pr_audit_receipt completed) of
                     (Some r, Some h) \<Rightarrow> (Inr \<lparr>xr_response = r, xr_receipt = h, xr_replayed = False\<rparr>, db')
                   | _ \<Rightarrow> failed (pg_error ''StoredResponseIntegrityError'' ''Committed response is incomplete.'') db')))"

definition pg_execute ::
  "pg_settings \<Rightarrow> execution_env \<Rightarrow> string \<Rightarrow> string \<Rightarrow> pg_db \<Rightarrow> (py_exc + execution_result) \<times> pg_db" where
  "pg_execute st x request_id request_digest db =
     (case pg_reserve st (xe_reserve_now x) request_id request_digest db of
        (Inl e, db1) \<Rightarrow> (Inl e, db1)
      | (Inr rv, db1) \<Rightarrow>
          if pr_kind rv = R_completed \<and> pr_response rv \<noteq> None then
            (as_replay rv ''Stored audit receipt is missing.'', db1)
          else if pr_kind rv = R_reserved then
            (res_bind (wait_for_reservation rv (xe_reads x))
               (\<lambda>completed. as_replay completed ''Completed replay is incomplete.''), db1)
          else if pr_kind rv = R_stale then
            (Inl (pg_error ''StaleReservationError'' ''The durable reservation is stale; retry is refused.''), db1)
          else if pr_kind rv = R_failed then
            (Inl (pg_error ''FailedReservationError'' ''The durable reservation previously failed.''), db1)
          else execute_owner x rv db1)"

section \<open>The store under any number of workers\<close>

text \<open>
  One step is one committed or rolled-back transaction, of any worker, with any arguments
  and any clock readings; an execution is a sequence of such steps.
\<close>

inductive pg_step :: "pg_settings \<Rightarrow> pg_db \<Rightarrow> pg_db \<Rightarrow> bool" for st :: pg_settings where
  reserve: "pg_step st db (snd (pg_reserve st now rid dig db))"
| complete: "pg_step st db (snd (pg_complete now occ nid fh rv resp db))"
| fail: "pg_step st db (snd (pg_fail rv db))"

definition row_shape :: "string \<Rightarrow> idem_row \<Rightarrow> event_row list \<Rightarrow> bool" where
  "row_shape k r evs \<longleftrightarrow>
     pi_state r \<in> {''reserved'', ''failed'', ''completed''} \<and>
     (pi_state r \<noteq> ''completed'' \<longrightarrow> pi_audit_receipt_sha256 r = None) \<and>
     (pi_state r = ''completed'' \<longrightarrow> (\<exists>ev resp. ev \<in> set evs \<and> ev_key_digest ev = k \<and>
        pi_audit_receipt_sha256 r = Some (ev_event_hash ev) \<and> ev_request_digest ev = pi_request_digest r \<and>
        pi_response_document r = Some (bounded_document resp) \<and> ev_bounded_response ev = bounded_document resp \<and>
        response_sha256 resp = Inr (ev_response_sha256 ev) \<and>
        pi_response_sha256 r = Some (ev_response_sha256 ev)))"

definition pg_inv :: "pg_db \<Rightarrow> bool" where
  "pg_inv db \<longleftrightarrow>
     dict_ok (pg_idempotency db) \<and> distinct (map ev_key_digest (pg_events db)) \<and>
     (\<exists>h. pg_heads db = [(AUDIT_CHAIN_ID, (int (length (pg_events db)), h))] \<and>
          verify_rows 1 GENESIS_HASH (pg_events db) = Inr h) \<and>
     (\<forall>ev \<in> set (pg_events db). ev_chain_id ev = AUDIT_CHAIN_ID \<and> is_sha256 (ev_event_hash ev)) \<and>
     (\<forall>k r. map_of (pg_idempotency db) k = Some r \<longrightarrow> row_shape k r (pg_events db)) \<and>
     (\<forall>ev \<in> set (pg_events db). \<exists>r. map_of (pg_idempotency db) (ev_key_digest ev) = Some r \<and>
        pi_state r = ''completed'' \<and> pi_audit_receipt_sha256 r = Some (ev_event_hash ev))"

lemma pg_inv_init: "pg_inv pg_init"
  by (simp add: pg_inv_def pg_init_def)

lemma map_of_update_idem:
  "map_of (update_idem t key f) k = (if k = key then map_option f (map_of t k) else map_of t k)"
  by (induction t) (auto simp: update_idem_def)

lemma map_of_update_idem_Some:
  "map_of (update_idem t key f) k = Some r \<Longrightarrow> \<exists>r0. map_of t k = Some r0 \<and> (r = f r0 \<or> r = r0)"
  by (auto simp: map_of_update_idem split: if_splits)

lemma keys_update_idem: "map fst (update_idem t key f) = map fst t"
  by (induction t) (auto simp: update_idem_def)

subsection \<open>Events\<close>

lemma uuid_ok_nonempty: "uuid_ok i \<Longrightarrow> i \<noteq> []"
  by (auto simp: uuid_ok_def strip_by_def)

lemma document_hash_sha: "document_hash d = Inr h \<Longrightarrow> is_sha256 h"
  by (auto simp: document_hash_def res_bind_Inr_iff)

lemma build_event_fields:
  assumes "build_audit_event chain sq prev key dig resp occ None nid = Inr ev"
  shows "ev_chain_id ev = chain" and "ev_sequence ev = sq" and "ev_previous_hash ev = prev"
    and "ev_key_digest ev = key" and "ev_request_digest ev = dig"
    and "ev_decision ev = decision_name (br_decision resp)" and "ev_bounded_response ev = bounded_document resp"
    and "response_sha256 resp = Inr (ev_response_sha256 ev)" and "ev_occurred_at ev = occ"
    and "is_sha256 (ev_event_hash ev)" and "uuid_ok (ev_event_id ev)"
    and "build_audit_event chain sq prev key dig resp occ (Some (ev_event_id ev)) nid' = Inr ev"
proof -
  have b: "1 \<le> sq" "is_sha256 prev" "is_sha256 key" "is_sha256 dig" "uuid_ok nid"
    using assms by (auto simp: build_audit_event_def split: if_splits)
  obtain rd doc h where r: "response_sha256 resp = Inr rd"
    "event_document nid chain sq prev key dig (decision_name (br_decision resp)) (bounded_document resp) rd occ = Inr doc"
    "document_hash doc = Inr h"
    "ev = \<lparr>ev_event_id = nid, ev_chain_id = chain, ev_sequence = sq, ev_previous_hash = prev, ev_key_digest = key,
           ev_request_digest = dig, ev_decision = decision_name (br_decision resp),
           ev_bounded_response = bounded_document resp, ev_response_sha256 = rd, ev_occurred_at = occ,
           ev_event_hash = h\<rparr>"
    using assms b by (auto simp: build_audit_event_def res_bind_Inr_iff)
  show "ev_chain_id ev = chain" "ev_sequence ev = sq" "ev_previous_hash ev = prev" "ev_key_digest ev = key"
    "ev_request_digest ev = dig" "ev_decision ev = decision_name (br_decision resp)"
    "ev_bounded_response ev = bounded_document resp" "response_sha256 resp = Inr (ev_response_sha256 ev)"
    "ev_occurred_at ev = occ" "is_sha256 (ev_event_hash ev)" "uuid_ok (ev_event_id ev)"
    using r b document_hash_sha [OF r(3)] by simp_all
  show "build_audit_event chain sq prev key dig resp occ (Some (ev_event_id ev)) nid' = Inr ev"
    using b r uuid_ok_nonempty [OF b(5)] by (simp add: build_audit_event_def)
qed

lemma validate_bounded_document: "validate_bounded (bounded_document r) = Inr r"
  by (simp add: validate_bounded_def bounded_document_def keys_allowed_def literal_ok_def get_str_def
      validate_model_document validate_policy_document validate_schema_document Let_def)

lemma built_event_validates:
  assumes "build_audit_event chain sq prev key dig resp occ None nid = Inr ev"
  shows "validate_event_row ev prev = Inr (ev_event_hash ev)"
  using build_event_fields [OF assms]
  by (simp add: validate_event_row_def validate_bounded_document)

lemma verify_rows_snoc:
  "verify_rows n p es = Inr h \<Longrightarrow> ev_sequence e = int (n + length es) \<Longrightarrow> validate_event_row e h = Inr h' \<Longrightarrow>
     verify_rows n p (es @ [e]) = Inr h'"
  by (induction n p es rule: verify_rows.induct) (auto simp: res_bind_Inr_iff split: if_splits)

lemma verify_rows_sequence:
  "verify_rows n p es = Inr h \<Longrightarrow> map ev_sequence es = map int [n..<n + length es]"
proof (induction n p es rule: verify_rows.induct)
  case (2 n p e es)
  then have "map ev_sequence es = map int [Suc n..<Suc n + length es]" "ev_sequence e = int n"
    by (auto simp: res_bind_Inr_iff split: if_splits)
  moreover have "[n..<n + length (e # es)] = n # [Suc n..<Suc n + length es]"
    by (simp add: upt_conv_Cons del: upt_Suc)
  ultimately show ?case by simp
qed simp

lemma complete_transaction_ok:
  assumes "complete_transaction now occ nid rv resp sha db = Inr (ev, db')"
  shows "\<exists>row n h. map_of (pg_idempotency db) (pr_key_digest rv) = Some row \<and>
     pi_request_digest row = pr_request_digest rv \<and> pi_state row = ''reserved'' \<and> now < pi_reservation_expires_at row \<and>
     map_of (pg_heads db) AUDIT_CHAIN_ID = Some (n, h) \<and>
     build_audit_event AUDIT_CHAIN_ID (n + 1) h (pr_key_digest rv) (pr_request_digest rv) resp occ None nid = Inr ev \<and>
     event_insertable db ev \<and>
     db' = db\<lparr>pg_events := pg_events db @ [ev],
        pg_idempotency := update_idem (pg_idempotency db) (pr_key_digest rv)
          (\<lambda>r. r\<lparr>pi_state := ''completed'', pi_response_document := Some (bounded_document resp),
                 pi_response_sha256 := Some sha, pi_audit_receipt_sha256 := Some (ev_event_hash ev)\<rparr>),
        pg_heads := AList.update AUDIT_CHAIN_ID (ev_sequence ev, ev_event_hash ev) (pg_heads db)\<rparr>"
  using assms
  by (auto simp: complete_transaction_def res_bind_Inr_iff split: option.splits if_splits prod.splits)

lemma row_shape_mono: "row_shape k r evs \<Longrightarrow> row_shape k r (evs @ evs')"
  unfolding row_shape_def by auto

lemma pg_inv_complete:
  assumes "pg_inv db" and "response_sha256 resp = Inr sha"
    and "complete_transaction now occ nid rv resp sha db = Inr (ev, db')"
  shows "pg_inv db'"
proof -
  obtain h where heads: "pg_heads db = [(AUDIT_CHAIN_ID, (int (length (pg_events db)), h))]"
    and rows: "verify_rows 1 GENESIS_HASH (pg_events db) = Inr h"
    using assms(1) unfolding pg_inv_def by blast
  let ?k = "pr_key_digest rv"
  let ?f = "\<lambda>r. r\<lparr>pi_state := ''completed'', pi_response_document := Some (bounded_document resp),
                 pi_response_sha256 := Some sha, pi_audit_receipt_sha256 := Some (ev_event_hash ev)\<rparr>"
  obtain row where row: "map_of (pg_idempotency db) ?k = Some row" "pi_request_digest row = pr_request_digest rv"
      "pi_state row = ''reserved''"
    and build: "build_audit_event AUDIT_CHAIN_ID (int (length (pg_events db)) + 1) h ?k (pr_request_digest rv) resp occ None nid = Inr ev"
    and ins: "event_insertable db ev"
    and db': "db' = db\<lparr>pg_events := pg_events db @ [ev], pg_idempotency := update_idem (pg_idempotency db) ?k ?f,
        pg_heads := AList.update AUDIT_CHAIN_ID (ev_sequence ev, ev_event_hash ev) (pg_heads db)\<rparr>"
    using complete_transaction_ok [OF assms(3)] heads by auto
  note ev = build_event_fields [OF build]
  have sha: "sha = ev_response_sha256 ev" using ev(8) assms(2) by simp
  have fresh: "ev_key_digest x \<noteq> ?k" if "x \<in> set (pg_events db)" for x
    using ins that ev(4) by (auto simp: event_insertable_def list_ex_iff)
  have verify: "verify_rows 1 GENESIS_HASH (pg_events db @ [ev]) = Inr (ev_event_hash ev)"
    using verify_rows_snoc [OF rows _ built_event_validates [OF build]] ev(2) by simp
  have shapes: "row_shape k r (pg_events db @ [ev])" if "map_of (update_idem (pg_idempotency db) ?k ?f) k = Some r" for k r
  proof (cases "k = ?k")
    case True
    then have "r = ?f row" using that row(1) by (simp add: map_of_update_idem)
    then show ?thesis using True ev row(2) sha unfolding row_shape_def by auto
  next
    case False
    then have "map_of (pg_idempotency db) k = Some r" using that by (simp add: map_of_update_idem)
    then show ?thesis using assms(1) row_shape_mono unfolding pg_inv_def by blast
  qed
  have events: "\<exists>r. map_of (update_idem (pg_idempotency db) ?k ?f) (ev_key_digest x) = Some r \<and>
      pi_state r = ''completed'' \<and> pi_audit_receipt_sha256 r = Some (ev_event_hash x)"
    if "x \<in> set (pg_events db @ [ev])" for x
  proof (cases "x = ev")
    case True then show ?thesis using row(1) ev(4) by (simp add: map_of_update_idem)
  next
    case False
    then have "x \<in> set (pg_events db)" using that by simp
    then show ?thesis using assms(1) fresh unfolding pg_inv_def by (auto simp: map_of_update_idem)
  qed
  have "distinct (map ev_key_digest (pg_events db @ [ev]))"
  proof -
    have "ev_key_digest ev \<notin> ev_key_digest ` set (pg_events db)" using fresh ev(4) by force
    then show ?thesis using assms(1) unfolding pg_inv_def by simp
  qed
  then show ?thesis
    using assms(1) verify shapes events ev(1,2,10) heads
    unfolding pg_inv_def db' by (simp add: keys_update_idem)
qed

lemma pg_complete_db:
  assumes "snd (pg_complete now occ nid fh rv resp db) \<noteq> db"
  shows "\<exists>sha ev. pr_kind rv = R_owner \<and> response_sha256 resp = Inr sha \<and>
    complete_transaction now occ nid rv resp sha db = Inr (ev, snd (pg_complete now occ nid fh rv resp db))"
  using assms by (auto simp: pg_complete_def res_bind_Inr_iff split: if_splits sum.splits option.splits prod.splits)

lemma pg_inv_eventE:
  assumes "pg_inv db" and "ev \<in> set (pg_events db)"
  obtains r where "map_of (pg_idempotency db) (ev_key_digest ev) = Some r" "pi_state r = ''completed''"
      "pi_audit_receipt_sha256 r = Some (ev_event_hash ev)"
proof -
  have "\<forall>ev \<in> set (pg_events db). \<exists>r. map_of (pg_idempotency db) (ev_key_digest ev) = Some r \<and>
        pi_state r = ''completed'' \<and> pi_audit_receipt_sha256 r = Some (ev_event_hash ev)"
    using assms(1) unfolding pg_inv_def by (elim conjE)
  from bspec [OF this assms(2)] show thesis using that by (elim exE conjE)
qed

lemma pg_inv_update:
  assumes inv: "pg_inv db" and keep: "\<And>r. pi_state r = ''completed'' \<Longrightarrow> f r = r"
    and shape: "\<And>k r evs. row_shape k r evs \<Longrightarrow> row_shape k (f r) evs"
  shows "pg_inv (db\<lparr>pg_idempotency := update_idem (pg_idempotency db) key f\<rparr>)"
proof -
  have a: "row_shape k r (pg_events db)" if "map_of (update_idem (pg_idempotency db) key f) k = Some r" for k r
  proof -
    note old = map_of_update_idem_Some [OF that]
    obtain r0 where r0: "map_of (pg_idempotency db) k = Some r0" "r = f r0 \<or> r = r0"
      using old by blast
    have "row_shape k r0 (pg_events db)" using r0(1) inv unfolding pg_inv_def by blast
    then show ?thesis using r0(2) shape by blast
  qed
  have b: "\<exists>r. map_of (update_idem (pg_idempotency db) key f) (ev_key_digest ev) = Some r \<and>
      pi_state r = ''completed'' \<and> pi_audit_receipt_sha256 r = Some (ev_event_hash ev)"
    if mem: "ev \<in> set (pg_events db)" for ev
  proof -
    obtain r where r: "map_of (pg_idempotency db) (ev_key_digest ev) = Some r" "pi_state r = ''completed''"
      "pi_audit_receipt_sha256 r = Some (ev_event_hash ev)" by (rule pg_inv_eventE [OF inv mem])
    have "map_of (update_idem (pg_idempotency db) key f) (ev_key_digest ev) = Some r"
      unfolding map_of_update_idem r(1) option.map keep [OF r(2)] by (rule if_cancel)
    then show ?thesis using r(2,3) by blast
  qed
  have sel: "pg_idempotency (db\<lparr>pg_idempotency := t\<rparr>) = t" "pg_events (db\<lparr>pg_idempotency := t\<rparr>) = pg_events db"
    "pg_heads (db\<lparr>pg_idempotency := t\<rparr>) = pg_heads db" for t by simp_all
  note i1 = inv [unfolded pg_inv_def]
  note i2 = conjunct2 [OF i1]
  note i3 = conjunct2 [OF i2]
  note i4 = conjunct2 [OF i3]
  have d: "dict_ok (update_idem (pg_idempotency db) key f)"
    unfolding keys_update_idem by (rule conjunct1 [OF i1])
  have a': "\<forall>k r. map_of (update_idem (pg_idempotency db) key f) k = Some r \<longrightarrow> row_shape k r (pg_events db)"
    by (intro allI impI a)
  show ?thesis unfolding pg_inv_def sel
    by (rule conjI [OF d conjI [OF conjunct1 [OF i2] conjI [OF conjunct1 [OF i3]
          conjI [OF conjunct1 [OF i4] conjI [OF a' ballI [OF b]]]]]])
qed

lemma pg_inv_step:
  assumes "pg_inv db" and "pg_step st db db'"
  shows "pg_inv db'"
  using assms(2)
proof cases
  case (reserve now rid dig)
  show ?thesis
  proof (cases "db' = db")
    case True then show ?thesis using assms(1) by simp
  next
    case False
    let ?k = "idempotency_key_digest (ps_hmac_secret st) rid"
    have n: "map_of (pg_idempotency db) ?k = None"
      and d: "\<exists>r. db' = db\<lparr>pg_idempotency := pg_idempotency db @ [(?k, r)]\<rparr> \<and> pi_state r = ''reserved'' \<and>
        pi_audit_receipt_sha256 r = None"
      using reserve False by (auto simp: pg_reserve_def Let_def split: sum.splits option.splits)
    obtain r where r: "db' = db\<lparr>pg_idempotency := pg_idempotency db @ [(?k, r)]\<rparr>" "pi_state r = ''reserved''"
      "pi_audit_receipt_sha256 r = None" using d by blast
    show ?thesis
      using assms(1) n r unfolding pg_inv_def r(1)
      by (auto simp: map_add_Some_iff row_shape_def dest: map_of_SomeD split: option.splits)
  qed
next
  case (complete now occ nid fh rv resp)
  show ?thesis
  proof (cases "db' = db")
    case True then show ?thesis using assms(1) by simp
  next
    case False
    then show ?thesis using pg_complete_db [of now occ nid fh rv resp db] pg_inv_complete [OF assms(1)] complete by metis
  qed
next
  case (fail rv)
  let ?f = "\<lambda>r. if pi_request_digest r = pr_request_digest rv \<and> pi_state r = ''reserved''
                then r\<lparr>pi_state := ''failed''\<rparr> else r"
  have "db' = db \<or> db' = db\<lparr>pg_idempotency := update_idem (pg_idempotency db) (pr_key_digest rv) ?f\<rparr>"
    using fail by (auto simp: pg_fail_def)
  then show ?thesis
  proof
    assume d: "db' = db\<lparr>pg_idempotency := update_idem (pg_idempotency db) (pr_key_digest rv) ?f\<rparr>"
    have "row_shape k (?f r) evs" if "row_shape k r evs" for k r evs using that by (auto simp: row_shape_def)
    then show ?thesis unfolding d by (intro pg_inv_update assms(1)) auto
  qed (use assms(1) in simp)
qed

subsection \<open>Final outcomes\<close>

definition pg_final :: "pg_db \<Rightarrow> string \<Rightarrow> string \<times> bounded_response \<times> string \<times> string \<Rightarrow> bool" where
  "pg_final db k v \<longleftrightarrow> (case v of (dig, resp, sha, receipt) \<Rightarrow>
     \<exists>r. map_of (pg_idempotency db) k = Some r \<and> pi_state r = ''completed'' \<and> pi_request_digest r = dig \<and>
       pi_response_document r = Some (bounded_document resp) \<and> pi_response_sha256 r = Some sha \<and>
       pi_audit_receipt_sha256 r = Some receipt)"

lemma bounded_document_inj: "bounded_document a = bounded_document b \<Longrightarrow> a = b"
  using validate_bounded_document by (metis sum.inject(2))

lemma pg_final_unique: "pg_final db k v \<Longrightarrow> pg_final db k w \<Longrightarrow> v = w"
  by (auto simp: pg_final_def dest!: bounded_document_inj split: prod.splits)

lemma completed_row_kept:
  assumes "pg_step st db db'" and "map_of (pg_idempotency db) k = Some r" and "pi_state r \<noteq> ''reserved''"
  shows "map_of (pg_idempotency db') k = Some r"
  using assms(1)
proof cases
  case (reserve now rid dig)
  then show ?thesis using assms(2)
    by (auto simp: pg_reserve_def Let_def map_add_def split: sum.splits option.splits)
next
  case (complete now occ nid fh rv resp)
  show ?thesis
  proof (cases "db' = db")
    case True then show ?thesis using assms(2) by simp
  next
    case False
    then obtain sha ev where "complete_transaction now occ nid rv resp sha db = Inr (ev, db')"
      using pg_complete_db [of now occ nid fh rv resp db] complete by metis
    from complete_transaction_ok [OF this] show ?thesis
      using assms(2,3) by (auto simp: map_of_update_idem)
  qed
next
  case (fail rv)
  then show ?thesis using assms(2,3) by (auto simp: pg_fail_def map_of_update_idem)
qed

lemma row_digest_kept:
  assumes "pg_step st db db'" and "map_of (pg_idempotency db) k = Some r"
  shows "\<exists>r'. map_of (pg_idempotency db') k = Some r' \<and> pi_request_digest r' = pi_request_digest r"
  using assms(1)
proof cases
  case (reserve now rid dig)
  then show ?thesis using assms(2)
    by (auto simp: pg_reserve_def Let_def map_add_def split: sum.splits option.splits)
next
  case (complete now occ nid fh rv resp)
  show ?thesis
  proof (cases "db' = db")
    case True then show ?thesis using assms(2) by simp
  next
    case False
    then obtain sha ev where "complete_transaction now occ nid rv resp sha db = Inr (ev, db')"
      using pg_complete_db [of now occ nid fh rv resp db] complete by metis
    from complete_transaction_ok [OF this] show ?thesis
      using assms(2) by (auto simp: map_of_update_idem)
  qed
next
  case (fail rv)
  then show ?thesis using assms(2)
    by (cases "pi_request_digest r = pr_request_digest rv \<and> pi_state r = ''reserved''")
       (auto simp: pg_fail_def map_of_update_idem)
qed

interpretation pg_once: write_once "pg_step st" pg_inv pg_final
proof unfold_locales
  show "pg_inv db \<Longrightarrow> pg_step st db db' \<Longrightarrow> pg_inv db'" for db db' by (rule pg_inv_step)
  show "pg_final db' k v" if "pg_inv db" "pg_step st db db'" "pg_final db k v" for db db' k v
    using that(3) completed_row_kept [OF that(2)] unfolding pg_final_def by (fastforce split: prod.splits)
  show "pg_final db k v \<Longrightarrow> pg_final db k w \<Longrightarrow> v = w" for db k v w by (rule pg_final_unique)
qed

lemma pg_reachable_inv: "(pg_step st)\<^sup>*\<^sup>* pg_init db \<Longrightarrow> pg_inv db"
  using pg_once.inv_run pg_inv_init by blast

lemma bounded_document_no_forbidden_key: "\<not> has_forbidden_key (bounded_document r)"
  by (simp add: bounded_document_def model_document_def policy_document_def schema_document_def
      FORBIDDEN_RESPONSE_KEYS_def)

lemma bounded_document_dict: "\<exists>d. bounded_document r = PDict d"
  by (simp add: bounded_document_def)

lemma response_sha256_shape: "response_sha256 resp = Inr h \<Longrightarrow> is_sha256 h"
proof -
  assume "response_sha256 resp = Inr h"
  then obtain b where "h = sha256_hex b" by (simp add: response_sha256_def res_bind_Inr_iff) metis
  then show ?thesis by simp
qed

lemma from_row_completed:
  assumes "pg_inv db" and "map_of (pg_idempotency db) k = Some r" and "pi_state r = ''completed''"
  obtains resp sha receipt where "from_row now k r (pi_request_digest r) =
      Inr \<lparr>pr_kind = R_completed, pr_key_digest = k, pr_request_digest = pi_request_digest r, pr_response = Some resp,
           pr_response_hash = Some sha, pr_audit_receipt = Some receipt\<rparr>"
    and "pi_response_document r = Some (bounded_document resp)" and "pi_response_sha256 r = Some sha"
    and "pi_audit_receipt_sha256 r = Some receipt" and "response_sha256 resp = Inr sha"
proof -
  have "row_shape k r (pg_events db)" using assms(1,2) unfolding pg_inv_def by blast
  then obtain ev resp where e: "ev \<in> set (pg_events db)" "pi_audit_receipt_sha256 r = Some (ev_event_hash ev)"
    "pi_response_document r = Some (bounded_document resp)" "response_sha256 resp = Inr (ev_response_sha256 ev)"
    "pi_response_sha256 r = Some (ev_response_sha256 ev)"
    using assms(3) unfolding row_shape_def by blast
  have sha: "is_sha256 (ev_response_sha256 ev)" using e(4) by (rule response_sha256_shape)
  have rec: "is_sha256 (ev_event_hash ev)" using e(1) assms(1) unfolding pg_inv_def by blast
  obtain d where d: "bounded_document resp = PDict d" using bounded_document_dict by blast
  have "validate_response_keys (PDict d) = Inr ()"
    using bounded_document_no_forbidden_key [of resp] d by (simp add: validate_response_keys_def)
  moreover have "validate_bounded (PDict d) = Inr resp" using validate_bounded_document [of resp] d by simp
  ultimately have "from_row now k r (pi_request_digest r) =
      Inr \<lparr>pr_kind = R_completed, pr_key_digest = k, pr_request_digest = pi_request_digest r, pr_response = Some resp,
           pr_response_hash = Some (ev_response_sha256 ev), pr_audit_receipt = Some (ev_event_hash ev)\<rparr>"
    using e sha rec d assms(3) by (simp add: from_row_def Let_def)
  then show thesis using that e by blast
qed

end
