(* ===== verification/Py_Json.thy ===== *)
theory Py_Json
  imports Py_Values
begin

text \<open>
  What the readers of provenance documents share: Python equality of decoded JSON values,
  \<open>_require_exact_mapping\<close>, \<open>_require_sha256\<close>, \<open>_require_nonnegative_int\<close> and
  \<open>_require_identifier\<close> of \<open>src/src/artifacts/bundle.py\<close>, the strict dictionary hook, safe base
  names, and the feature order of \<open>src/src/preprocessing/feature_config.py\<close>.
\<close>

section \<open>Equality\<close>

text \<open>
  \<open>==\<close> on decoded values: \<open>bool\<close>, \<open>int\<close> and \<open>float\<close> compare by value, \<open>nan\<close> equals nothing, and
  dictionaries compare by key whatever their order. The keys of a \<open>dict\<close> are distinct.
\<close>

definition num_of :: "pyval \<Rightarrow> pyfloat option" where
  "num_of v = (case v of
       PBool b \<Rightarrow> Some (Fin (if b then 1 else 0))
     | PInt i \<Rightarrow> Some (Fin (of_int i))
     | PFloat x \<Rightarrow> Some x
     | _ \<Rightarrow> None)"

definition num_eq :: "pyval \<Rightarrow> pyval \<Rightarrow> bool" where
  "num_eq v w = (num_of v = num_of w \<and> num_of v \<noteq> None \<and> num_of v \<noteq> Some NaN)"

function py_eq :: "pyval \<Rightarrow> pyval \<Rightarrow> bool" where
  "py_eq PNone w = (w = PNone)"
| "py_eq (PBool b) w = num_eq (PBool b) w"
| "py_eq (PInt i) w = num_eq (PInt i) w"
| "py_eq (PFloat x) w = num_eq (PFloat x) w"
| "py_eq (PStr s) w = (w = PStr s)"
| "py_eq (PList xs) w =
     (case w of PList ys \<Rightarrow> length xs = length ys \<and> list_all (\<lambda>(x, y). py_eq x y) (zip xs ys) | _ \<Rightarrow> False)"
| "py_eq (PDict d) w =
     (case w of
        PDict e \<Rightarrow> length d = length e \<and>
          list_all (\<lambda>(k, v). case map_of e k of None \<Rightarrow> False | Some u \<Rightarrow> py_eq v u) d
      | _ \<Rightarrow> False)"
  by pat_completeness auto
termination
proof (relation "measure (size \<circ> fst)", goal_cases)
  case (2 xs w ys p x y)
  then have "x \<in> set xs" by (auto dest: set_zip_leftD)
  then show ?case by (induction xs) auto
next
  case (3 d w e p k v)
  then have "(k, v) \<in> set d" by simp
  then show ?case by (induction d) auto
qed simp

lemma num_of_simps [simp]:
  "num_of PNone = None" "num_of (PBool b) = Some (Fin (if b then 1 else 0))"
  "num_of (PInt i) = Some (Fin (of_int i))" "num_of (PFloat x) = Some x"
  "num_of (PStr s) = None" "num_of (PList xs) = None" "num_of (PDict d) = None"
  by (simp_all add: num_of_def)

lemma num_eq_simps [simp]:
  "num_eq (PInt i) (PInt j) \<longleftrightarrow> i = j"
  "num_eq (PBool a) (PBool b) \<longleftrightarrow> a = b"
  "num_eq (PFloat (Fin p)) (PFloat (Fin q)) \<longleftrightarrow> p = q"
  "\<not> num_eq v PNone" "\<not> num_eq v (PStr s)" "\<not> num_eq v (PList xs)" "\<not> num_eq v (PDict d)"
  by (auto simp: num_eq_def)

lemma py_eq_scalars [simp]:
  "py_eq (PInt i) (PInt j) \<longleftrightarrow> i = j"
  "py_eq (PBool a) (PBool b) \<longleftrightarrow> a = b"
  "py_eq (PFloat (Fin p)) (PFloat (Fin q)) \<longleftrightarrow> p = q"
  "\<not> py_eq (PStr s) PNone" "\<not> py_eq (PInt i) PNone" "\<not> py_eq (PInt i) (PStr s)"
  "\<not> py_eq (PBool b) PNone" "\<not> py_eq (PBool b) (PStr s)"
  by (auto simp: num_eq_def)

text \<open>A key-by-key comparison with a dictionary of other keys is \<^const>\<open>False\<close>.\<close>

lemma py_eq_dict_iff:
  "py_eq (PDict d) (PDict e) \<longleftrightarrow>
     length d = length e \<and> (\<forall>(k, v) \<in> set d. \<exists>u. map_of e k = Some u \<and> py_eq v u)"
  by (auto simp: list_all_iff split: option.splits)

fun json_plain :: "pyval \<Rightarrow> bool" where
  "json_plain (PFloat x) = (x \<noteq> NaN)"
| "json_plain (PList xs) = list_all json_plain xs"
| "json_plain (PDict d) = (dict_ok d \<and> list_all json_plain (map snd d))"
| "json_plain _ = True"

lemma py_eq_refl: "json_plain v \<Longrightarrow> py_eq v v"
proof (induction v rule: json_plain.induct)
  case (3 d)
  then show ?case
    by (auto simp: py_eq_dict_iff list_all_iff simp del: py_eq.simps) (metis map_of_is_SomeI image_eqI snd_conv)
qed (auto simp: num_eq_def list_all_iff zip_same)

section \<open>JSON documents without non-finite floats\<close>

fun jsonable :: "pyval \<Rightarrow> bool" where
  "jsonable (PFloat x) = (case x of Fin _ \<Rightarrow> True | _ \<Rightarrow> False)"
| "jsonable (PList vs) = list_all jsonable vs"
| "jsonable (PDict d) = list_all (\<lambda>kv. jsonable (snd kv)) d"
| "jsonable _ = True"

lemma res_map_ex: "(\<And>x. x \<in> set xs \<Longrightarrow> \<exists>y. f x = Inr y) \<Longrightarrow> \<exists>ys. res_map f xs = Inr ys"
  by (induction xs) force+

lemma json_dumps_ok: "jsonable v \<Longrightarrow> \<exists>s. json_dumps v = Inr s"
proof (induction v rule: json_dumps.induct)
  case (6 vs)
  then have "\<exists>ts. res_map json_dumps vs = Inr ts" by (intro res_map_ex) (simp add: list_all_iff)
  then show ?case by auto
next
  case (7 d)
  have "\<exists>ts. res_map (\<lambda>kv. res_bind (json_dumps (snd kv)) (\<lambda>t. Inr (json_str (fst kv) @ '':'' @ t))) (sort_key fst d) = Inr ts"
  proof (rule res_map_ex)
    fix kv assume "kv \<in> set (sort_key fst d)"
    then have "\<exists>s. json_dumps (snd kv) = Inr s" using 7 by (auto simp: list_all_iff)
    then show "\<exists>y. res_bind (json_dumps (snd kv)) (\<lambda>t. Inr (json_str (fst kv) @ '':'' @ t)) = Inr y" by auto
  qed
  then show ?case by auto
qed (auto split: pyfloat.split)

section \<open>Readers\<close>

definition dict_of :: "pyval \<Rightarrow> (string, pyval) dict option" where
  "dict_of v = (case v of PDict d \<Rightarrow> Some d | _ \<Rightarrow> None)"

lemma typed_of_Some [simp, res_simps]:
  "int_of v = Some i \<longleftrightarrow> v = PInt i" "str_of v = Some s \<longleftrightarrow> v = PStr s" "dict_of v = Some d \<longleftrightarrow> v = PDict d"
  "int_of (PInt i) = Some i" "str_of (PStr s) = Some s" "dict_of (PDict d) = Some d"
  by (cases v; simp add: int_of_def str_of_def dict_of_def)+

definition is_identifier_char :: "char \<Rightarrow> bool" where
  "is_identifier_char c = (is_lower c \<or> is_digit c \<or> c = CHR ''.'' \<or> c = CHR ''_'' \<or> c = CHR ''-'')"

text \<open>The source's \<open>^[a-z0-9][a-z0-9._-]*$\<close> under \<open>fullmatch\<close>.\<close>

definition is_identifier :: "string \<Rightarrow> bool" where
  "is_identifier s =
     (case s of [] \<Rightarrow> False | c # cs \<Rightarrow> (is_lower c \<or> is_digit c) \<and> list_all is_identifier_char cs)"

definition require_exact_mapping :: "pyval \<Rightarrow> string list \<Rightarrow> string \<Rightarrow> py_exc + (string, pyval) dict" where
  "require_exact_mapping v fields label =
     (case v of
        PDict d \<Rightarrow>
          if set (map fst d) = set fields then Inr d
          else Inl (ValueError (label @ '' fields are incomplete or unexpected.''))
      | _ \<Rightarrow> Inl (ValueError (label @ '' fields are incomplete or unexpected.'')))"

definition require_sha256 :: "pyval \<Rightarrow> string \<Rightarrow> py_exc + string" where
  "require_sha256 v label =
     (case v of
        PStr s \<Rightarrow> if is_sha256 s then Inr s
                  else Inl (ValueError (label @ '' must be a lowercase SHA-256 digest.''))
      | _ \<Rightarrow> Inl (ValueError (label @ '' must be a lowercase SHA-256 digest.'')))"

text \<open>\<open>type(value) is not int\<close> also refuses \<open>bool\<close>.\<close>

definition require_nonnegative_int :: "pyval \<Rightarrow> string \<Rightarrow> py_exc + int" where
  "require_nonnegative_int v label =
     (case v of
        PInt i \<Rightarrow> if 0 \<le> i then Inr i
                  else Inl (ValueError (label @ '' must be a non-negative integer.''))
      | _ \<Rightarrow> Inl (ValueError (label @ '' must be a non-negative integer.'')))"

definition require_identifier :: "pyval \<Rightarrow> string \<Rightarrow> py_exc + string" where
  "require_identifier v label =
     (case v of
        PStr s \<Rightarrow> if is_identifier s then Inr s
                  else Inl (ValueError (label @ '' must be a stable lowercase identifier.''))
      | _ \<Rightarrow> Inl (ValueError (label @ '' must be a stable lowercase identifier.'')))"

text \<open>\<open>d[k]\<close>.\<close>

definition py_item :: "(string, pyval) dict \<Rightarrow> string \<Rightarrow> py_exc + pyval" where
  "py_item d k = (case map_of d k of None \<Rightarrow> Inl (KeyError k) | Some v \<Rightarrow> Inr v)"

text \<open>\<open>float(v)\<close> of a number; the conversion of an \<open>int\<close> outside the range of binary64 raises.\<close>

definition py_float :: "pyval \<Rightarrow> py_exc + pyfloat" where
  "py_float v =
     (case v of
        PFloat x \<Rightarrow> Inr x
      | PInt i \<Rightarrow> (case float_of_int i of Fin q \<Rightarrow> Inr (Fin q) | _ \<Rightarrow> Inl OverflowError)
      | PBool b \<Rightarrow> Inr (Fin (if b then 1 else 0))
      | _ \<Rightarrow> Inl (TypeError ''float() argument must be a string or a real number''))"

text \<open>The name of a value's type, for the message of a failed hash: a \<open>list\<close> or a \<open>dict\<close> can not
  be looked up in a set.\<close>

definition in_string_set :: "pyval \<Rightarrow> string list \<Rightarrow> py_exc + bool" where
  "in_string_set v xs =
     (case v of
        PStr s \<Rightarrow> Inr (s \<in> set xs)
      | PList _ \<Rightarrow> Inl (TypeError (''unhashable type: '' @ repr_str ''list''))
      | PDict _ \<Rightarrow> Inl (TypeError (''unhashable type: '' @ repr_str ''dict''))
      | _ \<Rightarrow> Inr False)"

lemma require_Inr [simp, res_simps]:
  "require_exact_mapping v fields l = Inr d \<longleftrightarrow> v = PDict d \<and> set (map fst d) = set fields"
  "require_sha256 v l = Inr s \<longleftrightarrow> v = PStr s \<and> is_sha256 s"
  "require_nonnegative_int v l = Inr i \<longleftrightarrow> v = PInt i \<and> 0 \<le> i"
  "require_identifier v l = Inr s \<longleftrightarrow> v = PStr s \<and> is_identifier s"
  "py_item m k = Inr u \<longleftrightarrow> map_of m k = Some u"
  "in_string_set v xs = Inr True \<longleftrightarrow> (\<exists>t \<in> set xs. v = PStr t)"
  by (auto simp: require_exact_mapping_def require_sha256_def require_nonnegative_int_def
      require_identifier_def py_item_def in_string_set_def split: pyval.splits option.splits)

text \<open>A key of an exact mapping is present.\<close>

lemma exact_key: "set (map fst d) = set fields \<Longrightarrow> k \<in> set fields \<Longrightarrow> \<exists>v. map_of d k = Some v"
  by (metis map_of_eq_None_iff set_map option.exhaust_sel)

section \<open>Strict documents\<close>

text \<open>\<open>object_pairs_hook\<close>: a repeated field is refused.\<close>

fun object_without_duplicate_keys :: "(string, pyval) dict \<Rightarrow> (string, pyval) dict \<Rightarrow> py_exc + (string, pyval) dict" where
  "object_without_duplicate_keys result [] = Inr result"
| "object_without_duplicate_keys result ((k, v) # pairs) =
     (if map_of result k \<noteq> None then Inl (ValueError (''Duplicate JSON field: '' @ k @ ''.''))
      else object_without_duplicate_keys (AList.update k v result) pairs)"

lemma object_without_duplicate_keys_iff:
  assumes "dict_ok result"
  shows "object_without_duplicate_keys result pairs = Inr d \<longleftrightarrow> dict_ok (result @ pairs) \<and> d = result @ pairs"
  using assms
proof (induction pairs arbitrary: result)
  case (Cons kv pairs)
  obtain k v where kv: "kv = (k, v)" by (cases kv)
  show ?case
  proof (cases "map_of result k = None")
    case True
    then have "AList.update k v result = result @ [(k, v)]" by (rule dict_update_fresh)
    moreover have "dict_ok (result @ [(k, v)])" using Cons.prems True by (rule dict_ok_snoc)
    ultimately show ?thesis using True Cons.IH by (auto simp: kv)
  next
    case False
    then show ?thesis by (auto simp: kv map_of_eq_None_iff)
  qed
qed auto

text \<open>
  \<open>_strict_json_object\<close>. \<open>loads\<close> stands for \<open>json.loads\<close> with that hook on the decoded bytes; its
  failures are \<open>UnicodeError\<close> or \<open>ValueError\<close> objects, given by their text.
\<close>

definition strict_json_object :: "(string \<Rightarrow> string + pyval) \<Rightarrow> string \<Rightarrow> string \<Rightarrow> py_exc + (string, pyval) dict" where
  "strict_json_object loads encoded label =
     (case loads encoded of
        Inl exc \<Rightarrow> Inl (ValueError (label @ '' must be strict UTF-8 JSON: '' @ exc))
      | Inr (PDict d) \<Rightarrow> Inr d
      | Inr _ \<Rightarrow> Inl (ValueError (label @ '' must contain a JSON object.'')))"

section \<open>Base names\<close>

text \<open>
  \<open>PureWindowsPath(s).drive\<close> of a string without separators: a second character \<open>:\<close> makes the
  first two the drive. Without separators neither flavour has a root, so \<open>is_absolute()\<close> is
  false in both, and the POSIX \<open>name\<close> of a non-empty string other than \<open>.\<close> is the string itself.
\<close>

definition windows_drive :: "string \<Rightarrow> string" where
  "windows_drive s = (case s of c # d # _ \<Rightarrow> if d = CHR '':'' then [c, d] else [] | _ \<Rightarrow> [])"

definition safe_basename_ok :: "string \<Rightarrow> bool" where
  "safe_basename_ok s =
     (s \<noteq> [] \<and> s \<noteq> ''.'' \<and> s \<noteq> ''..'' \<and> CHR ''/'' \<notin> set s \<and> CHR 0x5C \<notin> set s \<and> windows_drive s = [])"

section \<open>Feature order\<close>

definition TARGET_COLUMN :: string where "TARGET_COLUMN = ''Class''"
definition TIME_COLUMN :: string where "TIME_COLUMN = ''Time''"
definition AMOUNT_COLUMN :: string where "AMOUNT_COLUMN = ''Amount''"

definition PCA_FEATURES :: "string list" where
  "PCA_FEATURES = map (\<lambda>i. CHR ''V'' # int_str i) [1..28]"

definition ALL_FEATURES :: "string list" where
  "ALL_FEATURES = [TIME_COLUMN] @ PCA_FEATURES @ [AMOUNT_COLUMN]"

definition REQUIRED_COLUMNS :: "string list" where
  "REQUIRED_COLUMNS = ALL_FEATURES @ [TARGET_COLUMN]"

lemma length_ALL_FEATURES [simp]: "length ALL_FEATURES = 30"
  by (simp add: ALL_FEATURES_def PCA_FEATURES_def)

section \<open>Indented documents\<close>

text \<open>\<open>json.dumps(value, indent=2, sort_keys=True, allow_nan=False)\<close>, at nesting depth \<open>n\<close>.\<close>

definition new_line :: "nat \<Rightarrow> string" where
  "new_line n = char_of (10 :: nat) # replicate (2 * n) (CHR '' '')"

function json_indent :: "nat \<Rightarrow> pyval \<Rightarrow> py_exc + string" where
  "json_indent n PNone = json_dumps PNone"
| "json_indent n (PBool b) = json_dumps (PBool b)"
| "json_indent n (PInt i) = json_dumps (PInt i)"
| "json_indent n (PFloat x) = json_dumps (PFloat x)"
| "json_indent n (PStr s) = json_dumps (PStr s)"
| "json_indent n (PList vs) =
     (if vs = [] then Inr ''[]''
      else res_bind (res_map (json_indent (Suc n)) vs) (\<lambda>ts.
        Inr (''['' @ new_line (Suc n) @ join ('','' @ new_line (Suc n)) ts @ new_line n @ '']'')))"
| "json_indent n (PDict d) =
     (if d = [] then Inr ''{}''
      else res_bind (res_map (\<lambda>kv. res_bind (json_indent (Suc n) (snd kv)) (\<lambda>t. Inr (json_str (fst kv) @ '': '' @ t)))
                       (sort_key fst d)) (\<lambda>ts.
        Inr (''{'' @ new_line (Suc n) @ join ('','' @ new_line (Suc n)) ts @ new_line n @ ''}'')))"
  by pat_completeness auto
termination
proof (relation "measure (size \<circ> snd)", goal_cases)
  case (2 n vs v)
  then have "v \<in> set vs" by simp
  then show ?case by (induction vs) auto
next
  case (3 n d kv)
  then have "kv \<in> set d" by simp
  then show ?case by (induction d) (auto split: prod.split)
qed simp

definition canonical_manifest_bytes :: "(string, pyval) dict \<Rightarrow> py_exc + string" where
  "canonical_manifest_bytes manifest = res_bind (json_indent 0 (PDict manifest)) (\<lambda>t. Inr (t @ [char_of (10 :: nat)]))"

end
