(* ===== verification/Postgres_Facts.thy ===== *)
theory Postgres_Facts
  imports Postgres_Store Py_Json
begin

text \<open>
  What the PostgreSQL profile promises: every reachable database passes the full audit
  verification, completion is atomic and refused after expiry, ownership of a request is
  granted once, a completed request is replayed unchanged forever, and the audit chain
  gives away any change to a stored event.
\<close>

section \<open>Serialisable responses\<close>

definition finite_threshold :: "bounded_response \<Rightarrow> bool" where
  "finite_threshold r = (\<exists>q. pp_operating_threshold (br_policy r) = Fin q)"

lemma jsonable_bounded: "finite_threshold r \<Longrightarrow> jsonable (bounded_document r)"
  by (auto simp: finite_threshold_def bounded_document_def model_document_def policy_document_def schema_document_def)

lemma response_sha256_ok: "finite_threshold r \<Longrightarrow> \<exists>h. response_sha256 r = Inr h"
  using json_dumps_ok [OF jsonable_bounded, of r] by (auto simp: response_sha256_def canonical_response_bytes_def)

lemma build_audit_event_ok:
  assumes "finite_threshold r" and "canonical_timestamp occ = Inr ts" and "uuid_ok nid"
    and "1 \<le> sq" and "is_sha256 prev" and "is_sha256 key" and "is_sha256 dig"
  obtains ev where "build_audit_event chain sq prev key dig r occ None nid = Inr ev"
proof -
  obtain rd where rd: "response_sha256 r = Inr rd" using response_sha256_ok [OF assms(1)] by blast
  have "\<exists>doc h. event_document nid chain sq prev key dig (decision_name (br_decision r)) (bounded_document r) rd occ = Inr doc
      \<and> document_hash doc = Inr h"
    using jsonable_bounded [OF assms(1)] assms(2)
      json_dumps_ok [of "PDict [(''audit_schema_version'', PStr AUDIT_SCHEMA_VERSION),
                   (''bounded_response'', bounded_document r),
                   (''chain_id'', PStr chain), (''decision'', PStr (decision_name (br_decision r))),
                   (''event_id'', PStr nid), (''idempotency_key_hmac_sha256'', PStr key),
                   (''occurred_at'', PStr ts), (''previous_hash'', PStr prev),
                   (''request_digest_sha256'', PStr dig),
                   (''response_sha256'', PStr rd), (''sequence'', PInt sq)]"]
    by (auto simp: event_document_def document_hash_def)
  then obtain doc h where "event_document nid chain sq prev key dig (decision_name (br_decision r)) (bounded_document r) rd occ = Inr doc"
    "document_hash doc = Inr h" by blast
  then have "\<exists>ev. build_audit_event chain sq prev key dig r occ None nid = Inr ev"
    using assms rd by (simp add: build_audit_event_def)
  then show thesis using that by blast
qed

section \<open>Reachable databases verify\<close>

lemma pg_inv_dict: "pg_inv db \<Longrightarrow> dict_ok (pg_idempotency db)"
  unfolding pg_inv_def by (elim conjE)

lemma pg_inv_row: "pg_inv db \<Longrightarrow> map_of (pg_idempotency db) k = Some r \<Longrightarrow> row_shape k r (pg_events db)"
  unfolding pg_inv_def by (elim conjE allE impE)

lemma event_of_key:
  "pg_inv db \<Longrightarrow> x \<in> set (pg_events db) \<Longrightarrow> y \<in> set (pg_events db) \<Longrightarrow> ev_key_digest x = ev_key_digest y \<Longrightarrow> x = y"
proof -
  assume a: "pg_inv db" "x \<in> set (pg_events db)" "y \<in> set (pg_events db)" "ev_key_digest x = ev_key_digest y"
  have "distinct (map ev_key_digest (pg_events db))" using a(1) unfolding pg_inv_def by (elim conjE)
  then show "x = y" using a(2-4) by (simp add: distinct_map inj_on_def)
qed

lemma joined_pair_consistent:
  assumes "pg_inv db" and "kr \<in> set (pg_idempotency db)" and "ev \<in> set (pg_events db)" and "joins kr ev"
  shows "\<not> pair_inconsistent (snd kr) ev"
proof -
  obtain k r where kr: "kr = (k, r)" by (cases kr)
  have m: "map_of (pg_idempotency db) k = Some r"
    using assms(2) kr pg_inv_dict [OF assms(1)] by (simp add: map_of_is_SomeI)
  have k: "k = ev_key_digest ev" using assms(4) kr by (simp add: joins_def)
  obtain r' where r': "map_of (pg_idempotency db) (ev_key_digest ev) = Some r'" "pi_state r' = ''completed''"
    by (rule pg_inv_eventE [OF assms(1,3)])
  then have st: "pi_state r = ''completed''" using m k by (metis option.inject)
  obtain ev' resp where e: "ev' \<in> set (pg_events db)" "ev_key_digest ev' = k"
      "ev_request_digest ev' = pi_request_digest r" "pi_response_document r = Some (bounded_document resp)"
      "ev_bounded_response ev' = bounded_document resp" "pi_response_sha256 r = Some (ev_response_sha256 ev')"
    using pg_inv_row [OF assms(1) m] st unfolding row_shape_def by blast
  have "ev' = ev" using event_of_key [OF assms(1) e(1) assms(3)] e(2) k by simp
  then show ?thesis using e(3-6) st kr by (simp add: pair_inconsistent_def)
qed

lemma pg_inv_consistent:
  assumes "pg_inv db"
  shows "inconsistent_count db = 0"
proof -
  have a: "filter (\<lambda>(kr, ev). joins kr ev \<and> pair_inconsistent (snd kr) ev)
              (List.product (pg_idempotency db) (pg_events db)) = []"
    using joined_pair_consistent [OF assms] by (auto simp: filter_empty_conv)
  have b: "filter (\<lambda>kr. pi_state (snd kr) = ''completed'' \<and> \<not> list_ex (joins kr) (pg_events db)) (pg_idempotency db) = []"
  proof -
    have "list_ex (joins kr) (pg_events db)" if kr: "kr \<in> set (pg_idempotency db)" "pi_state (snd kr) = ''completed''" for kr
    proof -
      have m: "map_of (pg_idempotency db) (fst kr) = Some (snd kr)"
        using kr(1) pg_inv_dict [OF assms] by (simp add: map_of_is_SomeI)
      obtain ev where "ev \<in> set (pg_events db)" "ev_key_digest ev = fst kr"
          "pi_audit_receipt_sha256 (snd kr) = Some (ev_event_hash ev)"
        using pg_inv_row [OF assms m] kr(2) unfolding row_shape_def by blast
      then show ?thesis by (auto simp: list_ex_iff joins_def intro!: bexI [of _ ev])
    qed
    then show ?thesis by (auto simp: filter_empty_conv)
  qed
  have c: "filter (\<lambda>ev. \<not> list_ex (\<lambda>kr. joins kr ev) (pg_idempotency db)) (pg_events db) = []"
  proof -
    have "list_ex (\<lambda>kr. joins kr ev) (pg_idempotency db)" if mem: "ev \<in> set (pg_events db)" for ev
    proof -
      obtain r where "map_of (pg_idempotency db) (ev_key_digest ev) = Some r"
        "pi_audit_receipt_sha256 r = Some (ev_event_hash ev)" by (rule pg_inv_eventE [OF assms mem])
      then show ?thesis by (auto simp: list_ex_iff joins_def dest!: map_of_SomeD intro!: bexI [of _ "(ev_key_digest ev, r)"])
    qed
    then show ?thesis by (auto simp: filter_empty_conv)
  qed
  show ?thesis unfolding inconsistent_count_def a b c by simp
qed

lemma pg_inv_verifies:
  assumes "pg_inv db"
  obtains h where "verify_audit_chain db =
    Inr \<lparr>cv_chain_id = AUDIT_CHAIN_ID, cv_event_count = length (pg_events db), cv_last_sequence = length (pg_events db),
         cv_last_hash = h\<rparr>"
    and "pg_heads db = [(AUDIT_CHAIN_ID, (int (length (pg_events db)), h))]"
proof -
  obtain h where h: "pg_heads db = [(AUDIT_CHAIN_ID, (int (length (pg_events db)), h))]"
    "verify_rows 1 GENESIS_HASH (pg_events db) = Inr h"
    using assms unfolding pg_inv_def by (elim conjE exE)
  have chain: "\<forall>ev \<in> set (pg_events db). ev_chain_id ev = AUDIT_CHAIN_ID"
    using assms unfolding pg_inv_def by (elim conjE) blast
  have f: "filter (\<lambda>ev. ev_chain_id ev \<noteq> AUDIT_CHAIN_ID) (pg_events db) = []"
    "filter (\<lambda>ev. ev_chain_id ev = AUDIT_CHAIN_ID) (pg_events db) = pg_events db"
    using chain by (auto simp: filter_empty_conv)
  have "sorted (map ev_sequence (pg_events db))"
    unfolding verify_rows_sequence [OF h(2)] by (simp only: sorted_map of_nat_le_iff sorted_upt)
  then have s: "sort_key ev_sequence (pg_events db) = pg_events db" by (rule sort_key_id_if_sorted)
  have "verify_audit_chain db =
    Inr \<lparr>cv_chain_id = AUDIT_CHAIN_ID, cv_event_count = length (pg_events db), cv_last_sequence = length (pg_events db),
         cv_last_hash = h\<rparr>"
    using h by (simp add: verify_audit_chain_def f s Let_def pg_inv_consistent [OF assms])
  then show thesis using h(1) that by blast
qed

section \<open>The audit chain\<close>

text \<open>The document the verifier rebuilds from a row and hashes.\<close>

definition row_document :: "event_row \<Rightarrow> pyval" where
  "row_document e =
     (case res_bind (validate_bounded (ev_bounded_response e)) (\<lambda>r. res_bind (response_sha256 r) (\<lambda>h.
             event_document (ev_event_id e) (ev_chain_id e) (ev_sequence e) (ev_previous_hash e) (ev_key_digest e)
               (ev_request_digest e) (decision_name (br_decision r)) (bounded_document r) h (ev_occurred_at e))) of
        Inr d \<Rightarrow> d | Inl _ \<Rightarrow> PNone)"

definition document_digest :: "pyval \<Rightarrow> string" where
  "document_digest d = (case document_hash d of Inr h \<Rightarrow> h | Inl _ \<Rightarrow> [])"

definition document_previous :: "pyval \<Rightarrow> string" where
  "document_previous d = (case d of PDict kvs \<Rightarrow> (case get_str kvs ''previous_hash'' of Some h \<Rightarrow> h | None \<Rightarrow> []) | _ \<Rightarrow> [])"

lemma not_uuid_nil: "\<not> uuid_ok []"
  using uuid_ok_nonempty by blast

lemma validated_row:
  assumes "validate_event_row e p = Inr h"
  shows "document_previous (row_document e) = p" and "document_hash (row_document e) = Inr h"
    and "document_digest (row_document e) = h"
proof -
  obtain r ev where r: "validate_bounded (ev_bounded_response e) = Inr r"
    and b: "build_audit_event (ev_chain_id e) (ev_sequence e) (ev_previous_hash e) (ev_key_digest e)
               (ev_request_digest e) r (ev_occurred_at e) (Some (ev_event_id e)) [] = Inr ev"
    and v: "ev_previous_hash ev = p" "ev_event_hash ev = h"
    using assms(1) by (auto simp: validate_event_row_def res_bind_Inr_iff res_bind_Inl_iff split: sum.splits py_exc.splits if_splits)
  have ne: "ev_event_id e \<noteq> []" 
    using b not_uuid_nil by (auto simp: build_audit_event_def split: if_splits)
  obtain rd d where d: "response_sha256 r = Inr rd" "event_document (ev_event_id e) (ev_chain_id e) (ev_sequence e) (ev_previous_hash e) (ev_key_digest e)
             (ev_request_digest e) (decision_name (br_decision r)) (bounded_document r) rd (ev_occurred_at e) = Inr d"
    and h: "document_hash d = Inr h" and p: "ev_previous_hash e = p"
    using b v ne by (auto simp: build_audit_event_def res_bind_Inr_iff Let_def split: if_splits)
  have "document_previous d = p" using d p by (auto simp: event_document_def document_previous_def get_str_def res_bind_Inr_iff)
  then show "document_previous (row_document e) = p" using d r by (simp add: row_document_def)
  show "document_hash (row_document e) = Inr h" using d r h by (simp add: row_document_def)
  then show "document_digest (row_document e) = h" by (simp add: document_digest_def)
qed

definition chain_accepts :: "string \<Rightarrow> event_row list \<Rightarrow> string \<Rightarrow> bool" where
  "chain_accepts p es q \<longleftrightarrow> (\<exists>n. verify_rows n p es = Inr q)"

interpretation audit_chain: hash_chain row_document document_digest document_previous chain_accepts
proof unfold_locales
  show "p = q" if "chain_accepts p [] q" for p q using that by (simp add: chain_accepts_def)
  show "document_previous (row_document e) = p \<and> chain_accepts (document_digest (row_document e)) es q"
    if acc: "chain_accepts p (e # es) q" for p e es q
  proof -
    obtain n where n: "verify_rows n p (e # es) = Inr q" using acc unfolding chain_accepts_def by blast
    then obtain h where c: "validate_event_row e p = Inr h" "verify_rows (Suc n) h es = Inr q"
      by (auto simp: res_bind_Inr_iff split: if_splits)
    show ?thesis using validated_row [OF c(1)] c(2) unfolding chain_accepts_def by blast
  qed
qed

lemma accepted_hash: "verify_rows n p es = Inr q \<Longrightarrow> e \<in> set es \<Longrightarrow> \<exists>h. document_hash (row_document e) = Inr h"
proof (induction n p es rule: verify_rows.induct)
  case (2 n p x xs)
  then obtain h where "validate_event_row x p = Inr h" "verify_rows (Suc n) h xs = Inr q" "ev_sequence x = int n"
    by (auto simp: res_bind_Inr_iff split: if_splits)
  then show ?case using 2 validated_row(2) by auto
qed simp

lemma validated_hash: "validate_event_row e p = Inr h \<Longrightarrow> ev_event_hash e = h"
  by (auto simp: validate_event_row_def split: sum.splits py_exc.splits if_splits)

lemma accepted_own_hash: "verify_rows n p es = Inr q \<Longrightarrow> e \<in> set es \<Longrightarrow> document_hash (row_document e) = Inr (ev_event_hash e)"
proof (induction n p es rule: verify_rows.induct)
  case (2 n p x xs)
  then obtain h where "validate_event_row x p = Inr h" "verify_rows (Suc n) h xs = Inr q" "ev_sequence x = int n"
    by (auto simp: res_bind_Inr_iff split: if_splits)
  then show ?case using 2 validated_row(2) validated_hash by auto
qed simp

lemma verified_rows:
  assumes "verify_audit_chain db = Inr v"
  shows "cv_event_count v = length (sort_key ev_sequence (pg_events db))"
    and "verify_rows 1 GENESIS_HASH (sort_key ev_sequence (pg_events db)) = Inr (cv_last_hash v)"
proof -
  have f: "filter (\<lambda>ev. ev_chain_id ev \<noteq> AUDIT_CHAIN_ID) (pg_events db) = []"
    using assms by (auto simp: verify_audit_chain_def split: option.splits if_splits)
  then have g: "filter (\<lambda>ev. ev_chain_id ev = AUDIT_CHAIN_ID) (pg_events db) = pg_events db"
    by (auto simp: filter_empty_conv intro!: filter_True)
  show "cv_event_count v = length (sort_key ev_sequence (pg_events db))"
    "verify_rows 1 GENESIS_HASH (sort_key ev_sequence (pg_events db)) = Inr (cv_last_hash v)"
    using assms by (auto simp: verify_audit_chain_def g f res_bind_Inr_iff Let_def split: option.splits if_splits prod.splits)
qed

section \<open>Properties\<close>

text \<open>
  C2. Whatever reservations, completions and failures any number of workers have committed,
  with any clocks and identifiers and with the connection lost before or after any commit,
  the full audit verification of the resulting database succeeds: the chain is contiguous
  and linked, the head agrees with it, and the completed idempotency rows and the audit
  events correspond one to one.
\<close>

theorem reachable_database_verifies:
  assumes "(pg_step st)\<^sup>*\<^sup>* pg_init db"
  shows "\<exists>v. verify_audit_chain db = Inr v \<and> cv_event_count v = length (pg_events db) \<and>
    map_of (pg_heads db) AUDIT_CHAIN_ID = Some (int (cv_last_sequence v), cv_last_hash v)"
proof -
  obtain h where "verify_audit_chain db =
    Inr \<lparr>cv_chain_id = AUDIT_CHAIN_ID, cv_event_count = length (pg_events db), cv_last_sequence = length (pg_events db),
         cv_last_hash = h\<rparr>"
    "pg_heads db = [(AUDIT_CHAIN_ID, (int (length (pg_events db)), h))]"
    by (rule pg_inv_verifies [OF pg_reachable_inv [OF assms]])
  then show ?thesis by simp
qed

text \<open>
  C9. Completion is atomic. Either the database is untouched, or exactly one audit event was
  appended, the row of that key went from reserved to completed with the response and the
  receipt of that event, the head moved to it and no other row changed; and an error after a
  change can only be the one raised after the commit.
\<close>

theorem completion_is_atomic:
  assumes "pg_complete now occ nid hook rv resp db = (res, db')" and "dict_ok (pg_idempotency db)"
  shows "(db' = db \<and> (\<exists>e. res = Inl e)) \<or>
    (\<exists>ev row row'. pg_events db' = pg_events db @ [ev] \<and>
       map_of (pg_idempotency db) (pr_key_digest rv) = Some row \<and> pi_state row = ''reserved'' \<and>
       now < pi_reservation_expires_at row \<and>
       map_of (pg_idempotency db') (pr_key_digest rv) = Some row' \<and> pi_state row' = ''completed'' \<and>
       pi_request_digest row' = pi_request_digest row \<and> pi_response_document row' = Some (bounded_document resp) \<and>
       pi_audit_receipt_sha256 row' = Some (ev_event_hash ev) \<and>
       (\<forall>k. k \<noteq> pr_key_digest rv \<longrightarrow> map_of (pg_idempotency db') k = map_of (pg_idempotency db) k) \<and>
       map_of (pg_heads db') AUDIT_CHAIN_ID = Some (ev_sequence ev, ev_event_hash ev) \<and>
       (case res of Inr fin \<Rightarrow> pr_audit_receipt fin = Some (ev_event_hash ev) \<and> pr_response fin = Some resp
          | Inl e \<Rightarrow> \<exists>f. hook ''after_commit'' = Some f \<and> e = as_stored_error f))"
proof (cases "\<exists>sha ev db1. pr_kind rv = R_owner \<and> response_sha256 resp = Inr sha \<and>
    complete_transaction now occ nid rv resp sha db = Inr (ev, db1) \<and> hook ''before_commit'' = None")
  case False
  then have "db' = db \<and> (\<exists>e. res = Inl e)"
    using assms(1)
    by (auto simp: pg_complete_def res_bind_Inr_iff split: if_splits sum.splits option.splits prod.splits)
  then show ?thesis by blast
next
  case True
  then obtain sha ev db1 where t: "pr_kind rv = R_owner" "response_sha256 resp = Inr sha"
    "complete_transaction now occ nid rv resp sha db = Inr (ev, db1)" "hook ''before_commit'' = None" by blast
  have "validate_response_keys (bounded_document resp) = Inr ()"
    by (simp add: validate_response_keys_def bounded_document_no_forbidden_key)
  then have r: "db' = db1" "case res of Inr fin \<Rightarrow> pr_audit_receipt fin = Some (ev_event_hash ev) \<and> pr_response fin = Some resp
          | Inl e \<Rightarrow> \<exists>f. hook ''after_commit'' = Some f \<and> e = as_stored_error f"
    using assms(1) t by (auto simp: pg_complete_def split: option.splits)
  from complete_transaction_ok [OF t(3)] show ?thesis
    using r(2) unfolding r(1) by (intro disjI2) (auto simp: map_of_update_idem AList.update_conv')
qed

text \<open>
  C21. A reservation that has expired by the database clock can no longer complete: the work is
  refused as stale and neither the row, nor the audit chain, nor its head changes.
\<close>

theorem expired_reservation_cannot_complete:
  assumes "map_of (pg_idempotency db) (pr_key_digest rv) = Some row" and "pi_reservation_expires_at row \<le> now"
    and "pi_request_digest row = pr_request_digest rv" and "pr_kind rv = R_owner" and "finite_threshold resp"
  shows "pg_complete now occ nid hook rv resp db =
    (Inl (PyError ''StaleReservationError'' ''The reservation cannot complete after expiry or state change.''), db)"
proof -
  obtain h where h: "response_sha256 resp = Inr h" using response_sha256_ok [OF assms(5)] by blast
  have "complete_transaction now occ nid rv resp h db =
      Inl (PyError ''StaleReservationError'' ''The reservation cannot complete after expiry or state change.'')"
    using assms(1-3) by (simp add: complete_transaction_def)
  then show ?thesis using h assms(4)
    by (simp add: pg_complete_def validate_response_keys_def bounded_document_no_forbidden_key as_stored_error_def)
qed

text \<open>
  C12. A request is owned at most once: after one worker has reserved an id, no reservation of
  the same id by anybody at any later moment, whatever happened in between, makes a second
  owner or writes a row.
\<close>

theorem ownership_granted_once:
  assumes "pg_reserve st now rid dig db = (Inr rv, db1)" and "pr_kind rv = R_owner"
    and "(pg_step st)\<^sup>*\<^sup>* db1 db2" and "pg_reserve st now' rid dig' db2 = (res, db3)"
  shows "db3 = db2 \<and> (\<forall>rv'. res = Inr rv' \<longrightarrow> pr_kind rv' \<noteq> R_owner)"
proof -
  let ?k = "idempotency_key_digest (ps_hmac_secret st) rid"
  have no_owner: "pr_kind rv' \<noteq> R_owner" if "from_row n k r d = Inr rv'" for n k r d rv'
    using that by (auto simp: from_row_def plain_reservation_def Let_def res_bind_Inr_iff
        split: if_splits option.splits pyval.splits sum.splits)
  have "map_of (pg_idempotency db1) ?k \<noteq> None"
    using assms(1,2) no_owner
    by (auto simp: pg_reserve_def Let_def map_add_def split: sum.splits option.splits)
  from assms(3) this have "map_of (pg_idempotency db2) ?k \<noteq> None"
  proof (induction rule: rtranclp_induct)
    case (step y z)
    then obtain r where "map_of (pg_idempotency y) ?k = Some r" by blast
    then show ?case using row_digest_kept [OF step.hyps(2)] by blast
  qed
  then show ?thesis using assms(4) no_owner
    by (auto simp: pg_reserve_def Let_def split: sum.splits option.splits)
qed

text \<open>
  A committed response is permanent: after any further history, a reservation of that id
  with the same request digest answers with exactly the response and the audit receipt of the
  completion and changes nothing, and with another digest it is refused as a conflict. This
  holds also when the completing worker never saw its own success.
\<close>

theorem committed_response_replays_forever:
  assumes "(pg_step st)\<^sup>*\<^sup>* pg_init db" and "pg_complete now occ nid hook rv resp db = (res, db1)" and "db1 \<noteq> db"
    and "(pg_step st)\<^sup>*\<^sup>* db1 db2" and "idempotency_key_digest (ps_hmac_secret st) rid = pr_key_digest rv"
    and "is_sha256 dig"
  shows "(dig = pr_request_digest rv \<longrightarrow>
      (\<exists>h. pg_reserve st now' rid dig db2 =
        (Inr \<lparr>pr_kind = R_completed, pr_key_digest = pr_key_digest rv, pr_request_digest = dig, pr_response = Some resp,
             pr_response_hash = Some h, pr_audit_receipt = Some (ev_event_hash (last (pg_events db1)))\<rparr>, db2))) \<and>
    (dig \<noteq> pr_request_digest rv \<longrightarrow> pg_reserve st now' rid dig db2 =
        (Inl (PyError ''DurableIdempotencyConflictError''
               ''The request ID was already used for different canonical input.''), db2))"
proof -
  let ?k = "pr_key_digest rv"
  have inv: "pg_inv db" using assms(1) by (rule pg_reachable_inv)
  obtain sha ev where t: "response_sha256 resp = Inr sha" "complete_transaction now occ nid rv resp sha db = Inr (ev, db1)"
    using pg_complete_db [of now occ nid hook rv resp db] assms(2,3) by auto
  have inv1: "pg_inv db1" using pg_inv_complete [OF inv t] .
  have last: "last (pg_events db1) = ev" using complete_transaction_ok [OF t(2)] by auto
  have fin: "pg_final db1 ?k (pr_request_digest rv, resp, sha, ev_event_hash ev)"
    using complete_transaction_ok [OF t(2)] by (auto simp: pg_final_def map_of_update_idem)
  have inv2: "pg_inv db2" using pg_once.inv_run [OF assms(4) inv1] .
  from pg_once.final_run [OF assms(4) inv1 fin]
  obtain r where r: "map_of (pg_idempotency db2) ?k = Some r" "pi_state r = ''completed''"
    "pi_request_digest r = pr_request_digest rv" "pi_response_document r = Some (bounded_document resp)"
    "pi_audit_receipt_sha256 r = Some (ev_event_hash ev)" by (auto simp: pg_final_def)
  show ?thesis
  proof (intro conjI impI)
    assume d: "dig \<noteq> pr_request_digest rv"
    then show "pg_reserve st now' rid dig db2 =
        (Inl (PyError ''DurableIdempotencyConflictError''
               ''The request ID was already used for different canonical input.''), db2)"
      using r assms(5,6) by (simp add: pg_reserve_def validate_request_digest_def Let_def from_row_def)
  next
    assume d: "dig = pr_request_digest rv"
    obtain resp' h receipt where f: "from_row now' ?k r (pi_request_digest r) =
      Inr \<lparr>pr_kind = R_completed, pr_key_digest = ?k, pr_request_digest = pi_request_digest r, pr_response = Some resp',
           pr_response_hash = Some h, pr_audit_receipt = Some receipt\<rparr>"
      "pi_response_document r = Some (bounded_document resp')" "pi_audit_receipt_sha256 r = Some receipt"
      by (rule from_row_completed [OF inv2 r(1,2)])
    have "resp' = resp" using f(2) r(4) by (simp add: bounded_document_inj)
    moreover have "receipt = ev_event_hash ev" using f(3) r(5) by simp
    ultimately show "\<exists>h. pg_reserve st now' rid dig db2 =
        (Inr \<lparr>pr_kind = R_completed, pr_key_digest = pr_key_digest rv, pr_request_digest = dig, pr_response = Some resp,
             pr_response_hash = Some h, pr_audit_receipt = Some (ev_event_hash (last (pg_events db1)))\<rparr>, db2)"
      using f(1) r d assms(5,6) last by (intro exI [of _ h]) (simp add: pg_reserve_def validate_request_digest_def Let_def)
  qed
qed

text \<open>
  C13. The audit chain is tamper evident: in a database of any origin that passes the full
  verification every stored event hash is the SHA-256 of the event's own document, and two such
  databases with the same number of events and the same head hash carry the same documents in
  the same order, unless at some position two different documents have the same SHA-256.
\<close>

theorem audit_chain_tamper_evident:
  assumes "verify_audit_chain db = Inr v" and "verify_audit_chain db' = Inr v'"
    and "cv_last_hash v = cv_last_hash v'" and "cv_event_count v = cv_event_count v'"
  shows "(\<forall>e \<in> set (pg_events db). document_hash (row_document e) = Inr (ev_event_hash e)) \<and>
    (map row_document (sort_key ev_sequence (pg_events db)) = map row_document (sort_key ev_sequence (pg_events db')) \<or>
    (\<exists>i h. i < cv_event_count v \<and>
       row_document (sort_key ev_sequence (pg_events db) ! i) \<noteq> row_document (sort_key ev_sequence (pg_events db') ! i) \<and>
       document_hash (row_document (sort_key ev_sequence (pg_events db) ! i)) = Inr h \<and>
       document_hash (row_document (sort_key ev_sequence (pg_events db') ! i)) = Inr h))"
proof (intro conjI ballI)
  show "document_hash (row_document e) = Inr (ev_event_hash e)" if "e \<in> set (pg_events db)" for e
    using accepted_own_hash [OF verified_rows(2) [OF assms(1)]] that by simp
next
  let ?es = "sort_key ev_sequence (pg_events db)" and ?es' = "sort_key ev_sequence (pg_events db')"
  note v = verified_rows [OF assms(1)] verified_rows [OF assms(2)]
  have acc: "chain_accepts GENESIS_HASH ?es (cv_last_hash v)" "chain_accepts GENESIS_HASH ?es' (cv_last_hash v)"
    using v(2,4) assms(3) unfolding chain_accepts_def by auto
  have len: "length ?es = length ?es'" using v(1,3) assms(4) by simp
  show "map row_document ?es = map row_document ?es' \<or> (\<exists>i h. i < cv_event_count v \<and> row_document (?es ! i) \<noteq> row_document (?es' ! i) \<and>
      document_hash (row_document (?es ! i)) = Inr h \<and> document_hash (row_document (?es' ! i)) = Inr h)"
  proof (cases "map row_document ?es = map row_document ?es'")
    case False
    with audit_chain.tamper_evident [OF acc len] obtain i where i: "i < length ?es"
      "row_document (?es ! i) \<noteq> row_document (?es' ! i)"
      "document_digest (row_document (?es ! i)) = document_digest (row_document (?es' ! i))" by blast
    obtain h where h: "document_hash (row_document (?es ! i)) = Inr h"
      using accepted_hash [OF v(2) nth_mem [OF i(1)]] by blast
    obtain h' where h': "document_hash (row_document (?es' ! i)) = Inr h'"
      using accepted_hash [OF v(4) nth_mem] i(1) len by fastforce
    have "h' = h" using i(3) h h' by (simp add: document_digest_def)
    then show ?thesis using i h h' v(1) by auto
  qed simp
qed

section \<open>A concrete history\<close>

text \<open>One request is reserved, scored and completed; then another one is reserved.\<close>

definition pg_sample_settings :: pg_settings where
  "pg_sample_settings = \<lparr>ps_hmac_secret = ''secret'', ps_reservation_ttl = seconds 30, ps_retention = seconds 86400\<rparr>"

definition pg_sample_response :: bounded_response where
  "pg_sample_response = \<lparr>br_decision = Human_Review,
     br_model = \<lparr>mp_model_version = ''m1'', mp_bundle_format_version = ''2'', mp_model_artifact_sha256 = ''a'',
       mp_training_data_fingerprint = ''f'', mp_evidence_category = Synthetic_Demo_Inference, mp_historical_taint = False,
       mp_decision_eligible = False, mp_historical_metrics_claimed = False, mp_evaluation_performed = False\<rparr>,
     br_policy = \<lparr>pp_producer_policy = ''p'', pp_producer_policy_sha256 = ''b'', pp_operating_threshold = Fin (1/2),
       pp_threshold_source = ''s'', pp_threshold_model_linkage = ''l'', pp_threshold_purpose = ''u'',
       pp_threshold_calibrated = False, pp_threshold_cost_optimal = False, pp_threshold_razorpay_approved = False,
       pp_threshold_production_approved = False\<rparr>,
     br_feature_schema_sha256 = ''c''\<rparr>"

definition pg_sample_digest :: string where "pg_sample_digest = replicate 64 (CHR ''a'')"
definition pg_sample_id :: string where "pg_sample_id = ''00000000-0000-4000-8000-000000000001''"

definition pg_sample_owner :: pg_reservation where
  "pg_sample_owner = plain_reservation R_owner (idempotency_key_digest (ps_hmac_secret pg_sample_settings) ''r1'') pg_sample_digest"

definition db_reserved :: pg_db where
  "db_reserved = snd (pg_reserve pg_sample_settings 0 ''r1'' pg_sample_digest pg_init)"

definition db_completed :: pg_db where
  "db_completed = snd (pg_complete 1 (utc 0) pg_sample_id (\<lambda>_. None) pg_sample_owner pg_sample_response db_reserved)"

definition db_later :: pg_db where
  "db_later = snd (pg_reserve pg_sample_settings (seconds 60) ''r2'' pg_sample_digest db_completed)"

lemma pg_sample_digest_sha [simp]: "is_sha256 pg_sample_digest"
  unfolding pg_sample_digest_def by code_simp

lemma pg_sample_id_ok [simp]: "uuid_ok pg_sample_id"
  unfolding pg_sample_id_def by code_simp

lemma genesis_sha [simp]: "is_sha256 GENESIS_HASH"
  by code_simp

lemma key_sha [simp]: "is_sha256 (idempotency_key_digest s r)"
  by (simp add: idempotency_key_digest_def)

lemma finite_sample [simp]: "finite_threshold pg_sample_response"
  unfolding finite_threshold_def by (intro exI [of _ "1 / 2"]) (simp add: pg_sample_response_def)

lemma pg_sample_timestamp: "canonical_timestamp (utc 0) = Inr ''1970-01-01T00:00:00.000000Z''"
  by code_simp

lemma pg_sample_reserve: "pg_reserve pg_sample_settings 0 ''r1'' pg_sample_digest pg_init = (Inr pg_sample_owner, db_reserved)"
  by (simp add: db_reserved_def pg_reserve_def pg_init_def validate_request_digest_def pg_sample_owner_def Let_def)

lemma db_reserved_tables:
  "pg_idempotency db_reserved = [(pr_key_digest pg_sample_owner,
      \<lparr>pi_request_digest = pg_sample_digest, pi_state = ''reserved'', pi_reservation_expires_at = seconds 30,
       pi_retention_until = seconds 86400, pi_response_document = None, pi_response_sha256 = None,
       pi_audit_receipt_sha256 = None\<rparr>)]"
  "pg_events db_reserved = []" "pg_heads db_reserved = [(AUDIT_CHAIN_ID, (0, GENESIS_HASH))]"
  by (simp_all add: db_reserved_def pg_reserve_def pg_init_def validate_request_digest_def pg_sample_owner_def Let_def
      plain_reservation_def pg_sample_settings_def)

lemma pg_sample_owner_fields [simp]: "pr_kind pg_sample_owner = R_owner" "pr_request_digest pg_sample_owner = pg_sample_digest"
  "is_sha256 (pr_key_digest pg_sample_owner)"
  "pr_key_digest pg_sample_owner = idempotency_key_digest (ps_hmac_secret pg_sample_settings) ''r1''"
  by (simp_all add: pg_sample_owner_def plain_reservation_def)

lemma pg_sample_complete:
  obtains fin ev where "pg_complete 1 (utc 0) pg_sample_id (\<lambda>_. None) pg_sample_owner pg_sample_response db_reserved = (Inr fin, db_completed)"
    and "pg_events db_completed = [ev]"
proof -
  obtain ev where ev: "build_audit_event AUDIT_CHAIN_ID 1 GENESIS_HASH (pr_key_digest pg_sample_owner) pg_sample_digest
      pg_sample_response (utc 0) None pg_sample_id = Inr ev"
    using build_audit_event_ok [OF finite_sample pg_sample_timestamp pg_sample_id_ok _ genesis_sha pg_sample_owner_fields(3)
      pg_sample_digest_sha, of 1] by (metis order_refl)
  obtain h where h: "response_sha256 pg_sample_response = Inr h" using response_sha256_ok [OF finite_sample] by blast
  have ins: "event_insertable db_reserved ev"
    using build_event_fields(4) [OF ev] by (simp add: event_insertable_def db_reserved_tables)
  obtain db1 where t: "complete_transaction 1 (utc 0) pg_sample_id pg_sample_owner pg_sample_response h db_reserved = Inr (ev, db1)"
    "pg_events db1 = [ev]"
    using ev ins by (simp add: complete_transaction_def db_reserved_tables seconds_def del: pg_sample_owner_fields(4))
  then have "\<exists>fin. pg_complete 1 (utc 0) pg_sample_id (\<lambda>_. None) pg_sample_owner pg_sample_response db_reserved = (Inr fin, db1)"
    using h by (simp add: pg_complete_def validate_response_keys_def bounded_document_no_forbidden_key)
  moreover from this have "db1 = db_completed" by (auto simp: db_completed_def)
  ultimately show thesis using t(2) that by blast
qed

lemma reserved_reachable: "(pg_step pg_sample_settings)\<^sup>*\<^sup>* pg_init db_reserved"
  unfolding db_reserved_def by (intro r_into_rtranclp pg_step.reserve)

lemma completed_step: "pg_step pg_sample_settings db_reserved db_completed"
  unfolding db_completed_def by (rule pg_step.complete)

lemma later_step: "pg_step pg_sample_settings db_completed db_later"
  unfolding db_later_def by (rule pg_step.reserve)

lemma later_events: "pg_events db_later = pg_events db_completed"
  by (simp add: db_later_def pg_reserve_def validate_request_digest_def Let_def split: option.split)

lemma later_reachable: "(pg_step pg_sample_settings)\<^sup>*\<^sup>* pg_init db_later"
  using reserved_reachable completed_step later_step by (meson rtranclp.rtrancl_into_rtrancl)

theorem reachable_database_verifies_witness:
  "\<exists>v. verify_audit_chain db_later = Inr v \<and> cv_event_count v = 1"
proof -
  obtain ev where "pg_events db_later = [ev]" using pg_sample_complete later_events by metis
  then show ?thesis using reachable_database_verifies [OF later_reachable] by auto
qed

theorem completion_is_atomic_witness:
  "\<exists>ev. pg_events db_completed = pg_events db_reserved @ [ev] \<and>
     map_of (pg_heads db_completed) AUDIT_CHAIN_ID = Some (ev_sequence ev, ev_event_hash ev)"
proof -
  obtain fin ev where c: "pg_complete 1 (utc 0) pg_sample_id (\<lambda>_. None) pg_sample_owner pg_sample_response db_reserved = (Inr fin, db_completed)"
    "pg_events db_completed = [ev]" by (rule pg_sample_complete)
  have "dict_ok (pg_idempotency db_reserved)" by (simp add: db_reserved_tables)
  from completion_is_atomic [OF c(1) this] show ?thesis by auto
qed

theorem expired_reservation_cannot_complete_witness:
  "pg_complete (seconds 30) (utc 0) pg_sample_id (\<lambda>_. None) pg_sample_owner pg_sample_response db_reserved =
    (Inl (PyError ''StaleReservationError'' ''The reservation cannot complete after expiry or state change.''), db_reserved)"
proof -
  have "map_of (pg_idempotency db_reserved) (pr_key_digest pg_sample_owner) =
      Some \<lparr>pi_request_digest = pg_sample_digest, pi_state = ''reserved'', pi_reservation_expires_at = seconds 30,
       pi_retention_until = seconds 86400, pi_response_document = None, pi_response_sha256 = None,
       pi_audit_receipt_sha256 = None\<rparr>" by (simp add: db_reserved_tables)
  from expired_reservation_cannot_complete [OF this] show ?thesis by simp
qed

theorem ownership_granted_once_witness:
  "snd (pg_reserve pg_sample_settings (seconds 90) ''r1'' pg_sample_digest db_later) = db_later"
proof -
  have "(pg_step pg_sample_settings)\<^sup>*\<^sup>* db_reserved db_later"
    using completed_step later_step by (meson rtranclp.rtrancl_into_rtrancl rtranclp.rtrancl_refl)
  from ownership_granted_once [OF pg_sample_reserve pg_sample_owner_fields(1) this surjective_pairing]
  show ?thesis by blast
qed

theorem committed_response_replays_forever_witness:
  "\<exists>rv. pg_reserve pg_sample_settings (seconds 90) ''r1'' pg_sample_digest db_later = (Inr rv, db_later) \<and>
     pr_response rv = Some pg_sample_response"
proof -
  obtain fin ev where c: "pg_complete 1 (utc 0) pg_sample_id (\<lambda>_. None) pg_sample_owner pg_sample_response db_reserved = (Inr fin, db_completed)"
    "pg_events db_completed = [ev]" by (rule pg_sample_complete)
  have ne: "db_completed \<noteq> db_reserved" using c(2) by (auto simp: db_reserved_tables)
  have run: "(pg_step pg_sample_settings)\<^sup>*\<^sup>* db_completed db_later" using later_step by blast
  show ?thesis
    using committed_response_replays_forever [OF reserved_reachable c(1) ne run, of "''r1''" pg_sample_digest "seconds 90"]
    by auto
qed

theorem audit_chain_tamper_evident_witness:
  "\<exists>v. verify_audit_chain db_completed = Inr v \<and>
     (map row_document (sort_key ev_sequence (pg_events db_completed)) =
        map row_document (sort_key ev_sequence (pg_events db_later)) \<or>
      (\<exists>i h. i < cv_event_count v \<and>
         document_hash (row_document (sort_key ev_sequence (pg_events db_completed) ! i)) = Inr h))"
proof -
  have r: "(pg_step pg_sample_settings)\<^sup>*\<^sup>* pg_init db_completed"
    using reserved_reachable completed_step by (rule rtranclp.rtrancl_into_rtrancl)
  obtain h where v: "verify_audit_chain db_completed =
    Inr \<lparr>cv_chain_id = AUDIT_CHAIN_ID, cv_event_count = length (pg_events db_completed),
         cv_last_sequence = length (pg_events db_completed), cv_last_hash = h\<rparr>"
    and hc: "pg_heads db_completed = [(AUDIT_CHAIN_ID, (int (length (pg_events db_completed)), h))]"
    by (rule pg_inv_verifies [OF pg_reachable_inv [OF r]])
  obtain h' where v': "verify_audit_chain db_later =
    Inr \<lparr>cv_chain_id = AUDIT_CHAIN_ID, cv_event_count = length (pg_events db_later),
         cv_last_sequence = length (pg_events db_later), cv_last_hash = h'\<rparr>"
    and hl: "pg_heads db_later = [(AUDIT_CHAIN_ID, (int (length (pg_events db_later)), h'))]"
    by (rule pg_inv_verifies [OF pg_reachable_inv [OF later_reachable]])
  have "pg_heads db_later = pg_heads db_completed"
    by (simp add: db_later_def pg_reserve_def validate_request_digest_def Let_def split: option.split)
  then have "h' = h" using hc hl later_events by simp
  then show ?thesis using audit_chain_tamper_evident [OF v v'] v later_events by auto
qed

end
