(* ===== verification/Lifecycle.thy ===== *)
theory Lifecycle
  imports Write_Once Py_Values
begin

text \<open>
  \<open>src/src/lane_a/final_lifecycle.py\<close>: the one-time lifecycle record of the final evaluation. The
  record is one file; what \<open>json.loads\<close> makes of it is a document of run-time values. A
  transition reads the file first and replaces it later, so the two are separate steps and
  any number of runners, each of which is sequential, interleave.
\<close>

section \<open>\<open>str\<close> and \<open>repr\<close> of decoded values\<close>

function py_repr :: "pyval \<Rightarrow> string" where
  "py_repr PNone = ''None''"
| "py_repr (PBool b) = (if b then ''True'' else ''False'')"
| "py_repr (PInt i) = int_str i"
| "py_repr (PFloat x) = repr_float x"
| "py_repr (PStr s) = repr_str s"
| "py_repr (PList vs) = ''['' @ join '', '' (map py_repr vs) @ '']''"
| "py_repr (PDict d) = ''{'' @ join '', '' (map (\<lambda>kv. repr_str (fst kv) @ '': '' @ py_repr (snd kv)) d) @ ''}''"
  by pat_completeness auto
termination
proof (relation "measure size", goal_cases)
  case (2 vs v)
  then show ?case by (induction vs) auto
next
  case (3 d kv)
  then show ?case by (induction d) (auto split: prod.split)
qed simp

definition py_str :: "pyval \<Rightarrow> string" where
  "py_str v = (case v of PStr s \<Rightarrow> s | _ \<Rightarrow> py_repr v)"

section \<open>States\<close>

definition PREPARED :: string where "PREPARED = ''PREPARED''"
definition STARTED :: string where "STARTED = ''STARTED''"
definition SEALED :: string where "SEALED = ''SEALED''"
definition FAILED_AFTER_ACCESS :: string where "FAILED_AFTER_ACCESS = ''FAILED_AFTER_ACCESS''"

lemmas state_names = PREPARED_def STARTED_def SEALED_def FAILED_AFTER_ACCESS_def

definition STATES :: "string list" where "STATES = [PREPARED, STARTED, SEALED, FAILED_AFTER_ACCESS]"
definition TERMINAL_STATES :: "string list" where "TERMINAL_STATES = [SEALED, FAILED_AFTER_ACCESS]"
definition ACCESS_BEGUN_STATES :: "string list" where
  "ACCESS_BEGUN_STATES = [STARTED, SEALED, FAILED_AFTER_ACCESS]"

definition LEGAL_TRANSITIONS :: "(string, string list) dict" where
  "LEGAL_TRANSITIONS =
     [(PREPARED, [STARTED]), (STARTED, [SEALED, FAILED_AFTER_ACCESS]), (SEALED, []), (FAILED_AFTER_ACCESS, [])]"

abbreviation LifecycleError :: "string \<Rightarrow> py_exc" where
  "LifecycleError m \<equiv> PyError ''LifecycleError'' m"

section \<open>The record file\<close>

text \<open>
  A file that \<open>read_text\<close> or \<open>json.loads\<close> rejects carries the text of that error; bytes that are
  no UTF-8 raise a plain \<open>ValueError\<close>, which is not caught.
\<close>

datatype lc_file = Missing | Unreadable string | Undecodable string | Stored pyval

record lc_record =
  lr_state :: string
  lr_run_id :: string
  lr_freeze_commit :: string
  lr_payload :: "(string, pyval) dict"

record lc_runner =
  ln_freeze_commit :: string
  ln_run_id :: string

definition lifecycle_init :: "string \<Rightarrow> string \<Rightarrow> py_exc + lc_runner" where
  "lifecycle_init freeze_commit run_id =
     (if freeze_commit = [] \<or> length freeze_commit \<noteq> 40 then
        Inl (LifecycleError ''freeze_commit must be a full 40-character SHA.'')
      else if run_id = [] then Inl (LifecycleError ''run_id is required.'')
      else Inr \<lparr>ln_freeze_commit = freeze_commit, ln_run_id = run_id\<rparr>)"

definition get_default :: "(string, pyval) dict \<Rightarrow> string \<Rightarrow> pyval \<Rightarrow> pyval" where
  "get_default d k v = (case map_of d k of None \<Rightarrow> v | Some x \<Rightarrow> x)"

definition lifecycle_read :: "lc_file \<Rightarrow> py_exc + lc_record option" where
  "lifecycle_read f =
     (case f of
        Missing \<Rightarrow> Inr None
      | Unreadable e \<Rightarrow> Inl (LifecycleError (''Lifecycle record is unreadable: '' @ e))
      | Undecodable e \<Rightarrow> Inl (ValueError e)
      | Stored doc \<Rightarrow>
          (case doc of
             PDict d \<Rightarrow>
               let state = get_default d ''state'' PNone
               in if state \<notin> PStr ` set STATES then
                    Inl (LifecycleError (''Lifecycle record has an unknown state: '' @ py_repr state))
                  else Inr (Some \<lparr>lr_state = py_str state, lr_run_id = py_str (get_default d ''run_id'' (PStr [])),
                                  lr_freeze_commit = py_str (get_default d ''freeze_commit'' (PStr [])),
                                  lr_payload = d\<rparr>)
           | _ \<Rightarrow> Inl (LifecycleError ''Lifecycle record is not an object.'')))"

definition assert_no_prior_run :: "lc_file \<Rightarrow> py_exc + unit" where
  "assert_no_prior_run f =
     res_bind (lifecycle_read f) (\<lambda>existing.
       case existing of
         None \<Rightarrow> Inr ()
       | Some r \<Rightarrow> Inl (LifecycleError
           (''A final-evaluation lifecycle record already exists for this freeze (state='' @ lr_state r @
            ''). The final evaluation runs exactly once and is never rerun, retried, or patched.'')))"

section \<open>Preparing\<close>

text \<open>\<open>{**a, **b}\<close>: later values win, the position of the first occurrence stays.\<close>

definition dict_merge :: "(string, 'v) dict \<Rightarrow> (string, 'v) dict \<Rightarrow> (string, 'v) dict" where
  "dict_merge a b = foldl (\<lambda>d (k, v). AList.update k v d) a b"

text \<open>
  How writing the body through the exclusively opened descriptor can end: completely; with an
  exception that leaves a truncated body, whose decoding error is given; or with an exception
  of the final flush, when the body is complete.
\<close>

datatype write_end = Written | Truncated py_exc string | Late_Failure py_exc

definition prepared_record :: "lc_runner \<Rightarrow> string \<Rightarrow> (string, pyval) dict \<Rightarrow> (string, pyval) dict" where
  "prepared_record me now payload =
     dict_merge payload
       [(''state'', PStr PREPARED), (''run_id'', PStr (ln_run_id me)),
        (''freeze_commit'', PStr (ln_freeze_commit me)), (''prepared_utc'', PStr now),
        (''one_run_only'', PBool True), (''post_result_tuning_forbidden'', PBool True)]"

definition lifecycle_prepare ::
  "lc_runner \<Rightarrow> string \<Rightarrow> write_end \<Rightarrow> (string, pyval) dict \<Rightarrow> lc_file \<Rightarrow> (py_exc + lc_record) \<times> lc_file" where
  "lifecycle_prepare me now w payload f =
     (let record = prepared_record me now payload
      in if f \<noteq> Missing then
           (case lifecycle_read f of
              Inl e \<Rightarrow> (Inl e, f)
            | Inr existing \<Rightarrow>
                (Inl (LifecycleError (''A lifecycle record already exists (state='' @
                   (case existing of Some r \<Rightarrow> lr_state r | None \<Rightarrow> ''unknown'') @ ''); refusing to prepare.'')), f))
         else case w of
           Written \<Rightarrow> (Inr \<lparr>lr_state = PREPARED, lr_run_id = ln_run_id me,
                          lr_freeze_commit = ln_freeze_commit me, lr_payload = record\<rparr>, Stored (PDict record))
         | Truncated e msg \<Rightarrow> (Inl e, Unreadable msg)
         | Late_Failure e \<Rightarrow> (Inl e, Stored (PDict record)))"

section \<open>Transitions\<close>

text \<open>The reading half of \<open>_transition\<close>: every refusal, or the record to be written.\<close>

definition lower_str :: "string \<Rightarrow> string" where "lower_str s = map lower_char s"

definition transition_check ::
  "lc_runner \<Rightarrow> string \<Rightarrow> string \<Rightarrow> (string, pyval) dict \<Rightarrow> lc_file \<Rightarrow> py_exc + (string, pyval) dict" where
  "transition_check me now target payload f =
     res_bind (lifecycle_read f) (\<lambda>current.
       case current of
         None \<Rightarrow> Inl (LifecycleError (''No lifecycle record exists; cannot move to '' @ target @ ''.''))
       | Some c \<Rightarrow>
           if lr_run_id c \<noteq> ln_run_id me then
             Inl (LifecycleError ''Lifecycle record belongs to a different run; refusing to transition.'')
           else if lr_freeze_commit c \<noteq> ln_freeze_commit me then
             Inl (LifecycleError ''Lifecycle record belongs to a different freeze; refusing to transition.'')
           else if target \<notin> set (case map_of LEGAL_TRANSITIONS (lr_state c) of None \<Rightarrow> [] | Some ts \<Rightarrow> ts) then
             Inl (LifecycleError (''Illegal lifecycle transition '' @ lr_state c @ '' -> '' @ target @ ''.''))
           else Inr (dict_merge (dict_merge (lr_payload c) payload)
                       [(''state'', PStr target), (lower_str target @ ''_utc'', PStr now)]))"

text \<open>
  The writing half: \<open>_atomic_write\<close> either replaces the file or, failing anywhere before the
  replacement, removes its temporary file and leaves the record as it was.
\<close>

definition atomic_write :: "py_exc option \<Rightarrow> (string, pyval) dict \<Rightarrow> lc_file \<Rightarrow> (py_exc + unit) \<times> lc_file" where
  "atomic_write failure record f =
     (case failure of Some e \<Rightarrow> (Inl e, f) | None \<Rightarrow> (Inr (), Stored (PDict record)))"

definition lifecycle_transition ::
  "lc_runner \<Rightarrow> string \<Rightarrow> py_exc option \<Rightarrow> string \<Rightarrow> (string, pyval) dict \<Rightarrow> lc_file \<Rightarrow> (py_exc + lc_record) \<times> lc_file" where
  "lifecycle_transition me now failure target payload f =
     (case transition_check me now target payload f of
        Inl e \<Rightarrow> (Inl e, f)
      | Inr record \<Rightarrow>
          (case atomic_write failure record f of
             (Inl e, f') \<Rightarrow> (Inl e, f')
           | (Inr _, f') \<Rightarrow> (Inr \<lparr>lr_state = target, lr_run_id = ln_run_id me,
                                 lr_freeze_commit = ln_freeze_commit me, lr_payload = record\<rparr>, f')))"

definition lifecycle_start where
  "lifecycle_start me now failure payload = lifecycle_transition me now failure STARTED payload"

definition lifecycle_seal where
  "lifecycle_seal me now failure payload = lifecycle_transition me now failure SEALED payload"

definition fail_after_access where
  "fail_after_access me now failure reason =
     lifecycle_transition me now failure FAILED_AFTER_ACCESS
       [(''failure_reason'', PStr reason), (''retry_permitted'', PBool False)]"

section \<open>Interleaved runners\<close>

text \<open>
  A runner is known by its freeze commit and run id, the only things by which the record tells
  runners apart; two processes that share a run id are not modelled. A runner is busy between the
  two halves of a transition, and a busy runner does nothing else. Everything a runner supplies (times, payloads, failures of the file system) is part
  of the event.
\<close>

record lc_sys =
  ls_file :: lc_file
  ls_pending :: "lc_runner \<Rightarrow> (string \<times> (string, pyval) dict) option"

datatype lc_event =
    E_prepare lc_runner string write_end "(string, pyval) dict"
  | E_check lc_runner string string "(string, pyval) dict"
  | E_commit lc_runner "py_exc option"

definition lc_start :: "lc_file \<Rightarrow> lc_sys" where
  "lc_start f = \<lparr>ls_file = f, ls_pending = (\<lambda>_. None)\<rparr>"

fun lc_exec :: "lc_event \<Rightarrow> lc_sys \<Rightarrow> lc_sys" where
  "lc_exec (E_prepare me now w payload) s =
     (if ls_pending s me \<noteq> None then s
      else s\<lparr>ls_file := snd (lifecycle_prepare me now w payload (ls_file s))\<rparr>)"
| "lc_exec (E_check me now target payload) s =
     (if ls_pending s me \<noteq> None then s
      else case transition_check me now target payload (ls_file s) of
        Inl _ \<Rightarrow> s
      | Inr record \<Rightarrow> s\<lparr>ls_pending := (ls_pending s)(me := Some (target, record))\<rparr>)"
| "lc_exec (E_commit me failure) s =
     (case ls_pending s me of
        None \<Rightarrow> s
      | Some (target, record) \<Rightarrow>
          \<lparr>ls_file = snd (atomic_write failure record (ls_file s)), ls_pending = (ls_pending s)(me := None)\<rparr>)"

definition lc_run :: "lc_event list \<Rightarrow> lc_sys \<Rightarrow> lc_sys" where
  "lc_run es s = foldl (\<lambda>s e. lc_exec e s) s es"

text \<open>The transition an event makes visible, and how often a run makes it visible.\<close>

fun commits :: "lc_event \<Rightarrow> lc_sys \<Rightarrow> string option" where
  "commits (E_commit me None) s = map_option fst (ls_pending s me)"
| "commits _ s = None"

fun commit_count :: "string \<Rightarrow> lc_event list \<Rightarrow> lc_sys \<Rightarrow> nat" where
  "commit_count t [] s = 0"
| "commit_count t (e # es) s = (if commits e s = Some t then 1 else 0) + commit_count t es (lc_exec e s)"

subsection \<open>Invariant\<close>

definition legal :: "string \<Rightarrow> string \<Rightarrow> bool" where
  "legal s t = (t \<in> set (case map_of LEGAL_TRANSITIONS s of None \<Rightarrow> [] | Some ts \<Rightarrow> ts))"

lemma legal_iff: "legal s t \<longleftrightarrow> s = PREPARED \<and> t = STARTED \<or> s = STARTED \<and> (t = SEALED \<or> t = FAILED_AFTER_ACCESS)"
  by (auto simp: legal_def LEGAL_TRANSITIONS_def state_names split: if_splits)

definition observed :: "lc_file \<Rightarrow> string option" where
  "observed f = (case lifecycle_read f of Inr (Some r) \<Rightarrow> Some (lr_state r) | _ \<Rightarrow> None)"

definition may_commit :: "lc_file \<Rightarrow> lc_runner \<Rightarrow> string \<Rightarrow> (string, pyval) dict \<Rightarrow> bool" where
  "may_commit f me t d \<longleftrightarrow> (\<exists>c. lifecycle_read f = Inr (Some c) \<and> lr_run_id c = ln_run_id me \<and>
     lr_freeze_commit c = ln_freeze_commit me \<and> legal (lr_state c) t \<and> map_of d ''state'' = Some (PStr t))"

definition lc_inv :: "lc_sys \<Rightarrow> bool" where
  "lc_inv s \<longleftrightarrow> (\<forall>me t d. ls_pending s me = Some (t, d) \<longrightarrow> may_commit (ls_file s) me t d)"

lemma map_of_dict_merge: "map_of (dict_merge a b) k = (case map_of (rev b) k of None \<Rightarrow> map_of a k | Some v \<Rightarrow> Some v)"
  by (induction b arbitrary: a)
     (auto simp: dict_merge_def map_add_def AList.update_conv' split: option.splits prod.splits)

lemma read_stored:
  "map_of d ''state'' = Some (PStr t) \<Longrightarrow> t \<in> set STATES \<Longrightarrow>
     \<exists>r. lifecycle_read (Stored (PDict d)) = Inr (Some r) \<and> lr_state r = t \<and> lr_payload r = d"
  by (auto simp: lifecycle_read_def get_default_def py_str_def)

lemma observed_stored: "map_of d ''state'' = Some (PStr t) \<Longrightarrow> t \<in> set STATES \<Longrightarrow> observed (Stored (PDict d)) = Some t"
  using read_stored [of d t] by (auto simp: observed_def)

lemma utc_key: "legal a t \<Longrightarrow> lower_str t @ ''_utc'' \<noteq> ''state''"
proof -
  assume "legal a t"
  then have "t \<in> {STARTED, SEALED, FAILED_AFTER_ACCESS}" by (auto simp: legal_iff)
  moreover have "list_all (\<lambda>t. lower_str t @ ''_utc'' \<noteq> ''state'') [STARTED, SEALED, FAILED_AFTER_ACCESS]" by code_simp
  ultimately show ?thesis by auto
qed

lemma check_may_commit:
  assumes "transition_check me now t payload f = Inr d"
  shows "may_commit f me t d"
proof -
  obtain c where c: "lifecycle_read f = Inr (Some c)" "lr_run_id c = ln_run_id me" "lr_freeze_commit c = ln_freeze_commit me"
      "legal (lr_state c) t"
    and d: "d = dict_merge (dict_merge (lr_payload c) payload)
      [(''state'', PStr t), (lower_str t @ ''_utc'', PStr now)]"
    using assms unfolding transition_check_def legal_def [symmetric] by (auto simp: res_bind_Inr_iff split: option.splits if_splits)
  have "map_of d ''state'' = Some (PStr t)"
    using utc_key [OF c(4)] unfolding d by (simp add: map_of_dict_merge)
  with c show ?thesis unfolding may_commit_def by blast
qed

lemma prepare_keeps: "f \<noteq> Missing \<Longrightarrow> snd (lifecycle_prepare me now w payload f) = f"
  by (auto simp: lifecycle_prepare_def Let_def split: sum.split)

lemma prepare_observed:
  "f = Missing \<Longrightarrow> observed (snd (lifecycle_prepare me now w payload f)) \<in> {None, Some PREPARED}"
proof -
  assume f: "f = Missing"
  have "map_of (prepared_record me now payload) ''state'' = Some (PStr PREPARED)"
    by (simp add: prepared_record_def map_of_dict_merge)
  then have "observed (Stored (PDict (prepared_record me now payload))) = Some PREPARED"
    by (rule observed_stored) (simp add: STATES_def)
  moreover have "observed (Unreadable m) = None" for m by (simp add: observed_def lifecycle_read_def)
  ultimately show ?thesis using f by (cases w) (simp_all add: lifecycle_prepare_def Let_def)
qed

lemma may_commit_Missing [simp]: "\<not> may_commit Missing me t d"
  by (simp add: may_commit_def lifecycle_read_def)

lemma may_commit_owner: "may_commit f me t d \<Longrightarrow> may_commit f me' t' d' \<Longrightarrow> me' = me"
  by (cases me; cases me') (auto simp: may_commit_def)

lemma lc_inv_exec: "lc_inv s \<Longrightarrow> lc_inv (lc_exec e s)"
proof (induction e s rule: lc_exec.induct)
  case (1 me now w payload s)
  then show ?case by (cases "ls_file s = Missing") (auto simp: lc_inv_def prepare_keeps)
next
  case (2 me now target payload s)
  then show ?case by (auto simp: lc_inv_def check_may_commit split: sum.split)
next
  case (3 me failure s)
  show ?case
  proof (cases "ls_pending s me")
    case (Some p)
    obtain t d where p: "p = (t, d)" by (cases p)
    have mine: "may_commit (ls_file s) me t d" using 3 Some p by (simp add: lc_inv_def)
    have "ls_pending s me' = None" if "me' \<noteq> me" for me'
    proof (rule ccontr)
      assume "ls_pending s me' \<noteq> None"
      then obtain t' d' where "ls_pending s me' = Some (t', d')" by auto
      then have "may_commit (ls_file s) me' t' d'" using 3 by (simp add: lc_inv_def)
      with mine that show False using may_commit_owner by blast
    qed
    then have "ls_pending (lc_exec (E_commit me failure) s) me' = None" for me'
      using Some p by (cases "me' = me") simp_all
    then show ?thesis by (simp add: lc_inv_def)
  qed (use 3 in simp)
qed

lemma lc_inv_start: "lc_inv (lc_start f)"
  by (simp add: lc_inv_def lc_start_def)

subsection \<open>What an event can do\<close>

lemma legal_states: "legal a b \<Longrightarrow> b \<in> set STATES"
  by (auto simp: legal_iff STATES_def)

lemma exec_file:
  assumes "lc_inv s"
  shows "(commits e s = None \<and> ls_file (lc_exec e s) = ls_file s) \<or>
    (commits e s = None \<and> ls_file s = Missing \<and> observed (ls_file (lc_exec e s)) \<in> {None, Some PREPARED}) \<or>
    (\<exists>a b. commits e s = Some b \<and> observed (ls_file s) = Some a \<and> legal a b \<and> observed (ls_file (lc_exec e s)) = Some b)"
proof (cases e)
  case (E_prepare me now w payload)
  then show ?thesis using prepare_keeps prepare_observed by (cases "ls_file s = Missing") auto
next
  case (E_check me now t payload)
  then show ?thesis by (auto split: sum.split)
next
  case (E_commit me failure)
  show ?thesis
  proof (cases "ls_pending s me")
    case (Some p)
    obtain t d where p: "p = (t, d)" by (cases p)
    have m: "may_commit (ls_file s) me t d" using assms Some p by (simp add: lc_inv_def)
    then obtain a where a: "observed (ls_file s) = Some a" "legal a t" "map_of d ''state'' = Some (PStr t)"
      by (auto simp: may_commit_def observed_def)
    have "observed (Stored (PDict d)) = Some t" by (rule observed_stored [OF a(3) legal_states [OF a(2)]])
    then show ?thesis using E_commit Some p a by (cases failure) (auto simp: atomic_write_def)
  qed (cases failure; simp add: E_commit)
qed

definition lc_rank :: "lc_file \<Rightarrow> nat" where
  "lc_rank f = (if f = Missing then 0 else case observed f of
     None \<Rightarrow> 3 | Some a \<Rightarrow> if a = PREPARED then 1 else if a = STARTED then 2 else 3)"

lemma observed_Missing [simp]: "observed Missing = None"
  by (simp add: observed_def lifecycle_read_def)

lemma commit_counts:
  assumes "lc_inv s"
  shows "commit_count STARTED es s \<le> (if lc_rank (ls_file s) \<le> 1 then 1 else 0) \<and>
    commit_count SEALED es s + commit_count FAILED_AFTER_ACCESS es s
      \<le> commit_count STARTED es s + (if lc_rank (ls_file s) = 2 then 1 else 0)"
  using assms
proof (induction es arbitrary: s)
  case (Cons e es)
  note inv = lc_inv_exec [OF Cons.prems, of e]
  note IH = Cons.IH [OF inv]
  have dist: "STARTED \<noteq> PREPARED" "SEALED \<noteq> STARTED" "FAILED_AFTER_ACCESS \<noteq> STARTED" "SEALED \<noteq> PREPARED"
    "FAILED_AFTER_ACCESS \<noteq> PREPARED" "SEALED \<noteq> FAILED_AFTER_ACCESS" by (simp_all add: state_names)
  from exec_file [OF Cons.prems, of e] consider
    (same) "commits e s = None" "ls_file (lc_exec e s) = ls_file s"
  | (made) "commits e s = None" "ls_file s = Missing"
  | (moved) a b where "commits e s = Some b" "observed (ls_file s) = Some a" "legal a b" "observed (ls_file (lc_exec e s)) = Some b"
    by (elim disjE exE conjE) metis+
  then show ?case
  proof cases
    case same then show ?thesis using IH by simp
  next
    case made
    then have "lc_rank (ls_file s) = 0" by (simp add: lc_rank_def)
    moreover have "lc_rank (ls_file (lc_exec e s)) \<noteq> 2"
      using exec_file [OF Cons.prems, of e] made dist by (auto simp: lc_rank_def)
    ultimately show ?thesis using IH made by (auto split: if_splits)
  next
    case moved
    have ne: "ls_file s \<noteq> Missing" "ls_file (lc_exec e s) \<noteq> Missing" using moved by auto
    show ?thesis using moved ne IH dist by (auto simp: lc_rank_def legal_iff split: if_splits)
  qed
qed simp

subsection \<open>Terminal records\<close>

definition lc_step :: "lc_sys \<Rightarrow> lc_sys \<Rightarrow> bool" where
  "lc_step s s' \<longleftrightarrow> (\<exists>e. s' = lc_exec e s)"

definition lc_final :: "lc_sys \<Rightarrow> unit \<Rightarrow> lc_file \<Rightarrow> bool" where
  "lc_final s u f \<longleftrightarrow> ls_file s = f \<and> f \<noteq> Missing \<and> (\<forall>a. observed f = Some a \<longrightarrow> a \<in> set TERMINAL_STATES)"

interpretation lc_once: write_once lc_step lc_inv lc_final
proof unfold_locales
  show "lc_inv s'" if "lc_inv s" "lc_step s s'" for s s'
    using that lc_inv_exec unfolding lc_step_def by blast
  show "lc_final s' u f" if inv: "lc_inv s" and st: "lc_step s s'" and f: "lc_final s u f" for s s' u f
  proof -
    obtain e where e: "s' = lc_exec e s" using st unfolding lc_step_def by blast
    have "ls_file (lc_exec e s) = ls_file s"
      using exec_file [OF inv, of e] f
      by (auto simp: lc_final_def legal_iff TERMINAL_STATES_def state_names)
    then show ?thesis using e f by (simp add: lc_final_def)
  qed
  show "lc_final s u f \<Longrightarrow> lc_final s u g \<Longrightarrow> f = g" for s u f g by (simp add: lc_final_def)
qed

lemma lc_run_steps: "lc_step\<^sup>*\<^sup>* s (lc_run es s)"
proof (induction es arbitrary: s)
  case (Cons e es)
  have "lc_step s (lc_exec e s)" unfolding lc_step_def by blast
  moreover have "lc_step\<^sup>*\<^sup>* (lc_exec e s) (lc_run es (lc_exec e s))" by (rule Cons.IH)
  ultimately show ?case by (simp add: lc_run_def converse_rtranclp_into_rtranclp)
qed (simp add: lc_run_def)

lemma lc_run_inv: "lc_inv (lc_run es (lc_start f))"
  using lc_once.inv_run [OF lc_run_steps lc_inv_start] .

section \<open>Properties\<close>

text \<open>
  C6. Access to the final data begins at most once. However many runners interleave, whatever
  times, payloads and file-system failures they meet and whatever the record file holds at
  the beginning, at most one \<open>STARTED\<close> record is ever written; and the terminal records
  written are at most as many as the starts, counting one if the file began as started.
\<close>

theorem final_access_begins_at_most_once:
  "commit_count STARTED es (lc_start f) \<le> 1 \<and>
   commit_count SEALED es (lc_start f) + commit_count FAILED_AFTER_ACCESS es (lc_start f)
     \<le> commit_count STARTED es (lc_start f) + (if observed f = Some STARTED then 1 else 0)"
proof -
  have r: "lc_rank f = 2 \<longleftrightarrow> observed f = Some STARTED"
    by (auto simp: lc_rank_def state_names split: option.split)
  show ?thesis using commit_counts [OF lc_inv_start, of es f] r by (auto simp: lc_start_def split: if_splits)
qed

text \<open>
  C39. Every change any runner makes to the record refines the four-state protocol: from a
  reachable system one event either leaves the file alone, or creates it when it was missing
  (as \<open>PREPARED\<close>, or as an unreadable record), or moves its state along a legal transition.
\<close>

theorem runners_refine_the_protocol:
  assumes "s = lc_run es (lc_start f)" and "s' = lc_exec e s"
  shows "ls_file s' = ls_file s \<or>
    (ls_file s = Missing \<and> observed (ls_file s') \<in> {None, Some PREPARED}) \<or>
    (\<exists>a b. observed (ls_file s) = Some a \<and> observed (ls_file s') = Some b \<and>
       b \<in> set (case map_of LEGAL_TRANSITIONS a of None \<Rightarrow> [] | Some ts \<Rightarrow> ts))"
  using exec_file [of s e] lc_run_inv [of es f] assms unfolding legal_def by blast

text \<open>
  A sealed or failed record is immutable: no later event of any runner changes a byte of
  what the file holds.
\<close>

theorem terminal_record_is_immutable:
  assumes "s = lc_run es (lc_start f)" and "lifecycle_read (ls_file s) = Inr (Some r)"
    and "lr_state r \<in> set TERMINAL_STATES"
  shows "ls_file (lc_run es' s) = ls_file s"
proof -
  have inv: "lc_inv s" using lc_run_inv assms(1) by simp
  have "ls_file s \<noteq> Missing" using assms(2) by (auto simp: lifecycle_read_def)
  then have fin: "lc_final s () (ls_file s)" using assms(2,3) by (simp add: lc_final_def observed_def)
  have "lc_final (lc_run es' s) () (ls_file s)"
    by (rule lc_once.final_run [OF lc_run_steps inv fin])
  then show ?thesis by (simp add: lc_final_def)
qed

lemma pending_needs_record: "lc_inv s \<Longrightarrow> ls_file s = Missing \<Longrightarrow> ls_pending s me = None"
  by (cases "ls_pending s me") (auto simp: lc_inv_def)

lemma unreadable_stays: "lc_inv s \<Longrightarrow> ls_file s = Unreadable msg \<Longrightarrow> ls_file (lc_run es s) = Unreadable msg"
  using lc_once.final_run [OF lc_run_steps, of s "()" "Unreadable msg" es]
  by (simp add: lc_final_def observed_def lifecycle_read_def)

lemma interrupted_prepare:
  assumes "s = lc_run es (lc_start Missing)" and "ls_file s = Missing"
  shows "ls_file (lc_run (E_prepare me now (Truncated e msg) payload # es') s) = Unreadable msg"
proof -
  have inv: "lc_inv s" using lc_run_inv assms(1) by simp
  let ?t = "lc_exec (E_prepare me now (Truncated e msg) payload) s"
  have "ls_file ?t = Unreadable msg"
    using pending_needs_record [OF inv assms(2)] assms(2) by (simp add: lifecycle_prepare_def Let_def)
  then have "ls_file (lc_run es' ?t) = Unreadable msg" by (rule unreadable_stays [OF lc_inv_exec [OF inv]])
  then show ?thesis by (simp add: lc_run_def)
qed

text \<open>
  C40. Creating the record is not atomic, although the module says that a partial record is never
  observed: when no record exists and a preparation is interrupted while it writes, then after any
  further events of any runners the file holds the truncated record, and every read, every check
  for a prior run, every preparation and every transition by any runner is refused and leaves it.
\<close>

theorem interrupted_preparation_blocks_for_ever:
  assumes "s = lc_run es (lc_start Missing)" and "ls_file s = Missing"
    and "f = ls_file (lc_run (E_prepare me now (Truncated e msg) payload # es') s)"
    and "x = LifecycleError (''Lifecycle record is unreadable: '' @ msg)"
  shows "f = Unreadable msg \<and> lifecycle_read f = Inl x \<and> assert_no_prior_run f = Inl x \<and>
    lifecycle_prepare r now' w p f = (Inl x, f) \<and> lifecycle_transition r now' failure target p f = (Inl x, f)"
  using interrupted_prepare [OF assms(1,2), of me now e msg payload es'] unfolding assms(3,4)
  by (simp add: lifecycle_read_def assert_no_prior_run_def lifecycle_prepare_def lifecycle_transition_def transition_check_def Let_def)

section \<open>A concrete run\<close>

definition runner_a :: lc_runner where
  "runner_a = \<lparr>ln_freeze_commit = replicate 40 (CHR ''a''), ln_run_id = ''run-1''\<rparr>"

definition sealing_events :: "lc_event list" where
  "sealing_events = [E_prepare runner_a ''t0'' Written [], E_check runner_a ''t1'' STARTED [], E_commit runner_a None,
     E_check runner_a ''t2'' SEALED [(''auc'', PInt 1)], E_commit runner_a None]"

lemma sealed_run: "observed (ls_file (lc_run sealing_events (lc_start Missing))) = Some SEALED"
  by code_simp

definition disk_full :: lc_event where
  "disk_full = E_prepare runner_a ''t0'' (Truncated (PyError ''OSError'' ''No space left on device'') ''Expecting value'') []"

theorem interrupted_preparation_blocks_for_ever_witness:
  "\<exists>f. ls_file (lc_run (disk_full # sealing_events) (lc_start Missing)) = f \<and>
     lifecycle_transition runner_a ''t3'' None STARTED [] f =
       (Inl (LifecycleError (''Lifecycle record is unreadable: '' @ ''Expecting value'')), f)"
proof -
  have "lc_start Missing = lc_run [] (lc_start Missing)" "ls_file (lc_start Missing) = Missing"
    by (simp_all add: lc_run_def lc_start_def)
  note blocked = interrupted_preparation_blocks_for_ever [OF this refl refl, where es' = sealing_events and me = runner_a and
      now = "''t0''" and e = "PyError ''OSError'' ''No space left on device''" and msg = "''Expecting value''" and payload = "[]" and
      r = runner_a and now' = "''t3''" and failure = None and target = STARTED and p = "[]" and w = Written]
  show ?thesis unfolding disk_full_def
    by (intro exI conjI, rule refl, rule blocked [THEN conjunct2, THEN conjunct2, THEN conjunct2, THEN conjunct2])
qed

theorem runners_refine_the_protocol_witness:
  "observed (ls_file (lc_run (take 4 sealing_events) (lc_start Missing))) = Some STARTED \<and>
   observed (ls_file (lc_run sealing_events (lc_start Missing))) = Some SEALED \<and>
   SEALED \<in> set (case map_of LEGAL_TRANSITIONS STARTED of None \<Rightarrow> [] | Some ts \<Rightarrow> ts)"
proof -
  have o: "observed (ls_file (lc_run (take 4 sealing_events) (lc_start Missing))) = Some STARTED" by code_simp
  have e: "lc_exec (E_commit runner_a None) (lc_run (take 4 sealing_events) (lc_start Missing)) =
      lc_run sealing_events (lc_start Missing)"
    by (simp add: lc_run_def sealing_events_def)
  have "STARTED \<noteq> SEALED" by (simp add: state_names)
  then have "ls_file (lc_run sealing_events (lc_start Missing)) \<noteq> ls_file (lc_run (take 4 sealing_events) (lc_start Missing))"
    using o sealed_run by auto
  with runners_refine_the_protocol [OF refl e [symmetric]] o sealed_run show ?thesis by auto
qed

theorem terminal_record_is_immutable_witness:
  "ls_file (lc_run [E_prepare runner_a ''t9'' Written [], E_check runner_a ''t9'' FAILED_AFTER_ACCESS [], E_commit runner_a None]
     (lc_run sealing_events (lc_start Missing))) = ls_file (lc_run sealing_events (lc_start Missing))"
proof -
  obtain r where r: "lifecycle_read (ls_file (lc_run sealing_events (lc_start Missing))) = Inr (Some r)" "lr_state r = SEALED"
    using sealed_run by (auto simp: observed_def split: sum.splits option.splits)
  show ?thesis by (rule terminal_record_is_immutable [OF refl r(1)]) (simp add: r(2) TERMINAL_STATES_def)
qed

end
