(* ===== verification/Lane_A_Partition.thy ===== *)
theory Lane_A_Partition
  imports Py_Values Sha256 "HOL-Library.Product_Lexorder"
begin

text \<open>
  \<open>src/src/lane_a/roles.py\<close> and \<open>src/lane_a/partition.py\<close>: the allowlist of roles and the
  chronological partition. Fractions are binary64 values, so the choice of every boundary is
  the one the program makes, including its rounding.
\<close>

section \<open>Roles\<close>

definition TRAINING :: string where "TRAINING = ''training''"
definition VALIDATION_THRESHOLD :: string where "VALIDATION_THRESHOLD = ''validation_threshold''"
definition CALIBRATION_FIT :: string where "CALIBRATION_FIT = ''calibration_fit''"
definition CALIBRATION_EVAL :: string where "CALIBRATION_EVAL = ''calibration_eval''"
definition FINAL_TEST :: string where "FINAL_TEST = ''final_test''"

definition PERMITTED_ROLES :: "string list" where
  "PERMITTED_ROLES = [TRAINING, VALIDATION_THRESHOLD, CALIBRATION_FIT, CALIBRATION_EVAL]"
definition FROZEN_ROLES :: "string list" where "FROZEN_ROLES = [FINAL_TEST]"
definition LABEL_READABLE_ROLES :: "string list" where
  "LABEL_READABLE_ROLES = [TRAINING, VALIDATION_THRESHOLD, CALIBRATION_FIT, CALIBRATION_EVAL]"

abbreviation RoleNotPermittedError :: "string \<Rightarrow> py_exc" where
  "RoleNotPermittedError m \<equiv> PyError ''RoleNotPermittedError'' m"

text \<open>\<open>repr\<close> of a tuple of at least two strings.\<close>

definition repr_str_tuple :: "string list \<Rightarrow> string" where
  "repr_str_tuple xs = ''('' @ join '', '' (map repr_str xs) @ '')''"

definition assert_role_permitted :: "string \<Rightarrow> py_exc + string" where
  "assert_role_permitted role =
     (if role \<in> set FROZEN_ROLES then
        Inl (RoleNotPermittedError (''Role '' @ repr_str role @
          '' is frozen. It must not be materialised, scored, counted, or have its labels read until a separate future task evaluates it exactly once.''))
      else if role \<notin> set PERMITTED_ROLES then
        Inl (RoleNotPermittedError (''Role '' @ repr_str role @ '' is not on the Lane A allowlist '' @
          repr_str_tuple PERMITTED_ROLES @ ''.''))
      else Inr role)"

definition assert_labels_readable :: "string \<Rightarrow> py_exc + string" where
  "assert_labels_readable role =
     res_bind (assert_role_permitted role) (\<lambda>_.
       if role \<notin> set LABEL_READABLE_ROLES then
         Inl (RoleNotPermittedError (''Labels for role '' @ repr_str role @ '' may not be read.''))
       else Inr role)"

definition filter_permitted :: "string list \<Rightarrow> py_exc + string list" where
  "filter_permitted roles = res_map assert_role_permitted roles"

section \<open>Targets\<close>

definition ROLE_TARGETS :: "(string \<times> pyfloat) list" where
  "ROLE_TARGETS = [(''training'', fl (55/100)), (''validation_threshold'', fl (12/100)),
     (''calibration_fit'', fl (9/100)), (''calibration_eval'', fl (9/100)), (''final_test'', fl (15/100))]"

definition ROLE_NAMES :: "string list" where "ROLE_NAMES = map fst ROLE_TARGETS"

abbreviation PartitionError :: "string \<Rightarrow> py_exc" where
  "PartitionError m \<equiv> PyError ''PartitionError'' m"

record role_boundary =
  rb_role :: string
  rb_upper_timestamp :: int
  rb_row_count :: int
  rb_target_fraction :: pyfloat
  rb_actual_fraction :: pyfloat

definition boundary_deviation :: "role_boundary \<Rightarrow> pyfloat" where
  "boundary_deviation b = fsub (rb_actual_fraction b) (rb_target_fraction b)"

definition validate_targets :: "py_exc + unit" where
  "validate_targets =
     (let row_total = py_sum (map snd ROLE_TARGETS)
      in if flt (fl (1 / 1000000000)) (fabs (fsub row_total (Fin 1))) then
           Inl (PartitionError (''Role target fractions must sum to 1.0, got '' @ repr_float row_total @ ''.''))
         else if card (set (map fst ROLE_TARGETS)) \<noteq> length ROLE_TARGETS then
           Inl (PartitionError ''Role names must be unique.'')
         else if list_ex (\<lambda>p. fle (snd p) (Fin 0)) ROLE_TARGETS then
           Inl (PartitionError ''Role target fractions must be strictly positive.'')
         else Inr ())"

section \<open>Counting timestamps\<close>

fun count_timestamps :: "pyval list \<Rightarrow> (int, int) dict \<Rightarrow> py_exc + (int, int) dict" where
  "count_timestamps [] counts = Inr counts"
| "count_timestamps (v # vs) counts =
     (case int_of v of
        None \<Rightarrow> Inl (PartitionError ''Timestamps must be plain integers.'')
      | Some t \<Rightarrow>
          if t < 0 then Inl (PartitionError ''Timestamps must be non-negative.'')
          else count_timestamps vs
                 (AList.update t ((case map_of counts t of None \<Rightarrow> 0 | Some c \<Rightarrow> c) + 1) counts))"

definition timestamp_counts :: "pyval list \<Rightarrow> py_exc + (int \<times> int) list" where
  "timestamp_counts timestamps =
     res_bind (count_timestamps timestamps []) (\<lambda>counts.
       if counts = [] then Inl (PartitionError ''At least one timestamp is required.'')
       else Inr (sort counts))"

section \<open>Choosing boundaries\<close>

fun check_counts :: "int option \<Rightarrow> (int \<times> int) list \<Rightarrow> py_exc + unit" where
  "check_counts previous [] = Inr ()"
| "check_counts previous ((timestamp, row_count) # counts) =
     (if (case previous of None \<Rightarrow> False | Some p \<Rightarrow> timestamp \<le> p) then
        Inl (PartitionError ''Timestamp counts must be strictly ascending and unique.'')
      else if row_count < 1 then Inl (PartitionError ''Every timestamp must carry at least one row.'')
      else check_counts (Some timestamp) counts)"

definition total_rows :: "(int \<times> int) list \<Rightarrow> int" where
  "total_rows counts = sum_list (map snd counts)"

fun running_totals :: "int \<Rightarrow> (int \<times> int) list \<Rightarrow> int list" where
  "running_totals running [] = []"
| "running_totals running ((_, row_count) # counts) =
     (running + row_count) # running_totals (running + row_count) counts"

text \<open>Tuples of a float and an index compare by the float first and by the index when the floats are equal.\<close>

definition key_less :: "pyfloat \<times> nat \<Rightarrow> pyfloat \<times> nat \<Rightarrow> bool" where
  "key_less a b =
     (if fst a \<noteq> NaN \<and> fst a = fst b then snd a < snd b else flt (fst a) (fst b))"

definition cut_key :: "int list \<Rightarrow> int \<Rightarrow> pyfloat \<Rightarrow> nat \<Rightarrow> pyfloat \<times> nat" where
  "cut_key cumulative row_total target index =
     (fabs (fsub (fl (of_int (cumulative ! index) / of_int row_total)) target), index)"

definition best_index :: "(nat \<Rightarrow> pyfloat \<times> nat) \<Rightarrow> nat \<Rightarrow> nat \<Rightarrow> nat" where
  "best_index key lowest highest =
     foldl (\<lambda>best i. if key_less (key i) (key best) then i else best) lowest [Suc lowest..<Suc highest]"

fun place_cuts ::
  "nat \<Rightarrow> int list \<Rightarrow> int \<Rightarrow> nat \<Rightarrow> pyfloat \<Rightarrow> nat list \<Rightarrow> (string \<times> pyfloat) list \<Rightarrow> py_exc + nat list" where
  "place_cuts n cumulative row_total position cumulative_target cut_indices [] = Inr cut_indices"
| "place_cuts n cumulative row_total position cumulative_target cut_indices ((_, fraction) # targets) =
     (let target = fadd cumulative_target fraction;
          lowest = (if cut_indices = [] then position else last cut_indices + 1);
          highest = int n - (int (length ROLE_TARGETS) - 1 - int position) - 1
      in if int lowest > highest then
           Inl (PartitionError ''Not enough distinct timestamps to place all boundaries.'')
         else place_cuts n cumulative row_total (Suc position) target
                (cut_indices @ [best_index (cut_key cumulative row_total target) lowest (nat highest)]) targets)"

fun role_boundaries ::
  "(int \<times> int) list \<Rightarrow> int list \<Rightarrow> int \<Rightarrow> nat list \<Rightarrow> nat \<Rightarrow> int \<Rightarrow> (string \<times> pyfloat) list \<Rightarrow>
   py_exc + role_boundary list" where
  "role_boundaries counts cumulative row_total cut_indices position previous [] = Inr []"
| "role_boundaries counts cumulative row_total cut_indices position previous ((role, fraction) # targets) =
     (let index = (if position < length cut_indices then cut_indices ! position else length counts - 1);
          row_count = cumulative ! index - previous
      in if row_count < 1 then Inl (PartitionError (''Role '' @ repr_str role @ '' would be empty.''))
         else res_bind (role_boundaries counts cumulative row_total cut_indices (Suc position) (cumulative ! index) targets)
                (\<lambda>bs. Inr (\<lparr>rb_role = role, rb_upper_timestamp = fst (counts ! index), rb_row_count = row_count,
                          rb_target_fraction = fraction,
                          rb_actual_fraction = fl (of_int row_count / of_int row_total)\<rparr> # bs)))"

definition choose_boundaries :: "(int \<times> int) list \<Rightarrow> py_exc + role_boundary list" where
  "choose_boundaries counts =
     res_bind validate_targets (\<lambda>_.
       if length counts < length ROLE_TARGETS then
         Inl (PartitionError (''Need at least '' @ nat_str (length ROLE_TARGETS) @ '' distinct timestamps to build '' @
           nat_str (length ROLE_TARGETS) @ '' non-empty roles; got '' @ nat_str (length counts) @ ''.''))
       else res_bind (check_counts None counts) (\<lambda>_.
         let row_total = total_rows counts; cumulative = running_totals 0 counts
         in res_bind (place_cuts (length counts) cumulative row_total 0 (Fin 0) [] (butlast ROLE_TARGETS)) (\<lambda>cuts.
              role_boundaries counts cumulative row_total cuts 0 0 ROLE_TARGETS)))"

section \<open>Verification\<close>

fun role_for_timestamp :: "int \<Rightarrow> role_boundary list \<Rightarrow> py_exc + string" where
  "role_for_timestamp timestamp [] = Inl (PartitionError (''Timestamp exceeds the final role'' @ [CHR 0x27] @ ''s upper bound.''))"
| "role_for_timestamp timestamp (b # bs) =
     (if timestamp \<le> rb_upper_timestamp b then Inr (rb_role b) else role_for_timestamp timestamp bs)"

fun verify_loop ::
  "role_boundary list \<Rightarrow> (int \<times> int) list \<Rightarrow> (string, int) dict \<Rightarrow> string list \<Rightarrow> py_exc + (string, int) dict \<times> string list" where
  "verify_loop boundaries [] observed seen = Inr (observed, seen)"
| "verify_loop boundaries ((timestamp, row_count) # counts) observed seen =
     res_bind (role_for_timestamp timestamp boundaries) (\<lambda>role.
       case map_of observed role of
         None \<Rightarrow> Inl (KeyError (repr_str role))
       | Some c \<Rightarrow>
           let observed' = AList.update role (c + row_count) observed
           in if seen = [] \<or> last seen \<noteq> role then
                (if role \<in> set seen then
                   Inl (PartitionError (''Role '' @ repr_str role @ '' is not contiguous in time.''))
                 else verify_loop boundaries counts observed' (seen @ [role]))
              else verify_loop boundaries counts observed' seen)"

fun check_role_counts :: "(string, int) dict \<Rightarrow> role_boundary list \<Rightarrow> py_exc + unit" where
  "check_role_counts observed [] = Inr ()"
| "check_role_counts observed (b # bs) =
     (if map_of observed (rb_role b) \<noteq> Some (rb_row_count b) then
        Inl (PartitionError (''Recomputed count for '' @ repr_str (rb_role b) @ '' disagrees.''))
      else check_role_counts observed bs)"

record partition_summary =
  ps_total_rows :: int
  ps_role_counts :: "(string, int) dict"

definition verify_partition :: "(int \<times> int) list \<Rightarrow> role_boundary list \<Rightarrow> py_exc + partition_summary" where
  "verify_partition counts boundaries =
     (if map rb_role boundaries \<noteq> ROLE_NAMES then
        Inl (PartitionError ''Boundary roles must match the declared role order.'')
      else let uppers = map rb_upper_timestamp boundaries
        in if uppers \<noteq> sort (remdups uppers) then
             Inl (PartitionError ''Role upper bounds must be strictly increasing.'')
           else res_bind (verify_loop boundaries counts (map (\<lambda>n. (n, 0)) ROLE_NAMES) []) (\<lambda>(observed, seen).
             let row_total = total_rows counts
             in if sum_list (map snd observed) \<noteq> row_total then
                  Inl (PartitionError ''Role counts do not sum to the row total.'')
                else res_bind (check_role_counts observed boundaries) (\<lambda>_.
                  if seen \<noteq> ROLE_NAMES then
                    Inl (PartitionError ''Roles must appear in chronological order exactly once.'')
                  else Inr \<lparr>ps_total_rows = row_total, ps_role_counts = observed\<rparr>)))"

section \<open>Digest and summary\<close>

fun digest_lines :: "int option \<Rightarrow> (int \<times> string) list \<Rightarrow> py_exc + string" where
  "digest_lines previous [] = Inr []"
| "digest_lines previous ((identifier, role) # pairs) =
     (if role \<notin> set ROLE_NAMES then Inl (PartitionError (''Unknown role '' @ repr_str role @ ''.''))
      else if previous = Some identifier then Inl (PartitionError ''Duplicate identifier in assignment.'')
      else res_bind (digest_lines (Some identifier) pairs)
             (\<lambda>rest. Inr (int_str identifier @ '','' @ role @ [CHR 0x0A] @ rest)))"

definition assignment_digest :: "(int \<times> string) list \<Rightarrow> py_exc + string" where
  "assignment_digest pairs = res_bind (digest_lines None (sort pairs)) (\<lambda>b. Inr (sha256_hex b))"

text \<open>\<open>round(x, 8)\<close>: the exact value is rounded to eight decimals, ties to even, and read back.\<close>

fun round8 :: "pyfloat \<Rightarrow> pyfloat" where
  "round8 (Fin x) = fl (of_int (round_half_even (x * 10 ^ 8)) / 10 ^ 8)"
| "round8 x = x"

record role_summary =
  rs_role :: string
  rs_row_count :: int
  rs_target_fraction :: pyfloat
  rs_actual_fraction :: pyfloat
  rs_deviation :: pyfloat
  rs_upper_timestamp :: int

definition summarise :: "role_boundary list \<Rightarrow> role_summary list" where
  "summarise boundaries =
     map (\<lambda>b. \<lparr>rs_role = rb_role b, rs_row_count = rb_row_count b, rs_target_fraction = rb_target_fraction b,
               rs_actual_fraction = round8 (rb_actual_fraction b), rs_deviation = round8 (boundary_deviation b),
               rs_upper_timestamp = rb_upper_timestamp b\<rparr>) boundaries"

end
