(* ===== verification/Partition_Facts.thy ===== *)
theory Partition_Facts
  imports Lane_A_Partition
begin

text \<open>
  What the chronological partition promises: counts in ascending order whatever the order of
  the rows, boundaries that always exist and cut the time axis into five contiguous,
  non-empty segments, and an independent verification that accepts them.
\<close>

section \<open>Counting\<close>

definition valid_counts :: "(int \<times> int) list \<Rightarrow> bool" where
  "valid_counts counts \<longleftrightarrow> sorted_wrt (<) (map fst counts) \<and> (\<forall>p \<in> set counts. 1 \<le> snd p)"

lemma count_timestamps_plain:
  assumes "dict_ok d" and "\<forall>t \<in> set ts. 0 \<le> t"
  shows "\<exists>d'. count_timestamps (map PInt ts) d = Inr d' \<and> dict_ok d' \<and>
    (\<forall>t. map_of d' t = (if t \<in> set ts \<or> t \<in> dom (map_of d)
       then Some ((case map_of d t of None \<Rightarrow> 0 | Some c \<Rightarrow> c) + int (count_list ts t)) else None))"
  using assms
proof (induction ts arbitrary: d)
  case Nil
  then show ?case by (auto split: option.split)
next
  case (Cons t ts)
  let ?d = "AList.update t ((case map_of d t of None \<Rightarrow> 0 | Some c \<Rightarrow> c) + 1) d"
  have "dict_ok ?d" using Cons.prems(1) by (rule AList.distinct_update)
  from Cons.IH [OF this] Cons.prems(2) obtain d' where d': "count_timestamps (map PInt ts) ?d = Inr d'" "dict_ok d'"
    "\<forall>x. map_of d' x = (if x \<in> set ts \<or> x \<in> dom (map_of ?d)
       then Some ((case map_of ?d x of None \<Rightarrow> 0 | Some c \<Rightarrow> c) + int (count_list ts x)) else None)" by auto
  have "count_timestamps (map PInt (t # ts)) d = Inr d'" using d'(1) Cons.prems(2) by (simp add: int_of_def)
  moreover have "map_of d' x = (if x \<in> set (t # ts) \<or> x \<in> dom (map_of d)
       then Some ((case map_of d x of None \<Rightarrow> 0 | Some c \<Rightarrow> c) + int (count_list (t # ts) x)) else None)" for x
    using d'(3) by (auto simp: AList.update_conv' split: option.splits)
  ultimately show ?case using d'(2) by blast
qed

lemma sort_dict:
  assumes "dict_ok (d :: (int \<times> int) list)"
  shows "sorted_wrt (<) (map fst (sort d))" and "map_of (sort d) = map_of d"
proof -
  have k: "dict_ok (sort d)"
    using assms by (metis mset_map mset_sort mset_eq_imp_distinct_iff)
  have "sorted_wrt (\<le>) (sort d)" by (simp add: sorted_sort)
  then have "sorted (map fst (sort d))"
    unfolding sorted_map by (rule sorted_wrt_mono_rel [rotated]) (auto simp: less_eq_prod_def)
  with k show "sorted_wrt (<) (map fst (sort d))" by (simp add: strict_sorted_iff)
  show "map_of (sort d) = map_of d"
    by (rule map_of_inject_set [THEN iffD2]) (use assms k in auto)
qed

lemma timestamp_counts_plain:
  assumes "ts \<noteq> []" and "\<forall>t \<in> set ts. 0 \<le> t"
  obtains cs where "timestamp_counts (map PInt ts) = Inr cs" and "sorted_wrt (<) (map fst cs)"
    and "\<forall>t. map_of cs t = (if t \<in> set ts then Some (int (count_list ts t)) else None)"
proof -
  obtain d where d: "count_timestamps (map PInt ts) [] = Inr d" "dict_ok d"
    "\<forall>t. map_of d t = (if t \<in> set ts \<or> t \<in> dom (map_of ([] :: (int, int) dict))
       then Some ((case map_of ([] :: (int, int) dict) t of None \<Rightarrow> 0 | Some c \<Rightarrow> c) + int (count_list ts t)) else None)"
    using count_timestamps_plain [of "[]" ts] assms(2) by auto
  have "d \<noteq> []" using d(3) assms(1) by (cases ts) (auto dest: spec [of _ "hd ts"])
  then have "timestamp_counts (map PInt ts) = Inr (sort d)" using d(1) by (simp add: timestamp_counts_def)
  then show thesis using that sort_dict [OF d(2)] d(3) by simp
qed

lemma sorted_dict_unique:
  assumes "sorted_wrt (<) (map fst xs)" and "sorted_wrt (<) (map fst ys)" and "map_of xs = map_of (ys :: (int \<times> int) list)"
  shows "xs = ys"
proof -
  have d: "dict_ok xs" "dict_ok ys" using assms(1,2) by (simp_all add: strict_sorted_iff)
  have s: "set xs = set ys" using map_of_inject_set [OF d] assms(3) by blast
  have "map fst xs = map fst ys"
    by (rule sorted_distinct_set_unique) (use assms(1,2) s in \<open>auto simp: strict_sorted_iff\<close>)
  moreover have "map snd xs = map snd ys"
  proof -
    have "map snd xs = map (\<lambda>k. the (map_of xs k)) (map fst xs)" using d(1) by (auto simp: map_of_is_SomeI)
    also have "\<dots> = map (\<lambda>k. the (map_of ys k)) (map fst ys)" using assms(3) calculation \<open>map fst xs = map fst ys\<close> by simp
    also have "\<dots> = map snd ys" using d(2) by (auto simp: map_of_is_SomeI)
    finally show ?thesis .
  qed
  ultimately show ?thesis by (metis zip_map_fst_snd)
qed

section \<open>Cuts\<close>

lemma foldl_choice:
  "foldl (\<lambda>best i. if key_less (key i) (key best) then i else best) b js \<in> insert b (set js)"
proof (induction js arbitrary: b)
  case (Cons j js)
  then show ?case using Cons.IH [of j] Cons.IH [of b] by auto
qed simp

lemma best_index_range:
  assumes "lowest \<le> highest"
  shows "lowest \<le> best_index key lowest highest \<and> best_index key lowest highest \<le> highest"
  using foldl_choice [of key lowest "[Suc lowest..<Suc highest]"] assms
  unfolding best_index_def set_upt by (elim insertE) (simp_all del: upt_Suc)

lemma place_cuts_ok:
  assumes "sorted_wrt (<) cuts" and "length cuts = position" and "position + length targets = 4" and "5 \<le> n"
    and "cuts \<noteq> [] \<Longrightarrow> last cuts + 6 \<le> n + position" and "\<forall>c \<in> set cuts. c < n"
  shows "\<exists>cs. place_cuts n cumulative row_total position ct cuts targets = Inr cs \<and> sorted_wrt (<) cs \<and> length cs = 4 \<and>
    (\<forall>c \<in> set cs. c + 1 < n)"
  using assms
proof (induction targets arbitrary: position ct cuts)
  case Nil
  have "\<forall>c \<in> set cuts. c \<le> last cuts"
    using Nil.prems(1) by (induction cuts) (auto simp: less_imp_le)
  moreover have "cuts \<noteq> []" using Nil.prems by auto
  ultimately show ?case using Nil.prems by (auto dest!: bspec)
next
  case (Cons tg targets)
  obtain nm fr where tg: "tg = (nm, fr)" by (cases tg)
  define lowest where "lowest = (if cuts = [] then position else last cuts + 1)"
  define highest where "highest = n + position - 5"
  have h: "int n - (int (length ROLE_TARGETS) - 1 - int position) - 1 = int highest"
    using Cons.prems(4) by (simp add: ROLE_TARGETS_def highest_def)
  have le: "lowest \<le> highest" using Cons.prems by (auto simp: lowest_def highest_def)
  define b where "b = best_index (cut_key cumulative row_total (fadd ct fr)) lowest highest"
  have b: "lowest \<le> b" "b \<le> highest" using best_index_range [OF le] unfolding b_def by blast+
  have mx: "\<forall>c \<in> set cuts. c \<le> last cuts"
    using Cons.prems(1) by (induction cuts) (auto simp: less_imp_le)
  have s: "sorted_wrt (<) (cuts @ [b])"
    using Cons.prems(1) b(1) mx by (auto simp: sorted_wrt_append lowest_def split: if_splits)
  have "\<exists>cs. place_cuts n cumulative row_total (Suc position) (fadd ct fr) (cuts @ [b]) targets = Inr cs \<and>
      sorted_wrt (<) cs \<and> length cs = 4 \<and> (\<forall>c \<in> set cs. c + 1 < n)"
    by (rule Cons.IH [OF s]) (use Cons.prems b in \<open>auto simp: highest_def\<close>)
  moreover have "place_cuts n cumulative row_total position ct cuts (tg # targets) =
      place_cuts n cumulative row_total (Suc position) (fadd ct fr) (cuts @ [b]) targets"
    using le unfolding tg place_cuts.simps Let_def h b_def lowest_def by simp
  ultimately show ?case by simp
qed

section \<open>Segments\<close>

fun segments :: "nat \<Rightarrow> nat list \<Rightarrow> 'a list \<Rightarrow> 'a list list" where
  "segments start [] xs = []"
| "segments start (k # ks) xs = take (Suc k - start) xs # segments (Suc k) ks (drop (Suc k - start) xs)"

fun boundaries_of :: "int \<Rightarrow> (string \<times> pyfloat) list \<Rightarrow> (int \<times> int) list list \<Rightarrow> role_boundary list" where
  "boundaries_of row_total ((role, fraction) # targets) (seg # segs) =
     \<lparr>rb_role = role, rb_upper_timestamp = fst (last seg), rb_row_count = total_rows seg, rb_target_fraction = fraction,
      rb_actual_fraction = fl (of_int (total_rows seg) / of_int row_total)\<rparr> # boundaries_of row_total targets segs"
| "boundaries_of _ _ _ = []"

lemma length_segments [simp]: "length (segments start ks xs) = length ks"
  by (induction start ks xs rule: segments.induct) auto

lemma segments_concat:
  assumes "sorted_wrt (<) ks" and "ks \<noteq> []" and "start \<le> hd ks" and "Suc (last ks) = start + length xs"
  shows "concat (segments start ks xs) = xs \<and> [] \<notin> set (segments start ks xs)"
  using assms
proof (induction start ks xs rule: segments.induct)
  case (2 start k ks xs)
  show ?case
  proof (cases "ks = []")
    case True then show ?thesis using "2.prems" by auto
  next
    case False
    have lt: "k < hd ks" "k < last ks" using "2.prems"(1) False by (cases ks; auto)+
    have L: "Suc (last ks) = start + length xs" "start \<le> k" using "2.prems"(3,4) False by simp_all
    have len: "Suc (last ks) = Suc k + length (drop (Suc k - start) xs)" and lk: "Suc k - start < length xs"
      using L lt(2) by simp_all
    have IH: "concat (segments (Suc k) ks (drop (Suc k - start) xs)) = drop (Suc k - start) xs \<and>
        [] \<notin> set (segments (Suc k) ks (drop (Suc k - start) xs))"
    proof (rule "2.IH")
      show "Suc k \<le> hd ks" using lt(1) by (rule Suc_leI)
    qed (use "2.prems"(1) False len in simp_all)
    have "take (Suc k - start) xs \<noteq> []" using lk "2.prems"(3) by auto
    with IH show ?thesis by auto
  qed
qed simp

lemma running_totals_nth:
  "i < length cs \<Longrightarrow> running_totals r cs ! i = r + total_rows (take (Suc i) cs)"
proof (induction r cs arbitrary: i rule: running_totals.induct)
  case (2 r t c cs)
  then show ?case by (cases i) (auto simp: total_rows_def)
qed simp

lemma total_rows_append [simp]: "total_rows (xs @ ys) = total_rows xs + total_rows ys"
  by (simp add: total_rows_def)

lemma total_rows_Cons [simp]: "total_rows (p # xs) = snd p + total_rows xs"
  by (simp add: total_rows_def)

lemma total_rows_Nil [simp]: "total_rows [] = 0"
  by (simp add: total_rows_def)

lemma total_rows_pos: "xs \<noteq> [] \<Longrightarrow> \<forall>p \<in> set xs. 1 \<le> snd p \<Longrightarrow> 1 \<le> total_rows xs"
proof (induction xs)
  case (Cons x xs) then show ?case by (cases xs) auto
qed simp

lemma role_boundaries_ok:
  assumes "\<And>j. j < length ks \<Longrightarrow> (if position + j < length cuts then cuts ! (position + j) else length counts - 1) = ks ! j"
    and "length ks = length targets" and "sorted_wrt (<) ks" and "\<forall>k \<in> set ks. k < length counts"
    and "ks \<noteq> [] \<Longrightarrow> start \<le> hd ks" and "previous = total_rows (take start counts)" and "\<forall>p \<in> set counts. 1 \<le> snd p"
  shows "role_boundaries counts (running_totals 0 counts) row_total cuts position previous targets =
    Inr (boundaries_of row_total targets (segments start ks (drop start counts)))"
  using assms
proof (induction targets arbitrary: position ks start previous)
  case (Cons tg targets)
  obtain role fr where tg: "tg = (role, fr)" by (cases tg)
  obtain k ks' where ks: "ks = k # ks'" using Cons.prems(2) by (cases ks) auto
  have idx: "(if position < length cuts then cuts ! position else length counts - 1) = k"
    using Cons.prems(1) [of 0] ks by (auto split: if_splits)
  have k: "k < length counts" "start \<le> k" using Cons.prems(4,5) ks by auto
  have cum: "running_totals 0 counts ! k = total_rows (take (Suc k) counts)"
    using running_totals_nth [OF k(1), of 0] by simp
  define seg where "seg = take (Suc k - start) (drop start counts)"
  have split: "take (Suc k) counts = take start counts @ seg"
    using k by (simp add: seg_def take_add [symmetric] del: take_Suc)
  have rc: "running_totals 0 counts ! k - previous = total_rows seg"
    using cum split Cons.prems(6) by simp
  have len: "length seg = Suc k - start" using k by (simp add: seg_def)
  have "set seg \<subseteq> set counts" unfolding seg_def by (meson set_take_subset set_drop_subset order_trans)
  then have pos: "1 \<le> total_rows seg" using total_rows_pos [of seg] len k Cons.prems(7) by fastforce
  have last: "last seg = counts ! k"
  proof -
    have "seg \<noteq> []" using len k by auto
    then have "last seg = seg ! (k - start)" using len k by (simp add: last_conv_nth Suc_diff_le)
    then show ?thesis using k by (simp add: seg_def)
  qed
  have rest: "role_boundaries counts (running_totals 0 counts) row_total cuts (Suc position) (running_totals 0 counts ! k) targets =
      Inr (boundaries_of row_total targets (segments (Suc k) ks' (drop (Suc k) counts)))"
  proof (rule Cons.IH)
    show "(if Suc position + j < length cuts then cuts ! (Suc position + j) else length counts - 1) = ks' ! j"
      if "j < length ks'" for j using Cons.prems(1) [of "Suc j"] that ks by (auto split: if_splits)
    show "ks' \<noteq> [] \<Longrightarrow> Suc k \<le> hd ks'" using Cons.prems(3) ks by (cases ks') auto
  qed (use Cons.prems ks cum in auto)
  have drop: "drop (Suc k - start) (drop start counts) = drop (Suc k) counts" using k by simp
  show ?case using rest rc pos last
    unfolding tg ks role_boundaries.simps Let_def idx segments.simps drop
    by (simp add: seg_def [symmetric])
qed simp

lemma check_counts_ok:
  "sorted_wrt (<) (map fst cs) \<Longrightarrow> \<forall>p \<in> set cs. 1 \<le> snd p \<Longrightarrow>
   (\<And>p. prev = Some p \<Longrightarrow> \<forall>q \<in> set cs. p < fst q) \<Longrightarrow> check_counts prev cs = Inr ()"
proof (induction cs arbitrary: prev)
  case (Cons q cs)
  obtain t c where q: "q = (t, c)" by (cases q)
  have "check_counts (Some t) cs = Inr ()" by (rule Cons.IH) (use Cons.prems(1,2) q in auto)
  moreover have "\<not> (case prev of None \<Rightarrow> False | Some p \<Rightarrow> t \<le> p)"
    using Cons.prems(3) q by (cases prev) auto
  moreover have "1 \<le> c" using Cons.prems(2) q by simp
  ultimately show ?case by (simp add: q)
qed simp

section \<open>The declared fractions\<close>

lemma round_half_even_near:
  assumes "\<bar>x - of_int m\<bar> < 1/2" shows "round_half_even x = m"
proof (cases "of_int m \<le> x")
  case True
  then have "\<lfloor>x\<rfloor> = m" using assms by (simp add: floor_eq_iff)
  then show ?thesis using assms True by (simp add: round_half_even_def)
next
  case False
  then have "\<lfloor>x\<rfloor> = m - 1" using assms by (simp add: floor_eq_iff)
  then show ?thesis using assms False by (simp add: round_half_even_def Let_def)
qed

lemma fl_grid:
  assumes "pow2 e \<le> x" and "x < pow2 (e + 1)" and "-1022 \<le> e" and "e \<le> 1000"
    and "\<bar>x / pow2 (e - 52) - of_int m\<bar> < 1/2"
  shows "fl x = Fin (of_int m * pow2 (e - 52))"
proof -
  have pos: "0 < x" using assms(1) pow2_pos [of e] by linarith
  have u: "ulp x = pow2 (e - 52)" using ilog2_unique [OF assms(1,2)] assms(3) by (simp add: ulp_def)
  have y: "fl_raw x = of_int m * pow2 (e - 52)"
    using pos round_half_even_near [OF assms(5)] by (simp add: fl_raw_def fl_pos_def u)
  have "fl_pos x \<le> pow2 (max (ilog2 x) (-1022) + 1)" by (rule fl_pos_binade(1) [OF pos refl])
  then have "fl_raw x \<le> pow2 (e + 1)" using ilog2_unique [OF assms(1,2)] assms(3) pos by (simp add: fl_raw_def)
  also have "\<dots> < pow2 1024" using assms(4) by (intro pow2_strict_mono) simp
  finally have "fl_raw x < pow2 1024" .
  moreover have "0 \<le> fl_raw x" using pos by (simp add: fl_raw_nonneg)
  moreover have "- pow2 1024 < (0::rat)" by simp
  ultimately show ?thesis unfolding fl_def Let_def using y by auto
qed

lemma role_fractions:
  "fl (55/100) = Fin (2476979795053773/4503599627370496)"
  "fl (12/100) = Fin (1080863910568919/9007199254740992)"
  "fl (9/100) = Fin (3242591731706757/36028797018963968)"
  "fl (15/100) = Fin (5404319552844595/36028797018963968)"
  using fl_grid [of "-1" "55/100" 4953959590107546] fl_grid [of "-4" "12/100" 8646911284551352]
    fl_grid [of "-4" "9/100" 6485183463413514] fl_grid [of "-3" "15/100" 5404319552844595]
  by (simp_all add: pow2_def)

lemma sum_steps:
  "fl (6034823500676465/9007199254740992) = Fin (6034823500676465/9007199254740992)"
  "fl (27381885734412617/36028797018963968) = Fin (3422735716801577/4503599627370496)"
  "fl (30624477466119373/36028797018963968) = Fin (7656119366529843/9007199254740992)"
  "fl (36028797018963967/36028797018963968) = Fin 1"
  using fl_grid [of "-1" "6034823500676465/9007199254740992" 6034823500676465]
   fl_grid [of "-1" "27381885734412617/36028797018963968" 6845471433603154]
   fl_grid [of "-1" "30624477466119373/36028797018963968" 7656119366529843]
   fl_grid [of "-1" "36028797018963967/36028797018963968" 9007199254740992]
  by (simp_all add: pow2_def)

lemma sum_corrections:
  "fl (- (1080863910568919 / 9007199254740992)) = Fin (- (1080863910568919 / 9007199254740992))"
  "fl (- (810647932926689 / 9007199254740992)) = Fin (- (810647932926689 / 9007199254740992))"
  "fl (- (1351079888211149 / 9007199254740992)) = Fin (- (1351079888211149 / 9007199254740992))"
  "fl (1 / 36028797018963968) = Fin (1 / 36028797018963968)"
  "fl (- (1 / 36028797018963968)) = Fin (- (1 / 36028797018963968))"
  "fl (1 / 18014398509481984) = Fin (1 / 18014398509481984)"
  "fl (36028797018963969 / 36028797018963968) = Fin 1"
proof -
  show "fl (- (1080863910568919 / 9007199254740992)) = Fin (- (1080863910568919 / 9007199254740992))" using fl_exact [of "-1080863910568919" "-53"] by (simp add: pow2_def)
  show "fl (- (810647932926689 / 9007199254740992)) = Fin (- (810647932926689 / 9007199254740992))" using fl_exact [of "-810647932926689" "-53"] by (simp add: pow2_def)
  show "fl (- (1351079888211149 / 9007199254740992)) = Fin (- (1351079888211149 / 9007199254740992))" using fl_exact [of "-1351079888211149" "-53"] by (simp add: pow2_def)
  show "fl (1 / 36028797018963968) = Fin (1 / 36028797018963968)" using fl_exact [of 1 "-55"] by (simp add: pow2_def)
  show "fl (- (1 / 36028797018963968)) = Fin (- (1 / 36028797018963968))" using fl_exact [of "-1" "-55"] by (simp add: pow2_def)
  show "fl (1 / 18014398509481984) = Fin (1 / 18014398509481984)" using fl_exact [of 1 "-54"] by (simp add: pow2_def)
  show "fl (36028797018963969 / 36028797018963968) = Fin 1" using fl_grid [of 0 "36028797018963969/36028797018963968" 4503599627370496] by (simp add: pow2_def)
qed

lemma target_fractions: "map snd ROLE_TARGETS = [Fin (2476979795053773/4503599627370496),
   Fin (1080863910568919/9007199254740992), Fin (3242591731706757/36028797018963968),
   Fin (3242591731706757/36028797018963968), Fin (5404319552844595/36028797018963968)]"
  unfolding ROLE_TARGETS_def list.map snd_conv role_fractions ..

lemma target_sum: "py_sum (map snd ROLE_TARGETS) = Fin 1"
  unfolding target_fractions
  by (simp add: py_sum_def neumaier_step_def fsub_def Let_def sum_steps sum_corrections neumaier_result_def is_finite_def)

lemma fl_not_negative: "0 \<le> x \<Longrightarrow> \<not> flt (fl x) (Fin 0)"
proof -
  assume "0 \<le> x"
  then have n: "0 \<le> fl_raw x" by (rule fl_raw_nonneg)
  moreover have "- pow2 1024 < (0::rat)" by simp
  ultimately have "\<not> fl_raw x \<le> - pow2 1024" by linarith
  then show ?thesis using n by (simp add: fl_def Let_def)
qed

lemma validate_targets_ok: "validate_targets = Inr ()"
proof -
  have "fabs (fsub (py_sum (map snd ROLE_TARGETS)) (Fin 1)) = Fin 0" by (simp add: target_sum fsub_def)
  moreover have "\<not> flt (fl (1 / 1000000000)) (Fin 0)" by (rule fl_not_negative) simp
  moreover have "\<not> list_ex (\<lambda>p. fle (snd p) (Fin 0)) ROLE_TARGETS"
  proof -
    have "list_ex (\<lambda>p. fle (snd p) (Fin 0)) xs = list_ex (\<lambda>x. fle x (Fin 0)) (map snd xs)" for xs :: "(string \<times> pyfloat) list"
      by (induction xs) auto
    then show ?thesis by (simp add: target_fractions)
  qed
  moreover have "card (set (map fst ROLE_TARGETS)) = length ROLE_TARGETS"
    by (simp add: ROLE_TARGETS_def)
  ultimately show ?thesis unfolding validate_targets_def Let_def by simp
qed

lemma choose_boundaries_segments:
  assumes "valid_counts counts" and "5 \<le> length counts"
  obtains segs where "choose_boundaries counts = Inr (boundaries_of (total_rows counts) ROLE_TARGETS segs)"
    and "concat segs = counts" and "[] \<notin> set segs" and "length segs = 5"
proof -
  let ?n = "length counts"
  have v: "check_counts None counts = Inr ()" using check_counts_ok [of counts None] assms(1) unfolding valid_counts_def by simp
  obtain cuts where cuts: "place_cuts ?n (running_totals 0 counts) (total_rows counts) 0 (Fin 0) [] (butlast ROLE_TARGETS) = Inr cuts"
    "sorted_wrt (<) cuts" "length cuts = 4" "\<forall>c \<in> set cuts. c + 1 < ?n"
    using place_cuts_ok [of "[]" 0 "butlast ROLE_TARGETS" ?n "running_totals 0 counts" "total_rows counts" "Fin 0"] assms(2)
    by (auto simp: ROLE_TARGETS_def)
  define ks where "ks = cuts @ [?n - 1]"
  have ks: "sorted_wrt (<) ks" "length ks = 5" "\<forall>k \<in> set ks. k < ?n" "last ks = ?n - 1" "ks \<noteq> []"
    using cuts assms(2) by (auto simp: ks_def sorted_wrt_append)
  have "role_boundaries counts (running_totals 0 counts) (total_rows counts) cuts 0 0 ROLE_TARGETS =
      Inr (boundaries_of (total_rows counts) ROLE_TARGETS (segments 0 ks (drop 0 counts)))"
  proof (rule role_boundaries_ok)
    show "(if 0 + j < length cuts then cuts ! (0 + j) else ?n - 1) = ks ! j" if "j < length ks" for j
      using that cuts(3) by (auto simp: ks_def nth_append less_Suc_eq)
  qed (use ks assms(1) in \<open>auto simp: ROLE_TARGETS_def valid_counts_def\<close>)
  moreover have "concat (segments 0 ks counts) = counts \<and> [] \<notin> set (segments 0 ks counts)"
    by (rule segments_concat) (use ks assms(2) in auto)
  moreover have "\<not> ?n < length ROLE_TARGETS" using assms(2) by (simp add: ROLE_TARGETS_def)
  ultimately show thesis
    using that [of "segments 0 ks counts"] ks(2) v cuts(1) by (simp add: choose_boundaries_def validate_targets_ok Let_def)
qed

section \<open>Verification accepts\<close>

text \<open>Processing one segment whose timestamps all belong to one role.\<close>

lemma verify_loop_same:
  assumes "\<forall>p \<in> set seg. role_for_timestamp (fst p) bs = Inr r" and "map_of obs r = Some c" and "last seen = r" and "seen \<noteq> []"
  shows "verify_loop bs (seg @ rest) obs seen = verify_loop bs rest (AList.update r (c + total_rows seg) obs) seen"
  using assms
proof (induction seg arbitrary: obs c)
  case Nil
  then show ?case by (simp add: update_triv)
next
  case (Cons p seg)
  have "map_of (AList.update r (c + snd p) obs) r = Some (c + snd p)" by (simp add: AList.update_conv')
  from Cons.IH [OF _ this] Cons.prems show ?case
    by (cases p) (simp add: AList.update_last add.assoc)
qed

lemma verify_loop_segment:
  assumes "\<forall>p \<in> set seg. role_for_timestamp (fst p) bs = Inr r" and "seg \<noteq> []" and "map_of obs r = Some 0" and "r \<notin> set seen"
  shows "verify_loop bs (seg @ rest) obs seen = verify_loop bs rest (AList.update r (total_rows seg) obs) (seen @ [r])"
proof -
  obtain p seg' where seg: "seg = p # seg'" using assms(2) by (cases seg) auto
  have m: "map_of (AList.update r (snd p) obs) r = Some (snd p)" by (simp add: AList.update_conv')
  have "seen = [] \<or> last seen \<noteq> r" using assms(4) last_in_set by fastforce
  then have "verify_loop bs (seg @ rest) obs seen =
      verify_loop bs (seg' @ rest) (AList.update r (snd p) obs) (seen @ [r])"
    using assms(1,3,4) seg by (cases p) simp
  also have "\<dots> = verify_loop bs rest (AList.update r (total_rows seg) obs) (seen @ [r])"
    using verify_loop_same [of seg' bs r "AList.update r (snd p) obs" "snd p" "seen @ [r]" rest] assms(1) m seg
    by (simp add: AList.update_last)
  finally show ?thesis .
qed

lemma update_zero_entry:
  assumes "r \<notin> set (map fst pre)"
  shows "AList.update r v (pre @ (r, c) # post) = pre @ (r, v) # post"
  using assms by (induction pre) auto

definition roles_counts :: "role_boundary list \<Rightarrow> (string, int) dict" where
  "roles_counts bs = map (\<lambda>b. (rb_role b, rb_row_count b)) bs"

lemma roles_counts_keys [simp]: "map fst (roles_counts bs) = map rb_role bs"
  by (simp add: roles_counts_def o_def)

lemma verify_loop_segments:
  assumes "list_all2 (\<lambda>b seg. seg \<noteq> [] \<and> rb_row_count b = total_rows seg \<and>
      (\<forall>p \<in> set seg. role_for_timestamp (fst p) bs = Inr (rb_role b))) rest segs"
    and "distinct (map rb_role (done_bs @ rest))"
  shows "verify_loop bs (concat segs) (roles_counts done_bs @ map (\<lambda>b. (rb_role b, 0)) rest) (map rb_role done_bs) =
    Inr (roles_counts (done_bs @ rest), map rb_role (done_bs @ rest))"
  using assms
proof (induction rest segs arbitrary: done_bs rule: list_all2_induct)
  case (Cons b rest seg segs)
  let ?obs = "roles_counts done_bs @ map (\<lambda>b. (rb_role b, 0)) (b # rest)"
  have fresh: "rb_role b \<notin> set (map fst (roles_counts done_bs))" using Cons.prems by auto
  then have "map_of (roles_counts done_bs) (rb_role b) = None" by (simp only: map_of_eq_None_iff set_map not_False_eq_True)
  then have m: "map_of ?obs (rb_role b) = Some 0" by (simp add: map_add_def)
  have u: "AList.update (rb_role b) (total_rows seg) ?obs = roles_counts (done_bs @ [b]) @ map (\<lambda>b. (rb_role b, 0)) rest"
    using update_zero_entry [OF fresh] Cons.hyps(1) by (simp add: roles_counts_def)
  have "verify_loop bs (seg @ concat segs) ?obs (map rb_role done_bs) =
      verify_loop bs (concat segs) (roles_counts (done_bs @ [b]) @ map (\<lambda>b. (rb_role b, 0)) rest) (map rb_role (done_bs @ [b]))"
    using verify_loop_segment [OF _ _ m, of seg bs "map rb_role done_bs" "concat segs"] Cons.hyps(1) Cons.prems u by auto
  also have "\<dots> = Inr (roles_counts ((done_bs @ [b]) @ rest), map rb_role ((done_bs @ [b]) @ rest))"
    by (rule Cons.IH) (use Cons.prems in simp)
  finally show ?case by simp
qed (simp add: roles_counts_def)

text \<open>Boundaries taken from the segments of an ascending list own exactly their segment.\<close>

lemma role_of_segment:
  assumes "sorted_wrt (<) (map fst (concat segs))" and "[] \<notin> set segs" and "length targets = length segs"
  shows "list_all2 (\<lambda>b seg. seg \<noteq> [] \<and> rb_row_count b = total_rows seg \<and>
      (\<forall>p \<in> set seg. role_for_timestamp (fst p) (boundaries_of row_total targets segs) = Inr (rb_role b)))
      (boundaries_of row_total targets segs) segs"
  using assms
proof (induction targets segs rule: boundaries_of.induct)
  case (1 row_total role fr targets seg segs)
  let ?b = "\<lparr>rb_role = role, rb_upper_timestamp = fst (last seg), rb_row_count = total_rows seg, rb_target_fraction = fr,
      rb_actual_fraction = fl (of_int (total_rows seg) / of_int row_total)\<rparr>"
  have ne: "seg \<noteq> []" using "1.prems"(2) by auto
  have mine: "fst p \<le> fst (last seg)" if "p \<in> set seg" for p
  proof -
    obtain ys y where sy: "seg = ys @ [y]" using ne by (cases seg rule: rev_cases) auto
    show ?thesis using that "1.prems"(1) by (auto simp: sy sorted_wrt_append intro: less_imp_le)
  qed
  have later: "fst (last seg) < fst p" if "p \<in> set (concat segs)" for p
    using "1.prems"(1) ne that by (auto simp: sorted_wrt_append)
  have IH: "list_all2 (\<lambda>b seg. seg \<noteq> [] \<and> rb_row_count b = total_rows seg \<and>
      (\<forall>p \<in> set seg. role_for_timestamp (fst p) (boundaries_of row_total targets segs) = Inr (rb_role b)))
      (boundaries_of row_total targets segs) segs"
    by (rule "1.IH") (use "1.prems" in \<open>auto simp: sorted_wrt_append\<close>)
  have "list_all2 (\<lambda>b seg. seg \<noteq> [] \<and> rb_row_count b = total_rows seg \<and>
      (\<forall>p \<in> set seg. role_for_timestamp (fst p) (?b # boundaries_of row_total targets segs) = Inr (rb_role b)))
      (boundaries_of row_total targets segs) segs"
  proof (rule list.rel_mono_strong [OF IH])
    fix b and sg :: "(int \<times> int) list"
    assume sg: "sg \<in> set segs" and
      h: "sg \<noteq> [] \<and> rb_row_count b = total_rows sg \<and>
        (\<forall>p \<in> set sg. role_for_timestamp (fst p) (boundaries_of row_total targets segs) = Inr (rb_role b))"
    have "\<not> fst p \<le> fst (last seg)" if "p \<in> set sg" for p
    proof -
      have "p \<in> set (concat segs)" using that sg by auto
      from later [OF this] show ?thesis by simp
    qed
    with h show "sg \<noteq> [] \<and> rb_row_count b = total_rows sg \<and>
        (\<forall>p \<in> set sg. role_for_timestamp (fst p) (?b # boundaries_of row_total targets segs) = Inr (rb_role b))"
      by simp
  qed
  with mine ne show ?case by simp
qed auto

lemma roles_of_boundaries: "length targets = length segs \<Longrightarrow> map rb_role (boundaries_of n targets segs) = map fst targets"
  by (induction n targets segs rule: boundaries_of.induct) auto

lemma uppers_sorted:
  assumes "sorted_wrt (<) (map fst (concat segs))" and "[] \<notin> set segs"
  shows "sorted_wrt (<) (map rb_upper_timestamp (boundaries_of n targets segs)) \<and>
    (\<forall>b \<in> set (boundaries_of n targets segs). rb_upper_timestamp b \<in> fst ` set (concat segs))"
  using assms
proof (induction n targets segs rule: boundaries_of.induct)
  case (1 row_total role fr targets seg segs)
  have ne: "seg \<noteq> []" using "1.prems"(2) by auto
  have IH: "sorted_wrt (<) (map rb_upper_timestamp (boundaries_of row_total targets segs)) \<and>
    (\<forall>b \<in> set (boundaries_of row_total targets segs). rb_upper_timestamp b \<in> fst ` set (concat segs))"
    by (rule "1.IH") (use "1.prems" in \<open>auto simp: sorted_wrt_append\<close>)
  have "\<forall>p \<in> set (concat segs). fst (last seg) < fst p"
    using "1.prems"(1) ne by (auto simp: sorted_wrt_append)
  then have "\<forall>b \<in> set (boundaries_of row_total targets segs). fst (last seg) < rb_upper_timestamp b"
    using IH by (fastforce simp del: set_concat)
  with IH ne show ?case by (auto simp: image_Un)
qed auto

lemma roles_counts_total:
  "length targets = length segs \<Longrightarrow> sum_list (map snd (roles_counts (boundaries_of n targets segs))) = total_rows (concat segs)"
  by (induction n targets segs rule: boundaries_of.induct) (auto simp: roles_counts_def)

lemma check_role_counts_ok:
  "distinct (map rb_role all_bs) \<Longrightarrow> set bs \<subseteq> set all_bs \<Longrightarrow> check_role_counts (roles_counts all_bs) bs = Inr ()"
proof (induction bs)
  case (Cons b bs)
  have "map_of (roles_counts all_bs) (rb_role b) = Some (rb_row_count b)"
    by (rule map_of_is_SomeI) (use Cons.prems in \<open>auto simp: roles_counts_def o_def\<close>)
  then show ?case using Cons by simp
qed simp

lemma distinct_roles: "distinct ROLE_NAMES"
  by (simp add: ROLE_NAMES_def ROLE_TARGETS_def)

lemma verify_partition_accepts:
  assumes "sorted_wrt (<) (map fst counts)" and "concat segs = counts" and "[] \<notin> set segs" and "length segs = 5"
  shows "verify_partition counts (boundaries_of n ROLE_TARGETS segs) =
    Inr \<lparr>ps_total_rows = total_rows counts, ps_role_counts = roles_counts (boundaries_of n ROLE_TARGETS segs)\<rparr>"
proof -
  let ?bs = "boundaries_of n ROLE_TARGETS segs"
  have len: "length ROLE_TARGETS = length segs" using assms(4) by (simp add: ROLE_TARGETS_def)
  have roles: "map rb_role ?bs = ROLE_NAMES" using roles_of_boundaries [OF len] by (simp add: ROLE_NAMES_def)
  have seg: "list_all2 (\<lambda>b seg. seg \<noteq> [] \<and> rb_row_count b = total_rows seg \<and>
      (\<forall>p \<in> set seg. role_for_timestamp (fst p) ?bs = Inr (rb_role b))) ?bs segs"
    by (rule role_of_segment) (use assms len in auto)
  have zeros: "map (\<lambda>nm. (nm, 0)) ROLE_NAMES = roles_counts [] @ map (\<lambda>b. (rb_role b, 0 :: int)) ?bs"
    unfolding roles [symmetric] by (simp add: roles_counts_def)
  have loop: "verify_loop ?bs counts (map (\<lambda>nm. (nm, 0)) ROLE_NAMES) [] = Inr (roles_counts ?bs, ROLE_NAMES)"
    using verify_loop_segments [OF seg, of "[]"] roles distinct_roles assms(2) unfolding zeros by simp
  have up: "map rb_upper_timestamp ?bs = sort (remdups (map rb_upper_timestamp ?bs))"
    using uppers_sorted [of segs n ROLE_TARGETS] assms by (simp add: strict_sorted_iff sorted_sort_id distinct_remdups_id)
  have sum: "sum_list (map snd (roles_counts ?bs)) = total_rows counts" using roles_counts_total [OF len, of n] assms(2) by simp
  have chk: "check_role_counts (roles_counts ?bs) ?bs = Inr ()"
    by (rule check_role_counts_ok) (simp_all add: roles distinct_roles)
  show ?thesis using roles up [symmetric] loop sum chk by (simp add: verify_partition_def Let_def)
qed

section \<open>Digest\<close>

lemma digest_lines_distinct:
  assumes "digest_lines prev pairs = Inr b" and "sorted pairs"
  shows "distinct (map fst pairs) \<and> (\<forall>p \<in> set pairs. snd p \<in> set ROLE_NAMES) \<and> (pairs \<noteq> [] \<longrightarrow> prev \<noteq> Some (fst (hd pairs)))"
  using assms
proof (induction prev pairs arbitrary: b rule: digest_lines.induct)
  case (2 prev i role pairs)
  then obtain b' where r: "role \<in> set ROLE_NAMES" "prev \<noteq> Some i" "digest_lines (Some i) pairs = Inr b'"
    by (auto simp: res_bind_Inr_iff split: if_splits)
  have IH: "distinct (map fst pairs)" "\<forall>p \<in> set pairs. snd p \<in> set ROLE_NAMES" "pairs \<noteq> [] \<longrightarrow> i \<noteq> fst (hd pairs)"
    using "2.IH" [OF _ _ r(3)] r "2.prems"(2) by auto
  have "i \<notin> fst ` set pairs"
  proof
    assume "i \<in> fst ` set pairs"
    then obtain p where p: "p \<in> set pairs" "fst p = i" by auto
    then obtain q qs where q: "pairs = q # qs" by (cases pairs) auto
    have "(i, role) \<le> q" "q \<le> p" using "2.prems"(2) p(1) q by auto
    then have "i \<le> fst q" "fst q \<le> i" using p(2) by (auto simp: less_eq_prod_def)
    then show False using IH(3) q by simp
  qed
  then show ?case using IH r by simp
qed simp

lemma digest_lines_total:
  "distinct (map fst pairs) \<Longrightarrow> \<forall>p \<in> set pairs. snd p \<in> set ROLE_NAMES \<Longrightarrow>
   (\<And>i. prev = Some i \<Longrightarrow> i \<notin> fst ` set pairs) \<Longrightarrow> \<exists>b. digest_lines prev pairs = Inr b"
proof (induction pairs arbitrary: prev)
  case (Cons p pairs)
  obtain i role where p: "p = (i, role)" by (cases p)
  have "\<exists>b. digest_lines (Some i) pairs = Inr b" by (rule Cons.IH) (use Cons.prems p in auto)
  moreover have "prev \<noteq> Some i" using Cons.prems(3) p by auto
  ultimately show ?case using Cons.prems(2) p by auto
qed simp

section \<open>Properties\<close>

text \<open>
  C11. A partition always exists and is always accepted. For any ascending counts with at least
  five distinct timestamps the chooser raises nothing in spite of its rounded arithmetic, the
  five roles cut the counts into contiguous non-empty segments in chronological order, the row
  counts of the roles add up to all rows, and the independent verification returns these counts.
\<close>

theorem partition_exists_and_verifies:
  assumes "sorted_wrt (<) (map fst counts)" and "\<forall>p \<in> set counts. 1 \<le> snd p" and "5 \<le> length counts"
  shows "\<exists>bs segs. choose_boundaries counts = Inr bs \<and> concat segs = counts \<and> [] \<notin> set segs \<and>
    map rb_role bs = ROLE_NAMES \<and> map rb_upper_timestamp bs = map (\<lambda>seg. fst (last seg)) segs \<and>
    map rb_row_count bs = map (\<lambda>seg. sum_list (map snd seg)) segs \<and>
    verify_partition counts bs = Inr \<lparr>ps_total_rows = sum_list (map snd counts),
      ps_role_counts = map (\<lambda>b. (rb_role b, rb_row_count b)) bs\<rparr>"
proof -
  have "valid_counts counts" using assms(1,2) by (simp add: valid_counts_def)
  then obtain segs where segs: "choose_boundaries counts = Inr (boundaries_of (total_rows counts) ROLE_TARGETS segs)"
    "concat segs = counts" "[] \<notin> set segs" "length segs = 5"
    by (rule choose_boundaries_segments [OF _ assms(3)])
  let ?bs = "boundaries_of (total_rows counts) ROLE_TARGETS segs"
  have len: "length ROLE_TARGETS = length segs" using segs(4) by (simp add: ROLE_TARGETS_def)
  have f: "map rb_upper_timestamp (boundaries_of n targets sg) = map (\<lambda>seg. fst (last seg)) sg \<and>
      map rb_row_count (boundaries_of n targets sg) = map (\<lambda>seg. sum_list (map snd seg)) sg"
    if "length targets = length sg" for n targets sg
    using that by (induction n targets sg rule: boundaries_of.induct) (auto simp: total_rows_def)
  show ?thesis
    by (intro exI [of _ ?bs] exI [of _ segs])
       (use segs f [OF len] roles_of_boundaries [OF len] verify_partition_accepts [OF assms(1) segs(2-4)]
        in \<open>simp add: ROLE_NAMES_def roles_counts_def total_rows_def\<close>)
qed

text \<open>
  The partition depends on the rows only through how often each timestamp occurs: two
  non-empty samples that are permutations of each other have the same counts, and those list
  each occurring timestamp once, in ascending order, with its number of rows.
\<close>

theorem counts_ignore_row_order:
  assumes "ts \<noteq> []" and "\<forall>t \<in> set ts. 0 \<le> t" and "mset ts = mset us"
  shows "timestamp_counts (map PInt us) = timestamp_counts (map PInt ts) \<and>
    (\<exists>cs. timestamp_counts (map PInt ts) = Inr cs \<and> sorted_wrt (<) (map fst cs) \<and>
       set cs = {(t, int (count_list ts t)) | t. t \<in> set ts})"
proof -
  have us: "us \<noteq> []" "\<forall>t \<in> set us. 0 \<le> t" using assms by (auto dest: mset_eq_setD)
  have cl: "count_list us t = count_list ts t" for t using assms(3) by (metis count_mset)
  obtain cs where cs: "timestamp_counts (map PInt ts) = Inr cs" "sorted_wrt (<) (map fst cs)"
    "\<forall>t. map_of cs t = (if t \<in> set ts then Some (int (count_list ts t)) else None)"
    by (rule timestamp_counts_plain [OF assms(1,2)])
  obtain ds where ds: "timestamp_counts (map PInt us) = Inr ds" "sorted_wrt (<) (map fst ds)"
    "\<forall>t. map_of ds t = (if t \<in> set us then Some (int (count_list us t)) else None)"
    by (rule timestamp_counts_plain [OF us])
  have "set us = set ts" using assms(3) by (metis set_mset_mset)
  then have "ds = cs" by (intro sorted_dict_unique [OF ds(2) cs(2)] ext) (simp add: cs(3) ds(3) cl)
  moreover have "set cs = {(t, int (count_list ts t)) | t. t \<in> set ts}"
  proof -
    have "dict_ok cs" using cs(2) by (simp add: strict_sorted_iff)
    then have "(t, c) \<in> set cs \<longleftrightarrow> map_of cs t = Some c" for t c by (simp add: map_of_eq_Some_iff)
    then show ?thesis using cs(3) by (auto split: if_splits)
  qed
  ultimately show ?thesis using cs ds by auto
qed

text \<open>
  The published digest of an assignment does not depend on the order of the pairs, and it
  exists exactly for the assignments that give each identifier one declared role.
\<close>

theorem assignment_digest_is_canonical:
  assumes "mset xs = mset ys"
  shows "assignment_digest xs = assignment_digest ys \<and>
    (\<exists>h. assignment_digest xs = Inr h) = (distinct (map fst xs) \<and> snd ` set xs \<subseteq> set ROLE_NAMES)"
proof
  have s: "sort xs = sort ys" using assms by (metis sorted_list_of_multiset_mset)
  then show "assignment_digest xs = assignment_digest ys" by (simp add: assignment_digest_def)
  have k: "distinct (map fst (sort xs)) = distinct (map fst xs)"
    by (metis mset_map mset_sort mset_eq_imp_distinct_iff)
  show "(\<exists>h. assignment_digest xs = Inr h) = (distinct (map fst xs) \<and> snd ` set xs \<subseteq> set ROLE_NAMES)"
  proof
    assume "\<exists>h. assignment_digest xs = Inr h"
    then obtain b where "digest_lines None (sort xs) = Inr b" by (auto simp: assignment_digest_def res_bind_Inr_iff)
    from digest_lines_distinct [OF this] show "distinct (map fst xs) \<and> snd ` set xs \<subseteq> set ROLE_NAMES" using k by auto
  next
    assume "distinct (map fst xs) \<and> snd ` set xs \<subseteq> set ROLE_NAMES"
    then have "\<exists>b. digest_lines None (sort xs) = Inr b" using k by (intro digest_lines_total) auto
    then show "\<exists>h. assignment_digest xs = Inr h" by (auto simp: assignment_digest_def)
  qed
qed

section \<open>Witnesses\<close>

definition sample_rows :: "int list" where "sample_rows = [30, 10, 20, 30, 50, 90, 90, 100]"
definition sample_counts :: "(int \<times> int) list" where
  "sample_counts = [(10, 1), (20, 1), (30, 2), (50, 1), (90, 2), (100, 1)]"

theorem partition_exists_and_verifies_witness:
  "\<exists>bs s. choose_boundaries sample_counts = Inr bs \<and> verify_partition sample_counts bs = Inr s \<and> ps_total_rows s = 8"
proof -
  have "sorted_wrt (<) (map fst sample_counts)" "\<forall>p \<in> set sample_counts. 1 \<le> snd p" "5 \<le> length sample_counts"
    by (simp_all add: sample_counts_def)
  from partition_exists_and_verifies [OF this] show ?thesis by (auto simp: sample_counts_def)
qed

theorem counts_ignore_row_order_witness:
  "timestamp_counts (map PInt (rev sample_rows)) = timestamp_counts (map PInt sample_rows)"
  using counts_ignore_row_order [of sample_rows "rev sample_rows"] by (simp add: sample_rows_def)

theorem assignment_digest_is_canonical_witness:
  "assignment_digest [(2, ''training''), (1, ''final_test'')] = assignment_digest [(1, ''final_test''), (2, ''training'')] \<and>
   (\<exists>h. assignment_digest [(2, ''training''), (1, ''final_test'')] = Inr h)"
proof -
  let ?xs = "[(2, ''training''), (1, ''final_test'')] :: (int \<times> string) list"
  have "distinct (map fst ?xs) \<and> snd ` set ?xs \<subseteq> set ROLE_NAMES" by (simp add: ROLE_NAMES_def ROLE_TARGETS_def)
  moreover have "mset ?xs = mset [(1, ''final_test''), (2, ''training'')]" by simp
  ultimately show ?thesis using assignment_digest_is_canonical by blast
qed

end
