(* ===== verification/Review_Capacity.thy ===== *)
theory Review_Capacity
  imports Py_Values "HOL-Library.Product_Lexorder"
begin

text \<open>
  \<open>src/src/lane_a/capacity.py\<close>: the review budget a merchant configures, its allocation to the
  highest scores and the smallest workload that reaches a recall. A numpy array is the list
  of its values; \<open>lexsort\<close> is a stable sort by the negated score, with NaN last.
\<close>

definition BELOW_REVIEW_THRESHOLD :: string where "BELOW_REVIEW_THRESHOLD = ''below_review_threshold''"
definition HUMAN_REVIEW :: string where "HUMAN_REVIEW = ''human_review''"
definition UNAVAILABLE_FAIL_CLOSED :: string where "UNAVAILABLE_FAIL_CLOSED = ''unavailable_fail_closed''"
definition POLICY_DECISIONS :: "string list" where
  "POLICY_DECISIONS = [BELOW_REVIEW_THRESHOLD, HUMAN_REVIEW, UNAVAILABLE_FAIL_CLOSED]"

abbreviation CapacityPolicyError :: "string \<Rightarrow> py_exc" where
  "CapacityPolicyError m \<equiv> PyError ''CapacityPolicyError'' m"

record capacity_config =
  cc_daily_review_capacity :: int
  cc_evaluation_period_days :: pyfloat

definition capacity_config_init :: "pyval \<Rightarrow> pyfloat \<Rightarrow> py_exc + capacity_config" where
  "capacity_config_init daily days =
     (case int_of daily of
        None \<Rightarrow> Inl (CapacityPolicyError ''daily_review_capacity must be an int.'')
      | Some c \<Rightarrow>
          if c < 0 then Inl (CapacityPolicyError ''daily_review_capacity must be non-negative.'')
          else if \<not> is_finite days \<or> fle days (Fin 0) then
            Inl (CapacityPolicyError ''evaluation_period_days must be positive and finite.'')
          else Inr \<lparr>cc_daily_review_capacity = c, cc_evaluation_period_days = days\<rparr>)"

text \<open>
  \<open>int(math.floor(capacity * days))\<close>: the integer is converted to a float first, which fails
  when it is too large, and an infinite product has no floor.
\<close>

definition review_budget :: "capacity_config \<Rightarrow> py_exc + int" where
  "review_budget c =
     (let d = float_of_int (cc_daily_review_capacity c)
      in if \<not> is_finite d then Inl OverflowError
         else case fmul d (cc_evaluation_period_days c) of
                Fin x \<Rightarrow> Inr \<lfloor>x\<rfloor>
              | NaN \<Rightarrow> Inl (ValueError ''cannot convert float NaN to integer'')
              | _ \<Rightarrow> Inl OverflowError)"

section \<open>Allocation\<close>

datatype score_array = One_Dim "pyfloat list" | Other_Dim

text \<open>The position of a score in ascending order of its negation.\<close>

fun descending_key :: "pyfloat \<Rightarrow> nat \<times> rat" where
  "descending_key PInf = (0, 0)"
| "descending_key (Fin x) = (1, - x)"
| "descending_key NInf = (2, 0)"
| "descending_key NaN = (3, 0)"

definition review_order :: "pyfloat list \<Rightarrow> nat list" where
  "review_order values = sort_key (\<lambda>i. descending_key (values ! i)) [0..<length values]"

record allocation =
  al_decisions :: "string list"
  al_selected_mask :: "bool list"
  al_selected_count :: int
  al_review_budget :: int
  al_population :: nat
  al_capacity_utilisation :: "pyfloat option"
  al_minimum_selected_score :: "pyfloat option"

datatype allocation_result = Fail_Closed int | Allocated allocation

definition least_score :: "pyfloat list \<Rightarrow> pyfloat" where
  "least_score vs = foldl fmin (hd vs) (tl vs)"

definition allocate_reviews :: "score_array \<Rightarrow> capacity_config \<Rightarrow> bool \<Rightarrow> py_exc + allocation_result" where
  "allocate_reviews scores config scores_available =
     (if \<not> scores_available then res_bind (review_budget config) (\<lambda>b. Inr (Fail_Closed b))
      else case scores of
        Other_Dim \<Rightarrow> Inl (CapacityPolicyError ''scores must be one-dimensional.'')
      | One_Dim values \<Rightarrow>
          if \<not> list_all is_finite values then Inl (CapacityPolicyError ''scores must be finite.'')
          else res_bind (review_budget config) (\<lambda>full.
            let n = length values; budget = min full (int n);
                selected = take (nat budget) (review_order values)
            in Inr (Allocated \<lparr>
                 al_decisions = map (\<lambda>i. if i \<in> set selected then HUMAN_REVIEW else BELOW_REVIEW_THRESHOLD) [0..<n],
                 al_selected_mask = map (\<lambda>i. i \<in> set selected) [0..<n],
                 al_selected_count = budget, al_review_budget = full, al_population = n,
                 al_capacity_utilisation = (if full \<noteq> 0 then Some (fl (of_int budget / of_int full)) else None),
                 al_minimum_selected_score =
                   (if budget \<noteq> 0 then Some (least_score (map (\<lambda>i. values ! i) selected)) else None)\<rparr>)))"

section \<open>Workload for a recall\<close>

record workload =
  wl_target_recall :: pyfloat
  wl_minimum_reviews :: nat
  wl_implied_reviews_per_day :: pyfloat
  wl_achieved_recall :: pyfloat
  wl_achieved_precision :: pyfloat

datatype workload_result = Unreachable pyfloat | Reachable workload

fun running_sums :: "int \<Rightarrow> int list \<Rightarrow> int list" where
  "running_sums s [] = []"
| "running_sums s (x # xs) = (s + x) # running_sums (s + x) xs"

text \<open>\<open>math.ceil\<close> of a float.\<close>

definition float_ceil :: "pyfloat \<Rightarrow> py_exc + int" where
  "float_ceil x = (case x of Fin q \<Rightarrow> Inr \<lceil>q\<rceil>
     | NaN \<Rightarrow> Inl (ValueError ''cannot convert float NaN to integer'') | _ \<Rightarrow> Inl OverflowError)"

definition workload_for_recall :: "int list \<Rightarrow> pyfloat list \<Rightarrow> pyfloat \<Rightarrow> pyfloat \<Rightarrow> py_exc + workload_result" where
  "workload_for_recall labels values target_recall evaluation_period_days =
     (let positives = sum_list labels
      in if positives = 0 then Inl (CapacityPolicyError ''No positives present.'')
         else if length labels < length values then
           Inl (PyError ''IndexError'' ''index is out of bounds for axis 0'')
         else
           let ranked = map (\<lambda>i. labels ! i) (review_order values); cumulative = running_sums 0 ranked
           in res_bind (float_ceil (fmul target_recall (float_of_int positives))) (\<lambda>needed.
                case filter (\<lambda>i. needed \<le> cumulative ! i) [0..<length cumulative] of
                  [] \<Rightarrow> Inr (Unreachable target_recall)
                | first # _ \<Rightarrow>
                    res_bind (fdiv (float_of_int (int first + 1)) evaluation_period_days) (\<lambda>per_day.
                      Inr (Reachable \<lparr>wl_target_recall = target_recall, wl_minimum_reviews = first + 1,
                        wl_implied_reviews_per_day = per_day,
                        wl_achieved_recall = fl (of_int (cumulative ! first) / of_int positives),
                        wl_achieved_precision = fl (of_int (cumulative ! first) / of_nat (first + 1))\<rparr>))))"

section \<open>Facts\<close>

definition ranks_before :: "pyfloat list \<Rightarrow> nat \<Rightarrow> nat \<Rightarrow> bool" where
  "ranks_before values i j \<longleftrightarrow>
     descending_key (values ! i) < descending_key (values ! j) \<or>
     (descending_key (values ! i) = descending_key (values ! j) \<and> i < j)"

lemma set_review_order [simp]: "set (review_order values) = {0..<length values}"
  by (simp add: review_order_def)

lemma length_review_order [simp]: "length (review_order values) = length values"
  by (simp add: review_order_def)

lemma distinct_review_order [simp]: "distinct (review_order values)"
  by (simp add: review_order_def distinct_sort)

text \<open>A stable sort of an ascending list is strictly ordered by key and position.\<close>

lemma stable_sorted:
  fixes k :: "nat \<Rightarrow> 'k::linorder"
  assumes "sorted_wrt (<) xs"
  shows "sorted_wrt (\<lambda>i j. k i < k j \<or> (k i = k j \<and> i < j)) (sort_key k xs)"
proof -
  have "sorted_wrt (\<lambda>i j. k i < k j \<or> (k i = k j \<and> i < j)) (foldr (insort_key k) xs [])"
    using assms
  proof (induction xs)
    case (Cons x xs)
    let ?R = "\<lambda>i j. k i < k j \<or> (k i = k j \<and> i < j)"
    have ins: "sorted_wrt ?R (insort_key k x ys)" if "sorted_wrt ?R ys" "\<forall>y \<in> set ys. x < y" for ys
      using that
    proof (induction ys)
      case (Cons y ys)
      then show ?case by (auto simp: set_insort_key)
    qed simp
    have "set (foldr (insort_key k) xs []) = set xs" by (metis set_sort sort_key_def)
    then show ?case using Cons ins by simp
  qed simp
  then show ?thesis by (simp add: sort_key_def)
qed

lemma review_order_sorted: "sorted_wrt (ranks_before values) (review_order values)"
  using stable_sorted [of "[0..<length values]" "\<lambda>i. descending_key (values ! i)"]
  by (simp add: review_order_def ranks_before_def [abs_def] sorted_wrt_upt)

lemma take_ranks_before:
  assumes "i \<in> set (take k (review_order values))" and "j < length values" and "j \<notin> set (take k (review_order values))"
  shows "ranks_before values i j"
proof -
  have "set (take k (review_order values)) \<union> set (drop k (review_order values)) = {0..<length values}"
    by (metis append_take_drop_id set_append set_review_order)
  moreover have "j \<in> {0..<length values}" using assms(2) by simp
  ultimately have "j \<in> set (drop k (review_order values))" using assms(3) by blast
  moreover have "sorted_wrt (ranks_before values) (take k (review_order values) @ drop k (review_order values))"
    using review_order_sorted by simp
  ultimately show ?thesis using assms(1) by (simp only: sorted_wrt_append)
qed

lemma running_sums_nth: "i < length xs \<Longrightarrow> running_sums s xs ! i = s + sum_list (take (Suc i) xs)"
proof (induction s xs arbitrary: i rule: running_sums.induct)
  case (2 s x xs)
  then show ?case by (cases i) auto
qed simp

lemma length_running_sums [simp]: "length (running_sums s xs) = length xs"
  by (induction s xs rule: running_sums.induct) auto

lemma fl_Fin_nonneg: "fl x = Fin y \<Longrightarrow> 0 \<le> x \<Longrightarrow> 0 \<le> y"
  using fl_raw_nonneg [of x] by (auto simp: fl_def Let_def split: if_splits)

lemma fl_Fin_mono: "fl x = Fin a \<Longrightarrow> fl y = Fin b \<Longrightarrow> 0 \<le> x \<Longrightarrow> x \<le> y \<Longrightarrow> a \<le> b"
  using fl_raw_mono [of x y] by (auto simp: fl_def Let_def split: if_splits)

lemma config_fields:
  assumes "capacity_config_init daily days = Inr c"
  obtains q where "0 \<le> cc_daily_review_capacity c" and "cc_evaluation_period_days c = Fin q" and "0 < q"
  using assms by (auto simp: capacity_config_init_def is_finite_def split: option.splits if_splits pyfloat.splits)

lemma budget_product:
  assumes "review_budget c = Inr b" and "cc_evaluation_period_days c = Fin q"
  obtains d x where "float_of_int (cc_daily_review_capacity c) = Fin d" and "fl (d * q) = Fin x" and "b = \<lfloor>x\<rfloor>"
proof -
  obtain d where d: "float_of_int (cc_daily_review_capacity c) = Fin d"
    using assms(1) by (cases "float_of_int (cc_daily_review_capacity c)") (auto simp: review_budget_def is_finite_def Let_def)
  then obtain x where "fl (d * q) = Fin x" "b = \<lfloor>x\<rfloor>"
    using assms by (auto simp: review_budget_def is_finite_def Let_def split: pyfloat.splits)
  with d show thesis by (rule that)
qed

lemma budget_nonneg:
  assumes "capacity_config_init daily days = Inr c" and "review_budget c = Inr b"
  shows "0 \<le> b"
proof -
  obtain q where q: "0 \<le> cc_daily_review_capacity c" "cc_evaluation_period_days c = Fin q" "0 < q"
    by (rule config_fields [OF assms(1)])
  obtain d x where d: "float_of_int (cc_daily_review_capacity c) = Fin d" "fl (d * q) = Fin x" "b = \<lfloor>x\<rfloor>"
    by (rule budget_product [OF assms(2) q(2)])
  have "0 \<le> d" by (rule fl_Fin_nonneg [OF d(1) [unfolded float_of_int_def]]) (use q(1) in simp)
  then have "0 \<le> x" using d(2) q(3) by (intro fl_Fin_nonneg [OF d(2)]) simp
  then show ?thesis using d(3) by simp
qed

lemma budget_mono:
  assumes "capacity_config_init daily days = Inr c" and "capacity_config_init daily' days = Inr c'"
    and "cc_daily_review_capacity c \<le> cc_daily_review_capacity c'"
    and "review_budget c = Inr b" and "review_budget c' = Inr b'"
  shows "b \<le> b'"
proof -
  obtain q where q: "0 \<le> cc_daily_review_capacity c" "cc_evaluation_period_days c = Fin q" "0 < q"
    by (rule config_fields [OF assms(1)])
  have q': "cc_evaluation_period_days c' = Fin q"
    using q(2) assms(1,2) by (auto simp: capacity_config_init_def split: option.splits if_splits)
  obtain d x where d: "float_of_int (cc_daily_review_capacity c) = Fin d" "fl (d * q) = Fin x" "b = \<lfloor>x\<rfloor>"
    by (rule budget_product [OF assms(4) q(2)])
  obtain d' x' where d': "float_of_int (cc_daily_review_capacity c') = Fin d'" "fl (d' * q) = Fin x'" "b' = \<lfloor>x'\<rfloor>"
    by (rule budget_product [OF assms(5) q'])
  have "0 \<le> d" by (rule fl_Fin_nonneg [OF d(1) [unfolded float_of_int_def]]) (use q(1) in simp)
  moreover have "d \<le> d'" 
    by (rule fl_Fin_mono [OF d(1) [unfolded float_of_int_def] d'(1) [unfolded float_of_int_def]]) (use q(1) assms(3) in simp_all)
  ultimately have "x \<le> x'" using q(3) by (intro fl_Fin_mono [OF d(2) d'(2)]) (simp_all add: mult_right_mono)
  then show ?thesis using d(3) d'(3) by (simp add: floor_mono)
qed

lemma allocated_cases:
  assumes "allocate_reviews (One_Dim values) c True = Inr (Allocated a)"
  obtains full where "review_budget c = Inr full" and "list_all is_finite values"
    and "al_selected_count a = min full (int (length values))"
    and "\<forall>i. i < length values \<longrightarrow> al_decisions a ! i =
      (if i \<in> set (take (nat (min full (int (length values)))) (review_order values)) then HUMAN_REVIEW else BELOW_REVIEW_THRESHOLD)"
    and "al_decisions a = map (\<lambda>i. if i \<in> set (take (nat (min full (int (length values)))) (review_order values))
      then HUMAN_REVIEW else BELOW_REVIEW_THRESHOLD) [0..<length values]"
proof -
  obtain full where f: "review_budget c = Inr full" and fin: "list_all is_finite values"
    using assms by (auto simp: allocate_reviews_def res_bind_Inr_iff split: if_splits)
  have d: "al_selected_count a = min full (int (length values)) \<and>
      al_decisions a = map (\<lambda>i. if i \<in> set (take (nat (min full (int (length values)))) (review_order values))
      then HUMAN_REVIEW else BELOW_REVIEW_THRESHOLD) [0..<length values]"
    using assms fin unfolding allocate_reviews_def f res_bind_simps Let_def score_array.case by (simp only: if_True if_False simp_thms sum.inject
        allocation_result.inject) auto
  then show thesis using that [OF f fin] by simp
qed

lemma decision_names: "HUMAN_REVIEW \<noteq> BELOW_REVIEW_THRESHOLD"
  by (simp add: HUMAN_REVIEW_def BELOW_REVIEW_THRESHOLD_def)

lemma count_selected:
  assumes "k \<le> length values"
  shows "length (filter (\<lambda>d. d = HUMAN_REVIEW) (map (\<lambda>i. if i \<in> set (take k (review_order values))
      then HUMAN_REVIEW else BELOW_REVIEW_THRESHOLD) [0..<length values])) = k"
proof -
  have "filter (\<lambda>d. d = HUMAN_REVIEW) (map (\<lambda>i. if i \<in> S then HUMAN_REVIEW else BELOW_REVIEW_THRESHOLD) xs) =
      map (\<lambda>i. HUMAN_REVIEW) (filter (\<lambda>i. i \<in> S) xs)" for S :: "nat set" and xs
    using decision_names by (induction xs) auto
  moreover have "length (filter (\<lambda>i. i \<in> set (take k (review_order values))) [0..<length values]) = k"
  proof -
    have sub: "set (take k (review_order values)) \<subseteq> {0..<length values}"
      using set_take_subset [of k "review_order values"] by simp
    have "length (filter (\<lambda>i. i \<in> set (take k (review_order values))) [0..<length values]) =
        card (set (filter (\<lambda>i. i \<in> set (take k (review_order values))) [0..<length values]))"
      by (subst distinct_card) simp_all
    also have "set (filter (\<lambda>i. i \<in> set (take k (review_order values))) [0..<length values]) = set (take k (review_order values))"
      using sub by auto
    also have "card (set (take k (review_order values))) = k"
      using assms by (subst distinct_card) (simp_all add: distinct_take)
    finally show ?thesis .
  qed
  ultimately show ?thesis by (simp only: length_map)
qed

section \<open>Properties\<close>

text \<open>
  C15. The allocation is exactly the top of the ranking: as many transactions are sent to review
  as the budget and the population allow, and every reviewed transaction has a higher score
  than every one left out, or the same score and an earlier position.
\<close>

theorem allocation_is_top_of_ranking:
  assumes "capacity_config_init daily days = Inr c" and "allocate_reviews (One_Dim values) c True = Inr (Allocated a)"
  shows "int (length (filter (\<lambda>d. d = HUMAN_REVIEW) (al_decisions a))) = al_selected_count a \<and>
    (\<exists>b. review_budget c = Inr b \<and> al_selected_count a = min b (int (length values))) \<and>
    (\<forall>i j. i < length values \<and> j < length values \<and> al_decisions a ! i = HUMAN_REVIEW \<and> al_decisions a ! j \<noteq> HUMAN_REVIEW \<longrightarrow>
       flt (values ! j) (values ! i) \<or> (values ! i = values ! j \<and> i < j))"
proof -
  obtain full where f: "review_budget c = Inr full" "list_all is_finite values"
    "al_selected_count a = min full (int (length values))"
    "\<forall>i. i < length values \<longrightarrow> al_decisions a ! i =
      (if i \<in> set (take (nat (min full (int (length values)))) (review_order values)) then HUMAN_REVIEW else BELOW_REVIEW_THRESHOLD)"
    "al_decisions a = map (\<lambda>i. if i \<in> set (take (nat (min full (int (length values)))) (review_order values))
      then HUMAN_REVIEW else BELOW_REVIEW_THRESHOLD) [0..<length values]"
    by (rule allocated_cases [OF assms(2)])
  have b: "0 \<le> full" by (rule budget_nonneg [OF assms(1) f(1)])
  have cnt: "int (length (filter (\<lambda>d. d = HUMAN_REVIEW) (al_decisions a))) = al_selected_count a"
    using b unfolding f(3,5) by (subst count_selected) auto
  have top: "flt (values ! j) (values ! i) \<or> (values ! i = values ! j \<and> i < j)"
    if h: "i < length values" "j < length values" "al_decisions a ! i = HUMAN_REVIEW" "al_decisions a ! j \<noteq> HUMAN_REVIEW" for i j
  proof -
    have "ranks_before values i j"
      by (rule take_ranks_before) (use h f(4) decision_names in \<open>auto split: if_splits\<close>)
    moreover obtain x y where "values ! i = Fin x" "values ! j = Fin y"
      using f(2) h(1,2) by (auto simp: list_all_length is_finite_def split: pyfloat.splits) (metis pyfloat.exhaust)
    ultimately show ?thesis by (auto simp: ranks_before_def)
  qed
  show ?thesis using cnt f(1,3) top by blast
qed

text \<open>
  Capacity is monotone: with the same scores and period, raising the daily capacity never
  withdraws a review that the smaller capacity granted.
\<close>

theorem more_capacity_keeps_reviews:
  assumes "capacity_config_init daily days = Inr c" and "capacity_config_init daily' days = Inr c'"
    and "cc_daily_review_capacity c \<le> cc_daily_review_capacity c'"
    and "allocate_reviews (One_Dim values) c True = Inr (Allocated a)"
    and "allocate_reviews (One_Dim values) c' True = Inr (Allocated a')"
    and "i < length values" and "al_decisions a ! i = HUMAN_REVIEW"
  shows "al_decisions a' ! i = HUMAN_REVIEW"
proof -
  obtain b where b: "review_budget c = Inr b"
    "\<forall>i. i < length values \<longrightarrow> al_decisions a ! i =
      (if i \<in> set (take (nat (min b (int (length values)))) (review_order values)) then HUMAN_REVIEW else BELOW_REVIEW_THRESHOLD)"
    by (rule allocated_cases [OF assms(4)])
  obtain b' where b': "review_budget c' = Inr b'"
    "\<forall>i. i < length values \<longrightarrow> al_decisions a' ! i =
      (if i \<in> set (take (nat (min b' (int (length values)))) (review_order values)) then HUMAN_REVIEW else BELOW_REVIEW_THRESHOLD)"
    by (rule allocated_cases [OF assms(5)])
  have "b \<le> b'" by (rule budget_mono [OF assms(1-3) b(1) b'(1)])
  then have "set (take (nat (min b (int (length values)))) (review_order values))
      \<subseteq> set (take (nat (min b' (int (length values)))) (review_order values))"
    by (intro set_take_subset_set_take) auto
  moreover have "i \<in> set (take (nat (min b (int (length values)))) (review_order values))"
    using assms(7) b(2) assms(6) decision_names by (auto split: if_splits)
  ultimately show ?thesis using b'(2) assms(6) by auto
qed

text \<open>
  The reported workload is the least one: on 0/1 labels, reviewing the first \<open>k\<close>
  transactions of the ranking finds the needed number of positives exactly when \<open>k\<close> is at
  least that workload.
\<close>

theorem workload_is_minimal:
  assumes "workload_for_recall labels values target days = Inr (Reachable w)"
    and "set labels \<subseteq> {0, 1}" and "float_ceil (fmul target (float_of_int (sum_list labels))) = Inr needed" and "0 < needed"
  shows "wl_minimum_reviews w \<le> length values \<and>
    (\<forall>k \<le> length values. needed \<le> sum_list (map (\<lambda>i. labels ! i) (take k (review_order values))) \<longleftrightarrow> wl_minimum_reviews w \<le> k)"
proof -
  define ranked where "ranked = map (\<lambda>i. labels ! i) (review_order values)"
  let ?cum = "running_sums 0 ranked"
  have len: "length ranked = length values" "length values \<le> length labels"
    using assms(1) by (auto simp: ranked_def workload_for_recall_def Let_def split: if_splits)
  obtain first rest where f: "filter (\<lambda>i. needed \<le> ?cum ! i) [0..<length ?cum] = first # rest" "wl_minimum_reviews w = first + 1"
    using assms(1,3) by (auto simp: workload_for_recall_def Let_def ranked_def res_bind_Inr_iff split: if_splits list.splits)
  have nonneg: "\<forall>x \<in> set ranked. 0 \<le> x"
  proof
    fix x assume "x \<in> set ranked"
    then obtain i where "x = labels ! i" "i < length values" by (auto simp: ranked_def)
    then have "x \<in> set labels" using len(2) by simp
    then show "0 \<le> x" using assms(2) by auto
  qed
  have mono: "sum_list (take a ranked) \<le> sum_list (take b ranked)" if "a \<le> b" for a b
  proof -
    have "take b ranked = take a ranked @ take (b - a) (drop a ranked)" using that by (metis le_add_diff_inverse take_add)
    moreover have "0 \<le> sum_list (take (b - a) (drop a ranked))"
      using nonneg by (intro sum_list_nonneg) (meson in_set_dropD in_set_takeD)
    ultimately show ?thesis by simp
  qed
  have first: "first < length ranked" "needed \<le> ?cum ! first"
  proof -
    have "first \<in> set (first # rest)" by simp
    then have "first \<in> set (filter (\<lambda>i. needed \<le> ?cum ! i) [0..<length ?cum])" unfolding f(1) .
    then show "first < length ranked" "needed \<le> ?cum ! first" by simp_all
  qed
  have least: "\<not> needed \<le> ?cum ! i" if "i < first" for i
  proof
    assume n: "needed \<le> ?cum ! i"
    have i: "i \<in> set (first # rest)" unfolding f(1) [symmetric] using n that first(1) by simp
    have "sorted (first # rest)" unfolding f(1) [symmetric] by (rule sorted_wrt_filter) (simp add: sorted_upt)
    then show False using i that by auto
  qed
  have cum: "?cum ! i = sum_list (take (Suc i) ranked)" if "i < length ranked" for i
    using running_sums_nth [OF that, of 0] by simp
  have "needed \<le> sum_list (take k ranked) \<longleftrightarrow> first + 1 \<le> k" if "k \<le> length values" for k
  proof
    assume "first + 1 \<le> k"
    then show "needed \<le> sum_list (take k ranked)" using mono [of "Suc first" k] first cum by simp
  next
    assume n: "needed \<le> sum_list (take k ranked)"
    then have "k \<noteq> 0" using assms(4) by (cases k) simp_all
    then obtain i where "k = Suc i" by (cases k) auto
    then show "first + 1 \<le> k" using n least [of i] cum [of i] that len(1) by force
  qed
  then show ?thesis using first(1) len(1) f(2) by (simp add: ranked_def take_map)
qed

section \<open>Witnesses\<close>

definition sample_scores :: "pyfloat list" where
  "sample_scores = [Fin (1/4), Fin (3/4), Fin (1/2), Fin (3/4)]"

definition config_of :: "int \<Rightarrow> capacity_config" where
  "config_of n = \<lparr>cc_daily_review_capacity = n, cc_evaluation_period_days = Fin 1\<rparr>"

lemma config_of_init: "0 \<le> n \<Longrightarrow> capacity_config_init (PInt n) (Fin 1) = Inr (config_of n)"
  by (simp add: capacity_config_init_def int_of_def config_of_def is_finite_def)

lemma config_of_budget: "0 \<le> n \<Longrightarrow> n < 2 ^ 53 \<Longrightarrow> review_budget (config_of n) = Inr n"
proof -
  assume n: "0 \<le> n" "n < 2 ^ 53"
  then have "float_of_int n = Fin (of_int n)" by (intro float_of_int_exact) simp
  then show ?thesis by (simp add: review_budget_def config_of_def is_finite_def Let_def float_of_int_def)
qed

lemma sample_scores_simps [simp]: "length sample_scores = 4" "list_all is_finite sample_scores"
  by (simp_all add: sample_scores_def is_finite_def)

lemma sample_allocation:
  assumes "0 \<le> n" and "n < 2 ^ 53"
  obtains a where "allocate_reviews (One_Dim sample_scores) (config_of n) True = Inr (Allocated a)"
    and "al_decisions a = map (\<lambda>i. if i \<in> set (take (nat (min n 4)) (review_order sample_scores))
      then HUMAN_REVIEW else BELOW_REVIEW_THRESHOLD) [0..<4]"
  using config_of_budget [OF assms] by (simp add: allocate_reviews_def Let_def del: upt_conv_Cons)

lemma sample_order: "review_order sample_scores = [1, 3, 2, 0]"
  unfolding sample_scores_def by code_simp

theorem allocation_is_top_of_ranking_witness:
  "\<exists>a. allocate_reviews (One_Dim sample_scores) (config_of 2) True = Inr (Allocated a) \<and>
     al_selected_count a = 2 \<and> length (filter (\<lambda>d. d = HUMAN_REVIEW) (al_decisions a)) = 2"
proof -
  obtain a where a: "allocate_reviews (One_Dim sample_scores) (config_of 2) True = Inr (Allocated a)"
    using sample_allocation [of 2] by auto
  have "capacity_config_init (PInt 2) (Fin 1) = Inr (config_of 2)" by (rule config_of_init) simp
  from allocation_is_top_of_ranking [OF this a] config_of_budget [of 2]
  have "al_selected_count a = 2" "int (length (filter (\<lambda>d. d = HUMAN_REVIEW) (al_decisions a))) = 2"
    by (auto simp: sample_scores_def)
  with a show ?thesis by auto
qed

theorem more_capacity_keeps_reviews_witness:
  "\<exists>a. allocate_reviews (One_Dim sample_scores) (config_of 3) True = Inr (Allocated a) \<and>
     al_decisions a ! 1 = HUMAN_REVIEW"
proof -
  obtain a where a: "allocate_reviews (One_Dim sample_scores) (config_of 2) True = Inr (Allocated a)"
    "al_decisions a = map (\<lambda>i. if i \<in> set (take (nat (min 2 4)) (review_order sample_scores))
      then HUMAN_REVIEW else BELOW_REVIEW_THRESHOLD) [0..<4]" by (rule sample_allocation [of 2]) simp_all
  obtain a' where a': "allocate_reviews (One_Dim sample_scores) (config_of 3) True = Inr (Allocated a')"
    using sample_allocation [of 3] by auto
  have i: "capacity_config_init (PInt 2) (Fin 1) = Inr (config_of 2)" "capacity_config_init (PInt 3) (Fin 1) = Inr (config_of 3)"
    by (simp_all add: config_of_init)
  have "al_decisions a ! 1 = HUMAN_REVIEW" by (simp add: a(2) sample_order)
  from more_capacity_keeps_reviews [OF i _ a(1) a' _ this] a' show ?thesis by (auto simp: config_of_def sample_scores_def)
qed

theorem workload_is_minimal_witness:
  "\<exists>w. workload_for_recall [0, 1, 0, 1] sample_scores (Fin 1) (Fin 1) = Inr (Reachable w) \<and>
     (\<forall>k \<le> 4. 2 \<le> sum_list (map (\<lambda>i. [0, 1, 0, 1 :: int] ! i) (take k [1, 3, 2, 0])) \<longleftrightarrow> wl_minimum_reviews w \<le> k)"
proof -
  have two: "float_of_int 2 = Fin 2" "fl 2 = Fin 2"
    using float_of_int_exact [of 2] by (simp_all add: float_of_int_def)
  have need: "float_ceil (fmul (Fin 1) (float_of_int (sum_list [0, 1, 0, 1]))) = Inr 2"
    by (simp add: two float_ceil_def)
  have ranked: "map (\<lambda>i. [0, 1, 0, 1 :: int] ! i) (review_order sample_scores) = [1, 1, 0, 0]" by (simp add: sample_order)
  have first: "filter (\<lambda>i. 2 \<le> running_sums 0 [1, 1, 0, 0 :: int] ! i) [0..<length (running_sums 0 [1, 1, 0, 0 :: int])] = [1, 2, 3]"
    by code_simp
  have div: "fdiv (float_of_int (int 1 + 1)) (Fin 1) = Inr (Fin 2)" using two by simp
  obtain w where w: "workload_for_recall [0, 1, 0, 1] sample_scores (Fin 1) (Fin 1) = Inr (Reachable w)"
    unfolding workload_for_recall_def Let_def ranked need res_bind_simps first list.case div by simp
  from workload_is_minimal [OF w _ need] have
    "\<forall>k \<le> length sample_scores. 2 \<le> sum_list (map (\<lambda>i. [0, 1, 0, 1 :: int] ! i) (take k (review_order sample_scores))) \<longleftrightarrow> wl_minimum_reviews w \<le> k"
    by simp
  with w show ?thesis unfolding sample_scores_simps sample_order by blast
qed

end
