(* ===== verification/Audit_Log.thy ===== *)
theory Audit_Log
  imports Py_Json Sha256
begin

text \<open>
  The append-only audit log of \<open>src/api/audit.py\<close>: canonical NDJSON events in a hash chain, the
  anchor file with count and head, their verification and the single writer. \<open>json.loads\<close> and
  \<open>datetime.fromisoformat\<close> are arguments; a file is what the code can observe of it, and every
  write can stop where the operating system can stop it.
\<close>

section \<open>Constants\<close>

definition LOG_SCHEMA_VERSION :: string where "LOG_SCHEMA_VERSION = ''1.0''"
definition LOG_GENESIS_HASH :: string where "LOG_GENESIS_HASH = replicate 64 (CHR ''0'')"

definition AUDIT_EVENT_FIELDS :: "string list" where
  "AUDIT_EVENT_FIELDS = [''schema_version'', ''api_schema_version'', ''event_id'', ''event_index'', ''request_id'', ''occurred_at_utc'',
     ''idempotency_key_sha256'', ''input_digest_sha256'', ''model_fingerprint_sha256'', ''model_version'', ''score'', ''threshold'',
     ''decision'', ''latency_ms'', ''status'', ''previous_hash'', ''event_hash'']"

definition ANCHOR_FIELDS :: "string list" where
  "ANCHOR_FIELDS = [''schema_version'', ''event_count'', ''head_event_hash'']"

definition audit_integrity_error :: "string \<Rightarrow> py_exc" where
  "audit_integrity_error = PyError ''AuditIntegrityError''"

definition is_request_id_char :: "char \<Rightarrow> bool" where
  "is_request_id_char c = (is_upper c \<or> is_lower c \<or> is_digit c \<or> c = CHR ''.'' \<or> c = CHR ''_'' \<or> c = CHR ''-'')"

definition is_request_id :: "string \<Rightarrow> bool" where
  "is_request_id s = (1 \<le> length s \<and> length s \<le> 64 \<and> list_all is_request_id_char s)"

definition idempotency_key_sha256 :: "string \<Rightarrow> py_exc + string" where
  "idempotency_key_sha256 request_id =
     (if is_request_id request_id then Inr (sha256_hex request_id)
      else Inl (ValueError ''request_id must be an opaque 1-64 character identifier.''))"

definition require_audit_sha256 :: "string \<Rightarrow> string \<Rightarrow> py_exc + string" where
  "require_audit_sha256 v label =
     (if is_sha256 v then Inr v else Inl (audit_integrity_error (label @ '' must be a lowercase SHA-256 digest.'')))"

section \<open>Reading\<close>

text \<open>
  \<open>le_json\<close> is \<open>json.loads\<close> with the hook against duplicate keys: a failure names the duplicate key
  or is any other decoding error. \<open>le_iso\<close> is \<open>datetime.fromisoformat\<close>: \<^const>\<open>None\<close> when it
  raises, otherwise whether the parsed value is in UTC.
\<close>

record log_env =
  le_json :: "string \<Rightarrow> string option + pyval"
  le_iso :: "string \<Rightarrow> bool option"

definition audit_json_object :: "log_env \<Rightarrow> string \<Rightarrow> string \<Rightarrow> py_exc + (string, pyval) dict" where
  "audit_json_object env encoded label =
     (case le_json env encoded of
        Inl (Some k) \<Rightarrow> Inl (audit_integrity_error (label @ '' contains duplicate key '' @ repr_str k @ ''.''))
      | Inl None \<Rightarrow> Inl (audit_integrity_error (label @ '' is not strict UTF-8 JSON.''))
      | Inr (PDict d) \<Rightarrow> Inr d
      | Inr _ \<Rightarrow> Inl (audit_integrity_error (label @ '' must be a JSON object.'')))"

text \<open>
  A path: nothing there, a readable regular file with its bytes, something that can not be
  opened (a symbolic link, whose target may exist, or no permission), or no regular file.
\<close>

datatype audit_file = Absent | Contents string | Refused bool | Not_Regular

definition file_exists :: "audit_file \<Rightarrow> bool" where
  "file_exists f = (case f of Absent \<Rightarrow> False | Refused b \<Rightarrow> b | _ \<Rightarrow> True)"

definition read_audit_file :: "audit_file \<Rightarrow> string \<Rightarrow> py_exc + string" where
  "read_audit_file f label =
     (case f of
        Absent \<Rightarrow> Inl (PyError ''FileNotFoundError'' label)
      | Contents s \<Rightarrow> Inr s
      | Refused _ \<Rightarrow> Inl (audit_integrity_error (label @ '' is unreadable or is a symbolic link.''))
      | Not_Regular \<Rightarrow> Inl (audit_integrity_error (label @ '' must be a regular file.'')))"

definition LF :: char where "LF = char_of (10 :: nat)"
definition CR :: char where "CR = char_of (13 :: nat)"

text \<open>\<open>bytes.splitlines()\<close>.\<close>

function split_lines :: "string \<Rightarrow> string \<Rightarrow> string list" where
  "split_lines acc [] = (if acc = [] then [] else [acc])"
| "split_lines acc (c # cs) =
     (if c = LF then acc # split_lines [] cs
      else if c = CR then acc # split_lines [] (if take 1 cs = [LF] then tl cs else cs)
      else split_lines (acc @ [c]) cs)"
  by pat_completeness auto
termination by (relation "measure (\<lambda>(_, s). length s)") (auto simp: le_imp_less_Suc)

section \<open>One event\<close>

definition log_integrity :: "string \<Rightarrow> string \<Rightarrow> py_exc" where
  "log_integrity label rest = audit_integrity_error (label @ rest)"

definition require_value_sha256 :: "pyval \<Rightarrow> string \<Rightarrow> py_exc + string" where
  "require_value_sha256 v label =
     (case str_of v of
        Some s \<Rightarrow> require_audit_sha256 s label
      | None \<Rightarrow> Inl (audit_integrity_error (label @ '' must be a lowercase SHA-256 digest.'')))"

definition is_event_id :: "pyval \<Rightarrow> bool" where
  "is_event_id v = (case str_of v of Some s \<Rightarrow> length s = 32 \<and> list_all is_hex_lower s | None \<Rightarrow> False)"

definition is_request_value :: "pyval \<Rightarrow> bool" where
  "is_request_value v = (case str_of v of Some s \<Rightarrow> is_request_id s | None \<Rightarrow> False)"

definition validate_timestamp :: "log_env \<Rightarrow> pyval \<Rightarrow> string \<Rightarrow> py_exc + unit" where
  "validate_timestamp env v label =
     (let bad = Inl (log_integrity label '' must be an RFC 3339 UTC timestamp.'')
      in case str_of v of
           None \<Rightarrow> bad
         | Some s \<Rightarrow>
             if s = [] \<or> last s \<noteq> CHR ''Z'' then bad
             else (case le_iso env (butlast s @ ''+00:00'') of
                 None \<Rightarrow> bad
               | Some utc \<Rightarrow> if utc then Inr () else Inl (log_integrity label '' must use UTC.'')))"

text \<open>\<open>type(value) in {int, float} and math.isfinite(float(value))\<close>.\<close>

definition finite_value :: "pyval \<Rightarrow> py_exc + bool" where
  "finite_value v =
     (case v of
        PInt _ \<Rightarrow> res_bind (py_float v) (\<lambda>x. Inr (is_finite x))
      | PFloat _ \<Rightarrow> res_bind (py_float v) (\<lambda>x. Inr (is_finite x))
      | _ \<Rightarrow> Inr False)"

definition require_finite :: "(string, pyval) dict \<Rightarrow> string \<Rightarrow> string \<Rightarrow> py_exc + pyfloat" where
  "require_finite e label field =
     res_bind (finite_value (py_get e field)) (\<lambda>ok.
       if ok then py_float (py_get e field) else Inl (log_integrity label ('' '' @ field @ '' must be finite.'')))"

definition event_label :: "nat \<Rightarrow> string" where
  "event_label n = ''Audit event line '' @ nat_str n"

definition validate_log_event :: "log_env \<Rightarrow> (string, pyval) dict \<Rightarrow> nat \<Rightarrow> py_exc + unit" where
  "validate_log_event env e n =
     (let label = event_label n; bad = (\<lambda>rest. Inl (log_integrity label rest))
      in if set (map fst e) \<noteq> set AUDIT_EVENT_FIELDS then bad '' fields are incomplete or unexpected.''
         else if py_get e ''schema_version'' \<noteq> PStr LOG_SCHEMA_VERSION \<or> py_get e ''api_schema_version'' \<noteq> PStr ''1.0'' then
           bad '' has an unsupported schema version.''
         else if \<not> is_event_id (py_get e ''event_id'') then bad '' has an invalid event_id.''
         else if (case int_of (py_get e ''event_index'') of None \<Rightarrow> True | Some i \<Rightarrow> i < 0) then bad '' has an invalid event_index.''
         else if \<not> is_request_value (py_get e ''request_id'') then bad '' has an invalid request_id.''
         else
           res_bind (validate_timestamp env (py_get e ''occurred_at_utc'') (label @ '' occurred_at_utc'')) (\<lambda>_.
           res_bind (res_map (\<lambda>f. require_value_sha256 (py_get e f) (label @ '' '' @ f))
                       [''idempotency_key_sha256'', ''input_digest_sha256'', ''model_fingerprint_sha256'', ''previous_hash'', ''event_hash'']) (\<lambda>_.
             if (case str_of (py_get e ''model_version'') of None \<Rightarrow> True | Some s \<Rightarrow> s = []) then bad '' has an invalid model_version.''
             else
               res_bind (require_finite e label ''score'') (\<lambda>score.
               res_bind (require_finite e label ''threshold'') (\<lambda>threshold.
               res_bind (require_finite e label ''latency_ms'') (\<lambda>latency.
                 if \<not> (fle (Fin 0) score \<and> fle score (Fin 1)) then bad '' score must be in [0, 1].''
                 else if \<not> (fle (Fin 0) threshold \<and> fle threshold (Fin 1)) then bad '' threshold must be in [0, 1].''
                 else if flt latency (Fin 0) then bad '' latency_ms must be non-negative.''
                 else
                   res_bind (in_string_set (py_get e ''decision'') [''human_review'', ''below_review_threshold'']) (\<lambda>known.
                     if \<not> known then bad '' has an invalid bounded decision.''
                     else if py_get e ''status'' \<noteq> PStr ''succeeded'' then bad '' has an invalid status.''
                     else Inr ())))))))"

definition unsigned_event :: "(string, pyval) dict \<Rightarrow> (string, pyval) dict" where
  "unsigned_event e = filter (\<lambda>kv. fst kv \<noteq> ''event_hash'') e"

definition sha256_canonical :: "pyval \<Rightarrow> py_exc + string" where
  "sha256_canonical v = res_bind (json_dumps v) (\<lambda>t. Inr (sha256_hex t))"

section \<open>Verification\<close>

text \<open>The variables of the loop: the last hash, the event identifiers and the request indexes seen.\<close>

record chain_state =
  cs_previous :: string
  cs_event_ids :: "string set"
  cs_request_indexes :: "(string \<times> int) set"

definition chain_start :: chain_state where
  "chain_start = \<lparr>cs_previous = LOG_GENESIS_HASH, cs_event_ids = {}, cs_request_indexes = {}\<rparr>"

definition text_item :: "(string, pyval) dict \<Rightarrow> string \<Rightarrow> string" where
  "text_item e k = (case str_of (py_get e k) of Some s \<Rightarrow> s | None \<Rightarrow> [])"

definition event_position :: "(string, pyval) dict \<Rightarrow> string \<times> int" where
  "event_position e = (text_item e ''request_id'', case int_of (py_get e ''event_index'') of Some i \<Rightarrow> i | None \<Rightarrow> 0)"

definition read_event :: "log_env \<Rightarrow> nat \<Rightarrow> string \<Rightarrow> py_exc + (string, pyval) dict" where
  "read_event env n line =
     (if line = [] then Inl (log_integrity (event_label n) '' is empty.'')
      else
        res_bind (audit_json_object env line (event_label n)) (\<lambda>e.
        res_bind (validate_log_event env e n) (\<lambda>_.
        res_bind (json_dumps (PDict e)) (\<lambda>t.
          if t \<noteq> line then Inl (log_integrity (event_label n) '' is not canonical JSON.'') else Inr e))))"

definition link_event :: "nat \<Rightarrow> (string, pyval) dict \<Rightarrow> chain_state \<Rightarrow> py_exc + chain_state" where
  "link_event n e st =
     (if text_item e ''event_id'' \<in> cs_event_ids st then Inl (log_integrity (event_label n) '' reuses an event_id.'')
      else if event_position e \<in> cs_request_indexes st then
        Inl (log_integrity (event_label n) '' reuses a request_id/event_index pair.'')
      else if text_item e ''previous_hash'' \<noteq> cs_previous st then
        Inl (audit_integrity_error (''Audit chain breaks at line '' @ nat_str n @ ''.''))
      else
        res_bind (sha256_canonical (PDict (unsigned_event e))) (\<lambda>expected.
          if text_item e ''event_hash'' \<noteq> expected then
            Inl (audit_integrity_error (''Audit event hash mismatch at line '' @ nat_str n @ ''.''))
          else Inr \<lparr>cs_previous = expected, cs_event_ids = insert (text_item e ''event_id'') (cs_event_ids st),
                    cs_request_indexes = insert (event_position e) (cs_request_indexes st)\<rparr>))"

fun verify_lines :: "log_env \<Rightarrow> nat \<Rightarrow> string list \<Rightarrow> chain_state \<Rightarrow> py_exc + chain_state" where
  "verify_lines env n [] st = Inr st"
| "verify_lines env n (line # rest) st =
     res_bind (read_event env n line) (\<lambda>e. res_bind (link_event n e st) (verify_lines env (Suc n) rest))"

record audit_files =
  af_log :: audit_file
  af_anchor :: audit_file

definition verify_anchor :: "log_env \<Rightarrow> audit_file \<Rightarrow> nat \<Rightarrow> string \<Rightarrow> py_exc + nat \<times> string" where
  "verify_anchor env anchor n previous =
     (if \<not> file_exists anchor then
        (if n \<noteq> 0 then Inl (audit_integrity_error ''Non-empty audit log is missing its local head anchor.'')
         else Inr (0, LOG_GENESIS_HASH))
      else
        res_bind (read_audit_file anchor ''Audit anchor'') (\<lambda>encoded.
          if encoded = [] \<or> last encoded \<noteq> LF then Inl (audit_integrity_error ''Audit anchor must end with a newline.'')
          else
            res_bind (audit_json_object env (rev (dropWhile (\<lambda>c. c = LF) (rev encoded))) ''Audit anchor'') (\<lambda>d.
              if set (map fst d) \<noteq> set ANCHOR_FIELDS then
                Inl (audit_integrity_error ''Audit anchor fields are incomplete or unexpected.'')
              else
                res_bind (json_dumps (PDict d)) (\<lambda>t.
                  if t @ [LF] \<noteq> encoded then Inl (audit_integrity_error ''Audit anchor is not canonical JSON.'')
                  else if py_get d ''schema_version'' \<noteq> PStr LOG_SCHEMA_VERSION then
                    Inl (audit_integrity_error ''Audit anchor has an unsupported schema version.'')
                  else if (case int_of (py_get d ''event_count'') of None \<Rightarrow> True | Some i \<Rightarrow> i < 0) then
                    Inl (audit_integrity_error ''Audit anchor event_count is invalid.'')
                  else
                    res_bind (require_value_sha256 (py_get d ''head_event_hash'') ''Audit anchor head'') (\<lambda>head.
                      if int_of (py_get d ''event_count'') \<noteq> Some (int n) \<or> head \<noteq> previous then
                        Inl (audit_integrity_error ''Audit log count/head does not match its local anchor.'')
                      else Inr (n, previous))))))"

definition verify_audit_log :: "log_env \<Rightarrow> audit_files \<Rightarrow> py_exc + nat \<times> string" where
  "verify_audit_log env f =
     (if \<not> file_exists (af_log f) then
        (if file_exists (af_anchor f) then Inl (audit_integrity_error ''Audit anchor exists but the audit log is missing.'')
         else Inr (0, LOG_GENESIS_HASH))
      else
        res_bind (read_audit_file (af_log f) ''Audit log'') (\<lambda>encoded.
          if encoded \<noteq> [] \<and> last encoded \<noteq> LF then Inl (audit_integrity_error ''Audit log must end with a newline.'')
          else
            (let ls = split_lines [] encoded
             in res_bind (verify_lines env 1 ls chain_start) (\<lambda>st. verify_anchor env (af_anchor f) (length ls) (cs_previous st)))))"

section \<open>The writer\<close>

record audit_writer =
  aw_event_count :: nat
  aw_head_event_hash :: string

text \<open>\<open>AuditLog.__init__\<close>; the two flags are \<open>self.path.parent.is_dir()\<close> and that both paths have one parent.\<close>

definition audit_log_open :: "log_env \<Rightarrow> bool \<Rightarrow> bool \<Rightarrow> audit_files \<Rightarrow> py_exc + audit_writer" where
  "audit_log_open env parent_exists one_parent f =
     (if \<not> parent_exists then Inl (audit_integrity_error ''Audit log parent directory must already exist.'')
      else if \<not> one_parent then Inl (audit_integrity_error ''Audit log and anchor must share one directory.'')
      else res_bind (verify_audit_log env f) (\<lambda>(n, head). Inr \<lparr>aw_event_count = n, aw_head_event_hash = head\<rparr>))"

record audit_decision =
  ad_score :: pyfloat
  ad_threshold :: pyfloat
  ad_decision :: string
  ad_model_version :: string
  ad_model_fingerprint :: string

record append_request =
  ap_request_id :: string
  ap_api_schema_version :: string
  ap_input_digest :: string
  ap_latency :: pyfloat
  ap_decisions :: "audit_decision list"

text \<open>\<open>round(x, 3)\<close> rounds the exact value to a decimal and that to binary64.\<close>

definition round3 :: "pyfloat \<Rightarrow> pyfloat" where
  "round3 x = (case x of Fin q \<Rightarrow> fl (of_int (round_half_even (q * 1000)) / 1000) | _ \<Rightarrow> x)"

definition new_event :: "append_request \<Rightarrow> string \<Rightarrow> string \<Rightarrow> string \<Rightarrow> nat \<Rightarrow> string \<Rightarrow> audit_decision \<Rightarrow> (string, pyval) dict" where
  "new_event rq key occurred_at event_id index previous d =
     [(''schema_version'', PStr LOG_SCHEMA_VERSION), (''api_schema_version'', PStr (ap_api_schema_version rq)),
      (''event_id'', PStr event_id), (''event_index'', PInt (int index)), (''request_id'', PStr (ap_request_id rq)),
      (''occurred_at_utc'', PStr occurred_at), (''idempotency_key_sha256'', PStr key),
      (''input_digest_sha256'', PStr (ap_input_digest rq)), (''model_fingerprint_sha256'', PStr (ad_model_fingerprint d)),
      (''model_version'', PStr (ad_model_version d)), (''score'', PFloat (ad_score d)), (''threshold'', PFloat (ad_threshold d)),
      (''decision'', PStr (ad_decision d)), (''latency_ms'', PFloat (round3 (ap_latency rq))), (''status'', PStr ''succeeded''),
      (''previous_hash'', PStr previous)]"

text \<open>
  The loop over the decisions: each event with its line and hash; \<open>ids\<close> are the values
  \<open>uuid.uuid4().hex\<close> gives.
\<close>

fun build_events ::
  "log_env \<Rightarrow> append_request \<Rightarrow> string \<Rightarrow> string \<Rightarrow> nat \<Rightarrow> nat \<Rightarrow> string \<Rightarrow> (string \<times> audit_decision) list \<Rightarrow>
   py_exc + ((string, pyval) dict \<times> string \<times> string) list" where
  "build_events env rq key occurred_at start index previous [] = Inr []"
| "build_events env rq key occurred_at start index previous ((event_id, d) # rest) =
     (if \<not> is_sha256 (ad_model_fingerprint d) then
        Inl (ValueError ''model_fingerprint_sha256 must be a lowercase SHA-256 digest.'')
      else
        (let u = new_event rq key occurred_at event_id index previous d
         in res_bind (sha256_canonical (PDict u)) (\<lambda>h.
            let e = u @ [(''event_hash'', PStr h)]
            in res_bind (validate_log_event env e (start + index + 1)) (\<lambda>_.
               res_bind (json_dumps (PDict e)) (\<lambda>line.
               res_bind (build_events env rq key occurred_at start (Suc index) h rest) (\<lambda>es. Inr ((e, line, h) # es)))))))"

definition append_events ::
  "log_env \<Rightarrow> append_request \<Rightarrow> string \<Rightarrow> string list \<Rightarrow> audit_writer \<Rightarrow>
   py_exc + ((string, pyval) dict \<times> string \<times> string) list" where
  "append_events env rq occurred_at ids w =
     res_bind (idempotency_key_sha256 (ap_request_id rq)) (\<lambda>key.
       build_events env rq key occurred_at (aw_event_count w) 0 (aw_head_event_hash w) (zip ids (ap_decisions rq)))"

text \<open>Where the operating system stops the writer: no fault, before the log is opened, after some
  bytes of the log, after all of them, before the anchor is replaced, and after that.\<close>

datatype write_fault = No_Fault | Log_Unopened | Log_Short nat | Log_Unsynced | Anchor_Kept | Anchor_Unsynced

definition os_error :: py_exc where
  "os_error = PyError ''OSError'' ''Short write while recording audit evidence.''"

definition anchor_record :: "nat \<Rightarrow> string \<Rightarrow> (string, pyval) dict" where
  "anchor_record n head =
     [(''schema_version'', PStr LOG_SCHEMA_VERSION), (''event_count'', PInt (int n)), (''head_event_hash'', PStr head)]"

definition anchor_bytes :: "nat \<Rightarrow> string \<Rightarrow> py_exc + string" where
  "anchor_bytes n head = res_bind (json_dumps (PDict (anchor_record n head))) (\<lambda>t. Inr (t @ [LF]))"

definition log_bytes :: "audit_file \<Rightarrow> string" where
  "log_bytes f = (case f of Contents s \<Rightarrow> s | _ \<Rightarrow> [])"

text \<open>The writes: what a stop leaves of the files, and whether the writer gets to its end.\<close>

definition write_evidence :: "write_fault \<Rightarrow> audit_files \<Rightarrow> string \<Rightarrow> string \<Rightarrow> (py_exc + unit) \<times> audit_files" where
  "write_evidence fault f encoded anchor =
     (case af_log f of
        Refused _ \<Rightarrow> (Inl os_error, f)
      | Not_Regular \<Rightarrow> (Inl (audit_integrity_error ''Audit log must be a regular file.''), f)
      | _ \<Rightarrow>
          (let full = f\<lparr>af_log := Contents (log_bytes (af_log f) @ encoded)\<rparr>
           in case fault of
                Log_Unopened \<Rightarrow> (Inl os_error, f)
              | Log_Short k \<Rightarrow> (Inl os_error, f\<lparr>af_log := Contents (log_bytes (af_log f) @ take k encoded)\<rparr>)
              | Log_Unsynced \<Rightarrow> (Inl os_error, full)
              | Anchor_Kept \<Rightarrow> (Inl os_error, full)
              | Anchor_Unsynced \<Rightarrow> (Inl os_error, full\<lparr>af_anchor := Contents anchor\<rparr>)
              | No_Fault \<Rightarrow> (Inr (), full\<lparr>af_anchor := Contents anchor\<rparr>)))"

text \<open>\<open>append_inference\<close>: what it computes under its locks before it writes, then the writes.\<close>

definition prepare_append ::
  "log_env \<Rightarrow> append_request \<Rightarrow> string \<Rightarrow> string list \<Rightarrow> audit_writer \<Rightarrow> audit_files \<Rightarrow>
   py_exc + ((string, pyval) dict \<times> string \<times> string) list \<times> string" where
  "prepare_append env rq occurred_at ids w f =
     (if ap_decisions rq = [] then Inl (ValueError ''At least one audit decision is required.'')
      else if ap_api_schema_version rq \<noteq> ''1.0'' then Inl (ValueError ''Unsupported API schema version for audit evidence.'')
      else
        res_bind (require_audit_sha256 (ap_input_digest rq) ''input_digest_sha256'') (\<lambda>_.
        res_bind (idempotency_key_sha256 (ap_request_id rq)) (\<lambda>_.
          if \<not> is_finite (ap_latency rq) \<or> flt (ap_latency rq) (Fin 0) then
            Inl (ValueError ''latency_ms must be finite and non-negative.'')
          else
            res_bind (verify_audit_log env f) (\<lambda>(n, head).
              if n \<noteq> aw_event_count w \<or> head \<noteq> aw_head_event_hash w then
                Inl (audit_integrity_error ''Audit evidence changed outside the append-only writer.'')
              else
                res_bind (append_events env rq occurred_at ids w) (\<lambda>es.
                res_bind (anchor_bytes (aw_event_count w + length es) (last (map (snd \<circ> snd) es))) (\<lambda>anchor.
                  Inr (es, anchor)))))))"

definition append_inference ::
  "log_env \<Rightarrow> append_request \<Rightarrow> string \<Rightarrow> string list \<Rightarrow> write_fault \<Rightarrow> audit_writer \<Rightarrow> audit_files \<Rightarrow>
   (py_exc + string list) \<times> audit_writer \<times> audit_files" where
  "append_inference env rq occurred_at ids fault w f =
     (case prepare_append env rq occurred_at ids w f of
        Inl e \<Rightarrow> (Inl e, w, f)
      | Inr (es, anchor) \<Rightarrow>
          (case write_evidence fault f (concat (map (\<lambda>(_, line, _). line @ [LF]) es)) anchor of
             (Inl e, f') \<Rightarrow> (Inl e, w, f')
           | (Inr _, f') \<Rightarrow>
               (Inr (map (snd \<circ> snd) es),
                \<lparr>aw_event_count = aw_event_count w + length es, aw_head_event_hash = last (map (snd \<circ> snd) es)\<rparr>, f')))"

end
