(* ===== verification/Api_Service.thy ===== *)
theory Api_Service
  imports Write_Once Audit_Log
begin

text \<open>
  The local profile of \<open>src/api/main.py\<close> with the in-process registry of \<open>src/api/audit.py\<close>:
  settings, request identifiers, the error contract, the body limit, admission control and
  the V1 inference flow. Cooperative tasks switch only at an \<open>await\<close> that suspends, so one
  event is what one task does between two suspensions. Scoring results, audit hashes and
  fresh identifiers come from the environment.
\<close>

section \<open>Settings\<close>

record api_settings =
  as_cors_origins :: "string list"
  as_max_request_bytes :: int
  as_prediction_timeout_seconds :: pyfloat
  as_max_concurrent_predictions :: int
  as_audit_log_path :: "string option"
  as_state_backend :: string
  as_postgres_scale :: bool

definition api_settings_init :: "api_settings \<Rightarrow> py_exc + api_settings" where
  "api_settings_init s =
     (if ''*'' \<in> set (as_cors_origins s) then
        Inl (ValueError (''CORS origins must not contain wildcard '' @ [CHR 0x27] @ ''*'' @ [CHR 0x27] @ ''.''))
      else if \<not> (1024 \<le> as_max_request_bytes s \<and> as_max_request_bytes s \<le> 1048576) then
        Inl (ValueError ''max_request_bytes must be between 1024 and 1048576.'')
      else if \<not> (fle (fl (1/10)) (as_prediction_timeout_seconds s) \<and> fle (as_prediction_timeout_seconds s) (Fin 30)) then
        Inl (ValueError ''prediction_timeout_seconds must be between 0.1 and 30.0.'')
      else if \<not> (1 \<le> as_max_concurrent_predictions s \<and> as_max_concurrent_predictions s \<le> 256) then
        Inl (ValueError ''max_concurrent_predictions must be between 1 and 256.'')
      else if as_state_backend s = ''local-default'' \<and> as_postgres_scale s then
        Inl (ValueError ''PostgreSQL settings require the postgres-scale backend.'')
      else if as_state_backend s = ''postgres-scale'' \<and> \<not> as_postgres_scale s then
        Inl (ValueError ''postgres-scale requires validated PostgreSQL settings.'')
      else if as_state_backend s = ''postgres-scale'' \<and> as_audit_log_path s \<noteq> None then
        Inl (ValueError ''postgres-scale cannot use the local NDJSON audit configuration.'')
      else Inr s)"

section \<open>Request identifiers\<close>

text \<open>\<open>value.decode("ascii", errors="ignore")\<close>.\<close>

definition decode_ascii_ignore :: "string \<Rightarrow> string" where
  "decode_ascii_ignore v = filter (\<lambda>c. (of_char c :: nat) < 128) v"

fun request_id_from_headers :: "(string \<times> string) list \<Rightarrow> string \<Rightarrow> string" where
  "request_id_from_headers [] fresh = fresh"
| "request_id_from_headers ((key, v) # headers) fresh =
     (if map lower_char key = ''x-request-id'' \<and> is_request_id (decode_ascii_ignore v)
      then decode_ascii_ignore v else request_id_from_headers headers fresh)"

definition current_request_id :: "string option \<Rightarrow> string \<Rightarrow> string \<Rightarrow> string" where
  "current_request_id existing header fresh =
     (case existing of Some r \<Rightarrow> if r \<noteq> [] then r else if is_request_id header then header else fresh
      | None \<Rightarrow> if is_request_id header then header else fresh)"

section \<open>The error contract\<close>

text \<open>Status, code and message of the exception handlers; an exception of the source is known by its class.\<close>

definition durable_codes :: "(string \<times> string) list" where
  "durable_codes = [(''ReservationInProgressError'', ''idempotency_in_progress''),
     (''StaleReservationError'', ''idempotency_stale''), (''FailedReservationError'', ''idempotency_failed''),
     (''StoredResponseIntegrityError'', ''state_integrity_failure''),
     (''StateStoreUnavailableError'', ''state_store_unavailable''), (''DurableIdempotencyError'', ''state_store_failure'')]"

definition error_response :: "py_exc \<Rightarrow> int \<times> string \<times> string" where
  "error_response e =
     (case e of
        PyError c m \<Rightarrow>
          if c = ''ModelUnavailableError'' then (503, ''model_unavailable'', m)
          else if c = ''PredictionIntegrityError'' then
            (500, ''prediction_integrity_error'', ''The configured model returned invalid output.'')
          else if c = ''PredictionTimeoutError'' then (504, ''prediction_timeout'', m)
          else if c = ''CapacityExceededError'' then (503, ''capacity_exceeded'', m)
          else if c = ''IdempotencyConflictError'' \<or> c = ''DurableIdempotencyConflictError'' then (409, ''idempotency_conflict'', m)
          else if map_of durable_codes c \<noteq> None then (503, the (map_of durable_codes c), m)
          else if c = ''BoundedResponseIntegrityError'' then
            (500, ''prediction_integrity_error'', ''The bounded response could not be tied to the loaded bundle.'')
          else if c = ''AuditUnavailableError'' then (503, ''audit_unavailable'', m)
          else if c = ''ScaleProfileUnavailableError'' then (503, ''scale_profile_unavailable'', m)
          else if c = ''ScaleProfileRequiresV2Error'' then (503, ''scale_profile_requires_v2'', m)
          else (500, ''internal_error'', ''An internal error occurred.'')
      | _ \<Rightarrow> (500, ''internal_error'', ''An internal error occurred.''))"

section \<open>The body limit\<close>

datatype asgi_message = Http_Request string bool | Http_Disconnect | Other_Message

datatype body_outcome =
    Too_Large            \<comment> \<open>413, the application is not called\<close>
  | Disconnected
  | Still_Waiting        \<comment> \<open>the next message has not arrived\<close>
  | Forward "asgi_message list" \<comment> \<open>the application is called with these messages to replay\<close>

fun read_body :: "nat \<Rightarrow> asgi_message list \<Rightarrow> nat \<Rightarrow> asgi_message list \<Rightarrow> body_outcome" where
  "read_body max_bytes messages seen_bytes [] = Still_Waiting"
| "read_body max_bytes messages seen_bytes (Http_Request body has_more # incoming) =
     (let seen_bytes' = seen_bytes + length body
      in if max_bytes < seen_bytes' then Too_Large
         else if \<not> has_more then Forward (messages @ [Http_Request body has_more])
         else read_body max_bytes (messages @ [Http_Request body has_more]) seen_bytes' incoming)"
| "read_body max_bytes messages seen_bytes (Http_Disconnect # incoming) = Disconnected"
| "read_body max_bytes messages seen_bytes (Other_Message # incoming) =
     read_body max_bytes (messages @ [Other_Message]) seen_bytes incoming"

definition limited_body :: "nat \<Rightarrow> string \<Rightarrow> asgi_message list \<Rightarrow> body_outcome" where
  "limited_body max_bytes http_method incoming =
     (if http_method \<notin> {''POST'', ''PUT'', ''PATCH''} then Forward incoming else read_body max_bytes [] 0 incoming)"

section \<open>Admission\<close>

record concurrency_gate =
  cg_limit :: int
  cg_in_flight :: int

definition gate_init :: "int \<Rightarrow> py_exc + concurrency_gate" where
  "gate_init limit =
     (if limit < 1 then Inl (ValueError ''limit must be at least 1.'') else Inr \<lparr>cg_limit = limit, cg_in_flight = 0\<rparr>)"

definition try_acquire :: "concurrency_gate \<Rightarrow> bool \<times> concurrency_gate" where
  "try_acquire g =
     (if cg_limit g \<le> cg_in_flight g then (False, g) else (True, g\<lparr>cg_in_flight := cg_in_flight g + 1\<rparr>))"

definition gate_release :: "concurrency_gate \<Rightarrow> concurrency_gate" where
  "gate_release g = g\<lparr>cg_in_flight := max 0 (cg_in_flight g - 1)\<rparr>"

section \<open>The in-process registry\<close>

text \<open>
  Reservations refer to entries, and an entry outlives its removal from the registry, so
  entries live in a store of their own.
\<close>

record 'r reg_entry =
  re_input_digest :: string
  re_ready :: bool
  re_result :: "'r option"
  re_error :: "py_exc option"

record 'r registry =
  rg_entries :: "(string, nat) dict"
  rg_store :: "'r reg_entry list"

record reg_reservation =
  rr_key :: string
  rr_owner :: bool
  rr_entry :: nat

definition registry_init :: "'r registry" where
  "registry_init = \<lparr>rg_entries = [], rg_store = []\<rparr>"

definition registry_reserve :: "string \<Rightarrow> string \<Rightarrow> 'r registry \<Rightarrow> (py_exc + reg_reservation) \<times> 'r registry" where
  "registry_reserve request_id input_digest g =
     (case idempotency_key_sha256 request_id of Inl e \<Rightarrow> (Inl e, g)
      | Inr key \<Rightarrow>
          (case require_audit_sha256 input_digest ''input_digest_sha256'' of Inl e \<Rightarrow> (Inl e, g)
           | Inr _ \<Rightarrow>
               (case map_of (rg_entries g) key of
                  Some i \<Rightarrow>
                    if re_input_digest (rg_store g ! i) \<noteq> input_digest then
                      (Inl (PyError ''IdempotencyConflictError''
                         ''The request ID was already used for different canonical input.''), g)
                    else (Inr \<lparr>rr_key = key, rr_owner = False, rr_entry = i\<rparr>, g)
                | None \<Rightarrow>
                    (Inr \<lparr>rr_key = key, rr_owner = True, rr_entry = length (rg_store g)\<rparr>,
                     g\<lparr>rg_entries := rg_entries g @ [(key, length (rg_store g))],
                       rg_store := rg_store g @ [\<lparr>re_input_digest = input_digest, re_ready = False,
                                                 re_result = None, re_error = None\<rparr>]\<rparr>))))"

text \<open>\<open>None\<close>: the reservation is not ready and the replay stays suspended.\<close>

definition registry_replay :: "reg_reservation \<Rightarrow> 'r registry \<Rightarrow> (py_exc + 'r option) option" where
  "registry_replay rv g =
     (if rr_owner rv then Some (Inl (RuntimeError ''Owner reservations cannot be replayed.''))
      else let entry = rg_store g ! rr_entry rv
        in if \<not> re_ready entry then None
           else case re_error entry of Some e \<Rightarrow> Some (Inl e) | None \<Rightarrow> Some (Inr (re_result entry)))"

definition registry_complete :: "reg_reservation \<Rightarrow> 'r \<Rightarrow> 'r registry \<Rightarrow> (py_exc + unit) \<times> 'r registry" where
  "registry_complete rv result g =
     (if \<not> rr_owner rv then (Inl (RuntimeError ''Only an owner reservation can be completed.''), g)
      else (Inr (), g\<lparr>rg_store := (rg_store g)[rr_entry rv :=
              (rg_store g ! rr_entry rv)\<lparr>re_result := Some result, re_ready := True\<rparr>]\<rparr>))"

definition registry_fail :: "reg_reservation \<Rightarrow> py_exc \<Rightarrow> 'r registry \<Rightarrow> (py_exc + unit) \<times> 'r registry" where
  "registry_fail rv error g =
     (if \<not> rr_owner rv then (Inl (RuntimeError ''Only an owner reservation can fail.''), g)
      else (Inr (),
        g\<lparr>rg_entries := (if map_of (rg_entries g) (rr_key rv) = Some (rr_entry rv)
                         then AList.delete (rr_key rv) (rg_entries g) else rg_entries g),
          rg_store := (rg_store g)[rr_entry rv :=
              (rg_store g ! rr_entry rv)\<lparr>re_error := Some error, re_ready := True\<rparr>]\<rparr>))"

section \<open>The V1 inference flow\<close>

text \<open>
  What a client request waits for: nothing yet, another request's outcome, the worker it has
  started, or its turn on the event loop once that worker has ended. A request carries its id, its input digest and whether it is a single or a
  batch prediction. An answer is a prediction with the audit receipt and the replay header,
  or an exception for the handlers above.
\<close>

record svc_request =
  sq_id :: string
  sq_digest :: string
  sq_single :: bool

datatype 'p svc_answer = Prediction 'p "string option" bool | Failure py_exc

datatype 'p svc_client =
    Absent
  | Waiting_Replay svc_request reg_reservation
  | Waiting_Worker svc_request reg_reservation
  | Worker_Done svc_request reg_reservation "py_exc + 'p"
  | Answered svc_request "'p svc_answer"

text \<open>The audit log is the list of key digest, input digest and receipt of what was appended.\<close>

record 'p svc =
  sv_backend :: string
  sv_audit_on :: bool
  sv_gate :: concurrency_gate
  sv_registry :: "('p \<times> string option) registry"
  sv_audit :: "(string \<times> string \<times> string) list"
  sv_workers :: "nat set"
  sv_clients :: "nat \<Rightarrow> 'p svc_client"

definition svc_init :: "string \<Rightarrow> bool \<Rightarrow> concurrency_gate \<Rightarrow> 'p svc" where
  "svc_init backend audit_on g =
     \<lparr>sv_backend = backend, sv_audit_on = audit_on, sv_gate = g, sv_registry = registry_init, sv_audit = [],
      sv_workers = {}, sv_clients = (\<lambda>_. Absent)\<rparr>"

definition set_client :: "nat \<Rightarrow> 'p svc_client \<Rightarrow> 'p svc \<Rightarrow> 'p svc" where
  "set_client c x s = s\<lparr>sv_clients := (sv_clients s)(c := x)\<rparr>"

text \<open>The exception path of an owner: \<open>registry.fail\<close>, then the exception leaves the handler.\<close>

definition owner_fails :: "nat \<Rightarrow> svc_request \<Rightarrow> reg_reservation \<Rightarrow> py_exc \<Rightarrow> 'p svc \<Rightarrow> 'p svc" where
  "owner_fails c q rv e s =
     set_client c (Answered q (Failure e)) (s\<lparr>sv_registry := snd (registry_fail rv e (sv_registry s))\<rparr>)"

text \<open>The handler up to its first suspension: reservation, admission, worker.\<close>

definition svc_arrive :: "nat \<Rightarrow> svc_request \<Rightarrow> 'p svc \<Rightarrow> 'p svc" where
  "svc_arrive c q s =
     (if sv_clients s c \<noteq> Absent then s
      else if sv_backend s = ''postgres-scale'' then
        set_client c (Answered q (Failure (PyError ''ScaleProfileRequiresV2Error''
          (if sq_single q then ''postgres-scale exposes only the score-free /v2/predict contract.''
           else ''postgres-scale does not expose score-bearing V1 or batch prediction.'')))) s
      else case registry_reserve (sq_id q) (sq_digest q) (sv_registry s) of
        (Inl e, g) \<Rightarrow> set_client c (Answered q (Failure e)) (s\<lparr>sv_registry := g\<rparr>)
      | (Inr rv, g) \<Rightarrow>
          let s1 = s\<lparr>sv_registry := g\<rparr>
          in if \<not> rr_owner rv then set_client c (Waiting_Replay q rv) s1
             else case try_acquire (sv_gate s) of
               (False, gt) \<Rightarrow>
                 owner_fails c q rv (PyError ''CapacityExceededError''
                   (''Prediction capacity exceeded ('' @ int_str (cg_in_flight gt) @ '' in flight).'')) s1
             | (True, gt) \<Rightarrow>
                 set_client c (Waiting_Worker q rv) (s1\<lparr>sv_gate := gt, sv_workers := insert c (sv_workers s)\<rparr>))"

text \<open>
  The end of a worker: its callback frees the slot whatever became of the client; a client
  still waiting finds the worker's result.
\<close>

definition svc_worker_ends :: "nat \<Rightarrow> py_exc + 'p \<Rightarrow> 'p svc \<Rightarrow> 'p svc" where
  "svc_worker_ends c result s =
     (if c \<notin> sv_workers s then s
      else let s1 = s\<lparr>sv_gate := gate_release (sv_gate s), sv_workers := sv_workers s - {c}\<rparr>
        in case sv_clients s c of
             Waiting_Worker q rv \<Rightarrow> set_client c (Worker_Done q rv result) s1
           | _ \<Rightarrow> s1)"

text \<open>
  An integrity error of the log and an error of the operating system (of whatever subclass of
  \<open>OSError\<close>) become the one documented failure; any other exception of the append passes through.
\<close>

definition audit_failure :: "py_exc \<Rightarrow> py_exc" where
  "audit_failure e =
     (case e of
        PyError c _ \<Rightarrow>
          if c = ''AuditIntegrityError'' \<or> c = ''OSError'' then
            PyError ''AuditUnavailableError'' ''Audit evidence is unavailable; no inference result was released.''
          else e
      | _ \<Rightarrow> e)"

text \<open>
  The handler goes on with the worker's result: it records the audit evidence, publishes the
  result and answers, or fails. \<open>appended\<close> is what the append to the audit log brings.
\<close>

definition svc_resume :: "nat \<Rightarrow> py_exc + string \<Rightarrow> 'p svc \<Rightarrow> 'p svc" where
  "svc_resume c appended s =
     (case sv_clients s c of
        Worker_Done q rv result \<Rightarrow>
          (case result of
             Inl e \<Rightarrow> owner_fails c q rv e s
           | Inr p \<Rightarrow>
               if \<not> sv_audit_on s then
                 set_client c (Answered q (Prediction p None False))
                   (s\<lparr>sv_registry := snd (registry_complete rv (p, None) (sv_registry s))\<rparr>)
               else case appended of
                 Inl e \<Rightarrow> owner_fails c q rv (audit_failure e) s
               | Inr receipt \<Rightarrow>
                   let shown = (if sq_single q then Some receipt else None)
                   in set_client c (Answered q (Prediction p shown False))
                        (s\<lparr>sv_registry := snd (registry_complete rv (p, shown) (sv_registry s)),
                           sv_audit := sv_audit s @ [(rr_key rv, sq_digest q, receipt)]\<rparr>))
      | _ \<Rightarrow> s)"

text \<open>
  A timeout or a cancellation of the waiting request; the worker goes on. A cancellation may
  also come after the worker has ended and before the handler goes on.
\<close>

definition svc_interrupted :: "nat \<Rightarrow> py_exc \<Rightarrow> 'p svc \<Rightarrow> 'p svc" where
  "svc_interrupted c e s =
     (case sv_clients s c of
        Waiting_Worker q rv \<Rightarrow> owner_fails c q rv e s
      | Worker_Done q rv _ \<Rightarrow> owner_fails c q rv e s
      | Waiting_Replay q rv \<Rightarrow> set_client c (Answered q (Failure e)) s
      | _ \<Rightarrow> s)"

definition svc_replay_wakes :: "nat \<Rightarrow> 'p svc \<Rightarrow> 'p svc" where
  "svc_replay_wakes c s =
     (case sv_clients s c of
        Waiting_Replay q rv \<Rightarrow>
          (case registry_replay rv (sv_registry s) of
             None \<Rightarrow> s
           | Some (Inl e) \<Rightarrow> set_client c (Answered q (Failure e)) s
           | Some (Inr None) \<Rightarrow> set_client c (Answered q (Failure
               (RuntimeError ''Cached prediction result has an unexpected type.''))) s
           | Some (Inr (Some (p, receipt))) \<Rightarrow> set_client c (Answered q (Prediction p receipt True)) s)
      | _ \<Rightarrow> s)"

inductive svc_step :: "'p svc \<Rightarrow> 'p svc \<Rightarrow> bool" where
  arrive: "svc_step s (svc_arrive c q s)"
| worker_ends: "svc_step s (svc_worker_ends c result s)"
| resume: "svc_step s (svc_resume c appended s)"
| interrupted: "svc_step s (svc_interrupted c e s)"
| replay_wakes: "svc_step s (svc_replay_wakes c s)"

end
