(* ===== verification/Api_Facts.thy ===== *)
theory Api_Facts
  imports Api_Service
begin

text \<open>
  What the V1 flow promises under any interleaving of requests, workers and timeouts: the
  admission count is the number of running workers, all answers to one request id are the
  same prediction, and with audit evidence switched on nothing is released without it.
\<close>

section \<open>Registry invariant\<close>

definition reg_inv :: "'r registry \<Rightarrow> bool" where
  "reg_inv g \<longleftrightarrow> dict_ok (rg_entries g) \<and>
     (\<forall>k i. map_of (rg_entries g) k = Some i \<longrightarrow> i < length (rg_store g) \<and> re_error (rg_store g ! i) = None \<and>
        (re_ready (rg_store g ! i) \<longrightarrow> re_result (rg_store g ! i) \<noteq> None)) \<and>
     (\<forall>k k' i. map_of (rg_entries g) k = Some i \<longrightarrow> map_of (rg_entries g) k' = Some i \<longrightarrow> k = k')"

definition held :: "'r registry \<Rightarrow> svc_request \<Rightarrow> reg_reservation \<Rightarrow> bool" where
  "held g q rv \<longleftrightarrow> rr_key rv = sha256_hex (sq_id q) \<and> rr_entry rv < length (rg_store g) \<and>
     re_input_digest (rg_store g ! rr_entry rv) = sq_digest q \<and>
     (re_error (rg_store g ! rr_entry rv) = None \<longrightarrow> map_of (rg_entries g) (rr_key rv) = Some (rr_entry rv))"

definition pending_owner :: "'r registry \<Rightarrow> svc_request \<Rightarrow> reg_reservation \<Rightarrow> bool" where
  "pending_owner g q rv \<longleftrightarrow> held g q rv \<and> rr_owner rv \<and> \<not> re_ready (rg_store g ! rr_entry rv) \<and>
     map_of (rg_entries g) (rr_key rv) = Some (rr_entry rv)"

definition published :: "'r registry \<Rightarrow> string \<Rightarrow> string \<Rightarrow> 'r \<Rightarrow> bool" where
  "published g k d v \<longleftrightarrow> (\<exists>i. map_of (rg_entries g) k = Some i \<and> re_ready (rg_store g ! i) \<and>
     re_result (rg_store g ! i) = Some v \<and> re_input_digest (rg_store g ! i) = d)"

lemma reg_inv_init: "reg_inv registry_init"
  by (simp add: reg_inv_def registry_init_def)

lemma published_unique: "published g k d v \<Longrightarrow> published g k d' v' \<Longrightarrow> d = d' \<and> v = v'"
  by (auto simp: published_def)

text \<open>Each operation, as an effect on these predicates.\<close>

lemma reserve_cases:
  assumes "registry_reserve rid dig g = (res, g')"
  obtains (refused) e where "res = Inl e" "g' = g"
  | (joined) rv where "res = Inr rv" "g' = g" "\<not> rr_owner rv" "rr_key rv = sha256_hex rid"
      "map_of (rg_entries g) (rr_key rv) = Some (rr_entry rv)" "re_input_digest (rg_store g ! rr_entry rv) = dig"
  | (fresh) rv where "res = Inr rv" "rr_owner rv" "rr_key rv = sha256_hex rid" "rr_entry rv = length (rg_store g)"
      "map_of (rg_entries g) (rr_key rv) = None"
      "g' = g\<lparr>rg_entries := rg_entries g @ [(rr_key rv, length (rg_store g))],
              rg_store := rg_store g @ [\<lparr>re_input_digest = dig, re_ready = False, re_result = None, re_error = None\<rparr>]\<rparr>"
proof -
  consider "\<exists>e. res = Inl e \<and> g' = g"
    | "\<exists>rv. res = Inr rv \<and> g' = g \<and> \<not> rr_owner rv \<and> rr_key rv = sha256_hex rid \<and>
      map_of (rg_entries g) (rr_key rv) = Some (rr_entry rv) \<and> re_input_digest (rg_store g ! rr_entry rv) = dig"
    | "\<exists>rv. res = Inr rv \<and> rr_owner rv \<and> rr_key rv = sha256_hex rid \<and> rr_entry rv = length (rg_store g) \<and>
      map_of (rg_entries g) (rr_key rv) = None \<and>
      g' = g\<lparr>rg_entries := rg_entries g @ [(rr_key rv, length (rg_store g))],
              rg_store := rg_store g @ [\<lparr>re_input_digest = dig, re_ready = False, re_result = None, re_error = None\<rparr>]\<rparr>"
    using assms
    by (auto simp: registry_reserve_def idempotency_key_sha256_def require_audit_sha256_def split: option.splits if_splits)
  then show thesis using refused joined fresh by cases blast+
qed

lemma fresh_entry_keeps:
  fixes g :: "'r registry" and k :: string and x :: "'r reg_entry"
  defines "g' \<equiv> g\<lparr>rg_entries := rg_entries g @ [(k, length (rg_store g))], rg_store := rg_store g @ [x]\<rparr>"
  assumes inv: "reg_inv g" and new: "map_of (rg_entries g) k = None" and x: "re_error x = None" "\<not> re_ready x"
  shows "reg_inv g'" and "held g q rv \<Longrightarrow> held g' q rv" and "pending_owner g q rv \<Longrightarrow> pending_owner g' q rv"
    and "published g k' d v \<Longrightarrow> published g' k' d v" and "published g' k' d v \<Longrightarrow> published g k' d v"
    and "map_of (rg_entries g') k' = (if k' = k then Some (length (rg_store g)) else map_of (rg_entries g) k')"
proof -
  show m: "map_of (rg_entries g') k' = (if k' = k then Some (length (rg_store g)) else map_of (rg_entries g) k')" for k'
    using new by (auto simp: g'_def map_add_def split: option.split)
  have s: "i < length (rg_store g) \<Longrightarrow> rg_store g' ! i = rg_store g ! i" for i by (simp add: g'_def nth_append)
  have l: "length (rg_store g') = Suc (length (rg_store g))" "rg_store g' ! length (rg_store g) = x" by (simp_all add: g'_def)
  have bound: "map_of (rg_entries g) k' = Some i \<Longrightarrow> i < length (rg_store g)" for k' i
    using inv unfolding reg_inv_def by blast
  show "reg_inv g'"
    unfolding reg_inv_def m l
  proof (intro conjI allI impI)
    show "dict_ok (rg_entries g')" using inv new by (auto simp: g'_def reg_inv_def intro: dict_ok_snoc)
    fix k' i assume a: "(if k' = k then Some (length (rg_store g)) else map_of (rg_entries g) k') = Some i"
    show "i < Suc (length (rg_store g))" using a bound by (auto split: if_splits intro: less_SucI)
    show "re_error (rg_store g' ! i) = None"
      using a bound inv x s l by (auto simp: reg_inv_def split: if_splits)
    show "re_ready (rg_store g' ! i) \<Longrightarrow> re_result (rg_store g' ! i) \<noteq> None"
      using a bound inv x s l by (auto simp: reg_inv_def split: if_splits)
    fix k'' assume "(if k'' = k then Some (length (rg_store g)) else map_of (rg_entries g) k'') = Some i"
    then show "k' = k''" using a bound inv by (auto simp: reg_inv_def split: if_splits)
  qed
  show h: "held g q rv \<Longrightarrow> held g' q rv" for q rv using new s l m by (auto simp: held_def)
  show "pending_owner g q rv \<Longrightarrow> pending_owner g' q rv"
    using h new s m by (auto simp: pending_owner_def held_def)
  show "published g k' d v \<Longrightarrow> published g' k' d v"
    using new s m bound by (fastforce simp: published_def)
  show "published g k' d v" if p: "published g' k' d v"
  proof -
    obtain i where i: "map_of (rg_entries g') k' = Some i" "re_ready (rg_store g' ! i)" "re_result (rg_store g' ! i) = Some v"
      "re_input_digest (rg_store g' ! i) = d" using p by (auto simp: published_def)
    have "k' \<noteq> k" using i(1,2) m l x(2) by auto
    then show ?thesis using i m s bound by (auto simp: published_def)
  qed
qed

lemma complete_effect:
  fixes g :: "'r registry" and rv :: reg_reservation and v :: 'r
  assumes inv: "reg_inv g" and own: "pending_owner g q rv"
  defines "g' \<equiv> snd (registry_complete rv v g)"
  shows "reg_inv g'" and "published g' (rr_key rv) (sq_digest q) v" and "rg_entries g' = rg_entries g"
    and "held g q' rv' \<Longrightarrow> held g' q' rv'"
    and "pending_owner g q' rv' \<Longrightarrow> rr_entry rv' \<noteq> rr_entry rv \<Longrightarrow> pending_owner g' q' rv'"
    and "published g k d u \<Longrightarrow> published g' k d u"
    and "published g' k d u \<Longrightarrow> k \<noteq> rr_key rv \<Longrightarrow> published g k d u"
proof -
  have o: "rr_owner rv" "rr_entry rv < length (rg_store g)" "\<not> re_ready (rg_store g ! rr_entry rv)"
    "map_of (rg_entries g) (rr_key rv) = Some (rr_entry rv)" "re_input_digest (rg_store g ! rr_entry rv) = sq_digest q"
    using own by (auto simp: pending_owner_def held_def)
  have g': "g' = g\<lparr>rg_store := (rg_store g)[rr_entry rv := (rg_store g ! rr_entry rv)\<lparr>re_result := Some v, re_ready := True\<rparr>]\<rparr>"
    using o(1) by (simp add: g'_def registry_complete_def)
  show e: "rg_entries g' = rg_entries g" by (simp add: g')
  have n: "rg_store g' ! i = (if i = rr_entry rv then (rg_store g ! i)\<lparr>re_result := Some v, re_ready := True\<rparr> else rg_store g ! i)" for i
    using o(2) by (auto simp: g' nth_list_update)
  have l: "length (rg_store g') = length (rg_store g)" by (simp add: g')
  show "reg_inv g'" using inv by (auto simp: reg_inv_def e n l)
  show "published g' (rr_key rv) (sq_digest q) v" using o by (auto simp: published_def e n)
  show h: "held g q' rv' \<Longrightarrow> held g' q' rv'" for q' rv' by (auto simp: held_def e n l)
  show "pending_owner g q' rv' \<Longrightarrow> rr_entry rv' \<noteq> rr_entry rv \<Longrightarrow> pending_owner g' q' rv'"
    using h by (auto simp: pending_owner_def e n)
  show "published g k d u \<Longrightarrow> published g' k d u" using o(3) by (auto simp: published_def e n)
  show "published g' k d u \<Longrightarrow> k \<noteq> rr_key rv \<Longrightarrow> published g k d u"
  proof -
    assume p: "published g' k d u" and k: "k \<noteq> rr_key rv"
    obtain i where i: "map_of (rg_entries g) k = Some i" "re_ready (rg_store g' ! i)" "re_result (rg_store g' ! i) = Some u"
      "re_input_digest (rg_store g' ! i) = d" using p by (auto simp: published_def e)
    have "i \<noteq> rr_entry rv" using i(1) k o(4) inv unfolding reg_inv_def by blast
    then show ?thesis using i by (auto simp: published_def n)
  qed
qed

lemma fail_effect:
  fixes g :: "'r registry" and rv :: reg_reservation and x :: py_exc
  assumes inv: "reg_inv g" and own: "pending_owner g q rv"
  defines "g' \<equiv> snd (registry_fail rv x g)"
  shows "reg_inv g'" and "held g q' rv' \<Longrightarrow> held g' q' rv'"
    and "pending_owner g q' rv' \<Longrightarrow> rr_entry rv' \<noteq> rr_entry rv \<Longrightarrow> pending_owner g' q' rv'"
    and "published g k d u \<Longrightarrow> published g' k d u" and "published g' k d u \<Longrightarrow> published g k d u"
proof -
  have o: "rr_owner rv" "rr_entry rv < length (rg_store g)" "\<not> re_ready (rg_store g ! rr_entry rv)"
    "map_of (rg_entries g) (rr_key rv) = Some (rr_entry rv)"
    using own by (auto simp: pending_owner_def held_def)
  have g': "g' = g\<lparr>rg_entries := AList.delete (rr_key rv) (rg_entries g),
      rg_store := (rg_store g)[rr_entry rv := (rg_store g ! rr_entry rv)\<lparr>re_error := Some x, re_ready := True\<rparr>]\<rparr>"
    using o(1,4) by (simp add: g'_def registry_fail_def)
  have m: "map_of (rg_entries g') k = (if k = rr_key rv then None else map_of (rg_entries g) k)" for k
    by (simp add: g' AList.delete_conv')
  have n: "rg_store g' ! i = (if i = rr_entry rv then (rg_store g ! i)\<lparr>re_error := Some x, re_ready := True\<rparr> else rg_store g ! i)" for i
    using o(2) by (auto simp: g' nth_list_update)
  have l: "length (rg_store g') = length (rg_store g)" by (simp add: g')
  have inj: "map_of (rg_entries g) k = Some (rr_entry rv) \<Longrightarrow> k = rr_key rv" for k
    using inv o(4) unfolding reg_inv_def by blast
  have d: "dict_ok (rg_entries g')" using inv by (simp add: g' reg_inv_def AList.distinct_delete)
  show "reg_inv g'" unfolding reg_inv_def m n l
  proof (intro conjI allI impI)
    show "dict_ok (rg_entries g')" by (rule d)
    fix k i assume a: "(if k = rr_key rv then None else map_of (rg_entries g) k) = Some i"
    then have k: "k \<noteq> rr_key rv" "map_of (rg_entries g) k = Some i" by (auto split: if_splits)
    have i: "i \<noteq> rr_entry rv" using inj k by blast
    have old: "i < length (rg_store g) \<and> re_error (rg_store g ! i) = None \<and>
        (re_ready (rg_store g ! i) \<longrightarrow> re_result (rg_store g ! i) \<noteq> None)"
      using inv k(2) unfolding reg_inv_def by blast
    show "i < length (rg_store g)" using old by blast
    show "re_error (if i = rr_entry rv then (rg_store g ! i)\<lparr>re_error := Some x, re_ready := True\<rparr> else rg_store g ! i) = None"
      using old i by simp
    show "re_result (if i = rr_entry rv then (rg_store g ! i)\<lparr>re_error := Some x, re_ready := True\<rparr> else rg_store g ! i) \<noteq> None"
      if "re_ready (if i = rr_entry rv then (rg_store g ! i)\<lparr>re_error := Some x, re_ready := True\<rparr> else rg_store g ! i)"
      using that old i by simp
    fix k' assume "(if k' = rr_key rv then None else map_of (rg_entries g) k') = Some i"
    then have "map_of (rg_entries g) k' = Some i" by (auto split: if_splits)
    then show "k = k'" using inv k(2) unfolding reg_inv_def by blast
  qed
  show h: "held g q' rv' \<Longrightarrow> held g' q' rv'" for q' rv'
    using o(4) by (auto simp: held_def m n l)
  show "pending_owner g q' rv' \<Longrightarrow> rr_entry rv' \<noteq> rr_entry rv \<Longrightarrow> pending_owner g' q' rv'"
    using h o(4) by (auto simp: pending_owner_def m n)
  show "published g' k d u" if p: "published g k d u"
  proof -
    obtain i where i: "map_of (rg_entries g) k = Some i" "re_ready (rg_store g ! i)" "re_result (rg_store g ! i) = Some u"
      "re_input_digest (rg_store g ! i) = d" using p by (auto simp: published_def)
    have "i \<noteq> rr_entry rv" using i(2) o(3) by auto
    moreover from this have "k \<noteq> rr_key rv" using i(1) o(4) by auto
    ultimately show ?thesis using i by (simp add: published_def m n)
  qed
  show "published g k d u" if p: "published g' k d u"
  proof -
    obtain i where i: "k \<noteq> rr_key rv" "map_of (rg_entries g) k = Some i" "re_ready (rg_store g' ! i)"
      "re_result (rg_store g' ! i) = Some u" "re_input_digest (rg_store g' ! i) = d"
      using p by (auto simp: published_def m split: if_splits)
    have "i \<noteq> rr_entry rv" using i(1,2) inj by blast
    then show ?thesis using i by (simp add: published_def n)
  qed
qed

section \<open>Service invariant\<close>

fun client_ok :: "('p \<times> string option) registry \<Rightarrow> nat set \<Rightarrow> nat \<Rightarrow> 'p svc_client \<Rightarrow> bool" where
  "client_ok g W c Absent \<longleftrightarrow> c \<notin> W"
| "client_ok g W c (Waiting_Worker q rv) \<longleftrightarrow> c \<in> W \<and> pending_owner g q rv"
| "client_ok g W c (Worker_Done q rv r) \<longleftrightarrow> c \<notin> W \<and> pending_owner g q rv"
| "client_ok g W c (Waiting_Replay q rv) \<longleftrightarrow> held g q rv \<and> \<not> rr_owner rv"
| "client_ok g W c (Answered q (Prediction p h rep)) \<longleftrightarrow> published g (sha256_hex (sq_id q)) (sq_digest q) (p, h)"
| "client_ok g W c (Answered q (Failure e)) \<longleftrightarrow> True"

fun owner_of :: "'p svc_client \<Rightarrow> reg_reservation option" where
  "owner_of (Waiting_Worker q rv) = Some rv"
| "owner_of (Worker_Done q rv r) = Some rv"
| "owner_of _ = None"

definition owns_entry :: "'p svc \<Rightarrow> nat \<Rightarrow> nat \<Rightarrow> bool" where
  "owns_entry s c i \<longleftrightarrow> (\<exists>rv. owner_of (sv_clients s c) = Some rv \<and> rr_entry rv = i)"

lemma owner_of_SomeD: "owner_of x = Some rv \<Longrightarrow> (\<exists>q. x = Waiting_Worker q rv) \<or> (\<exists>q r. x = Worker_Done q rv r)"
  by (cases x) simp_all

definition scored_for :: "'p svc \<Rightarrow> nat \<Rightarrow> string \<Rightarrow> bool" where
  "scored_for s c k \<longleftrightarrow> (\<exists>q p h. sv_clients s c = Answered q (Prediction p h False) \<and> sha256_hex (sq_id q) = k)"

definition svc_inv_but :: "nat set \<Rightarrow> 'p svc \<Rightarrow> bool" where
  "svc_inv_but C s \<longleftrightarrow>
     (finite (sv_workers s) \<and> cg_in_flight (sv_gate s) = int (card (sv_workers s)) \<and>
      cg_in_flight (sv_gate s) \<le> cg_limit (sv_gate s)) \<and>
     reg_inv (sv_registry s) \<and>
     (\<forall>c. c \<notin> C \<longrightarrow> client_ok (sv_registry s) (sv_workers s) c (sv_clients s c)) \<and>
     (\<forall>c c' i. owns_entry s c i \<longrightarrow> owns_entry s c' i \<longrightarrow> c = c') \<and>
     (\<forall>k d v. sv_audit_on s \<longrightarrow> published (sv_registry s) k d v \<longrightarrow> (\<exists>h. (k, d, h) \<in> set (sv_audit s))) \<and>
     (\<forall>c c' k. scored_for s c k \<longrightarrow> scored_for s c' k \<longrightarrow> c = c')"

abbreviation svc_inv :: "'p svc \<Rightarrow> bool" where
  "svc_inv \<equiv> svc_inv_but {}"

lemma svc_inv_weaken: "svc_inv s \<Longrightarrow> svc_inv_but {c} s"
  by (simp add: svc_inv_but_def)

lemma svc_inv_settle: "svc_inv_but {c} s \<Longrightarrow> client_ok (sv_registry s) (sv_workers s) c (sv_clients s c) \<Longrightarrow> svc_inv s"
  unfolding svc_inv_but_def by (elim conjE, intro conjI; (assumption | auto))

text \<open>The client of a step gets a new state, the registry and the audit log may grow.\<close>

lemma svc_inv_update:
  assumes inv: "svc_inv_but {c} s" and reg: "reg_inv g"
    and others: "\<And>c'. c' \<noteq> c \<Longrightarrow> client_ok (sv_registry s) (sv_workers s) c' (sv_clients s c') \<Longrightarrow>
      client_ok g (sv_workers s) c' (sv_clients s c')"
    and me: "client_ok g (sv_workers s) c x"
    and audit: "\<And>k d v. sv_audit_on s \<Longrightarrow> published g k d v \<Longrightarrow> \<exists>h. (k, d, h) \<in> set al"
    and own: "\<And>rv c'. owner_of x = Some rv \<Longrightarrow> c' \<noteq> c \<Longrightarrow> \<not> owns_entry s c' (rr_entry rv)"
    and scored: "\<And>q p h c'. x = Answered q (Prediction p h False) \<Longrightarrow> c' \<noteq> c \<Longrightarrow> \<not> scored_for s c' (sha256_hex (sq_id q))"
  shows "svc_inv (set_client c x (s\<lparr>sv_registry := g, sv_audit := al\<rparr>))"
proof -
  let ?s = "set_client c x (s\<lparr>sv_registry := g, sv_audit := al\<rparr>)"
  have sel: "sv_registry ?s = g" "sv_audit ?s = al" "sv_workers ?s = sv_workers s" "sv_gate ?s = sv_gate s"
    "sv_audit_on ?s = sv_audit_on s" "\<And>c'. sv_clients ?s c' = (if c' = c then x else sv_clients s c')"
    by (simp_all add: set_client_def)
  have o: "owns_entry ?s c' i \<longleftrightarrow> (if c' = c then \<exists>rv. owner_of x = Some rv \<and> rr_entry rv = i else owns_entry s c' i)" for c' i
    by (simp add: owns_entry_def sel)
  have f: "scored_for ?s c' k \<longleftrightarrow>
      (if c' = c then \<exists>q p h. x = Answered q (Prediction p h False) \<and> sha256_hex (sq_id q) = k else scored_for s c' k)" for c' k
    by (simp add: scored_for_def sel)
  note i = inv [unfolded svc_inv_but_def]
  have gate: "finite (sv_workers s) \<and> cg_in_flight (sv_gate s) = int (card (sv_workers s)) \<and>
      cg_in_flight (sv_gate s) \<le> cg_limit (sv_gate s)" by (rule conjunct1 [OF i])
  have cl: "\<forall>c'. c' \<notin> {c} \<longrightarrow> client_ok (sv_registry s) (sv_workers s) c' (sv_clients s c')"
    and ow: "\<forall>c c' i. owns_entry s c i \<longrightarrow> owns_entry s c' i \<longrightarrow> c = c'"
    and sc: "\<forall>c c' k. scored_for s c k \<longrightarrow> scored_for s c' k \<longrightarrow> c = c'"
    using i by blast+
  have c1: "\<forall>c'. c' \<notin> {} \<longrightarrow> client_ok g (sv_workers s) c' (sv_clients ?s c')"
  proof (intro allI impI)
    fix c' show "client_ok g (sv_workers s) c' (sv_clients ?s c')"
    proof (cases "c' = c")
      case True then show ?thesis using me sel(6) by simp
    next
      case False
      then have "client_ok (sv_registry s) (sv_workers s) c' (sv_clients s c')" using cl by simp
      from others [OF False this] False show ?thesis using sel(6) by simp
    qed
  qed
  have c2: "\<forall>c' c'' i. owns_entry ?s c' i \<longrightarrow> owns_entry ?s c'' i \<longrightarrow> c' = c''"
  proof (intro allI impI)
    fix c' c'' i assume "owns_entry ?s c' i" "owns_entry ?s c'' i"
    then show "c' = c''" using own ow unfolding o by (auto split: if_splits)
  qed
  have c3: "\<forall>k d v. sv_audit_on s \<longrightarrow> published g k d v \<longrightarrow> (\<exists>h. (k, d, h) \<in> set al)" using audit by blast
  have c4: "\<forall>c' c'' k. scored_for ?s c' k \<longrightarrow> scored_for ?s c'' k \<longrightarrow> c' = c''"
  proof (intro allI impI)
    fix c' c'' k assume "scored_for ?s c' k" "scored_for ?s c'' k"
    then show "c' = c''" using scored sc unfolding f by (auto split: if_splits)
  qed
  show ?thesis unfolding svc_inv_but_def sel(1-5)
    by (rule conjI [OF gate conjI [OF reg conjI [OF c1 conjI [OF c2 conjI [OF c3 c4]]]]])
qed

lemma audit_clause: "svc_inv_but C s \<Longrightarrow> sv_audit_on s \<Longrightarrow> published (sv_registry s) k d v \<Longrightarrow> \<exists>h. (k, d, h) \<in> set (sv_audit s)"
  unfolding svc_inv_but_def by blast

lemma reg_clause: "svc_inv_but C s \<Longrightarrow> reg_inv (sv_registry s)"
  unfolding svc_inv_but_def by (elim conjE)

lemma client_clause: "svc_inv s \<Longrightarrow> client_ok (sv_registry s) (sv_workers s) c (sv_clients s c)"
  unfolding svc_inv_but_def by blast

lemma same_fields [simp]: "s\<lparr>sv_registry := sv_registry s, sv_audit := sv_audit s\<rparr> = s" "s\<lparr>sv_registry := g, sv_audit := sv_audit s\<rparr> = s\<lparr>sv_registry := g\<rparr>"
  by simp_all

lemma inv_failure:
  assumes "svc_inv_but {c} s"
  shows "svc_inv (set_client c (Answered q (Failure e)) s)"
proof -
  have "svc_inv (set_client c (Answered q (Failure e)) (s\<lparr>sv_registry := sv_registry s, sv_audit := sv_audit s\<rparr>))"
    by (rule svc_inv_update [OF assms reg_clause [OF assms]]) (use audit_clause [OF assms] in simp_all)
  then show ?thesis by simp
qed

lemma owner_fails_inv:
  assumes "svc_inv_but {c} s" and "pending_owner (sv_registry s) q rv" and "\<And>c'. c' \<noteq> c \<Longrightarrow> \<not> owns_entry s c' (rr_entry rv)"
  shows "svc_inv (owner_fails c q rv e s)"
proof -
  note eff = fail_effect [OF reg_clause [OF assms(1)] assms(2), where x = e]
  have "svc_inv (set_client c (Answered q (Failure e)) (s\<lparr>sv_registry := snd (registry_fail rv e (sv_registry s)), sv_audit := sv_audit s\<rparr>))"
  proof (rule svc_inv_update [OF assms(1) eff(1)])
    fix c' assume c': "c' \<noteq> c" and ok: "client_ok (sv_registry s) (sv_workers s) c' (sv_clients s c')"
    show "client_ok (snd (registry_fail rv e (sv_registry s))) (sv_workers s) c' (sv_clients s c')"
    proof (cases "sv_clients s c'")
      case (Waiting_Worker q' rv')
      then have "rr_entry rv' \<noteq> rr_entry rv" using assms(3) [OF c'] by (auto simp: owns_entry_def)
      then show ?thesis using ok eff(3) Waiting_Worker by simp
    next
      case (Worker_Done q' rv' r)
      then have "rr_entry rv' \<noteq> rr_entry rv" using assms(3) [OF c'] by (auto simp: owns_entry_def)
      then show ?thesis using ok eff(3) Worker_Done by simp
    next
      case (Answered q' a) then show ?thesis using ok eff(4) by (cases a) simp_all
    qed (use ok eff(2) in simp_all)
  next
    fix k d v assume "sv_audit_on s" "published (snd (registry_fail rv e (sv_registry s))) k d v"
    then show "\<exists>h. (k, d, h) \<in> set (sv_audit s)" using eff(5) audit_clause [OF assms(1)] by blast
  qed simp_all
  then show ?thesis by (simp add: owner_fails_def)
qed

lemma publish_inv:
  assumes "svc_inv_but {c} s" and own: "pending_owner (sv_registry s) q rv" and "\<And>c'. c' \<noteq> c \<Longrightarrow> \<not> owns_entry s c' (rr_entry rv)"
    and "set (sv_audit s) \<subseteq> set al" and "sv_audit_on s \<Longrightarrow> \<exists>h. (rr_key rv, sq_digest q, h) \<in> set al"
  shows "svc_inv (set_client c (Answered q (Prediction p h False))
    (s\<lparr>sv_registry := snd (registry_complete rv (p, h) (sv_registry s)), sv_audit := al\<rparr>))"
proof -
  let ?g = "snd (registry_complete rv (p, h) (sv_registry s))"
  note eff = complete_effect [OF reg_clause [OF assms(1)] own, where v = "(p, h)"]
  have key: "rr_key rv = sha256_hex (sq_id q)" using own by (simp add: pending_owner_def held_def)
  show ?thesis
  proof (rule svc_inv_update [OF assms(1) eff(1)])
    fix c' assume c': "c' \<noteq> c" and ok: "client_ok (sv_registry s) (sv_workers s) c' (sv_clients s c')"
    show "client_ok ?g (sv_workers s) c' (sv_clients s c')"
    proof (cases "sv_clients s c'")
      case (Waiting_Worker q' rv')
      then have "rr_entry rv' \<noteq> rr_entry rv" using assms(3) [OF c'] by (auto simp: owns_entry_def)
      then show ?thesis using ok eff(5) Waiting_Worker by simp
    next
      case (Worker_Done q' rv' r)
      then have "rr_entry rv' \<noteq> rr_entry rv" using assms(3) [OF c'] by (auto simp: owns_entry_def)
      then show ?thesis using ok eff(5) Worker_Done by simp
    next
      case (Answered q' a) then show ?thesis using ok eff(6) by (cases a) simp_all
    qed (use ok eff(4) in simp_all)
  next
    show "client_ok ?g (sv_workers s) c (Answered q (Prediction p h False))" using eff(2) key by simp
  next
    fix k d v assume a: "sv_audit_on s" "published ?g k d v"
    show "\<exists>h. (k, d, h) \<in> set al"
    proof (cases "k = rr_key rv")
      case True
      have "d = sq_digest q" using published_unique [OF a(2) [unfolded True] eff(2)] by (rule conjunct1)
      then show ?thesis using True assms(5) [OF a(1)] by simp
    next
      case False
      have "published (sv_registry s) k d v" by (rule eff(7) [OF a(2) False])
      from audit_clause [OF assms(1) a(1) this] show ?thesis using assms(4) by blast
    qed
  next
    fix q' p' h' c' assume x: "Answered q (Prediction p h False) = Answered q' (Prediction p' h' False)" and c': "c' \<noteq> c"
    show "\<not> scored_for s c' (sha256_hex (sq_id q'))"
    proof
      assume "scored_for s c' (sha256_hex (sq_id q'))"
      then obtain q2 p2 h2 where a: "sv_clients s c' = Answered q2 (Prediction p2 h2 False)" "sha256_hex (sq_id q2) = rr_key rv"
        using x key by (auto simp: scored_for_def)
      have "client_ok (sv_registry s) (sv_workers s) c' (sv_clients s c')" using assms(1) c' unfolding svc_inv_but_def by blast
      then have "published (sv_registry s) (rr_key rv) (sq_digest q2) (p2, h2)" using a by simp
      then show False using own by (auto simp: published_def pending_owner_def)
    qed
  qed simp_all
qed


lemma owns_clause: "svc_inv_but C s \<Longrightarrow> owns_entry s c i \<Longrightarrow> owns_entry s c' i \<Longrightarrow> c = c'"
  unfolding svc_inv_but_def by blast

lemma gate_clause: "svc_inv_but C s \<Longrightarrow> finite (sv_workers s) \<and> cg_in_flight (sv_gate s) = int (card (sv_workers s)) \<and>
    cg_in_flight (sv_gate s) \<le> cg_limit (sv_gate s)"
  unfolding svc_inv_but_def by (rule conjunct1)

text \<open>A change of the gate and of the running workers.\<close>

lemma workers_inv:
  assumes inv: "svc_inv_but {c} s" and W: "W \<union> {c} = sv_workers s \<union> {c}"
    and gate: "finite W \<and> cg_in_flight gt = int (card W) \<and> cg_in_flight gt \<le> cg_limit gt"
  shows "svc_inv_but {c} (s\<lparr>sv_gate := gt, sv_workers := W\<rparr>)"
proof -
  let ?s = "s\<lparr>sv_gate := gt, sv_workers := W\<rparr>"
  have o: "owns_entry ?s = owns_entry s" "scored_for ?s = scored_for s"
    by (simp_all add: owns_entry_def scored_for_def fun_eq_iff)
  have m: "c' \<in> W \<longleftrightarrow> c' \<in> sv_workers s" if "c' \<noteq> c" for c' using W that by auto
  have k: "client_ok g W c' x = client_ok g (sv_workers s) c' x" if "c' \<noteq> c" for g c' and x :: "'a svc_client"
  proof (cases x)
    case (Answered q a) then show ?thesis by (cases a) simp_all
  qed (simp_all add: m [OF that])
  have cl: "\<forall>c'. c' \<notin> {c} \<longrightarrow> client_ok (sv_registry s) W c' (sv_clients s c')"
    using inv k unfolding svc_inv_but_def by simp
  note i = inv [unfolded svc_inv_but_def]
  have sel: "sv_gate ?s = gt" "sv_workers ?s = W" "sv_registry ?s = sv_registry s" "sv_clients ?s = sv_clients s"
    "sv_audit_on ?s = sv_audit_on s" "sv_audit ?s = sv_audit s" by simp_all
  show ?thesis unfolding svc_inv_but_def o sel
    by (rule conjI [OF gate conjI [OF reg_clause [OF inv] conjI [OF cl conjunct2 [OF conjunct2 [OF conjunct2 [OF i]]]]]])
qed

lemma released_inv:
  assumes "svc_inv s" and "c \<in> sv_workers s"
  shows "svc_inv_but {c} (s\<lparr>sv_gate := gate_release (sv_gate s), sv_workers := sv_workers s - {c}\<rparr>)"
proof (rule workers_inv [OF svc_inv_weaken [OF assms(1)]])
  show "sv_workers s - {c} \<union> {c} = sv_workers s \<union> {c}" by auto
  have g: "finite (sv_workers s)" "cg_in_flight (sv_gate s) = int (card (sv_workers s))" "cg_in_flight (sv_gate s) \<le> cg_limit (sv_gate s)"
    using gate_clause [OF assms(1)] by auto
  have "card (sv_workers s) \<noteq> 0" using assms(2) g(1) by auto
  then show "finite (sv_workers s - {c}) \<and> cg_in_flight (gate_release (sv_gate s)) = int (card (sv_workers s - {c})) \<and>
      cg_in_flight (gate_release (sv_gate s)) \<le> cg_limit (gate_release (sv_gate s))"
    using g assms(2) by (simp add: gate_release_def card_Diff_singleton)
qed

lemma acquired_inv:
  assumes "svc_inv_but {c} s" and "c \<notin> sv_workers s" and "try_acquire (sv_gate s) = (True, gt)"
  shows "svc_inv_but {c} (s\<lparr>sv_gate := gt, sv_workers := insert c (sv_workers s)\<rparr>)"
proof (rule workers_inv [OF assms(1)])
  show "insert c (sv_workers s) \<union> {c} = sv_workers s \<union> {c}" by auto
  have "finite (sv_workers s)" "cg_in_flight (sv_gate s) = int (card (sv_workers s))" "cg_in_flight (sv_gate s) \<le> cg_limit (sv_gate s)"
    using gate_clause [OF assms(1)] by auto
  then show "finite (insert c (sv_workers s)) \<and> cg_in_flight gt = int (card (insert c (sv_workers s))) \<and> cg_in_flight gt \<le> cg_limit gt"
    using assms(2,3) by (auto simp: try_acquire_def split: if_splits)
qed

text \<open>A fresh reservation leaves every other client where it was.\<close>

lemma fresh_reservation_inv:
  fixes s :: "'p svc" and x :: "('p \<times> string option) reg_entry" and k :: string
  assumes inv: "svc_inv_but {c} s" and new: "map_of (rg_entries (sv_registry s)) k = None" and x: "re_error x = None" "\<not> re_ready x"
  defines "g \<equiv> (sv_registry s)\<lparr>rg_entries := rg_entries (sv_registry s) @ [(k, length (rg_store (sv_registry s)))],
      rg_store := rg_store (sv_registry s) @ [x]\<rparr>"
  shows "svc_inv_but {c} (s\<lparr>sv_registry := g\<rparr>)"
    and "c' \<noteq> c \<Longrightarrow> \<not> owns_entry (s\<lparr>sv_registry := g\<rparr>) c' (length (rg_store (sv_registry s)))"
proof -
  note f = fresh_entry_keeps [OF reg_clause [OF inv] new x, folded g_def]
  have o: "owns_entry (s\<lparr>sv_registry := g\<rparr>) = owns_entry s" "scored_for (s\<lparr>sv_registry := g\<rparr>) = scored_for s"
    by (simp_all add: owns_entry_def scored_for_def fun_eq_iff)
  have ok: "client_ok (sv_registry s) (sv_workers s) c' (sv_clients s c')" if "c' \<noteq> c" for c'
    using inv that unfolding svc_inv_but_def by simp
  have k: "client_ok g W c' y" if "client_ok (sv_registry s) W c' y" for W c' and y :: "'p svc_client"
  proof (cases y)
    case (Answered q a) then show ?thesis using that f(4) by (cases a) simp_all
  qed (use that f(2,3) in simp_all)
  have cl: "\<forall>c'. c' \<notin> {c} \<longrightarrow> client_ok g (sv_workers s) c' (sv_clients s c')" using ok k by simp
  have au: "\<forall>k d v. sv_audit_on s \<longrightarrow> published g k d v \<longrightarrow> (\<exists>h. (k, d, h) \<in> set (sv_audit s))"
    using audit_clause [OF inv] f(5) by blast
  note i = inv [unfolded svc_inv_but_def]
  note r = conjunct2 [OF conjunct2 [OF conjunct2 [OF i]]]
  have sel: "sv_gate (s\<lparr>sv_registry := g\<rparr>) = sv_gate s" "sv_workers (s\<lparr>sv_registry := g\<rparr>) = sv_workers s"
    "sv_registry (s\<lparr>sv_registry := g\<rparr>) = g" "sv_clients (s\<lparr>sv_registry := g\<rparr>) = sv_clients s"
    "sv_audit_on (s\<lparr>sv_registry := g\<rparr>) = sv_audit_on s" "sv_audit (s\<lparr>sv_registry := g\<rparr>) = sv_audit s" by simp_all
  show "svc_inv_but {c} (s\<lparr>sv_registry := g\<rparr>)" unfolding svc_inv_but_def o sel
    by (rule conjI [OF gate_clause [OF inv] conjI [OF f(1) conjI [OF cl conjI [OF conjunct1 [OF r]
          conjI [OF au conjunct2 [OF conjunct2 [OF r]]]]]]])
  show "\<not> owns_entry (s\<lparr>sv_registry := g\<rparr>) c' (length (rg_store (sv_registry s)))" if c': "c' \<noteq> c"
  proof
    assume "owns_entry (s\<lparr>sv_registry := g\<rparr>) c' (length (rg_store (sv_registry s)))"
    then obtain rv where "owner_of (sv_clients s c') = Some rv" "rr_entry rv = length (rg_store (sv_registry s))"
      unfolding o by (auto simp: owns_entry_def)
    then show False using ok [OF c'] by (auto dest!: owner_of_SomeD simp: pending_owner_def held_def)
  qed
qed


section \<open>Every event keeps it\<close>

lemma arrive_inv:
  assumes inv: "svc_inv s"
  shows "svc_inv (svc_arrive c q s)"
proof (cases "sv_clients s c = Absent \<and> sv_backend s \<noteq> ''postgres-scale''")
  case False
  then show ?thesis using inv inv_failure [OF svc_inv_weaken [OF inv]] by (auto simp: svc_arrive_def)
next
  case True
  then have entry: "sv_clients s c = Absent" "sv_backend s \<noteq> ''postgres-scale''" by simp_all
  have idle: "c \<notin> sv_workers s" using client_clause [OF inv, of c] entry(1) by simp
  note w = svc_inv_weaken [OF inv, where c = c]
  obtain res g where r: "registry_reserve (sq_id q) (sq_digest q) (sv_registry s) = (res, g)" by fastforce
  from r show ?thesis
  proof (cases rule: reserve_cases)
    case (refused e)
    then show ?thesis using inv_failure [OF w, of q e] entry r by (simp add: svc_arrive_def)
  next
    case (joined rv)
    have lt: "rr_entry rv < length (rg_store (sv_registry s))" using reg_clause [OF inv] joined(5) by (simp add: reg_inv_def)
    have "svc_inv (set_client c (Waiting_Replay q rv) (s\<lparr>sv_registry := sv_registry s, sv_audit := sv_audit s\<rparr>))"
      by (rule svc_inv_update [OF w reg_clause [OF inv]])
        (use audit_clause [OF inv] joined lt in \<open>simp_all add: held_def\<close>)
    then show ?thesis using joined entry r by (simp add: svc_arrive_def)
  next
    case (fresh rv)
    let ?x = "\<lparr>re_input_digest = sq_digest q, re_ready = False, re_result = None, re_error = None\<rparr>"
    let ?s = "s\<lparr>sv_registry := g\<rparr>"
    have base: "svc_inv_but {c} ?s" and others: "\<And>c'. c' \<noteq> c \<Longrightarrow> \<not> owns_entry ?s c' (rr_entry rv)"
      unfolding fresh(4,6) by (rule fresh_reservation_inv [OF w fresh(5), where x = ?x]; simp)+
    have own: "pending_owner g q rv"
      using fresh by (simp add: pending_owner_def held_def map_add_def)
    show ?thesis
    proof (cases "try_acquire (sv_gate s)")
      case (Pair ok gt)
      show ?thesis
      proof (cases ok)
        case False
        then show ?thesis using owner_fails_inv [OF base _ others] own Pair fresh entry r by (simp add: svc_arrive_def)
      next
        case True
        let ?t = "?s\<lparr>sv_gate := gt, sv_workers := insert c (sv_workers ?s)\<rparr>"
        have t: "svc_inv_but {c} ?t" by (rule acquired_inv [OF base]) (use idle Pair True in simp_all)
        have "svc_inv (set_client c (Waiting_Worker q rv) (?t\<lparr>sv_registry := sv_registry ?t, sv_audit := sv_audit ?t\<rparr>))"
        proof (rule svc_inv_update [OF t reg_clause [OF t]])
          show "client_ok (sv_registry ?t) (sv_workers ?t) c (Waiting_Worker q rv)" using own by simp
          fix rv' c' assume "owner_of (Waiting_Worker q rv) = Some rv'" "c' \<noteq> c"
          then show "\<not> owns_entry ?t c' (rr_entry rv')" using others by (simp add: owns_entry_def)
        qed (use audit_clause [OF t] in simp_all)
        moreover have "svc_arrive c q s = set_client c (Waiting_Worker q rv) (?t\<lparr>sv_registry := sv_registry ?t, sv_audit := sv_audit ?t\<rparr>)"
          using Pair True fresh(1,2) entry r by (cases s) (simp add: svc_arrive_def set_client_def)
        ultimately show ?thesis by simp
      qed
    qed
  qed
qed

lemma owner_alone: "svc_inv s \<Longrightarrow> owner_of (sv_clients s c) = Some rv \<Longrightarrow> c' \<noteq> c \<Longrightarrow> \<not> owns_entry s c' (rr_entry rv)"
  using owns_clause [of "{}" s c "rr_entry rv" c'] unfolding owns_entry_def by blast

lemma worker_ends_inv:
  assumes inv: "svc_inv s"
  shows "svc_inv (svc_worker_ends c result s)"
proof (cases "c \<in> sv_workers s")
  case False then show ?thesis using inv by (simp add: svc_worker_ends_def)
next
  case True
  let ?s = "s\<lparr>sv_gate := gate_release (sv_gate s), sv_workers := sv_workers s - {c}\<rparr>"
  note rel = released_inv [OF inv True]
  show ?thesis
  proof (cases "sv_clients s c")
    case (Waiting_Worker q rv)
    have "svc_inv (set_client c (Worker_Done q rv result) (?s\<lparr>sv_registry := sv_registry ?s, sv_audit := sv_audit ?s\<rparr>))"
    proof (rule svc_inv_update [OF rel reg_clause [OF rel]])
      show "client_ok (sv_registry ?s) (sv_workers ?s) c (Worker_Done q rv result)"
        using client_clause [OF inv, of c] Waiting_Worker by simp
      fix rv' c' assume "owner_of (Worker_Done q rv result) = Some rv'" "c' \<noteq> c"
      then show "\<not> owns_entry ?s c' (rr_entry rv')"
        using owner_alone [OF inv, of c rv c'] Waiting_Worker by (simp add: owns_entry_def)
    qed (use audit_clause [OF rel] in simp_all)
    then show ?thesis using True Waiting_Worker by (simp add: svc_worker_ends_def)
  next
    case (Answered q a)
    then have "svc_inv ?s" using rel client_clause [OF inv, of c] by (cases a) (intro svc_inv_settle [of c]; simp)+
    then show ?thesis using True Answered by (simp add: svc_worker_ends_def)
  next
    case (Waiting_Replay q rv)
    then have "svc_inv ?s" using rel client_clause [OF inv, of c] by (intro svc_inv_settle [of c]) simp_all
    then show ?thesis using True Waiting_Replay by (simp add: svc_worker_ends_def)
  qed (use client_clause [OF inv, of c] True in simp_all)
qed

lemma resume_inv:
  assumes inv: "svc_inv s"
  shows "svc_inv (svc_resume c appended s)"
proof (cases "sv_clients s c")
  case (Worker_Done q rv result)
  note w = svc_inv_weaken [OF inv]
  have own: "pending_owner (sv_registry s) q rv" using client_clause [OF inv, of c] Worker_Done by simp
  have alone: "\<And>c'. c' \<noteq> c \<Longrightarrow> \<not> owns_entry s c' (rr_entry rv)"
    by (rule owner_alone [OF inv]) (simp_all add: Worker_Done)
  have fails: "svc_inv (owner_fails c q rv e s)" for e by (rule owner_fails_inv [OF w own alone])
  have pub: "svc_inv (set_client c (Answered q (Prediction p h False))
      (s\<lparr>sv_registry := snd (registry_complete rv (p, h) (sv_registry s)), sv_audit := al\<rparr>))"
    if "set (sv_audit s) \<subseteq> set al" and "sv_audit_on s \<Longrightarrow> \<exists>h. (rr_key rv, sq_digest q, h) \<in> set al" for p h al
    by (rule publish_inv [OF w own alone]) (use that in simp_all)
  show ?thesis
  proof (cases result)
    case (Inl e) then show ?thesis using fails Worker_Done by (simp add: svc_resume_def)
  next
    case result: (Inr p)
    show ?thesis
    proof (cases "sv_audit_on s")
      case False
      then show ?thesis using pub [of "sv_audit s" p None] result Worker_Done by (simp add: svc_resume_def)
    next
      case True
      show ?thesis
      proof (cases appended)
        case (Inl e) then show ?thesis using fails result True Worker_Done by (simp add: svc_resume_def)
      next
        case (Inr h)
        let ?al = "sv_audit s @ [(rr_key rv, sq_digest q, h)]"
        have "svc_inv (set_client c (Answered q (Prediction p h' False))
            (s\<lparr>sv_registry := snd (registry_complete rv (p, h') (sv_registry s)), sv_audit := ?al\<rparr>))" for h'
          by (rule pub) auto
        then show ?thesis using result True Inr Worker_Done by (simp add: svc_resume_def Let_def)
      qed
    qed
  qed
qed (use inv in \<open>simp_all add: svc_resume_def\<close>)

lemma interrupted_inv:
  assumes inv: "svc_inv s"
  shows "svc_inv (svc_interrupted c e s)"
proof (cases "owner_of (sv_clients s c)")
  case None
  then show ?thesis using inv inv_failure [OF svc_inv_weaken [OF inv]]
    by (cases "sv_clients s c") (simp_all add: svc_interrupted_def)
next
  case (Some rv)
  have fails: "svc_inv (owner_fails c q rv e s)" if "pending_owner (sv_registry s) q rv" for q
    by (rule owner_fails_inv [OF svc_inv_weaken [OF inv] that owner_alone [OF inv Some]])
  from owner_of_SomeD [OF Some] show ?thesis
    using fails client_clause [OF inv, of c] by (auto simp: svc_interrupted_def)
qed

lemma replay_wakes_inv:
  assumes inv: "svc_inv s"
  shows "svc_inv (svc_replay_wakes c s)"
proof (cases "sv_clients s c")
  case (Waiting_Replay q rv)
  note fails = inv_failure [OF svc_inv_weaken [OF inv], of c q]
  have h: "held (sv_registry s) q rv" "\<not> rr_owner rv" using client_clause [OF inv, of c] Waiting_Replay by simp_all
  show ?thesis
  proof (cases "\<exists>p r. registry_replay rv (sv_registry s) = Some (Inr (Some (p, r)))")
    case False
    then show ?thesis using fails inv Waiting_Replay
      by (auto simp: svc_replay_wakes_def split: option.split sum.split)
  next
    case True
    then obtain p r where replay: "registry_replay rv (sv_registry s) = Some (Inr (Some (p, r)))" by blast
    then have "published (sv_registry s) (sha256_hex (sq_id q)) (sq_digest q) (p, r)"
      using h by (auto simp: registry_replay_def held_def published_def Let_def split: if_splits option.splits)
    then have "svc_inv (set_client c (Answered q (Prediction p r True)) (s\<lparr>sv_registry := sv_registry s, sv_audit := sv_audit s\<rparr>))"
      by (intro svc_inv_update [OF svc_inv_weaken [OF inv] reg_clause [OF inv]])
        (use audit_clause [OF inv] in simp_all)
    then show ?thesis using Waiting_Replay replay by (simp add: svc_replay_wakes_def)
  qed
qed (use inv in \<open>simp_all add: svc_replay_wakes_def\<close>)

lemma svc_step_inv: "svc_step s t \<Longrightarrow> svc_inv s \<Longrightarrow> svc_inv t"
  by (induction rule: svc_step.induct) (simp_all add: arrive_inv worker_ends_inv resume_inv interrupted_inv replay_wakes_inv)

lemma svc_init_inv:
  assumes "gate_init limit = Inr g"
  shows "svc_inv (svc_init backend audit_on g)"
  using assms reg_inv_init
  by (auto simp: svc_inv_but_def svc_init_def gate_init_def owns_entry_def scored_for_def published_def registry_init_def split: if_splits)

definition svc_reachable :: "string \<Rightarrow> bool \<Rightarrow> concurrency_gate \<Rightarrow> 'p svc \<Rightarrow> bool" where
  "svc_reachable backend audit_on g = svc_step\<^sup>*\<^sup>* (svc_init backend audit_on g)"

lemma svc_reachable_inv: "svc_reachable backend audit_on g s \<Longrightarrow> gate_init limit = Inr g \<Longrightarrow> svc_inv s"
  unfolding svc_reachable_def by (induction rule: rtranclp_induct) (auto intro: svc_init_inv svc_step_inv)

lemma svc_static: "svc_step s t \<Longrightarrow> sv_audit_on t = sv_audit_on s \<and> cg_limit (sv_gate t) = cg_limit (sv_gate s) \<and> sv_backend t = sv_backend s"
  by (induction rule: svc_step.induct)
    (auto simp: svc_arrive_def svc_worker_ends_def svc_resume_def svc_interrupted_def svc_replay_wakes_def owner_fails_def set_client_def
      gate_release_def try_acquire_def Let_def split: option.split sum.split prod.split svc_client.split)

lemma svc_reachable_static: "svc_reachable backend audit_on g s \<Longrightarrow> sv_audit_on s = audit_on \<and> cg_limit (sv_gate s) = cg_limit g \<and> sv_backend s = backend"
  unfolding svc_reachable_def by (induction rule: rtranclp_induct) (auto simp: svc_init_def dest: svc_static)


section \<open>Nobody waits for nothing\<close>

definition no_orphan :: "'p svc \<Rightarrow> bool" where
  "no_orphan s \<longleftrightarrow> (\<forall>i < length (rg_store (sv_registry s)). \<not> re_ready (rg_store (sv_registry s) ! i) \<longrightarrow> (\<exists>c. owns_entry s c i))"

lemma settled_entry_no_orphan:
  assumes others: "\<And>i. i < length (rg_store (sv_registry s)) \<Longrightarrow> \<not> re_ready (rg_store (sv_registry s) ! i) \<Longrightarrow> i \<noteq> rr_entry rv \<Longrightarrow>
      \<exists>c'. c' \<noteq> c \<and> owns_entry s c' i" and own: "rr_owner rv"
  shows "no_orphan (owner_fails c q rv e s)"
    and "no_orphan (set_client c x (s\<lparr>sv_registry := snd (registry_complete rv v (sv_registry s)), sv_audit := al\<rparr>))"
    and "no_orphan (set_client c x (s\<lparr>sv_registry := snd (registry_complete rv v (sv_registry s))\<rparr>))"
proof -
  have upd: "xs[k := y] ! i = (if i = k then y else xs ! i)" if "i < length xs" for xs :: "'z list" and k i y
    using that by (cases "i = k") simp_all
  have core: "no_orphan t"
    if lens: "length (rg_store (sv_registry t)) = length (rg_store (sv_registry s))"
      and clients: "\<And>c'. c' \<noteq> c \<Longrightarrow> sv_clients t c' = sv_clients s c'"
      and pend: "\<And>i. i < length (rg_store (sv_registry s)) \<Longrightarrow> \<not> re_ready (rg_store (sv_registry t) ! i) \<Longrightarrow>
        i \<noteq> rr_entry rv \<and> \<not> re_ready (rg_store (sv_registry s) ! i)" for t
    unfolding no_orphan_def
  proof (intro allI impI)
    fix i assume "i < length (rg_store (sv_registry t))" "\<not> re_ready (rg_store (sv_registry t) ! i)"
    then obtain c' where "c' \<noteq> c" "owns_entry s c' i" using lens pend others by metis
    then have "owns_entry t c' i" using clients by (simp add: owns_entry_def)
    then show "\<exists>c. owns_entry t c i" ..
  qed
  show "no_orphan (owner_fails c q rv e s)"
    by (rule core) (use own in \<open>auto simp: owner_fails_def set_client_def registry_fail_def upd split: if_splits\<close>)
  show "no_orphan (set_client c x (s\<lparr>sv_registry := snd (registry_complete rv v (sv_registry s)), sv_audit := al\<rparr>))"
    by (rule core) (use own in \<open>auto simp: set_client_def registry_complete_def upd split: if_splits\<close>)
  show "no_orphan (set_client c x (s\<lparr>sv_registry := snd (registry_complete rv v (sv_registry s))\<rparr>))"
    by (rule core) (use own in \<open>auto simp: set_client_def registry_complete_def upd split: if_splits\<close>)
qed

lemma svc_step_no_orphan:
  assumes step: "svc_step s t" and inv: "svc_inv s" and ok: "no_orphan s"
  shows "no_orphan t"
proof -
  have keep: "no_orphan (set_client c x s)" if "owner_of (sv_clients s c) = None" for c x
  proof -
    have "owns_entry s c' i \<Longrightarrow> owns_entry (set_client c x s) c' i" for c' i
      using that by (auto simp: owns_entry_def set_client_def)
    moreover have "sv_registry (set_client c x s) = sv_registry s" by (simp add: set_client_def)
    ultimately show ?thesis using ok unfolding no_orphan_def by metis
  qed
  have settle: "\<exists>c'. c' \<noteq> c \<and> owns_entry s c' i"
    if "owner_of (sv_clients s c) = Some rv" "i < length (rg_store (sv_registry s))" "\<not> re_ready (rg_store (sv_registry s) ! i)"
      "i \<noteq> rr_entry rv" for c rv i
  proof -
    note here = that
    obtain c' where "owns_entry s c' i" using ok here(2,3) by (auto simp: no_orphan_def)
    moreover from this have "c' \<noteq> c" using here(1,4) by (auto simp: owns_entry_def)
    ultimately show ?thesis by blast
  qed
  have owner: "rr_owner rv" if "owner_of (sv_clients s c) = Some rv" for c rv
    using client_clause [OF inv, of c] owner_of_SomeD [OF that] by (auto simp: pending_owner_def)
  have settled: "no_orphan (owner_fails c q rv e s)"
    "no_orphan (set_client c x (s\<lparr>sv_registry := snd (registry_complete rv v (sv_registry s)), sv_audit := al\<rparr>))"
    "no_orphan (set_client c x (s\<lparr>sv_registry := snd (registry_complete rv v (sv_registry s))\<rparr>))"
    if "owner_of (sv_clients s c) = Some rv" for c rv q e x v al
    by (rule settled_entry_no_orphan; use settle [OF that] owner [OF that] in blast)+
  from step show ?thesis
  proof cases
    case (arrive c q)
    show ?thesis
    proof (cases "sv_clients s c = Absent \<and> sv_backend s \<noteq> ''postgres-scale''")
      case False then show ?thesis using ok keep unfolding arrive by (auto simp: svc_arrive_def)
    next
      case True
      then have entry: "sv_clients s c = Absent" "sv_backend s \<noteq> ''postgres-scale''" by simp_all
      obtain res g where r: "registry_reserve (sq_id q) (sq_digest q) (sv_registry s) = (res, g)" by fastforce
      from r show ?thesis
      proof (cases rule: reserve_cases)
        case (refused e) then show ?thesis using keep entry r unfolding arrive by (simp add: svc_arrive_def)
      next
        case (joined rv) then show ?thesis using keep entry r unfolding arrive by (simp add: svc_arrive_def)
      next
        case (fresh rv)
        let ?s = "s\<lparr>sv_registry := g\<rparr>"
        have others: "\<exists>c'. c' \<noteq> c \<and> owns_entry ?s c' i"
          if here: "i < length (rg_store (sv_registry ?s))" "\<not> re_ready (rg_store (sv_registry ?s) ! i)" "i \<noteq> rr_entry rv" for i
        proof -
          have "i < length (rg_store (sv_registry s))" "\<not> re_ready (rg_store (sv_registry s) ! i)"
            using here fresh(4,6) by (auto simp: nth_append split: if_splits)
          then obtain c' where "owns_entry s c' i" using ok by (auto simp: no_orphan_def)
          then have "c' \<noteq> c \<and> owns_entry ?s c' i" using entry(1) by (auto simp: owns_entry_def)
          then show ?thesis ..
        qed
        obtain acq gt where a: "try_acquire (sv_gate s) = (acq, gt)" by fastforce
        show ?thesis
        proof (cases acq)
          case False
          then show ?thesis using settled_entry_no_orphan(1) [of ?s rv c] others fresh(1,2) entry r a
            unfolding arrive by (simp add: svc_arrive_def)
        next
          case True
          then have t: "t = set_client c (Waiting_Worker q rv) (?s\<lparr>sv_gate := gt, sv_workers := insert c (sv_workers s)\<rparr>)"
            using fresh(1,2) entry r a unfolding arrive by (simp add: svc_arrive_def)
          show ?thesis unfolding t using others by (fastforce simp: no_orphan_def owns_entry_def set_client_def)
        qed
      qed
    qed
  next
    case (worker_ends c result)
    have "owns_entry s c' i \<Longrightarrow> owns_entry t c' i" for c' i
      unfolding worker_ends owns_entry_def by (auto simp: svc_worker_ends_def set_client_def Let_def split: svc_client.split)
    moreover have "sv_registry t = sv_registry s"
      unfolding worker_ends by (simp add: svc_worker_ends_def set_client_def Let_def split: svc_client.split)
    ultimately show ?thesis using ok unfolding no_orphan_def by metis
  next
    case (resume c appended)
    then show ?thesis using ok settled unfolding resume
      by (auto simp: svc_resume_def Let_def split: svc_client.split sum.split)
  next
    case (interrupted c e)
    then show ?thesis using ok settled keep unfolding interrupted
      by (auto simp: svc_interrupted_def split: svc_client.split)
  next
    case (replay_wakes c)
    show ?thesis
    proof (cases "sv_clients s c")
      case (Waiting_Replay q rv)
      then show ?thesis using ok keep unfolding replay_wakes
        by (auto simp: svc_replay_wakes_def split: option.split sum.split)
    qed (use ok in \<open>simp_all add: replay_wakes svc_replay_wakes_def\<close>)
  qed
qed

lemma svc_reachable_no_orphan: "svc_reachable backend audit_on g s \<Longrightarrow> gate_init limit = Inr g \<Longrightarrow> no_orphan s"
  unfolding svc_reachable_def
proof (induction rule: rtranclp_induct)
  case base show ?case by (simp add: no_orphan_def svc_init_def registry_init_def)
next
  case (step s t)
  then show ?case using svc_step_no_orphan svc_reachable_inv [unfolded svc_reachable_def] by blast
qed


section \<open>Properties\<close>

text \<open>
  C10. Admission control: in every reachable state of the local service the gate's counter is the
  number of worker threads still running - whatever was answered, timed out or cancelled in
  between - and it never exceeds the configured limit.
\<close>
theorem admission_counts_running_workers:
  assumes "gate_init limit = Inr g" and "svc_reachable backend audit_on g s"
  shows "finite (sv_workers s) \<and> cg_in_flight (sv_gate s) = int (card (sv_workers s)) \<and> int (card (sv_workers s)) \<le> limit"
  using gate_clause [OF svc_reachable_inv [OF assms(2,1)]] svc_reachable_static [OF assms(2)] assms(1)
  by (auto simp: gate_init_def split: if_splits)

text \<open>
  C1. Idempotency of V1: two predictions answered under one request id, by any clients and under
  any interleaving with timeouts, cancellations and retries, carry the same result and receipt
  for the same canonical input, and at most one of them came from scoring; every other is a replay.
\<close>
theorem one_prediction_per_request_id:
  assumes "gate_init limit = Inr g" and "svc_reachable backend audit_on g s"
    and "sv_clients s c = Answered q (Prediction p h replayed)" and "sv_clients s c' = Answered q' (Prediction p' h' replayed')"
    and "sq_id q = sq_id q'"
  shows "p = p' \<and> h = h' \<and> sq_digest q = sq_digest q' \<and> (c \<noteq> c' \<longrightarrow> replayed \<or> replayed')"
proof -
  note inv = svc_reachable_inv [OF assms(2,1)]
  have "published (sv_registry s) (sha256_hex (sq_id q)) (sq_digest q) (p, h)"
    and "published (sv_registry s) (sha256_hex (sq_id q)) (sq_digest q') (p', h')"
    using client_clause [OF inv, of c] client_clause [OF inv, of c'] assms(3-5) by simp_all
  from published_unique [OF this] have same: "sq_digest q = sq_digest q'" "p = p'" "h = h'" by simp_all
  have "c = c'" if "\<not> replayed" "\<not> replayed'"
  proof -
    have "scored_for s c (sha256_hex (sq_id q))" "scored_for s c' (sha256_hex (sq_id q))"
      using assms(3-5) that by (auto simp: scored_for_def)
    then show ?thesis using inv unfolding svc_inv_but_def by blast
  qed
  then show ?thesis using same by blast
qed

text \<open>
  C5. Audit before release: with the audit log switched on, a client that holds a prediction -
  scored or replayed, single or batch - has an appended audit record for its request key and its
  input digest; an append that failed never releases a result.
\<close>
theorem no_release_without_audit:
  assumes "gate_init limit = Inr g" and "svc_reachable backend True g s" and "sv_clients s c = Answered q (Prediction p h replayed)"
  shows "\<exists>receipt. (sha256_hex (sq_id q), sq_digest q, receipt) \<in> set (sv_audit s)"
  using audit_clause [OF svc_reachable_inv [OF assms(2,1)]] client_clause [OF svc_reachable_inv [OF assms(2,1)], of c]
    svc_reachable_static [OF assms(2)] assms(3) by simp

text \<open>
  C25. No request waits for nothing: a request that joined another one either finds its entry
  ready and is answered when it wakes, or there is an owner whose worker is running or has just
  ended, and whatever that worker's end brings (a score, an error, a failed audit append), once
  the owner has gone on the next wake-up answers the joined request.
\<close>
theorem joined_request_is_answered:
  assumes "gate_init limit = Inr g" and "svc_reachable backend audit_on g s" and "sv_clients s c = Waiting_Replay q rv"
  shows "if re_ready (rg_store (sv_registry s) ! rr_entry rv)
    then \<exists>a. sv_clients (svc_replay_wakes c s) c = Answered q a
    else \<exists>c'. \<forall>result appended. \<exists>a.
      sv_clients (svc_replay_wakes c (svc_resume c' appended (svc_worker_ends c' result s))) c = Answered q a"
proof -
  note inv = svc_reachable_inv [OF assms(2,1)]
  have h: "\<not> rr_owner rv" "rr_entry rv < length (rg_store (sv_registry s))"
    using client_clause [OF inv, of c] assms(3) by (simp_all add: held_def)
  have woken: "\<exists>a. sv_clients (svc_replay_wakes c t) c = Answered q a"
    if "sv_clients t c = Waiting_Replay q rv" "re_ready (rg_store (sv_registry t) ! rr_entry rv)" for t :: "'a svc"
    using that h(1) by (auto simp: svc_replay_wakes_def registry_replay_def set_client_def Let_def split: option.split)
  show ?thesis
  proof (cases "re_ready (rg_store (sv_registry s) ! rr_entry rv)")
    case True then show ?thesis using woken assms(3) by simp
  next
    case False
    obtain c' rv' where o: "owner_of (sv_clients s c') = Some rv'" "rr_entry rv' = rr_entry rv"
      using svc_reachable_no_orphan [OF assms(2,1)] h(2) False by (auto simp: no_orphan_def owns_entry_def)
    have own: "rr_owner rv'" "c \<noteq> c'"
      using client_clause [OF inv, of c'] owner_of_SomeD [OF o(1)] assms(3) by (auto simp: pending_owner_def)
    have "sv_clients (svc_resume c' appended (svc_worker_ends c' result s)) c = Waiting_Replay q rv \<and>
        re_ready (rg_store (sv_registry (svc_resume c' appended (svc_worker_ends c' result s))) ! rr_entry rv)" for result appended
      using owner_of_SomeD [OF o(1)] client_clause [OF inv, of c'] o(2) own h(2) assms(3)
      by (auto simp: svc_worker_ends_def svc_resume_def owner_fails_def set_client_def registry_fail_def registry_complete_def Let_def
          split: sum.split)
    then have "\<forall>result appended. \<exists>a. sv_clients (svc_replay_wakes c (svc_resume c' appended (svc_worker_ends c' result s))) c = Answered q a"
      by (intro allI woken) simp_all
    then show ?thesis using False by auto
  qed
qed

section \<open>A run\<close>

definition svc_sample_gate :: concurrency_gate where
  "svc_sample_gate = \<lparr>cg_limit = 1, cg_in_flight = 0\<rparr>"

definition svc_sample_digest :: string where
  "svc_sample_digest = replicate 64 (CHR ''a'')"

definition svc_sample_request :: "svc_request" where
  "svc_sample_request = \<lparr>sq_id = ''r-1'', sq_digest = svc_sample_digest, sq_single = True\<rparr>"

definition svc_sample_joined :: "nat svc" where
  "svc_sample_joined = svc_arrive 6 svc_sample_request (svc_arrive 5 svc_sample_request (svc_init ''local-default'' True svc_sample_gate))"

definition svc_sample_answered :: "nat svc" where
  "svc_sample_answered = svc_replay_wakes 6 (svc_resume 5 (Inr ''record'') (svc_worker_ends 5 (Inr 7) svc_sample_joined))"

lemma svc_sample_gate_init: "gate_init 1 = Inr svc_sample_gate"
  by (simp add: gate_init_def svc_sample_gate_def)

lemma svc_sample_reserve:
  "registry_reserve ''r-1'' svc_sample_digest registry_init =
    (Inr \<lparr>rr_key = sha256_hex ''r-1'', rr_owner = True, rr_entry = 0\<rparr>,
     \<lparr>rg_entries = [(sha256_hex ''r-1'', 0)], rg_store = [\<lparr>re_input_digest = svc_sample_digest, re_ready = False,
        re_result = None, re_error = None\<rparr>]\<rparr>)"
  "registry_reserve ''r-1'' svc_sample_digest \<lparr>rg_entries = [(sha256_hex ''r-1'', 0)], rg_store = [e]\<rparr> =
    (if re_input_digest e \<noteq> svc_sample_digest
     then (Inl (PyError ''IdempotencyConflictError'' ''The request ID was already used for different canonical input.''),
       \<lparr>rg_entries = [(sha256_hex ''r-1'', 0)], rg_store = [e]\<rparr>)
     else (Inr \<lparr>rr_key = sha256_hex ''r-1'', rr_owner = False, rr_entry = 0\<rparr>, \<lparr>rg_entries = [(sha256_hex ''r-1'', 0)], rg_store = [e]\<rparr>))"
proof -
  have i: "is_request_id ''r-1''" "is_sha256 svc_sample_digest" by code_simp+
  show "registry_reserve ''r-1'' svc_sample_digest registry_init =
    (Inr \<lparr>rr_key = sha256_hex ''r-1'', rr_owner = True, rr_entry = 0\<rparr>,
     \<lparr>rg_entries = [(sha256_hex ''r-1'', 0)], rg_store = [\<lparr>re_input_digest = svc_sample_digest, re_ready = False,
        re_result = None, re_error = None\<rparr>]\<rparr>)"
    by (simp add: registry_reserve_def idempotency_key_sha256_def require_audit_sha256_def i registry_init_def)
  show "registry_reserve ''r-1'' svc_sample_digest \<lparr>rg_entries = [(sha256_hex ''r-1'', 0)], rg_store = [e]\<rparr> =
    (if re_input_digest e \<noteq> svc_sample_digest
     then (Inl (PyError ''IdempotencyConflictError'' ''The request ID was already used for different canonical input.''),
       \<lparr>rg_entries = [(sha256_hex ''r-1'', 0)], rg_store = [e]\<rparr>)
     else (Inr \<lparr>rr_key = sha256_hex ''r-1'', rr_owner = False, rr_entry = 0\<rparr>, \<lparr>rg_entries = [(sha256_hex ''r-1'', 0)], rg_store = [e]\<rparr>))"
    by (simp add: registry_reserve_def idempotency_key_sha256_def require_audit_sha256_def i)
qed

lemma svc_sample_joined_state:
  "sv_clients svc_sample_joined 6 = Waiting_Replay svc_sample_request \<lparr>rr_key = sha256_hex ''r-1'', rr_owner = False, rr_entry = 0\<rparr>"
  "sv_clients svc_sample_joined 5 = Waiting_Worker svc_sample_request \<lparr>rr_key = sha256_hex ''r-1'', rr_owner = True, rr_entry = 0\<rparr>"
  "sv_workers svc_sample_joined = {5}" "sv_audit_on svc_sample_joined" "sv_audit svc_sample_joined = []"
  "sv_registry svc_sample_joined = \<lparr>rg_entries = [(sha256_hex ''r-1'', 0)], rg_store = [\<lparr>re_input_digest = svc_sample_digest,
     re_ready = False, re_result = None, re_error = None\<rparr>]\<rparr>"
  by (simp_all add: svc_sample_joined_def svc_arrive_def svc_init_def svc_sample_request_def svc_sample_gate_def svc_sample_reserve
      try_acquire_def set_client_def)

lemma svc_sample_answered_state:
  "sv_clients svc_sample_answered 5 = Answered svc_sample_request (Prediction 7 (Some ''record'') False)"
  "sv_clients svc_sample_answered 6 = Answered svc_sample_request (Prediction 7 (Some ''record'') True)"
  by (simp_all add: svc_sample_answered_def svc_worker_ends_def svc_resume_def svc_replay_wakes_def svc_sample_joined_state set_client_def
      registry_complete_def registry_replay_def svc_sample_request_def Let_def)

lemma svc_reachable_intros:
  "svc_reachable backend audit_on g (svc_init backend audit_on g)"
  "svc_reachable backend audit_on g s \<Longrightarrow> svc_reachable backend audit_on g (svc_arrive c q s)"
  "svc_reachable backend audit_on g s \<Longrightarrow> svc_reachable backend audit_on g (svc_worker_ends c result s)"
  "svc_reachable backend audit_on g s \<Longrightarrow> svc_reachable backend audit_on g (svc_resume c appended s)"
  "svc_reachable backend audit_on g s \<Longrightarrow> svc_reachable backend audit_on g (svc_replay_wakes c s)"
  unfolding svc_reachable_def by (rule rtranclp.rtrancl_refl | erule rtranclp.rtrancl_into_rtrancl, rule svc_step.intros)+

lemma svc_sample_reachable:
  "svc_reachable ''local-default'' True svc_sample_gate svc_sample_joined" "svc_reachable ''local-default'' True svc_sample_gate svc_sample_answered"
  unfolding svc_sample_answered_def svc_sample_joined_def by (intro svc_reachable_intros)+

theorem admission_counts_running_workers_witness:
  "finite (sv_workers svc_sample_joined) \<and> cg_in_flight (sv_gate svc_sample_joined) = int (card (sv_workers svc_sample_joined)) \<and>
    int (card (sv_workers svc_sample_joined)) \<le> 1"
  by (rule admission_counts_running_workers [OF svc_sample_gate_init svc_sample_reachable(1)])

theorem one_prediction_per_request_id_witness:
  "sv_clients svc_sample_answered 5 = Answered svc_sample_request (Prediction 7 (Some ''record'') False) \<and>
    sv_clients svc_sample_answered 6 = Answered svc_sample_request (Prediction 7 (Some ''record'') True) \<and> (False \<or> True)"
  using one_prediction_per_request_id [OF svc_sample_gate_init svc_sample_reachable(2) svc_sample_answered_state refl] svc_sample_answered_state
  by simp

theorem no_release_without_audit_witness:
  "\<exists>receipt. (sha256_hex (sq_id svc_sample_request), sq_digest svc_sample_request, receipt) \<in> set (sv_audit svc_sample_answered)"
  by (rule no_release_without_audit [OF svc_sample_gate_init svc_sample_reachable(2) svc_sample_answered_state(2)])

theorem joined_request_is_answered_witness:
  "\<exists>c'. \<forall>result appended. \<exists>a.
    sv_clients (svc_replay_wakes 6 (svc_resume c' appended (svc_worker_ends c' result svc_sample_joined))) 6 = Answered svc_sample_request a"
  using joined_request_is_answered [OF svc_sample_gate_init svc_sample_reachable(1) svc_sample_joined_state(1)]
  by (simp add: svc_sample_joined_state(6))

end
