(* ===== verification/Feature_Contract.thy ===== *)
theory Feature_Contract
  imports Py_Values
begin

text \<open>
  \<open>src/src/lane_a/feature_contract.py\<close>, \<open>serving_schema.py\<close> and \<open>variants.py\<close>: the eligibility of
  every source column of the second experiment, the locked serving schema and the five feature
  variants, with the checks that tie them together. The tables are written out as the code
  builds them, so every lookup computes.
\<close>

section \<open>Eligibility contract\<close>

definition LANE :: string where "LANE = ''A''"
definition NAMESPACE :: string where "NAMESPACE = ''ieee_cis''"
definition QUALIFIER :: string where "QUALIFIER = ''::''"

datatype eligibility = Candidate_Snapshot | Benchmark_Only | Prohibited

fun eligibility_value :: "eligibility \<Rightarrow> string" where
  "eligibility_value Candidate_Snapshot = ''candidate_snapshot''"
| "eligibility_value Benchmark_Only = ''benchmark_only''"
| "eligibility_value Prohibited = ''prohibited''"

record feature_rule =
  fr_name :: string
  fr_family :: string
  fr_eligibility :: eligibility
  fr_rationale :: string
  fr_optional :: bool
  fr_requires_proof :: bool

abbreviation FeatureContractError :: "string \<Rightarrow> py_exc" where
  "FeatureContractError m \<equiv> PyError ''FeatureContractError'' m"

definition feature_qualified_name :: "feature_rule \<Rightarrow> string" where
  "feature_qualified_name r = NAMESPACE @ QUALIFIER @ fr_name r"

definition feature_rules_of :: "string \<Rightarrow> eligibility \<Rightarrow> string \<Rightarrow> bool \<Rightarrow> bool \<Rightarrow> string list \<Rightarrow> feature_rule list" where
  "feature_rules_of family e rationale optional proof_needed names =
     map (\<lambda>name. \<lparr>fr_name = name, fr_family = family, fr_eligibility = e, fr_rationale = rationale,
                 fr_optional = optional, fr_requires_proof = proof_needed\<rparr>) names"

definition numbered :: "string \<Rightarrow> int \<Rightarrow> int \<Rightarrow> string list" where
  "numbered prefix first last_index = map (\<lambda>index. prefix @ int_str index) [first..last_index]"

text \<open>\<open>f"id_{index:02d}"\<close>.\<close>

definition numbered02 :: "string \<Rightarrow> int \<Rightarrow> int \<Rightarrow> string list" where
  "numbered02 prefix first last_index =
     map (\<lambda>index. prefix @ (if index < 10 then ''0'' else []) @ int_str index) [first..last_index]"

definition FEATURE_RULES :: "feature_rule list" where
  "FEATURE_RULES =
     feature_rules_of ''label'' Prohibited
       ''Target label. Never a feature, never read during partitioning or profiling.'' False False [''isFraud''] @
     feature_rules_of ''identifier'' Prohibited
       ''Row identifier and identity join key. Carries no decision signal and is monotonic with time, so using it would leak ordering.''
       False False [''TransactionID''] @
     feature_rules_of ''partition_key'' Prohibited
       (''Frozen partition key. It is a relative offset that increases monotonically across the whole corpus, so as a raw feature it encodes each row'' @ [CHR 0x27] @
        ''s position relative to the frozen role boundaries. Derived point-in-time quantities (hour of day, day of week) may be proposed separately and are not covered by this rule.'')
       False False [''TransactionDT''] @
     feature_rules_of ''amount'' Candidate_Snapshot
       ''Transaction amount is known at authorisation time.'' False False [''TransactionAmt''] @
     feature_rules_of ''product'' Candidate_Snapshot
       ''Product code is a property of the request itself.'' False False [''ProductCD''] @
     feature_rules_of ''card'' Candidate_Snapshot
       ''Card attribute presented with the authorisation request.'' False False (numbered ''card'' 1 6) @
     feature_rules_of ''address'' Candidate_Snapshot
       ''Billing address attribute supplied with the request.'' False False (numbered ''addr'' 1 2) @
     feature_rules_of ''distance'' Benchmark_Only
       ''Masked distance quantity. Its two endpoints and units are undocumented, so decision-time computability cannot be established.''
       False True (numbered ''dist'' 1 2) @
     feature_rules_of ''email_domain'' Candidate_Snapshot
       ''Email domain accompanies the request. Values are sensitive and must never be exported; only aggregate cardinality and missingness may be published.''
       False False [''P_emaildomain'', ''R_emaildomain''] @
     feature_rules_of ''count_aggregate'' Benchmark_Only
       ''Documented only as a counting feature over entities associated with the card. The aggregation window and its anchor are not published, so it cannot be shown to exclude information created after the transaction.''
       False True (numbered ''C'' 1 14) @
     feature_rules_of ''timedelta'' Benchmark_Only
       ''Documented only as a timedelta. Whether every instance looks strictly backwards from the transaction instant is not published.''
       False True (numbered ''D'' 1 15) @
     feature_rules_of ''match_flag'' Candidate_Snapshot
       ''Match indicator between attributes presented in the same request, such as name-on-card against address. Computable from the request itself. Documentation is thin; revisit if primary docs contradict this.''
       False False (numbered ''M'' 1 9) @
     feature_rules_of ''vesta_engineered'' Benchmark_Only
       ''Vendor-engineered aggregate covering ranking, counting and entity relations. Construction is masked, so point-in-time safety is unproven.''
       False True (numbered ''V'' 1 339) @
     feature_rules_of ''identity_signal'' Benchmark_Only
       ''Identity signal with undocumented semantics; several are numeric with no published construction. Present for a minority of transactions.''
       True True (numbered02 ''id_'' 1 38) @
     feature_rules_of ''device'' Candidate_Snapshot
       ''Device attribute observable at request time. Optional: present only when an identity record exists. Values are sensitive and must never be exported.''
       True False [''DeviceType'', ''DeviceInfo'']"

text \<open>A dictionary comprehension keeps the last rule of a name.\<close>

definition RULES_BY_NAME :: "string \<Rightarrow> feature_rule option" where
  "RULES_BY_NAME = map_of (rev (map (\<lambda>r. (fr_name r, r)) FEATURE_RULES))"

definition names_with :: "eligibility \<Rightarrow> string list" where
  "names_with e = map fr_name (filter (\<lambda>r. fr_eligibility r = e) FEATURE_RULES)"

definition candidate_snapshot_features :: "string list" where
  "candidate_snapshot_features = names_with Candidate_Snapshot"

definition benchmark_only_features :: "string list" where
  "benchmark_only_features = names_with Benchmark_Only"

definition prohibited_features :: "string list" where
  "prohibited_features = names_with Prohibited"

definition optional_features :: "string list" where
  "optional_features = map fr_name (filter fr_optional FEATURE_RULES)"

definition serving_eligible_features :: "string list" where
  "serving_eligible_features =
     map fr_name (filter (\<lambda>r. fr_eligibility r = Candidate_Snapshot \<and> \<not> fr_requires_proof r) FEATURE_RULES)"

definition qualified_columns :: "string list \<Rightarrow> py_exc + string list" where
  "qualified_columns names =
     res_map (\<lambda>name. case RULES_BY_NAME name of
         None \<Rightarrow> Inl (FeatureContractError (repr_str name @ '' is not a Lane A column.''))
       | Some r \<Rightarrow> Inr (feature_qualified_name r)) names"

definition assert_disjoint_from :: "string list \<Rightarrow> py_exc + unit" where
  "assert_disjoint_from other =
     (let collisions = filter (\<lambda>n. n \<in> set other) (map feature_qualified_name FEATURE_RULES)
      in if collisions \<noteq> [] then
           Inl (FeatureContractError (''Qualified Lane A names collide with the supplied namespace: '' @
             repr_str_list (sort (remdups collisions))))
         else Inr ())"

definition check_selected :: "bool \<Rightarrow> string \<Rightarrow> py_exc + unit" where
  "check_selected for_serving name =
     (case RULES_BY_NAME name of
        None \<Rightarrow> Inl (FeatureContractError (repr_str name @ '' is not a Lane A column.''))
      | Some r \<Rightarrow>
          if fr_eligibility r = Prohibited then
            Inl (FeatureContractError (repr_str name @ '' is prohibited as a model feature: '' @ fr_rationale r))
          else if for_serving \<and> fr_eligibility r \<noteq> Candidate_Snapshot then
            Inl (FeatureContractError (repr_str name @ '' is '' @ eligibility_value (fr_eligibility r) @
              '' and is not serving-eligible.''))
          else if for_serving \<and> fr_requires_proof r then
            Inl (FeatureContractError (repr_str name @
              '' needs primary documentation of point-in-time construction before it may be served.''))
          else Inr ())"

definition validate_selection :: "string list \<Rightarrow> bool \<Rightarrow> py_exc + string list" where
  "validate_selection names for_serving =
     (if length (remdups names) \<noteq> length names then Inl (FeatureContractError ''Duplicate column in selection.'')
      else res_bind (res_map (check_selected for_serving) names) (\<lambda>_. Inr names))"

text \<open>The counts of \<open>contract_summary\<close>, families in order of first appearance.\<close>

record contract_counts =
  cc_total :: nat
  cc_candidate :: nat
  cc_benchmark :: nat
  cc_prohibited :: nat
  cc_serving :: nat
  cc_optional :: nat
  cc_proof :: nat
  cc_by_family :: "(string, (string, nat) dict) dict"

definition count_family :: "(string, (string, nat) dict) dict \<Rightarrow> feature_rule \<Rightarrow> (string, (string, nat) dict) dict" where
  "count_family families r =
     (let bucket = (case map_of families (fr_family r) of None \<Rightarrow> [] | Some b \<Rightarrow> b);
          v = eligibility_value (fr_eligibility r);
          seen = (case map_of bucket v of None \<Rightarrow> 0 | Some n \<Rightarrow> n)
      in AList.update (fr_family r) (AList.update v (seen + 1) bucket) families)"

definition contract_summary :: contract_counts where
  "contract_summary =
     \<lparr>cc_total = length FEATURE_RULES, cc_candidate = length candidate_snapshot_features,
      cc_benchmark = length benchmark_only_features, cc_prohibited = length prohibited_features,
      cc_serving = length serving_eligible_features, cc_optional = length optional_features,
      cc_proof = length (filter fr_requires_proof FEATURE_RULES),
      cc_by_family = foldl count_family [] FEATURE_RULES\<rparr>"

section \<open>The locked serving schema\<close>

abbreviation SchemaLockError :: "string \<Rightarrow> py_exc" where
  "SchemaLockError m \<equiv> PyError ''SchemaLockError'' m"

record schema_field =
  sf_name :: string
  sf_kind :: string
  sf_derived :: bool
  sf_optional :: bool

definition IDENTITY_PRESENCE_FEATURE :: string where
  "IDENTITY_PRESENCE_FEATURE = ''identity_record_present''"

definition plain_field :: "string \<Rightarrow> string \<Rightarrow> schema_field" where
  "plain_field name kind = \<lparr>sf_name = name, sf_kind = kind, sf_derived = False, sf_optional = False\<rparr>"

definition SERVING_CORE_SCHEMA :: "schema_field list" where
  "SERVING_CORE_SCHEMA =
     [plain_field ''TransactionAmt'' ''numeric'', plain_field ''ProductCD'' ''categorical'',
      plain_field ''card1'' ''numeric'', plain_field ''card2'' ''numeric'', plain_field ''card3'' ''numeric'',
      plain_field ''card4'' ''categorical'', plain_field ''card5'' ''numeric'', plain_field ''card6'' ''categorical'',
      plain_field ''addr1'' ''numeric'', plain_field ''addr2'' ''numeric'', plain_field ''P_emaildomain'' ''categorical'',
      (plain_field ''DeviceType'' ''categorical'')\<lparr>sf_optional := True\<rparr>,
      (plain_field IDENTITY_PRESENCE_FEATURE ''boolean'')\<lparr>sf_derived := True\<rparr>]"

definition SCHEMA_FIELD_NAMES :: "string list" where
  "SCHEMA_FIELD_NAMES = map sf_name SERVING_CORE_SCHEMA"
definition SOURCE_FIELD_NAMES :: "string list" where
  "SOURCE_FIELD_NAMES = map sf_name (filter (\<lambda>f. \<not> sf_derived f) SERVING_CORE_SCHEMA)"
definition IDENTITY_SOURCED_FIELDS :: "string list" where "IDENTITY_SOURCED_FIELDS = [''DeviceType'']"
definition TRANSACTION_SOURCED_FIELDS :: "string list" where
  "TRANSACTION_SOURCED_FIELDS = filter (\<lambda>name. name \<notin> set IDENTITY_SOURCED_FIELDS) SOURCE_FIELD_NAMES"
definition CATEGORICAL_FIELDS :: "string list" where
  "CATEGORICAL_FIELDS = map sf_name (filter (\<lambda>f. sf_kind f = ''categorical'') SERVING_CORE_SCHEMA)"
definition NUMERIC_FIELDS :: "string list" where
  "NUMERIC_FIELDS = map sf_name (filter (\<lambda>f. sf_kind f = ''numeric'') SERVING_CORE_SCHEMA)"

definition field_qualified_name :: "schema_field \<Rightarrow> string" where
  "field_qualified_name f = NAMESPACE @ QUALIFIER @ sf_name f"
definition QUALIFIED_SCHEMA :: "string list" where
  "QUALIFIED_SCHEMA = map field_qualified_name SERVING_CORE_SCHEMA"

definition FORBIDDEN_EXACT :: "string list" where
  "FORBIDDEN_EXACT = [''TransactionID'', ''isFraud'', ''TransactionDT'', ''R_emaildomain'', ''DeviceInfo'']"
definition FORBIDDEN_PREFIXES :: "string list" where
  "FORBIDDEN_PREFIXES = [''M'', ''C'', ''D'', ''V'', ''dist'', ''id_'']"

definition is_forbidden :: "string \<Rightarrow> bool" where
  "is_forbidden name =
     (if name \<in> set SCHEMA_FIELD_NAMES then False
      else if name \<in> set FORBIDDEN_EXACT then True
      else if \<exists>prefix \<in> set FORBIDDEN_PREFIXES. starts_with name prefix then True
      else name \<notin> set SCHEMA_FIELD_NAMES)"

text \<open>The check of one column against the contract, shared in substance by lock and variants.\<close>

definition check_locked_field :: "schema_field \<Rightarrow> py_exc + unit" where
  "check_locked_field f =
     (if sf_derived f then Inr ()
      else case RULES_BY_NAME (sf_name f) of
        None \<Rightarrow> Inl (SchemaLockError (repr_str (sf_name f) @ '' is not a Lane A source column.''))
      | Some r \<Rightarrow>
          if fr_eligibility r \<noteq> Candidate_Snapshot then
            Inl (SchemaLockError (repr_str (sf_name f) @ '' is '' @ eligibility_value (fr_eligibility r) @
              ''; only candidate_snapshot columns may be served.''))
          else if fr_requires_proof r then
            Inl (SchemaLockError (repr_str (sf_name f) @ '' still requires point-in-time proof.''))
          else if is_forbidden (sf_name f) then
            Inl (SchemaLockError (repr_str (sf_name f) @ '' is on the forbidden list.''))
          else Inr ())"

definition assert_schema_locked :: "py_exc + unit" where
  "assert_schema_locked =
     (if length SERVING_CORE_SCHEMA \<noteq> 13 then
        Inl (SchemaLockError (''Serving core must hold exactly 13 inputs, found '' @ nat_str (length SERVING_CORE_SCHEMA) @ ''.''))
      else if length (remdups SCHEMA_FIELD_NAMES) \<noteq> length SCHEMA_FIELD_NAMES then
        Inl (SchemaLockError ''Duplicate field in the serving core.'')
      else if map sf_name (filter sf_derived SERVING_CORE_SCHEMA) \<noteq> [IDENTITY_PRESENCE_FEATURE] then
        Inl (SchemaLockError ''Exactly one derived field is permitted.'')
      else res_bind (res_map check_locked_field SERVING_CORE_SCHEMA) (\<lambda>_. Inr ()))"

definition assert_no_lane_b_names :: "string list \<Rightarrow> py_exc + unit" where
  "assert_no_lane_b_names names =
     (let intruders = filter (\<lambda>n. n \<in> set SCHEMA_FIELD_NAMES) (remdups names);
          qualified_intruders = filter (\<lambda>n. n \<in> set QUALIFIED_SCHEMA) (remdups names)
      in if intruders \<noteq> [] then
           Inl (SchemaLockError (''Lane B names must never appear in the Lane A serving core: '' @ repr_str_list (sort intruders)))
         else if qualified_intruders \<noteq> [] then
           Inl (SchemaLockError (''Qualified name collision: '' @ repr_str_list (sort qualified_intruders)))
         else Inr ())"

record schema_counts =
  sc_model_inputs :: nat
  sc_source_fields :: nat
  sc_derived_fields :: nat
  sc_categorical_fields :: nat
  sc_numeric_fields :: nat
  sc_optional_fields :: nat

definition validate_against_contract :: "py_exc + schema_counts" where
  "validate_against_contract =
     res_bind assert_schema_locked (\<lambda>_.
       case validate_selection SOURCE_FIELD_NAMES True of
         Inl (PyError c m) \<Rightarrow> if c = ''FeatureContractError'' then Inl (SchemaLockError m) else Inl (PyError c m)
       | Inl e \<Rightarrow> Inl e
       | Inr _ \<Rightarrow>
           Inr \<lparr>sc_model_inputs = length SERVING_CORE_SCHEMA, sc_source_fields = length SOURCE_FIELD_NAMES,
                sc_derived_fields = 1, sc_categorical_fields = length CATEGORICAL_FIELDS,
                sc_numeric_fields = length NUMERIC_FIELDS,
                sc_optional_fields = length (filter sf_optional SERVING_CORE_SCHEMA)\<rparr>)"

section \<open>Variants\<close>

abbreviation VariantError :: "string \<Rightarrow> py_exc" where
  "VariantError m \<equiv> PyError ''VariantError'' m"

definition BASE_SOURCE_FIELDS :: "string list" where
  "BASE_SOURCE_FIELDS = filter (\<lambda>name. name \<noteq> IDENTITY_PRESENCE_FEATURE) SCHEMA_FIELD_NAMES"
definition R_EMAIL :: "string list" where "R_EMAIL = [''R_emaildomain'']"
definition MATCH_FLAGS :: "string list" where "MATCH_FLAGS = numbered ''M'' 1 9"
definition DEVICE_INFO :: "string list" where "DEVICE_INFO = [''DeviceInfo'']"
definition ADDITIONAL_CATEGORICAL :: "string list" where
  "ADDITIONAL_CATEGORICAL = R_EMAIL @ MATCH_FLAGS @ DEVICE_INFO"

definition PROHIBITED_EXACT :: "string list" where
  "PROHIBITED_EXACT = [''TransactionID'', ''isFraud'', ''TransactionDT'']"
definition PROHIBITED_FAMILIES :: "string list" where
  "PROHIBITED_FAMILIES = [''C'', ''D'', ''V'', ''dist'', ''id_'']"

text \<open>\<open>str.isdigit\<close>: the superscripts of Latin-1 count as digits too.\<close>

definition py_isdigit :: "string \<Rightarrow> bool" where
  "py_isdigit s = (s \<noteq> [] \<and> list_all (\<lambda>c. is_digit c \<or> c = CHR 0xB2 \<or> c = CHR 0xB3 \<or> c = CHR 0xB9) s)"

definition is_permanently_prohibited :: "string \<Rightarrow> bool" where
  "is_permanently_prohibited name =
     (name \<in> set PROHIBITED_EXACT \<or>
      (\<exists>family \<in> set PROHIBITED_FAMILIES. starts_with name family \<and> py_isdigit (drop (length family) name)))"

record variant =
  vt_identifier :: string
  vt_name :: string
  vt_extra_fields :: "string list"

definition variant_fields :: "variant \<Rightarrow> string list" where
  "variant_fields v = BASE_SOURCE_FIELDS @ vt_extra_fields v @ [IDENTITY_PRESENCE_FEATURE]"

definition input_count :: "variant \<Rightarrow> nat" where
  "input_count v = length (variant_fields v)"

definition VARIANTS :: "variant list" where
  "VARIANTS =
     [\<lparr>vt_identifier = ''A'', vt_name = ''base13'', vt_extra_fields = []\<rparr>,
      \<lparr>vt_identifier = ''B'', vt_name = ''base_plus_r_email'', vt_extra_fields = R_EMAIL\<rparr>,
      \<lparr>vt_identifier = ''C'', vt_name = ''base_plus_match_flags'', vt_extra_fields = MATCH_FLAGS\<rparr>,
      \<lparr>vt_identifier = ''D'', vt_name = ''base_plus_email_and_match'', vt_extra_fields = R_EMAIL @ MATCH_FLAGS\<rparr>,
      \<lparr>vt_identifier = ''E'', vt_name = ''full_candidate_snapshot'', vt_extra_fields = R_EMAIL @ MATCH_FLAGS @ DEVICE_INFO\<rparr>]"

definition EXPECTED_INPUT_COUNTS :: "(string, nat) dict" where
  "EXPECTED_INPUT_COUNTS = [(''A'', 13), (''B'', 14), (''C'', 22), (''D'', 23), (''E'', 24)]"

definition check_variant_field :: "string \<Rightarrow> py_exc + unit" where
  "check_variant_field name =
     (if name = IDENTITY_PRESENCE_FEATURE then Inr ()
      else if is_permanently_prohibited name then
        Inl (VariantError (repr_str name @ '' is permanently prohibited in every variant.''))
      else case RULES_BY_NAME name of
        None \<Rightarrow> Inl (VariantError (repr_str name @ '' is not a Lane A source column.''))
      | Some r \<Rightarrow>
          if fr_eligibility r \<noteq> Candidate_Snapshot then
            Inl (VariantError (repr_str name @ '' is '' @ eligibility_value (fr_eligibility r) @
              ''; only candidate_snapshot columns are eligible under the v2 amendment.''))
          else if fr_requires_proof r then
            Inl (VariantError (repr_str name @ '' still requires point-in-time proof.''))
          else Inr ())"

definition validate_variant :: "variant \<Rightarrow> py_exc + variant" where
  "validate_variant v =
     (if length (remdups (variant_fields v)) \<noteq> length (variant_fields v) then
        Inl (VariantError (''Variant '' @ vt_identifier v @ '' repeats a field.''))
      else res_bind (res_map check_variant_field (variant_fields v)) (\<lambda>_.
        case map_of EXPECTED_INPUT_COUNTS (vt_identifier v) of
          Some expected \<Rightarrow>
            if input_count v \<noteq> expected then
              Inl (VariantError (''Variant '' @ vt_identifier v @ '' has '' @ nat_str (input_count v) @
                '' inputs, expected '' @ nat_str expected @ ''.''))
            else Inr v
        | None \<Rightarrow> Inr v))"

definition validate_all :: "py_exc + (string, nat) dict" where
  "validate_all =
     res_map (\<lambda>v. res_bind (validate_variant v) (\<lambda>w. Inr (vt_identifier v, input_count w))) VARIANTS"

text \<open>
  The choice among the eligible variants. A result holds what \<open>float\<close> and \<open>int\<close> make of its
  three entries, \<open>None\<close> where an entry is missing or is not a number. Keys are compared as
  tuples, and two NaN floats differ; \<open>sorted(...)[0]\<close> is the first least key when no key holds a
  NaN. With a NaN the order is not total and \<open>sorted\<close> promises nothing; the facts leave that out.
\<close>

record variant_result =
  vr_average_precision :: "pyfloat option"
  vr_input_count :: "int option"
  vr_artifact_size :: "int option"

type_synonym variant_key = "pyfloat \<times> int \<times> int \<times> string"

definition variant_key_of :: "(string, variant_result) dict \<Rightarrow> string \<Rightarrow> py_exc + variant_key" where
  "variant_key_of results identifier =
     (case map_of results identifier of
        None \<Rightarrow> Inl (KeyError (repr_str identifier))
      | Some r \<Rightarrow>
          (case (vr_average_precision r, vr_input_count r, vr_artifact_size r) of
             (Some ap, Some n, Some size_bytes) \<Rightarrow> Inr (fneg ap, n, size_bytes, identifier)
           | _ \<Rightarrow> Inl (VariantError (''Variant '' @ identifier @ '' lacks a valid selection result.''))))"

fun variant_key_less :: "variant_key \<Rightarrow> variant_key \<Rightarrow> bool" where
  "variant_key_less (a, n, s, i) (b, m, t, j) =
     (if a \<noteq> b \<or> a = NaN then flt a b else if n \<noteq> m then n < m else if s \<noteq> t then s < t else i < j)"

definition least_variant :: "variant_key list \<Rightarrow> variant_key" where
  "least_variant keys = foldl (\<lambda>best k. if variant_key_less k best then k else best) (hd keys) (tl keys)"

definition choose_eligible_variant :: "string list \<Rightarrow> (string, variant_result) dict \<Rightarrow> py_exc + string" where
  "choose_eligible_variant eligible results =
     (if eligible = [] then Inr ''A''
      else let unknown = filter (\<lambda>i. i \<notin> set (map vt_identifier VARIANTS)) (remdups eligible)
        in if unknown \<noteq> [] then Inl (VariantError (''Unknown eligible variant(s): '' @ repr_str_list (sort unknown)))
           else res_bind (res_map (variant_key_of results) eligible) (\<lambda>keys.
             case least_variant keys of (_, _, _, identifier) \<Rightarrow> Inr identifier))"

definition variant_categorical_fields :: "variant \<Rightarrow> string list" where
  "variant_categorical_fields v =
     filter (\<lambda>name. name \<in> set CATEGORICAL_FIELDS \<or> name \<in> set ADDITIONAL_CATEGORICAL) (variant_fields v)"

definition variant_numeric_fields :: "variant \<Rightarrow> string list" where
  "variant_numeric_fields v = filter (\<lambda>name. name \<in> set NUMERIC_FIELDS) (variant_fields v)"

end
