(* ===== verification/Feature_Contract_Facts.thy ===== *)
theory Feature_Contract_Facts
  imports Feature_Contract "HOL-Library.Product_Lexorder"
begin

text \<open>
  The three modules of the feature contract agree: what may be served, what a variant may hold
  and what is prohibited by name are the same partition of the columns, the locked schema and
  the predeclared variants pass every check, and the variant selection is a total order.
\<close>

section \<open>Lookups\<close>

lemma rule_of_name: "RULES_BY_NAME n = Some r \<Longrightarrow> r \<in> set FEATURE_RULES \<and> fr_name r = n"
  by (auto simp: RULES_BY_NAME_def dest!: map_of_SomeD)

lemma named_rule: "r \<in> set FEATURE_RULES \<Longrightarrow> \<exists>r'. RULES_BY_NAME (fr_name r) = Some r'"
proof -
  assume "r \<in> set FEATURE_RULES"
  then have "fr_name r \<in> fst ` set (rev (map (\<lambda>r. (fr_name r, r)) FEATURE_RULES))" by force
  then show ?thesis unfolding RULES_BY_NAME_def by (metis domIff dom_map_of_conv_image_fst option.exhaust)
qed

lemma filter_rules_of:
  "filter (\<lambda>r. fr_eligibility r = e \<and> \<not> fr_requires_proof r) (feature_rules_of f e' rat opt pr names) =
    (if e' = e \<and> \<not> pr then feature_rules_of f e' rat opt pr names else [])"
  by (auto simp: feature_rules_of_def filter_map comp_def)

lemma names_of_rules: "map fr_name (feature_rules_of f e rat opt pr names) = names"
  by (simp add: feature_rules_of_def comp_def)

lemma serving_eligible_list:
  "serving_eligible_features = [''TransactionAmt'', ''ProductCD''] @ numbered ''card'' 1 6 @ numbered ''addr'' 1 2 @
    [''P_emaildomain'', ''R_emaildomain''] @ numbered ''M'' 1 9 @ [''DeviceType'', ''DeviceInfo'']"
  by (simp add: serving_eligible_features_def FEATURE_RULES_def filter_rules_of names_of_rules)

lemma int_str_digits: "0 \<le> i \<Longrightarrow> py_isdigit (int_str i)"
  using nat_str_digits [of "nat i"] by (auto simp: int_str_def py_isdigit_def list_all_iff)

lemma family_prohibited: "p \<in> set PROHIBITED_FAMILIES \<Longrightarrow> py_isdigit s \<Longrightarrow> is_permanently_prohibited (p @ s)"
  unfolding is_permanently_prohibited_def by (intro disjI2 bexI [of _ p]) (simp_all add: starts_with_def)

lemma exact_prohibited: "n \<in> set PROHIBITED_EXACT \<Longrightarrow> is_permanently_prohibited n"
  by (simp add: is_permanently_prohibited_def)

lemma numbered_prohibited:
  "p \<in> set PROHIBITED_FAMILIES \<Longrightarrow> 0 \<le> a \<Longrightarrow> n \<in> set (numbered p a b) \<Longrightarrow> is_permanently_prohibited n"
  using int_str_digits by (auto simp: numbered_def intro!: family_prohibited)

lemma numbered02_prohibited:
  assumes "p \<in> set PROHIBITED_FAMILIES" and "0 \<le> a" and "n \<in> set (numbered02 p a b)"
  shows "is_permanently_prohibited n"
proof -
  obtain i where i: "a \<le> i" "n = p @ ((if i < 10 then ''0'' else []) @ int_str i)"
    using assms(3) by (auto simp: numbered02_def)
  have "py_isdigit ((if i < 10 then ''0'' else []) @ int_str i)"
    using int_str_digits [of i] i(1) assms(2) by (auto simp: py_isdigit_def is_digit_def)
  then show ?thesis using family_prohibited [OF assms(1)] unfolding i(2) by blast
qed

lemma ineligible_prohibited:
  assumes "r \<in> set FEATURE_RULES" and "\<not> (fr_eligibility r = Candidate_Snapshot \<and> \<not> fr_requires_proof r)"
  shows "is_permanently_prohibited (fr_name r)"
proof -
  have fams: "''C'' \<in> set PROHIBITED_FAMILIES" "''D'' \<in> set PROHIBITED_FAMILIES" "''V'' \<in> set PROHIBITED_FAMILIES"
    "''dist'' \<in> set PROHIBITED_FAMILIES" "''id_'' \<in> set PROHIBITED_FAMILIES" by (simp_all add: PROHIBITED_FAMILIES_def)
  have "fr_name r \<in> set PROHIBITED_EXACT \<or> fr_name r \<in> set (numbered ''dist'' 1 2) \<or> fr_name r \<in> set (numbered ''C'' 1 14) \<or>
      fr_name r \<in> set (numbered ''D'' 1 15) \<or> fr_name r \<in> set (numbered ''V'' 1 339) \<or> fr_name r \<in> set (numbered02 ''id_'' 1 38)"
    using assms by (auto simp: FEATURE_RULES_def feature_rules_of_def PROHIBITED_EXACT_def)
  then show ?thesis using fams
    by (elim disjE) (erule exact_prohibited numbered_prohibited [rotated 2] numbered02_prohibited [rotated 2]; simp)+
qed

lemma serving_names_not_prohibited: "list_all (\<lambda>n. \<not> is_permanently_prohibited n) serving_eligible_features"
  unfolding serving_eligible_list by code_simp

lemma serving_eligible_iff:
  assumes "RULES_BY_NAME n = Some r"
  shows "n \<in> set serving_eligible_features \<longleftrightarrow> fr_eligibility r = Candidate_Snapshot \<and> \<not> fr_requires_proof r"
proof
  show "n \<in> set serving_eligible_features" if "fr_eligibility r = Candidate_Snapshot \<and> \<not> fr_requires_proof r"
    using rule_of_name [OF assms] that by (auto simp: serving_eligible_features_def)
  show "fr_eligibility r = Candidate_Snapshot \<and> \<not> fr_requires_proof r" if "n \<in> set serving_eligible_features"
    using ineligible_prohibited rule_of_name [OF assms] serving_names_not_prohibited that by (auto simp: list_all_iff)
qed

lemma serving_has_rule: "n \<in> set serving_eligible_features \<Longrightarrow> RULES_BY_NAME n \<noteq> None"
  using named_rule by (auto simp: serving_eligible_features_def)

lemma check_selected_serving: "check_selected True n = Inr () \<longleftrightarrow> n \<in> set serving_eligible_features"
  using serving_eligible_iff [of n] serving_has_rule [of n]
  by (cases "RULES_BY_NAME n") (auto simp: check_selected_def)

lemma check_variant_field_ok: "check_variant_field n = Inr () \<longleftrightarrow> n = IDENTITY_PRESENCE_FEATURE \<or> n \<in> set serving_eligible_features"
  using serving_eligible_iff [of n] serving_has_rule [of n] serving_names_not_prohibited
  by (cases "RULES_BY_NAME n") (auto simp: check_variant_field_def list_all_iff)

lemma res_map_unit_ok: "(\<exists>us. res_map f xs = Inr (us :: unit list)) \<longleftrightarrow> (\<forall>x \<in> set xs. f x = Inr ())"
proof (induction xs)
  case (Cons x xs)
  then show ?case by (cases "f x") (auto simp: res_bind_def split: sum.splits)
qed simp

lemma length_remdups_distinct: "length (remdups xs) = length xs \<longleftrightarrow> distinct xs"
  by (metis distinct_card distinct_remdups length_remdups_card_conv card_distinct)

text \<open>The forbidden list never decides: a schema field is never forbidden, and anything else always is.\<close>

lemma forbidden_is_outside_schema: "is_forbidden n \<longleftrightarrow> n \<notin> set SCHEMA_FIELD_NAMES"
  by (simp add: is_forbidden_def)

section \<open>Choosing a variant\<close>

fun rank_of :: "variant_key \<Rightarrow> rat \<times> int \<times> int \<times> string" where
  "rank_of (Fin a, k) = (a, k)"
| "rank_of (_, k) = (0, k)"

definition finite_key :: "variant_key \<Rightarrow> bool" where
  "finite_key k = is_finite (fst k)"

lemma variant_key_less_rank: "finite_key x \<Longrightarrow> finite_key y \<Longrightarrow> variant_key_less x y \<longleftrightarrow> rank_of x < rank_of y"
  by (cases x; cases y; cases "fst x"; cases "fst y") (auto simp: finite_key_def is_finite_def)

lemma foldl_least:
  "list_all finite_key ks \<Longrightarrow> finite_key b \<Longrightarrow>
    (let m = foldl (\<lambda>best k. if variant_key_less k best then k else best) b ks
     in m \<in> set (b # ks) \<and> (\<forall>k \<in> set (b # ks). rank_of m \<le> rank_of k))"
proof (induction ks arbitrary: b)
  case (Cons x xs)
  let ?b = "if variant_key_less x b then x else b"
  have "finite_key ?b" using Cons.prems by simp
  from Cons.IH [OF _ this] Cons.prems have
    m: "foldl (\<lambda>best k. if variant_key_less k best then k else best) ?b xs \<in> set (?b # xs)"
    "\<forall>k \<in> set (?b # xs). rank_of (foldl (\<lambda>best k. if variant_key_less k best then k else best) ?b xs) \<le> rank_of k"
    by (simp_all add: Let_def)
  have "rank_of ?b \<le> rank_of b \<and> rank_of ?b \<le> rank_of x" using Cons.prems variant_key_less_rank [of x b] by auto
  then show ?case using m by (auto simp: Let_def split: if_splits intro: order_trans)
qed simp

lemma least_variant_least:
  assumes "ks \<noteq> []" and "list_all finite_key ks"
  shows "least_variant ks \<in> set ks" and "k \<in> set ks \<Longrightarrow> rank_of (least_variant ks) \<le> rank_of k"
proof -
  have "list_all finite_key (tl ks)" "finite_key (hd ks)" "hd ks # tl ks = ks" using assms by (cases ks; simp)+
  from foldl_least [OF this(1,2)] this(3) show "least_variant ks \<in> set ks" "k \<in> set ks \<Longrightarrow> rank_of (least_variant ks) \<le> rank_of k"
    by (auto simp: least_variant_def Let_def)
qed

text \<open>How the amendment ranks two results: precision, then inputs, then size, then the identifier.\<close>

definition ranks_at_least :: "(string, variant_result) dict \<Rightarrow> string \<Rightarrow> string \<Rightarrow> bool" where
  "ranks_at_least results i j \<longleftrightarrow>
     (case (map_of results i, map_of results j) of
        (Some x, Some y) \<Rightarrow>
          (case (vr_average_precision x, vr_input_count x, vr_artifact_size x, vr_average_precision y, vr_input_count y, vr_artifact_size y) of
             (Some (Fin p), Some n, Some s, Some (Fin q), Some m, Some t) \<Rightarrow>
               q < p \<or> p = q \<and> (n < m \<or> n = m \<and> (s < t \<or> s = t \<and> i \<le> j))
           | _ \<Rightarrow> False)
      | _ \<Rightarrow> False)"

definition finite_result :: "(string, variant_result) dict \<Rightarrow> string \<Rightarrow> bool" where
  "finite_result results i \<longleftrightarrow> (\<exists>p n s. map_of results i =
     Some \<lparr>vr_average_precision = Some (Fin p), vr_input_count = Some n, vr_artifact_size = Some s\<rparr>)"

lemma finite_result_key:
  assumes "finite_result results i"
  obtains k where "variant_key_of results i = Inr k" "finite_key k" "snd (snd (snd k)) = i"
proof -
  obtain p n s where "map_of results i = Some \<lparr>vr_average_precision = Some (Fin p), vr_input_count = Some n, vr_artifact_size = Some s\<rparr>"
    using assms by (auto simp: finite_result_def)
  then show thesis by (intro that [of "(Fin (- p), n, s, i)"]) (simp_all add: variant_key_of_def finite_key_def is_finite_def)
qed

lemma rank_le_ranks_at_least:
  assumes "finite_result results i" and "finite_result results j"
    and "variant_key_of results i = Inr k" and "variant_key_of results j = Inr l"
  shows "rank_of k \<le> rank_of l \<longleftrightarrow> ranks_at_least results i j"
  using assms by (auto simp: finite_result_def variant_key_of_def ranks_at_least_def)

section \<open>Properties\<close>

text \<open>
  What may be served: a selection is accepted for serving exactly when it repeats no column
  and every column is on the whitelist, and for benchmarks exactly when it repeats no column and
  every column is a known one other than label, row identifier and partition key.
\<close>
theorem accepted_selections_exact:
  "(validate_selection names True = Inr names \<longleftrightarrow> distinct names \<and> set names \<subseteq> set serving_eligible_features) \<and>
   (validate_selection names False = Inr names \<longleftrightarrow> distinct names \<and>
      (\<forall>n \<in> set names. \<exists>r. RULES_BY_NAME n = Some r \<and> fr_eligibility r \<noteq> Prohibited))"
proof -
  have bench: "check_selected False n = Inr () \<longleftrightarrow> (\<exists>r. RULES_BY_NAME n = Some r \<and> fr_eligibility r \<noteq> Prohibited)" for n
    by (cases "RULES_BY_NAME n") (auto simp: check_selected_def)
  have v: "validate_selection names b = Inr names \<longleftrightarrow> distinct names \<and> (\<forall>n \<in> set names. check_selected b n = Inr ())" for b
    using res_map_unit_ok [of "check_selected b" names]
    by (auto simp: validate_selection_def res_bind_Inr_iff length_remdups_distinct)
  show ?thesis unfolding v using bench check_selected_serving by auto
qed

text \<open>
  The two prohibition lists agree: a source column is prohibited by name in every variant
  exactly when the eligibility contract does not admit it for serving, although one is written
  as name patterns and the other as a table of rules.
\<close>
theorem prohibition_lists_agree:
  "list_all (\<lambda>r. is_permanently_prohibited (fr_name r) = (fr_name r \<notin> set serving_eligible_features)) FEATURE_RULES"
proof -
  have "is_permanently_prohibited (fr_name r) = (fr_name r \<notin> set serving_eligible_features)" if r: "r \<in> set FEATURE_RULES" for r
  proof
    show "fr_name r \<notin> set serving_eligible_features" if "is_permanently_prohibited (fr_name r)"
      using that serving_names_not_prohibited by (auto simp: list_all_iff)
    show "is_permanently_prohibited (fr_name r)" if "fr_name r \<notin> set serving_eligible_features"
      using ineligible_prohibited [OF r] that r by (auto simp: serving_eligible_features_def)
  qed
  then show ?thesis by (simp add: list_all_iff)
qed

text \<open>
  Validated variants hold only what may be served: a variant that passes validation has no
  repeated field, its source fields form a selection the contract accepts for serving, and none
  of them is prohibited.
\<close>
theorem validated_variant_is_servable:
  assumes "validate_variant v = Inr w"
  shows "w = v \<and> distinct (variant_fields v) \<and>
    validate_selection (filter (\<lambda>n. n \<noteq> IDENTITY_PRESENCE_FEATURE) (variant_fields v)) True =
      Inr (filter (\<lambda>n. n \<noteq> IDENTITY_PRESENCE_FEATURE) (variant_fields v)) \<and>
    list_all (\<lambda>n. \<not> is_permanently_prohibited n) (variant_fields v)"
proof -
  have d: "distinct (variant_fields v)" and w: "w = v" and r: "\<exists>us. res_map check_variant_field (variant_fields v) = Inr us"
    using assms by (auto simp: validate_variant_def res_bind_Inr_iff length_remdups_distinct split: if_splits option.splits)
  have f: "n = IDENTITY_PRESENCE_FEATURE \<or> n \<in> set serving_eligible_features" if "n \<in> set (variant_fields v)" for n
    using r that res_map_unit_ok [of check_variant_field "variant_fields v"] check_variant_field_ok by auto
  let ?src = "filter (\<lambda>n. n \<noteq> IDENTITY_PRESENCE_FEATURE) (variant_fields v)"
  have "\<exists>us. res_map (check_selected True) ?src = Inr us"
    using f res_map_unit_ok [of "check_selected True" ?src] check_selected_serving by auto
  then have "validate_selection ?src True = Inr ?src"
    using d by (auto simp: validate_selection_def res_bind_Inr_iff length_remdups_distinct)
  moreover have "\<not> is_permanently_prohibited IDENTITY_PRESENCE_FEATURE" by code_simp
  ultimately show ?thesis using d w f serving_names_not_prohibited by (auto simp: list_all_iff)
qed

lemma schema_names: "SCHEMA_FIELD_NAMES = [''TransactionAmt'', ''ProductCD'', ''card1'', ''card2'', ''card3'', ''card4'', ''card5'', ''card6'',
    ''addr1'', ''addr2'', ''P_emaildomain'', ''DeviceType'', ''identity_record_present'']"
  by (simp add: SCHEMA_FIELD_NAMES_def SERVING_CORE_SCHEMA_def plain_field_def IDENTITY_PRESENCE_FEATURE_def)

lemma serving_names_list:
  "serving_eligible_features = [''TransactionAmt'', ''ProductCD'', ''card1'', ''card2'', ''card3'', ''card4'', ''card5'', ''card6'',
    ''addr1'', ''addr2'', ''P_emaildomain'', ''R_emaildomain'', ''M1'', ''M2'', ''M3'', ''M4'', ''M5'', ''M6'', ''M7'', ''M8'', ''M9'',
    ''DeviceType'', ''DeviceInfo'']"
  unfolding serving_eligible_list by code_simp

lemma match_flags: "MATCH_FLAGS = [''M1'', ''M2'', ''M3'', ''M4'', ''M5'', ''M6'', ''M7'', ''M8'', ''M9'']"
  by code_simp

lemma base_fields: "BASE_SOURCE_FIELDS = [''TransactionAmt'', ''ProductCD'', ''card1'', ''card2'', ''card3'', ''card4'', ''card5'', ''card6'',
    ''addr1'', ''addr2'', ''P_emaildomain'', ''DeviceType'']"
  by (simp add: BASE_SOURCE_FIELDS_def schema_names IDENTITY_PRESENCE_FEATURE_def)

lemma validate_variant_ok:
  assumes "distinct (variant_fields v)" and "set (variant_fields v) \<subseteq> insert IDENTITY_PRESENCE_FEATURE (set serving_eligible_features)"
    and "map_of EXPECTED_INPUT_COUNTS (vt_identifier v) = Some (length (variant_fields v))"
  shows "validate_variant v = Inr v"
proof -
  have "\<exists>us. res_map check_variant_field (variant_fields v) = Inr us"
    using assms(2) res_map_unit_ok [of check_variant_field "variant_fields v"] check_variant_field_ok by auto
  then show ?thesis using assms(1,3) by (auto simp: validate_variant_def res_bind_def length_remdups_distinct input_count_def)
qed

lemma predeclared_variant_validates: "x \<in> set VARIANTS \<Longrightarrow> validate_variant x = Inr x"
  by (rule validate_variant_ok)
    (auto simp: VARIANTS_def variant_fields_def base_fields match_flags R_EMAIL_def DEVICE_INFO_def
      IDENTITY_PRESENCE_FEATURE_def serving_names_list EXPECTED_INPUT_COUNTS_def)

text \<open>
  The import-time checks pass: the five predeclared variants validate with the predeclared
  input counts, and the locked schema agrees with the contract - thirteen inputs, twelve of them
  source columns, five categorical, seven numeric, one optional.
\<close>
theorem predeclared_tables_are_valid:
  "validate_all = Inr [(''A'', 13), (''B'', 14), (''C'', 22), (''D'', 23), (''E'', 24)] \<and>
   validate_against_contract = Inr \<lparr>sc_model_inputs = 13, sc_source_fields = 12, sc_derived_fields = 1,
     sc_categorical_fields = 5, sc_numeric_fields = 7, sc_optional_fields = 1\<rparr>"
proof
  have "map (\<lambda>v. (vt_identifier v, input_count v)) VARIANTS = [(''A'', 13), (''B'', 14), (''C'', 22), (''D'', 23), (''E'', 24)]"
    by (simp add: VARIANTS_def input_count_def variant_fields_def base_fields match_flags R_EMAIL_def DEVICE_INFO_def)
  moreover have "validate_all = Inr (map (\<lambda>v. (vt_identifier v, input_count v)) VARIANTS)"
  proof -
    have "res_map (\<lambda>v. res_bind (validate_variant v) (\<lambda>w. Inr (vt_identifier v, input_count w))) vs =
        Inr (map (\<lambda>v. (vt_identifier v, input_count v)) vs)" if "set vs \<subseteq> set VARIANTS" for vs
      using that by (induction vs) (auto simp: predeclared_variant_validates res_bind_def)
    then show ?thesis by (simp add: validate_all_def)
  qed
  ultimately show "validate_all = Inr [(''A'', 13), (''B'', 14), (''C'', 22), (''D'', 23), (''E'', 24)]" by simp
next
  have src: "SOURCE_FIELD_NAMES = BASE_SOURCE_FIELDS"
    by (simp add: SOURCE_FIELD_NAMES_def base_fields SERVING_CORE_SCHEMA_def plain_field_def)
  have "set BASE_SOURCE_FIELDS \<subseteq> set serving_eligible_features" "distinct BASE_SOURCE_FIELDS"
    by (simp_all add: base_fields serving_names_list)
  then have sel: "validate_selection SOURCE_FIELD_NAMES True = Inr SOURCE_FIELD_NAMES"
    using res_map_unit_ok [of "check_selected True" BASE_SOURCE_FIELDS] check_selected_serving
    by (auto simp: src validate_selection_def res_bind_Inr_iff length_remdups_distinct)
  have "check_locked_field f = Inr ()" if "f \<in> set SERVING_CORE_SCHEMA" for f
  proof (cases "sf_derived f")
    case False
    then have "sf_name f \<in> set SOURCE_FIELD_NAMES" using that by (auto simp: SOURCE_FIELD_NAMES_def)
    then have "sf_name f \<in> set serving_eligible_features"
      using \<open>set BASE_SOURCE_FIELDS \<subseteq> set serving_eligible_features\<close> src by auto
    moreover have "\<not> is_forbidden (sf_name f)" using that by (simp add: forbidden_is_outside_schema SCHEMA_FIELD_NAMES_def)
    ultimately have "sf_name f \<in> set serving_eligible_features" "\<not> is_forbidden (sf_name f)" .
    then show ?thesis using serving_eligible_iff [of "sf_name f"] serving_has_rule [of "sf_name f"] False
      by (cases "RULES_BY_NAME (sf_name f)") (auto simp: check_locked_field_def)
  qed (simp add: check_locked_field_def)
  then have fields: "\<exists>us. res_map check_locked_field SERVING_CORE_SCHEMA = Inr us" using res_map_unit_ok by blast
  have "length SERVING_CORE_SCHEMA = 13" "distinct SCHEMA_FIELD_NAMES"
    "map sf_name (filter sf_derived SERVING_CORE_SCHEMA) = [IDENTITY_PRESENCE_FEATURE]"
    by (simp_all add: schema_names) (simp_all add: SERVING_CORE_SCHEMA_def plain_field_def)
  then have lock: "assert_schema_locked = Inr ()"
    using fields by (auto simp: assert_schema_locked_def res_bind_def length_remdups_distinct)
  have "length SERVING_CORE_SCHEMA = 13" "length SOURCE_FIELD_NAMES = 12" "length CATEGORICAL_FIELDS = 5" "length NUMERIC_FIELDS = 7"
    "length (filter sf_optional SERVING_CORE_SCHEMA) = 1"
    by (simp_all add: SOURCE_FIELD_NAMES_def CATEGORICAL_FIELDS_def NUMERIC_FIELDS_def SERVING_CORE_SCHEMA_def plain_field_def)
  then show "validate_against_contract = Inr \<lparr>sc_model_inputs = 13, sc_source_fields = 12, sc_derived_fields = 1,
     sc_categorical_fields = 5, sc_numeric_fields = 7, sc_optional_fields = 1\<rparr>"
    unfolding validate_against_contract_def sel lock by (simp add: res_bind_def)
qed

text \<open>
  C26. The variant choice is the amendment's order: with complete finite results the chosen
  identifier is eligible and ranks at least as high as every eligible one - higher average
  precision, then fewer inputs, then the smaller artifact, then the alphabet - and any other
  listing of the same eligible set gives the same choice.
\<close>
theorem chosen_variant_is_best:
  assumes "eligible \<noteq> []" and "set eligible \<subseteq> set (map vt_identifier VARIANTS)" and "list_all (finite_result results) eligible"
    and "set eligible' = set eligible"
  shows "\<exists>i. choose_eligible_variant eligible results = Inr i \<and> choose_eligible_variant eligible' results = Inr i \<and>
    i \<in> set eligible \<and> list_all (ranks_at_least results i) eligible"
proof -
  have one: "\<exists>i k. choose_eligible_variant e results = Inr i \<and> i \<in> set e \<and> variant_key_of results i = Inr k \<and>
      (\<forall>j \<in> set e. \<forall>l. variant_key_of results j = Inr l \<longrightarrow> rank_of k \<le> rank_of l)"
    if e: "set e = set eligible" for e
  proof -
    have fin: "finite_result results i" if "i \<in> set e" for i using assms(3) e that by (auto simp: list_all_iff)
    have "\<exists>ks. res_map (variant_key_of results) e = Inr ks \<and> list_all finite_key ks \<and> map (\<lambda>k. snd (snd (snd k))) ks = e" 
      using fin
    proof (induction e)
      case (Cons i js)
      then obtain ks where "res_map (variant_key_of results) js = Inr ks" "list_all finite_key ks" "map (\<lambda>k. snd (snd (snd k))) ks = js" by auto
      moreover obtain k where "variant_key_of results i = Inr k" "finite_key k" "snd (snd (snd k)) = i"
        by (rule finite_result_key [of results i]) (use Cons.prems in auto)
      ultimately show ?case by (intro exI [of _ "k # ks"]) (simp add: res_bind_def)
    qed simp
    then obtain ks where ks: "res_map (variant_key_of results) e = Inr ks" "list_all finite_key ks" "map (\<lambda>k. snd (snd (snd k))) ks = e" by blast
    have ne: "e \<noteq> []" "ks \<noteq> []" using assms(1) e ks(3) by auto
    have known: "filter (\<lambda>i. i \<notin> set (map vt_identifier VARIANTS)) (remdups e) = []" using assms(2) e by (auto simp: filter_empty_conv)
    have keys: "(\<exists>i \<in> set e. variant_key_of results i = Inr k) \<longleftrightarrow> k \<in> set ks" for k
    proof -
      have same: "length e = length ks" "\<forall>i < length ks. variant_key_of results (e ! i) = Inr (ks ! i)"
        using ks(1) by (auto simp: res_map_Inr_iff list_all2_conv_all_nth)
      show ?thesis using same by (auto simp: in_set_conv_nth) (metis same nth_mem)+
    qed
    let ?k = "least_variant ks"
    have k: "?k \<in> set ks" using least_variant_least(1) [OF ne(2) ks(2)] .
    then obtain i where i: "i \<in> set e" "variant_key_of results i = Inr ?k" using keys by blast
    moreover have "snd (snd (snd ?k)) = i" using finite_result_key [OF fin [OF i(1)]] i(2) by (metis sum.inject(2))
    moreover have "choose_eligible_variant e results = Inr (snd (snd (snd ?k)))"
      unfolding choose_eligible_variant_def Let_def known using ne ks(1) by (simp add: res_bind_def split: prod.split)
    moreover have "rank_of ?k \<le> rank_of l" if "j \<in> set e" "variant_key_of results j = Inr l" for j l
      using least_variant_least(2) [OF ne(2) ks(2)] keys that by blast
    ultimately show ?thesis by blast
  qed
  obtain i k where i: "choose_eligible_variant eligible results = Inr i" "i \<in> set eligible" "variant_key_of results i = Inr k"
    "\<forall>j \<in> set eligible. \<forall>l. variant_key_of results j = Inr l \<longrightarrow> rank_of k \<le> rank_of l" using one [OF refl] by blast
  obtain i' k' where i': "choose_eligible_variant eligible' results = Inr i'" "i' \<in> set eligible" "variant_key_of results i' = Inr k'"
    "\<forall>j \<in> set eligible. \<forall>l. variant_key_of results j = Inr l \<longrightarrow> rank_of k' \<le> rank_of l" using one [OF assms(4)] assms(4) by blast
  have fin: "finite_result results j" if "j \<in> set eligible" for j using assms(3) that by (auto simp: list_all_iff)
  have "rank_of k = rank_of k'" using i(3,4) i'(3,4) i(2) i'(2) by (meson order_antisym)
  then have "i = i'" using i(3) i'(3) fin [OF i(2)] fin [OF i'(2)] by (auto simp: finite_result_def variant_key_of_def)
  moreover have "ranks_at_least results i j" if j: "j \<in> set eligible" for j
  proof -
    obtain l where "variant_key_of results j = Inr l" using finite_result_key [OF fin [OF j]] by blast
    then show ?thesis using rank_le_ranks_at_least [OF fin [OF i(2)] fin [OF j] i(3)] i(4) j by blast
  qed
  ultimately show ?thesis using i i' by (auto simp: list_all_iff)
qed

section \<open>At concrete inputs\<close>

theorem accepted_selections_exact_witness:
  "validate_selection [''card1'', ''M1''] True = Inr [''card1'', ''M1'']"
  using accepted_selections_exact [of "[''card1'', ''M1'']"] by (simp add: serving_names_list)

definition fc_sample_variant :: variant where
  "fc_sample_variant = \<lparr>vt_identifier = ''B'', vt_name = ''base_plus_r_email'', vt_extra_fields = R_EMAIL\<rparr>"

theorem validated_variant_is_servable_witness:
  "distinct (variant_fields fc_sample_variant) \<and> list_all (\<lambda>n. \<not> is_permanently_prohibited n) (variant_fields fc_sample_variant)"
proof -
  have "validate_variant fc_sample_variant = Inr fc_sample_variant"
    by (rule predeclared_variant_validates) (simp add: VARIANTS_def fc_sample_variant_def)
  from validated_variant_is_servable [OF this] show ?thesis by blast
qed

definition fc_sample_results :: "(string, variant_result) dict" where
  "fc_sample_results =
     [(''B'', \<lparr>vr_average_precision = Some (Fin 1), vr_input_count = Some 14, vr_artifact_size = Some 900\<rparr>),
      (''C'', \<lparr>vr_average_precision = Some (Fin 1), vr_input_count = Some 22, vr_artifact_size = Some 800\<rparr>)]"

theorem chosen_variant_is_best_witness:
  "\<exists>i. choose_eligible_variant [''C'', ''B''] fc_sample_results = Inr i \<and>
    choose_eligible_variant [''B'', ''C''] fc_sample_results = Inr i \<and> list_all (ranks_at_least fc_sample_results i) [''C'', ''B'']"
proof -
  have e: "[''C'', ''B''] \<noteq> []" "set [''C'', ''B''] \<subseteq> set (map vt_identifier VARIANTS)"
    "list_all (finite_result fc_sample_results) [''C'', ''B'']" "set [''B'', ''C''] = set [''C'', ''B'']"
    by (auto simp: VARIANTS_def finite_result_def fc_sample_results_def)
  from chosen_variant_is_best [OF e] show ?thesis by blast
qed

end
