(* ===== verification/Migrations.thy ===== *)
theory Migrations
  imports Sha256
begin

text \<open>
  \<open>src/api/postgres_migrations.py\<close>: loading the migration files, checking the recorded
  history against them and applying what is pending, one transaction per migration. What a
  migration's SQL does to the schema is a parameter; every point at which the server or the
  connection can fail is a fault of the environment.
\<close>

section \<open>Migration files\<close>

record migration =
  mi_version :: int
  mi_name :: string
  mi_checksum :: string
  mi_statement :: string

abbreviation MigrationIntegrityError :: "string \<Rightarrow> py_exc" where
  "MigrationIntegrityError m \<equiv> PyError ''MigrationIntegrityError'' m"
abbreviation MigrationRequiredError :: "string \<Rightarrow> py_exc" where
  "MigrationRequiredError m \<equiv> PyError ''MigrationRequiredError'' m"
abbreviation MigrationError :: "string \<Rightarrow> py_exc" where
  "MigrationError m \<equiv> PyError ''MigrationError'' m"

definition ends_with :: "string \<Rightarrow> string \<Rightarrow> bool" where
  "ends_with s p = (length p \<le> length s \<and> drop (length s - length p) s = p)"

definition digits_value :: "string \<Rightarrow> int" where
  "digits_value s = foldl (\<lambda>n c. n * 10 + (of_char c - 48)) 0 s"

text \<open>The groups of \<open>_MIGRATION_PATTERN\<close>: four digits, an underscore, a name, the suffix.\<close>

definition match_migration_name :: "string \<Rightarrow> (string \<times> string) option" where
  "match_migration_name s =
     (let version = take 4 s; rest = drop 5 s; name = take (length rest - 4) rest
      in if length version = 4 \<and> list_all is_digit version \<and> drop 4 (take 5 s) = ''_'' \<and> ends_with rest ''.sql'' \<and>
            name \<noteq> [] \<and> list_all (\<lambda>c. is_lower c \<or> is_digit c \<or> c = CHR ''_'') name
         then Some (version, name) else None)"

text \<open>What \<open>bytes.decode("utf-8")\<close> accepts.\<close>

definition byte_in :: "nat \<Rightarrow> nat \<Rightarrow> char \<Rightarrow> bool" where
  "byte_in lo hi c = (lo \<le> (of_char c :: nat) \<and> (of_char c :: nat) \<le> hi)"

fun utf8_valid :: "string \<Rightarrow> bool" where
  "utf8_valid [] = True"
| "utf8_valid (a # s) =
     (if byte_in 0 127 a then utf8_valid s
      else case s of [] \<Rightarrow> False
      | b # t \<Rightarrow>
          if byte_in 194 223 a \<and> byte_in 128 191 b then utf8_valid t
          else case t of [] \<Rightarrow> False
          | c # u \<Rightarrow>
              if byte_in 128 191 c \<and>
                 (byte_in 224 224 a \<and> byte_in 160 191 b \<or> byte_in 237 237 a \<and> byte_in 128 159 b \<or>
                  (byte_in 225 236 a \<or> byte_in 238 239 a) \<and> byte_in 128 191 b)
              then utf8_valid u
              else case u of [] \<Rightarrow> False
              | d # v \<Rightarrow>
                  byte_in 128 191 c \<and> byte_in 128 191 d \<and>
                  (byte_in 240 240 a \<and> byte_in 144 191 b \<or> byte_in 241 243 a \<and> byte_in 128 191 b \<or>
                   byte_in 244 244 a \<and> byte_in 128 143 b) \<and> utf8_valid v)"

definition load_migration :: "string \<times> string \<Rightarrow> py_exc + migration" where
  "load_migration file =
     (case file of (filename, encoded) \<Rightarrow>
        (case match_migration_name filename of
           None \<Rightarrow> Inl (MigrationIntegrityError (''Invalid migration filename: '' @ filename))
         | Some (version, name) \<Rightarrow>
             if \<not> utf8_valid encoded then Inl (PyError ''UnicodeDecodeError'' [])
             else Inr \<lparr>mi_version = digits_value version, mi_name = name,
                       mi_checksum = sha256_hex encoded, mi_statement = encoded\<rparr>))"

definition load_migrations :: "(string \<times> string) list \<Rightarrow> py_exc + migration list" where
  "load_migrations files =
     res_bind (res_map load_migration (sort_key fst (filter (\<lambda>(filename, _). ends_with filename ''.sql'') files))) (\<lambda>migrations.
       if migrations = [] then Inl (MigrationIntegrityError ''No PostgreSQL migrations were found.'')
       else if map mi_version migrations \<noteq> [1..int (length migrations)] then
         Inl (MigrationIntegrityError ''PostgreSQL migration versions must be contiguous from 0001.'')
       else Inr migrations)"

section \<open>The recorded history\<close>

type_synonym history_row = "int \<times> string \<times> string"

definition row_of :: "migration \<Rightarrow> history_row" where
  "row_of m = (mi_version m, mi_name m, mi_checksum m)"

text \<open>\<open>f"{version:04d}"\<close> of a positive version.\<close>

definition pad4 :: "int \<Rightarrow> string" where
  "pad4 n = replicate (4 - length (int_str n)) (CHR ''0'') @ int_str n"

fun check_history :: "history_row list \<Rightarrow> migration list \<Rightarrow> py_exc + unit" where
  "check_history ((version, name, checksum) # recorded) (expected # migrations) =
     (if version \<noteq> mi_version expected \<or> name \<noteq> mi_name expected then
        Inl (MigrationIntegrityError ''Migration history is missing, unknown, or reordered.'')
      else if checksum \<noteq> mi_checksum expected then
        Inl (MigrationIntegrityError (''Migration '' @ pad4 version @ ''_'' @ name @ '' has a checksum mismatch.''))
      else check_history recorded migrations)"
| "check_history _ _ = Inr ()"

definition validate_history :: "history_row list \<Rightarrow> migration list \<Rightarrow> py_exc + unit" where
  "validate_history recorded migrations =
     (if length migrations < length recorded then
        Inl (MigrationIntegrityError ''Database schema is newer than this application.'')
      else check_history recorded migrations)"

section \<open>A run\<close>

text \<open>
  The history table exists or not; \<open>mg_schema\<close> is what the migrations have made of the rest of
  the schema, \<open>mg_granted\<close> the roles that hold the runtime privileges.
\<close>

record 's mg_db =
  mg_history :: "history_row list option"
  mg_schema :: 's
  mg_granted :: "string list"

datatype mg_point =
  At_Connect | At_Lock | At_Role_Check | At_Exists | At_Bootstrap | At_Read
  | Before_Commit int | After_Commit int | At_Grant | At_Unlock

record mg_env =
  me_fault :: "mg_point \<Rightarrow> py_exc option"
  me_role_row :: "(string \<times> bool \<times> bool) option"
  me_privileges :: "bool list option"

definition is_blank :: "string \<Rightarrow> bool" where
  "is_blank s = list_all (\<lambda>c. c = CHR '' '' \<or> byte_in 9 13 c \<or> byte_in 28 31 c \<or> c = CHR 0x85 \<or> c = CHR 0xA0) s"

definition validate_role_separation :: "mg_env \<Rightarrow> string \<Rightarrow> py_exc + unit" where
  "validate_role_separation env application_role =
     (case me_fault env At_Role_Check of Some e \<Rightarrow> Inl e
      | None \<Rightarrow>
          (case me_role_row env of
             None \<Rightarrow> Inl (MigrationIntegrityError ''The PostgreSQL application role does not exist.'')
           | Some (current_user, superuser, member_of) \<Rightarrow>
               if application_role = current_user \<or> superuser \<or> member_of then
                 Inl (MigrationIntegrityError
                   ''Migration owner and application role must be separate non-superuser roles.'')
               else Inr ()))"

definition grant_application_privileges :: "mg_env \<Rightarrow> string \<Rightarrow> 's mg_db \<Rightarrow> (py_exc + unit) \<times> 's mg_db" where
  "grant_application_privileges env application_role db =
     (if is_blank application_role then (Inl (MigrationIntegrityError ''The PostgreSQL application role is empty.''), db)
      else case me_fault env At_Grant of Some e \<Rightarrow> (Inl e, db)
      | None \<Rightarrow>
          (case me_privileges env of
             None \<Rightarrow> (Inl (MigrationIntegrityError ''The application role has forbidden audit-event privileges.''), db)
           | Some held \<Rightarrow>
               if list_ex id held then
                 (Inl (MigrationIntegrityError ''The application role has forbidden audit-event privileges.''), db)
               else (Inr (), db\<lparr>mg_granted := List.insert application_role (mg_granted db)\<rparr>)))"

text \<open>One transaction per pending migration: its statement and its history row.\<close>

fun apply_pending ::
  "(string \<Rightarrow> 's \<Rightarrow> py_exc + 's) \<Rightarrow> mg_env \<Rightarrow> int list \<Rightarrow> migration list \<Rightarrow> 's mg_db \<Rightarrow> (py_exc + int list) \<times> 's mg_db" where
  "apply_pending exec env applied [] db = (Inr applied, db)"
| "apply_pending exec env applied (m # pending) db =
     (case exec (mi_statement m) (mg_schema db) of
        Inl e \<Rightarrow> (Inl e, db)
      | Inr schema' \<Rightarrow>
          let rows = (case mg_history db of None \<Rightarrow> [] | Some h \<Rightarrow> h)
          in if mg_history db = None \<or> mi_version m \<in> fst ` set rows \<or> mi_name m \<in> (fst \<circ> snd) ` set rows then
               (Inl (PyError ''psycopg.Error'' []), db)
             else case me_fault env (Before_Commit (mi_version m)) of Some e \<Rightarrow> (Inl e, db)
             | None \<Rightarrow>
                 let db' = db\<lparr>mg_history := Some (rows @ [row_of m]), mg_schema := schema'\<rparr>
                 in case me_fault env (After_Commit (mi_version m)) of Some e \<Rightarrow> (Inl e, db')
                    | None \<Rightarrow> apply_pending exec env (applied @ [mi_version m]) pending db')"

text \<open>The body of the \<open>try\<close>.\<close>

definition migrate_body ::
  "(string \<Rightarrow> 's \<Rightarrow> py_exc + 's) \<Rightarrow> mg_env \<Rightarrow> migration list \<Rightarrow> bool \<Rightarrow> string option \<Rightarrow> 's mg_db \<Rightarrow>
   (py_exc + int list) \<times> 's mg_db" where
  "migrate_body exec env migrations apply_mode application_role db =
     (case me_fault env At_Lock of Some e \<Rightarrow> (Inl e, db) | None \<Rightarrow>
     (case (case application_role of None \<Rightarrow> Inr () | Some role \<Rightarrow> validate_role_separation env role) of
        Inl e \<Rightarrow> (Inl e, db) | Inr _ \<Rightarrow>
     (case me_fault env At_Exists of Some e \<Rightarrow> (Inl e, db) | None \<Rightarrow>
      if mg_history db = None \<and> \<not> apply_mode then
        (Inl (MigrationRequiredError ''PostgreSQL migrations require explicit application.''), db)
      else case (if mg_history db = None then me_fault env At_Bootstrap else None) of Some e \<Rightarrow> (Inl e, db) | None \<Rightarrow>
      let rows = (case mg_history db of None \<Rightarrow> [] | Some h \<Rightarrow> h);
          db1 = db\<lparr>mg_history := Some rows\<rparr>; recorded = sort_key fst rows
      in case me_fault env At_Read of Some e \<Rightarrow> (Inl e, db1) | None \<Rightarrow>
     (case validate_history recorded migrations of Inl e \<Rightarrow> (Inl e, db1) | Inr _ \<Rightarrow>
        let pending = drop (length recorded) migrations
        in if pending \<noteq> [] \<and> \<not> apply_mode then
             (Inl (MigrationRequiredError (nat_str (length pending) @ '' PostgreSQL migration(s) require explicit application.'')), db1)
           else case apply_pending exec env [] pending db1 of
             (Inl e, db2) \<Rightarrow> (Inl e, db2)
           | (Inr applied, db2) \<Rightarrow>
               (case application_role of None \<Rightarrow> (Inr applied, db2)
                | Some role \<Rightarrow>
                    (case grant_application_privileges env role db2 of
                       (Inl e, db3) \<Rightarrow> (Inl e, db3)
                     | (Inr _, db3) \<Rightarrow> (Inr applied, db3)))))))"

definition as_migration_error :: "py_exc \<Rightarrow> py_exc" where
  "as_migration_error e =
     (case e of
        PyError c m \<Rightarrow>
          if c = ''psycopg.Error'' \<or> c = ''UnicodeDecodeError'' \<or> c = ''UnicodeEncodeError''
          then MigrationError ''PostgreSQL migration operation failed.'' else e
      | _ \<Rightarrow> e)"

text \<open>A failing unlock or close replaces whatever the body brought.\<close>

definition migrate ::
  "(string \<Rightarrow> 's \<Rightarrow> py_exc + 's) \<Rightarrow> mg_env \<Rightarrow> migration list \<Rightarrow> bool \<Rightarrow> string option \<Rightarrow> 's mg_db \<Rightarrow>
   (py_exc + int list) \<times> 's mg_db" where
  "migrate exec env migrations apply_mode application_role db =
     (case me_fault env At_Connect of
        Some e \<Rightarrow>
          (Inl (case e of PyError c m \<Rightarrow> if c = ''psycopg.Error'' \<or> c = ''OSError''
                  then MigrationError ''PostgreSQL migration connection failed.'' else e | _ \<Rightarrow> e), db)
      | None \<Rightarrow>
          (case migrate_body exec env migrations apply_mode application_role db of (res, db') \<Rightarrow>
             (case me_fault env At_Unlock of
                Some e \<Rightarrow> (Inl e, db')
              | None \<Rightarrow> ((case res of Inl e \<Rightarrow> Inl (as_migration_error e) | Inr applied \<Rightarrow> Inr applied), db'))))"

definition run_migrations ::
  "(string \<Rightarrow> 's \<Rightarrow> py_exc + 's) \<Rightarrow> mg_env \<Rightarrow> (string \<times> string) list \<Rightarrow> bool \<Rightarrow> string option \<Rightarrow> 's mg_db \<Rightarrow>
   (py_exc + int list) \<times> 's mg_db" where
  "run_migrations exec env files apply_mode application_role db =
     (case load_migrations files of Inl e \<Rightarrow> (Inl e, db)
      | Inr migrations \<Rightarrow> migrate exec env migrations apply_mode application_role db)"

section \<open>What a history stands for\<close>

definition contiguous :: "migration list \<Rightarrow> bool" where
  "contiguous ms = (map mi_version ms = [1..int (length ms)])"

fun exec_all :: "(string \<Rightarrow> 's \<Rightarrow> py_exc + 's) \<Rightarrow> migration list \<Rightarrow> 's \<Rightarrow> py_exc + 's" where
  "exec_all exec [] s = Inr s"
| "exec_all exec (m # ms) s = res_bind (exec (mi_statement m) s) (exec_all exec ms)"

lemma exec_all_snoc: "exec_all exec (ms @ [m]) s = res_bind (exec_all exec ms s) (exec (mi_statement m))"
  by (induction ms arbitrary: s) (auto simp: res_bind_def split: sum.splits)

text \<open>The recorded history is a prefix of the migrations and the schema is what they make of the first one.\<close>

definition mg_inv :: "(string \<Rightarrow> 's \<Rightarrow> py_exc + 's) \<Rightarrow> migration list \<Rightarrow> 's \<Rightarrow> 's mg_db \<Rightarrow> bool" where
  "mg_inv exec ms s0 db \<longleftrightarrow>
     (case mg_history db of
        None \<Rightarrow> mg_schema db = s0
      | Some h \<Rightarrow> \<exists>k \<le> length ms. h = map row_of (take k ms) \<and> exec_all exec (take k ms) s0 = Inr (mg_schema db))"

lemma load_migrations_contiguous: "load_migrations files = Inr ms \<Longrightarrow> contiguous ms \<and> ms \<noteq> []"
  by (auto simp: load_migrations_def contiguous_def res_bind_Inr_iff split: if_splits)

lemma contiguous_distinct: "contiguous ms \<Longrightarrow> distinct (map mi_version ms)"
  by (simp add: contiguous_def)

lemma recorded_sorted:
  assumes "contiguous ms"
  shows "sort_key fst (map row_of (take k ms)) = map row_of (take k ms)"
proof (rule sort_key_id_if_sorted)
  have "map fst (map row_of (take k ms)) = take k [1..int (length ms)]"
    using assms by (simp add: row_of_def comp_def contiguous_def flip: take_map)
  then show "sorted (map fst (map row_of (take k ms)))" by (simp add: sorted_wrt_take)
qed

lemma check_history_prefix: "check_history (map row_of xs) (xs @ ys) = Inr ()"
  by (induction xs) (simp_all add: row_of_def)

lemma check_history_complete:
  "length recorded = length ms \<Longrightarrow> check_history recorded ms = Inr () \<Longrightarrow> recorded = map row_of ms"
  by (induction recorded ms rule: list_induct2) (auto simp: row_of_def split: if_splits)

lemma next_row_is_new:
  assumes "contiguous ms" and "k < length ms"
  shows "mi_version (ms ! k) \<notin> fst ` set (map row_of (take k ms))"
proof
  assume "mi_version (ms ! k) \<in> fst ` set (map row_of (take k ms))"
  then obtain i where "i < k" "mi_version (ms ! i) = mi_version (ms ! k)"
    using assms(2) by (auto simp: row_of_def in_set_conv_nth)
  then show False using contiguous_distinct [OF assms(1)] assms(2) by (auto simp: distinct_conv_nth)
qed

lemma apply_pending_inv:
  assumes "contiguous ms" and "mg_history db = Some (map row_of (take k ms))" and "exec_all exec (take k ms) s0 = Inr (mg_schema db)"
    and "k \<le> length ms"
  shows "mg_inv exec ms s0 (snd (apply_pending exec env applied (take j (drop k ms)) db))"
  using assms(2-4)
proof (induction "take j (drop k ms)" arbitrary: k j db applied)
  case Nil
  have "snd (apply_pending exec env applied (take j (drop k ms)) db) = db" by (simp only: Nil.hyps [symmetric] apply_pending.simps snd_conv)
  then show ?case using Nil.prems by (auto simp: mg_inv_def)
next
  case (Cons m pending)
  then have k: "k < length ms" "m = ms ! k" "pending = take (j - 1) (drop (Suc k) ms)"
    by (cases "drop k ms"; cases j; simp; metis Cons_nth_drop_Suc drop_eq_Nil2 linorder_not_le list.inject list.simps(3) nth_via_drop drop_Suc tl_drop list.sel(3))+
  have keep: "mg_inv exec ms s0 db" using Cons.prems by (auto simp: mg_inv_def)
  have later: "mg_inv exec ms s0 (snd (apply_pending exec env a pending (db\<lparr>mg_history := Some (map row_of (take k ms) @ [row_of m]), mg_schema := s'\<rparr>)))"
    "mg_inv exec ms s0 (db\<lparr>mg_history := Some (map row_of (take k ms) @ [row_of m]), mg_schema := s'\<rparr>)"
    if "exec (mi_statement m) (mg_schema db) = Inr s'" for s' a
  proof -
    let ?db = "db\<lparr>mg_history := Some (map row_of (take k ms) @ [row_of m]), mg_schema := s'\<rparr>"
    have h: "mg_history ?db = Some (map row_of (take (Suc k) ms))" using k by (simp add: take_Suc_conv_app_nth)
    have e: "exec_all exec (take (Suc k) ms) s0 = Inr (mg_schema ?db)"
      using k Cons.prems(2) that by (simp add: take_Suc_conv_app_nth exec_all_snoc)
    show "mg_inv exec ms s0 (snd (apply_pending exec env a pending ?db))"
      using Cons.hyps(1) [OF k(3) h e] k(1,3) by simp
    show "mg_inv exec ms s0 ?db" using h e k(1) by (auto simp: mg_inv_def intro!: exI [of _ "Suc k"])
  qed
  show ?case
    using Cons.prems(1) keep later by (auto simp: Cons.hyps(2) [symmetric] Let_def split: sum.split option.split)
qed

text \<open>A property of the state that every early exit keeps.\<close>

lemma exit_keeps:
  "P d \<Longrightarrow> P (snd a) \<Longrightarrow> P (snd (case x of None \<Rightarrow> a | Some e \<Rightarrow> (Inl e, d)))"
  "P d \<Longrightarrow> (\<And>y. P (snd (b y))) \<Longrightarrow> P (snd (case z of Inl e \<Rightarrow> (Inl e, d) | Inr y \<Rightarrow> b y))"
  "P (snd a) \<Longrightarrow> P (snd a') \<Longrightarrow> P (snd (if c then a else a'))"
  by (auto split: option.split sum.split)

lemma migrate_inv:
  assumes "contiguous ms" and "mg_inv exec ms s0 db"
  shows "mg_inv exec ms s0 (snd (migrate exec env (take n ms) apply_mode role db))"
proof -
  let ?rows = "case mg_history db of None \<Rightarrow> [] | Some h \<Rightarrow> h" and ?ms = "take n ms"
  let ?db = "db\<lparr>mg_history := Some ?rows\<rparr>"
  obtain k where k: "k \<le> length ms" "?rows = map row_of (take k ms)" "exec_all exec (take k ms) s0 = Inr (mg_schema db)"
    using assms(2) by (cases "mg_history db") (auto simp: mg_inv_def intro: that [of 0])
  have sorted: "sort_key fst ?rows = ?rows" unfolding k(2) by (rule recorded_sorted [OF assms(1)])
  have boot: "mg_inv exec ms s0 ?db" using k by (auto simp: mg_inv_def)
  have pending: "drop (length ?rows) ?ms = take (n - k) (drop k ms)" unfolding k(2) using k(1) by (simp add: drop_take)
  have applied: "mg_inv exec ms s0 (snd (apply_pending exec env [] (drop (length ?rows) ?ms) ?db))"
    unfolding pending by (rule apply_pending_inv [OF assms(1)]) (use k in simp_all)
  have granted: "mg_inv exec ms s0 (snd (grant_application_privileges env r d))" if "mg_inv exec ms s0 d" for r d
    using that by (auto simp: grant_application_privileges_def mg_inv_def split: option.split)
  obtain res db2 where run: "apply_pending exec env [] (drop (length ?rows) ?ms) ?db = (res, db2)" by fastforce
  have db2: "mg_inv exec ms s0 db2" using applied unfolding run by simp
  have after: "mg_inv exec ms s0 (snd (case role of None \<Rightarrow> (Inr a, db2) | Some r \<Rightarrow>
      (case grant_application_privileges env r db2 of (Inl e, d) \<Rightarrow> (Inl e, d) | (Inr _, d) \<Rightarrow> (Inr a, d))))" for a :: "int list"
  proof (cases role)
    case (Some r)
    obtain x d where "grant_application_privileges env r db2 = (x, d)" by fastforce
    then show ?thesis using granted [OF db2, of r] Some by (cases x) simp_all
  qed (simp add: db2)
  have "mg_inv exec ms s0 (snd (migrate_body exec env ?ms apply_mode role db))"
    unfolding migrate_body_def Let_def sorted run prod.case
    by (intro exit_keeps [where P = "mg_inv exec ms s0"]) (use assms(2) boot db2 after in simp_all)
  then show ?thesis using assms(2) by (auto simp: migrate_def split: option.split prod.split)
qed

text \<open>Runs of any programs, with any faults, each loading its own files.\<close>

type_synonym mg_request = "mg_env \<times> (string \<times> string) list \<times> bool \<times> string option"

fun mg_runs :: "(string \<Rightarrow> 's \<Rightarrow> py_exc + 's) \<Rightarrow> mg_request list \<Rightarrow> 's mg_db \<Rightarrow> 's mg_db" where
  "mg_runs exec [] db = db"
| "mg_runs exec ((env, files, apply_mode, role) # rs) db = mg_runs exec rs (snd (run_migrations exec env files apply_mode role db))"

definition empty_db :: "'s \<Rightarrow> 's mg_db" where
  "empty_db s0 = \<lparr>mg_history = None, mg_schema = s0, mg_granted = []\<rparr>"

text \<open>Every release ships the migrations of the releases before it.\<close>

definition releases_of :: "migration list \<Rightarrow> mg_request list \<Rightarrow> bool" where
  "releases_of ms runs \<longleftrightarrow> contiguous ms \<and>
     (\<forall>(env, files, apply_mode, role) \<in> set runs. \<forall>l. load_migrations files = Inr l \<longrightarrow> (\<exists>n. l = take n ms))"

lemma runs_inv: "releases_of ms runs \<Longrightarrow> mg_inv exec ms s0 db \<Longrightarrow> mg_inv exec ms s0 (mg_runs exec runs db)"
proof (induction exec runs db rule: mg_runs.induct)
  case (2 exec env files apply_mode role rs db)
  have "mg_inv exec ms s0 (snd (run_migrations exec env files apply_mode role db))"
  proof (cases "load_migrations files")
    case (Inl e) then show ?thesis using 2 by (simp add: run_migrations_def)
  next
    case (Inr l)
    then obtain n where "l = take n ms" using 2(2) by (auto simp: releases_of_def)
    then show ?thesis using migrate_inv 2(2,3) Inr by (auto simp: run_migrations_def releases_of_def)
  qed
  then show ?case using 2 by (simp add: releases_of_def)
qed simp

lemma empty_inv: "mg_inv exec ms s0 (empty_db s0)"
  by (simp add: mg_inv_def empty_db_def)

lemma exec_all_append: "exec_all exec (xs @ ys) s = res_bind (exec_all exec xs s) (exec_all exec ys)"
  by (induction xs arbitrary: s) (auto simp: res_bind_def split: sum.splits)

lemma apply_pending_all:
  assumes "contiguous ms" and "distinct (map mi_name ms)" and clean: "\<And>p. me_fault env p = None"
    and "mg_history db = Some (map row_of (take k ms))" and "exec_all exec (drop k ms) (mg_schema db) = Inr sN" and "k \<le> length ms"
  shows "apply_pending exec env applied (drop k ms) db =
    (Inr (applied @ map mi_version (drop k ms)), db\<lparr>mg_history := Some (map row_of ms), mg_schema := sN\<rparr>)"
  using assms(4-6)
proof (induction "drop k ms" arbitrary: k db applied)
  case Nil
  have d: "drop k ms = []" using Nil.hyps by (rule sym)
  have "take k ms = ms" "exec_all exec [] (mg_schema db) = Inr sN" using d Nil.prems(2) by simp_all
  then have "db = db\<lparr>mg_history := Some (map row_of ms), mg_schema := sN\<rparr>" using Nil.prems(1) by simp
  then show ?case by (simp add: d)
next
  case (Cons m pending)
  then have k: "k < length ms" "m = ms ! k" "pending = drop (Suc k) ms"
    by (metis drop_eq_Nil linorder_not_le list.distinct(1), metis nth_via_drop, metis drop_Suc tl_drop list.sel(3))
  obtain s' where s': "exec (mi_statement m) (mg_schema db) = Inr s'" "exec_all exec pending s' = Inr sN"
    using Cons.prems(2) by (auto simp: Cons.hyps(2) [symmetric] res_bind_Inr_iff)
  let ?db = "db\<lparr>mg_history := Some (map row_of (take k ms) @ [row_of m]), mg_schema := s'\<rparr>"
  have name: "mi_name m \<notin> (fst \<circ> snd) ` set (map row_of (take k ms))"
  proof
    assume "mi_name m \<in> (fst \<circ> snd) ` set (map row_of (take k ms))"
    then obtain i where "i < k" "mi_name (ms ! i) = mi_name (ms ! k)"
      using k(1,2) by (auto simp: row_of_def in_set_conv_nth)
    then show False using assms(2) k(1) by (auto simp: distinct_conv_nth)
  qed
  have "apply_pending exec env (applied @ [mi_version m]) pending ?db =
      (Inr ((applied @ [mi_version m]) @ map mi_version pending), ?db\<lparr>mg_history := Some (map row_of ms), mg_schema := sN\<rparr>)"
    using Cons.hyps(1) [of "Suc k" ?db "applied @ [mi_version m]"] k s'(2) by (simp add: take_Suc_conv_app_nth)
  then show ?case
    using s'(1) Cons.prems(1) next_row_is_new [OF assms(1) k(1)] name clean k(2)
    by (simp add: Let_def flip: Cons.hyps(2))
qed

text \<open>A role that may be given the runtime privileges.\<close>

definition role_ok :: "mg_env \<Rightarrow> string option \<Rightarrow> bool" where
  "role_ok env role \<longleftrightarrow> (case role of None \<Rightarrow> True
     | Some r \<Rightarrow> \<not> is_blank r \<and> (\<exists>u held. me_role_row env = Some (u, False, False) \<and> r \<noteq> u \<and>
         me_privileges env = Some held \<and> \<not> list_ex id held))"

lemma clean_migrate:
  assumes "contiguous ms" and "distinct (map mi_name ms)" and clean: "\<And>p. me_fault env p = None" and role: "role_ok env role"
    and inv: "mg_inv exec ms s0 db" and all: "exec_all exec ms s0 = Inr sN"
  obtains granted where "migrate exec env ms True role db =
      (Inr (map mi_version (drop (case mg_history db of None \<Rightarrow> 0 | Some h \<Rightarrow> length h) ms)),
       \<lparr>mg_history = Some (map row_of ms), mg_schema = sN, mg_granted = granted\<rparr>)"
proof -
  let ?rows = "case mg_history db of None \<Rightarrow> [] | Some h \<Rightarrow> h"
  obtain k where k: "k \<le> length ms" "?rows = map row_of (take k ms)" "exec_all exec (take k ms) s0 = Inr (mg_schema db)"
    "(case mg_history db of None \<Rightarrow> 0 | Some h \<Rightarrow> length h) = k"
    using inv by (cases "mg_history db") (auto simp: mg_inv_def intro: that [of 0])
  have rest: "exec_all exec (drop k ms) (mg_schema db) = Inr sN"
    using all k(3) exec_all_append [of exec "take k ms" "drop k ms" s0] by simp
  have sorted: "sort_key fst ?rows = map row_of (take k ms)" unfolding k(2) by (rule recorded_sorted [OF assms(1)])
  have valid: "validate_history (map row_of (take k ms)) ms = Inr ()"
    using check_history_prefix [of "take k ms" "drop k ms"] k(1) by (simp add: validate_history_def)
  let ?db = "db\<lparr>mg_history := Some ?rows\<rparr>"
  let ?done = "db\<lparr>mg_history := Some (map row_of ms), mg_schema := sN\<rparr>"
  have ap: "apply_pending exec env [] (drop k ms) ?db = (Inr (map mi_version (drop k ms)), ?done)"
    using apply_pending_all [OF assms(1,2) clean, of ?db k exec sN "[]"] k rest by simp
  have len: "length (map row_of (take k ms)) = k" using k(1) by simp
  have sep: "validate_role_separation env r = Inr ()"
    "grant_application_privileges env r ?done = (Inr (), ?done\<lparr>mg_granted := List.insert r (mg_granted db)\<rparr>)" if "role = Some r" for r
    using role that clean by (auto simp: role_ok_def validate_role_separation_def grant_application_privileges_def)
  have "\<exists>granted. migrate_body exec env ms True role db = (Inr (map mi_version (drop k ms)), ?done\<lparr>mg_granted := granted\<rparr>)"
  proof (cases role)
    case None
    then show ?thesis
      unfolding migrate_body_def Let_def sorted clean if_cancel option.case valid sum.case len ap
      by (intro exI [of _ "mg_granted db"]) simp
  next
    case (Some r)
    then show ?thesis
      unfolding migrate_body_def Let_def sorted clean if_cancel option.case valid sum.case len ap
      by (intro exI [of _ "List.insert r (mg_granted db)"]) (simp add: sep [OF Some])
  qed
  then obtain granted where "migrate_body exec env ms True role db = (Inr (map mi_version (drop k ms)), ?done\<lparr>mg_granted := granted\<rparr>)" ..
  then have "migrate exec env ms True role db =
      (Inr (map mi_version (drop k ms)), \<lparr>mg_history = Some (map row_of ms), mg_schema = sN, mg_granted = granted\<rparr>)"
    by (simp add: migrate_def clean)
  then show thesis using that k(4) by simp
qed

section \<open>Properties\<close>

text \<open>
  C27. The schema is what the history says: after any sequence of runs by any releases, in check
  or apply mode, with faults at any point (before or after a commit included), the database has
  no history and the untouched schema, or its history is a prefix of the migrations and its
  schema is exactly what those migrations, each applied once and in order, make of the first one.
\<close>
theorem history_is_an_applied_prefix:
  assumes "releases_of ms runs"
  shows "case mg_history (mg_runs exec runs (empty_db s0)) of
      None \<Rightarrow> mg_schema (mg_runs exec runs (empty_db s0)) = s0
    | Some h \<Rightarrow> \<exists>k \<le> length ms. h = map row_of (take k ms) \<and>
        exec_all exec (take k ms) s0 = Inr (mg_schema (mg_runs exec runs (empty_db s0)))"
  using runs_inv [OF assms empty_inv] by (simp add: mg_inv_def)

text \<open>
  C28. An interrupted deployment can always be finished: from whatever earlier runs have left, one
  run of the newest release in apply mode without faults applies exactly the missing migrations,
  and another one finds nothing to do and changes nothing but, at most, the grants.
\<close>
theorem apply_run_completes:
  assumes "releases_of ms runs" and "load_migrations files = Inr ms" and "distinct (map mi_name ms)"
    and "exec_all exec ms s0 = Inr sN" and "\<And>p. me_fault env p = None" and "role_ok env role"
  shows "\<exists>granted granted'. run_migrations exec env files True role (mg_runs exec runs (empty_db s0)) =
      (Inr (map mi_version (drop (case mg_history (mg_runs exec runs (empty_db s0)) of None \<Rightarrow> 0 | Some h \<Rightarrow> length h) ms)),
       \<lparr>mg_history = Some (map row_of ms), mg_schema = sN, mg_granted = granted\<rparr>) \<and>
    run_migrations exec env files True role \<lparr>mg_history = Some (map row_of ms), mg_schema = sN, mg_granted = granted\<rparr> =
      (Inr [], \<lparr>mg_history = Some (map row_of ms), mg_schema = sN, mg_granted = granted'\<rparr>)"
proof -
  note c = conjunct1 [OF load_migrations_contiguous [OF assms(2)]]
  obtain granted where 1: "run_migrations exec env files True role (mg_runs exec runs (empty_db s0)) =
      (Inr (map mi_version (drop (case mg_history (mg_runs exec runs (empty_db s0)) of None \<Rightarrow> 0 | Some h \<Rightarrow> length h) ms)),
       \<lparr>mg_history = Some (map row_of ms), mg_schema = sN, mg_granted = granted\<rparr>)"
    using clean_migrate [OF c assms(3,5,6) runs_inv [OF assms(1) empty_inv] assms(4)] assms(2) by (simp add: run_migrations_def) metis
  let ?db = "\<lparr>mg_history = Some (map row_of ms), mg_schema = sN, mg_granted = granted\<rparr>"
  have "mg_inv exec ms s0 ?db" using assms(4) by (auto simp: mg_inv_def intro: exI [of _ "length ms"])
  from clean_migrate [OF c assms(3,5,6) this assms(4)] obtain granted' where
    "migrate exec env ms True role ?db = (Inr [], \<lparr>mg_history = Some (map row_of ms), mg_schema = sN, mg_granted = granted'\<rparr>)"
    by simp metis
  then show ?thesis using 1 assms(2) by (auto simp: run_migrations_def)
qed

text \<open>
  Check mode requires a current schema and leaves it alone: it never touches history or
  schema, whatever fails, and it succeeds only on a database whose history is the release's
  migrations, one by one.
\<close>
theorem check_mode_accepts_only_current:
  assumes "load_migrations files = Inr ms" and "run_migrations exec env files False role db = (res, db')"
  shows "mg_history db' = mg_history db \<and> mg_schema db' = mg_schema db \<and>
    (\<forall>applied. res = Inr applied \<longrightarrow> applied = [] \<and> (\<exists>h. mg_history db = Some h \<and> sort_key fst h = map row_of ms))"
proof -
  have grant: "mg_history d = mg_history db \<and> mg_schema d = mg_schema db" if "grant_application_privileges env r db = (x, d)" for r x d
    using that by (auto simp: grant_application_privileges_def split: if_splits option.splits)
  have body: "mg_history d = mg_history db \<and> mg_schema d = mg_schema db \<and>
      (\<forall>applied. r = Inr applied \<longrightarrow> applied = [] \<and> (\<exists>h. mg_history db = Some h \<and> sort_key fst h = map row_of ms))"
    if run: "migrate_body exec env ms False role db = (r, d)" for r d
  proof (cases "mg_history db")
    case None
    then show ?thesis using run by (auto simp: migrate_body_def split: option.splits sum.splits)
  next
    case (Some h)
    then have same: "db\<lparr>mg_history := Some h\<rparr> = db" by simp
    have current: "sort_key fst h = map row_of ms"
      if "validate_history (sort_key fst h) ms = Inr ()" "drop (length (sort_key fst h)) ms = []"
      by (rule check_history_complete) (use that in \<open>auto simp: validate_history_def split: if_splits\<close>)
    show ?thesis using run current grant
      unfolding migrate_body_def Let_def Some option.case same
      using Some by (auto split: option.splits sum.splits if_splits prod.splits)
  qed
  obtain r d where run: "migrate_body exec env ms False role db = (r, d)" by fastforce
  show ?thesis using assms body [OF run] run
    by (auto simp: run_migrations_def migrate_def split: option.splits sum.splits)
qed

text \<open>Check mode with an application role grants privileges.\<close>

lemma check_mode_grants:
  fixes s :: 's and exec :: "string \<Rightarrow> 's \<Rightarrow> py_exc + 's"
  assumes "load_migrations files = Inr ms" and "role_ok env (Some role)" and "\<And>p. me_fault env p = None"
  shows "snd (run_migrations exec env files False (Some role) \<lparr>mg_history = Some (map row_of ms), mg_schema = s, mg_granted = []\<rparr>) =
    \<lparr>mg_history = Some (map row_of ms), mg_schema = s, mg_granted = [role]\<rparr>"
proof -
  have sorted: "sort_key fst (map row_of ms) = map row_of ms"
    using recorded_sorted [OF conjunct1 [OF load_migrations_contiguous [OF assms(1)]], of "length ms"] by simp
  have valid: "validate_history (map row_of ms) ms = Inr ()"
    using check_history_prefix [of ms "[]"] by (simp add: validate_history_def)
  have sep: "validate_role_separation env role = Inr ()"
    "grant_application_privileges env role \<lparr>mg_history = Some (map row_of ms), mg_schema = s, mg_granted = []\<rparr> =
      (Inr (), \<lparr>mg_history = Some (map row_of ms), mg_schema = s, mg_granted = [role]\<rparr>)"
    using assms(2,3) by (auto simp: role_ok_def validate_role_separation_def grant_application_privileges_def)
  show ?thesis using assms(1) by (simp add: run_migrations_def migrate_def migrate_body_def assms(3) Let_def sorted valid sep)
qed

section \<open>A run\<close>

definition mg_sample_files :: "(string \<times> string) list" where
  "mg_sample_files = [(''0002_b.sql'', ''B''), (''0001_a.sql'', ''A'')]"

definition mg_sample_migrations :: "migration list" where
  "mg_sample_migrations =
     [\<lparr>mi_version = 1, mi_name = ''a'', mi_checksum = sha256_hex ''A'', mi_statement = ''A''\<rparr>,
      \<lparr>mi_version = 2, mi_name = ''b'', mi_checksum = sha256_hex ''B'', mi_statement = ''B''\<rparr>]"

definition mg_sample_exec :: "string \<Rightarrow> string list \<Rightarrow> py_exc + string list" where
  "mg_sample_exec statement done_so_far = Inr (done_so_far @ [statement])"

definition mg_clean_env :: mg_env where
  "mg_clean_env = \<lparr>me_fault = (\<lambda>_. None), me_role_row = None, me_privileges = None\<rparr>"

definition mg_crash_env :: mg_env where
  "mg_crash_env = mg_clean_env\<lparr>me_fault := (\<lambda>p. if p = Before_Commit 2 then Some (PyError ''psycopg.Error'' []) else None)\<rparr>"

lemma mg_sample_load: "load_migrations mg_sample_files = Inr mg_sample_migrations"
proof -
  have m: "match_migration_name ''0002_b.sql'' = Some (''0002'', ''b'')" "match_migration_name ''0001_a.sql'' = Some (''0001'', ''a'')"
    "ends_with ''0002_b.sql'' ''.sql''" "ends_with ''0001_a.sql'' ''.sql''" "digits_value ''0002'' = 2" "digits_value ''0001'' = 1"
    "byte_in 0 127 (CHR ''A'')" "byte_in 0 127 (CHR ''B'')" "\<not> ''0002_b.sql'' \<le> ''0001_a.sql''" "''0001_a.sql'' \<le> ''0002_b.sql''"
    by code_simp+
  show ?thesis
    by (simp add: load_migrations_def mg_sample_files_def mg_sample_migrations_def load_migration_def m upto.simps)
qed

lemma mg_sample_releases:
  "releases_of mg_sample_migrations [(mg_crash_env, mg_sample_files, True, None)]"
  using load_migrations_contiguous [OF mg_sample_load] mg_sample_load
  by (auto simp: releases_of_def intro!: exI [of _ "length mg_sample_migrations"])

theorem history_is_an_applied_prefix_witness:
  "case mg_history (mg_runs mg_sample_exec [(mg_crash_env, mg_sample_files, True, None)] (empty_db [])) of
      None \<Rightarrow> mg_schema (mg_runs mg_sample_exec [(mg_crash_env, mg_sample_files, True, None)] (empty_db [])) = []
    | Some h \<Rightarrow> \<exists>k \<le> length mg_sample_migrations. h = map row_of (take k mg_sample_migrations) \<and>
        exec_all mg_sample_exec (take k mg_sample_migrations) [] =
          Inr (mg_schema (mg_runs mg_sample_exec [(mg_crash_env, mg_sample_files, True, None)] (empty_db [])))"
  by (rule history_is_an_applied_prefix [OF mg_sample_releases])

theorem apply_run_completes_witness:
  "\<exists>granted. snd (run_migrations mg_sample_exec mg_clean_env mg_sample_files True None
      (mg_runs mg_sample_exec [(mg_crash_env, mg_sample_files, True, None)] (empty_db []))) =
    \<lparr>mg_history = Some (map row_of mg_sample_migrations), mg_schema = [''A'', ''B''], mg_granted = granted\<rparr>"
proof -
  have "distinct (map mi_name mg_sample_migrations)" "exec_all mg_sample_exec mg_sample_migrations [] = Inr [''A'', ''B'']"
    "\<And>p. me_fault mg_clean_env p = None" "role_ok mg_clean_env None"
    by (simp_all add: mg_sample_migrations_def mg_sample_exec_def mg_clean_env_def role_ok_def)
  from apply_run_completes [OF mg_sample_releases mg_sample_load this] show ?thesis by auto
qed

theorem check_mode_accepts_only_current_witness:
  "mg_history (snd (run_migrations mg_sample_exec mg_clean_env mg_sample_files False None (empty_db []))) = None \<and>
    mg_schema (snd (run_migrations mg_sample_exec mg_clean_env mg_sample_files False None (empty_db []))) = []"
proof -
  obtain res db' where "run_migrations mg_sample_exec mg_clean_env mg_sample_files False None (empty_db []) = (res, db')" by fastforce
  from check_mode_accepts_only_current [OF mg_sample_load this] this show ?thesis by (simp add: empty_db_def)
qed

end
