(* ===== verification/Historical_Quarantine.thy ===== *)
theory Historical_Quarantine
  imports Py_Json "HOL-Library.Word"
begin

text \<open>
  \<open>src/src/data/historical_quarantine.py\<close> (with \<open>validate_dataset_schema\<close> of \<open>data_loader.py\<close>):
  the hash-only boundary around the historical test rows. A data frame of the canonical schema
  is its list of rows; the thirty features are kept as the 64-bit patterns that are hashed, so
  the sign of a zero and the payload of a NaN are not lost.
\<close>

unbundle bit_operations_syntax

section \<open>Rows\<close>

type_synonym u64 = "64 word"

record data_row =
  dr_features :: "u64 list" \<comment> \<open>the columns \<open>ALL_FEATURES\<close>, in order\<close>
  dr_label :: int \<comment> \<open>\<open>Class\<close>, an \<open>int64\<close>\<close>

type_synonym data_frame = "data_row list"

definition f64_exponent :: "u64 \<Rightarrow> u64" where
  "f64_exponent w = drop_bit 52 w AND 0x7FF"

definition f64_fraction :: "u64 \<Rightarrow> u64" where
  "f64_fraction w = w AND 0xFFFFFFFFFFFFF"

definition f64_isnan :: "u64 \<Rightarrow> bool" where
  "f64_isnan w = (f64_exponent w = 0x7FF \<and> f64_fraction w \<noteq> 0)"

definition f64_isfinite :: "u64 \<Rightarrow> bool" where
  "f64_isfinite w = (f64_exponent w \<noteq> 0x7FF)"

text \<open>\<open>x < 0\<close>: the sign bit is set and the value is neither a zero nor a NaN.\<close>

definition f64_negative :: "u64 \<Rightarrow> bool" where
  "f64_negative w = (bit w 63 \<and> w AND 0x7FFFFFFFFFFFFFFF \<noteq> 0 \<and> \<not> f64_isnan w)"

text \<open>The eight bytes of \<open>dtype("<f8")\<close>.\<close>

definition f64_bytes :: "u64 \<Rightarrow> string" where
  "f64_bytes w = map (\<lambda>i. char_of (unat (drop_bit (8 * i) w AND 0xFF))) [0..<8]"

section \<open>Schema\<close>

definition missing_counts :: "data_frame \<Rightarrow> (string \<times> nat) list" where
  "missing_counts rows =
     filter (\<lambda>p. snd p \<noteq> 0)
       (map (\<lambda>(i, c). (c, length (filter (\<lambda>r. f64_isnan (dr_features r ! i)) rows)))
          (zip [0..<length ALL_FEATURES] ALL_FEATURES))"

definition repr_counts :: "(string \<times> nat) list \<Rightarrow> string" where
  "repr_counts cs = ''{'' @ join '', '' (map (\<lambda>(c, n). repr_str c @ '': '' @ nat_str n) cs) @ ''}''"

definition non_finite_count :: "data_frame \<Rightarrow> nat" where
  "non_finite_count rows = sum_list (map (\<lambda>r. length (filter (\<lambda>w. \<not> f64_isfinite w) (dr_features r))) rows)"

definition repr_int_list :: "int list \<Rightarrow> string" where
  "repr_int_list xs = ''['' @ join '', '' (map int_str xs) @ '']''"

text \<open>
  \<open>validate_dataset_schema(frame, reject_duplicate_rows=False)\<close> on a frame whose columns are
  \<open>REQUIRED_COLUMNS\<close> with the types of \<open>_dtype_contract\<close>: the column checks of the function can
  not fail there and the row checks are these, in this order.
\<close>

definition validate_rows :: "data_frame \<Rightarrow> py_exc + unit" where
  "validate_rows rows =
     (if rows = [] then Inl (ValueError ''Dataset is empty. Expected at least one row of data.'')
      else if \<not> list_all (\<lambda>r. dr_label r = 0 \<or> dr_label r = 1) rows then
        Inl (ValueError (''Target column '' @ repr_str TARGET_COLUMN @ '' must only contain 0 and 1. Found values: '' @
          repr_int_list (sort (remdups (map dr_label rows))) @ ''.''))
      else if missing_counts rows \<noteq> [] then
        Inl (ValueError (''Dataset contains missing values in required columns: '' @ repr_counts (missing_counts rows) @ ''.''))
      else if non_finite_count rows \<noteq> 0 then
        Inl (ValueError (''Dataset contains non-finite values (NaN or infinity) in required columns: '' @
          nat_str (non_finite_count rows) @ '' value(s).''))
      else if list_ex (\<lambda>r. f64_negative (dr_features r ! 0)) rows then
        Inl (ValueError ''Dataset contains negative Time values.'')
      else if list_ex (\<lambda>r. f64_negative (dr_features r ! 29)) rows then
        Inl (ValueError ''Dataset contains negative Amount values.'')
      else Inr ())"

text \<open>A frame of the canonical schema has thirty feature values in every row.\<close>

definition canonical_frame :: "data_frame \<Rightarrow> bool" where
  "canonical_frame rows = list_all (\<lambda>r. length (dr_features r) = length ALL_FEATURES) rows"

section \<open>Row hashes\<close>

definition ROW_HASH_DOMAIN :: string where
  "ROW_HASH_DOMAIN = ''SecureSwipe historical test quarantine row v1'' @ [char_of (0 :: nat)]"

definition HASH_LIST_DOMAIN :: string where
  "HASH_LIST_DOMAIN = ''SecureSwipe historical quarantine manifest hashes v1'' @ [char_of (0 :: nat)]"

text \<open>The bytes one row is hashed from; the label is 0 or 1 once validated.\<close>

definition row_bytes :: "data_row \<Rightarrow> string" where
  "row_bytes r = ROW_HASH_DOMAIN @ concat (map f64_bytes (dr_features r)) @ [char_of (nat (dr_label r))]"

definition row_hash :: "data_row \<Rightarrow> string" where
  "row_hash r = sha256_hex (row_bytes r)"

definition canonical_row_hashes :: "data_frame \<Rightarrow> py_exc + string list" where
  "canonical_row_hashes rows = res_bind (validate_rows rows) (\<lambda>_. Inr (map row_hash rows))"

definition row_hashes_checksum :: "string list \<Rightarrow> py_exc + string" where
  "row_hashes_checksum hashes =
     (let ordered = sort hashes
      in if list_ex (\<lambda>h. \<not> is_sha256 h) ordered then
           Inl (ValueError ''Historical quarantine row hashes must be lowercase SHA-256 values.'')
         else Inr (sha256_hex (HASH_LIST_DOMAIN @ concat (map (\<lambda>h. h @ [char_of (10 :: nat)]) ordered))))"

section \<open>Files\<close>

text \<open>What a path names, as \<open>is_symlink\<close>, \<open>resolve(strict=True)\<close> and \<open>is_file\<close> observe it.\<close>

datatype fs_object = Regular string | Symbolic_Link | Directory | Special | Missing

text \<open>\<open>PurePath.suffix\<close>: from the last dot, unless it is the first or the last character.\<close>

definition path_suffix :: "string \<Rightarrow> string" where
  "path_suffix name =
     (let r = rev name; ext = takeWhile (\<lambda>c. c \<noteq> CHR ''.'') r
      in if ext = [] \<or> length ext = length name \<or> Suc (length ext) = length name then []
         else CHR ''.'' # rev ext)"

definition regular_file :: "string \<Rightarrow> fs_object \<Rightarrow> string \<Rightarrow> string \<Rightarrow> py_exc + string" where
  "regular_file name f label suffix =
     (case f of
        Symbolic_Link \<Rightarrow> Inl (ValueError (label @ '' must not be a symbolic link.''))
      | Missing \<Rightarrow> Inl (PyError ''FileNotFoundError'' name)
      | Regular bytes \<Rightarrow>
          if map lower_char (path_suffix name) = suffix then Inr bytes
          else Inl (ValueError (label @ '' must be a regular '' @ suffix @ '' file.''))
      | _ \<Rightarrow> Inl (ValueError (label @ '' must be a regular '' @ suffix @ '' file.'')))"

text \<open>A document with the digest and the size of its exact bytes.\<close>

record read_document =
  rd_payload :: "(string, pyval) dict"
  rd_name :: string
  rd_sha256 :: string
  rd_size_bytes :: int

text \<open>\<open>loads\<close> stands for \<open>json.loads(encoded.decode("utf-8"))\<close>.\<close>

definition read_json_bytes :: "(string \<Rightarrow> string + pyval) \<Rightarrow> string \<Rightarrow> fs_object \<Rightarrow> string \<Rightarrow> py_exc + read_document" where
  "read_json_bytes loads name f label =
     res_bind (regular_file name f label ''.json'') (\<lambda>encoded.
       case loads encoded of
         Inl _ \<Rightarrow> Inl (ValueError (label @ '' must be valid UTF-8 JSON.''))
       | Inr (PDict d) \<Rightarrow> Inr \<lparr>rd_payload = d, rd_name = name, rd_sha256 = sha256_hex encoded, rd_size_bytes = int (length encoded)\<rparr>
       | Inr _ \<Rightarrow> Inl (ValueError (label @ '' must contain a JSON object.'')))"

definition safe_basename :: "pyval \<Rightarrow> py_exc + string" where
  "safe_basename v =
     (case v of
        PStr s \<Rightarrow>
          if s = [] \<or> s = ''.'' \<or> s = ''..'' then Inl (ValueError ''Manifest filenames must be non-empty basenames.'')
          else if safe_basename_ok s then Inr s
          else Inl (ValueError ''Manifest filenames must not contain paths or path separators.'')
      | _ \<Rightarrow> Inl (ValueError ''Manifest filenames must be non-empty basenames.''))"

section \<open>Contract\<close>

definition FEATURE_DTYPE :: string where "FEATURE_DTYPE = ''float64''"
definition TARGET_DTYPE :: string where "TARGET_DTYPE = ''int64''"
definition QUARANTINE_FORMAT_VERSION :: string where "QUARANTINE_FORMAT_VERSION = ''1''"
definition QUARANTINE_ANCHOR_FORMAT_VERSION :: string where "QUARANTINE_ANCHOR_FORMAT_VERSION = ''1''"
definition QUARANTINE_CANDIDATE_FORMAT_VERSION :: string where "QUARANTINE_CANDIDATE_FORMAT_VERSION = ''1''"
definition HISTORICAL_TEST_ROWS :: int where "HISTORICAL_TEST_ROWS = 42722"
definition HISTORICAL_TEST_FRAUD :: int where "HISTORICAL_TEST_FRAUD = 74"
definition ROW_HASH_ALGORITHM :: string where
  "ROW_HASH_ALGORITHM = ''sha256-canonical-float64-le-class-uint8-v1''"
definition MANIFEST_SERIALIZATION :: string where
  "MANIFEST_SERIALIZATION = ''json-utf8-indent-2-sort-keys-newline-v1''"

definition dtype_contract :: pyval where
  "dtype_contract = PDict
     [(''features'', PDict (map (\<lambda>f. (f, PStr FEATURE_DTYPE)) ALL_FEATURES)),
      (''target'', PDict [(''Class'', PStr TARGET_DTYPE)])]"

definition is_sha_value :: "pyval \<Rightarrow> bool" where
  "is_sha_value v = (case v of PStr s \<Rightarrow> is_sha256 s | _ \<Rightarrow> False)"

definition is_text_value :: "pyval \<Rightarrow> bool" where
  "is_text_value v = (case v of PStr s \<Rightarrow> strip_by is_space s \<noteq> [] | _ \<Rightarrow> False)"

section \<open>Approval anchor\<close>

record quarantine_anchor =
  qa_source_sha256 :: "(string, pyval) dict"
  qa_row_hashes_sha256 :: string
  qa_total_row_count :: int
  qa_fraud_count :: int
  qa_unique_row_count :: int
  qa_duplicate_row_count :: int
  qa_name :: string
  qa_sha256 :: string
  qa_size_bytes :: int

definition ANCHOR_NAME :: string where "ANCHOR_NAME = ''historical_test_quarantine_anchor.json''"

definition ANCHOR_FIELDS :: "string list" where
  "ANCHOR_FIELDS = [''anchor_format_version'', ''approval_status'', ''quarantine_format_version'', ''row_hash_algorithm'',
     ''dtype_contract'', ''source_sha256'', ''row_hashes_sha256'', ''total_row_count'', ''fraud_count'',
     ''unique_row_count'', ''duplicate_row_count'', ''reviewed_by'', ''review_reference'']"

definition anchor_contract_ok :: "(string, pyval) dict \<Rightarrow> bool" where
  "anchor_contract_ok d =
     (py_get d ''anchor_format_version'' = PStr QUARANTINE_ANCHOR_FORMAT_VERSION \<and>
      py_get d ''quarantine_format_version'' = PStr QUARANTINE_FORMAT_VERSION \<and>
      py_get d ''row_hash_algorithm'' = PStr ROW_HASH_ALGORITHM \<and>
      py_eq (py_get d ''dtype_contract'') dtype_contract)"

definition anchor_counts_ok :: "int \<Rightarrow> int \<Rightarrow> int \<Rightarrow> int \<Rightarrow> bool" where
  "anchor_counts_ok t f u dup =
     (0 < t \<and> 0 \<le> f \<and> f \<le> t \<and> 0 < u \<and> u \<le> t \<and> dup = t - u \<and>
      t = HISTORICAL_TEST_ROWS \<and> f = HISTORICAL_TEST_FRAUD)"

text \<open>The values whose type is checked: a \<open>dict\<close>, a string and four \<open>int\<close> counts.\<close>

definition anchor_values :: "(string, pyval) dict \<Rightarrow> ((string, pyval) dict \<times> string \<times> int \<times> int \<times> int \<times> int) option" where
  "anchor_values d =
     Option.bind (dict_of (py_get d ''source_sha256'')) (\<lambda>src.
     Option.bind (str_of (py_get d ''row_hashes_sha256'')) (\<lambda>h.
     Option.bind (int_of (py_get d ''total_row_count'')) (\<lambda>t.
     Option.bind (int_of (py_get d ''fraud_count'')) (\<lambda>f.
     Option.bind (int_of (py_get d ''unique_row_count'')) (\<lambda>u.
     Option.bind (int_of (py_get d ''duplicate_row_count'')) (\<lambda>dup. Some (src, h, t, f, u, dup)))))))"

definition anchor_of :: "read_document \<Rightarrow> py_exc + quarantine_anchor" where
  "anchor_of doc =
     (let d = rd_payload doc
      in if set (map fst d) \<noteq> set ANCHOR_FIELDS then
           Inl (ValueError ''Historical quarantine anchor fields are incomplete or unexpected.'')
         else if \<not> anchor_contract_ok d then Inl (ValueError ''Historical quarantine anchor contract mismatch.'')
         else if py_get d ''approval_status'' \<noteq> PStr ''approved'' then
           Inl (ValueError ''Historical quarantine anchor is not populated and independently approved.'')
         else
           (case anchor_values d of
              Some (src, h, t, f, u, dup) \<Rightarrow>
                if set (map fst src) = {''x_test'', ''y_test''} \<and> list_all (is_sha_value \<circ> snd) src \<and> is_sha256 h \<and>
                   anchor_counts_ok t f u dup \<and> is_text_value (py_get d ''reviewed_by'') \<and>
                   is_text_value (py_get d ''review_reference'')
                then Inr \<lparr>qa_source_sha256 = src, qa_row_hashes_sha256 = h, qa_total_row_count = t, qa_fraud_count = f,
                          qa_unique_row_count = u, qa_duplicate_row_count = dup, qa_name = rd_name doc,
                          qa_sha256 = rd_sha256 doc, qa_size_bytes = rd_size_bytes doc\<rparr>
                else Inl (ValueError ''Historical quarantine anchor approval values are malformed.'')
            | None \<Rightarrow> Inl (ValueError ''Historical quarantine anchor approval values are malformed.'')))"

definition load_historical_quarantine_anchor :: "(string \<Rightarrow> string + pyval) \<Rightarrow> fs_object \<Rightarrow> py_exc + quarantine_anchor" where
  "load_historical_quarantine_anchor loads f =
     res_bind (read_json_bytes loads ANCHOR_NAME f ''Historical quarantine anchor'') anchor_of"

section \<open>Manifest\<close>

definition MANIFEST_FIELDS :: "string list" where
  "MANIFEST_FIELDS = [''format_version'', ''manifest_kind'', ''feature_schema'', ''target_column'', ''dtype_contract'',
     ''row_hash_algorithm'', ''row_hashes'', ''row_hashes_sha256'', ''total_row_count'', ''fraud_count'',
     ''unique_row_count'', ''duplicate_row_count'', ''contains_raw_transaction_values'', ''sources'']"

definition manifest_contract_ok :: "(string, pyval) dict \<Rightarrow> bool" where
  "manifest_contract_ok d =
     (py_get d ''format_version'' = PStr QUARANTINE_FORMAT_VERSION \<and>
      py_get d ''manifest_kind'' = PStr ''historical_test_row_quarantine'' \<and>
      py_get d ''feature_schema'' = PList (map PStr ALL_FEATURES) \<and>
      py_get d ''target_column'' = PStr ''Class'' \<and>
      py_eq (py_get d ''dtype_contract'') dtype_contract \<and>
      py_get d ''row_hash_algorithm'' = PStr ROW_HASH_ALGORITHM \<and>
      py_get d ''contains_raw_transaction_values'' = PBool False)"

definition string_list_of :: "pyval \<Rightarrow> string list option" where
  "string_list_of v = (case v of PList vs \<Rightarrow> those (map str_of vs) | _ \<Rightarrow> None)"

definition manifest_hashes :: "pyval \<Rightarrow> string list option" where
  "manifest_hashes v =
     (case string_list_of v of
        None \<Rightarrow> None
      | Some hs \<Rightarrow> if list_all is_sha256 hs \<and> hs = sort hs then Some hs else None)"

definition manifest_counts_ok :: "(string, pyval) dict \<Rightarrow> string list \<Rightarrow> bool" where
  "manifest_counts_ok d hs =
     (case (py_get d ''total_row_count'', py_get d ''fraud_count'', py_get d ''unique_row_count'', py_get d ''duplicate_row_count'') of
        (PInt t, PInt f, PInt u, PInt dup) \<Rightarrow>
          t = int (length hs) \<and> 0 \<le> f \<and> f \<le> t \<and> u = int (card (set hs)) \<and>
          dup = int (length hs) - int (card (set hs)) \<and>
          (case row_hashes_checksum hs of Inr c \<Rightarrow> py_get d ''row_hashes_sha256'' = PStr c | Inl _ \<Rightarrow> False)
      | _ \<Rightarrow> False)"

definition check_source_record :: "pyval \<Rightarrow> py_exc + string" where
  "check_source_record v =
     (case v of
        PDict r \<Rightarrow>
          if set (map fst r) = {''filename'', ''sha256'', ''size_bytes''} \<and> is_sha_value (py_get r ''sha256'') \<and>
             (case py_get r ''size_bytes'' of PInt n \<Rightarrow> 0 < n | _ \<Rightarrow> False)
          then safe_basename (py_get r ''filename'')
          else Inl (ValueError ''Historical quarantine source record is malformed.'')
      | _ \<Rightarrow> Inl (ValueError ''Historical quarantine source record is malformed.''))"

definition validate_quarantine_payload :: "(string, pyval) dict \<Rightarrow> py_exc + string list \<times> int" where
  "validate_quarantine_payload d =
     (if set (map fst d) \<noteq> set MANIFEST_FIELDS then
        Inl (ValueError ''Historical quarantine manifest fields are incomplete or unexpected.'')
      else if \<not> manifest_contract_ok d then Inl (ValueError ''Historical quarantine manifest contract mismatch.'')
      else case manifest_hashes (py_get d ''row_hashes'') of
        None \<Rightarrow> Inl (ValueError ''Historical quarantine row hashes are malformed or unsorted.'')
      | Some hs \<Rightarrow>
          if \<not> manifest_counts_ok d hs then Inl (ValueError ''Historical quarantine row counts or checksum do not match.'')
          else (case py_get d ''sources'' of
             PDict src \<Rightarrow>
               if set (map fst src) \<noteq> {''x_test'', ''y_test''} then Inl (ValueError ''Historical quarantine source records are incomplete.'')
               else res_bind (res_map (check_source_record \<circ> snd) src) (\<lambda>_. Inr (hs, int (card (set hs))))
           | _ \<Rightarrow> Inl (ValueError ''Historical quarantine source records are incomplete.'')))"

text \<open>\<open>sources[name]["sha256"]\<close>.\<close>

definition source_sha :: "(string, pyval) dict \<Rightarrow> string \<Rightarrow> pyval" where
  "source_sha d name =
     (case py_get d ''sources'' of PDict src \<Rightarrow> (case py_get src name of PDict r \<Rightarrow> py_get r ''sha256'' | _ \<Rightarrow> PNone) | _ \<Rightarrow> PNone)"

definition require_anchor_match :: "(string, pyval) dict \<Rightarrow> quarantine_anchor \<Rightarrow> py_exc + unit" where
  "require_anchor_match d a =
     (if py_get d ''format_version'' = PStr QUARANTINE_FORMAT_VERSION \<and>
         py_get d ''row_hashes_sha256'' = PStr (qa_row_hashes_sha256 a) \<and>
         py_eq (py_get d ''total_row_count'') (PInt (qa_total_row_count a)) \<and>
         py_eq (py_get d ''fraud_count'') (PInt (qa_fraud_count a)) \<and>
         py_eq (py_get d ''unique_row_count'') (PInt (qa_unique_row_count a)) \<and>
         py_eq (py_get d ''duplicate_row_count'') (PInt (qa_duplicate_row_count a)) \<and>
         py_eq (source_sha d ''x_test'') (py_get (qa_source_sha256 a) ''x_test'') \<and>
         py_eq (source_sha d ''y_test'') (py_get (qa_source_sha256 a) ''y_test'')
      then Inr ()
      else Inl (ValueError ''Historical quarantine manifest does not match the approved canonical anchor.''))"

record test_quarantine =
  tq_row_hashes :: "string set"
  tq_total_row_count :: int
  tq_fraud_count :: int
  tq_unique_row_count :: int
  tq_duplicate_row_count :: int
  tq_row_hashes_sha256 :: string
  tq_manifest_name :: string
  tq_manifest_sha256 :: string
  tq_manifest_size_bytes :: int
  tq_anchor_name :: string
  tq_anchor_sha256 :: string
  tq_anchor_size_bytes :: int

definition int_field :: "(string, pyval) dict \<Rightarrow> string \<Rightarrow> int" where
  "int_field d k = (case py_get d k of PInt i \<Rightarrow> i | _ \<Rightarrow> 0)"

definition str_field :: "(string, pyval) dict \<Rightarrow> string \<Rightarrow> string" where
  "str_field d k = (case py_get d k of PStr s \<Rightarrow> s | _ \<Rightarrow> [])"

definition load_historical_quarantine_manifest ::
  "(string \<Rightarrow> string + pyval) \<Rightarrow> fs_object \<Rightarrow> string \<Rightarrow> fs_object \<Rightarrow> py_exc + test_quarantine" where
  "load_historical_quarantine_manifest loads anchor_file name f =
     res_bind (load_historical_quarantine_anchor loads anchor_file) (\<lambda>a.
     res_bind (read_json_bytes loads name f ''Historical quarantine manifest'') (\<lambda>doc.
     res_bind (validate_quarantine_payload (rd_payload doc)) (\<lambda>(hs, u).
     res_bind (require_anchor_match (rd_payload doc) a) (\<lambda>_.
       Inr \<lparr>tq_row_hashes = set hs, tq_total_row_count = int_field (rd_payload doc) ''total_row_count'',
            tq_fraud_count = int_field (rd_payload doc) ''fraud_count'', tq_unique_row_count = u,
            tq_duplicate_row_count = int_field (rd_payload doc) ''duplicate_row_count'',
            tq_row_hashes_sha256 = str_field (rd_payload doc) ''row_hashes_sha256'',
            tq_manifest_name = rd_name doc, tq_manifest_sha256 = rd_sha256 doc, tq_manifest_size_bytes = rd_size_bytes doc,
            tq_anchor_name = qa_name a, tq_anchor_sha256 = qa_sha256 a, tq_anchor_size_bytes = qa_size_bytes a\<rparr>))))"

section \<open>Overlap\<close>

definition require_no_overlap :: "data_frame \<Rightarrow> test_quarantine \<Rightarrow> py_exc + test_quarantine" where
  "require_no_overlap rows q =
     res_bind (canonical_row_hashes rows) (\<lambda>hs.
       let n = card (set hs \<inter> tq_row_hashes q)
       in if n \<noteq> 0 then
            Inl (ValueError (''Decision-training data overlaps the locked historical test quarantine: '' @ nat_str n @ '' unique row(s).''))
          else Inr q)"

definition require_no_historical_test_overlap ::
  "(string \<Rightarrow> string + pyval) \<Rightarrow> fs_object \<Rightarrow> data_frame \<Rightarrow> string \<Rightarrow> fs_object \<Rightarrow> py_exc + test_quarantine" where
  "require_no_historical_test_overlap loads anchor_file rows name f =
     res_bind (load_historical_quarantine_manifest loads anchor_file name f) (require_no_overlap rows)"

end
