(* ===== verification/Fs_Tree.thy ===== *)
theory Fs_Tree
  imports Py_Json
begin

text \<open>
  Paths and the tree of files as the descriptor-based readers see them: \<open>PurePosixPath\<close>,
  \<open>expanduser\<close> and \<open>os.path.abspath\<close>, directories opened one component at a time with
  \<open>O_DIRECTORY | O_NOFOLLOW\<close>, and the observation of one file that is opened, measured, read and
  measured again. Shared by \<open>src/src/artifacts/bundle.py\<close> and
  \<open>src/src/data/historical_reference.py\<close>.
\<close>

section \<open>Paths\<close>

text \<open>\<open>Path.parts\<close> splits at every slash and drops empty and \<open>.\<close> components.\<close>

fun split_slash :: "string \<Rightarrow> string list" where
  "split_slash [] = [[]]"
| "split_slash (c # cs) =
     (if c = CHR ''/'' then [] # split_slash cs
      else (case split_slash cs of [] \<Rightarrow> [[c]] | p # ps \<Rightarrow> (c # p) # ps))"

definition path_parts :: "string \<Rightarrow> string list" where
  "path_parts s = filter (\<lambda>p. p \<noteq> [] \<and> p \<noteq> ''.'') (split_slash s)"

text \<open>A path is its root and the components below it; POSIX keeps exactly two leading slashes.\<close>

record py_path =
  pp_root :: string
  pp_parts :: "string list"

definition path_root :: "string \<Rightarrow> string" where
  "path_root s =
     (if take 2 s = ''//'' \<and> take 3 s \<noteq> ''///'' then ''//'' else if take 1 s = ''/'' then ''/'' else [])"

definition parse_path :: "string \<Rightarrow> py_path" where
  "parse_path s = \<lparr>pp_root = path_root s, pp_parts = path_parts s\<rparr>"

definition path_str :: "py_path \<Rightarrow> string" where
  "path_str p = (if pp_root p = [] \<and> pp_parts p = [] then ''.'' else pp_root p @ join ''/'' (pp_parts p))"

definition path_name :: "py_path \<Rightarrow> string" where
  "path_name p = (if pp_parts p = [] then [] else last (pp_parts p))"

text \<open>\<open>expanduser\<close>: \<open>home\<close> gives the home directory of a user name, the current user's for the
  empty name.\<close>

definition expanduser :: "(string \<Rightarrow> py_path option) \<Rightarrow> py_path \<Rightarrow> py_exc + py_path" where
  "expanduser home p =
     (case pp_parts p of
        [] \<Rightarrow> Inr p
      | part # rest \<Rightarrow>
          if pp_root p = [] \<and> take 1 part = ''~'' then
            (case home (drop 1 part) of
               None \<Rightarrow> Inl (RuntimeError ''Could not determine home directory.'')
             | Some h \<Rightarrow> Inr (h\<lparr>pp_parts := pp_parts h @ rest\<rparr>))
          else Inr p)"

text \<open>\<open>os.path.normpath\<close> below a root: \<open>..\<close> removes the component before it and is dropped at the root.\<close>

definition norm_parts :: "string list \<Rightarrow> string list" where
  "norm_parts = foldl (\<lambda>acc p. if p = [] \<or> p = ''.'' then acc else if p = ''..'' then butlast acc else acc @ [p]) []"

definition abspath :: "string list \<Rightarrow> py_path \<Rightarrow> py_path" where
  "abspath cwd p =
     (if pp_root p = [] then \<lparr>pp_root = ''/'', pp_parts = norm_parts (cwd @ pp_parts p)\<rparr>
      else \<lparr>pp_root = pp_root p, pp_parts = norm_parts (pp_parts p)\<rparr>)"

definition relative_to :: "py_path \<Rightarrow> py_path \<Rightarrow> string list option" where
  "relative_to p base =
     (if pp_root p = pp_root base \<and> take (length (pp_parts base)) (pp_parts p) = pp_parts base
      then Some (drop (length (pp_parts base)) (pp_parts p)) else None)"

definition plain_part :: "string \<Rightarrow> bool" where
  "plain_part p = (p \<noteq> [] \<and> p \<noteq> ''.'' \<and> p \<noteq> ''..'')"

lemma norm_parts_snoc:
  "norm_parts (ps @ [p]) =
     (if p = [] \<or> p = ''.'' then norm_parts ps else if p = ''..'' then butlast (norm_parts ps) else norm_parts ps @ [p])"
  by (simp add: norm_parts_def)

lemma norm_parts_plain: "list_all plain_part (norm_parts ps)"
proof (induction ps rule: rev_induct)
  case Nil
  then show ?case by (simp add: norm_parts_def)
next
  case (snoc p ps)
  then show ?case by (auto simp: norm_parts_snoc plain_part_def list_all_iff dest: in_set_butlastD)
qed

lemma norm_parts_id: "list_all plain_part ps \<Longrightarrow> norm_parts ps = ps"
proof (induction ps rule: rev_induct)
  case Nil
  then show ?case by (simp add: norm_parts_def)
next
  case (snoc p ps)
  then show ?case by (auto simp: norm_parts_snoc plain_part_def)
qed

lemma relative_to_append: "relative_to p base = Some parts \<Longrightarrow> pp_parts p = pp_parts base @ parts \<and> pp_root p = pp_root base"
  by (auto simp: relative_to_def split: if_splits) (metis append_take_drop_id)

section \<open>Files\<close>

text \<open>
  One reading: \<open>fstat\<close> after the opening, the answers of \<open>os.read\<close> in order, \<open>fstat\<close> after the
  last. Identity is device, inode and size.
\<close>

record fs_id =
  fi_dev :: int
  fi_ino :: int
  fi_size :: int

record file_read =
  fr_before :: fs_id
  fr_chunks :: "string list"
  fr_after :: fs_id

datatype fs_node = Fs_Dir "(string \<times> fs_node) list" | Fs_File file_read | Fs_Link | Fs_Special

text \<open>The loop stops at the first empty answer.\<close>

definition read_all :: "file_read \<Rightarrow> string" where
  "read_all r = concat (takeWhile (\<lambda>c. c \<noteq> []) (fr_chunks r))"

text \<open>\<open>os.open(name, O_RDONLY | O_DIRECTORY | O_NOFOLLOW, dir_fd=parent)\<close>.\<close>

definition open_directory :: "fs_node \<Rightarrow> string \<Rightarrow> fs_node option" where
  "open_directory parent name =
     (case parent of
        Fs_Dir entries \<Rightarrow> (case map_of entries name of Some (Fs_Dir d) \<Rightarrow> Some (Fs_Dir d) | _ \<Rightarrow> None)
      | _ \<Rightarrow> None)"

text \<open>\<open>os.open(name, O_RDONLY | O_NOFOLLOW, dir_fd=parent)\<close>: a link fails, a directory does not.\<close>

definition open_file :: "fs_node \<Rightarrow> string \<Rightarrow> fs_node option" where
  "open_file parent name =
     (case parent of
        Fs_Dir entries \<Rightarrow> (case map_of entries name of Some Fs_Link \<Rightarrow> None | r \<Rightarrow> r)
      | _ \<Rightarrow> None)"

fun open_directories :: "fs_node \<Rightarrow> string list \<Rightarrow> fs_node option" where
  "open_directories d [] = Some d"
| "open_directories d (p # ps) = (case open_directory d p of None \<Rightarrow> None | Some d' \<Rightarrow> open_directories d' ps)"

text \<open>What a list of components names when no component is a symbolic link.\<close>

fun node_at :: "fs_node \<Rightarrow> string list \<Rightarrow> fs_node option" where
  "node_at n [] = Some n"
| "node_at n (p # ps) =
     (case n of Fs_Dir entries \<Rightarrow> (case map_of entries p of None \<Rightarrow> None | Some m \<Rightarrow> node_at m ps) | _ \<Rightarrow> None)"

lemma open_directories_node:
  "open_directories d ps = Some e \<Longrightarrow> open_file e name = Some n \<Longrightarrow> node_at d (ps @ [name]) = Some n"
  by (induction ps arbitrary: d)
     (auto simp: open_directory_def open_file_def split: fs_node.splits option.splits)

end
