(* ===== verification/Quarantine_Build.thy ===== *)
theory Quarantine_Build
  imports Historical_Quarantine Fs_Tree
begin

text \<open>
  The producing half of \<open>src/src/data/historical_quarantine.py\<close>: reading the two aligned Parquet
  files of the historical split, the manifest and the review candidate derived from them, and
  the checks that the bytes have not changed since. The Parquet reader is a parameter
  (\<open>pandas\<close>); what it returns is a table with its columns, dtypes, index labels and values.
\<close>

section \<open>Input files\<close>

record stat_id =
  st_dev :: int
  st_ino :: int
  st_size :: int
  st_mtime_ns :: int

text \<open>\<open>path.stat()\<close> before and after one full read.\<close>

record file_probe =
  fp_before :: stat_id
  fp_bytes :: string
  fp_after :: stat_id

definition stable_file_identity :: "string \<Rightarrow> file_probe \<Rightarrow> py_exc + string \<times> int" where
  "stable_file_identity name p =
     (if fp_before p \<noteq> fp_after p then
        Inl (ValueError (''Input changed while its identity was being hashed: '' @ name @ ''.''))
      else Inr (sha256_hex (fp_bytes p), st_size (fp_after p)))"

text \<open>One input of the split: what its path names, the two probes and the bytes read between them.\<close>

record split_file =
  sf_name :: string
  sf_object :: fs_object
  sf_probe1 :: file_probe
  sf_read :: string
  sf_probe2 :: file_probe

record 'v table =
  tb_columns :: "string list"
  tb_dtypes :: "string list"
  tb_index :: "int list"
  tb_values :: "'v list"

definition column_dtype :: "'v table \<Rightarrow> string \<Rightarrow> string option" where
  "column_dtype t = map_of (zip (tb_columns t) (tb_dtypes t))"

definition repr_str_dict :: "(string \<times> string) list \<Rightarrow> string" where
  "repr_str_dict d = ''{'' @ join '', '' (map (\<lambda>(k, v). repr_str k @ '': '' @ repr_str v) d) @ ''}''"

definition wrong_features :: "'v table \<Rightarrow> (string \<times> string) list" where
  "wrong_features t =
     concat (map (\<lambda>f. case column_dtype t f of Some d \<Rightarrow> if d \<noteq> FEATURE_DTYPE then [(f, d)] else [] | None \<Rightarrow> []) ALL_FEATURES)"

definition validate_exact_dtypes :: "'v table \<Rightarrow> py_exc + unit" where
  "validate_exact_dtypes t =
     (if wrong_features t \<noteq> [] then
        Inl (ValueError (''Historical quarantine features must use exact float64 dtypes; found '' @ repr_str_dict (wrong_features t) @ ''.''))
      else case column_dtype t ''Class'' of
        Some d \<Rightarrow>
          if d \<noteq> TARGET_DTYPE then
            Inl (ValueError (''Historical quarantine Class must use the exact predeclared '' @ TARGET_DTYPE @ '' dtype; found '' @ d @ ''.''))
          else Inr ()
      | None \<Rightarrow> Inr ())"

text \<open>The columns side by side: equal, duplicate-free indices align the rows by position.\<close>

definition aligned_frame :: "u64 list table \<Rightarrow> int table \<Rightarrow> data_frame" where
  "aligned_frame x y = map (\<lambda>(v, l). \<lparr>dr_features = v, dr_label = l\<rparr>) (zip (tb_values x) (tb_values y))"

definition source_record :: "string \<Rightarrow> string \<times> int \<Rightarrow> py_exc + pyval" where
  "source_record name identity =
     res_bind (safe_basename (PStr name)) (\<lambda>n.
       Inr (PDict [(''filename'', PStr n), (''sha256'', PStr (fst identity)), (''size_bytes'', PInt (snd identity))]))"

definition read_aligned_historical_split ::
  "(string \<Rightarrow> u64 list table) \<Rightarrow> (string \<Rightarrow> int table) \<Rightarrow> split_file \<Rightarrow> split_file \<Rightarrow> py_exc + data_frame \<times> (string, pyval) dict" where
  "read_aligned_historical_split read_x read_y fx fy =
     res_bind (regular_file (sf_name fx) (sf_object fx) ''x_test_path'' ''.parquet'') (\<lambda>_.
     res_bind (regular_file (sf_name fy) (sf_object fy) ''y_test_path'' ''.parquet'') (\<lambda>_.
     res_bind (stable_file_identity (sf_name fx) (sf_probe1 fx)) (\<lambda>bx.
     res_bind (stable_file_identity (sf_name fy) (sf_probe1 fy)) (\<lambda>by'.
       let x = read_x (sf_read fx); y = read_y (sf_read fy)
       in res_bind (stable_file_identity (sf_name fx) (sf_probe2 fx)) (\<lambda>ax.
          res_bind (stable_file_identity (sf_name fy) (sf_probe2 fy)) (\<lambda>ay.
            if (bx, by') \<noteq> (ax, ay) then Inl (ValueError ''Historical split inputs changed while they were being read.'')
            else if tb_columns x \<noteq> ALL_FEATURES then
              Inl (ValueError ''Historical X_test must use the canonical ALL_FEATURES schema/order.'')
            else if tb_columns y \<noteq> [''Class''] then
              Inl (ValueError ''Historical y_test must contain only the canonical Class column.'')
            else
              res_bind (validate_exact_dtypes x) (\<lambda>_.
              res_bind (validate_exact_dtypes y) (\<lambda>_.
                if length (tb_values x) \<noteq> length (tb_values y) \<or> tb_index x \<noteq> tb_index y then
                  Inl (ValueError ''Historical X_test and y_test rows are not exactly aligned.'')
                else if \<not> distinct (tb_index x) \<or> \<not> distinct (tb_index y) then
                  Inl (ValueError ''Historical X_test and y_test indices must be unique.'')
                else
                  res_bind (validate_rows (aligned_frame x y)) (\<lambda>_.
                  res_bind (source_record (sf_name fx) bx) (\<lambda>rx.
                  res_bind (source_record (sf_name fy) by') (\<lambda>ry.
                    Inr (aligned_frame x y, [(''x_test'', rx), (''y_test'', ry)]))))))))))))"

section \<open>Manifest and candidate\<close>

definition quarantine_payload :: "data_frame \<Rightarrow> (string, pyval) dict \<Rightarrow> py_exc + (string, pyval) dict" where
  "quarantine_payload rows sources =
     res_bind (canonical_row_hashes rows) (\<lambda>hashes.
       let hs = sort hashes; unique = int (card (set hs))
       in res_bind (row_hashes_checksum hs) (\<lambda>checksum.
            Inr [(''format_version'', PStr QUARANTINE_FORMAT_VERSION),
                 (''manifest_kind'', PStr ''historical_test_row_quarantine''),
                 (''feature_schema'', PList (map PStr ALL_FEATURES)),
                 (''target_column'', PStr ''Class''),
                 (''dtype_contract'', dtype_contract),
                 (''row_hash_algorithm'', PStr ROW_HASH_ALGORITHM),
                 (''row_hashes'', PList (map PStr hs)),
                 (''row_hashes_sha256'', PStr checksum),
                 (''total_row_count'', PInt (int (length hs))),
                 (''fraud_count'', PInt (sum_list (map dr_label rows))),
                 (''unique_row_count'', PInt unique),
                 (''duplicate_row_count'', PInt (int (length hs) - unique)),
                 (''contains_raw_transaction_values'', PBool False),
                 (''sources'', PDict sources)]))"

definition build_payload ::
  "(string \<Rightarrow> u64 list table) \<Rightarrow> (string \<Rightarrow> int table) \<Rightarrow> split_file \<Rightarrow> split_file \<Rightarrow> py_exc + (string, pyval) dict" where
  "build_payload read_x read_y fx fy =
     res_bind (read_aligned_historical_split read_x read_y fx fy) (\<lambda>(rows, sources). quarantine_payload rows sources)"

definition build_historical_quarantine_manifest ::
  "(string \<Rightarrow> string + pyval) \<Rightarrow> fs_object \<Rightarrow> (string \<Rightarrow> u64 list table) \<Rightarrow> (string \<Rightarrow> int table) \<Rightarrow>
   split_file \<Rightarrow> split_file \<Rightarrow> py_exc + (string, pyval) dict" where
  "build_historical_quarantine_manifest loads anchor_file read_x read_y fx fy =
     res_bind (load_historical_quarantine_anchor loads anchor_file) (\<lambda>a.
     res_bind (build_payload read_x read_y fx fy) (\<lambda>payload.
     res_bind (require_anchor_match payload a) (\<lambda>_. Inr payload)))"

definition map_source :: "(pyval \<Rightarrow> pyval) \<Rightarrow> (string, pyval) dict \<Rightarrow> pyval" where
  "map_source f sources = PDict (map (\<lambda>(name, r). (name, f r)) sources)"

definition record_item :: "pyval \<Rightarrow> string \<Rightarrow> pyval" where
  "record_item v k = (case v of PDict r \<Rightarrow> py_get r k | _ \<Rightarrow> PNone)"

definition sources_of :: "(string, pyval) dict \<Rightarrow> (string, pyval) dict" where
  "sources_of payload = (case py_get payload ''sources'' of PDict src \<Rightarrow> src | _ \<Rightarrow> [])"

definition candidate_of :: "(string, pyval) dict \<Rightarrow> py_exc + (string, pyval) dict" where
  "candidate_of payload =
     (if \<not> py_eq (py_get payload ''total_row_count'') (PInt HISTORICAL_TEST_ROWS) \<or>
         \<not> py_eq (py_get payload ''fraud_count'') (PInt HISTORICAL_TEST_FRAUD) then
        Inl (ValueError (''Historical quarantine anchor candidate does not match the predeclared retained split counts: expected '' @
          int_str HISTORICAL_TEST_ROWS @ '' rows and '' @ int_str HISTORICAL_TEST_FRAUD @ '' fraud rows.''))
      else
        res_bind (canonical_manifest_bytes payload) (\<lambda>bytes.
          Inr [(''approval_required'', PBool True),
               (''approval_status'', PStr ''unapproved_candidate''),
               (''candidate_contains_row_hashes'', PBool False),
               (''candidate_format_version'', PStr QUARANTINE_CANDIDATE_FORMAT_VERSION),
               (''candidate_kind'', PStr ''historical_test_quarantine_anchor_candidate''),
               (''contains_raw_transaction_values'', PBool False),
               (''decision_eligible'', PBool False),
               (''dtype_contract'', py_get payload ''dtype_contract''),
               (''duplicate_row_count'', py_get payload ''duplicate_row_count''),
               (''fraud_count'', py_get payload ''fraud_count''),
               (''manifest_serialization'', PStr MANIFEST_SERIALIZATION),
               (''manifest_sha256'', PStr (sha256_hex bytes)),
               (''quarantine_format_version'', py_get payload ''format_version''),
               (''row_hash_algorithm'', py_get payload ''row_hash_algorithm''),
               (''row_hashes_sha256'', py_get payload ''row_hashes_sha256''),
               (''source_files'', map_source (\<lambda>r. PDict [(''filename'', record_item r ''filename''), (''size_bytes'', record_item r ''size_bytes'')]) (sources_of payload)),
               (''source_sha256'', map_source (\<lambda>r. record_item r ''sha256'') (sources_of payload)),
               (''total_row_count'', py_get payload ''total_row_count''),
               (''training_use_prohibited'', PBool True),
               (''unique_row_count'', py_get payload ''unique_row_count'')]))"

definition build_historical_quarantine_anchor_candidate ::
  "(string \<Rightarrow> u64 list table) \<Rightarrow> (string \<Rightarrow> int table) \<Rightarrow> split_file \<Rightarrow> split_file \<Rightarrow> py_exc + (string, pyval) dict" where
  "build_historical_quarantine_anchor_candidate read_x read_y fx fy =
     res_bind (build_payload read_x read_y fx fy) candidate_of"

section \<open>Identity before publication\<close>

definition checked_file_record :: "string \<Rightarrow> string \<Rightarrow> int \<Rightarrow> py_exc + pyval" where
  "checked_file_record name digest size_bytes = source_record name (digest, size_bytes)"

definition historical_quarantine_input_records :: "test_quarantine \<Rightarrow> py_exc + pyval" where
  "historical_quarantine_input_records q =
     res_bind (checked_file_record (tq_manifest_name q) (tq_manifest_sha256 q) (tq_manifest_size_bytes q)) (\<lambda>m.
     res_bind (checked_file_record (tq_anchor_name q) (tq_anchor_sha256 q) (tq_anchor_size_bytes q)) (\<lambda>a.
       Inr (PDict [(''historical_quarantine'', m), (''historical_quarantine_anchor'', a)])))"

definition reverify_file :: "fs_object \<Rightarrow> string \<Rightarrow> int \<Rightarrow> string \<Rightarrow> py_exc + unit" where
  "reverify_file f digest size_bytes label =
     (case f of
        Regular bytes \<Rightarrow>
          if int (length bytes) \<noteq> size_bytes \<or> sha256_hex bytes \<noteq> digest then
            Inl (ValueError (label @ '' changed after verification.''))
          else Inr ()
      | _ \<Rightarrow> Inl (ValueError (label @ '' was replaced after verification.'')))"

definition reverify_historical_quarantine_identity :: "test_quarantine \<Rightarrow> fs_object \<Rightarrow> fs_object \<Rightarrow> py_exc + unit" where
  "reverify_historical_quarantine_identity q manifest_file anchor_file =
     res_bind (reverify_file manifest_file (tq_manifest_sha256 q) (tq_manifest_size_bytes q) ''Historical quarantine manifest'') (\<lambda>_.
       reverify_file anchor_file (tq_anchor_sha256 q) (tq_anchor_size_bytes q) ''Historical quarantine anchor'')"

section \<open>Output path\<close>

text \<open>
  \<open>_output_parts\<close> on the text of the path. \<open>Path.parts\<close> splits at every slash and drops empty
  and \<open>.\<close> components (so only \<open>..\<close> can trip the component test); \<open>expanduser\<close> acts on a first
  component that starts with \<open>~\<close>, which leads to the absolute path of a home directory.
\<close>

definition output_parts :: "string \<Rightarrow> py_exc + string list" where
  "output_parts raw =
     (let parts = path_parts raw
      in if raw = [] \<or> take 1 raw = ''/'' \<or> (parts \<noteq> [] \<and> take 1 (hd parts) = ''~'') \<or> windows_drive raw \<noteq> [] \<or> CHR 0x5C \<in> set raw \<or> ''..'' \<in> set parts then
           Inl (ValueError ''Quarantine output must be a relative path inside artifacts/.'')
         else if length parts < 2 \<or> hd parts \<noteq> ''artifacts'' then
           Inl (ValueError ''Historical quarantine output must be inside ignored artifacts/.'')
         else if map lower_char (path_suffix (last parts)) \<noteq> ''.json'' then
           Inl (ValueError ''Quarantine output must be a .json file.'')
         else Inr parts)"

end
