(* ===== verification/Json_Text.thy ===== *)
theory Json_Text
  imports Py_Json
begin

text \<open>
  The compact JSON text the digests are taken over determines the document: two documents
  without floats that are written the same are equal up to the order of their keys.
\<close>

section \<open>Characters and strings\<close>

lemma hex_char_inject: "m < 16 \<Longrightarrow> n < 16 \<Longrightarrow> hex_char m = hex_char n \<longleftrightarrow> m = n"
proof
  assume "m < 16" "n < 16" "hex_char m = hex_char n"
  then have "(of_char (hex_char m) :: nat) = of_char (hex_char n)" by simp
  then show "m = n" using \<open>m < 16\<close> \<open>n < 16\<close> by (auto simp: hex_char_def split: if_splits)
qed simp

lemma hex2_inject: "m < 256 \<Longrightarrow> n < 256 \<Longrightarrow> hex2 m = hex2 n \<longleftrightarrow> m = n"
proof
  assume *: "m < 256" "n < 256" "hex2 m = hex2 n"
  then have "m div 16 = n div 16" "m mod 16 = n mod 16"
    using hex_char_inject [of "m div 16" "n div 16"] hex_char_inject [of "m mod 16" "n mod 16"] by (auto simp: hex2_def)
  then show "m = n" by (metis div_mult_mod_eq)
qed simp

lemma json_char_cases:
  obtains (quoted) "(of_char c :: nat) \<in> {34, 92}" "json_char c = [CHR 0x5C, c]"
  | (short) e where "(of_char c :: nat, e) \<in> {(8, CHR ''b''), (9, CHR ''t''), (10, CHR ''n''), (12, CHR ''f''), (13, CHR ''r'')}"
      "json_char c = [CHR 0x5C, e]"
  | (hex) "json_char c = [CHR 0x5C, CHR ''u'', CHR ''0'', CHR ''0''] @ hex2 (of_char c)"
  | (plain) "json_char c = [c]" "c \<noteq> CHR 0x5C" "c \<noteq> CHR 0x22"
proof -
  consider "(of_char c :: nat) \<in> {34, 92}" | "(of_char c :: nat) \<in> {8, 9, 10, 12, 13}"
    | "(of_char c :: nat) \<notin> {34, 92, 8, 9, 10, 12, 13}" "(of_char c :: nat) < 32 \<or> 127 \<le> (of_char c :: nat)"
    | "(of_char c :: nat) \<notin> {34, 92, 8, 9, 10, 12, 13}" "\<not> (of_char c :: nat) < 32" "\<not> 127 \<le> (of_char c :: nat)"
    by blast
  then show thesis
  proof cases
    case 1 then show thesis by (intro quoted) (auto simp: json_char_def Let_def)
  next
    case 2 then show thesis by (elim insertE emptyE; intro short) (auto simp: json_char_def Let_def)
  next
    case 3 then show thesis by (intro hex) (auto simp: json_char_def Let_def)
  next
    case 4 then show thesis by (intro plain) (auto simp: json_char_def Let_def)
  qed
qed

lemma of_char_less_256 [simp]: "(of_char c :: nat) < 256"
  by (metis mod_less_divisor of_char_mod_256 zero_less_numeral)

lemma same_code: "(of_char c :: nat) = n \<Longrightarrow> (of_char d :: nat) = n \<Longrightarrow> c = d"
  by (metis of_char_eq_iff)

lemma hex2_prefix: "hex2 (of_char c) @ x = hex2 (of_char d) @ y \<Longrightarrow> c = d \<and> x = y"
  using hex2_inject [of "of_char c" "of_char d"] by (auto simp: hex2_def)

lemma json_char_prefix: "json_char c @ x = json_char d @ y \<Longrightarrow> c = d \<and> x = y"
  by (cases c rule: json_char_cases; cases d rule: json_char_cases) (auto dest: hex2_prefix intro: same_code)

lemma json_char_quote: "json_char c @ x \<noteq> CHR 0x22 # y" "CHR 0x22 # y \<noteq> json_char c @ x"
  by (cases c rule: json_char_cases; auto)+

lemma json_body_prefix:
  "concat (map json_char s) @ CHR 0x22 # x = concat (map json_char t) @ CHR 0x22 # y \<Longrightarrow> s = t \<and> x = y"
proof (induction s arbitrary: t)
  case Nil
  show ?case
  proof (cases t)
    case (Cons d ds)
    then have "CHR 0x22 # x = json_char d @ (concat (map json_char ds) @ CHR 0x22 # y)" using Nil by simp
    then show ?thesis using json_char_quote(2) by blast
  qed (use Nil in simp)
next
  case (Cons c cs)
  show ?case
  proof (cases t)
    case Nil
    then show ?thesis using Cons.prems json_char_quote by simp
  next
    case (Cons d ds)
    then have "c = d \<and> concat (map json_char cs) @ CHR 0x22 # x = concat (map json_char ds) @ CHR 0x22 # y"
      using Cons.prems json_char_prefix by simp
    then show ?thesis using Cons.IH Cons by simp
  qed
qed

lemma json_str_prefix: "json_str s @ x = json_str t @ y \<Longrightarrow> s = t \<and> x = y"
  by (rule json_body_prefix) (simp add: json_str_def)

section \<open>Integers\<close>

definition nat_of_str :: "string \<Rightarrow> nat" where
  "nat_of_str ds = foldl (\<lambda>n d. 10 * n + (of_char d - 48)) 0 ds"

lemma nat_of_str_nat_str: "nat_of_str (nat_str n) = n"
proof (induction n rule: nat_str.induct)
  case (1 n)
  show ?case
  proof (cases "n < 10")
    case True then show ?thesis by (subst nat_str.simps) (simp add: nat_of_str_def)
  next
    case False then show ?thesis using 1 by (subst nat_str.simps) (simp add: nat_of_str_def)
  qed
qed

lemma nat_str_inject [simp]: "nat_str m = nat_str n \<longleftrightarrow> m = n"
  by (metis nat_of_str_nat_str)

definition number_char :: "char \<Rightarrow> bool" where
  "number_char c = (is_digit c \<or> c = CHR ''-'')"

lemma int_str_chars: "list_all number_char (int_str i)"
  using nat_str_digits by (auto simp: int_str_def number_char_def list_all_iff)

lemma int_str_nonempty [simp]: "int_str i \<noteq> []"
  by (simp add: int_str_def)

lemma nat_str_minus: "nat_str n \<noteq> CHR ''-'' # x"
  using nat_str_digits [of n] by (auto simp: is_digit_def)

lemma int_str_inject [simp]: "int_str i = int_str j \<longleftrightarrow> i = j"
  using nat_str_minus by (auto simp: int_str_def dest: sym split: if_splits)

definition delimited :: "string \<Rightarrow> bool" where
  "delimited r = (case r of [] \<Rightarrow> True | c # _ \<Rightarrow> c \<in> set '',]}'')"

lemma int_str_prefix:
  assumes "int_str i @ x = int_str j @ y" and "delimited x" and "delimited y"
  shows "i = j \<and> x = y"
proof -
  have stop: "takeWhile number_char (int_str k @ z) = int_str k" if "delimited z" for k z
    using that int_str_chars [of k]
    by (cases z) (auto simp: delimited_def list_all_iff takeWhile_append number_char_def is_digit_def)
  then have "int_str i = int_str j" using assms by metis
  then show ?thesis using assms(1) by simp
qed

section \<open>Documents\<close>

fun float_free :: "pyval \<Rightarrow> bool" where
  "float_free (PFloat x) = False"
| "float_free (PList vs) = list_all float_free vs"
| "float_free (PDict d) = list_all (\<lambda>kv. float_free (snd kv)) d"
| "float_free _ = True"

function canon :: "pyval \<Rightarrow> pyval" where
  "canon (PList vs) = PList (map canon vs)"
| "canon (PDict d) = PDict (map (\<lambda>kv. (fst kv, canon (snd kv))) (sort_key fst d))"
| "canon PNone = PNone"
| "canon (PBool b) = PBool b"
| "canon (PInt i) = PInt i"
| "canon (PFloat x) = PFloat x"
| "canon (PStr s) = PStr s"
  by pat_completeness auto
termination
proof (relation "measure size", goal_cases)
  case (2 vs v)
  then show ?case by (induction vs) auto
next
  case (3 d kv)
  then have "kv \<in> set d" by simp
  then show ?case by (induction d) (auto split: prod.split)
qed simp

text \<open>The text of a value starts with none of the structural characters.\<close>

definition starts_value :: "pyval \<Rightarrow> char \<Rightarrow> bool" where
  "starts_value v c =
     (case v of PNone \<Rightarrow> c = CHR ''n'' | PBool b \<Rightarrow> c = (if b then CHR ''t'' else CHR ''f'') | PInt _ \<Rightarrow> number_char c
      | PStr _ \<Rightarrow> c = CHR 0x22 | PList _ \<Rightarrow> c = CHR ''['' | PDict _ \<Rightarrow> c = CHR ''{'' | PFloat _ \<Rightarrow> False)"

lemma json_dumps_head:
  assumes "json_dumps v = Inr t" and "float_free v"
  obtains c cs where "t = c # cs" and "starts_value v c"
proof (cases v)
  case (PInt i)
  then have "t = int_str i" using assms by simp
  then show thesis using that int_str_chars [of i] PInt by (cases "int_str i") (auto simp: starts_value_def)
qed (use assms that in \<open>auto simp: json_str_def res_bind_Inr_iff starts_value_def split: if_splits\<close>)

lemma starts_value_kind: "starts_value v c \<Longrightarrow> c \<notin> set '',]}:''"
  by (auto simp: starts_value_def number_char_def is_digit_def split: pyval.splits if_splits)

section \<open>Determinacy\<close>

text \<open>One text of a list of items, each after a comma.\<close>

definition comma_items :: "string list \<Rightarrow> string" where
  "comma_items ts = concat (map (\<lambda>t. '','' @ t) ts)"

lemma join_comma: "join '','' (t # ts) = t @ comma_items ts"
  by (simp only: join_def comma_items_def list.case)

lemma delimited_items: "c \<in> set '']}'' \<Longrightarrow> delimited (comma_items ts @ c # r)"
  by (cases ts) (auto simp: comma_items_def delimited_def)

text \<open>The text of each item of the first list determines the item and what follows it.\<close>

definition determines :: "('a \<Rightarrow> py_exc + string) \<Rightarrow> ('a \<Rightarrow> bool) \<Rightarrow> ('a \<Rightarrow> 'b) \<Rightarrow> 'a \<Rightarrow> bool" where
  "determines f ok g x =
     (\<forall>y t u r r'. f x = Inr t \<longrightarrow> f y = Inr u \<longrightarrow> ok y \<longrightarrow> t @ r = u @ r' \<longrightarrow> delimited r \<longrightarrow> delimited r' \<longrightarrow> g x = g y \<and> r = r')"

lemma determinesD:
  "determines f ok g x \<Longrightarrow> f x = Inr t \<Longrightarrow> f y = Inr u \<Longrightarrow> ok y \<Longrightarrow> t @ r = u @ r' \<Longrightarrow> delimited r \<Longrightarrow> delimited r' \<Longrightarrow> g x = g y \<and> r = r'"
  by (simp add: determines_def)

lemma comma_items_prefix:
  assumes "\<forall>x \<in> set xs. determines f ok g x" and "\<forall>y \<in> set ys. ok y"
    and "res_map f xs = Inr ts" and "res_map f ys = Inr us" and "c \<in> set '']}''"
    and "comma_items ts @ c # r = comma_items us @ c # r'"
  shows "map g xs = map g ys \<and> r = r'"
  using assms(1-4,6)
proof (induction xs arbitrary: ys ts us)
  case Nil
  then show ?case using assms(5) by (cases ys) (auto simp: comma_items_def res_bind_Inr_iff)
next
  case (Cons x xs)
  then obtain t ts' where t: "ts = t # ts'" "f x = Inr t" "res_map f xs = Inr ts'" by (auto simp: res_bind_Inr_iff)
  show ?case
  proof (cases ys)
    case Nil
    then show ?thesis using Cons.prems assms(5) by (auto simp: comma_items_def t)
  next
    case (Cons y ys')
    then obtain u us' where u: "us = u # us'" "f y = Inr u" "res_map f ys' = Inr us'"
      using Cons.prems(4) by (auto simp: res_bind_Inr_iff)
    have eq: "t @ (comma_items ts' @ c # r) = u @ (comma_items us' @ c # r')"
      using Cons.prems(5) by (simp add: t u comma_items_def)
    have ok: "determines f ok g x" "ok y" using Cons.prems(1,2) Cons by simp_all
    have "g x = g y \<and> comma_items ts' @ c # r = comma_items us' @ c # r'"
      by (rule determinesD [OF ok(1) t(2) u(2) ok(2) eq]) (rule delimited_items [OF assms(5)])+
    then show ?thesis using Cons.IH [of ys' ts' us'] Cons.prems(1,2) t(3) u(3) Cons by simp
  qed
qed

lemma join_prefix:
  assumes "\<forall>x \<in> set xs. determines f ok g x" and "\<forall>y \<in> set ys. ok y"
    and "res_map f xs = Inr ts" and "res_map f ys = Inr us" and "c \<in> set '']}''"
    and "\<forall>t \<in> set ts \<union> set us. \<exists>h u. t = h # u \<and> h \<notin> set '',]}:''"
    and "join '','' ts @ c # r = join '','' us @ c # r'"
  shows "map g xs = map g ys \<and> r = r'"
proof (cases "ts = [] \<or> us = []")
  case True
  have "ts = [] \<and> us = []"
  proof (rule ccontr)
    assume "\<not> (ts = [] \<and> us = [])"
    then consider t ts' where "ts = t # ts'" "us = []" | u us' where "us = u # us'" "ts = []"
      using True by (metis neq_Nil_conv)
    then show False using assms(5-7) by cases (auto simp: join_def)
  qed
  then show ?thesis using assms(3,4,7) res_map_length [of f xs ts] res_map_length [of f ys us] by (simp add: join_def)
next
  case False
  then have "comma_items ts @ c # r = comma_items us @ c # r'"
    using assms(7) by (cases ts; cases us) (auto simp: join_comma comma_items_def)
  then show ?thesis by (rule comma_items_prefix [OF assms(1-5)])
qed

definition dict_item :: "string \<times> pyval \<Rightarrow> py_exc + string" where
  "dict_item kv = res_bind (json_dumps (snd kv)) (\<lambda>t. Inr (json_str (fst kv) @ '':'' @ t))"

lemma res_map_elem: "res_map f xs = Inr ts \<Longrightarrow> t \<in> set ts \<Longrightarrow> \<exists>x \<in> set xs. f x = Inr t"
  by (induction xs arbitrary: ts) (auto simp: res_bind_Inr_iff)

lemma value_head: "json_dumps v = Inr t \<Longrightarrow> float_free v \<Longrightarrow> \<exists>h u. t = h # u \<and> h \<notin> set '',]}:''"
  by (metis json_dumps_head starts_value_kind)

lemma item_head: "dict_item kv = Inr t \<Longrightarrow> \<exists>h u. t = h # u \<and> h \<notin> set '',]}:''"
  by (auto simp: dict_item_def res_bind_Inr_iff json_str_def)

definition same_kind :: "pyval \<Rightarrow> pyval \<Rightarrow> bool" where
  "same_kind v w =
     (case v of PNone \<Rightarrow> w = PNone | PBool b \<Rightarrow> w = PBool b | PInt _ \<Rightarrow> (\<exists>i. w = PInt i) | PStr _ \<Rightarrow> (\<exists>s. w = PStr s)
      | PList _ \<Rightarrow> (\<exists>vs. w = PList vs) | PDict _ \<Rightarrow> (\<exists>d. w = PDict d) | PFloat _ \<Rightarrow> False)"

lemma starts_same_kind: "starts_value v c \<Longrightarrow> starts_value w c \<Longrightarrow> same_kind v w"
  by (cases v; cases w) (auto simp: same_kind_def starts_value_def number_char_def is_digit_def split: if_splits)

lemma same_text_kind:
  assumes "json_dumps v = Inr t" and "json_dumps w = Inr u" and "float_free v" and "float_free w" and "t @ r = u @ r'"
  shows "same_kind v w"
  using assms(5) json_dumps_head [OF assms(1,3)] json_dumps_head [OF assms(2,4)] starts_same_kind
  by (metis append_Cons list.inject)

lemma json_dumps_prefix: "float_free v \<Longrightarrow> determines json_dumps float_free canon v"
proof (induction v rule: canon.induct)
  case (1 vs)
  show ?case unfolding determines_def
  proof (intro allI impI)
    fix w t u r r'
    assume t: "json_dumps (PList vs) = Inr t" and u: "json_dumps w = Inr u" and ok: "float_free w" and eq: "t @ r = u @ r'"
    obtain ts where ts: "res_map json_dumps vs = Inr ts" "t = ''['' @ join '','' ts @ '']''"
      using t by (auto simp: res_bind_Inr_iff)
    obtain ws where w: "w = PList ws"
      using same_text_kind [OF t u 1(2) ok eq] by (auto simp: same_kind_def)
    obtain us where us: "res_map json_dumps ws = Inr us" "u = ''['' @ join '','' us @ '']''"
      using u w by (auto simp: res_bind_Inr_iff)
    have "map canon vs = map canon ws \<and> r = r'"
    proof (rule join_prefix [OF _ _ ts(1) us(1), of float_free canon "CHR '']''"])
      show "\<forall>x \<in> set vs. determines json_dumps float_free canon x" using 1 by (simp add: list_all_iff)
      show "\<forall>y \<in> set ws. float_free y" using ok w by (simp add: list_all_iff)
      show "\<forall>t \<in> set ts \<union> set us. \<exists>h u. t = h # u \<and> h \<notin> set '',]}:''"
        using res_map_elem [OF ts(1)] res_map_elem [OF us(1)] value_head 1(2) ok w by (fastforce simp: list_all_iff)
      show "join '','' ts @ CHR '']'' # r = join '','' us @ CHR '']'' # r'" using eq ts(2) us(2) by simp
    qed simp
    then show "canon (PList vs) = canon w \<and> r = r'" using w by simp
  qed
next
  case (2 d)
  show ?case unfolding determines_def
  proof (intro allI impI)
    fix w t u r r'
    assume t: "json_dumps (PDict d) = Inr t" and u: "json_dumps w = Inr u" and ok: "float_free w" and eq: "t @ r = u @ r'"
    obtain ts where ts: "res_map dict_item (sort_key fst d) = Inr ts" "t = ''{'' @ join '','' ts @ ''}''"
      using t by (auto simp: res_bind_Inr_iff dict_item_def [abs_def])
    obtain e where w: "w = PDict e"
      using same_text_kind [OF t u 2(2) ok eq] by (auto simp: same_kind_def)
    obtain us where us: "res_map dict_item (sort_key fst e) = Inr us" "u = ''{'' @ join '','' us @ ''}''"
      using u w by (auto simp: res_bind_Inr_iff dict_item_def [abs_def])
    have "determines dict_item (\<lambda>kv. float_free (snd kv)) (\<lambda>kv. (fst kv, canon (snd kv))) kv" if kv: "kv \<in> set d" for kv
    proof -
      have v: "determines json_dumps float_free canon (snd kv)" using 2 kv by (simp add: list_all_iff)
      show ?thesis unfolding determines_def
      proof (intro allI impI)
        fix y t u r r'
        assume "dict_item kv = Inr t" "dict_item y = Inr u" and y: "float_free (snd y)" and eq: "t @ r = u @ r'"
          and del: "delimited r" "delimited r'"
        then obtain a b where a: "json_dumps (snd kv) = Inr a" "t = json_str (fst kv) @ '':'' @ a"
          and b: "json_dumps (snd y) = Inr b" "u = json_str (fst y) @ '':'' @ b"
          by (auto simp: dict_item_def res_bind_Inr_iff)
        have "fst kv = fst y" "a @ r = b @ r'"
          using json_str_prefix [of "fst kv" "'':'' @ a @ r" "fst y" "'':'' @ b @ r'"] eq a(2) b(2) by simp_all
        then show "(fst kv, canon (snd kv)) = (fst y, canon (snd y)) \<and> r = r'"
          using determinesD [OF v a(1) b(1) y _ del] by simp
      qed
    qed
    note det = this
    have "map (\<lambda>kv. (fst kv, canon (snd kv))) (sort_key fst d) = map (\<lambda>kv. (fst kv, canon (snd kv))) (sort_key fst e) \<and> r = r'"
    proof (rule join_prefix [OF _ _ ts(1) us(1), of "\<lambda>kv. float_free (snd kv)" _ "CHR ''}''"])
      show "\<forall>kv \<in> set (sort_key fst d). determines dict_item (\<lambda>kv. float_free (snd kv)) (\<lambda>kv. (fst kv, canon (snd kv))) kv"
        using det by simp
      show "\<forall>kv \<in> set (sort_key fst e). float_free (snd kv)" using ok w by (simp add: list_all_iff)
      show "\<forall>t \<in> set ts \<union> set us. \<exists>h u. t = h # u \<and> h \<notin> set '',]}:''"
        using res_map_elem [OF ts(1)] res_map_elem [OF us(1)] item_head by blast
      show "join '','' ts @ CHR ''}'' # r = join '','' us @ CHR ''}'' # r'" using eq ts(2) us(2) by simp
    qed simp
    then show "canon (PDict d) = canon w \<and> r = r'" using w by simp
  qed
next
  case (5 i)
  show ?case unfolding determines_def
  proof (intro allI impI)
    fix w t u r r'
    assume t: "json_dumps (PInt i) = Inr t" and u: "json_dumps w = Inr u" and ok: "float_free w" and eq: "t @ r = u @ r'"
      and del: "delimited r" "delimited r'"
    obtain j where "w = PInt j" using same_text_kind [OF t u _ ok eq] by (auto simp: same_kind_def)
    then show "canon (PInt i) = canon w \<and> r = r'" using int_str_prefix [of i r j r', OF _ del] eq t u by simp
  qed
next
  case (7 s)
  show ?case unfolding determines_def
  proof (intro allI impI)
    fix w t u r r'
    assume t: "json_dumps (PStr s) = Inr t" and u: "json_dumps w = Inr u" and ok: "float_free w" and eq: "t @ r = u @ r'"
    obtain s' where "w = PStr s'" using same_text_kind [OF t u _ ok eq] by (auto simp: same_kind_def)
    then show "canon (PStr s) = canon w \<and> r = r'" using json_str_prefix [of s r s' r'] eq t u by simp
  qed
next
  case 3
  show ?case unfolding determines_def using same_text_kind [of PNone] by (fastforce simp: same_kind_def)
next
  case (4 b)
  show ?case unfolding determines_def using same_text_kind [of "PBool b"] by (fastforce simp: same_kind_def)
qed simp

text \<open>Equal texts have the same canonical document; the look-ups of a dictionary follow.\<close>

theorem json_dumps_determines:
  assumes "float_free v" and "float_free w" and "json_dumps v = Inr t" and "json_dumps w = Inr t"
  shows "canon v = canon w"
  using determinesD [OF json_dumps_prefix [OF assms(1)] assms(3,4,2), of "[]" "[]"] by (simp add: delimited_def)

lemma map_of_sort_key: "dict_ok d \<Longrightarrow> map_of (sort_key fst d) k = map_of d k"
proof -
  assume d: "dict_ok d"
  have "dict_ok (sort_key fst d)" using d by (metis distinct_map distinct_sort inj_on_convol_ident set_sort)
  then have "map_of (sort_key fst d) = map_of d" using d by (subst map_of_inject_set) auto
  then show ?thesis by simp
qed

lemma map_of_map_snd: "map_of (map (\<lambda>kv. (fst kv, f (snd kv))) d) k = map_option f (map_of d k)"
  by (induction d) auto

lemma canon_dict_lookup:
  assumes "canon (PDict d) = canon (PDict e)" and "dict_ok d" and "dict_ok e"
  shows "map_option canon (map_of d k) = map_option canon (map_of e k)"
proof -
  have "map_of (map (\<lambda>kv. (fst kv, canon (snd kv))) (sort_key fst d)) k =
      map_of (map (\<lambda>kv. (fst kv, canon (snd kv))) (sort_key fst e)) k" using assms(1) by simp
  then show ?thesis by (simp add: map_of_map_snd map_of_sort_key assms(2,3))
qed

end
