(* ===== verification/Quarantine_Facts.thy ===== *)
theory Quarantine_Facts
  imports Quarantine_Build Json_Text
begin

text \<open>
  What the historical quarantine guarantees: the bytes a row is hashed from determine the row,
  the manifest that is written is the one that is accepted, an accepted manifest is the approved
  one, and the overlap check is exact but for rows of the two sides that would collide under SHA-256.
\<close>

section \<open>Rows and their bytes\<close>

lemma length_f64_bytes [simp]: "length (f64_bytes w) = 8"
  by (simp add: f64_bytes_def)

lemma f64_bytes_nth: "i < 8 \<Longrightarrow> f64_bytes w ! i = char_of (unat (drop_bit (8 * i) w AND 0xFF))"
  by (simp add: f64_bytes_def)

lemma f64_bytes_inject [simp]: "f64_bytes v = f64_bytes w \<longleftrightarrow> v = w"
proof
  assume eq: "f64_bytes v = f64_bytes w"
  show "v = w"
  proof (rule bit_word_eqI)
    fix n assume n: "n < LENGTH(64)"
    define i where "i = n div 8"
    have i: "i < 8" "8 * i + n mod 8 = n" using n by (auto simp: i_def)
    have "unat (drop_bit (8 * i) u AND 0xFF) < 256" for u :: u64
    proof -
      have "drop_bit (8 * i) u AND 0xFF \<le> 0xFF" by (rule word_and_le1)
      then show ?thesis by (simp add: word_le_nat_alt)
    qed
    moreover have "(char_of (unat (drop_bit (8 * i) v AND 0xFF)) :: char) = char_of (unat (drop_bit (8 * i) w AND 0xFF))"
      using eq f64_bytes_nth [OF i(1), of v] f64_bytes_nth [OF i(1), of w] by simp
    ultimately have "drop_bit (8 * i) v AND 0xFF = drop_bit (8 * i) w AND (0xFF :: u64)"
      by (metis mod_less of_char_of word_unat_eq_iff)
    then have "bit (drop_bit (8 * i) v AND 0xFF) (n mod 8) = bit (drop_bit (8 * i) w AND (0xFF :: u64)) (n mod 8)" by simp
    moreover have "bit (0xFF :: u64) (n mod 8)"
    proof -
      have "n mod 8 \<in> {0..<8}" by simp
      then show ?thesis by (auto simp: atLeastLessThan_nat_numeral bit_numeral_rec)
    qed
    ultimately show "bit v n = bit w n" using i(2) by (simp add: bit_and_iff bit_drop_bit_eq)
  qed
qed simp

lemma concat_map_inject:
  assumes "concat (map f xs) = concat (map f ys)" and "length xs = length ys"
    and "\<And>x. length (f x) = k" and "\<And>x y. f x = f y \<Longrightarrow> x = y"
  shows "xs = ys"
  using assms(2, 1)
proof (induction xs ys rule: list_induct2)
  case (Cons x xs y ys)
  then show ?case using assms(3) [of x] assms(3) [of y] assms(4) by auto
qed simp

lemma length_row_features:
  "length (dr_features r) = n \<Longrightarrow> length (concat (map f64_bytes (dr_features r))) = 8 * n"
  by (simp add: length_concat_const)

lemma row_bytes_inject:
  assumes "row_bytes r = row_bytes s" and "length (dr_features r) = length (dr_features s)"
    and "dr_label r \<in> {0, 1}" and "dr_label s \<in> {0, 1}"
  shows "r = s"
proof -
  have "concat (map f64_bytes (dr_features r)) = concat (map f64_bytes (dr_features s))"
    and l: "(char_of (nat (dr_label r)) :: char) = char_of (nat (dr_label s))"
    using assms(1) length_row_features [OF assms(2)] length_row_features [OF refl, of s] by (auto simp: row_bytes_def)
  then have "dr_features r = dr_features s"
    using assms(2) by (rule_tac concat_map_inject [of f64_bytes]) auto
  moreover have "dr_label r = dr_label s" using l assms(3,4) by (auto simp: char_of_eq_iff)
  ultimately show ?thesis by simp
qed

section \<open>Digests of a list of hashes\<close>

lemma all_sha_row_hashes [simp]: "list_all is_sha256 (map row_hash rows)"
  by (simp add: list_all_iff row_hash_def)

lemma row_hashes_checksum_ok: "list_all is_sha256 hs \<Longrightarrow> \<exists>c. row_hashes_checksum hs = Inr c \<and> is_sha256 c"
  by (auto simp: row_hashes_checksum_def Let_def list_ex_iff list_all_iff)

lemma row_hashes_checksum_sort [simp]: "row_hashes_checksum (sort hs) = row_hashes_checksum hs"
  by (simp add: row_hashes_checksum_def sorted_sort_id)

lemma string_list_of_strings [simp]: "string_list_of (PList (map PStr hs)) = Some hs"
proof -
  have "those (map str_of (map PStr hs)) = Some hs" by (induction hs) (simp_all add: str_of_def)
  then show ?thesis by (simp add: string_list_of_def)
qed

lemma canonical_row_hashes_Inr: "canonical_row_hashes rows = Inr hs \<longleftrightarrow> validate_rows rows = Inr () \<and> hs = map row_hash rows"
  by (auto simp: canonical_row_hashes_def res_bind_Inr_iff)

lemma validate_rows_labels: "validate_rows rows = Inr () \<Longrightarrow> r \<in> set rows \<Longrightarrow> dr_label r \<in> {0, 1}"
  by (auto simp: validate_rows_def list_all_iff split: if_splits)

lemma fraud_count_bounds:
  assumes "list_all (\<lambda>r. dr_label r = 0 \<or> dr_label r = 1) rows"
  shows "0 \<le> sum_list (map dr_label rows) \<and> sum_list (map dr_label rows) \<le> int (length rows)"
  using assms by (induction rows) auto

lemma json_plain_dtype_contract [simp]: "json_plain dtype_contract"
  by (simp add: dtype_contract_def ALL_FEATURES_def PCA_FEATURES_def TIME_COLUMN_def AMOUNT_COLUMN_def) code_simp

section \<open>The manifest round trip\<close>

text \<open>Source records as \<open>read_aligned_historical_split\<close> makes them.\<close>

definition sources_ok :: "(string, pyval) dict \<Rightarrow> bool" where
  "sources_ok src = (set (map fst src) = {''x_test'', ''y_test''} \<and> (\<forall>v \<in> set (map snd src). \<exists>n. check_source_record v = Inr n))"

lemma source_record_checked:
  assumes "source_record name (h, n) = Inr v" and "is_sha256 h" and "0 < n"
  shows "check_source_record v = Inr name"
  using assms by (auto simp: source_record_def check_source_record_def safe_basename_def res_bind_Inr_iff py_get_def
      is_sha_value_def split: if_splits)

lemma aligned_split_sources:
  assumes "read_aligned_historical_split read_x read_y fx fy = Inr (rows, src)"
    and "0 < st_size (fp_after (sf_probe1 fx))" and "0 < st_size (fp_after (sf_probe1 fy))"
  shows "sources_ok src" and "validate_rows rows = Inr ()"
proof -
  from assms(1) obtain vx vy where v: "src = [(''x_test'', vx), (''y_test'', vy)]"
      "source_record (sf_name fx) (sha256_hex (fp_bytes (sf_probe1 fx)), st_size (fp_after (sf_probe1 fx))) = Inr vx"
      "source_record (sf_name fy) (sha256_hex (fp_bytes (sf_probe1 fy)), st_size (fp_after (sf_probe1 fy))) = Inr vy"
      "validate_rows rows = Inr ()"
    by (auto simp: read_aligned_historical_split_def res_bind_Inr_iff stable_file_identity_def Let_def split: if_splits)
  show "sources_ok src" using source_record_checked [OF v(2)] source_record_checked [OF v(3)] assms(2,3)
    by (auto simp: sources_ok_def v(1))
  show "validate_rows rows = Inr ()" by (rule v(4))
qed

lemma res_map_all: "\<forall>v \<in> set vs. \<exists>n. f v = Inr n \<Longrightarrow> \<exists>ns. res_map f vs = Inr ns"
  by (induction vs) auto

lemma quarantine_payload_Inr:
  "quarantine_payload rows src = Inr d \<Longrightarrow>
     validate_rows rows = Inr () \<and>
     (\<exists>c. row_hashes_checksum (map row_hash rows) = Inr c \<and>
       py_get d ''row_hashes'' = PList (map PStr (sort (map row_hash rows))) \<and> py_get d ''row_hashes_sha256'' = PStr c \<and>
       py_get d ''total_row_count'' = PInt (int (length rows)) \<and> py_get d ''fraud_count'' = PInt (sum_list (map dr_label rows)) \<and>
       py_get d ''unique_row_count'' = PInt (int (card (set (map row_hash rows)))) \<and>
       py_get d ''duplicate_row_count'' = PInt (int (length rows) - int (card (set (map row_hash rows)))) \<and>
       py_get d ''sources'' = PDict src \<and> set (map fst d) = set MANIFEST_FIELDS \<and> manifest_contract_ok d)"
  by (auto simp: quarantine_payload_def res_bind_Inr_iff canonical_row_hashes_Inr Let_def py_get_def manifest_contract_ok_def
      MANIFEST_FIELDS_def py_eq_refl simp del: py_eq.simps)

lemma payload_validates:
  assumes "quarantine_payload rows src = Inr d" and "sources_ok src"
  shows "validate_quarantine_payload d = Inr (sort (map row_hash rows), int (card (set (map row_hash rows))))"
proof -
  let ?hs = "sort (map row_hash rows)"
  from quarantine_payload_Inr [OF assms(1)] obtain c where v: "validate_rows rows = Inr ()"
    and c: "row_hashes_checksum (map row_hash rows) = Inr c" and d: "py_get d ''row_hashes'' = PList (map PStr ?hs)"
      "py_get d ''row_hashes_sha256'' = PStr c" "py_get d ''total_row_count'' = PInt (int (length rows))"
      "py_get d ''fraud_count'' = PInt (sum_list (map dr_label rows))"
      "py_get d ''unique_row_count'' = PInt (int (card (set (map row_hash rows))))"
      "py_get d ''duplicate_row_count'' = PInt (int (length rows) - int (card (set (map row_hash rows))))"
      "py_get d ''sources'' = PDict src" "set (map fst d) = set MANIFEST_FIELDS" "manifest_contract_ok d"
    by (elim conjE exE)
  have "list_all is_sha256 ?hs" by (simp add: list_all_iff row_hash_def)
  then have h: "manifest_hashes (py_get d ''row_hashes'') = Some ?hs"
    by (simp add: manifest_hashes_def d(1) sorted_sort_id)
  have "list_all (\<lambda>r. dr_label r = 0 \<or> dr_label r = 1) rows" using v by (simp add: validate_rows_def split: if_splits)
  then have k: "manifest_counts_ok d ?hs" using fraud_count_bounds [of rows] by (simp add: manifest_counts_ok_def d c)
  from assms(2) obtain ns where "res_map (check_source_record \<circ> snd) src = Inr ns"
    using res_map_all [of src "check_source_record \<circ> snd"] by (auto simp: sources_ok_def)
  then show ?thesis using assms(2) h k d(7-9)
    by (simp add: validate_quarantine_payload_def sources_ok_def)
qed

text \<open>
  A manifest built from the historical rows is exactly what the reader accepts: it gives
  back the sorted hashes of those rows and the number of distinct ones.
\<close>

theorem quarantine_manifest_round_trip:
  assumes "quarantine_payload rows src = Inr d" and "sources_ok src"
  shows "validate_quarantine_payload d = Inr (sort (map row_hash rows), int (card (set (map row_hash rows))))"
  using assms by (rule payload_validates)

definition sample_row :: "u64 \<Rightarrow> int \<Rightarrow> data_row" where
  "sample_row amount label = \<lparr>dr_features = map (\<lambda>_. 0) [1..29] @ [amount], dr_label = label\<rparr>"

definition sample_sources :: "(string, pyval) dict" where
  "sample_sources = map (\<lambda>(k, n). (k, PDict [(''filename'', PStr n), (''sha256'', PStr (sha256_hex n)), (''size_bytes'', PInt 7)]))
     [(''x_test'', ''X_test.parquet''), (''y_test'', ''y_test.parquet'')]"

lemma sample_sources_ok: "sources_ok sample_sources"
  by (auto simp: sources_ok_def sample_sources_def check_source_record_def is_sha_value_def safe_basename_def py_get_def
      safe_basename_ok_def windows_drive_def)

lemma sample_rows_valid:
  "validate_rows [sample_row 0 0, sample_row 5 1, sample_row 0 0] = Inr ()"
  "validate_rows [sample_row 5 1, sample_row 9 0] = Inr ()"
  "validate_rows [sample_row 9 1] = Inr ()"
  by code_simp+

lemma quarantine_payload_exists: "validate_rows rows = Inr () \<Longrightarrow> \<exists>d. quarantine_payload rows src = Inr d"
  using row_hashes_checksum_ok [OF all_sha_row_hashes, of rows]
  by (auto simp: quarantine_payload_def canonical_row_hashes_def Let_def)

theorem quarantine_manifest_round_trip_witness:
  "\<exists>d. quarantine_payload [sample_row 0 0, sample_row 5 1, sample_row 0 0] sample_sources = Inr d \<and>
     validate_quarantine_payload d = Inr (sort (map row_hash [sample_row 0 0, sample_row 5 1, sample_row 0 0]),
       int (card (set (map row_hash [sample_row 0 0, sample_row 5 1, sample_row 0 0]))))"
proof -
  obtain d where d: "quarantine_payload [sample_row 0 0, sample_row 5 1, sample_row 0 0] sample_sources = Inr d"
    using quarantine_payload_exists [OF sample_rows_valid(1)] by blast
  then show ?thesis using quarantine_manifest_round_trip [OF d sample_sources_ok] by blast
qed

section \<open>The overlap check\<close>

lemma shared_hash:
  assumes "row_hash r = row_hash s" and "row_bytes r = row_bytes s \<or> sha256_hex (row_bytes r) \<noteq> sha256_hex (row_bytes s)"
    and "length (dr_features r) = length (dr_features s)" "dr_label r \<in> {0, 1}" "dr_label s \<in> {0, 1}"
  shows "r = s"
  using assms row_bytes_inject [of r s] by (auto simp: row_hash_def)

lemma require_no_overlap_iff:
  assumes "validate_rows rows = Inr ()"
  shows "require_no_overlap rows q = Inr q' \<longleftrightarrow> q' = q \<and> set (map row_hash rows) \<inter> tq_row_hashes q = {}"
  using assms by (auto simp: require_no_overlap_def canonical_row_hashes_def Let_def)

text \<open>
  C29. The training guard is exact: against a quarantine whose hashes come from the manifest of
  the historical rows, a valid frame passes precisely when it shares no row with them, label
  and every bit of every feature compared; if it refuses a frame that shares none, a row of the
  frame and a historical row have different bytes with one SHA-256 digest.
\<close>

theorem overlap_check_is_exact:
  assumes "quarantine_payload historical src = Inr d" and "validate_quarantine_payload d = Inr (hs, u)"
    and "tq_row_hashes q = set hs" and "sources_ok src"
    and "canonical_frame historical" and "canonical_frame rows" and "validate_rows rows = Inr ()"
  shows "(require_no_overlap rows q = Inr q \<longrightarrow> set rows \<inter> set historical = {}) \<and>
    (set rows \<inter> set historical = {} \<longrightarrow> require_no_overlap rows q = Inr q \<or>
      (\<exists>r \<in> set rows. \<exists>s \<in> set historical. row_bytes r \<noteq> row_bytes s \<and> sha256_hex (row_bytes r) = sha256_hex (row_bytes s)))"
proof -
  have valid: "validate_rows historical = Inr ()" using quarantine_payload_Inr [OF assms(1)] by (elim conjE)
  have "set hs = set (map row_hash historical)" using payload_validates [OF assms(1,4)] assms(2) by simp
  then have q: "require_no_overlap rows q = Inr q \<longleftrightarrow> row_hash ` set rows \<inter> row_hash ` set historical = {}"
    using require_no_overlap_iff [OF assms(7), of q q] assms(3) by simp
  have "r = s" if "r \<in> set rows" "s \<in> set historical" "row_hash r = row_hash s"
    "row_bytes r = row_bytes s \<or> sha256_hex (row_bytes r) \<noteq> sha256_hex (row_bytes s)" for r s
    using shared_hash [OF that(3,4)] that(1,2) assms(5,6) validate_rows_labels [OF valid] validate_rows_labels [OF assms(7)]
    by (simp add: canonical_frame_def list_all_iff)
  then show ?thesis using q by blast
qed

theorem overlap_check_is_exact_witness:
  "\<exists>d hs u q. quarantine_payload [sample_row 0 0, sample_row 5 1, sample_row 0 0] sample_sources = Inr d \<and>
     validate_quarantine_payload d = Inr (hs, u) \<and> tq_row_hashes q = set hs \<and>
     require_no_overlap [sample_row 5 1, sample_row 9 0] q \<noteq> Inr q"
proof -
  let ?h = "[sample_row 0 0, sample_row 5 1, sample_row 0 0]"
  obtain d where d: "quarantine_payload ?h sample_sources = Inr d"
    using quarantine_payload_exists [OF sample_rows_valid(1)] by blast
  obtain hs u where v: "validate_quarantine_payload d = Inr (hs, u)"
    using payload_validates [OF d sample_sources_ok] by blast
  obtain q :: test_quarantine where q: "tq_row_hashes q = set hs"
    by (metis (full_types) test_quarantine.select_convs(1))
  have c: "canonical_frame ?h" "canonical_frame [sample_row 5 1, sample_row 9 0]"
    by (simp_all add: canonical_frame_def sample_row_def)
  have "require_no_overlap [sample_row 5 1, sample_row 9 0] q \<noteq> Inr q"
    using overlap_check_is_exact [OF d v q sample_sources_ok c sample_rows_valid(2)] by auto
  then show ?thesis using d v q by blast
qed

section \<open>The approved quarantine\<close>

lemma anchor_of_Inr:
  "anchor_of doc = Inr a \<Longrightarrow>
     qa_total_row_count a = HISTORICAL_TEST_ROWS \<and> qa_fraud_count a = HISTORICAL_TEST_FRAUD \<and>
     qa_total_row_count a = qa_unique_row_count a + qa_duplicate_row_count a \<and> 0 < qa_unique_row_count a \<and>
     0 \<le> qa_duplicate_row_count a \<and> is_sha256 (qa_row_hashes_sha256 a) \<and> qa_sha256 a = rd_sha256 doc \<and>
     set (map fst (qa_source_sha256 a)) = {''x_test'', ''y_test''} \<and> list_all (is_sha_value \<circ> snd) (qa_source_sha256 a) \<and>
     py_get (rd_payload doc) ''approval_status'' = PStr ''approved''"
  by (simp add: anchor_of_def Let_def anchor_counts_ok_def split: if_split_asm option.split_asm prod.split_asm) (clarsimp; fail)

lemma read_json_sha256: "read_json_bytes loads name f label = Inr doc \<Longrightarrow> is_sha256 (rd_sha256 doc)"
  by (cases "regular_file name f label ''.json''"; simp add: read_json_bytes_def split: sum.split_asm pyval.split_asm) auto

lemma anchor_sha256: "load_historical_quarantine_anchor loads f = Inr a \<Longrightarrow> is_sha256 (qa_sha256 a)"
  using anchor_of_Inr read_json_sha256 by (fastforce simp: load_historical_quarantine_anchor_def res_bind_Inr_iff)

lemma manifest_counts_Inr:
  assumes "manifest_counts_ok d hs"
  shows "\<exists>t g w dup c. py_get d ''total_row_count'' = PInt t \<and> py_get d ''fraud_count'' = PInt g \<and>
    py_get d ''unique_row_count'' = PInt w \<and> py_get d ''duplicate_row_count'' = PInt dup \<and>
    row_hashes_checksum hs = Inr c \<and> py_get d ''row_hashes_sha256'' = PStr c \<and>
    t = int (length hs) \<and> w = int (card (set hs)) \<and> dup = int (length hs) - int (card (set hs))"
  using assms by (simp add: manifest_counts_ok_def split: pyval.split_asm sum.split_asm)

text \<open>
  A quarantine manifest that loads is the approved one: it belongs to an anchor marked as
  approved, has that anchor's digest of its row hashes and the predeclared counts, and its set
  of hashes is complete for them, one hash per distinct row.
\<close>

theorem loaded_quarantine_is_the_approved_one:
  assumes "load_historical_quarantine_manifest loads anchor_file name f = Inr q"
  shows "\<exists>a. load_historical_quarantine_anchor loads anchor_file = Inr a \<and>
    tq_row_hashes_sha256 q = qa_row_hashes_sha256 a \<and> tq_anchor_sha256 q = qa_sha256 a \<and>
    tq_total_row_count q = HISTORICAL_TEST_ROWS \<and> tq_fraud_count q = HISTORICAL_TEST_FRAUD \<and>
    int (card (tq_row_hashes q)) = tq_unique_row_count q \<and> tq_unique_row_count q = qa_unique_row_count a \<and>
    tq_unique_row_count q + tq_duplicate_row_count q = HISTORICAL_TEST_ROWS \<and>
    (\<exists>hs. set hs = tq_row_hashes q \<and> int (length hs) = HISTORICAL_TEST_ROWS \<and>
      row_hashes_checksum hs = Inr (qa_row_hashes_sha256 a))"
proof -
  obtain a where a: "load_historical_quarantine_anchor loads anchor_file = Inr a"
    using assms by (auto simp: load_historical_quarantine_manifest_def res_bind_Inr_iff)
  obtain doc where doc: "read_json_bytes loads name f ''Historical quarantine manifest'' = Inr doc"
    using assms a by (auto simp: load_historical_quarantine_manifest_def res_bind_Inr_iff)
  obtain hs u where v: "validate_quarantine_payload (rd_payload doc) = Inr (hs, u)"
    using assms a doc by (auto simp: load_historical_quarantine_manifest_def res_bind_Inr_iff)
  have m: "require_anchor_match (rd_payload doc) a = Inr ()"
    using assms a doc v by (auto simp: load_historical_quarantine_manifest_def res_bind_Inr_iff)
  then have q: "tq_row_hashes q = set hs" "tq_total_row_count q = int_field (rd_payload doc) ''total_row_count''"
      "tq_fraud_count q = int_field (rd_payload doc) ''fraud_count''" "tq_unique_row_count q = u"
      "tq_duplicate_row_count q = int_field (rd_payload doc) ''duplicate_row_count''"
      "tq_row_hashes_sha256 q = str_field (rd_payload doc) ''row_hashes_sha256''" "tq_anchor_sha256 q = qa_sha256 a"
    using assms a doc v by (auto simp: load_historical_quarantine_manifest_def)
  have u: "u = int (card (set hs))" and k: "manifest_counts_ok (rd_payload doc) hs"
    using v by (auto simp: validate_quarantine_payload_def res_bind_Inr_iff split: if_splits option.splits pyval.splits)
  obtain i where i: "anchor_of i = Inr a" using a by (auto simp: load_historical_quarantine_anchor_def res_bind_Inr_iff)
  obtain t g w dup c where d: "py_get (rd_payload doc) ''total_row_count'' = PInt t" "py_get (rd_payload doc) ''fraud_count'' = PInt g"
      "py_get (rd_payload doc) ''unique_row_count'' = PInt w" "py_get (rd_payload doc) ''duplicate_row_count'' = PInt dup"
      "row_hashes_checksum hs = Inr c" "py_get (rd_payload doc) ''row_hashes_sha256'' = PStr c" "t = int (length hs)" "w = u"
      "dup = int (length hs) - u"
    using manifest_counts_Inr [OF k] u by blast
  have e: "t = HISTORICAL_TEST_ROWS" "g = HISTORICAL_TEST_FRAUD" "u = qa_unique_row_count a" "c = qa_row_hashes_sha256 a"
    using m anchor_of_Inr [OF i] d by (simp_all add: require_anchor_match_def split: if_splits)
  show ?thesis
    using a q d e u by (intro exI [of _ a] conjI exI [of _ hs]) (simp_all add: int_field_def str_field_def)
qed

definition many_hashes :: "string list" where
  "many_hashes = replicate (nat HISTORICAL_TEST_ROWS) (sha256_hex [])"

lemma many_hashes [simp]:
  "length many_hashes = 42722" "set many_hashes = {sha256_hex []}" "sort many_hashes = many_hashes"
  "list_all is_sha256 many_hashes"
  by (simp_all add: many_hashes_def HISTORICAL_TEST_ROWS_def sorted_sort_id list_all_iff)

definition sample_anchor :: "string \<Rightarrow> (string, pyval) dict" where
  "sample_anchor c = [(''anchor_format_version'', PStr ''1''), (''approval_status'', PStr ''approved''),
     (''quarantine_format_version'', PStr ''1''), (''row_hash_algorithm'', PStr ROW_HASH_ALGORITHM),
     (''dtype_contract'', dtype_contract),
     (''source_sha256'', PDict [(''x_test'', PStr (sha256_hex ''X_test.parquet'')), (''y_test'', PStr (sha256_hex ''y_test.parquet''))]),
     (''row_hashes_sha256'', PStr c), (''total_row_count'', PInt 42722), (''fraud_count'', PInt 74),
     (''unique_row_count'', PInt 1), (''duplicate_row_count'', PInt 42721),
     (''reviewed_by'', PStr ''reviewer''), (''review_reference'', PStr ''review-1'')]"

definition sample_manifest :: "string \<Rightarrow> (string, pyval) dict" where
  "sample_manifest c = [(''format_version'', PStr ''1''), (''manifest_kind'', PStr ''historical_test_row_quarantine''),
     (''feature_schema'', PList (map PStr ALL_FEATURES)), (''target_column'', PStr ''Class''),
     (''dtype_contract'', dtype_contract), (''row_hash_algorithm'', PStr ROW_HASH_ALGORITHM),
     (''row_hashes'', PList (map PStr many_hashes)), (''row_hashes_sha256'', PStr c), (''total_row_count'', PInt 42722),
     (''fraud_count'', PInt 74), (''unique_row_count'', PInt 1), (''duplicate_row_count'', PInt 42721),
     (''contains_raw_transaction_values'', PBool False), (''sources'', PDict sample_sources)]"

definition sample_loads :: "string \<Rightarrow> string \<Rightarrow> string + pyval" where
  "sample_loads c bytes = Inr (PDict (if bytes = ''A'' then sample_anchor c else sample_manifest c))"

lemma sample_anchor_loads:
  assumes "is_sha256 c"
  shows "\<exists>a. load_historical_quarantine_anchor (sample_loads c) (Regular ''A'') = Inr a \<and> qa_row_hashes_sha256 a = c \<and>
    qa_total_row_count a = 42722 \<and> qa_fraud_count a = 74 \<and> qa_unique_row_count a = 1 \<and> qa_duplicate_row_count a = 42721 \<and>
    qa_source_sha256 a = [(''x_test'', PStr (sha256_hex ''X_test.parquet'')), (''y_test'', PStr (sha256_hex ''y_test.parquet''))]"
proof -
  have r: "regular_file ANCHOR_NAME (Regular ''A'') ''Historical quarantine anchor'' ''.json'' = Inr ''A''"
    unfolding regular_file_def ANCHOR_NAME_def by code_simp
  have t: "is_text_value (PStr ''reviewer'')" "is_text_value (PStr ''review-1'')" by code_simp+
  have "anchor_contract_ok (sample_anchor c)"
    by (simp add: anchor_contract_ok_def sample_anchor_def py_get_def QUARANTINE_FORMAT_VERSION_def
        QUARANTINE_ANCHOR_FORMAT_VERSION_def py_eq_refl del: py_eq.simps)
  moreover have "anchor_values (sample_anchor c) = Some ([(''x_test'', PStr (sha256_hex ''X_test.parquet'')),
      (''y_test'', PStr (sha256_hex ''y_test.parquet''))], c, 42722, 74, 1, 42721)"
    by (simp add: anchor_values_def sample_anchor_def py_get_def)
  moreover have "set (map fst (sample_anchor c)) = set ANCHOR_FIELDS"
    by (auto simp: sample_anchor_def ANCHOR_FIELDS_def)
  ultimately show ?thesis using assms t
    by (simp add: load_historical_quarantine_anchor_def read_json_bytes_def r sample_loads_def anchor_of_def Let_def
        is_sha_value_def anchor_counts_ok_def HISTORICAL_TEST_ROWS_def HISTORICAL_TEST_FRAUD_def)
      (simp add: sample_anchor_def py_get_def)
qed

theorem loaded_quarantine_is_the_approved_one_witness:
  "\<exists>c q. load_historical_quarantine_manifest (sample_loads c) (Regular ''A'') ''quarantine.json'' (Regular ''M'') = Inr q \<and>
     int (card (tq_row_hashes q)) + tq_duplicate_row_count q = 42722"
proof -
  obtain c where c: "row_hashes_checksum many_hashes = Inr c" "is_sha256 c"
    using row_hashes_checksum_ok [OF many_hashes(4)] by blast
  obtain a where a: "load_historical_quarantine_anchor (sample_loads c) (Regular ''A'') = Inr a"
      "qa_row_hashes_sha256 a = c" "qa_total_row_count a = 42722" "qa_fraud_count a = 74" "qa_unique_row_count a = 1"
      "qa_duplicate_row_count a = 42721"
      "qa_source_sha256 a = [(''x_test'', PStr (sha256_hex ''X_test.parquet'')), (''y_test'', PStr (sha256_hex ''y_test.parquet''))]"
    using sample_anchor_loads [OF c(2)] by (elim exE conjE)
  have r: "regular_file ''quarantine.json'' (Regular ''M'') ''Historical quarantine manifest'' ''.json'' = Inr ''M''"
    unfolding regular_file_def by code_simp
  have k: "manifest_contract_ok (sample_manifest c)"
    by (simp add: manifest_contract_ok_def sample_manifest_def py_get_def QUARANTINE_FORMAT_VERSION_def py_eq_refl del: py_eq.simps)
  have h: "manifest_hashes (py_get (sample_manifest c) ''row_hashes'') = Some many_hashes"
    by (simp add: sample_manifest_def py_get_def manifest_hashes_def)
  have n: "manifest_counts_ok (sample_manifest c) many_hashes"
    by (simp add: manifest_counts_ok_def sample_manifest_def py_get_def c)
  obtain ns where ns: "res_map (check_source_record \<circ> snd) sample_sources = Inr ns"
    using res_map_all [of sample_sources "check_source_record \<circ> snd"] sample_sources_ok by (auto simp: sources_ok_def)
  have f: "set (map fst (sample_manifest c)) = set MANIFEST_FIELDS" "py_get (sample_manifest c) ''sources'' = PDict sample_sources"
      "set (map fst sample_sources) = {''x_test'', ''y_test''}"
    by (auto simp: sample_manifest_def MANIFEST_FIELDS_def py_get_def sample_sources_def)
  have v: "validate_quarantine_payload (sample_manifest c) = Inr (many_hashes, 1)"
    using f k h n ns by (simp add: validate_quarantine_payload_def)
  have m: "require_anchor_match (sample_manifest c) a = Inr ()"
    by (simp add: require_anchor_match_def a sample_manifest_def py_get_def QUARANTINE_FORMAT_VERSION_def source_sha_def sample_sources_def)
  obtain q where q: "load_historical_quarantine_manifest (sample_loads c) (Regular ''A'') ''quarantine.json'' (Regular ''M'') = Inr q"
    by (simp add: load_historical_quarantine_manifest_def a(1) read_json_bytes_def r sample_loads_def v m)
  then show ?thesis using loaded_quarantine_is_the_approved_one [OF q]
    by (intro exI [of _ c] exI [of _ q] conjI) (auto simp: HISTORICAL_TEST_ROWS_def)
qed

end
