(* ===== verification/Bundle_Provenance.thy ===== *)
theory Bundle_Provenance
  imports Historical_Quarantine
begin

text \<open>
  The provenance records of \<open>src/src/artifacts/bundle.py\<close>: the immutable metadata a model bundle
  carries, its dictionary form and the parsers that rebuild it from a decoded document. Three
  inputs are arguments: \<open>policies\<close>, the result of \<open>_load_producer_policies()\<close>; \<open>anchor\<close>, the
  result of \<open>load_historical_quarantine_anchor()\<close>; and \<open>isfinite\<close>, which stands for
  \<open>numpy.isfinite\<close> on a Python number.
\<close>

section \<open>Records\<close>

record intended_use =
  iu_producer_policy :: string
  iu_producer_policy_sha256 :: string
  iu_evidence_category :: string
  iu_historical_taint :: bool
  iu_decision_eligible :: bool
  iu_historical_metrics_claimed :: bool
  iu_evaluation_performed :: bool

definition intended_use_dict :: "intended_use \<Rightarrow> (string, pyval) dict" where
  "intended_use_dict u =
     [(''producer_policy'', PStr (iu_producer_policy u)),
      (''producer_policy_sha256'', PStr (iu_producer_policy_sha256 u)),
      (''evidence_category'', PStr (iu_evidence_category u)),
      (''historical_taint'', PBool (iu_historical_taint u)),
      (''decision_eligible'', PBool (iu_decision_eligible u)),
      (''historical_metrics_claimed'', PBool (iu_historical_metrics_claimed u)),
      (''evaluation_performed'', PBool (iu_evaluation_performed u))]"

record threshold_provenance =
  tp_value :: pyfloat
  tp_source :: string
  tp_model_linkage :: string
  tp_purpose :: string
  tp_calibrated :: bool
  tp_cost_optimal :: bool
  tp_razorpay_approved :: bool
  tp_production_approved :: bool

definition threshold_dict :: "threshold_provenance \<Rightarrow> (string, pyval) dict" where
  "threshold_dict t =
     [(''value'', PFloat (tp_value t)), (''source'', PStr (tp_source t)), (''model_linkage'', PStr (tp_model_linkage t)),
      (''purpose'', PStr (tp_purpose t)), (''calibrated'', PBool (tp_calibrated t)), (''cost_optimal'', PBool (tp_cost_optimal t)),
      (''razorpay_approved'', PBool (tp_razorpay_approved t)), (''production_approved'', PBool (tp_production_approved t))]"

record recipe_provenance =
  rp_name :: string
  rp_version :: string
  rp_configuration_sha256 :: string

definition recipe_dict :: "recipe_provenance \<Rightarrow> (string, pyval) dict" where
  "recipe_dict r =
     [(''name'', PStr (rp_name r)), (''version'', PStr (rp_version r)), (''configuration_sha256'', PStr (rp_configuration_sha256 r))]"

record data_role =
  ro_fingerprint_sha256 :: string
  ro_total_row_count :: int
  ro_legitimate_row_count :: int
  ro_fraud_row_count :: int
  ro_duplicate_row_count :: int

definition data_role_dict :: "data_role \<Rightarrow> (string, pyval) dict" where
  "data_role_dict r =
     [(''fingerprint_sha256'', PStr (ro_fingerprint_sha256 r)), (''total_row_count'', PInt (ro_total_row_count r)),
      (''legitimate_row_count'', PInt (ro_legitimate_row_count r)), (''fraud_row_count'', PInt (ro_fraud_row_count r)),
      (''duplicate_row_count'', PInt (ro_duplicate_row_count r))]"

record data_roles =
  rl_model_fit :: data_role
  rl_calibrator_fit :: "data_role option"
  rl_threshold_selection :: "data_role option"
  rl_evaluation :: "data_role option"

definition opt_dict :: "('a \<Rightarrow> (string, pyval) dict) \<Rightarrow> 'a option \<Rightarrow> pyval" where
  "opt_dict f x = (case x of None \<Rightarrow> PNone | Some y \<Rightarrow> PDict (f y))"

definition data_roles_dict :: "data_roles \<Rightarrow> (string, pyval) dict" where
  "data_roles_dict r =
     [(''model_fit'', PDict (data_role_dict (rl_model_fit r))),
      (''calibrator_fit'', opt_dict data_role_dict (rl_calibrator_fit r)),
      (''threshold_selection'', opt_dict data_role_dict (rl_threshold_selection r)),
      (''evaluation'', opt_dict data_role_dict (rl_evaluation r))]"

record quarantine_provenance =
  qp_anchor_sha256 :: string
  qp_row_hashes_sha256 :: string
  qp_total_row_count :: int
  qp_fraud_row_count :: int
  qp_unique_row_count :: int
  qp_duplicate_row_count :: int
  qp_overlap_row_count :: int

definition quarantine_dict :: "quarantine_provenance \<Rightarrow> (string, pyval) dict" where
  "quarantine_dict q =
     [(''anchor_sha256'', PStr (qp_anchor_sha256 q)), (''row_hashes_sha256'', PStr (qp_row_hashes_sha256 q)),
      (''total_row_count'', PInt (qp_total_row_count q)), (''fraud_row_count'', PInt (qp_fraud_row_count q)),
      (''unique_row_count'', PInt (qp_unique_row_count q)), (''duplicate_row_count'', PInt (qp_duplicate_row_count q)),
      (''overlap_row_count'', PInt (qp_overlap_row_count q))]"

record reference_file =
  hf_filename :: string
  hf_sha256 :: string
  hf_size_bytes :: int

definition reference_file_dict :: "reference_file \<Rightarrow> (string, pyval) dict" where
  "reference_file_dict f =
     [(''filename'', PStr (hf_filename f)), (''sha256'', PStr (hf_sha256 f)), (''size_bytes'', PInt (hf_size_bytes f))]"

record reference_source =
  rsrc_filename :: string
  rsrc_sha256 :: string
  rsrc_size_bytes :: int
  rsrc_total_row_count :: int
  rsrc_fraud_row_count :: "int option"

definition opt_int :: "int option \<Rightarrow> pyval" where
  "opt_int x = (case x of None \<Rightarrow> PNone | Some i \<Rightarrow> PInt i)"

definition reference_source_dict :: "reference_source \<Rightarrow> (string, pyval) dict" where
  "reference_source_dict s =
     [(''filename'', PStr (rsrc_filename s)), (''sha256'', PStr (rsrc_sha256 s)), (''size_bytes'', PInt (rsrc_size_bytes s)),
      (''total_row_count'', PInt (rsrc_total_row_count s)), (''fraud_row_count'', opt_int (rsrc_fraud_row_count s))]"

record reference_filtering =
  fg_quarantine_occurrences_removed :: int
  fg_duplicate_rows_removed :: int
  fg_cross_split_duplicate_rows_removed :: int
  fg_feature_label_conflicts :: int

definition filtering_dict :: "reference_filtering \<Rightarrow> (string, pyval) dict" where
  "filtering_dict g =
     [(''quarantine_occurrences_removed'', PInt (fg_quarantine_occurrences_removed g)),
      (''duplicate_rows_removed'', PInt (fg_duplicate_rows_removed g)),
      (''cross_split_duplicate_rows_removed'', PInt (fg_cross_split_duplicate_rows_removed g)),
      (''feature_label_conflicts'', PInt (fg_feature_label_conflicts g))]"

record reference_pool =
  pl_row_hashes_sha256 :: string
  pl_total_row_count :: int
  pl_legitimate_row_count :: int
  pl_fraud_row_count :: int
  pl_unique_row_count :: int
  pl_duplicate_row_count :: int

definition pool_dict :: "reference_pool \<Rightarrow> (string, pyval) dict" where
  "pool_dict p =
     [(''row_hashes_sha256'', PStr (pl_row_hashes_sha256 p)), (''total_row_count'', PInt (pl_total_row_count p)),
      (''legitimate_row_count'', PInt (pl_legitimate_row_count p)), (''fraud_row_count'', PInt (pl_fraud_row_count p)),
      (''unique_row_count'', PInt (pl_unique_row_count p)), (''duplicate_row_count'', PInt (pl_duplicate_row_count p))]"

record reference_provenance =
  hr_format_version :: string
  hr_recipe :: reference_file
  hr_sources :: "reference_source list"
  hr_quarantine :: quarantine_provenance
  hr_filtering :: reference_filtering
  hr_final_pool :: reference_pool

definition SOURCE_KEYS :: "string list" where
  "SOURCE_KEYS = [''x_train'', ''y_train'', ''x_val'', ''y_val'']"

text \<open>\<open>zip(keys, self.sources, strict=True)\<close> raises unless there are four sources.\<close>

definition sources_dict :: "reference_source list \<Rightarrow> py_exc + pyval" where
  "sources_dict ss =
     (if length ss < length SOURCE_KEYS then
        Inl (ValueError ''zip() argument 2 is shorter than argument 1'')
      else if length ss > length SOURCE_KEYS then Inl (ValueError ''zip() argument 2 is longer than argument 1'')
      else Inr (PDict (map (\<lambda>(k, s). (k, PDict (reference_source_dict s))) (zip SOURCE_KEYS ss))))"

definition reference_dict :: "reference_provenance \<Rightarrow> py_exc + (string, pyval) dict" where
  "reference_dict h =
     res_bind (sources_dict (hr_sources h)) (\<lambda>sources.
       Inr [(''format_version'', PStr (hr_format_version h)), (''recipe'', PDict (reference_file_dict (hr_recipe h))),
            (''sources'', sources), (''quarantine'', PDict (quarantine_dict (hr_quarantine h))),
            (''filtering'', PDict (filtering_dict (hr_filtering h))), (''final_pool'', PDict (pool_dict (hr_final_pool h)))])"

record training_provenance =
  tr_format_version :: string
  tr_producer_policy :: string
  tr_recipe :: recipe_provenance
  tr_data_roles :: data_roles
  tr_data_roles_sha256 :: string
  tr_quarantine :: "quarantine_provenance option"

definition training_dict :: "training_provenance \<Rightarrow> (string, pyval) dict" where
  "training_dict t =
     [(''format_version'', PStr (tr_format_version t)), (''producer_policy'', PStr (tr_producer_policy t)),
      (''recipe'', PDict (recipe_dict (tr_recipe t))), (''data_roles'', PDict (data_roles_dict (tr_data_roles t))),
      (''data_roles_sha256'', PStr (tr_data_roles_sha256 t)), (''quarantine'', opt_dict quarantine_dict (tr_quarantine t))]"

section \<open>Constants\<close>

definition TRAINING_FORMAT_VERSION :: string where "TRAINING_FORMAT_VERSION = ''1''"
definition POLICY_FORMAT_VERSION :: string where "POLICY_FORMAT_VERSION = ''1''"
definition REFERENCE_FORMAT_VERSION :: string where "REFERENCE_FORMAT_VERSION = ''2''"
definition HISTORICAL_REFERENCE_POLICY :: string where "HISTORICAL_REFERENCE_POLICY = ''historical_reference_demo_v1''"

definition SYNTHETIC :: string where "SYNTHETIC = ''synthetic_demo_inference''"
definition DEVELOPMENT :: string where "DEVELOPMENT = ''new_authorized_development_evidence''"
definition REFERENCE :: string where "REFERENCE = ''historical_reference_demo_inference''"

definition EVIDENCE_CATEGORIES :: "string list" where
  "EVIDENCE_CATEGORIES = [SYNTHETIC, DEVELOPMENT, REFERENCE]"

definition INTENDED_USE_FIELDS :: "string list" where
  "INTENDED_USE_FIELDS = [''producer_policy'', ''producer_policy_sha256'', ''evidence_category'', ''historical_taint'',
     ''decision_eligible'', ''historical_metrics_claimed'', ''evaluation_performed'']"

definition THRESHOLD_FIELDS :: "string list" where
  "THRESHOLD_FIELDS = [''value'', ''source'', ''model_linkage'', ''purpose'', ''calibrated'', ''cost_optimal'',
     ''razorpay_approved'', ''production_approved'']"

definition TRAINING_FIELDS :: "string list" where
  "TRAINING_FIELDS = [''format_version'', ''producer_policy'', ''recipe'', ''data_roles'', ''data_roles_sha256'', ''quarantine'']"

definition RECIPE_FIELDS :: "string list" where "RECIPE_FIELDS = [''name'', ''version'', ''configuration_sha256'']"

definition DATA_ROLE_FIELDS :: "string list" where
  "DATA_ROLE_FIELDS = [''fingerprint_sha256'', ''total_row_count'', ''legitimate_row_count'', ''fraud_row_count'', ''duplicate_row_count'']"

definition DATA_ROLES_FIELDS :: "string list" where
  "DATA_ROLES_FIELDS = [''model_fit'', ''calibrator_fit'', ''threshold_selection'', ''evaluation'']"

definition QUARANTINE_FIELDS :: "string list" where
  "QUARANTINE_FIELDS = [''anchor_sha256'', ''row_hashes_sha256'', ''total_row_count'', ''fraud_row_count'', ''unique_row_count'',
     ''duplicate_row_count'', ''overlap_row_count'']"

definition REFERENCE_FIELDS :: "string list" where
  "REFERENCE_FIELDS = [''format_version'', ''recipe'', ''sources'', ''quarantine'', ''filtering'', ''final_pool'']"

definition REFERENCE_FILE_FIELDS :: "string list" where "REFERENCE_FILE_FIELDS = [''filename'', ''sha256'', ''size_bytes'']"

definition REFERENCE_SOURCE_FIELDS :: "string list" where
  "REFERENCE_SOURCE_FIELDS = [''filename'', ''sha256'', ''size_bytes'', ''total_row_count'', ''fraud_row_count'']"

definition FILTERING_FIELDS :: "string list" where
  "FILTERING_FIELDS = [''quarantine_occurrences_removed'', ''duplicate_rows_removed'', ''cross_split_duplicate_rows_removed'',
     ''feature_label_conflicts'']"

definition POOL_FIELDS :: "string list" where
  "POOL_FIELDS = [''row_hashes_sha256'', ''total_row_count'', ''legitimate_row_count'', ''fraud_row_count'', ''unique_row_count'',
     ''duplicate_row_count'']"

section \<open>Policies\<close>

text \<open>The policy resource: \<open>loads\<close> decodes strict JSON as in \<^const>\<open>strict_json_object\<close>.\<close>

definition load_producer_policies :: "(string \<Rightarrow> string + pyval) \<Rightarrow> string \<Rightarrow> py_exc + (string, pyval) dict" where
  "load_producer_policies loads resource =
     res_bind (strict_json_object loads resource ''Bundle producer policy'') (\<lambda>payload.
       if set (map fst payload) \<noteq> {''format_version'', ''policies''} then
         Inl (ValueError ''Bundle producer policy fields are incomplete or unexpected.'')
       else if py_get payload ''format_version'' \<noteq> PStr POLICY_FORMAT_VERSION then
         Inl (ValueError ''Unsupported bundle producer policy format_version.'')
       else case dict_of (py_get payload ''policies'') of
         None \<Rightarrow> Inl (ValueError ''Bundle producer policies are missing.'')
       | Some ps \<Rightarrow> if ps = [] then Inl (ValueError ''Bundle producer policies are missing.'') else Inr ps)"

definition policy_fields :: "string \<Rightarrow> string list" where
  "policy_fields policy_id =
     [''evidence_category'', ''intended_use'', ''model_version_pattern'', ''recipe'', ''required_roles'', ''threshold''] @
     (if policy_id = HISTORICAL_REFERENCE_POLICY then [''canonical_recipe_sha256'', ''canonical_reference_evidence_sha256''] else [])"

definition producer_policy :: "py_exc + (string, pyval) dict \<Rightarrow> string \<Rightarrow> py_exc + (string, pyval) dict" where
  "producer_policy policies policy_id =
     res_bind (require_identifier (PStr policy_id) ''producer_policy'') (\<lambda>_.
     res_bind policies (\<lambda>ps.
       case dict_of (py_get ps policy_id) of
         Some p \<Rightarrow>
           if set (map fst p) = set (policy_fields policy_id) then Inr p
           else Inl (ValueError ''Unsupported or malformed bundle producer policy.'')
       | None \<Rightarrow> Inl (ValueError ''Unsupported or malformed bundle producer policy.'')))"

definition canonical_json_sha256 :: "pyval \<Rightarrow> py_exc + string" where
  "canonical_json_sha256 v = res_bind (json_dumps v) (\<lambda>encoded. Inr (sha256_hex encoded))"

definition policy_sha256 :: "(string, pyval) dict \<Rightarrow> py_exc + string" where
  "policy_sha256 p = canonical_json_sha256 (PDict p)"

section \<open>Parsers\<close>

definition bool_of :: "pyval \<Rightarrow> bool option" where
  "bool_of v = (case v of PBool b \<Rightarrow> Some b | _ \<Rightarrow> None)"

definition parse_intended_use :: "pyval \<Rightarrow> py_exc + intended_use" where
  "parse_intended_use v =
     res_bind (require_exact_mapping v INTENDED_USE_FIELDS ''intended_use'') (\<lambda>d.
     res_bind (require_identifier (py_get d ''producer_policy'') ''producer_policy'') (\<lambda>policy_id.
     res_bind (require_sha256 (py_get d ''producer_policy_sha256'') ''producer_policy_sha256'') (\<lambda>policy_sha.
     res_bind (in_string_set (py_get d ''evidence_category'') EVIDENCE_CATEGORIES) (\<lambda>known.
       if \<not> known then Inl (ValueError ''Unsupported intended_use evidence_category.'')
       else case (str_of (py_get d ''evidence_category''), bool_of (py_get d ''historical_taint''), bool_of (py_get d ''decision_eligible''),
                  bool_of (py_get d ''historical_metrics_claimed''), bool_of (py_get d ''evaluation_performed'')) of
         (Some category, Some taint, Some eligible, Some claimed, Some performed) \<Rightarrow>
           Inr \<lparr>iu_producer_policy = policy_id, iu_producer_policy_sha256 = policy_sha, iu_evidence_category = category,
                iu_historical_taint = taint, iu_decision_eligible = eligible, iu_historical_metrics_claimed = claimed,
                iu_evaluation_performed = performed\<rparr>
       | _ \<Rightarrow> Inl (ValueError ''intended_use policy fields must be boolean.'')))))"

definition finite_number :: "(pyval \<Rightarrow> py_exc + bool) \<Rightarrow> pyval \<Rightarrow> py_exc + bool" where
  "finite_number isfinite v = (case v of PInt _ \<Rightarrow> isfinite v | PFloat _ \<Rightarrow> isfinite v | _ \<Rightarrow> Inr False)"

definition parse_threshold_provenance :: "(pyval \<Rightarrow> py_exc + bool) \<Rightarrow> pyval \<Rightarrow> py_exc + threshold_provenance" where
  "parse_threshold_provenance isfinite v =
     res_bind (require_exact_mapping v THRESHOLD_FIELDS ''threshold_provenance'') (\<lambda>d.
     res_bind (finite_number isfinite (py_get d ''value'')) (\<lambda>ok.
       if \<not> ok then Inl (ValueError ''threshold_provenance.value must be finite and numeric.'')
       else
         res_bind (require_identifier (py_get d ''source'') ''threshold_provenance.source'') (\<lambda>source.
         res_bind (require_identifier (py_get d ''model_linkage'') ''threshold_provenance.model_linkage'') (\<lambda>linkage.
         res_bind (require_identifier (py_get d ''purpose'') ''threshold_provenance.purpose'') (\<lambda>purpose.
           case (bool_of (py_get d ''calibrated''), bool_of (py_get d ''cost_optimal''), bool_of (py_get d ''razorpay_approved''),
                 bool_of (py_get d ''production_approved'')) of
             (Some calibrated, Some optimal, Some razorpay, Some production) \<Rightarrow>
               res_bind (py_float (py_get d ''value'')) (\<lambda>x.
                 Inr \<lparr>tp_value = x, tp_source = source, tp_model_linkage = linkage, tp_purpose = purpose, tp_calibrated = calibrated,
                      tp_cost_optimal = optimal, tp_razorpay_approved = razorpay, tp_production_approved = production\<rparr>)
           | _ \<Rightarrow> Inl (ValueError ''threshold_provenance policy fields must be boolean.''))))))"

definition role_counts_ok :: "int \<Rightarrow> int \<Rightarrow> int \<Rightarrow> int \<Rightarrow> bool" where
  "role_counts_ok total_count legitimate fraud duplicates =
     (total_count \<noteq> 0 \<and> total_count = legitimate + fraud \<and> duplicates \<le> total_count)"

definition parse_data_role :: "pyval \<Rightarrow> string \<Rightarrow> py_exc + data_role" where
  "parse_data_role v label =
     res_bind (require_exact_mapping v DATA_ROLE_FIELDS label) (\<lambda>d.
     res_bind (require_sha256 (py_get d ''fingerprint_sha256'') (label @ ''.fingerprint_sha256'')) (\<lambda>fingerprint.
     res_bind (require_nonnegative_int (py_get d ''total_row_count'') (label @ ''.total'')) (\<lambda>total_count.
     res_bind (require_nonnegative_int (py_get d ''legitimate_row_count'') (label @ ''.legitimate'')) (\<lambda>legitimate.
     res_bind (require_nonnegative_int (py_get d ''fraud_row_count'') (label @ ''.fraud'')) (\<lambda>fraud.
     res_bind (require_nonnegative_int (py_get d ''duplicate_row_count'') (label @ ''.duplicates'')) (\<lambda>duplicates.
       if \<not> role_counts_ok total_count legitimate fraud duplicates then Inl (ValueError (label @ '' counts are inconsistent.''))
       else Inr \<lparr>ro_fingerprint_sha256 = fingerprint, ro_total_row_count = total_count, ro_legitimate_row_count = legitimate,
                 ro_fraud_row_count = fraud, ro_duplicate_row_count = duplicates\<rparr>))))))"

definition parse_optional_role :: "(string, pyval) dict \<Rightarrow> string \<Rightarrow> py_exc + data_role option" where
  "parse_optional_role d role =
     (if py_get d role = PNone then Inr None
      else res_bind (parse_data_role (py_get d role) (''data_roles.'' @ role)) (\<lambda>r. Inr (Some r)))"

definition parse_data_roles :: "pyval \<Rightarrow> py_exc + data_roles" where
  "parse_data_roles v =
     res_bind (require_exact_mapping v DATA_ROLES_FIELDS ''data_roles'') (\<lambda>d.
     res_bind (parse_data_role (py_get d ''model_fit'') ''data_roles.model_fit'') (\<lambda>fit.
     res_bind (parse_optional_role d ''calibrator_fit'') (\<lambda>calibrator.
     res_bind (parse_optional_role d ''threshold_selection'') (\<lambda>selection.
     res_bind (parse_optional_role d ''evaluation'') (\<lambda>evaluation.
       Inr \<lparr>rl_model_fit = fit, rl_calibrator_fit = calibrator, rl_threshold_selection = selection, rl_evaluation = evaluation\<rparr>)))))"

text \<open>\<open>except (OSError, ValueError)\<close> on the exceptions the anchor's reader raises.\<close>

definition is_os_or_value_error :: "py_exc \<Rightarrow> bool" where
  "is_os_or_value_error e = (case e of ValueError _ \<Rightarrow> True | PyError n _ \<Rightarrow> n \<in> {''OSError'', ''FileNotFoundError''} | _ \<Rightarrow> False)"

definition approved_anchor :: "py_exc + quarantine_anchor \<Rightarrow> py_exc + quarantine_anchor" where
  "approved_anchor anchor =
     (case anchor of
        Inl e \<Rightarrow> Inl (if is_os_or_value_error e then ValueError ''Approved historical quarantine anchor is unavailable.'' else e)
      | Inr a \<Rightarrow> Inr a)"

definition matches_anchor :: "quarantine_provenance \<Rightarrow> quarantine_anchor \<Rightarrow> bool" where
  "matches_anchor q a =
     (qp_anchor_sha256 q = qa_sha256 a \<and> qp_row_hashes_sha256 q = qa_row_hashes_sha256 a \<and>
      qp_total_row_count q = qa_total_row_count a \<and> qp_fraud_row_count q = qa_fraud_count a \<and>
      qp_unique_row_count q = qa_unique_row_count a \<and> qp_duplicate_row_count q = qa_duplicate_row_count a)"

definition parse_quarantine :: "py_exc + quarantine_anchor \<Rightarrow> pyval \<Rightarrow> py_exc + quarantine_provenance" where
  "parse_quarantine anchor v =
     res_bind (require_exact_mapping v QUARANTINE_FIELDS ''quarantine'') (\<lambda>d.
     res_bind (require_sha256 (py_get d ''anchor_sha256'') ''quarantine.anchor'') (\<lambda>anchor_sha.
     res_bind (require_sha256 (py_get d ''row_hashes_sha256'') ''quarantine.row_hashes'') (\<lambda>hashes_sha.
     res_bind (require_nonnegative_int (py_get d ''total_row_count'') ''quarantine.total'') (\<lambda>total_count.
     res_bind (require_nonnegative_int (py_get d ''unique_row_count'') ''quarantine.unique'') (\<lambda>unique.
     res_bind (require_nonnegative_int (py_get d ''duplicate_row_count'') ''quarantine.duplicates'') (\<lambda>duplicates.
     res_bind (require_nonnegative_int (py_get d ''fraud_row_count'') ''quarantine.fraud'') (\<lambda>fraud.
     res_bind (require_nonnegative_int (py_get d ''overlap_row_count'') ''quarantine.overlap'') (\<lambda>overlap.
       if total_count = 0 \<or> total_count \<noteq> unique + duplicates \<or> total_count < fraud then
         Inl (ValueError ''Quarantine counts are inconsistent.'')
       else if overlap \<noteq> 0 then
         Inl (ValueError ''Bundle training data must have zero historical quarantine overlap.'')
       else res_bind (approved_anchor anchor) (\<lambda>a.
         let q = \<lparr>qp_anchor_sha256 = anchor_sha, qp_row_hashes_sha256 = hashes_sha, qp_total_row_count = total_count,
                  qp_fraud_row_count = fraud, qp_unique_row_count = unique, qp_duplicate_row_count = duplicates,
                  qp_overlap_row_count = overlap\<rparr>
         in if \<not> matches_anchor q a then
              Inl (ValueError ''Quarantine provenance does not match the approved canonical anchor.'')
            else Inr q)))))))))"

end
