(* ===== verification/Bundle_Policy.thy ===== *)
theory Bundle_Policy
  imports Bundle_Provenance
begin

text \<open>
  The remaining parsers of \<open>src/src/artifacts/bundle.py\<close> (historical reference and training
  provenance), the two bindings every bundle must satisfy, the metadata builders, and
  \<open>ModelBundle.validate\<close>. The fitted objects are seen through the attributes the code reads.
\<close>

section \<open>Historical reference provenance\<close>

definition parse_reference_file :: "pyval \<Rightarrow> string \<Rightarrow> string option \<Rightarrow> py_exc + reference_file" where
  "parse_reference_file v label expected =
     res_bind (require_exact_mapping v REFERENCE_FILE_FIELDS label) (\<lambda>d.
       case str_of (py_get d ''filename'') of
         None \<Rightarrow> Inl (ValueError (label @ ''.filename is invalid.''))
       | Some filename \<Rightarrow>
           if \<not> safe_basename_ok filename \<or> (case expected of None \<Rightarrow> False | Some e \<Rightarrow> filename \<noteq> e) then
             Inl (ValueError (label @ ''.filename is invalid.''))
           else
             res_bind (require_sha256 (py_get d ''sha256'') (label @ ''.sha256'')) (\<lambda>h.
             res_bind (require_nonnegative_int (py_get d ''size_bytes'') (label @ ''.size_bytes'')) (\<lambda>n.
               Inr \<lparr>hf_filename = filename, hf_sha256 = h, hf_size_bytes = n\<rparr>)))"

definition SOURCE_FILENAMES :: "string list" where
  "SOURCE_FILENAMES = [''X_train.parquet'', ''y_train.parquet'', ''X_val.parquet'', ''y_val.parquet'']"

definition reference_label :: "string \<Rightarrow> string" where
  "reference_label key = ''historical_reference_provenance.sources.'' @ key"

definition parse_fraud_count :: "string \<Rightarrow> pyval \<Rightarrow> int \<Rightarrow> py_exc + int option" where
  "parse_fraud_count key v total_count =
     (if starts_with key ''x_'' then
        (if v \<noteq> PNone then Inl (ValueError ''Historical reference feature sources must not claim label counts.'') else Inr None)
      else
        res_bind (require_nonnegative_int v (reference_label key @ ''.fraud'')) (\<lambda>fraud.
          if total_count < fraud then Inl (ValueError ''Historical reference source fraud count is inconsistent.'')
          else Inr (Some fraud)))"

definition parse_reference_source :: "(string, pyval) dict \<Rightarrow> string \<times> string \<Rightarrow> py_exc + reference_source" where
  "parse_reference_source sources kf =
     (let (key, expected) = kf
      in res_bind (require_exact_mapping (py_get sources key) REFERENCE_SOURCE_FIELDS (reference_label key)) (\<lambda>d.
         res_bind (parse_reference_file (PDict [(''filename'', py_get d ''filename''), (''sha256'', py_get d ''sha256''),
                     (''size_bytes'', py_get d ''size_bytes'')]) (reference_label key) (Some expected)) (\<lambda>f.
         res_bind (require_nonnegative_int (py_get d ''total_row_count'') (reference_label key @ ''.total'')) (\<lambda>total_count.
           if total_count = 0 then Inl (ValueError ''Historical reference source identities must not be empty.'')
           else res_bind (parse_fraud_count key (py_get d ''fraud_row_count'') total_count) (\<lambda>fraud.
             Inr \<lparr>rsrc_filename = hf_filename f, rsrc_sha256 = hf_sha256 f, rsrc_size_bytes = hf_size_bytes f,
                  rsrc_total_row_count = total_count, rsrc_fraud_row_count = fraud\<rparr>)))))"

definition source_total :: "reference_source list \<Rightarrow> nat \<Rightarrow> int" where
  "source_total ss i = rsrc_total_row_count (ss ! i)"

text \<open>
  The dictionary comprehension walks a Python \<open>set\<close> of field names, whose order is not fixed: it
  decides only which malformed count is named. The declared order is used here.
\<close>

definition parse_filtering :: "pyval \<Rightarrow> py_exc + reference_filtering" where
  "parse_filtering v =
     res_bind (require_exact_mapping v FILTERING_FIELDS ''historical_reference_provenance.filtering'') (\<lambda>d.
     res_bind (res_map (\<lambda>f. require_nonnegative_int (py_get d f) (''historical_reference_provenance.filtering.'' @ f)) FILTERING_FIELDS) (\<lambda>ns.
       let g = \<lparr>fg_quarantine_occurrences_removed = ns ! 0, fg_duplicate_rows_removed = ns ! 1,
                fg_cross_split_duplicate_rows_removed = ns ! 2, fg_feature_label_conflicts = ns ! 3\<rparr>
       in if fg_feature_label_conflicts g \<noteq> 0 then
            Inl (ValueError ''Historical-reference bundles must not retain feature-label conflicts.'')
          else if fg_duplicate_rows_removed g < fg_cross_split_duplicate_rows_removed g then
            Inl (ValueError ''Historical-reference cross-split duplicate count exceeds total duplicates removed.'')
          else Inr g))"

definition parse_pool :: "pyval \<Rightarrow> py_exc + reference_pool" where
  "parse_pool v =
     (let l = ''historical_reference_provenance.final_pool''
      in res_bind (require_exact_mapping v POOL_FIELDS l) (\<lambda>d.
         res_bind (require_sha256 (py_get d ''row_hashes_sha256'') (l @ ''.row_hashes_sha256'')) (\<lambda>h.
         res_bind (require_nonnegative_int (py_get d ''total_row_count'') (l @ ''.total'')) (\<lambda>total_count.
         res_bind (require_nonnegative_int (py_get d ''legitimate_row_count'') (l @ ''.legitimate'')) (\<lambda>legitimate.
         res_bind (require_nonnegative_int (py_get d ''fraud_row_count'') (l @ ''.fraud'')) (\<lambda>fraud.
         res_bind (require_nonnegative_int (py_get d ''unique_row_count'') (l @ ''.unique'')) (\<lambda>unique.
         res_bind (require_nonnegative_int (py_get d ''duplicate_row_count'') (l @ ''.duplicates'')) (\<lambda>duplicates.
           Inr \<lparr>pl_row_hashes_sha256 = h, pl_total_row_count = total_count, pl_legitimate_row_count = legitimate,
                pl_fraud_row_count = fraud, pl_unique_row_count = unique, pl_duplicate_row_count = duplicates\<rparr>))))))))"

text \<open>The final accounting: every input row is in the pool, quarantined or a removed duplicate.\<close>

definition pool_accounting :: "reference_pool \<Rightarrow> reference_filtering \<Rightarrow> int \<Rightarrow> bool" where
  "pool_accounting p g input_rows =
     (pl_total_row_count p \<noteq> 0 \<and>
      pl_total_row_count p = pl_legitimate_row_count p + pl_fraud_row_count p \<and>
      pl_total_row_count p = pl_unique_row_count p + pl_duplicate_row_count p \<and>
      input_rows = pl_total_row_count p + fg_quarantine_occurrences_removed g + fg_duplicate_rows_removed g)"

definition parse_reference_sources :: "pyval \<Rightarrow> py_exc + reference_source list" where
  "parse_reference_sources v =
     (case dict_of v of
        None \<Rightarrow> Inl (ValueError ''Historical reference source identities are incomplete or unexpected.'')
      | Some sources \<Rightarrow>
          if set (map fst sources) \<noteq> set SOURCE_KEYS then
            Inl (ValueError ''Historical reference source identities are incomplete or unexpected.'')
          else
            res_bind (res_map (parse_reference_source sources) (zip SOURCE_KEYS SOURCE_FILENAMES)) (\<lambda>ss.
              if source_total ss 0 \<noteq> source_total ss 1 \<or> source_total ss 2 \<noteq> source_total ss 3 then
                Inl (ValueError ''Historical reference feature/label source row counts disagree.'')
              else Inr ss))"

definition parse_reference_provenance :: "py_exc + quarantine_anchor \<Rightarrow> pyval \<Rightarrow> py_exc + reference_provenance" where
  "parse_reference_provenance anchor v =
     res_bind (require_exact_mapping v REFERENCE_FIELDS ''historical_reference_provenance'') (\<lambda>d.
       if py_get d ''format_version'' \<noteq> PStr REFERENCE_FORMAT_VERSION then
         Inl (ValueError ''Unsupported historical_reference_provenance format_version.'')
       else
         res_bind (parse_reference_file (py_get d ''recipe'') ''historical_reference_provenance.recipe''
                     (Some ''historical_reference_demo_recipe.json'')) (\<lambda>recipe.
         res_bind (parse_reference_sources (py_get d ''sources'')) (\<lambda>ss.
         res_bind (parse_quarantine anchor (py_get d ''quarantine'')) (\<lambda>q.
         res_bind (parse_filtering (py_get d ''filtering'')) (\<lambda>g.
         res_bind (parse_pool (py_get d ''final_pool'')) (\<lambda>p.
           if \<not> pool_accounting p g (source_total ss 0 + source_total ss 2) then
             Inl (ValueError ''Historical reference filtering or final-pool counts are inconsistent.'')
           else Inr \<lparr>hr_format_version = REFERENCE_FORMAT_VERSION, hr_recipe = recipe, hr_sources = ss, hr_quarantine = q,
                     hr_filtering = g, hr_final_pool = p\<rparr>))))))"

definition reference_evidence_sha256 :: "reference_provenance \<Rightarrow> py_exc + string" where
  "reference_evidence_sha256 h =
     res_bind (sources_dict (hr_sources h)) (\<lambda>sources.
       canonical_json_sha256 (PDict [(''sources'', sources), (''quarantine'', PDict (quarantine_dict (hr_quarantine h))),
         (''filtering'', PDict (filtering_dict (hr_filtering h))), (''final_pool'', PDict (pool_dict (hr_final_pool h)))]))"

definition pool_is_model_fit :: "reference_pool \<Rightarrow> data_role \<Rightarrow> bool" where
  "pool_is_model_fit p fit =
     (ro_fingerprint_sha256 fit = pl_row_hashes_sha256 p \<and> ro_total_row_count fit = pl_total_row_count p \<and>
      ro_legitimate_row_count fit = pl_legitimate_row_count p \<and> ro_fraud_row_count fit = pl_fraud_row_count p \<and>
      ro_duplicate_row_count fit = pl_duplicate_row_count p)"

definition validate_reference_binding ::
  "py_exc + (string, pyval) dict \<Rightarrow> string \<Rightarrow> reference_provenance option \<Rightarrow> data_roles \<Rightarrow> quarantine_provenance option \<Rightarrow> py_exc + unit" where
  "validate_reference_binding policies category reference roles quarantine =
     (if category \<noteq> REFERENCE then
        (if reference \<noteq> None then
           Inl (ValueError ''Only historical-reference bundles may contain historical reference provenance.'')
         else Inr ())
      else case (reference, quarantine) of
        (Some h, Some q) \<Rightarrow>
          res_bind (producer_policy policies HISTORICAL_REFERENCE_POLICY) (\<lambda>p.
          res_bind (require_sha256 (py_get p ''canonical_recipe_sha256'') ''historical-reference policy recipe SHA-256'') (\<lambda>recipe_sha.
            if hf_sha256 (hr_recipe h) \<noteq> recipe_sha then
              Inl (ValueError ''Historical-reference recipe identity does not match tracked policy.'')
            else if hr_quarantine h \<noteq> q then
              Inl (ValueError ''Historical-reference quarantine identity contradicts training provenance.'')
            else
              res_bind (require_sha256 (py_get p ''canonical_reference_evidence_sha256'') ''historical-reference policy evidence SHA-256'') (\<lambda>evidence_sha.
              res_bind (reference_evidence_sha256 h) (\<lambda>actual.
                if actual \<noteq> evidence_sha then Inl (ValueError ''Historical-reference evidence contradicts tracked policy.'')
                else if \<not> pool_is_model_fit (hr_final_pool h) (rl_model_fit roles) then
                  Inl (ValueError ''Historical-reference final pool contradicts model-fit provenance.'')
                else Inr ()))))
      | _ \<Rightarrow> Inl (ValueError ''Historical-reference bundles require quarantine-bound reference provenance.''))"

section \<open>Training provenance\<close>

definition training_data_fingerprint_for_roles :: "data_roles \<Rightarrow> py_exc + string" where
  "training_data_fingerprint_for_roles roles = canonical_json_sha256 (PDict (data_roles_dict roles))"

definition parse_recipe_provenance :: "pyval \<Rightarrow> py_exc + recipe_provenance" where
  "parse_recipe_provenance v =
     res_bind (require_exact_mapping v RECIPE_FIELDS ''training_provenance.recipe'') (\<lambda>d.
     res_bind (require_identifier (py_get d ''name'') ''training_provenance.recipe.name'') (\<lambda>name.
     res_bind (require_identifier (py_get d ''version'') ''training_provenance.recipe.version'') (\<lambda>version.
     res_bind (require_sha256 (py_get d ''configuration_sha256'') ''training_provenance.recipe.configuration_sha256'') (\<lambda>h.
       Inr \<lparr>rp_name = name, rp_version = version, rp_configuration_sha256 = h\<rparr>))))"

definition parse_optional_quarantine :: "py_exc + quarantine_anchor \<Rightarrow> pyval \<Rightarrow> py_exc + quarantine_provenance option" where
  "parse_optional_quarantine anchor v =
     (if v = PNone then Inr None else res_bind (parse_quarantine anchor v) (\<lambda>q. Inr (Some q)))"

definition parse_training_provenance :: "py_exc + quarantine_anchor \<Rightarrow> pyval \<Rightarrow> py_exc + training_provenance" where
  "parse_training_provenance anchor v =
     res_bind (require_exact_mapping v TRAINING_FIELDS ''training_provenance'') (\<lambda>d.
       if py_get d ''format_version'' \<noteq> PStr TRAINING_FORMAT_VERSION then
         Inl (ValueError ''Unsupported training_provenance format_version.'')
       else
         res_bind (require_identifier (py_get d ''producer_policy'') ''training_provenance.producer_policy'') (\<lambda>policy_id.
         res_bind (parse_recipe_provenance (py_get d ''recipe'')) (\<lambda>recipe.
         res_bind (parse_data_roles (py_get d ''data_roles'')) (\<lambda>roles.
         res_bind (require_sha256 (py_get d ''data_roles_sha256'') ''training_provenance.data_roles_sha256'') (\<lambda>roles_sha.
         res_bind (training_data_fingerprint_for_roles roles) (\<lambda>fingerprint.
           if roles_sha \<noteq> fingerprint then Inl (ValueError ''training_provenance data role checksum mismatch.'')
           else
             res_bind (parse_optional_quarantine anchor (py_get d ''quarantine'')) (\<lambda>q.
               Inr \<lparr>tr_format_version = TRAINING_FORMAT_VERSION, tr_producer_policy = policy_id, tr_recipe = recipe,
                    tr_data_roles = roles, tr_data_roles_sha256 = roles_sha, tr_quarantine = q\<rparr>)))))))"

section \<open>Regular expressions\<close>

text \<open>
  \<open>re.fullmatch\<close> for the expressions the tracked policies use: a sequence of single characters
  and bracketed classes, each alone, repeated by \<open>+\<close> or a given number of times by \<open>{n}\<close>. The
  anchors at both ends change nothing under \<open>fullmatch\<close>. An expression outside this fragment
  does not occur; it would match nothing here.
\<close>

type_synonym re_item = "(char \<Rightarrow> bool) \<times> nat \<times> nat option"

fun in_class :: "string \<Rightarrow> char \<Rightarrow> bool" where
  "in_class [] c = False"
| "in_class [a] c = (c = a)"
| "in_class [a, b] c = (c = a \<or> c = b)"
| "in_class (a # b # d # cs) c =
     (if b = CHR ''-'' then (a \<le> c \<and> c \<le> d) \<or> in_class cs c else c = a \<or> in_class (b # d # cs) c)"

definition digits_value :: "string \<Rightarrow> nat" where
  "digits_value ds = foldl (\<lambda>n d. 10 * n + (of_char d - 48)) 0 ds"

definition re_quantifier :: "string \<Rightarrow> nat \<times> nat option \<times> string" where
  "re_quantifier rest =
     (case rest of
        [] \<Rightarrow> (1, Some 1, [])
      | c # cs \<Rightarrow>
          if c = CHR ''+'' then (1, None, cs)
          else if c = CHR ''{'' then
            (let n = digits_value (takeWhile (\<lambda>x. x \<noteq> CHR ''}'') cs) in (n, Some n, drop 1 (dropWhile (\<lambda>x. x \<noteq> CHR ''}'') cs)))
          else (1, Some 1, rest))"

lemma re_quantifier_shorter: "re_quantifier rest = (lo, hi, rest') \<Longrightarrow> length rest' \<le> length rest"
  using length_dropWhile_le [of "\<lambda>x. x \<noteq> CHR ''}''" "tl rest"]
  by (cases rest) (auto simp: re_quantifier_def Let_def split: if_splits)

function re_items :: "string \<Rightarrow> re_item list option" where
  "re_items [] = Some []"
| "re_items (c # cs) =
     (if c = CHR ''['' then
        (let body = takeWhile (\<lambda>x. x \<noteq> CHR '']'') cs; (lo, hi, rest) = re_quantifier (drop 1 (dropWhile (\<lambda>x. x \<noteq> CHR '']'') cs))
         in map_option (\<lambda>is'. (in_class body, lo, hi) # is') (re_items rest))
      else if c \<in> set ''().|*?+{'' \<or> c = CHR 0x5C then None
      else
        (let (lo, hi, rest) = re_quantifier cs in map_option (\<lambda>is'. ((\<lambda>x. x = c), lo, hi) # is') (re_items rest)))"
  by pat_completeness auto
termination
proof (relation "measure length", goal_cases)
  case (2 c cs body q lo r hi rest)
  have "length rest \<le> length (drop 1 (dropWhile (\<lambda>x. x \<noteq> CHR '']'') cs))"
    using 2(3-5) re_quantifier_shorter by metis
  also have "\<dots> \<le> length cs" using length_dropWhile_le [of "\<lambda>x. x \<noteq> CHR '']''" cs] by simp
  finally show ?case by simp
next
  case (3 c cs q lo r hi rest)
  then have "length rest \<le> length cs" using re_quantifier_shorter by metis
  then show ?case by simp
qed simp

fun re_match :: "re_item list \<Rightarrow> string \<Rightarrow> bool" where
  "re_match [] s = (s = [])"
| "re_match ((p, lo, hi) # items) s =
     list_ex (\<lambda>n. lo \<le> n \<and> (case hi of None \<Rightarrow> True | Some h \<Rightarrow> n \<le> h) \<and> list_all p (take n s) \<and> re_match items (drop n s))
       [0..<Suc (length s)]"

definition without_anchors :: "string \<Rightarrow> string" where
  "without_anchors p =
     (let q = (case p of [] \<Rightarrow> [] | c # cs \<Rightarrow> if c = CHR ''^'' then cs else p)
      in if q \<noteq> [] \<and> last q = CHR ''$'' then butlast q else q)"

definition re_fullmatch :: "string \<Rightarrow> string \<Rightarrow> bool" where
  "re_fullmatch pattern s = (case re_items (without_anchors pattern) of None \<Rightarrow> False | Some items \<Rightarrow> re_match items s)"

section \<open>Policy binding\<close>

text \<open>Float comparison: \<open>nan\<close> equals nothing.\<close>

definition feq :: "pyfloat \<Rightarrow> pyfloat \<Rightarrow> bool" where
  "feq x y = (x = y \<and> x \<noteq> NaN)"

definition type_name :: "pyval \<Rightarrow> string" where
  "type_name v = (case v of PNone \<Rightarrow> ''NoneType'' | PBool _ \<Rightarrow> ''bool'' | PInt _ \<Rightarrow> ''int'' | PFloat _ \<Rightarrow> ''float'' | PStr _ \<Rightarrow> ''str''
     | PList _ \<Rightarrow> ''list'' | PDict _ \<Rightarrow> ''dict'')"

text \<open>\<open>{"evidence_category": ..., **policy["intended_use"]}\<close>.\<close>

definition expected_intended :: "(string, pyval) dict \<Rightarrow> py_exc + (string, pyval) dict" where
  "expected_intended p =
     (case dict_of (py_get p ''intended_use'') of
        None \<Rightarrow> Inl (TypeError (repr_str (type_name (py_get p ''intended_use'')) @ '' object is not a mapping''))
      | Some u \<Rightarrow> Inr (foldl (\<lambda>d (k, v). AList.update k v d) [(''evidence_category'', py_get p ''evidence_category'')] u))"

definition actual_intended :: "intended_use \<Rightarrow> (string, pyval) dict" where
  "actual_intended u = filter (\<lambda>(k, _). k \<noteq> ''producer_policy'' \<and> k \<noteq> ''producer_policy_sha256'') (intended_use_dict u)"

definition POLICY_THRESHOLD_FIELDS :: "string list" where
  "POLICY_THRESHOLD_FIELDS = [''calibration_binding'', ''cost_optimal'', ''fixed_value'', ''model_linkage'', ''production_approved'',
     ''purpose'', ''razorpay_approved'', ''source'']"

text \<open>Equality of a dataclass with the one built from the policy's values, field by field.\<close>

definition recipe_matches :: "recipe_provenance \<Rightarrow> (string, pyval) dict \<Rightarrow> string \<Rightarrow> bool" where
  "recipe_matches r rp configuration_sha =
     (py_eq (PStr (rp_name r)) (py_get rp ''name'') \<and> py_eq (PStr (rp_version r)) (py_get rp ''version'') \<and>
      rp_configuration_sha256 r = configuration_sha)"

definition threshold_matches :: "threshold_provenance \<Rightarrow> (string, pyval) dict \<Rightarrow> pyfloat \<Rightarrow> bool \<Rightarrow> bool" where
  "threshold_matches t tp operating calibrated =
     (feq (tp_value t) operating \<and> py_eq (PStr (tp_source t)) (py_get tp ''source'') \<and>
      py_eq (PStr (tp_model_linkage t)) (py_get tp ''model_linkage'') \<and> py_eq (PStr (tp_purpose t)) (py_get tp ''purpose'') \<and>
      tp_calibrated t = calibrated \<and> py_eq (PBool (tp_cost_optimal t)) (py_get tp ''cost_optimal'') \<and>
      py_eq (PBool (tp_razorpay_approved t)) (py_get tp ''razorpay_approved'') \<and>
      py_eq (PBool (tp_production_approved t)) (py_get tp ''production_approved''))"

definition roles_match :: "(string, pyval) dict \<Rightarrow> (string, pyval) dict \<Rightarrow> bool" where
  "roles_match required roles =
     list_all (\<lambda>(role, v). case bool_of v of None \<Rightarrow> False | Some b \<Rightarrow> (py_get roles role \<noteq> PNone) = b) required"

definition validate_threshold_binding ::
  "(string, pyval) dict \<Rightarrow> threshold_provenance \<Rightarrow> pyfloat \<Rightarrow> string \<Rightarrow> py_exc + unit" where
  "validate_threshold_binding p t operating score_type =
     res_bind (require_exact_mapping (py_get p ''threshold'') POLICY_THRESHOLD_FIELDS ''policy.threshold'') (\<lambda>tp.
       if \<not> feq (tp_value t) operating then Inl (ValueError ''threshold_provenance.value must equal operating_threshold.'')
       else
         res_bind (if py_get tp ''fixed_value'' = PNone then Inr operating else py_float (py_get tp ''fixed_value'')) (\<lambda>fixed.
           if \<not> feq fixed operating then Inl (ValueError ''Operating threshold contradicts the tracked producer policy.'')
           else
             res_bind (in_string_set (py_get tp ''calibration_binding'') [''false'', ''score_type'']) (\<lambda>known.
               if \<not> known then Inl (ValueError ''Tracked threshold calibration binding is unsupported.'')
               else if \<not> threshold_matches t tp operating
                          (py_get tp ''calibration_binding'' = PStr ''score_type'' \<and> score_type = ''calibrated_probability'') then
                 Inl (ValueError ''Threshold provenance contradicts the tracked producer policy.'')
               else Inr ())))"

definition validate_role_binding :: "(string, pyval) dict \<Rightarrow> string \<Rightarrow> training_provenance \<Rightarrow> py_exc + unit" where
  "validate_role_binding p category t =
     res_bind (require_exact_mapping (py_get p ''required_roles'') DATA_ROLES_FIELDS ''policy.required_roles'') (\<lambda>required.
       if \<not> roles_match required (data_roles_dict (tr_data_roles t)) then
         Inl (ValueError ''Declared data roles contradict the tracked producer policy.'')
       else if category = SYNTHETIC then
         (if tr_quarantine t \<noteq> None then Inl (ValueError ''Synthetic demo bundles must not claim quarantine provenance.'') else Inr ())
       else if tr_quarantine t = None then Inl (ValueError ''Non-synthetic bundles require quarantine provenance.'')
       else Inr ())"

definition validate_policy_binding ::
  "py_exc + (string, pyval) dict \<Rightarrow> intended_use \<Rightarrow> threshold_provenance \<Rightarrow> training_provenance \<Rightarrow> string \<Rightarrow> pyfloat \<Rightarrow> string \<Rightarrow> py_exc + unit" where
  "validate_policy_binding policies u t tr model_version operating score_type =
     res_bind (producer_policy policies (iu_producer_policy u)) (\<lambda>p.
       if tr_producer_policy tr \<noteq> iu_producer_policy u then
         Inl (ValueError ''Training provenance contradicts the producer policy.'')
       else
         res_bind (policy_sha256 p) (\<lambda>h.
           if iu_producer_policy_sha256 u \<noteq> h then
             Inl (ValueError ''Producer policy checksum does not match tracked configuration.'')
           else
             res_bind (expected_intended p) (\<lambda>expected.
               if \<not> py_eq (PDict (actual_intended u)) (PDict expected) then
                 Inl (ValueError ''Intended use contradicts the tracked producer policy.'')
               else if (case py_get p ''model_version_pattern'' of PStr pattern \<Rightarrow> \<not> re_fullmatch pattern model_version | _ \<Rightarrow> True) then
                 Inl (ValueError ''Model version contradicts the tracked producer policy.'')
               else
                 res_bind (require_exact_mapping (py_get p ''recipe'') [''name'', ''version'', ''configuration''] ''policy.recipe'') (\<lambda>rp.
                 res_bind (canonical_json_sha256 (py_get rp ''configuration'')) (\<lambda>configuration_sha.
                   if \<not> recipe_matches (tr_recipe tr) rp configuration_sha then
                     Inl (ValueError ''Training recipe does not match tracked canonical configuration.'')
                   else
                     res_bind (validate_threshold_binding p t operating score_type) (\<lambda>_.
                       validate_role_binding p (iu_evidence_category u) tr))))))"

end
