(* ===== verification/Model_Bundle.thy ===== *)
theory Model_Bundle
  imports Bundle_Policy
begin

text \<open>
  The metadata builders of \<open>src/src/artifacts/bundle.py\<close>, the tracked policy document and
  \<open>ModelBundle\<close> with \<open>validate()\<close>. A fitted object of scikit-learn or XGBoost is the record of the
  attributes the code reads from it.
\<close>

section \<open>Builders\<close>

text \<open>
  A builder copies values of the policy into typed fields without a check. Values of another
  type would make an object the typed records can not hold; the model answers \<open>unrepresentable\<close>
  there, and no tracked policy has such a value.
\<close>

definition typed :: "'a option \<Rightarrow> py_exc + 'a" where
  "typed x = (case x of Some y \<Rightarrow> Inr y | None \<Rightarrow> Inl (PyError ''unrepresentable'' []))"

definition policy_section :: "(string, pyval) dict \<Rightarrow> string \<Rightarrow> py_exc + (string, pyval) dict" where
  "policy_section p k = typed (dict_of (py_get p k))"

definition str_item :: "(string, pyval) dict \<Rightarrow> string \<Rightarrow> py_exc + string" where
  "str_item d k = res_bind (py_item d k) (\<lambda>v. typed (str_of v))"

definition bool_item :: "(string, pyval) dict \<Rightarrow> string \<Rightarrow> py_exc + bool" where
  "bool_item d k = res_bind (py_item d k) (\<lambda>v. typed (bool_of v))"

definition intended_use_metadata :: "py_exc + (string, pyval) dict \<Rightarrow> string \<Rightarrow> py_exc + intended_use" where
  "intended_use_metadata policies policy_id =
     res_bind (producer_policy policies policy_id) (\<lambda>p.
     res_bind (policy_section p ''intended_use'') (\<lambda>u.
     res_bind (policy_sha256 p) (\<lambda>h.
     res_bind (str_item p ''evidence_category'') (\<lambda>category.
     res_bind (bool_item u ''historical_taint'') (\<lambda>taint.
     res_bind (bool_item u ''decision_eligible'') (\<lambda>eligible.
     res_bind (bool_item u ''historical_metrics_claimed'') (\<lambda>claimed.
     res_bind (bool_item u ''evaluation_performed'') (\<lambda>performed.
       Inr \<lparr>iu_producer_policy = policy_id, iu_producer_policy_sha256 = h, iu_evidence_category = category, iu_historical_taint = taint,
            iu_decision_eligible = eligible, iu_historical_metrics_claimed = claimed, iu_evaluation_performed = performed\<rparr>))))))))"

definition threshold_provenance_metadata ::
  "py_exc + (string, pyval) dict \<Rightarrow> string \<Rightarrow> pyval \<Rightarrow> bool \<Rightarrow> py_exc + threshold_provenance" where
  "threshold_provenance_metadata policies policy_id value calibrated =
     res_bind (producer_policy policies policy_id) (\<lambda>p.
     res_bind (policy_section p ''threshold'') (\<lambda>t.
     res_bind (py_float value) (\<lambda>x.
     res_bind (str_item t ''source'') (\<lambda>source.
     res_bind (str_item t ''model_linkage'') (\<lambda>linkage.
     res_bind (str_item t ''purpose'') (\<lambda>purpose.
     res_bind (bool_item t ''cost_optimal'') (\<lambda>optimal.
     res_bind (bool_item t ''razorpay_approved'') (\<lambda>razorpay.
     res_bind (bool_item t ''production_approved'') (\<lambda>production.
       Inr \<lparr>tp_value = x, tp_source = source, tp_model_linkage = linkage, tp_purpose = purpose, tp_calibrated = calibrated,
            tp_cost_optimal = optimal, tp_razorpay_approved = razorpay, tp_production_approved = production\<rparr>)))))))))"

definition data_role_metadata :: "string \<Rightarrow> int \<Rightarrow> int \<Rightarrow> int \<Rightarrow> py_exc + data_role" where
  "data_role_metadata fingerprint total_count fraud duplicates =
     parse_data_role (PDict (data_role_dict \<lparr>ro_fingerprint_sha256 = fingerprint, ro_total_row_count = total_count,
       ro_legitimate_row_count = total_count - fraud, ro_fraud_row_count = fraud, ro_duplicate_row_count = duplicates\<rparr>)) ''data_role''"

definition quarantine_provenance_metadata :: "py_exc + quarantine_anchor \<Rightarrow> quarantine_provenance \<Rightarrow> py_exc + quarantine_provenance" where
  "quarantine_provenance_metadata anchor q = parse_quarantine anchor (PDict (quarantine_dict q))"

definition reference_provenance_metadata ::
  "py_exc + quarantine_anchor \<Rightarrow> reference_file \<Rightarrow> reference_source list \<Rightarrow> quarantine_provenance \<Rightarrow> reference_filtering \<Rightarrow>
   reference_pool \<Rightarrow> py_exc + reference_provenance" where
  "reference_provenance_metadata anchor recipe sources q g p =
     res_bind (reference_dict \<lparr>hr_format_version = REFERENCE_FORMAT_VERSION, hr_recipe = recipe, hr_sources = sources,
                 hr_quarantine = q, hr_filtering = g, hr_final_pool = p\<rparr>)
       (\<lambda>d. parse_reference_provenance anchor (PDict d))"

definition training_provenance_metadata ::
  "py_exc + (string, pyval) dict \<Rightarrow> py_exc + quarantine_anchor \<Rightarrow> string \<Rightarrow> data_roles \<Rightarrow> quarantine_provenance option \<Rightarrow>
   py_exc + training_provenance" where
  "training_provenance_metadata policies anchor policy_id roles q =
     res_bind (producer_policy policies policy_id) (\<lambda>p.
     res_bind (policy_section p ''recipe'') (\<lambda>rp.
     res_bind (str_item rp ''name'') (\<lambda>name.
     res_bind (str_item rp ''version'') (\<lambda>version.
     res_bind (py_item rp ''configuration'') (\<lambda>configuration.
     res_bind (canonical_json_sha256 configuration) (\<lambda>configuration_sha.
     res_bind (training_data_fingerprint_for_roles roles) (\<lambda>fingerprint.
       parse_training_provenance anchor (PDict (training_dict
         \<lparr>tr_format_version = TRAINING_FORMAT_VERSION, tr_producer_policy = policy_id,
          tr_recipe = \<lparr>rp_name = name, rp_version = version, rp_configuration_sha256 = configuration_sha\<rparr>,
          tr_data_roles = roles, tr_data_roles_sha256 = fingerprint, tr_quarantine = q\<rparr>)))))))))"

section \<open>The bundle\<close>

datatype class_array = No_Classes | Vector "pyval list" | Other_Shape

record estimator =
  es_transform :: bool
  es_predict :: bool
  es_predict_proba :: bool
  es_n_features_in :: "int option"
  es_feature_names_in :: "string list option"
  es_feature_names_out :: "string list option"
  es_classes :: class_array

definition POSITIVE_CLASS_LABEL :: int where "POSITIVE_CLASS_LABEL = 1"

definition positive_class_index :: "estimator \<Rightarrow> string \<Rightarrow> py_exc + int" where
  "positive_class_index e component =
     (case es_classes e of
        No_Classes \<Rightarrow> Inl (ValueError (''ModelBundle '' @ component @ '' must expose fitted classes_.''))
      | Vector vs \<Rightarrow>
          if py_eq (PList vs) (PList [PInt 0, PInt POSITIVE_CLASS_LABEL]) then Inr 1
          else Inl (ValueError (''ModelBundle '' @ component @ '' classes_ must be exactly [0, '' @ int_str POSITIVE_CLASS_LABEL @ ''].''))
      | Other_Shape \<Rightarrow> Inl (ValueError (''ModelBundle '' @ component @ '' classes_ must be exactly [0, '' @ int_str POSITIVE_CLASS_LABEL @ ''].'')))"

text \<open>\<open>name.split("__")[-1]\<close>.\<close>

fun last_piece :: "string \<Rightarrow> string \<Rightarrow> string" where
  "last_piece acc [] = acc"
| "last_piece acc [c] = acc @ [c]"
| "last_piece acc (c # d # cs) = (if c = CHR ''_'' \<and> d = CHR ''_'' then last_piece [] cs else last_piece (acc @ [c]) (d # cs))"

definition n_features :: "estimator \<Rightarrow> int" where
  "n_features e = (case es_n_features_in e of Some n \<Rightarrow> n | None \<Rightarrow> -1)"

definition validate_component_identities :: "estimator \<Rightarrow> estimator \<Rightarrow> py_exc + unit" where
  "validate_component_identities pre model =
     (let n = int (length ALL_FEATURES)
      in if n_features pre \<noteq> n then
           Inl (ValueError (''ModelBundle preprocessor must expect '' @ int_str n @ '' features.''))
         else if es_feature_names_in pre \<noteq> Some ALL_FEATURES then
           Inl (ValueError ''ModelBundle preprocessor raw feature identity mismatch.'')
         else case es_feature_names_out pre of
           None \<Rightarrow> Inl (ValueError ''ModelBundle preprocessor must expose transformed feature names.'')
         | Some out \<Rightarrow>
             (let names = map (last_piece []) out
              in if length names \<noteq> length ALL_FEATURES \<or> card (set names) \<noteq> length ALL_FEATURES then
                   Inl (ValueError ''ModelBundle transformed feature identity is malformed.'')
                 else if n_features model \<noteq> n then
                   Inl (ValueError (''ModelBundle model must expect '' @ int_str n @ '' features.''))
                 else if es_feature_names_in model \<noteq> Some names then
                   Inl (ValueError ''ModelBundle transformed feature order does not match the model.'')
                 else Inr ()))"

record model_bundle =
  mb_preprocessor :: "estimator option"
  mb_model :: "estimator option"
  mb_calibrator :: "estimator option"
  mb_operating_threshold :: pyval
  mb_feature_schema :: "string list"
  mb_training_data_fingerprint :: pyval
  mb_model_version :: string
  mb_intended_use :: intended_use
  mb_threshold_provenance :: threshold_provenance
  mb_training_provenance :: training_provenance
  mb_score_type :: string
  mb_reference_provenance :: "reference_provenance option"
  mb_model_artifact_sha256 :: "pyval option"

text \<open>\<open>0.0 <= float(threshold) <= 1.0\<close>, after the type and finiteness checks.\<close>

definition threshold_in_range :: "(pyval \<Rightarrow> py_exc + bool) \<Rightarrow> pyval \<Rightarrow> py_exc + bool" where
  "threshold_in_range isfinite v =
     res_bind (finite_number isfinite v) (\<lambda>ok.
       if \<not> ok then Inr False
       else res_bind (py_float v) (\<lambda>x. Inr (fle (Fin 0) x \<and> fle x (Fin 1))))"

definition validate_components :: "model_bundle \<Rightarrow> py_exc + estimator \<times> estimator" where
  "validate_components b =
     (case mb_preprocessor b of
        None \<Rightarrow> Inl (ValueError ''ModelBundle preprocessor must expose transform().'')
      | Some pre \<Rightarrow>
          if \<not> es_transform pre then Inl (ValueError ''ModelBundle preprocessor must expose transform().'')
          else (case mb_model b of
             None \<Rightarrow> Inl (ValueError ''ModelBundle model must expose predict_proba().'')
           | Some model \<Rightarrow>
               if \<not> es_predict_proba model then Inl (ValueError ''ModelBundle model must expose predict_proba().'')
               else if (case mb_calibrator b of None \<Rightarrow> False | Some c \<Rightarrow> \<not> es_predict_proba c \<and> \<not> es_predict c) then
                 Inl (ValueError ''ModelBundle calibrator must expose predict() or predict_proba().'')
               else Inr (pre, model)))"

definition validate_scores :: "model_bundle \<Rightarrow> py_exc + unit" where
  "validate_scores b =
     (if mb_score_type b \<notin> {''raw_score'', ''calibrated_probability''} then Inl (ValueError ''Unsupported ModelBundle score_type.'')
      else if mb_calibrator b = None \<and> mb_score_type b \<noteq> ''raw_score'' then
        Inl (ValueError ''A bundle without a calibrator must expose raw_score.'')
      else if mb_calibrator b \<noteq> None \<and> mb_score_type b \<noteq> ''calibrated_probability'' then
        Inl (ValueError ''A bundle with a calibrator must expose calibrated_probability.'')
      else Inr ())"

definition validate_bundle :: "(pyval \<Rightarrow> py_exc + bool) \<Rightarrow> py_exc + (string, pyval) dict \<Rightarrow> model_bundle \<Rightarrow> py_exc + unit" where
  "validate_bundle isfinite policies b =
     res_bind (validate_components b) (\<lambda>(pre, model).
     res_bind (threshold_in_range isfinite (mb_operating_threshold b)) (\<lambda>ok.
       if \<not> ok then Inl (ValueError ''ModelBundle operating_threshold must be finite and in [0, 1].'')
       else if mb_feature_schema b \<noteq> ALL_FEATURES then
         Inl (ValueError ''ModelBundle feature_schema must match the canonical ordered schema.'')
       else
         res_bind (require_sha256 (mb_training_data_fingerprint b) ''ModelBundle training_data_fingerprint'') (\<lambda>fingerprint.
           if strip_by is_space (mb_model_version b) = [] then Inl (ValueError ''ModelBundle model_version must not be empty.'')
           else
             res_bind (case mb_model_artifact_sha256 b of None \<Rightarrow> Inr [] | Some v \<Rightarrow> require_sha256 v ''ModelBundle model_artifact_sha256'') (\<lambda>_.
             res_bind (validate_scores b) (\<lambda>_.
             res_bind (py_float (mb_operating_threshold b)) (\<lambda>operating.
             res_bind (validate_policy_binding policies (mb_intended_use b) (mb_threshold_provenance b) (mb_training_provenance b)
                        (mb_model_version b) operating (mb_score_type b)) (\<lambda>_.
               if fingerprint \<noteq> tr_data_roles_sha256 (mb_training_provenance b) then
                 Inl (ValueError ''ModelBundle training_data_fingerprint must bind every declared data role.'')
               else if iu_evidence_category (mb_intended_use b) = REFERENCE \<and>
                       (mb_score_type b \<noteq> ''raw_score'' \<or> mb_calibrator b \<noteq> None) then
                 Inl (ValueError ''Historical-reference demo bundles must expose raw_score without calibration.'')
               else
                 res_bind (validate_reference_binding policies (iu_evidence_category (mb_intended_use b)) (mb_reference_provenance b)
                            (tr_data_roles (mb_training_provenance b)) (tr_quarantine (mb_training_provenance b))) (\<lambda>_.
                 res_bind (validate_component_identities pre model) (\<lambda>_.
                 res_bind (positive_class_index model ''model'') (\<lambda>_.
                   case mb_calibrator b of
                     None \<Rightarrow> Inr ()
                   | Some c \<Rightarrow>
                       if es_predict_proba c then res_bind (positive_class_index c ''calibrator'') (\<lambda>_. Inr ()) else Inr ()))))))))))"

end
