(* ===== verification/Provenance_Facts.thy ===== *)
theory Provenance_Facts
  imports Model_Bundle Json_Text
begin

text \<open>
  Provenance documents: each parser accepts exactly the dictionaries of well-formed records, so
  what is written is read back unchanged, and the fingerprint of the data roles binds them all.
\<close>

section \<open>Keys\<close>

lemma dict_fields [simp]:
  "fst ` set (intended_use_dict u) = set INTENDED_USE_FIELDS" "fst ` set (threshold_dict t) = set THRESHOLD_FIELDS"
  "fst ` set (recipe_dict r) = set RECIPE_FIELDS" "fst ` set (data_role_dict x) = set DATA_ROLE_FIELDS"
  "fst ` set (data_roles_dict y) = set DATA_ROLES_FIELDS" "fst ` set (quarantine_dict q) = set QUARANTINE_FIELDS"
  "fst ` set (reference_file_dict f) = set REFERENCE_FILE_FIELDS" "fst ` set (reference_source_dict rs) = set REFERENCE_SOURCE_FIELDS"
  "fst ` set (filtering_dict g) = set FILTERING_FIELDS" "fst ` set (pool_dict p) = set POOL_FIELDS"
  "fst ` set (training_dict tr) = set TRAINING_FIELDS"
  by (simp_all add: intended_use_dict_def INTENDED_USE_FIELDS_def threshold_dict_def THRESHOLD_FIELDS_def recipe_dict_def RECIPE_FIELDS_def
      data_role_dict_def DATA_ROLE_FIELDS_def data_roles_dict_def DATA_ROLES_FIELDS_def quarantine_dict_def QUARANTINE_FIELDS_def
      reference_file_dict_def REFERENCE_FILE_FIELDS_def reference_source_dict_def REFERENCE_SOURCE_FIELDS_def filtering_dict_def
      FILTERING_FIELDS_def pool_dict_def POOL_FIELDS_def training_dict_def TRAINING_FIELDS_def)

lemma require_exact_dict [simp]: "fst ` set d = set ks \<Longrightarrow> require_exact_mapping (PDict d) ks l = Inr d"
  by (simp add: require_exact_mapping_def)

lemma require_ok [simp]:
  "is_sha256 s \<Longrightarrow> require_sha256 (PStr s) l = Inr s" "0 \<le> i \<Longrightarrow> require_nonnegative_int (PInt i) l = Inr i"
  "is_identifier s \<Longrightarrow> require_identifier (PStr s) l = Inr s" "bool_of (PBool b) = Some b"
  by (simp_all add: require_sha256_def require_nonnegative_int_def require_identifier_def bool_of_def)

lemma bool_of_Some [simp]: "bool_of v = Some b \<longleftrightarrow> v = PBool b"
  by (cases v) (simp_all add: bool_of_def)

text \<open>A document equals the dictionary of a record when it has the same keys and equal values.\<close>

lemma py_eq_dictI:
  assumes "dict_ok d" and "dict_ok e" and "set (map fst d) = set (map fst e)"
    and "\<And>k u. (k, u) \<in> set e \<Longrightarrow> py_eq (py_get d k) u"
  shows "py_eq (PDict d) (PDict e)"
proof -
  have l: "length d = length e" using assms(1-3) by (metis distinct_card length_map)
  have "\<exists>u. map_of e k = Some u \<and> py_eq v u" if kv: "(k, v) \<in> set d" for k v
  proof -
    have k: "k \<in> set (map fst e)" using kv assms(3) by force
    then obtain u where u: "map_of e k = Some u" by (metis map_of_eq_None_iff option.exhaust set_map)
    then have "(k, u) \<in> set e" by (rule map_of_SomeD)
    moreover have "py_get d k = v" using kv assms(1) by (simp add: py_get_def)
    ultimately show ?thesis using assms(4) u by metis
  qed
  then show ?thesis unfolding py_eq_dict_iff using l by auto
qed

lemma json_plain_item: "json_plain (PDict d) \<Longrightarrow> json_plain (py_get d k)"
  by (auto simp: py_get_def list_all_iff split: option.split dest!: map_of_SomeD)

text \<open>What an accepted document says: it has the keys of \<open>e\<close> and values equal to those of \<open>e\<close>.\<close>

definition denotes :: "pyval \<Rightarrow> (string, pyval) dict \<Rightarrow> bool" where
  "denotes v e \<longleftrightarrow> dict_ok e \<and> (\<exists>d. v = PDict d \<and> set (map fst d) = set (map fst e) \<and>
     (\<forall>(k, u) \<in> set e. json_plain (py_get d k) \<longrightarrow> py_eq (py_get d k) u))"

lemma denotesI:
  "dict_ok e \<Longrightarrow> set (map fst d) = set (map fst e) \<Longrightarrow>
     list_all (\<lambda>(k, u). json_plain (py_get d k) \<longrightarrow> py_eq (py_get d k) u) e \<Longrightarrow> denotes (PDict d) e"
  by (auto simp: denotes_def list_all_iff simp del: py_eq.simps)

lemma denotes_py_eq: "denotes v e \<Longrightarrow> json_plain v \<Longrightarrow> py_eq v (PDict e)"
  unfolding denotes_def using json_plain_item by (elim conjE exE) (auto intro!: py_eq_dictI simp del: py_eq.simps)

section \<open>Data roles\<close>

definition data_role_ok :: "data_role \<Rightarrow> bool" where
  "data_role_ok r \<longleftrightarrow> is_sha256 (ro_fingerprint_sha256 r) \<and> 0 \<le> ro_total_row_count r \<and> 0 \<le> ro_legitimate_row_count r \<and>
     0 \<le> ro_fraud_row_count r \<and> 0 \<le> ro_duplicate_row_count r \<and>
     role_counts_ok (ro_total_row_count r) (ro_legitimate_row_count r) (ro_fraud_row_count r) (ro_duplicate_row_count r)"

lemma parse_data_role_Inr:
  assumes "parse_data_role v l = Inr r"
  shows "data_role_ok r \<and> denotes v (data_role_dict r)"
proof -
  obtain d h t g f u where d: "v = PDict d" "set (map fst d) = set DATA_ROLE_FIELDS" "py_get d ''fingerprint_sha256'' = PStr h"
    "is_sha256 h" "py_get d ''total_row_count'' = PInt t" "py_get d ''legitimate_row_count'' = PInt g" "py_get d ''fraud_row_count'' = PInt f"
    "py_get d ''duplicate_row_count'' = PInt u" "0 \<le> t" "0 \<le> g" "0 \<le> f" "0 \<le> u" "role_counts_ok t g f u"
    "r = \<lparr>ro_fingerprint_sha256 = h, ro_total_row_count = t, ro_legitimate_row_count = g, ro_fraud_row_count = f, ro_duplicate_row_count = u\<rparr>"
    using assms by (auto simp: parse_data_role_def res_bind_Inr_iff split: if_splits)
  have "denotes v (data_role_dict r)" unfolding d(1)
    by (rule denotesI) (use d(2-8,14) in \<open>simp_all add: data_role_dict_def DATA_ROLE_FIELDS_def\<close>)
  then show ?thesis by (simp add: data_role_ok_def d)
qed

lemma parse_data_role_dict [simp]: "data_role_ok r \<Longrightarrow> parse_data_role (PDict (data_role_dict r)) l = Inr r"
  by (simp add: parse_data_role_def data_role_ok_def) (simp add: data_role_dict_def py_get_def)

definition data_roles_ok :: "data_roles \<Rightarrow> bool" where
  "data_roles_ok r \<longleftrightarrow> data_role_ok (rl_model_fit r) \<and> pred_option data_role_ok (rl_calibrator_fit r) \<and>
     pred_option data_role_ok (rl_threshold_selection r) \<and> pred_option data_role_ok (rl_evaluation r)"

lemma parse_optional_role_Inr:
  "parse_optional_role d k = Inr x \<Longrightarrow>
     pred_option data_role_ok x \<and> (json_plain (py_get d k) \<longrightarrow> py_eq (py_get d k) (opt_dict data_role_dict x))"
  using parse_data_role_Inr denotes_py_eq
  by (auto simp: parse_optional_role_def res_bind_Inr_iff opt_dict_def simp del: py_eq.simps(2-) split: if_splits)

lemma parse_data_roles_Inr:
  assumes "parse_data_roles v = Inr r"
  shows "data_roles_ok r \<and> denotes v (data_roles_dict r)"
proof -
  obtain d fit cal sel ev where d: "v = PDict d" "set (map fst d) = set DATA_ROLES_FIELDS"
    "parse_data_role (py_get d ''model_fit'') ''data_roles.model_fit'' = Inr fit" "parse_optional_role d ''calibrator_fit'' = Inr cal"
    "parse_optional_role d ''threshold_selection'' = Inr sel" "parse_optional_role d ''evaluation'' = Inr ev"
    "r = \<lparr>rl_model_fit = fit, rl_calibrator_fit = cal, rl_threshold_selection = sel, rl_evaluation = ev\<rparr>"
    using assms by (auto simp: parse_data_roles_def res_bind_Inr_iff)
  note p = parse_data_role_Inr [OF d(3)] parse_optional_role_Inr [OF d(4)] parse_optional_role_Inr [OF d(5)] parse_optional_role_Inr [OF d(6)]
  have "py_eq (py_get d ''model_fit'') (PDict (data_role_dict fit))" if "json_plain (py_get d ''model_fit'')"
    using p(1) denotes_py_eq that by blast
  then show ?thesis using p(2-4) p(1) d(1,2)
    by (simp add: data_roles_ok_def denotes_def data_roles_dict_def DATA_ROLES_FIELDS_def d(7) del: py_eq.simps)
qed

lemma opt_dict_None [simp]: "opt_dict f x = PNone \<longleftrightarrow> x = None"
  by (cases x) (simp_all add: opt_dict_def)

lemma parse_optional_role_dict:
  "py_get d k = opt_dict data_role_dict x \<Longrightarrow> pred_option data_role_ok x \<Longrightarrow> parse_optional_role d k = Inr x"
  by (cases x) (simp_all add: parse_optional_role_def opt_dict_def)

lemma parse_data_roles_dict [simp]: "data_roles_ok r \<Longrightarrow> parse_data_roles (PDict (data_roles_dict r)) = Inr r"
  using parse_optional_role_dict [of "data_roles_dict r"]
  by (simp add: parse_data_roles_def data_roles_ok_def) (simp add: data_roles_dict_def py_get_def)

section \<open>Quarantine and recipe\<close>

definition quarantine_ok :: "quarantine_provenance \<Rightarrow> bool" where
  "quarantine_ok q \<longleftrightarrow> is_sha256 (qp_anchor_sha256 q) \<and> is_sha256 (qp_row_hashes_sha256 q) \<and> 0 < qp_total_row_count q \<and>
     0 \<le> qp_unique_row_count q \<and> 0 \<le> qp_duplicate_row_count q \<and> 0 \<le> qp_fraud_row_count q \<and>
     qp_total_row_count q = qp_unique_row_count q + qp_duplicate_row_count q \<and> qp_fraud_row_count q \<le> qp_total_row_count q \<and>
     qp_overlap_row_count q = 0"

lemma approved_anchor_Inr [simp]: "approved_anchor anchor = Inr a \<longleftrightarrow> anchor = Inr a"
  by (cases anchor) (simp_all add: approved_anchor_def)

lemma parse_quarantine_Inr:
  assumes "parse_quarantine anchor v = Inr q"
  shows "quarantine_ok q \<and> (\<exists>a. anchor = Inr a \<and> matches_anchor q a) \<and> denotes v (quarantine_dict q)"
proof -
  obtain d h k t u g f a where d: "v = PDict d" "set (map fst d) = set QUARANTINE_FIELDS" "py_get d ''anchor_sha256'' = PStr h"
    "py_get d ''row_hashes_sha256'' = PStr k" "is_sha256 h" "is_sha256 k" "py_get d ''total_row_count'' = PInt t"
    "py_get d ''unique_row_count'' = PInt u" "py_get d ''duplicate_row_count'' = PInt g" "py_get d ''fraud_row_count'' = PInt f"
    "py_get d ''overlap_row_count'' = PInt 0" "0 \<le> t" "0 \<le> u" "0 \<le> g" "0 \<le> f" "t \<noteq> 0" "t = u + g" "f \<le> t" "anchor = Inr a"
    "matches_anchor q a" "q = \<lparr>qp_anchor_sha256 = h, qp_row_hashes_sha256 = k, qp_total_row_count = t, qp_fraud_row_count = f,
       qp_unique_row_count = u, qp_duplicate_row_count = g, qp_overlap_row_count = 0\<rparr>"
    using assms by (auto simp: parse_quarantine_def res_bind_Inr_iff Let_def split: if_splits)
  have "denotes v (quarantine_dict q)" unfolding d(1)
    by (rule denotesI) (use d(2-11,21) in \<open>simp_all add: quarantine_dict_def QUARANTINE_FIELDS_def\<close>)
  then show ?thesis using d by (simp add: quarantine_ok_def)
qed

lemma parse_quarantine_dict [simp]:
  "quarantine_ok q \<Longrightarrow> anchor = Inr a \<Longrightarrow> matches_anchor q a \<Longrightarrow> parse_quarantine anchor (PDict (quarantine_dict q)) = Inr q"
  by (cases q) (simp add: parse_quarantine_def quarantine_ok_def; simp add: quarantine_dict_def py_get_def approved_anchor_def Let_def)

definition recipe_ok :: "recipe_provenance \<Rightarrow> bool" where
  "recipe_ok r \<longleftrightarrow> is_identifier (rp_name r) \<and> is_identifier (rp_version r) \<and> is_sha256 (rp_configuration_sha256 r)"

lemma parse_recipe_Inr:
  assumes "parse_recipe_provenance v = Inr r"
  shows "recipe_ok r \<and> denotes v (recipe_dict r)"
proof -
  obtain d where d: "v = PDict d" "set (map fst d) = set RECIPE_FIELDS" "py_get d ''name'' = PStr (rp_name r)"
    "py_get d ''version'' = PStr (rp_version r)" "py_get d ''configuration_sha256'' = PStr (rp_configuration_sha256 r)" "recipe_ok r"
    using assms by (auto simp: parse_recipe_provenance_def res_bind_Inr_iff recipe_ok_def)
  have "denotes v (recipe_dict r)" unfolding d(1)
    by (rule denotesI) (use d(2-5) in \<open>simp_all add: recipe_dict_def RECIPE_FIELDS_def\<close>)
  then show ?thesis using d by simp
qed

lemma parse_recipe_dict [simp]: "recipe_ok r \<Longrightarrow> parse_recipe_provenance (PDict (recipe_dict r)) = Inr r"
  by (simp add: parse_recipe_provenance_def recipe_ok_def) (simp add: recipe_dict_def py_get_def)

section \<open>Training provenance\<close>

definition training_ok :: "py_exc + quarantine_anchor \<Rightarrow> training_provenance \<Rightarrow> bool" where
  "training_ok anchor t \<longleftrightarrow> tr_format_version t = TRAINING_FORMAT_VERSION \<and> is_identifier (tr_producer_policy t) \<and> recipe_ok (tr_recipe t) \<and>
     data_roles_ok (tr_data_roles t) \<and> training_data_fingerprint_for_roles (tr_data_roles t) = Inr (tr_data_roles_sha256 t) \<and>
     (\<forall>q. tr_quarantine t = Some q \<longrightarrow> quarantine_ok q \<and> (\<exists>a. anchor = Inr a \<and> matches_anchor q a))"

lemma canonical_json_is_sha256: "canonical_json_sha256 v = Inr h \<Longrightarrow> is_sha256 h"
  by (auto simp: canonical_json_sha256_def res_bind_Inr_iff)

lemma parse_optional_quarantine_Inr:
  "parse_optional_quarantine anchor v = Inr x \<Longrightarrow>
     (\<forall>q. x = Some q \<longrightarrow> quarantine_ok q \<and> (\<exists>a. anchor = Inr a \<and> matches_anchor q a)) \<and>
     (json_plain v \<longrightarrow> py_eq v (opt_dict quarantine_dict x))"
  using parse_quarantine_Inr denotes_py_eq
  by (auto simp: parse_optional_quarantine_def res_bind_Inr_iff opt_dict_def simp del: py_eq.simps(2-) split: if_splits)

lemma parse_training_Inr:
  assumes "parse_training_provenance anchor v = Inr t"
  shows "training_ok anchor t \<and> denotes v (training_dict t)"
proof -
  obtain d policy_id recipe roles h q where d: "v = PDict d" "set (map fst d) = set TRAINING_FIELDS"
    "py_get d ''format_version'' = PStr TRAINING_FORMAT_VERSION" "py_get d ''producer_policy'' = PStr policy_id" "is_identifier policy_id"
    "parse_recipe_provenance (py_get d ''recipe'') = Inr recipe" "parse_data_roles (py_get d ''data_roles'') = Inr roles"
    "py_get d ''data_roles_sha256'' = PStr h" "training_data_fingerprint_for_roles roles = Inr h"
    "parse_optional_quarantine anchor (py_get d ''quarantine'') = Inr q"
    "t = \<lparr>tr_format_version = TRAINING_FORMAT_VERSION, tr_producer_policy = policy_id, tr_recipe = recipe, tr_data_roles = roles,
       tr_data_roles_sha256 = h, tr_quarantine = q\<rparr>"
    using assms by (auto simp: parse_training_provenance_def res_bind_Inr_iff split: if_splits)
  note p = parse_recipe_Inr [OF d(6)] parse_data_roles_Inr [OF d(7)] parse_optional_quarantine_Inr [OF d(10)]
  have "py_eq (py_get d ''recipe'') (PDict (recipe_dict recipe))" if "json_plain (py_get d ''recipe'')"
    using p(1) denotes_py_eq that by blast
  moreover have "py_eq (py_get d ''data_roles'') (PDict (data_roles_dict roles))" if "json_plain (py_get d ''data_roles'')"
    using p(2) denotes_py_eq that by blast
  ultimately have "denotes v (training_dict t)" using p(3) d(1-4,8)
    by (simp add: denotes_def training_dict_def TRAINING_FIELDS_def d(11) del: py_eq.simps(2-4,6-7))
  then show ?thesis using p d(5,9) by (simp add: training_ok_def d(11))
qed

lemma parse_training_dict:
  assumes "training_ok anchor t"
  shows "parse_training_provenance anchor (PDict (training_dict t)) = Inr t"
proof -
  have g: "py_get (training_dict t) ''format_version'' = PStr (tr_format_version t)"
    "py_get (training_dict t) ''producer_policy'' = PStr (tr_producer_policy t)"
    "py_get (training_dict t) ''recipe'' = PDict (recipe_dict (tr_recipe t))"
    "py_get (training_dict t) ''data_roles'' = PDict (data_roles_dict (tr_data_roles t))"
    "py_get (training_dict t) ''data_roles_sha256'' = PStr (tr_data_roles_sha256 t)"
    "py_get (training_dict t) ''quarantine'' = opt_dict quarantine_dict (tr_quarantine t)"
    by (simp_all add: training_dict_def py_get_def)
  have "is_sha256 (tr_data_roles_sha256 t)"
    using assms canonical_json_is_sha256 by (auto simp: training_ok_def training_data_fingerprint_for_roles_def)
  moreover have "parse_optional_quarantine anchor (opt_dict quarantine_dict (tr_quarantine t)) = Inr (tr_quarantine t)"
    using assms by (cases "tr_quarantine t") (auto simp: parse_optional_quarantine_def opt_dict_def training_ok_def)
  ultimately show ?thesis using assms by (simp add: parse_training_provenance_def g training_ok_def)
qed

text \<open>
  C30. Training provenance survives the trip through its dictionary: an accepted document is, up
  to the order of keys, the dictionary of the record it is read as, and that dictionary is read
  back as the same record.
\<close>

theorem training_provenance_round_trip:
  assumes "parse_training_provenance anchor v = Inr t"
  shows "parse_training_provenance anchor (PDict (training_dict t)) = Inr t \<and> (json_plain v \<longrightarrow> py_eq v (PDict (training_dict t)))"
  using parse_training_Inr [OF assms] parse_training_dict [of anchor t] denotes_py_eq [of v "training_dict t"] by blast

definition sample_role :: "int \<Rightarrow> data_role" where
  "sample_role n = \<lparr>ro_fingerprint_sha256 = sha256_hex ''rows'', ro_total_row_count = n + 2, ro_legitimate_row_count = n,
     ro_fraud_row_count = 2, ro_duplicate_row_count = 0\<rparr>"

definition sample_roles :: data_roles where
  "sample_roles = \<lparr>rl_model_fit = sample_role 10, rl_calibrator_fit = None, rl_threshold_selection = Some (sample_role 4), rl_evaluation = None\<rparr>"

lemma sample_roles_ok: "data_roles_ok sample_roles"
  by (simp add: data_roles_ok_def sample_roles_def sample_role_def data_role_ok_def role_counts_ok_def)

lemma float_free_roles: "float_free (PDict (data_roles_dict r))"
  by (cases "rl_calibrator_fit r"; cases "rl_threshold_selection r"; cases "rl_evaluation r")
    (simp_all add: data_roles_dict_def data_role_dict_def opt_dict_def)

lemma jsonable_float_free: "float_free v \<Longrightarrow> jsonable v"
  by (induction v rule: float_free.induct) (auto simp: list_all_iff)

lemma fingerprint_exists: "\<exists>h. training_data_fingerprint_for_roles r = Inr h"
  using json_dumps_ok [OF jsonable_float_free [OF float_free_roles, of r]]
  by (auto simp: training_data_fingerprint_for_roles_def canonical_json_sha256_def)

definition sample_training :: "string \<Rightarrow> training_provenance" where
  "sample_training h = \<lparr>tr_format_version = ''1'', tr_producer_policy = ''synthetic_api_smoke_v1'',
     tr_recipe = \<lparr>rp_name = ''synthetic-api-smoke-training'', rp_version = ''1'', rp_configuration_sha256 = sha256_hex ''recipe''\<rparr>,
     tr_data_roles = sample_roles, tr_data_roles_sha256 = h, tr_quarantine = None\<rparr>"

lemma sample_training_ok: "training_data_fingerprint_for_roles sample_roles = Inr h \<Longrightarrow> training_ok anchor (sample_training h)"
proof -
  assume h: "training_data_fingerprint_for_roles sample_roles = Inr h"
  have "is_identifier ''synthetic_api_smoke_v1''" "is_identifier ''synthetic-api-smoke-training''" "is_identifier ''1''" by code_simp+
  then show ?thesis using h sample_roles_ok
    by (simp add: training_ok_def sample_training_def recipe_ok_def TRAINING_FORMAT_VERSION_def)
qed

text \<open>Only the items count, not their order.\<close>

lemma parse_training_cong:
  assumes "set (map fst d) = set (map fst e)" and "\<And>k. py_get d k = py_get e k"
  shows "parse_training_provenance anchor (PDict d) = parse_training_provenance anchor (PDict e)"
  using assms(1) by (simp add: parse_training_provenance_def require_exact_mapping_def assms(2) cong: if_cong)

theorem training_provenance_round_trip_witness:
  "\<exists>h. parse_training_provenance (Inl OverflowError) (PDict (rev (training_dict (sample_training h)))) = Inr (sample_training h) \<and>
     parse_training_provenance (Inl OverflowError) (PDict (training_dict (sample_training h))) = Inr (sample_training h)"
proof -
  obtain h where h: "training_data_fingerprint_for_roles sample_roles = Inr h" using fingerprint_exists by blast
  have "parse_training_provenance (Inl OverflowError) (PDict (training_dict (sample_training h))) = Inr (sample_training h)"
    by (rule parse_training_dict [OF sample_training_ok [OF h]])
  then have r: "parse_training_provenance (Inl OverflowError) (PDict (rev (training_dict (sample_training h)))) = Inr (sample_training h)"
    by (subst parse_training_cong [of _ "training_dict (sample_training h)"]) (simp_all add: py_get_def training_dict_def insert_commute)
  then show ?thesis using training_provenance_round_trip [OF r] by blast
qed

section \<open>The fingerprint of the data roles\<close>

lemma canon_scalars [simp]:
  "canon v = PInt i \<longleftrightarrow> v = PInt i" "canon v = PStr s \<longleftrightarrow> v = PStr s" "canon v = PNone \<longleftrightarrow> v = PNone"
  "PInt i = canon v \<longleftrightarrow> v = PInt i" "PStr s = canon v \<longleftrightarrow> v = PStr s" "PNone = canon v \<longleftrightarrow> v = PNone"
  by (cases v; auto)+

lemma data_role_canon:
  assumes "canon (PDict (data_role_dict r)) = canon (PDict (data_role_dict s))"
  shows "r = s"
proof -
  have "dict_ok (data_role_dict x)" for x by (simp add: data_role_dict_def)
  then have "map_option canon (map_of (data_role_dict r) k) = map_option canon (map_of (data_role_dict s) k)" for k
    using canon_dict_lookup [OF assms] by blast
  from this [of "''fingerprint_sha256''"] this [of "''total_row_count''"] this [of "''legitimate_row_count''"]
    this [of "''fraud_row_count''"] this [of "''duplicate_row_count''"]
  show ?thesis by (simp add: data_role_dict_def)
qed

lemma opt_role_canon: "canon (opt_dict data_role_dict x) = canon (opt_dict data_role_dict y) \<Longrightarrow> x = y"
  using data_role_canon by (cases x; cases y) (auto simp: opt_dict_def simp del: canon.simps(2)) 

lemma data_roles_canon:
  assumes "canon (PDict (data_roles_dict r)) = canon (PDict (data_roles_dict s))"
  shows "r = s"
proof -
  have "dict_ok (data_roles_dict x)" for x by (simp add: data_roles_dict_def)
  then have "map_option canon (map_of (data_roles_dict r) k) = map_option canon (map_of (data_roles_dict s) k)" for k
    using canon_dict_lookup [OF assms] by blast
  from this [of "''model_fit''"] this [of "''calibrator_fit''"] this [of "''threshold_selection''"] this [of "''evaluation''"]
  show ?thesis using data_role_canon opt_role_canon by (simp add: data_roles_dict_def del: canon.simps)
qed

text \<open>
  C31. The training fingerprint binds every declared data role: for any two assignments of roles
  the canonical texts that are hashed exist, the fingerprints are their SHA-256 digests, and the
  texts are equal exactly when every count and digest of every role is; so two different
  assignments have one fingerprint only when these two texts collide.
\<close>

theorem fingerprint_binds_every_role:
  "\<exists>t u. json_dumps (PDict (data_roles_dict r)) = Inr t \<and> json_dumps (PDict (data_roles_dict s)) = Inr u \<and>
     training_data_fingerprint_for_roles r = Inr (sha256_hex t) \<and> training_data_fingerprint_for_roles s = Inr (sha256_hex u) \<and>
     (t = u) = (r = s) \<and>
     (training_data_fingerprint_for_roles r = training_data_fingerprint_for_roles s) =
       (r = s \<or> t \<noteq> u \<and> sha256_hex t = sha256_hex u)"
proof -
  obtain t where t: "json_dumps (PDict (data_roles_dict r)) = Inr t" using json_dumps_ok [OF jsonable_float_free [OF float_free_roles]] by blast
  obtain u where u: "json_dumps (PDict (data_roles_dict s)) = Inr u" using json_dumps_ok [OF jsonable_float_free [OF float_free_roles]] by blast
  have f: "training_data_fingerprint_for_roles r = Inr (sha256_hex t)" "training_data_fingerprint_for_roles s = Inr (sha256_hex u)"
    using t u by (simp_all add: training_data_fingerprint_for_roles_def canonical_json_sha256_def del: json_dumps.simps)
  have "(t = u) = (r = s)"
    using json_dumps_determines [OF float_free_roles float_free_roles t] t u data_roles_canon by (metis sum.inject(2))
  then show ?thesis using t u f by (intro exI [of _ t] exI [of _ u]) auto
qed

theorem fingerprint_binds_every_role_witness:
  "\<exists>t u. json_dumps (PDict (data_roles_dict sample_roles)) = Inr t \<and>
     json_dumps (PDict (data_roles_dict (sample_roles\<lparr>rl_calibrator_fit := Some (sample_role 11)\<rparr>))) = Inr u \<and> t \<noteq> u"
proof -
  have "sample_roles \<noteq> sample_roles\<lparr>rl_calibrator_fit := Some (sample_role 11)\<rparr>" by (simp add: sample_roles_def)
  then show ?thesis using fingerprint_binds_every_role [of sample_roles "sample_roles\<lparr>rl_calibrator_fit := Some (sample_role 11)\<rparr>"] by metis
qed

end
