(* ===== verification/Policy_Facts.thy ===== *)
theory Policy_Facts
  imports Provenance_Facts
begin

text \<open>
  The tracked policy document \<open>src/src/artifacts/bundle_v3_producer_policies.json\<close>, what every
  bundle bound to it can claim, and that the metadata builders produce bundles that pass.
\<close>

section \<open>The tracked document\<close>

text \<open>The JSON numbers \<open>0.53\<close>, \<open>0.8\<close>, \<open>0.2\<close> and \<open>50.0\<close>.\<close>

definition REFERENCE_THRESHOLD :: pyfloat where "REFERENCE_THRESHOLD = fl (53/100)"

definition no_decision :: "bool \<Rightarrow> (string, pyval) dict" where
  "no_decision taint = [(''decision_eligible'', PBool False), (''evaluation_performed'', PBool False),
     (''historical_metrics_claimed'', PBool False), (''historical_taint'', PBool taint)]"

definition policy_threshold :: "string \<Rightarrow> pyval \<Rightarrow> string \<Rightarrow> string \<Rightarrow> string \<Rightarrow> (string, pyval) dict" where
  "policy_threshold binding fixed linkage purpose source =
     [(''calibration_binding'', PStr binding), (''cost_optimal'', PBool False), (''fixed_value'', fixed),
      (''model_linkage'', PStr linkage), (''production_approved'', PBool False), (''purpose'', PStr purpose),
      (''razorpay_approved'', PBool False), (''source'', PStr source)]"

definition required_roles :: "bool \<Rightarrow> (string, pyval) dict" where
  "required_roles b = [(''calibrator_fit'', PBool b), (''evaluation'', PBool b), (''model_fit'', PBool True), (''threshold_selection'', PBool b)]"

definition reference_policy :: "(string, pyval) dict" where
  "reference_policy =
     [(''evidence_category'', PStr REFERENCE),
      (''canonical_recipe_sha256'', PStr ''55670d71abd7a52131fe58576de1771b2b381ba8cdd085f9e4c420dd9ba0c5dd''),
      (''canonical_reference_evidence_sha256'', PStr ''ab83e8cd8686c8474afe4d77c1ebc32c2bd34c318b290958cc21f7e8f5cd5d00''),
      (''intended_use'', PDict (no_decision True)),
      (''model_version_pattern'', PStr ''^historical-reference-[a-z0-9.-]+-demo-v[0-9]+$''),
      (''recipe'', PDict [(''configuration'', PDict
         [(''calibration'', PStr ''none''), (''conflicting_feature_identical_labels'', PStr ''reject''),
          (''cross_split_identical_labeled_rows'', PStr ''deduplicate_deterministically_into_final_fitting_pool''),
          (''evaluation'', PStr ''prohibited''), (''historical_test_access'', PStr ''prohibited''),
          (''model_family'', PStr ''xgboost_binary_classifier''),
          (''post_quarantine_split_roles'', PStr ''abolished_merged_fitting_pool_only_no_evaluation''),
          (''selection'', PStr ''none''), (''training_mode'', PStr ''fixed_quarantine_filtered_historical_reference'')]),
        (''name'', PStr ''historical-reference-demo-training''), (''version'', PStr ''1'')]),
      (''required_roles'', PDict (required_roles False)),
      (''threshold'', PDict (policy_threshold ''false'' (PFloat REFERENCE_THRESHOLD) ''unverified_for_current_runtime_reference_model''
         ''demo_human_review_policy_only'' ''historical_validation_selected_threshold''))]"

definition development_policy :: "(string, pyval) dict" where
  "development_policy =
     [(''evidence_category'', PStr DEVELOPMENT),
      (''intended_use'', PDict [(''decision_eligible'', PBool True), (''evaluation_performed'', PBool True),
         (''historical_metrics_claimed'', PBool False), (''historical_taint'', PBool False)]),
      (''model_version_pattern'', PStr ''^development-[0-9a-f]{24}$''),
      (''recipe'', PDict [(''configuration'', PDict
         [(''calibration'', PStr ''dedicated_chronological_calibration_role''), (''candidate_selection'', PStr ''uncertainty_aware_simplicity_rule''),
          (''evaluation'', PStr ''reusable_forward_development_backtest''), (''historical_quarantine'', PStr ''required_zero_overlap''),
          (''model_fit'', PStr ''first_chronological_role_only''), (''threshold_selection'', PStr ''best_f1_on_dedicated_selection_role'')]),
        (''name'', PStr ''new-authorized-development-training''), (''version'', PStr ''1'')]),
      (''required_roles'', PDict (required_roles True)),
      (''threshold'', PDict (policy_threshold ''score_type'' PNone ''verified_for_this_development_bundle''
         ''reusable_development_reference_only'' ''new_authorized_development_selection''))]"

definition smoke_policy :: "(string, pyval) dict" where
  "smoke_policy =
     [(''evidence_category'', PStr SYNTHETIC), (''intended_use'', PDict (no_decision False)),
      (''model_version_pattern'', PStr ''^synthetic-smoke-1$''),
      (''recipe'', PDict [(''configuration'', PDict
         [(''algorithm'', PStr ''logistic_regression''), (''feature_generator'', PStr ''deterministic_trigonometric_v1''),
          (''max_iter'', PInt 1000), (''random_state'', PInt 42)]),
        (''name'', PStr ''synthetic-api-smoke-training''), (''version'', PStr ''1'')]),
      (''required_roles'', PDict (required_roles False)),
      (''threshold'', PDict (policy_threshold ''false'' (PFloat REFERENCE_THRESHOLD) ''synthetic_fixture_only''
         ''api_smoke_testing_only'' ''synthetic_smoke_policy''))]"

definition monitoring_policy :: "(string, pyval) dict" where
  "monitoring_policy =
     [(''evidence_category'', PStr SYNTHETIC), (''intended_use'', PDict (no_decision False)),
      (''model_version_pattern'', PStr ''^synthetic-smoke-1$''),
      (''recipe'', PDict [(''configuration'', PDict
         [(''algorithm'', PStr ''deterministic_amount_rule''), (''high_score'', PFloat (fl (8/10))), (''low_score'', PFloat (fl (2/10))),
          (''threshold_amount'', PFloat (fl 50))]),
        (''name'', PStr ''synthetic-monitoring-fixture''), (''version'', PStr ''1'')]),
      (''required_roles'', PDict (required_roles False)),
      (''threshold'', PDict (policy_threshold ''false'' (PFloat REFERENCE_THRESHOLD) ''synthetic_fixture_only''
         ''monitoring_smoke_testing_only'' ''synthetic_monitoring_policy''))]"

definition tracked_policies :: "(string, pyval) dict" where
  "tracked_policies =
     [(''historical_reference_demo_v1'', PDict reference_policy), (''new_authorized_development_v1'', PDict development_policy),
      (''synthetic_api_smoke_v1'', PDict smoke_policy), (''synthetic_monitoring_fixture_v1'', PDict monitoring_policy)]"

section \<open>What a bound bundle claims\<close>

lemma feq_iff [simp]: "feq (Fin p) y \<longleftrightarrow> y = Fin p" "feq x (Fin q) \<longleftrightarrow> x = Fin q"
  by (auto simp: feq_def)

lemma feq_eq: "feq x y \<Longrightarrow> x = y"
  by (simp add: feq_def)

lemma py_eq_true_false [simp]: "py_eq (PBool b) (PBool c) \<longleftrightarrow> b = c"
  by simp

text \<open>The parts of a successful binding.\<close>

lemma policy_binding_Inr:
  assumes "validate_policy_binding policies u t tr version operating score_type = Inr ()"
  shows "\<exists>p e tp required. producer_policy policies (iu_producer_policy u) = Inr p \<and> expected_intended p = Inr e \<and>
    py_eq (PDict (actual_intended u)) (PDict e) \<and> policy_sha256 p = Inr (iu_producer_policy_sha256 u) \<and>
    tr_producer_policy tr = iu_producer_policy u \<and>
    py_get p ''threshold'' = PDict tp \<and> feq (tp_value t) operating \<and>
    (py_get tp ''fixed_value'' = PNone \<or> (\<exists>x. py_float (py_get tp ''fixed_value'') = Inr x \<and> feq x operating)) \<and>
    threshold_matches t tp operating (py_get tp ''calibration_binding'' = PStr ''score_type'' \<and> score_type = ''calibrated_probability'') \<and>
    py_get p ''required_roles'' = PDict required \<and> roles_match required (data_roles_dict (tr_data_roles tr)) \<and>
    (tr_quarantine tr = None \<longleftrightarrow> iu_evidence_category u = SYNTHETIC)"
  using assms
  by (auto simp: validate_policy_binding_def validate_threshold_binding_def validate_role_binding_def res_bind_Inr_iff simp del: py_eq.simps
      split: if_splits)

lemma tracked_policy_cases:
  assumes "producer_policy (Inr tracked_policies) k = Inr p"
  obtains "k = ''historical_reference_demo_v1''" "p = reference_policy" | "k = ''new_authorized_development_v1''" "p = development_policy"
    | "k = ''synthetic_api_smoke_v1''" "p = smoke_policy" | "k = ''synthetic_monitoring_fixture_v1''" "p = monitoring_policy"
  using assms by (auto simp: producer_policy_def res_bind_Inr_iff tracked_policies_def py_get_def dict_of_def split: if_splits)

lemma actual_intended_simp:
  "actual_intended u = [(''evidence_category'', PStr (iu_evidence_category u)), (''historical_taint'', PBool (iu_historical_taint u)),
     (''decision_eligible'', PBool (iu_decision_eligible u)), (''historical_metrics_claimed'', PBool (iu_historical_metrics_claimed u)),
     (''evaluation_performed'', PBool (iu_evaluation_performed u))]"
  by (simp add: actual_intended_def intended_use_dict_def)

definition intended_is :: "string \<Rightarrow> bool \<Rightarrow> bool \<Rightarrow> bool \<Rightarrow> intended_use \<Rightarrow> bool" where
  "intended_is category taint eligible performed u \<longleftrightarrow> iu_evidence_category u = category \<and> iu_historical_taint u = taint \<and>
     iu_decision_eligible u = eligible \<and> iu_evaluation_performed u = performed \<and> \<not> iu_historical_metrics_claimed u"

lemma expected_intended_tracked:
  "expected_intended reference_policy = Inr e \<Longrightarrow> py_eq (PDict (actual_intended u)) (PDict e) \<Longrightarrow> intended_is REFERENCE True False False u"
  "expected_intended development_policy = Inr e \<Longrightarrow> py_eq (PDict (actual_intended u)) (PDict e) \<Longrightarrow> intended_is DEVELOPMENT False True True u"
  "expected_intended smoke_policy = Inr e \<Longrightarrow> py_eq (PDict (actual_intended u)) (PDict e) \<Longrightarrow> intended_is SYNTHETIC False False False u"
  "expected_intended monitoring_policy = Inr e \<Longrightarrow> py_eq (PDict (actual_intended u)) (PDict e) \<Longrightarrow> intended_is SYNTHETIC False False False u"
  by (auto simp: expected_intended_def actual_intended_simp intended_is_def py_get_def reference_policy_def development_policy_def
      smoke_policy_def monitoring_policy_def no_decision_def)

definition synthetic_or_reference :: "(string, pyval) dict \<Rightarrow> bool" where
  "synthetic_or_reference p \<longleftrightarrow> (\<exists>linkage purpose source. py_get p ''threshold'' = PDict (policy_threshold ''false'' (PFloat REFERENCE_THRESHOLD) linkage purpose source))
     \<and> py_get p ''required_roles'' = PDict (required_roles False)"

lemma tracked_sections:
  "synthetic_or_reference reference_policy" "synthetic_or_reference smoke_policy" "synthetic_or_reference monitoring_policy"
  "\<exists>linkage purpose source. py_get development_policy ''threshold'' = PDict (policy_threshold ''score_type'' PNone linkage purpose source)"
  "py_get development_policy ''required_roles'' = PDict (required_roles True)"
  by (auto simp: synthetic_or_reference_def reference_policy_def smoke_policy_def monitoring_policy_def development_policy_def py_get_def)

lemma policy_threshold_get:
  "py_get (policy_threshold b f l p s) ''fixed_value'' = f" "py_get (policy_threshold b f l p s) ''calibration_binding'' = PStr b"
  "py_get (policy_threshold b f l p s) ''cost_optimal'' = PBool False" "py_get (policy_threshold b f l p s) ''razorpay_approved'' = PBool False"
  "py_get (policy_threshold b f l p s) ''production_approved'' = PBool False"
  by (simp_all add: policy_threshold_def py_get_def)

lemma threshold_never_approved:
  "threshold_matches t (policy_threshold b f l p s) operating c \<Longrightarrow>
     \<not> tp_cost_optimal t \<and> \<not> tp_razorpay_approved t \<and> \<not> tp_production_approved t \<and> tp_calibrated t = c"
  by (simp add: threshold_matches_def policy_threshold_get)

lemma roles_match_required:
  "roles_match (required_roles b) (data_roles_dict r) \<longleftrightarrow>
     ((rl_calibrator_fit r \<noteq> None) = b \<and> (rl_evaluation r \<noteq> None) = b \<and> (rl_threshold_selection r \<noteq> None) = b)"
  by (simp add: roles_match_def required_roles_def data_roles_dict_def py_get_def bool_of_def)

text \<open>
  C32. Under the tracked policies no bound bundle claims approval for production or by the
  payment provider, cost optimality or historical metrics. Only authorised development evidence
  is eligible for decisions, performs an evaluation or may be calibrated, and it declares all
  four data roles; every other bundle runs at the fixed threshold and declares the fitting data
  alone. Exactly the historical reference is marked as tainted, and exactly the synthetic
  bundles are exempt from the quarantine.
\<close>

theorem tracked_policies_limit_claims:
  assumes "validate_policy_binding (Inr tracked_policies) u t tr version operating score_type = Inr ()"
  shows "\<not> tp_production_approved t \<and> \<not> tp_razorpay_approved t \<and> \<not> tp_cost_optimal t \<and> \<not> iu_historical_metrics_claimed u \<and>
    iu_evidence_category u \<in> {SYNTHETIC, DEVELOPMENT, REFERENCE} \<and>
    iu_decision_eligible u = (iu_evidence_category u = DEVELOPMENT) \<and>
    iu_evaluation_performed u = (iu_evidence_category u = DEVELOPMENT) \<and>
    iu_historical_taint u = (iu_evidence_category u = REFERENCE) \<and>
    tp_calibrated t = (iu_evidence_category u = DEVELOPMENT \<and> score_type = ''calibrated_probability'') \<and>
    (tr_quarantine tr = None) = (iu_evidence_category u = SYNTHETIC) \<and>
    (rl_evaluation (tr_data_roles tr) \<noteq> None) = (iu_evidence_category u = DEVELOPMENT) \<and>
    tp_value t = operating \<and> (iu_evidence_category u = DEVELOPMENT \<or> operating = REFERENCE_THRESHOLD)"
proof -
  obtain p e tp required where p: "producer_policy (Inr tracked_policies) (iu_producer_policy u) = Inr p"
    and e: "expected_intended p = Inr e" "py_eq (PDict (actual_intended u)) (PDict e)"
    and tp: "py_get p ''threshold'' = PDict tp" "feq (tp_value t) operating"
      "py_get tp ''fixed_value'' = PNone \<or> (\<exists>x. py_float (py_get tp ''fixed_value'') = Inr x \<and> feq x operating)"
      "threshold_matches t tp operating (py_get tp ''calibration_binding'' = PStr ''score_type'' \<and> score_type = ''calibrated_probability'')"
    and r: "py_get p ''required_roles'' = PDict required" "roles_match required (data_roles_dict (tr_data_roles tr))"
    and q: "tr_quarantine tr = None \<longleftrightarrow> iu_evidence_category u = SYNTHETIC"
    using policy_binding_Inr [OF assms] by (elim exE conjE) (rule that)
  have other: ?thesis if s: "synthetic_or_reference p" and i: "intended_is c (c = REFERENCE) False False u" and c: "c \<noteq> DEVELOPMENT"
    "c \<in> {SYNTHETIC, REFERENCE}" for c
  proof -
    obtain l pu so where tr: "tp = policy_threshold ''false'' (PFloat REFERENCE_THRESHOLD) l pu so" "required = required_roles False"
      using s tp(1) r(1) by (auto simp: synthetic_or_reference_def)
    have "feq REFERENCE_THRESHOLD operating" using tp(3) by (simp add: tr policy_threshold_get py_float_def)
    then have o: "operating = REFERENCE_THRESHOLD" "tp_value t = operating" using feq_eq tp(2) by blast+
    have "\<not> tp_cost_optimal t \<and> \<not> tp_razorpay_approved t \<and> \<not> tp_production_approved t \<and> \<not> tp_calibrated t"
      using threshold_never_approved [OF tp(4) [unfolded tr]] by (simp add: policy_threshold_get)
    moreover have "rl_evaluation (tr_data_roles tr) = None" using r(2) by (simp add: tr roles_match_required)
    ultimately show ?thesis using i c q o by (simp add: intended_is_def)
  qed
  from p show ?thesis
  proof (cases rule: tracked_policy_cases)
    case 1
    then show ?thesis using other [of REFERENCE] tracked_sections(1) expected_intended_tracked(1) e by (simp add: REFERENCE_def DEVELOPMENT_def)
  next
    case 2
    obtain l pu so where t: "tp = policy_threshold ''score_type'' PNone l pu so" "required = required_roles True"
      using 2 tracked_sections(4,5) tp(1) r(1) by auto
    have "intended_is DEVELOPMENT False True True u" using expected_intended_tracked(2) e 2 by simp
    then show ?thesis using q tp(2-4) r(2) threshold_never_approved [of t] feq_eq [OF tp(2)]
      by (auto simp: intended_is_def t policy_threshold_get roles_match_required REFERENCE_def DEVELOPMENT_def SYNTHETIC_def)
  next
    case 3
    then show ?thesis using other [of SYNTHETIC] tracked_sections(2) expected_intended_tracked(3) e
      by (simp add: REFERENCE_def DEVELOPMENT_def SYNTHETIC_def)
  next
    case 4
    then show ?thesis using other [of SYNTHETIC] tracked_sections(3) expected_intended_tracked(4) e
      by (simp add: REFERENCE_def DEVELOPMENT_def SYNTHETIC_def)
  qed
qed

section \<open>The builders pass the binding\<close>

lemma fl_unit: "0 \<le> q \<Longrightarrow> q \<le> 100 \<Longrightarrow> \<exists>y. fl q = Fin y"
  using fl_between [of 0 q 100] by auto

lemma reference_threshold_finite: "\<exists>y. REFERENCE_THRESHOLD = Fin y"
  using fl_unit [of "53/100"] by (simp add: REFERENCE_THRESHOLD_def)

lemma feq_reference_threshold [simp]: "feq REFERENCE_THRESHOLD REFERENCE_THRESHOLD"
proof -
  obtain y where y: "REFERENCE_THRESHOLD = Fin y" using reference_threshold_finite by blast
  show ?thesis unfolding y by simp
qed

lemma typed_Inr [simp]: "typed x = Inr y \<longleftrightarrow> x = Some y"
  by (cases x) (simp_all add: typed_def)

text \<open>The values every tracked policy has.\<close>

definition policy_shape :: "(string, pyval) dict \<Rightarrow> string \<Rightarrow> bool \<Rightarrow> bool" where
  "policy_shape p category development \<longleftrightarrow>
     py_get p ''evidence_category'' = PStr category \<and> category \<in> set EVIDENCE_CATEGORIES \<and>
     (\<exists>taint eligible performed. py_get p ''intended_use'' =
        PDict [(''decision_eligible'', PBool eligible), (''evaluation_performed'', PBool performed),
               (''historical_metrics_claimed'', PBool False), (''historical_taint'', PBool taint)]) \<and>
     (\<exists>linkage purpose source. py_get p ''threshold'' =
        PDict (policy_threshold (if development then ''score_type'' else ''false'') (if development then PNone else PFloat REFERENCE_THRESHOLD)
          linkage purpose source)) \<and>
     (\<exists>name version configuration. py_get p ''recipe'' =
        PDict [(''configuration'', configuration), (''name'', PStr name), (''version'', PStr version)]) \<and>
     py_get p ''required_roles'' = PDict (required_roles development)"

lemma tracked_policy_shape:
  assumes "producer_policy (Inr tracked_policies) k = Inr p"
  obtains c where "policy_shape p c (c = DEVELOPMENT)"
  using assms
proof (cases rule: tracked_policy_cases)
  case 1
  show thesis
    by (rule that [of REFERENCE])
      (auto simp: 1 policy_shape_def reference_policy_def py_get_def no_decision_def EVIDENCE_CATEGORIES_def REFERENCE_def DEVELOPMENT_def)
next
  case 2
  show thesis
    by (rule that [of DEVELOPMENT])
      (auto simp: 2 policy_shape_def development_policy_def py_get_def EVIDENCE_CATEGORIES_def)
next
  case 3
  show thesis
    by (rule that [of SYNTHETIC])
      (auto simp: 3 policy_shape_def smoke_policy_def py_get_def no_decision_def EVIDENCE_CATEGORIES_def SYNTHETIC_def DEVELOPMENT_def)
next
  case 4
  show thesis
    by (rule that [of SYNTHETIC])
      (auto simp: 4 policy_shape_def monitoring_policy_def py_get_def no_decision_def EVIDENCE_CATEGORIES_def SYNTHETIC_def DEVELOPMENT_def)
qed

lemma py_get_item: "py_get d k = v \<Longrightarrow> v \<noteq> PNone \<Longrightarrow> py_item d k = Inr v"
  by (auto simp: py_get_def py_item_def split: option.splits)

lemma policy_threshold_strings:
  "py_get (policy_threshold b f l p s) ''source'' = PStr s" "py_get (policy_threshold b f l p s) ''model_linkage'' = PStr l"
  "py_get (policy_threshold b f l p s) ''purpose'' = PStr p"
  by (simp_all add: policy_threshold_def py_get_def)

lemma policy_threshold_fields: "fst ` set (policy_threshold b f l p s) = set POLICY_THRESHOLD_FIELDS"
  by (simp add: policy_threshold_def POLICY_THRESHOLD_FIELDS_def)

lemma required_roles_fields: "fst ` set (required_roles b) = set DATA_ROLES_FIELDS"
  by (auto simp: required_roles_def DATA_ROLES_FIELDS_def)

text \<open>A record's own dictionary is read back as the record.\<close>

lemma parse_own_role: "parse_data_role (PDict (data_role_dict r)) l = Inr r' \<Longrightarrow> r' = r"
  by (auto simp: parse_data_role_def res_bind_Inr_iff split: if_splits) (simp_all add: data_role_dict_def py_get_def)

lemma parse_own_optional: "py_get d k = opt_dict data_role_dict x \<Longrightarrow> parse_optional_role d k = Inr x' \<Longrightarrow> x' = x"
  using parse_own_role by (cases x) (auto simp: parse_optional_role_def opt_dict_def res_bind_Inr_iff)

lemma parse_own_roles: "parse_data_roles (PDict (data_roles_dict r)) = Inr r' \<Longrightarrow> r' = r"
proof -
  have g: "py_get (data_roles_dict r) ''model_fit'' = PDict (data_role_dict (rl_model_fit r))"
    "py_get (data_roles_dict r) ''calibrator_fit'' = opt_dict data_role_dict (rl_calibrator_fit r)"
    "py_get (data_roles_dict r) ''threshold_selection'' = opt_dict data_role_dict (rl_threshold_selection r)"
    "py_get (data_roles_dict r) ''evaluation'' = opt_dict data_role_dict (rl_evaluation r)"
    by (simp_all add: data_roles_dict_def py_get_def)
  show "parse_data_roles (PDict (data_roles_dict r)) = Inr r' \<Longrightarrow> r' = r"
    using parse_own_role parse_own_optional [OF g(2)] parse_own_optional [OF g(3)] parse_own_optional [OF g(4)]
    by (auto simp: parse_data_roles_def res_bind_Inr_iff g(1))
qed

lemma parse_own_quarantine: "parse_quarantine anchor (PDict (quarantine_dict q)) = Inr q' \<Longrightarrow> q' = q"
  by (cases q; auto simp: parse_quarantine_def res_bind_Inr_iff Let_def split: if_splits; simp add: quarantine_dict_def py_get_def)

lemma parse_own_training:
  assumes "parse_training_provenance anchor (PDict (training_dict t)) = Inr t'"
  shows "t' = t"
proof -
  have g: "py_get (training_dict t) ''format_version'' = PStr (tr_format_version t)"
    "py_get (training_dict t) ''producer_policy'' = PStr (tr_producer_policy t)"
    "py_get (training_dict t) ''recipe'' = PDict (recipe_dict (tr_recipe t))"
    "py_get (training_dict t) ''data_roles'' = PDict (data_roles_dict (tr_data_roles t))"
    "py_get (training_dict t) ''data_roles_sha256'' = PStr (tr_data_roles_sha256 t)"
    "py_get (training_dict t) ''quarantine'' = opt_dict quarantine_dict (tr_quarantine t)"
    by (simp_all add: training_dict_def py_get_def)
  have r: "parse_recipe_provenance (PDict (recipe_dict (tr_recipe t))) = Inr r \<Longrightarrow> r = tr_recipe t" for r
    by (auto simp: parse_recipe_provenance_def res_bind_Inr_iff) (simp_all add: recipe_dict_def py_get_def)
  have q: "parse_optional_quarantine anchor (opt_dict quarantine_dict (tr_quarantine t)) = Inr x \<Longrightarrow> x = tr_quarantine t" for x
    using parse_own_quarantine by (cases "tr_quarantine t") (auto simp: parse_optional_quarantine_def opt_dict_def res_bind_Inr_iff)
  show ?thesis using assms r q parse_own_roles
    by (auto simp: parse_training_provenance_def g res_bind_Inr_iff split: if_splits)
qed

lemma built_metadata_bound:
  assumes "intended_use_metadata (Inr tracked_policies) k = Inr u"
    and "threshold_provenance_metadata (Inr tracked_policies) k (PFloat (Fin x)) calibrated = Inr t"
    and "training_provenance_metadata (Inr tracked_policies) anchor k roles q = Inr tr"
    and "producer_policy (Inr tracked_policies) k = Inr p" and "py_get p ''model_version_pattern'' = PStr pattern"
    and "re_fullmatch pattern version"
    and "iu_evidence_category u = DEVELOPMENT \<or> Fin x = REFERENCE_THRESHOLD"
    and "calibrated = (iu_evidence_category u = DEVELOPMENT \<and> score_type = ''calibrated_probability'')"
    and "(rl_calibrator_fit roles \<noteq> None) = (iu_evidence_category u = DEVELOPMENT)"
    and "(rl_threshold_selection roles \<noteq> None) = (iu_evidence_category u = DEVELOPMENT)"
    and "(rl_evaluation roles \<noteq> None) = (iu_evidence_category u = DEVELOPMENT)"
    and "(q = None) = (iu_evidence_category u = SYNTHETIC)"
  shows "validate_policy_binding (Inr tracked_policies) u t tr version (Fin x) score_type = Inr ()"
proof -
  obtain c where c: "policy_shape p c (c = DEVELOPMENT)" using assms(4) by (rule tracked_policy_shape)
  then obtain taint eligible performed l pu so name ver configuration where
    s: "py_get p ''evidence_category'' = PStr c"
      "py_get p ''intended_use'' = PDict [(''decision_eligible'', PBool eligible), (''evaluation_performed'', PBool performed),
         (''historical_metrics_claimed'', PBool False), (''historical_taint'', PBool taint)]"
      "py_get p ''threshold'' = PDict (policy_threshold (if c = DEVELOPMENT then ''score_type'' else ''false'')
         (if c = DEVELOPMENT then PNone else PFloat REFERENCE_THRESHOLD) l pu so)"
      "py_get p ''recipe'' = PDict [(''configuration'', configuration), (''name'', PStr name), (''version'', PStr ver)]"
      "py_get p ''required_roles'' = PDict (required_roles (c = DEVELOPMENT))"
    by (auto simp: policy_shape_def)
  obtain h where h: "policy_sha256 p = Inr h" and u: "u = \<lparr>iu_producer_policy = k, iu_producer_policy_sha256 = h, iu_evidence_category = c,
      iu_historical_taint = taint, iu_decision_eligible = eligible, iu_historical_metrics_claimed = False, iu_evaluation_performed = performed\<rparr>"
    using assms(1,4) s(1,2) by (auto simp: intended_use_metadata_def res_bind_Inr_iff policy_section_def str_item_def bool_item_def py_get_def
        split: option.splits)
  have t: "t = \<lparr>tp_value = Fin x, tp_source = so, tp_model_linkage = l, tp_purpose = pu, tp_calibrated = calibrated, tp_cost_optimal = False,
      tp_razorpay_approved = False, tp_production_approved = False\<rparr>"
    using assms(2,4) s(3) by (auto simp: threshold_provenance_metadata_def res_bind_Inr_iff policy_section_def str_item_def bool_item_def
        py_float_def policy_threshold_def)
  obtain g f where g: "canonical_json_sha256 configuration = Inr g" "training_data_fingerprint_for_roles roles = Inr f"
    and parsed: "parse_training_provenance anchor (PDict (training_dict \<lparr>tr_format_version = TRAINING_FORMAT_VERSION, tr_producer_policy = k,
      tr_recipe = \<lparr>rp_name = name, rp_version = ver, rp_configuration_sha256 = g\<rparr>, tr_data_roles = roles, tr_data_roles_sha256 = f,
      tr_quarantine = q\<rparr>)) = Inr tr"
    using assms(3,4) s(4) by (auto simp: training_provenance_metadata_def res_bind_Inr_iff policy_section_def str_item_def)
  have tr: "tr = \<lparr>tr_format_version = TRAINING_FORMAT_VERSION, tr_producer_policy = k,
      tr_recipe = \<lparr>rp_name = name, rp_version = ver, rp_configuration_sha256 = g\<rparr>, tr_data_roles = roles, tr_data_roles_sha256 = f,
      tr_quarantine = q\<rparr>"
    using parse_own_training [OF parsed] by simp
  have e: "expected_intended p = Inr [(''evidence_category'', PStr c), (''decision_eligible'', PBool eligible), (''evaluation_performed'', PBool performed),
      (''historical_metrics_claimed'', PBool False), (''historical_taint'', PBool taint)]"
    by (simp add: expected_intended_def s(1,2))
  have th: "validate_threshold_binding p t (Fin x) score_type = Inr ()"
    using assms(7,8)
    by (auto simp: validate_threshold_binding_def s(3) t policy_threshold_fields policy_threshold_get threshold_matches_def policy_threshold_strings
        py_float_def in_string_set_def u num_eq_def)
  have ro: "validate_role_binding p c tr = Inr ()"
    using assms(9-12) by (auto simp: validate_role_binding_def s(5) required_roles_fields roles_match_required tr u)
  let ?rp = "[(''configuration'', configuration), (''name'', PStr name), (''version'', PStr ver)]"
  have rp: "require_exact_mapping (PDict ?rp) [''name'', ''version'', ''configuration''] l = Inr ?rp" for l
    by (auto simp: require_exact_mapping_def)
  have items: "py_get ?rp ''configuration'' = configuration" "py_get ?rp ''name'' = PStr name" "py_get ?rp ''version'' = PStr ver"
    by (simp_all add: py_get_def)
  show ?thesis using th ro
    by (simp add: validate_policy_binding_def assms(4-6) u tr e actual_intended_simp s(4) rp items recipe_matches_def h g(1))
qed

text \<open>
  Metadata made by the builders from one tracked policy passes the binding that every save
  and load applies, when the version has the policy's form, the threshold is the fixed one where
  there is one, the calibration flag tells the score type, and the roles and the quarantine are
  those the policy asks for.
\<close>

theorem built_metadata_is_bound:
  assumes "intended_use_metadata (Inr tracked_policies) k = Inr u"
    and "threshold_provenance_metadata (Inr tracked_policies) k (PFloat (Fin x)) calibrated = Inr t"
    and "training_provenance_metadata (Inr tracked_policies) anchor k roles q = Inr tr"
    and "producer_policy (Inr tracked_policies) k = Inr p" and "py_get p ''model_version_pattern'' = PStr pattern"
    and "re_fullmatch pattern version"
    and "iu_evidence_category u = DEVELOPMENT \<or> Fin x = REFERENCE_THRESHOLD"
    and "calibrated = (iu_evidence_category u = DEVELOPMENT \<and> score_type = ''calibrated_probability'')"
    and "(rl_calibrator_fit roles \<noteq> None) = (iu_evidence_category u = DEVELOPMENT)"
    and "(rl_threshold_selection roles \<noteq> None) = (iu_evidence_category u = DEVELOPMENT)"
    and "(rl_evaluation roles \<noteq> None) = (iu_evidence_category u = DEVELOPMENT)"
    and "(q = None) = (iu_evidence_category u = SYNTHETIC)"
  shows "validate_policy_binding (Inr tracked_policies) u t tr version (Fin x) score_type = Inr ()"
  using assms by (rule built_metadata_bound)

section \<open>A bundle of the smoke policy\<close>

lemma jsonable_policies:
  "jsonable (PDict smoke_policy)" "jsonable (py_get smoke_policy ''recipe'')"
proof -
  obtain y where y: "REFERENCE_THRESHOLD = Fin y" using reference_threshold_finite by blast
  show "jsonable (PDict smoke_policy)" "jsonable (py_get smoke_policy ''recipe'')"
    unfolding smoke_policy_def no_decision_def required_roles_def policy_threshold_def y by (simp_all add: py_get_def)
qed

definition smoke_roles :: data_roles where
  "smoke_roles = \<lparr>rl_model_fit = sample_role 10, rl_calibrator_fit = None, rl_threshold_selection = None, rl_evaluation = None\<rparr>"

lemma smoke_roles_ok: "data_roles_ok smoke_roles"
  by (simp add: data_roles_ok_def smoke_roles_def sample_role_def data_role_ok_def role_counts_ok_def)

definition smoke_key :: string where "smoke_key = ''synthetic_api_smoke_v1''"

lemma smoke_producer_policy: "producer_policy (Inr tracked_policies) smoke_key = Inr smoke_policy"
proof -
  have "is_identifier smoke_key" by code_simp
  then show ?thesis by (auto simp: producer_policy_def smoke_key_def tracked_policies_def py_get_def dict_of_def policy_fields_def
        HISTORICAL_REFERENCE_POLICY_def smoke_policy_def)
qed

lemma smoke_metadata:
  obtains u x t tr where "intended_use_metadata (Inr tracked_policies) smoke_key = Inr u" and "iu_evidence_category u = SYNTHETIC"
    and "Fin x = REFERENCE_THRESHOLD" and "threshold_provenance_metadata (Inr tracked_policies) smoke_key (PFloat (Fin x)) False = Inr t"
    and "training_provenance_metadata (Inr tracked_policies) anchor smoke_key smoke_roles None = Inr tr"
proof -
  obtain x where x: "REFERENCE_THRESHOLD = Fin x" using reference_threshold_finite by blast
  obtain h where h: "policy_sha256 smoke_policy = Inr h"
    using json_dumps_ok [OF jsonable_policies(1)] by (auto simp: policy_sha256_def canonical_json_sha256_def)
  define u where "u = \<lparr>iu_producer_policy = smoke_key, iu_producer_policy_sha256 = h, iu_evidence_category = SYNTHETIC, iu_historical_taint = False,
      iu_decision_eligible = False, iu_historical_metrics_claimed = False, iu_evaluation_performed = False\<rparr>"
  have u: "intended_use_metadata (Inr tracked_policies) smoke_key = Inr u"
    by (simp add: intended_use_metadata_def smoke_producer_policy h policy_section_def str_item_def bool_item_def u_def typed_def)
      (simp add: smoke_policy_def py_get_def py_item_def no_decision_def bool_of_def)
  have "\<exists>t. threshold_provenance_metadata (Inr tracked_policies) smoke_key (PFloat (Fin x)) False = Inr t"
    by (simp add: threshold_provenance_metadata_def smoke_producer_policy policy_section_def str_item_def bool_item_def typed_def py_float_def)
      (simp add: smoke_policy_def policy_threshold_def py_get_def py_item_def bool_of_def)
  then obtain t where t: "threshold_provenance_metadata (Inr tracked_policies) smoke_key (PFloat (Fin x)) False = Inr t" by blast
  obtain f where f: "training_data_fingerprint_for_roles smoke_roles = Inr f" using fingerprint_exists by blast
  obtain rp where rp: "py_get smoke_policy ''recipe'' = PDict rp" by (simp add: smoke_policy_def py_get_def)
  obtain c where c: "map_of rp ''configuration'' = Some c" "map_of rp ''name'' = Some (PStr ''synthetic-api-smoke-training'')" "map_of rp ''version'' = Some (PStr ''1'')"
    using rp by (auto simp: smoke_policy_def py_get_def)
  have "jsonable c" using jsonable_policies(2) map_of_SomeD [OF c(1)] by (fastforce simp: rp list_all_iff)
  then obtain g where g: "canonical_json_sha256 c = Inr g" using json_dumps_ok by (fastforce simp: canonical_json_sha256_def)
  have i: "is_identifier smoke_key" "is_identifier ''synthetic-api-smoke-training''" "is_identifier ''1''" by code_simp+
  let ?tr = "\<lparr>tr_format_version = TRAINING_FORMAT_VERSION, tr_producer_policy = smoke_key, tr_recipe = \<lparr>rp_name = ''synthetic-api-smoke-training'',
      rp_version = ''1'', rp_configuration_sha256 = g\<rparr>, tr_data_roles = smoke_roles, tr_data_roles_sha256 = f, tr_quarantine = None\<rparr>"
  have "training_ok anchor ?tr" using i f smoke_roles_ok canonical_json_is_sha256 [OF g] by (simp add: training_ok_def recipe_ok_def)
  then have "training_provenance_metadata (Inr tracked_policies) anchor smoke_key smoke_roles None = Inr ?tr"
    using parse_training_dict [of anchor ?tr]
    by (simp add: training_provenance_metadata_def smoke_producer_policy policy_section_def rp str_item_def py_item_def c g f typed_def)
  then show thesis using that [OF u _ x [symmetric] t] by (simp add: u_def)
qed

lemma smoke_pattern: "py_get smoke_policy ''model_version_pattern'' = PStr ''^synthetic-smoke-1$''"
  by (simp add: smoke_policy_def py_get_def)

lemma smoke_version: "re_fullmatch ''^synthetic-smoke-1$'' ''synthetic-smoke-1''"
  by code_simp

lemma smoke_bound:
  obtains u x t tr where "validate_policy_binding (Inr tracked_policies) u t tr ''synthetic-smoke-1'' (Fin x) ''raw_score'' = Inr ()"
    and "Fin x = REFERENCE_THRESHOLD" and "iu_evidence_category u = SYNTHETIC"
proof -
  obtain u x t tr where m: "intended_use_metadata (Inr tracked_policies) smoke_key = Inr u" "iu_evidence_category u = SYNTHETIC"
    "Fin x = REFERENCE_THRESHOLD" "threshold_provenance_metadata (Inr tracked_policies) smoke_key (PFloat (Fin x)) False = Inr t"
    "training_provenance_metadata (Inr tracked_policies) (Inl OverflowError) smoke_key smoke_roles None = Inr tr"
    by (rule smoke_metadata)
  have "validate_policy_binding (Inr tracked_policies) u t tr ''synthetic-smoke-1'' (Fin x) ''raw_score'' = Inr ()"
    by (rule built_metadata_bound [OF m(1,4,5) smoke_producer_policy smoke_pattern smoke_version])
      (simp_all add: m(2,3) smoke_roles_def SYNTHETIC_def DEVELOPMENT_def)
  then show thesis using that m by blast
qed

theorem built_metadata_is_bound_witness:
  "\<exists>u x t tr. intended_use_metadata (Inr tracked_policies) smoke_key = Inr u \<and>
     training_provenance_metadata (Inr tracked_policies) (Inl OverflowError) smoke_key smoke_roles None = Inr tr \<and>
     validate_policy_binding (Inr tracked_policies) u t tr ''synthetic-smoke-1'' (Fin x) ''raw_score'' = Inr ()"
proof -
  obtain u x t tr where m: "intended_use_metadata (Inr tracked_policies) smoke_key = Inr u" "iu_evidence_category u = SYNTHETIC"
    "Fin x = REFERENCE_THRESHOLD" "threshold_provenance_metadata (Inr tracked_policies) smoke_key (PFloat (Fin x)) False = Inr t"
    "training_provenance_metadata (Inr tracked_policies) (Inl OverflowError) smoke_key smoke_roles None = Inr tr"
    by (rule smoke_metadata)
  have "validate_policy_binding (Inr tracked_policies) u t tr ''synthetic-smoke-1'' (Fin x) ''raw_score'' = Inr ()"
    by (rule built_metadata_is_bound [OF m(1,4,5) smoke_producer_policy smoke_pattern smoke_version])
      (simp_all add: m(2,3) smoke_roles_def SYNTHETIC_def DEVELOPMENT_def)
  then show ?thesis using m by blast
qed

theorem tracked_policies_limit_claims_witness:
  "\<exists>u x t tr. validate_policy_binding (Inr tracked_policies) u t tr ''synthetic-smoke-1'' (Fin x) ''raw_score'' = Inr () \<and>
     Fin x = REFERENCE_THRESHOLD \<and> iu_evidence_category u = SYNTHETIC \<and> \<not> tp_production_approved t \<and> tr_quarantine tr = None"
proof -
  obtain u x t tr where b: "validate_policy_binding (Inr tracked_policies) u t tr ''synthetic-smoke-1'' (Fin x) ''raw_score'' = Inr ()"
    "Fin x = REFERENCE_THRESHOLD" "iu_evidence_category u = SYNTHETIC"
    by (rule smoke_bound)
  then show ?thesis using tracked_policies_limit_claims [OF b(1)] by blast
qed

end
