(* ===== verification/Reference_Recipe.thy ===== *)
theory Reference_Recipe
  imports Quarantine_Build Model_Bundle
begin

text \<open>
  The fixed recipe of \<open>src/src/data/historical_reference.py\<close>: the retained files, the strict
  reading of the recipe and the parameters of the estimator it declares.
\<close>

section \<open>Retained files\<close>

record retained_file =
  rf_name :: string \<comment> \<open>\<open>path.name\<close>\<close>
  rf_encoded :: string
  rf_sha256 :: string
  rf_size_bytes :: int

definition absolute_parts :: "(string \<Rightarrow> py_path option) \<Rightarrow> string list \<Rightarrow> string \<Rightarrow> py_exc + string list" where
  "absolute_parts home cwd path =
     res_bind (expanduser home (parse_path path)) (\<lambda>p.
       let candidate = abspath cwd p
       in if pp_root candidate \<noteq> ''/'' then
            Inl (ValueError ''Historical reference path must resolve to an absolute POSIX path.'')
          else if pp_parts candidate = [] \<or> \<not> list_all plain_part (pp_parts candidate) then
            Inl (ValueError ''Historical reference path is malformed.'')
          else Inr (pp_parts candidate))"

text \<open>\<open>tree\<close> is the file system at the moment of the opening, from its root directory.\<close>

definition open_regular_file_no_follow :: "fs_node \<Rightarrow> string list \<Rightarrow> string \<Rightarrow> py_exc + file_read" where
  "open_regular_file_no_follow tree parts label =
     (case open_directories tree (butlast parts) of
        None \<Rightarrow> Inl (ValueError (label @ '' is unavailable or contains a symbolic-link component.''))
      | Some parent \<Rightarrow>
          (case open_file parent (last parts) of
             None \<Rightarrow> Inl (ValueError (label @ '' is unavailable or contains a symbolic-link component.''))
           | Some (Fs_File r) \<Rightarrow> Inr r
           | Some _ \<Rightarrow> Inl (ValueError (label @ '' must be a regular file.''))))"

definition retained_file ::
  "(string \<Rightarrow> py_path option) \<Rightarrow> string list \<Rightarrow> fs_node \<Rightarrow> string \<Rightarrow> string \<Rightarrow> string \<Rightarrow> py_exc + retained_file" where
  "retained_file home cwd tree path label suffix =
     (if map lower_char (path_suffix (path_name (parse_path path))) \<noteq> suffix then
        Inl (ValueError (label @ '' must have '' @ suffix @ '' suffix.''))
      else
        res_bind (absolute_parts home cwd path) (\<lambda>parts.
        res_bind (open_regular_file_no_follow tree parts label) (\<lambda>r.
          let encoded = read_all r
          in Inr \<lparr>rf_name = last parts, rf_encoded = encoded, rf_sha256 = sha256_hex encoded, rf_size_bytes = int (length encoded)\<rparr>)))"

text \<open>\<open>current\<close> is a new reading of the same path.\<close>

definition reverify_retained_file :: "py_exc + retained_file \<Rightarrow> retained_file \<Rightarrow> string \<Rightarrow> py_exc + unit" where
  "reverify_retained_file current retained label =
     res_bind current (\<lambda>c.
       if rf_sha256 c \<noteq> rf_sha256 retained \<or> rf_size_bytes c \<noteq> rf_size_bytes retained then
         Inl (ValueError (label @ '' changed after verification.''))
       else Inr ())"

section \<open>Expectations\<close>

record source_expectation =
  se_key :: string
  se_filename :: string
  se_sha256 :: string
  se_size_bytes :: int
  se_row_count :: int
  se_fraud_count :: "int option"

record filtering_expectation =
  fe_quarantine_occurrences_removed :: int
  fe_duplicate_rows_removed :: int
  fe_cross_split_duplicate_rows_removed :: int
  fe_feature_label_conflicts :: int

record pool_expectation =
  pe_row_hashes_sha256 :: string
  pe_total_row_count :: int
  pe_legitimate_row_count :: int
  pe_fraud_row_count :: int
  pe_unique_row_count :: int
  pe_duplicate_row_count :: int

record reference_recipe =
  rr_retained :: retained_file
  rr_model_version :: string
  rr_model_parameters :: "(string, pyval) dict"
  rr_sources :: "source_expectation list"
  rr_filtering :: filtering_expectation
  rr_pool :: pool_expectation
  rr_quarantine_anchor_sha256 :: string
  rr_quarantine_row_hashes_sha256 :: string
  rr_quarantine_total_row_count :: int
  rr_quarantine_fraud_count :: int
  rr_quarantine_unique_row_count :: int
  rr_quarantine_duplicate_row_count :: int
  rr_expected_cross_split_duplicate_count :: int

section \<open>Constants\<close>

definition RECIPE_FORMAT_VERSION :: string where "RECIPE_FORMAT_VERSION = ''1''"

definition SOURCE_FIELDS :: "string list" where
  "SOURCE_FIELDS = [''filename'', ''sha256'', ''size_bytes'', ''row_count'', ''fraud_count'']"

definition RECIPE_DOCUMENT_FIELDS :: "string list" where
  "RECIPE_DOCUMENT_FIELDS = [''approval_status'', ''candidate_identity_status'', ''candidate_sources'',
     ''conflicting_feature_identical_labels'', ''cross_split_identical_labeled_rows'', ''duplicate_policy'',
     ''dtype_contract'', ''feature_schema'', ''filtering'', ''final_training_pool'', ''format_version'', ''model'',
     ''model_version'', ''expected_cross_split_duplicate_count'', ''post_quarantine_split_roles'', ''preprocessing'',
     ''producer_policy'', ''quarantine'', ''quarantine_overlap_policy'', ''recipe_kind'', ''threshold'', ''training_pool'']"

definition RECIPE_POOL_FIELDS :: "string list" where
  "RECIPE_POOL_FIELDS = [''row_hashes_sha256'', ''total_row_count'', ''legitimate_row_count'', ''fraud_count'',
     ''unique_row_count'', ''duplicate_row_count'']"

definition PREPROCESSING_RECIPE :: pyval where
  "PREPROCESSING_RECIPE = PDict
     [(''scale_features'', PList [PStr ''Time'', PStr ''Amount'']),
      (''passthrough_features'', PList (map PStr PCA_FEATURES)),
      (''scaler'', PDict [(''copy'', PBool True), (''with_mean'', PBool True), (''with_std'', PBool True)]),
      (''column_transformer'', PDict
         [(''n_jobs'', PNone), (''remainder'', PStr ''drop''), (''sparse_threshold'', PFloat (fl (3/10))),
          (''transformer_weights'', PNone), (''verbose'', PBool False), (''verbose_feature_names_out'', PBool False)])]"

definition XGBOOST_STATIC_PARAMETERS :: "(string, pyval) dict" where
  "XGBOOST_STATIC_PARAMETERS =
     [(''objective'', PStr ''binary:logistic''), (''base_score'', PNone), (''booster'', PNone), (''callbacks'', PNone),
      (''colsample_bylevel'', PNone), (''colsample_bynode'', PNone), (''colsample_bytree'', PFloat (fl (8/10))),
      (''device'', PNone), (''early_stopping_rounds'', PNone), (''enable_categorical'', PBool True),
      (''eval_metric'', PStr ''aucpr''), (''feature_types'', PNone), (''feature_weights'', PNone), (''gamma'', PNone),
      (''grow_policy'', PNone), (''importance_type'', PNone), (''interaction_constraints'', PNone),
      (''learning_rate'', PFloat (fl (5/100))), (''max_bin'', PNone), (''max_cat_threshold'', PNone),
      (''max_cat_to_onehot'', PNone), (''max_delta_step'', PNone), (''max_depth'', PInt 4), (''max_leaves'', PNone),
      (''min_child_weight'', PNone), (''missing'', PStr ''nan''), (''monotone_constraints'', PNone),
      (''multi_strategy'', PNone), (''n_estimators'', PInt 300), (''n_jobs'', PInt 1), (''num_parallel_tree'', PNone),
      (''random_state'', PInt 42), (''reg_alpha'', PNone), (''reg_lambda'', PNone), (''sampling_method'', PNone),
      (''subsample'', PFloat (fl (8/10))), (''tree_method'', PStr ''hist''), (''validate_parameters'', PNone),
      (''verbosity'', PNone)]"

definition XGBOOST_PARAMETER_FIELDS :: "string list" where
  "XGBOOST_PARAMETER_FIELDS = map fst XGBOOST_STATIC_PARAMETERS @ [''scale_pos_weight'']"

definition recipe_threshold :: pyval where
  "recipe_threshold = PDict
     [(''value'', PFloat (fl (53/100))), (''source'', PStr ''historical_validation_selected_threshold''),
      (''historical_component_linkage'', PStr ''unverified''), (''purpose'', PStr ''demo_human_review_policy_only''),
      (''calibrated'', PBool False), (''cost_optimal'', PBool False), (''razorpay_approved'', PBool False),
      (''production_approved'', PBool False)]"

section \<open>Estimator parameters\<close>

definition is_nan_parameter :: "pyval \<Rightarrow> bool" where
  "is_nan_parameter v = (v = PFloat NaN)"

text \<open>The dictionaries of \<open>get_params\<close>; \<open>==\<close> is \<^const>\<open>py_eq\<close>.\<close>

definition xgboost_parameters_match :: "(string, pyval) dict \<Rightarrow> (string, pyval) dict \<Rightarrow> bool" where
  "xgboost_parameters_match declared actual =
     (set (map fst declared) = set (map fst actual) \<and>
      list_all (\<lambda>(name, d).
        let a = py_get actual name
        in if is_nan_parameter d \<or> is_nan_parameter a then is_nan_parameter d \<and> is_nan_parameter a else py_eq d a) declared)"

section \<open>The recipe\<close>

definition parse_source :: "(string, pyval) dict \<Rightarrow> string \<times> string \<Rightarrow> py_exc + source_expectation" where
  "parse_source sources kf =
     (let (key, expected) = kf
      in case dict_of (py_get sources key) of
           None \<Rightarrow> Inl (ValueError (''Historical reference source '' @ key @ '' fields are incomplete or unexpected.''))
         | Some d \<Rightarrow>
             if set (map fst d) \<noteq> set SOURCE_FIELDS then
               Inl (ValueError (''Historical reference source '' @ key @ '' fields are incomplete or unexpected.''))
             else if py_get d ''filename'' \<noteq> PStr expected then
               Inl (ValueError (''Historical reference source '' @ key @ '' filename is not canonical.''))
             else
               res_bind (require_nonnegative_int (py_get d ''row_count'') (key @ ''.row_count'')) (\<lambda>n.
               res_bind (if starts_with key ''x_'' then
                           (if py_get d ''fraud_count'' \<noteq> PNone then
                              Inl (ValueError (''Historical reference feature source '' @ key @ '' must not claim labels.''))
                            else Inr None)
                         else
                           res_bind (require_nonnegative_int (py_get d ''fraud_count'') (key @ ''.fraud_count'')) (\<lambda>fraud.
                             if n < fraud then Inl (ValueError (''Historical reference source '' @ key @ '' fraud count is inconsistent.''))
                             else Inr (Some fraud))) (\<lambda>fraud.
               res_bind (require_sha256 (py_get d ''sha256'') (key @ ''.sha256'')) (\<lambda>h.
               res_bind (require_nonnegative_int (py_get d ''size_bytes'') (key @ ''.size_bytes'')) (\<lambda>b.
                 Inr \<lparr>se_key = key, se_filename = expected, se_sha256 = h, se_size_bytes = b, se_row_count = n,
                      se_fraud_count = fraud\<rparr>)))))"

definition recipe_contract_ok :: "(string, pyval) dict \<Rightarrow> bool" where
  "recipe_contract_ok d =
     (py_get d ''recipe_kind'' = PStr ''historical_reference_demo_bundle'' \<and>
      py_get d ''producer_policy'' = PStr HISTORICAL_REFERENCE_POLICY \<and>
      py_get d ''feature_schema'' = PList (map PStr ALL_FEATURES) \<and>
      py_eq (py_get d ''dtype_contract'') dtype_contract \<and>
      py_get d ''quarantine_overlap_policy'' = PStr ''filter_all_occurrences_before_construction'' \<and>
      py_get d ''duplicate_policy'' = PStr ''filter_quarantine_then_global_keep_first_train_then_validation'' \<and>
      py_get d ''cross_split_identical_labeled_rows'' = PStr ''deduplicate_deterministically_into_final_fitting_pool'' \<and>
      py_get d ''conflicting_feature_identical_labels'' = PStr ''reject'' \<and>
      py_get d ''post_quarantine_split_roles'' = PStr ''abolished_merged_fitting_pool_only_no_evaluation'' \<and>
      py_get d ''final_training_pool'' =
        PStr ''quarantine_filtered_train_then_validation_global_keep_first_deduplicated_fitting_pool'')"

definition parse_model_parameters :: "pyval \<Rightarrow> py_exc + (string, pyval) dict" where
  "parse_model_parameters v =
     (case Option.bind (dict_of v) (\<lambda>d.
             if set (map fst d) = {''family'', ''parameters''} \<and> py_get d ''family'' = PStr ''xgboost_binary_classifier''
             then dict_of (py_get d ''parameters'') else None) of
        None \<Rightarrow> Inl (ValueError ''Historical reference model configuration contradicts the fixed recipe.'')
      | Some ps \<Rightarrow>
          if set (map fst ps) \<noteq> set XGBOOST_PARAMETER_FIELDS then
            Inl (ValueError ''Historical reference model configuration contradicts the fixed recipe.'')
          else if list_ex (\<lambda>(name, value). \<not> py_eq (py_get ps name) value) XGBOOST_STATIC_PARAMETERS then
            Inl (ValueError ''Historical reference model parameters are incomplete or non-canonical.'')
          else Inr ps)"

definition parse_sources :: "pyval \<Rightarrow> py_exc + source_expectation list" where
  "parse_sources v =
     (case dict_of v of
        None \<Rightarrow> Inl (ValueError ''Historical reference source fields are invalid.'')
      | Some d \<Rightarrow>
          if set (map fst d) \<noteq> set SOURCE_KEYS then Inl (ValueError ''Historical reference source fields are invalid.'')
          else
            res_bind (res_map (parse_source d) (zip SOURCE_KEYS SOURCE_FILENAMES)) (\<lambda>ss.
              if se_row_count (ss ! 0) \<noteq> se_row_count (ss ! 1) \<or> se_row_count (ss ! 2) \<noteq> se_row_count (ss ! 3) then
                Inl (ValueError ''Historical reference feature and label source counts disagree.'')
              else Inr ss))"

text \<open>
  Two dictionaries are built by walking a Python \<open>set\<close> of names, whose order decides only which
  malformed count is named; the declared order is used.
\<close>

definition parse_filtering_expectation :: "pyval \<Rightarrow> py_exc + filtering_expectation" where
  "parse_filtering_expectation v =
     (case dict_of v of
        None \<Rightarrow> Inl (ValueError ''Historical reference filtering fields are invalid.'')
      | Some d \<Rightarrow>
          if set (map fst d) \<noteq> set FILTERING_FIELDS then Inl (ValueError ''Historical reference filtering fields are invalid.'')
          else
            res_bind (res_map (\<lambda>f. require_nonnegative_int (py_get d f) (''filtering.'' @ f)) FILTERING_FIELDS) (\<lambda>ns.
              let g = \<lparr>fe_quarantine_occurrences_removed = ns ! 0, fe_duplicate_rows_removed = ns ! 1,
                       fe_cross_split_duplicate_rows_removed = ns ! 2, fe_feature_label_conflicts = ns ! 3\<rparr>
              in if fe_feature_label_conflicts g \<noteq> 0 then
                   Inl (ValueError ''Historical reference recipe must declare zero feature-label conflicts.'')
                 else Inr g))"

definition parse_cross_split_count :: "pyval \<Rightarrow> filtering_expectation \<Rightarrow> py_exc + int" where
  "parse_cross_split_count v g =
     res_bind (require_nonnegative_int v ''expected_cross_split_duplicate_count'') (\<lambda>n.
       if fe_cross_split_duplicate_rows_removed g \<noteq> n then
         Inl (ValueError ''Historical reference cross-split duplicate count contradicts filtering evidence.'')
       else if fe_duplicate_rows_removed g < fe_cross_split_duplicate_rows_removed g then
         Inl (ValueError ''Historical reference cross-split duplicate count exceeds all duplicates removed.'')
       else Inr n)"

definition parse_pool_expectation :: "pyval \<Rightarrow> filtering_expectation \<Rightarrow> int \<Rightarrow> py_exc + pool_expectation" where
  "parse_pool_expectation v g input_rows =
     (case dict_of v of
        None \<Rightarrow> Inl (ValueError ''Historical reference final-pool fields are invalid.'')
      | Some d \<Rightarrow>
          if set (map fst d) \<noteq> set RECIPE_POOL_FIELDS then Inl (ValueError ''Historical reference final-pool fields are invalid.'')
          else
            res_bind (require_sha256 (py_get d ''row_hashes_sha256'') ''pool.sha256'') (\<lambda>h.
            res_bind (require_nonnegative_int (py_get d ''total_row_count'') ''pool.total'') (\<lambda>n.
            res_bind (require_nonnegative_int (py_get d ''legitimate_row_count'') ''pool.legitimate'') (\<lambda>legitimate.
            res_bind (require_nonnegative_int (py_get d ''fraud_count'') ''pool.fraud'') (\<lambda>fraud.
            res_bind (require_nonnegative_int (py_get d ''unique_row_count'') ''pool.unique'') (\<lambda>unique.
            res_bind (require_nonnegative_int (py_get d ''duplicate_row_count'') ''pool.duplicates'') (\<lambda>duplicates.
              if n \<noteq> legitimate + fraud \<or> n \<noteq> unique + duplicates \<or>
                 input_rows \<noteq> n + fe_quarantine_occurrences_removed g + fe_duplicate_rows_removed g then
                Inl (ValueError ''Historical reference final-pool accounting is inconsistent.'')
              else Inr \<lparr>pe_row_hashes_sha256 = h, pe_total_row_count = n, pe_legitimate_row_count = legitimate,
                        pe_fraud_row_count = fraud, pe_unique_row_count = unique, pe_duplicate_row_count = duplicates\<rparr>)))))))"

text \<open>\<open>/\<close> on two \<open>int\<close> objects rounds the exact quotient once.\<close>

definition int_quotient :: "int \<Rightarrow> int \<Rightarrow> py_exc + pyfloat" where
  "int_quotient a b =
     (if b = 0 then Inl ZeroDivisionError
      else (case fl (of_int a / of_int b) of Fin q \<Rightarrow> Inr (Fin q) | _ \<Rightarrow> Inl OverflowError))"

definition not_positive :: "pyval \<Rightarrow> bool" where
  "not_positive v = (case v of PInt i \<Rightarrow> i \<le> 0 | PFloat x \<Rightarrow> fle x (Fin 0) | _ \<Rightarrow> True)"

definition check_scale_pos_weight :: "(pyval \<Rightarrow> py_exc + bool) \<Rightarrow> pyval \<Rightarrow> pool_expectation \<Rightarrow> py_exc + unit" where
  "check_scale_pos_weight isfinite w pool =
     (let bad = Inl (ValueError ''Historical reference scale_pos_weight is not bound to the fixed pool.'')
      in res_bind (finite_number isfinite w) (\<lambda>finite.
           if \<not> finite \<or> not_positive w \<or> pe_fraud_row_count pool = 0 then bad
           else
             res_bind (py_float w) (\<lambda>x.
             res_bind (int_quotient (pe_legitimate_row_count pool) (pe_fraud_row_count pool)) (\<lambda>ratio.
               if feq x ratio then Inr () else bad))))"

definition QUARANTINE_COUNTS :: "string list" where
  "QUARANTINE_COUNTS = [''total_row_count'', ''fraud_count'', ''unique_row_count'', ''duplicate_row_count'']"

definition parse_quarantine_counts :: "pyval \<Rightarrow> py_exc + (string, pyval) dict \<times> int list" where
  "parse_quarantine_counts v =
     (case dict_of v of
        None \<Rightarrow> Inl (ValueError ''Historical reference quarantine identity is invalid.'')
      | Some d \<Rightarrow>
          if set (map fst d) \<noteq> set ([''anchor_sha256'', ''row_hashes_sha256''] @ QUARANTINE_COUNTS) then
            Inl (ValueError ''Historical reference quarantine identity is invalid.'')
          else
            res_bind (res_map (\<lambda>k. require_nonnegative_int (py_get d k) (''quarantine.'' @ k)) QUARANTINE_COUNTS) (\<lambda>ns.
              if ns ! 0 \<noteq> ns ! 2 + ns ! 3 then Inl (ValueError ''Historical reference quarantine counts are inconsistent.'')
              else Inr (d, ns)))"

definition MODEL_VERSION_PATTERN :: string where
  "MODEL_VERSION_PATTERN = ''historical-reference-[a-z0-9.-]+-demo-v[0-9]+''"

definition parse_model_version :: "pyval \<Rightarrow> py_exc + string" where
  "parse_model_version v =
     (case str_of v of
        Some s \<Rightarrow> if re_fullmatch MODEL_VERSION_PATTERN s then Inr s else Inl (ValueError ''Historical reference model_version is invalid.'')
      | None \<Rightarrow> Inl (ValueError ''Historical reference model_version is invalid.''))"

definition check_recipe_header :: "(string, pyval) dict \<Rightarrow> py_exc + unit" where
  "check_recipe_header d =
     (if set (map fst d) \<noteq> set RECIPE_DOCUMENT_FIELDS then
        Inl (ValueError ''Historical reference recipe fields are incomplete or unexpected.'')
      else
        res_bind (in_string_set (py_get d ''approval_status'') [''approved'', ''unapproved'']) (\<lambda>known.
          if \<not> known then Inl (ValueError ''Historical reference recipe approval_status is invalid.'')
          else if py_get d ''candidate_identity_status'' \<noteq> PStr ''pending_independent_verification'' then
            Inl (ValueError ''Historical reference candidate identity status is invalid.'')
          else if py_get d ''format_version'' \<noteq> PStr RECIPE_FORMAT_VERSION then
            Inl (ValueError ''Unsupported historical reference recipe format_version.'')
          else if \<not> recipe_contract_ok d then Inl (ValueError ''Historical reference recipe contract is invalid.'')
          else if \<not> py_eq (py_get d ''preprocessing'') PREPROCESSING_RECIPE then
            Inl (ValueError ''Historical reference preprocessing configuration is invalid.'')
          else Inr ()))"

definition parse_recipe ::
  "(string \<Rightarrow> string + pyval) \<Rightarrow> (pyval \<Rightarrow> py_exc + bool) \<Rightarrow> retained_file \<Rightarrow> py_exc + reference_recipe" where
  "parse_recipe loads isfinite retained =
     res_bind (strict_json_object loads (rf_encoded retained) ''Historical reference recipe'') (\<lambda>d.
     res_bind (check_recipe_header d) (\<lambda>_.
     res_bind (parse_model_parameters (py_get d ''model'')) (\<lambda>ps.
     res_bind (parse_model_version (py_get d ''model_version'')) (\<lambda>version.
       if \<not> py_eq (py_get d ''threshold'') recipe_threshold then
         Inl (ValueError ''Historical reference threshold is not the fixed demo-review policy.'')
       else
         res_bind (parse_sources (py_get d ''candidate_sources'')) (\<lambda>ss.
         res_bind (parse_filtering_expectation (py_get d ''filtering'')) (\<lambda>g.
         res_bind (parse_cross_split_count (py_get d ''expected_cross_split_duplicate_count'') g) (\<lambda>cross.
         res_bind (parse_pool_expectation (py_get d ''training_pool'') g (se_row_count (ss ! 0) + se_row_count (ss ! 2))) (\<lambda>pool.
         res_bind (check_scale_pos_weight isfinite (py_get ps ''scale_pos_weight'') pool) (\<lambda>_.
         res_bind (parse_quarantine_counts (py_get d ''quarantine'')) (\<lambda>(q, ns).
         res_bind (require_sha256 (py_get q ''anchor_sha256'') ''quarantine.anchor'') (\<lambda>anchor_sha.
         res_bind (require_sha256 (py_get q ''row_hashes_sha256'') ''quarantine.row_hashes'') (\<lambda>hashes_sha.
           if py_get d ''approval_status'' \<noteq> PStr ''approved'' then
             Inl (ValueError ''Historical reference recipe is unapproved; refusing before opening historical Parquet inputs.'')
           else Inr \<lparr>rr_retained = retained, rr_model_version = version, rr_model_parameters = sort_key fst ps,
                     rr_sources = ss, rr_filtering = g, rr_pool = pool, rr_quarantine_anchor_sha256 = anchor_sha,
                     rr_quarantine_row_hashes_sha256 = hashes_sha, rr_quarantine_total_row_count = ns ! 0,
                     rr_quarantine_fraud_count = ns ! 1, rr_quarantine_unique_row_count = ns ! 2,
                     rr_quarantine_duplicate_row_count = ns ! 3, rr_expected_cross_split_duplicate_count = cross\<rparr>))))))))))))"

end
