(* ===== verification/Reference_Pool.thy ===== *)
theory Reference_Pool
  imports Reference_Recipe
begin

text \<open>
  The fitting pool of \<open>src/src/data/historical_reference.py\<close>: checked splits, the conflict check,
  the quarantine filter, the global keep-first deduplication, and the runner that builds one
  bundle after every check has passed.
\<close>

section \<open>Checked inputs\<close>

definition read_checked_parquet :: "(string \<Rightarrow> string \<Rightarrow> py_exc + retained_file) \<Rightarrow> string \<Rightarrow> source_expectation \<Rightarrow> py_exc + retained_file" where
  "read_checked_parquet retain path e =
     (if path_name (parse_path path) \<noteq> se_filename e then
        Inl (ValueError (''Historical reference input '' @ se_key e @ '' filename is not approved.''))
      else
        res_bind (retain path (''Historical reference input '' @ se_key e)) (\<lambda>f.
          if rf_sha256 f \<noteq> se_sha256 e \<or> rf_size_bytes f \<noteq> se_size_bytes e then
            Inl (ValueError (''Historical reference input '' @ se_key e @ '' does not match the approved identity.''))
          else Inr f))"

text \<open>The readers \<open>read_x\<close> and \<open>read_y\<close> stand for \<open>pandas.read_parquet\<close> on the retained bytes.\<close>

definition validate_split ::
  "(string \<Rightarrow> u64 list table) \<Rightarrow> (string \<Rightarrow> int table) \<Rightarrow> retained_file \<Rightarrow> retained_file \<Rightarrow>
   source_expectation \<Rightarrow> source_expectation \<Rightarrow> py_exc + data_frame" where
  "validate_split read_x read_y fx fy ex ey =
     (let x = read_x (rf_encoded fx); y = read_y (rf_encoded fy)
      in if tb_columns x \<noteq> ALL_FEATURES then
           Inl (ValueError ''Historical reference features must use canonical ALL_FEATURES order.'')
         else if tb_columns y \<noteq> [TARGET_COLUMN] then
           Inl (ValueError ''Historical reference labels must contain only Class.'')
         else if length (tb_values x) \<noteq> length (tb_values y) \<or> tb_index x \<noteq> tb_index y \<or> \<not> distinct (tb_index x) then
           Inl (ValueError ''Historical reference features and labels are not exactly unique-index aligned.'')
         else if list_ex (\<lambda>c. column_dtype x c \<noteq> Some FEATURE_DTYPE) ALL_FEATURES then
           Inl (ValueError ''Historical reference features must use exact float64 dtypes.'')
         else if column_dtype y TARGET_COLUMN \<noteq> Some TARGET_DTYPE then
           Inl (ValueError ''Historical reference labels must use exact int64 dtype.'')
         else
           (let frame = aligned_frame x y; n = int (length frame)
            in res_bind (validate_rows frame) (\<lambda>_.
                 if n \<noteq> se_row_count ex \<or> n \<noteq> se_row_count ey \<or> Some (sum_list (map dr_label frame)) \<noteq> se_fraud_count ey then
                   Inl (ValueError ''Historical reference source counts do not match the fixed recipe.'')
                 else Inr frame)))"

section \<open>Contradictory labels\<close>

definition FEATURE_HASH_DOMAIN :: string where
  "FEATURE_HASH_DOMAIN = ''SecureSwipe historical reference feature vector v1'' @ [char_of (0 :: nat)]"

definition feature_bytes :: "data_row \<Rightarrow> string" where
  "feature_bytes r = FEATURE_HASH_DOMAIN @ concat (map f64_bytes (dr_features r))"

definition feature_hash :: "data_row \<Rightarrow> string" where
  "feature_hash r = sha256_hex (feature_bytes r)"

definition feature_only_hashes :: "data_frame \<Rightarrow> string list" where
  "feature_only_hashes rows = map feature_hash rows"

text \<open>The dictionary \<open>labels_by_feature\<close> is shared by all frames: \<open>setdefault\<close> keeps the first label.\<close>

fun check_labels :: "(string, int) dict \<Rightarrow> (string \<times> int) list \<Rightarrow> py_exc + (string, int) dict" where
  "check_labels seen [] = Inr seen"
| "check_labels seen ((h, label) # rest) =
     (case map_of seen h of
        None \<Rightarrow> check_labels (AList.update h label seen) rest
      | Some previous \<Rightarrow>
          if previous \<noteq> label then Inl (ValueError ''Historical reference contains contradictory labels for one feature vector.'')
          else check_labels seen rest)"

fun check_frames :: "(string, int) dict \<Rightarrow> data_frame list \<Rightarrow> py_exc + (string, int) dict" where
  "check_frames seen [] = Inr seen"
| "check_frames seen (rows # frames) =
     res_bind (check_labels seen (zip (feature_only_hashes rows) (map dr_label rows))) (\<lambda>seen'. check_frames seen' frames)"

definition reject_feature_label_conflicts :: "data_frame list \<Rightarrow> py_exc + unit" where
  "reject_feature_label_conflicts frames = res_bind (check_frames [] frames) (\<lambda>_. Inr ())"

section \<open>Filtering\<close>

text \<open>\<open>frame.iloc[np.flatnonzero(keep)]\<close>.\<close>

definition select_rows :: "bool list \<Rightarrow> data_frame \<Rightarrow> data_frame" where
  "select_rows keep rows = map snd (filter fst (zip keep rows))"

record filtered_split =
  fs_frame :: data_frame
  fs_quarantine_occurrences_removed :: int

definition filter_quarantine :: "data_frame \<Rightarrow> string set \<Rightarrow> py_exc + filtered_split" where
  "filter_quarantine rows quarantined =
     res_bind (canonical_row_hashes rows) (\<lambda>hs.
       let filtered = select_rows (map (\<lambda>h. h \<notin> quarantined) hs) rows
       in Inr \<lparr>fs_frame = filtered, fs_quarantine_occurrences_removed = int (length rows) - int (length filtered)\<rparr>)"

section \<open>Deduplication\<close>

record fitting_pool =
  fp_frame :: data_frame
  fp_duplicate_rows_removed :: int
  fp_cross_split_duplicate_rows_removed :: int

text \<open>The first loop: which rows to keep, and the hashes seen.\<close>

fun keep_train :: "string set \<Rightarrow> string list \<Rightarrow> bool list \<times> string set" where
  "keep_train seen [] = ([], seen)"
| "keep_train seen (h # hs) = (let (ks, seen') = keep_train (insert h seen) hs in ((h \<notin> seen) # ks, seen'))"

text \<open>The second loop, with the number of distinct validation hashes that the training rows have.\<close>

fun keep_validation :: "string set \<Rightarrow> string set \<Rightarrow> string list \<Rightarrow> bool list \<times> int" where
  "keep_validation seen_train seen [] = ([], 0)"
| "keep_validation seen_train seen (h # hs) =
     (if h \<in> seen then (let (ks, c) = keep_validation seen_train seen hs in (False # ks, c))
      else if h \<in> seen_train then (let (ks, c) = keep_validation seen_train (insert h seen) hs in (False # ks, c + 1))
      else (let (ks, c) = keep_validation seen_train (insert h seen) hs in (True # ks, c)))"

definition deduplicate_final_fitting_pool :: "data_frame \<Rightarrow> data_frame \<Rightarrow> py_exc + fitting_pool" where
  "deduplicate_final_fitting_pool train validation =
     res_bind (canonical_row_hashes train) (\<lambda>th.
     res_bind (canonical_row_hashes validation) (\<lambda>vh.
       let (tk, seen) = keep_train {} th; (vk, cross) = keep_validation seen {} vh;
           pool = select_rows tk train @ select_rows vk validation
       in Inr \<lparr>fp_frame = pool, fp_duplicate_rows_removed = int (length train) + int (length validation) - int (length pool),
               fp_cross_split_duplicate_rows_removed = cross\<rparr>))"

section \<open>The runner\<close>

definition validate_quarantine :: "reference_recipe \<Rightarrow> test_quarantine \<Rightarrow> py_exc + unit" where
  "validate_quarantine r q =
     (if tq_anchor_sha256 q = rr_quarantine_anchor_sha256 r \<and> tq_row_hashes_sha256 q = rr_quarantine_row_hashes_sha256 r \<and>
         tq_total_row_count q = rr_quarantine_total_row_count r \<and> tq_fraud_count q = rr_quarantine_fraud_count r \<and>
         tq_unique_row_count q = rr_quarantine_unique_row_count r \<and> tq_duplicate_row_count q = rr_quarantine_duplicate_row_count r
      then Inr ()
      else Inl (ValueError ''Approved historical quarantine does not match the fixed reference recipe.''))"

definition verified_quarantine_file :: "py_exc + retained_file \<Rightarrow> test_quarantine \<Rightarrow> py_exc + retained_file" where
  "verified_quarantine_file retained q =
     res_bind retained (\<lambda>f.
       if rf_sha256 f \<noteq> tq_manifest_sha256 q \<or> rf_size_bytes f \<noteq> tq_manifest_size_bytes q then
         Inl (ValueError ''Historical quarantine manifest changed after validation.'')
       else Inr f)"

text \<open>
  \<open>PureWindowsPath(s).drive\<close> is not empty: two leading separators, or a colon after a first
  character that is no separator. \<open>is_absolute()\<close> of that flavour needs a drive too.
\<close>

definition windows_has_drive :: "string \<Rightarrow> bool" where
  "windows_has_drive s =
     (case s of
        c # d # _ \<Rightarrow> if c = CHR ''/'' \<or> c = CHR 0x5C then d = CHR ''/'' \<or> d = CHR 0x5C else d = CHR '':''
      | _ \<Rightarrow> False)"

definition approved_output_path :: "string \<Rightarrow> py_exc + string list" where
  "approved_output_path output =
     (let parts = path_parts output
      in if path_root output \<noteq> [] \<or> windows_has_drive output then
           Inl (ValueError ''Historical reference output must be a relative ignored artifacts/ path.'')
         else if list_ex (\<lambda>p. \<not> plain_part p \<or> CHR 0x5C \<in> set p) parts \<or> length parts < 2 \<or> hd parts \<noteq> ''artifacts'' then
           Inl (ValueError ''Historical reference output path is unsafe or outside ignored artifacts/.'')
         else Inr parts)"

definition pool_identity :: "data_frame \<Rightarrow> py_exc + pool_expectation" where
  "pool_identity rows =
     res_bind (canonical_row_hashes rows) (\<lambda>hs.
       let n = int (length hs); fraud = sum_list (map dr_label rows); unique = int (card (set hs))
       in res_bind (row_hashes_checksum hs) (\<lambda>c.
            Inr \<lparr>pe_row_hashes_sha256 = c, pe_total_row_count = n, pe_legitimate_row_count = n - fraud,
                 pe_fraud_row_count = fraud, pe_unique_row_count = unique, pe_duplicate_row_count = n - unique\<rparr>))"

text \<open>
  What surrounds one run. \<open>tree n\<close> is the file system at the \<open>n\<close>-th opening; the fitting and
  \<open>get_params\<close> of an estimator made with given parameters are scikit-learn and XGBoost, the
  latter \<^const>\<open>None\<close> when it is not installed; \<open>save\<close> is \<open>save_model_bundle\<close>.
\<close>

record 'r runner_env =
  ev_loads :: "string \<Rightarrow> string + pyval"
  ev_isfinite :: "pyval \<Rightarrow> py_exc + bool"
  ev_home :: "string \<Rightarrow> py_path option"
  ev_cwd :: "string list"
  ev_project_root :: "string list"
  ev_tree :: "nat \<Rightarrow> fs_node"
  ev_anchor_file :: fs_object
  ev_quarantine_file :: fs_object
  ev_manifest_path :: string
  ev_read_x :: "string \<Rightarrow> u64 list table"
  ev_read_y :: "string \<Rightarrow> int table"
  ev_policies :: "py_exc + (string, pyval) dict"
  ev_xgboost :: "((string, pyval) dict \<Rightarrow> (string, pyval) dict) option"
  ev_fit_preprocessor :: "data_frame \<Rightarrow> py_exc + estimator"
  ev_fit_model :: "(string, pyval) dict \<Rightarrow> estimator \<Rightarrow> data_frame \<Rightarrow> py_exc + estimator"
  ev_save :: "model_bundle \<Rightarrow> string list \<Rightarrow> py_exc + 'r"

definition ev_retain :: "'r runner_env \<Rightarrow> nat \<Rightarrow> string \<Rightarrow> string \<Rightarrow> string \<Rightarrow> py_exc + retained_file" where
  "ev_retain env n path label suffix = retained_file (ev_home env) (ev_cwd env) (ev_tree env n) path label suffix"

definition recipe_path :: "'r runner_env \<Rightarrow> string" where
  "recipe_path env = path_str \<lparr>pp_root = ''/'', pp_parts = ev_project_root env @ [''configs'', ''historical_reference_demo_recipe.json'']\<rparr>"

definition load_historical_reference_recipe :: "'r runner_env \<Rightarrow> py_exc + reference_recipe" where
  "load_historical_reference_recipe env =
     res_bind (ev_retain env 0 (recipe_path env) ''Canonical historical reference recipe'' ''.json'')
       (parse_recipe (ev_loads env) (ev_isfinite env))"

definition recipe_source :: "reference_recipe \<Rightarrow> string \<Rightarrow> source_expectation" where
  "recipe_source r key = hd (filter (\<lambda>s. se_key s = key) (rr_sources r))"

text \<open>\<open>_build_exact_model\<close>: the parameters the estimator is made with.\<close>

definition build_exact_model :: "((string, pyval) dict \<Rightarrow> (string, pyval) dict) option \<Rightarrow> reference_recipe \<Rightarrow> py_exc + (string, pyval) dict" where
  "build_exact_model xgboost r =
     (case xgboost of
        None \<Rightarrow> Inl (PyError ''ImportError'' ''xgboost is required for the historical-reference demo runner.'')
      | Some get_params \<Rightarrow>
          let declared = rr_model_parameters r; parameters = AList.update ''missing'' (PFloat NaN) declared
          in if py_get declared ''missing'' \<noteq> PStr ''nan'' then
               Inl (ValueError ''Historical reference missing-value sentinel is not canonical.'')
             else if xgboost_parameters_match parameters (get_params parameters) then Inr parameters
             else Inl (ValueError ''Constructed XGBoost model contradicts the fixed historical reference recipe.''))"

definition quarantine_of :: "test_quarantine \<Rightarrow> quarantine_provenance" where
  "quarantine_of q =
     \<lparr>qp_anchor_sha256 = tq_anchor_sha256 q, qp_row_hashes_sha256 = tq_row_hashes_sha256 q,
      qp_total_row_count = tq_total_row_count q, qp_fraud_row_count = tq_fraud_count q,
      qp_unique_row_count = tq_unique_row_count q, qp_duplicate_row_count = tq_duplicate_row_count q, qp_overlap_row_count = 0\<rparr>"

definition reference_source_of :: "source_expectation \<Rightarrow> reference_source" where
  "reference_source_of s =
     \<lparr>rsrc_filename = se_filename s, rsrc_sha256 = se_sha256 s, rsrc_size_bytes = se_size_bytes s,
      rsrc_total_row_count = se_row_count s, rsrc_fraud_row_count = se_fraud_count s\<rparr>"

definition reference_filtering_of :: "filtering_expectation \<Rightarrow> reference_filtering" where
  "reference_filtering_of g =
     \<lparr>fg_quarantine_occurrences_removed = fe_quarantine_occurrences_removed g,
      fg_duplicate_rows_removed = fe_duplicate_rows_removed g,
      fg_cross_split_duplicate_rows_removed = fe_cross_split_duplicate_rows_removed g, fg_feature_label_conflicts = 0\<rparr>"

definition reference_pool_of :: "pool_expectation \<Rightarrow> reference_pool" where
  "reference_pool_of p =
     \<lparr>pl_row_hashes_sha256 = pe_row_hashes_sha256 p, pl_total_row_count = pe_total_row_count p,
      pl_legitimate_row_count = pe_legitimate_row_count p, pl_fraud_row_count = pe_fraud_row_count p,
      pl_unique_row_count = pe_unique_row_count p, pl_duplicate_row_count = pe_duplicate_row_count p\<rparr>"

text \<open>From the checked splits to the pool that is fitted, with its identity and its accounting.\<close>

definition build_reference_pool ::
  "reference_recipe \<Rightarrow> test_quarantine \<Rightarrow> data_frame \<Rightarrow> data_frame \<Rightarrow> py_exc + data_frame \<times> pool_expectation \<times> filtering_expectation" where
  "build_reference_pool r q train_frame validation_frame =
     res_bind (reject_feature_label_conflicts [train_frame, validation_frame]) (\<lambda>_.
     res_bind (filter_quarantine train_frame (tq_row_hashes q)) (\<lambda>train.
     res_bind (filter_quarantine validation_frame (tq_row_hashes q)) (\<lambda>validation.
     res_bind (deduplicate_final_fitting_pool (fs_frame train) (fs_frame validation)) (\<lambda>final.
     res_bind (pool_identity (fp_frame final)) (\<lambda>actual_pool.
       let g = \<lparr>fe_quarantine_occurrences_removed = fs_quarantine_occurrences_removed train + fs_quarantine_occurrences_removed validation,
                fe_duplicate_rows_removed = fp_duplicate_rows_removed final,
                fe_cross_split_duplicate_rows_removed = fp_cross_split_duplicate_rows_removed final,
                fe_feature_label_conflicts = 0\<rparr>
       in res_bind (canonical_row_hashes (fp_frame final)) (\<lambda>hs.
            if actual_pool \<noteq> rr_pool r \<or> g \<noteq> rr_filtering r \<or>
               fe_cross_split_duplicate_rows_removed g \<noteq> rr_expected_cross_split_duplicate_count r \<or>
               set hs \<inter> tq_row_hashes q \<noteq> {} then
              Inl (ValueError ''Historical reference filtering or final pool does not match the fixed recipe.'')
            else Inr (fp_frame final, actual_pool, g)))))))"

definition reference_bundle ::
  "'r runner_env \<Rightarrow> reference_recipe \<Rightarrow> test_quarantine \<Rightarrow> estimator \<Rightarrow> estimator \<Rightarrow> pool_expectation \<Rightarrow> filtering_expectation \<Rightarrow>
   py_exc + model_bundle" where
  "reference_bundle env r q pre model p g =
     (let anchor = load_historical_quarantine_anchor (ev_loads env) (ev_anchor_file env)
      in res_bind (data_role_metadata (pe_row_hashes_sha256 p) (pe_total_row_count p) (pe_fraud_row_count p) (pe_duplicate_row_count p)) (\<lambda>fit.
         res_bind (quarantine_provenance_metadata anchor (quarantine_of q)) (\<lambda>qp.
         res_bind (training_provenance_metadata (ev_policies env) anchor HISTORICAL_REFERENCE_POLICY
                    \<lparr>rl_model_fit = fit, rl_calibrator_fit = None, rl_threshold_selection = None, rl_evaluation = None\<rparr> (Some qp)) (\<lambda>t.
         res_bind (reference_provenance_metadata anchor
                    \<lparr>hf_filename = rf_name (rr_retained r), hf_sha256 = rf_sha256 (rr_retained r), hf_size_bytes = rf_size_bytes (rr_retained r)\<rparr>
                    (map reference_source_of (rr_sources r)) qp (reference_filtering_of g) (reference_pool_of p)) (\<lambda>h.
         res_bind (intended_use_metadata (ev_policies env) HISTORICAL_REFERENCE_POLICY) (\<lambda>u.
         res_bind (threshold_provenance_metadata (ev_policies env) HISTORICAL_REFERENCE_POLICY (PFloat (fl (53/100))) False) (\<lambda>th.
           Inr \<lparr>mb_preprocessor = Some pre, mb_model = Some model, mb_calibrator = None, mb_operating_threshold = PFloat (fl (53/100)),
                mb_feature_schema = ALL_FEATURES, mb_training_data_fingerprint = PStr (tr_data_roles_sha256 t),
                mb_model_version = rr_model_version r, mb_intended_use = u, mb_threshold_provenance = th,
                mb_training_provenance = t, mb_score_type = ''raw_score'', mb_reference_provenance = Some h,
                mb_model_artifact_sha256 = None\<rparr>)))))))"

definition create_historical_reference_demo_bundle ::
  "'r runner_env \<Rightarrow> string \<Rightarrow> string \<Rightarrow> string \<Rightarrow> string \<Rightarrow> string \<Rightarrow> string \<Rightarrow> py_exc + 'r" where
  "create_historical_reference_demo_bundle env x_train y_train x_val y_val quarantine_name output =
     res_bind (load_historical_reference_recipe env) (\<lambda>r.
     res_bind (approved_output_path output) (\<lambda>out.
     res_bind (load_historical_quarantine_manifest (ev_loads env) (ev_anchor_file env) quarantine_name (ev_quarantine_file env)) (\<lambda>q.
     res_bind (validate_quarantine r q) (\<lambda>_.
     res_bind (verified_quarantine_file (ev_retain env 1 (ev_manifest_path env) ''Historical quarantine manifest'' ''.json'') q) (\<lambda>qf.
     res_bind (read_checked_parquet (\<lambda>p l. ev_retain env 2 p l ''.parquet'') x_train (recipe_source r ''x_train'')) (\<lambda>fxt.
     res_bind (read_checked_parquet (\<lambda>p l. ev_retain env 3 p l ''.parquet'') y_train (recipe_source r ''y_train'')) (\<lambda>fyt.
     res_bind (read_checked_parquet (\<lambda>p l. ev_retain env 4 p l ''.parquet'') x_val (recipe_source r ''x_val'')) (\<lambda>fxv.
     res_bind (read_checked_parquet (\<lambda>p l. ev_retain env 5 p l ''.parquet'') y_val (recipe_source r ''y_val'')) (\<lambda>fyv.
     res_bind (validate_split (ev_read_x env) (ev_read_y env) fxt fyt (recipe_source r ''x_train'') (recipe_source r ''y_train'')) (\<lambda>train.
     res_bind (validate_split (ev_read_x env) (ev_read_y env) fxv fyv (recipe_source r ''x_val'') (recipe_source r ''y_val'')) (\<lambda>validation.
     res_bind (build_reference_pool r q train validation) (\<lambda>(pool, p, g).
     res_bind (ev_fit_preprocessor env pool) (\<lambda>pre.
     res_bind (build_exact_model (ev_xgboost env) r) (\<lambda>ps.
     res_bind (ev_fit_model env ps pre pool) (\<lambda>model.
     res_bind (reference_bundle env r q pre model p g) (\<lambda>b.
     res_bind (reverify_retained_file (ev_retain env 6 (recipe_path env) ''Historical reference recipe'' ''.json'') (rr_retained r)
                 ''Historical reference recipe'') (\<lambda>_.
     res_bind (reverify_retained_file (ev_retain env 7 (ev_manifest_path env) ''Historical quarantine manifest'' ''.json'') qf
                 ''Historical quarantine manifest'') (\<lambda>_.
       ev_save env b (ev_project_root env @ out)))))))))))))))))))"

end
