(* ===== verification/Reference_Facts.thy ===== *)
theory Reference_Facts
  imports Reference_Pool Quarantine_Facts Policy_Facts
begin

text \<open>
  What the fitting pool of the historical reference is: the rows outside the quarantine, each once,
  in order of first occurrence, without contradictory labels and with an exact accounting.
\<close>

section \<open>Keep-first deduplication\<close>

text \<open>The reference: every element at its first occurrence.\<close>

definition keep_first :: "'a list \<Rightarrow> 'a list" where
  "keep_first xs = rev (remdups (rev xs))"

lemma set_keep_first [simp]: "set (keep_first xs) = set xs"
  by (simp add: keep_first_def)

lemma distinct_keep_first [simp]: "distinct (keep_first xs)"
  by (simp add: keep_first_def)

lemma remdups_append_filter: "remdups (xs @ ys) = remdups (filter (\<lambda>x. x \<notin> set ys) xs) @ remdups ys"
  by (induction xs) auto

lemma keep_first_append: "keep_first (xs @ ys) = keep_first xs @ keep_first (filter (\<lambda>y. y \<notin> set xs) ys)"
  by (simp add: keep_first_def remdups_append_filter rev_filter)

lemma keep_first_Cons: "keep_first (x # xs) = x # keep_first (filter (\<lambda>y. y \<noteq> x) xs)"
  using keep_first_append [of "[x]" xs] by (simp add: keep_first_def)

lemma select_rows_Cons [simp]:
  "select_rows [] rows = []" "select_rows (k # ks) (r # rows) = (if k then r # select_rows ks rows else select_rows ks rows)"
  by (simp_all add: select_rows_def)

lemma select_rows_subset: "set (select_rows ks rows) \<subseteq> set rows"
  by (auto simp: select_rows_def dest: set_zip_rightD)

lemma select_rows_map: "select_rows (map (P \<circ> f) rows) rows = filter (P \<circ> f) rows"
  by (induction rows) auto

lemma keep_train_spec:
  "keep_train seen (map f rows) = (ks, seen') \<Longrightarrow>
     seen' = seen \<union> f ` set rows \<and>
     map f (select_rows ks rows) = keep_first (filter (\<lambda>h. h \<notin> seen) (map f rows))"
proof (induction rows arbitrary: seen ks seen')
  case Nil
  then show ?case by (simp add: keep_first_def)
next
  case (Cons r rows)
  obtain ks0 where *: "keep_train (insert (f r) seen) (map f rows) = (ks0, seen')" "ks = (f r \<notin> seen) # ks0"
    using Cons.prems by (auto simp: Let_def split: prod.splits)
  have strip: "filter (\<lambda>y. y \<noteq> f r) (filter (\<lambda>h. h \<notin> seen) (map f rows)) = filter (\<lambda>h. h \<notin> insert (f r) seen) (map f rows)"
    by (auto simp: filter_filter intro: filter_cong)
  note IH = Cons.IH [OF *(1)]
  show ?case
  proof (cases "f r \<in> seen")
    case True
    then show ?thesis using IH by (simp add: *(2) insert_absorb)
  next
    case False
    then show ?thesis using IH unfolding list.map filter.simps *(2) by (simp add: keep_first_Cons strip del: filter_filter)
  qed
qed

lemma keep_validation_spec:
  "keep_validation train seen (map f rows) = (ks, c) \<Longrightarrow>
     map f (select_rows ks rows) = keep_first (filter (\<lambda>h. h \<notin> seen \<and> h \<notin> train) (map f rows)) \<and>
     c = int (card (f ` set rows \<inter> train - seen))"
proof (induction rows arbitrary: seen ks c)
  case Nil
  then show ?case by (simp add: keep_first_def)
next
  case (Cons r rows)
  let ?h = "f r"
  have strip: "filter (\<lambda>y. y \<noteq> ?h) (filter (\<lambda>h. h \<notin> seen \<and> h \<notin> train) (map f rows)) =
      filter (\<lambda>h. h \<notin> insert ?h seen \<and> h \<notin> train) (map f rows)"
    by (auto simp: filter_filter intro: filter_cong)
  show ?case
  proof (cases "?h \<in> seen")
    case True
    then obtain ks0 where *: "keep_validation train seen (map f rows) = (ks0, c)" "ks = False # ks0"
      using Cons.prems by (auto split: prod.splits)
    show ?thesis using Cons.IH [OF *(1)] True by (simp add: *(2) Diff_insert_absorb insert_Diff_if Int_insert_left)
  next
    case False
    define c' where "c' = (if ?h \<in> train then c - 1 else c)"
    obtain ks0 where *: "keep_validation train (insert ?h seen) (map f rows) = (ks0, c')" "ks = (?h \<notin> train) # ks0"
      using Cons.prems False by (auto simp: c'_def split: prod.splits if_splits)
    note IH = Cons.IH [OF *(1)]
    have "f ` set (r # rows) \<inter> train - seen =
        (if ?h \<in> train then insert ?h (f ` set rows \<inter> train - insert ?h seen) else f ` set rows \<inter> train - insert ?h seen)"
      using False by auto
    then have "c = int (card (f ` set (r # rows) \<inter> train - seen))" using IH by (auto simp: c'_def split: if_splits)
    moreover have "map f (select_rows ks (r # rows)) = keep_first (filter (\<lambda>h. h \<notin> seen \<and> h \<notin> train) (map f (r # rows)))"
      using IH False by (auto simp: *(2) keep_first_Cons strip intro!: arg_cong [where f = keep_first] filter_cong)
    ultimately show ?thesis by simp
  qed
qed

section \<open>The pool\<close>

lemma filter_quarantine_Inr:
  "filter_quarantine rows qs = Inr s \<longleftrightarrow>
     validate_rows rows = Inr () \<and> fs_frame s = filter (\<lambda>r. row_hash r \<notin> qs) rows \<and>
     fs_quarantine_occurrences_removed s = int (length (filter (\<lambda>r. row_hash r \<in> qs) rows))"
proof -
  have len: "int (length rows) - int (length (filter (\<lambda>r. row_hash r \<notin> qs) rows)) = int (length (filter (\<lambda>r. row_hash r \<in> qs) rows))"
    using sum_length_filter_compl [of "\<lambda>r. row_hash r \<in> qs" rows] by linarith
  have sel: "select_rows (map ((\<lambda>h. h \<notin> qs) \<circ> row_hash) rows) rows = filter (\<lambda>r. row_hash r \<notin> qs) rows"
    using select_rows_map [of "\<lambda>h. h \<notin> qs" row_hash rows] by (simp add: comp_def)
  show ?thesis
    by (cases s) (auto simp: filter_quarantine_def res_bind_Inr_iff canonical_row_hashes_Inr Let_def sel len)
qed

lemma deduplicate_Inr:
  assumes "deduplicate_final_fitting_pool train validation = Inr p"
  shows "map row_hash (fp_frame p) = keep_first (map row_hash (train @ validation)) \<and>
    set (fp_frame p) \<subseteq> set train \<union> set validation \<and>
    fp_cross_split_duplicate_rows_removed p = int (card (row_hash ` set train \<inter> row_hash ` set validation)) \<and>
    int (length train + length validation) = int (length (fp_frame p)) + fp_duplicate_rows_removed p"
proof -
  obtain tk seen vk c where *: "keep_train {} (map row_hash train) = (tk, seen)"
    "keep_validation seen {} (map row_hash validation) = (vk, c)"
    and p: "fp_frame p = select_rows tk train @ select_rows vk validation" "fp_cross_split_duplicate_rows_removed p = c"
      "fp_duplicate_rows_removed p = int (length train) + int (length validation) - int (length (fp_frame p))"
    using assms by (auto simp: deduplicate_final_fitting_pool_def res_bind_Inr_iff canonical_row_hashes_Inr Let_def split: prod.splits)
  note t = keep_train_spec [OF *(1)] and v = keep_validation_spec [OF *(2)]
  have "map row_hash (fp_frame p) = keep_first (map row_hash train) @ keep_first (filter (\<lambda>h. h \<notin> set (map row_hash train)) (map row_hash validation))"
    using t v by (simp add: p)
  then show ?thesis
    using t v select_rows_subset [of tk train] select_rows_subset [of vk validation]
    by (auto simp: p keep_first_append Int_commute)
qed

section \<open>Contradictory labels\<close>

definition consistent :: "(string, int) dict \<Rightarrow> (string \<times> int) list \<Rightarrow> bool" where
  "consistent seen ps \<longleftrightarrow> (\<forall>h a b. (h, a) \<in> set (seen @ ps) \<longrightarrow> (h, b) \<in> set (seen @ ps) \<longrightarrow> a = b)"

lemma consistent_Nil: "dict_ok seen \<Longrightarrow> consistent seen []"
  unfolding consistent_def by (auto intro: eq_key_imp_eq_value)

lemma check_labels_spec:
  assumes "dict_ok seen"
  shows "case check_labels seen ps of
      Inl _ \<Rightarrow> \<not> consistent seen ps
    | Inr seen' \<Rightarrow> consistent seen ps \<and> dict_ok seen' \<and> set seen' = set (seen @ ps)"
  using assms
proof (induction ps arbitrary: seen)
  case Nil
  then show ?case by (simp add: consistent_Nil)
next
  case (Cons p ps)
  obtain h a where p: "p = (h, a)" by (cases p)
  show ?case
  proof (cases "map_of seen h")
    case None
    then have "consistent (AList.update h a seen) ps = consistent seen (p # ps)"
      by (simp add: p consistent_def dict_update_fresh)
    moreover have "dict_ok (AList.update h a seen)" using dict_ok_snoc [OF Cons.prems None] by (simp add: dict_update_fresh [OF None])
    ultimately show ?thesis
      using Cons.IH [of "AList.update h a seen"] None by (simp add: p dict_update_fresh insert_commute split: sum.splits)
  next
    case (Some b)
    then have m: "(h, b) \<in> set seen" by (rule map_of_SomeD)
    show ?thesis
    proof (cases "b = a")
      case True
      then have *: "set (seen @ p # ps) = set (seen @ ps)" using m by (auto simp: p)
      have "consistent seen (p # ps) = consistent seen ps" unfolding consistent_def * by (rule refl)
      then show ?thesis using Cons.IH [OF Cons.prems] Some True m by (auto simp: p split: sum.splits)
    next
      case False
      then have "\<not> consistent seen (p # ps)" using m by (auto simp: p consistent_def)
      then show ?thesis using Some False by (simp add: p)
    qed
  qed
qed

definition labelled_hashes :: "data_frame \<Rightarrow> (string \<times> int) list" where
  "labelled_hashes rows = map (\<lambda>r. (feature_hash r, dr_label r)) rows"

lemma zip_labelled: "zip (feature_only_hashes rows) (map dr_label rows) = labelled_hashes rows"
  by (induction rows) (auto simp: feature_only_hashes_def labelled_hashes_def)

lemma consistent_set: "set (s @ p) = set (s' @ p') \<Longrightarrow> consistent s p = consistent s' p'"
  by (simp only: consistent_def)

lemma check_frames_spec:
  assumes "dict_ok seen"
  shows "(\<exists>seen'. check_frames seen frames = Inr seen') \<longleftrightarrow> consistent seen (labelled_hashes (concat frames))"
  using assms
proof (induction frames arbitrary: seen)
  case Nil
  then show ?case by (simp add: labelled_hashes_def consistent_Nil)
next
  case (Cons rows frames)
  have app: "labelled_hashes (rows @ xs) = labelled_hashes rows @ labelled_hashes xs" for xs by (simp add: labelled_hashes_def)
  show ?case
  proof (cases "check_labels seen (labelled_hashes rows)")
    case (Inl e)
    then have "\<not> consistent seen (labelled_hashes rows)" using check_labels_spec [OF Cons.prems, of "labelled_hashes rows"] by simp
    then have "\<not> consistent seen (labelled_hashes (concat (rows # frames)))" unfolding consistent_def by (auto simp: app) 
    then show ?thesis by (simp add: zip_labelled Inl)
  next
    case (Inr seen')
    then have *: "dict_ok seen'" "set seen' = set (seen @ labelled_hashes rows)"
      using check_labels_spec [OF Cons.prems, of "labelled_hashes rows"] by simp_all
    have "consistent seen' (labelled_hashes (concat frames)) = consistent seen (labelled_hashes (concat (rows # frames)))"
      by (rule consistent_set) (auto simp: * app)
    then show ?thesis using Cons.IH [OF *(1)] by (simp add: zip_labelled Inr)
  qed
qed

definition contradictory :: "data_frame \<Rightarrow> bool" where
  "contradictory rows \<longleftrightarrow> (\<exists>r s. r \<in> set rows \<and> s \<in> set rows \<and> dr_features r = dr_features s \<and> dr_label r \<noteq> dr_label s)"

lemma labelled_unique:
  "(\<forall>h a b. (h, a) \<in> (\<lambda>r. (f r, g r)) ` S \<longrightarrow> (h, b) \<in> (\<lambda>r. (f r, g r)) ` S \<longrightarrow> a = b) \<longleftrightarrow>
     (\<forall>r \<in> S. \<forall>s \<in> S. f r = f s \<longrightarrow> g r = g s)"
proof
  assume *: "\<forall>h a b. (h, a) \<in> (\<lambda>r. (f r, g r)) ` S \<longrightarrow> (h, b) \<in> (\<lambda>r. (f r, g r)) ` S \<longrightarrow> a = b"
  show "\<forall>r \<in> S. \<forall>s \<in> S. f r = f s \<longrightarrow> g r = g s"
  proof (intro ballI impI)
    fix r s assume "r \<in> S" "s \<in> S" "f r = f s"
    then have "(f r, g r) \<in> (\<lambda>r. (f r, g r)) ` S \<and> (f r, g s) \<in> (\<lambda>r. (f r, g r)) ` S" by (metis (no_types, lifting) image_eqI)
    with * show "g r = g s" by blast
  qed
next
  assume "\<forall>r \<in> S. \<forall>s \<in> S. f r = f s \<longrightarrow> g r = g s"
  then show "\<forall>h a b. (h, a) \<in> (\<lambda>r. (f r, g r)) ` S \<longrightarrow> (h, b) \<in> (\<lambda>r. (f r, g r)) ` S \<longrightarrow> a = b"
    unfolding image_iff prod.inject by metis
qed

lemma reject_iff:
  "reject_feature_label_conflicts frames = Inr () \<longleftrightarrow>
     (\<forall>r \<in> set (concat frames). \<forall>s \<in> set (concat frames). feature_hash r = feature_hash s \<longrightarrow> dr_label r = dr_label s)"
proof -
  have "reject_feature_label_conflicts frames = Inr () \<longleftrightarrow> (\<exists>seen'. check_frames [] frames = Inr seen')"
    by (auto simp: reject_feature_label_conflicts_def res_bind_Inr_iff)
  also have "\<dots> = consistent [] (labelled_hashes (concat frames))" by (rule check_frames_spec) simp
  also have "\<dots> = (\<forall>r \<in> set (concat frames). \<forall>s \<in> set (concat frames). feature_hash r = feature_hash s \<longrightarrow> dr_label r = dr_label s)"
    unfolding consistent_def labelled_hashes_def append_Nil set_map by (rule labelled_unique)
  finally show ?thesis .
qed

lemma same_features_hash: "dr_features r = dr_features s \<Longrightarrow> feature_hash r = feature_hash s"
  by (simp add: feature_hash_def feature_bytes_def)

lemma reject_consistent: "reject_feature_label_conflicts frames = Inr () \<Longrightarrow> \<not> contradictory (concat frames)"
  unfolding reject_iff contradictory_def using same_features_hash by metis

lemma feature_hash_inject:
  assumes "feature_hash r = feature_hash s" and "length (dr_features r) = length (dr_features s)"
    and "feature_bytes r = feature_bytes s \<or> sha256_hex (feature_bytes r) \<noteq> sha256_hex (feature_bytes s)"
  shows "dr_features r = dr_features s"
proof -
  have "feature_bytes r = feature_bytes s" using assms(1,3) by (auto simp: feature_hash_def)
  then have "concat (map f64_bytes (dr_features r)) = concat (map f64_bytes (dr_features s))" by (simp add: feature_bytes_def)
  then show ?thesis using assms(2) by (rule_tac concat_map_inject [of f64_bytes]) auto
qed

section \<open>Properties\<close>

text \<open>
  C34. The conflict check is exact: what passes has no feature vector, compared bit for bit, that
  carries both labels; and if frames without one are refused, two of their rows with different
  labels have different feature bytes with one SHA-256 digest.
\<close>

theorem conflict_check_is_exact:
  assumes "canonical_frame (concat frames)"
  shows "(reject_feature_label_conflicts frames = Inr () \<longrightarrow> \<not> contradictory (concat frames)) \<and>
    (\<not> contradictory (concat frames) \<longrightarrow> reject_feature_label_conflicts frames = Inr () \<or>
      (\<exists>r \<in> set (concat frames). \<exists>s \<in> set (concat frames). dr_label r \<noteq> dr_label s \<and>
         feature_bytes r \<noteq> feature_bytes s \<and> sha256_hex (feature_bytes r) = sha256_hex (feature_bytes s)))"
proof (intro conjI impI)
  assume "reject_feature_label_conflicts frames = Inr ()"
  then show "\<not> contradictory (concat frames)" by (rule reject_consistent)
next
  assume *: "\<not> contradictory (concat frames)"
  have len: "length (dr_features r) = length (dr_features s)" if "r \<in> set (concat frames)" "s \<in> set (concat frames)" for r s
    using that assms unfolding canonical_frame_def list_all_iff by metis
  show "reject_feature_label_conflicts frames = Inr () \<or>
      (\<exists>r \<in> set (concat frames). \<exists>s \<in> set (concat frames). dr_label r \<noteq> dr_label s \<and>
         feature_bytes r \<noteq> feature_bytes s \<and> sha256_hex (feature_bytes r) = sha256_hex (feature_bytes s))"
    using * feature_hash_inject len unfolding contradictory_def reject_iff feature_hash_def by metis
qed

theorem conflict_check_is_exact_witness:
  "reject_feature_label_conflicts [[sample_row 0 0], [sample_row 5 1, sample_row 0 1]] \<noteq> Inr () \<and>
   reject_feature_label_conflicts [[sample_row 5 1], [sample_row 5 1]] = Inr ()"
proof
  have c: "canonical_frame (concat [[sample_row 0 0], [sample_row 5 1, sample_row 0 1]])"
    by (simp add: canonical_frame_def sample_row_def)
  have "contradictory (concat [[sample_row 0 0], [sample_row 5 1, sample_row 0 1]])"
    unfolding contradictory_def by (intro exI [of _ "sample_row 0 0"] exI [of _ "sample_row 0 1"]) (simp add: sample_row_def)
  then show "reject_feature_label_conflicts [[sample_row 0 0], [sample_row 5 1, sample_row 0 1]] \<noteq> Inr ()"
    using conflict_check_is_exact [OF c] by blast
  have c: "canonical_frame (concat [[sample_row 5 1], [sample_row 5 1]])" by (simp add: canonical_frame_def sample_row_def)
  show "reject_feature_label_conflicts [[sample_row 5 1], [sample_row 5 1]] = Inr ()"
    using conflict_check_is_exact [OF c] by (auto simp: contradictory_def)
qed

lemma distinct_features:
  assumes "distinct (map row_hash rows)" and "\<not> contradictory rows"
  shows "distinct (map dr_features rows)"
proof -
  have "distinct rows" using assms(1) by (simp add: distinct_map)
  moreover have "inj_on dr_features (set rows)"
  proof (rule inj_onI)
    fix r s assume *: "r \<in> set rows" "s \<in> set rows" "dr_features r = dr_features s"
    then have "dr_label r = dr_label s" using assms(2) unfolding contradictory_def by blast
    with *(3) show "r = s" by simp
  qed
  ultimately show ?thesis by (simp add: distinct_map)
qed

lemma filter_map_hash: "filter (\<lambda>h. h \<notin> qs) (map row_hash rows) = map row_hash (filter (\<lambda>r. row_hash r \<notin> qs) rows)"
  by (simp add: filter_map comp_def)

lemma build_reference_pool_Inr:
  assumes "build_reference_pool r q train validation = Inr (pool, p, g)"
  obtains t v final where "\<not> contradictory (train @ validation)"
    "filter_quarantine train (tq_row_hashes q) = Inr t" "filter_quarantine validation (tq_row_hashes q) = Inr v"
    "deduplicate_final_fitting_pool (fs_frame t) (fs_frame v) = Inr final" "pool = fp_frame final" "pool_identity pool = Inr p"
    "fe_quarantine_occurrences_removed g = fs_quarantine_occurrences_removed t + fs_quarantine_occurrences_removed v"
    "fe_duplicate_rows_removed g = fp_duplicate_rows_removed final"
    "fe_cross_split_duplicate_rows_removed g = fp_cross_split_duplicate_rows_removed final"
proof -
  obtain t v final p' hs where *: "reject_feature_label_conflicts [train, validation] = Inr ()"
    "filter_quarantine train (tq_row_hashes q) = Inr t" "filter_quarantine validation (tq_row_hashes q) = Inr v"
    "deduplicate_final_fitting_pool (fs_frame t) (fs_frame v) = Inr final" "pool_identity (fp_frame final) = Inr p'"
    "canonical_row_hashes (fp_frame final) = Inr hs"
    using assms unfolding build_reference_pool_def res_bind_Inr_iff Let_def by (elim exE conjE) (rule that, simp_all)
  have "\<not> contradictory (train @ validation)" using reject_consistent [OF *(1)] by simp
  moreover have "pool = fp_frame final" "p = p'" "g = \<lparr>fe_quarantine_occurrences_removed = fs_quarantine_occurrences_removed t + fs_quarantine_occurrences_removed v,
      fe_duplicate_rows_removed = fp_duplicate_rows_removed final,
      fe_cross_split_duplicate_rows_removed = fp_cross_split_duplicate_rows_removed final, fe_feature_label_conflicts = 0\<rparr>"
    using assms by (simp_all add: build_reference_pool_def * Let_def split: if_splits)
  ultimately show thesis using * by (intro that [of t v final]) simp_all
qed

text \<open>
  C33. The fitting pool of the historical reference is exactly what the recipe promises: the
  rows outside the quarantine at their first occurrence, training before validation. No
  quarantined row is in it, no feature vector occurs twice, every input row is in the pool, in
  the quarantine or a removed duplicate, and the recorded identity is the pool's.
\<close>

theorem reference_pool_is_exact:
  assumes "build_reference_pool r q train validation = Inr (pool, p, g)"
  shows "map row_hash pool = keep_first (filter (\<lambda>h. h \<notin> tq_row_hashes q) (map row_hash (train @ validation))) \<and>
    set pool \<subseteq> set train \<union> set validation \<and> distinct (map dr_features pool) \<and>
    int (length (train @ validation)) = pe_total_row_count p + fe_quarantine_occurrences_removed g + fe_duplicate_rows_removed g \<and>
    fe_cross_split_duplicate_rows_removed g = int (card (row_hash ` set train \<inter> row_hash ` set validation - tq_row_hashes q)) \<and>
    pe_total_row_count p = int (length pool) \<and> pe_fraud_row_count p = sum_list (map dr_label pool) \<and> pe_duplicate_row_count p = 0 \<and>
    row_hashes_checksum (map row_hash pool) = Inr (pe_row_hashes_sha256 p)"
proof -
  obtain t v final where ok: "\<not> contradictory (train @ validation)"
    and f: "filter_quarantine train (tq_row_hashes q) = Inr t" "filter_quarantine validation (tq_row_hashes q) = Inr v"
    and d: "deduplicate_final_fitting_pool (fs_frame t) (fs_frame v) = Inr final" "pool = fp_frame final"
    and p: "pool_identity pool = Inr p"
    and g: "fe_quarantine_occurrences_removed g = fs_quarantine_occurrences_removed t + fs_quarantine_occurrences_removed v"
      "fe_duplicate_rows_removed g = fp_duplicate_rows_removed final"
      "fe_cross_split_duplicate_rows_removed g = fp_cross_split_duplicate_rows_removed final"
    using assms by (rule build_reference_pool_Inr)
  note f' = f [unfolded filter_quarantine_Inr] and d' = deduplicate_Inr [OF d(1)]
  have hs: "map row_hash pool = keep_first (filter (\<lambda>h. h \<notin> tq_row_hashes q) (map row_hash (train @ validation)))"
    using d' f' by (simp add: d(2) filter_map_hash)
  have sub: "set pool \<subseteq> set train \<union> set validation" using d' f' by (auto simp: d(2))
  have dist: "distinct (map row_hash pool)" by (simp add: hs)
  have "\<not> contradictory pool" using ok sub by (auto simp: contradictory_def)
  then have feat: "distinct (map dr_features pool)" using dist by (rule_tac distinct_features)
  have id: "pe_total_row_count p = int (length pool)" "pe_fraud_row_count p = sum_list (map dr_label pool)"
    "pe_duplicate_row_count p = int (length pool) - int (card (set (map row_hash pool)))"
    "row_hashes_checksum (map row_hash pool) = Inr (pe_row_hashes_sha256 p)"
    using p by (auto simp: pool_identity_def res_bind_Inr_iff canonical_row_hashes_Inr Let_def)
  have dup: "pe_duplicate_row_count p = 0" using id(3) distinct_card [OF dist] by simp
  have acc: "int (length (train @ validation)) = pe_total_row_count p + fe_quarantine_occurrences_removed g + fe_duplicate_rows_removed g"
    using d' f' sum_length_filter_compl [of "\<lambda>r. row_hash r \<in> tq_row_hashes q" train]
      sum_length_filter_compl [of "\<lambda>r. row_hash r \<in> tq_row_hashes q" validation] by (simp add: g id(1) d(2))
  have "row_hash ` set (fs_frame t) \<inter> row_hash ` set (fs_frame v) = row_hash ` set train \<inter> row_hash ` set validation - tq_row_hashes q"
    using f' by (auto simp: image_iff)
  then show ?thesis using hs sub feat acc id dup d' g(3) by simp
qed

lemma sample_pool_rows:
  "validate_rows [sample_row 0 0] = Inr ()" "validate_rows [sample_row 0 0, sample_row 0 0] = Inr ()"
  by code_simp+

definition sample_filtering :: filtering_expectation where
  "sample_filtering = \<lparr>fe_quarantine_occurrences_removed = 0, fe_duplicate_rows_removed = 2,
     fe_cross_split_duplicate_rows_removed = 1, fe_feature_label_conflicts = 0\<rparr>"

lemma sample_deduplicated:
  "deduplicate_final_fitting_pool [sample_row 0 0, sample_row 0 0] [sample_row 0 0] =
     Inr \<lparr>fp_frame = [sample_row 0 0], fp_duplicate_rows_removed = 2, fp_cross_split_duplicate_rows_removed = 1\<rparr>"
  by (simp add: deduplicate_final_fitting_pool_def canonical_row_hashes_def sample_pool_rows)

lemma sample_filtered:
  "tq_row_hashes q = {} \<Longrightarrow> validate_rows rows = Inr () \<Longrightarrow>
     filter_quarantine rows (tq_row_hashes q) = Inr \<lparr>fs_frame = rows, fs_quarantine_occurrences_removed = 0\<rparr>"
  by (simp add: filter_quarantine_Inr)

lemma sample_pool_builds:
  assumes q: "tq_row_hashes q = {}" and p: "pool_identity [sample_row 0 0] = Inr p"
    and r: "rr_pool r = p" "rr_filtering r = sample_filtering" "rr_expected_cross_split_duplicate_count r = 1"
  shows "build_reference_pool r q [sample_row 0 0, sample_row 0 0] [sample_row 0 0] = Inr ([sample_row 0 0], p, sample_filtering)"
proof -
  have "reject_feature_label_conflicts [[sample_row 0 0, sample_row 0 0], [sample_row 0 0]] = Inr ()"
    unfolding reject_iff by simp
  then show ?thesis
    using sample_filtered [OF q sample_pool_rows(1)] sample_filtered [OF q sample_pool_rows(2)] q
    by (simp add: build_reference_pool_def sample_deduplicated p r canonical_row_hashes_def sample_pool_rows sample_filtering_def)
qed

theorem reference_pool_is_exact_witness:
  "\<exists>r q p g. build_reference_pool r q [sample_row 0 0, sample_row 0 0] [sample_row 0 0] = Inr ([sample_row 0 0], p, g) \<and>
     tq_row_hashes q = {} \<and> map row_hash [sample_row 0 0] = keep_first (map row_hash [sample_row 0 0, sample_row 0 0, sample_row 0 0]) \<and>
     3 = pe_total_row_count p + fe_quarantine_occurrences_removed g + fe_duplicate_rows_removed g"
proof -
  obtain q :: test_quarantine where q: "tq_row_hashes q = {}" by (metis (full_types) test_quarantine.select_convs(1))
  obtain p where p: "pool_identity [sample_row 0 0] = Inr p"
    using row_hashes_checksum_ok [OF all_sha_row_hashes, of "[sample_row 0 0]"]
    by (auto simp: pool_identity_def canonical_row_hashes_def sample_pool_rows Let_def)
  obtain r :: reference_recipe where r: "rr_pool r = p" "rr_filtering r = sample_filtering" "rr_expected_cross_split_duplicate_count r = 1"
    by (rule that [of "undefined\<lparr>rr_pool := p, rr_filtering := sample_filtering, rr_expected_cross_split_duplicate_count := 1\<rparr>"]) simp_all
  note b = sample_pool_builds [OF q p r]
  show ?thesis using b q reference_pool_is_exact [OF b] by (intro exI [of _ r] exI [of _ q] exI [of _ p] exI [of _ sample_filtering]) simp
qed

end
