(* ===== verification/Bundle_Scoring.thy ===== *)
theory Bundle_Scoring
  imports Model_Bundle
begin

text \<open>
  \<open>src/src/inference/batch_scoring.py\<close>, the feature checks of
  \<open>src/src/preprocessing/preprocessors.py\<close> it relies on, and the golden probe of
  \<open>src/src/artifacts/bundle.py\<close>. What a fitted object computes is scikit-learn or XGBoost: the
  functions of a \<open>library\<close>, on payloads of any type.
\<close>

section \<open>Fitted objects\<close>

text \<open>\<open>np.asarray(output, dtype=float)\<close>: a matrix with its number of columns, or another shape.\<close>

datatype float_array = Matrix nat "pyfloat list list" | Other_Rank

record feature_frame =
  ff_columns :: "string list"
  ff_numeric :: "bool list"
  ff_rows :: "pyfloat list list"

record ('p, 'x) library =
  lib_load :: "string \<Rightarrow> py_exc + 'p"
  lib_type :: "'p \<Rightarrow> string"
  lib_attributes :: "'p \<Rightarrow> estimator"
  lib_transform :: "'p \<Rightarrow> feature_frame \<Rightarrow> py_exc + 'x"
  lib_predict_proba :: "'p \<Rightarrow> 'x \<Rightarrow> py_exc + float_array"
  lib_calibrator_proba :: "'p \<Rightarrow> pyfloat list \<Rightarrow> py_exc + float_array"
  lib_calibrator_predict :: "'p \<Rightarrow> pyfloat list \<Rightarrow> py_exc + pyfloat list"

record 'p payloads =
  py_preprocessor :: 'p
  py_model :: 'p
  py_calibrator :: "'p option"

section \<open>Features\<close>

definition column_index :: "feature_frame \<Rightarrow> string \<Rightarrow> py_exc + nat" where
  "column_index f c = (case map_of (zip (ff_columns f) [0..<length (ff_columns f)]) c of None \<Rightarrow> Inl (KeyError c) | Some i \<Rightarrow> Inr i)"

definition missing_in :: "feature_frame \<Rightarrow> string list \<Rightarrow> (string \<times> nat) list" where
  "missing_in f expected =
     filter (\<lambda>p. snd p \<noteq> 0) (map (\<lambda>(i, c). (c, length (filter (\<lambda>r. r ! i = NaN) (ff_rows f)))) (zip [0..<length expected] expected))"

definition validate_features_for_preprocessing :: "feature_frame \<Rightarrow> string list \<Rightarrow> py_exc + unit" where
  "validate_features_for_preprocessing f expected =
     (let missing = filter (\<lambda>c. c \<notin> set (ff_columns f)) expected; extra = filter (\<lambda>c. c \<notin> set expected) (ff_columns f);
          non_numeric = map snd (filter (\<lambda>p. \<not> fst p) (zip (ff_numeric f) expected))
      in if ff_columns f = [] \<or> ff_rows f = [] then Inl (ValueError ''Input feature DataFrame X is empty.'')
         else if missing \<noteq> [] then Inl (ValueError (''Input feature DataFrame is missing expected columns: '' @ repr_str_list missing))
         else if extra \<noteq> [] then Inl (ValueError (''Input feature DataFrame contains unexpected columns: '' @ repr_str_list extra))
         else if ff_columns f \<noteq> expected then
           Inl (ValueError (''Input features are not in canonical order. Expected '' @ repr_str_list expected @ ''; found '' @
             repr_str_list (ff_columns f) @ ''.''))
         else if TARGET_COLUMN \<in> set (ff_columns f) then
           Inl (ValueError (''Target column '' @ repr_str TARGET_COLUMN @
             '' must not be present in the feature DataFrame used for preprocessing.''))
         else if \<not> distinct (ff_columns f) then Inl (ValueError ''Input feature DataFrame contains duplicate column names.'')
         else if non_numeric \<noteq> [] then
           Inl (ValueError (''Expected columns must be numeric. Non-numeric columns found: '' @ repr_str_list non_numeric))
         else if missing_in f expected \<noteq> [] then
           Inl (ValueError (''Expected columns must contain no missing values. Found: '' @ repr_counts (missing_in f expected)))
         else if list_ex (\<lambda>r. list_ex (\<lambda>x. \<not> is_finite x) r) (ff_rows f) then
           Inl (ValueError ''Expected columns must contain only finite numeric values.'')
         else
           res_bind (column_index f ''Time'') (\<lambda>i.
             if list_ex (\<lambda>r. flt (r ! i) (Fin 0)) (ff_rows f) then Inl (ValueError ''Time values must be non-negative.'')
             else
               res_bind (column_index f ''Amount'') (\<lambda>j.
                 if list_ex (\<lambda>r. flt (r ! j) (Fin 0)) (ff_rows f) then Inl (ValueError ''Amount values must be non-negative.'')
                 else Inr ())))"

section \<open>Scores\<close>

definition score_integrity_error :: "string \<Rightarrow> py_exc" where
  "score_integrity_error = PyError ''ScoreIntegrityError''"

definition outside_unit :: "pyfloat \<Rightarrow> bool" where
  "outside_unit x = (flt x (Fin 0) \<or> flt (Fin 1) x)"

definition positive_scores :: "estimator \<Rightarrow> float_array \<Rightarrow> py_exc + pyfloat list" where
  "positive_scores e out =
     (case out of
        Matrix w rows \<Rightarrow>
          if w \<noteq> 2 then Inl (score_integrity_error ''Model predict_proba output must have two columns.'')
          else
            res_bind (positive_class_index e ''model'') (\<lambda>i.
              let scores = map (\<lambda>r. r ! nat i) rows
              in if list_ex (\<lambda>x. \<not> is_finite x \<or> outside_unit x) scores then
                   Inl (score_integrity_error ''Model produced an invalid raw score.'')
                 else Inr scores)
      | Other_Rank \<Rightarrow> Inl (score_integrity_error ''Model predict_proba output must have two columns.''))"

definition checked_calibration :: "pyfloat list \<Rightarrow> pyfloat list \<Rightarrow> py_exc + pyfloat list" where
  "checked_calibration raw_scores calibrated =
     (if length calibrated \<noteq> length raw_scores \<or> \<not> list_all is_finite calibrated then
        Inl (score_integrity_error ''Calibrator produced malformed output.'')
      else if list_ex outside_unit calibrated then Inl (score_integrity_error ''Calibrator output must be in [0, 1].'')
      else Inr calibrated)"

definition calibrate :: "('p, 'x) library \<Rightarrow> 'p \<Rightarrow> pyfloat list \<Rightarrow> py_exc + pyfloat list" where
  "calibrate lib c raw_scores =
     (if es_predict_proba (lib_attributes lib c) then
        res_bind (lib_calibrator_proba lib c raw_scores) (\<lambda>out.
          case out of
            Matrix w rows \<Rightarrow>
              if w \<noteq> 2 then Inl (score_integrity_error ''Calibrator predict_proba output must have two columns.'')
              else res_bind (positive_class_index (lib_attributes lib c) ''calibrator'') (\<lambda>i.
                checked_calibration raw_scores (map (\<lambda>r. r ! nat i) rows))
          | Other_Rank \<Rightarrow> Inl (score_integrity_error ''Calibrator predict_proba output must have two columns.''))
      else res_bind (lib_calibrator_predict lib c raw_scores) (checked_calibration raw_scores))"

record bundle_scores =
  bs_raw_scores :: "pyfloat list"
  bs_calibrated :: "pyfloat list option"
  bs_decision_scores :: "pyfloat list"

text \<open>\<open>valid\<close> is the outcome of \<open>bundle.validate()\<close>.\<close>

definition score_bundle_frame :: "('p, 'x) library \<Rightarrow> py_exc + unit \<Rightarrow> string list \<Rightarrow> 'p payloads \<Rightarrow> feature_frame \<Rightarrow> py_exc + bundle_scores" where
  "score_bundle_frame lib valid schema b frame =
     res_bind valid (\<lambda>_.
       if ff_columns frame = [] \<or> ff_rows frame = [] then Inl (ValueError ''At least one transaction is required.'')
       else
         res_bind (validate_features_for_preprocessing frame schema) (\<lambda>_.
         res_bind (lib_transform lib (py_preprocessor b) frame) (\<lambda>x.
         res_bind (lib_predict_proba lib (py_model b) x) (\<lambda>out.
         res_bind (positive_scores (lib_attributes lib (py_model b)) out) (\<lambda>raw.
           if length raw \<noteq> length (ff_rows frame) then
             Inl (score_integrity_error ''Model score count does not match the input row count.'')
           else
             res_bind (case py_calibrator b of None \<Rightarrow> Inr None | Some c \<Rightarrow> res_bind (calibrate lib c raw) (\<lambda>y. Inr (Some y))) (\<lambda>cal.
               Inr \<lparr>bs_raw_scores = raw, bs_calibrated = cal, bs_decision_scores = (case cal of None \<Rightarrow> raw | Some y \<Rightarrow> y)\<rparr>))))))"

section \<open>Golden probe\<close>

definition GOLDEN_PROBE_TOLERANCE :: pyfloat where "GOLDEN_PROBE_TOLERANCE = fl (1 / 10 ^ 12)"

definition golden_values :: "(string \<times> pyfloat) list" where
  "golden_values = map (\<lambda>c. (c, Fin (if c = ''Amount'' then 1 else 0))) ALL_FEATURES"

definition canonical_golden_frame :: feature_frame where
  "canonical_golden_frame =
     \<lparr>ff_columns = ALL_FEATURES, ff_numeric = map (\<lambda>_. True) ALL_FEATURES, ff_rows = [map snd golden_values]\<rparr>"

definition golden_features :: pyval where
  "golden_features = PDict (map (\<lambda>(c, x). (c, PFloat x)) golden_values)"

text \<open>The first element of the score array of the one golden row.\<close>

definition first_score :: "pyfloat list \<Rightarrow> pyval" where
  "first_score xs = PFloat (hd xs)"

definition golden_probe ::
  "('p, 'x) library \<Rightarrow> (pyval \<Rightarrow> py_exc + bool) \<Rightarrow> py_exc + (string, pyval) dict \<Rightarrow> model_bundle \<Rightarrow> 'p payloads \<Rightarrow>
   py_exc + (string, pyval) dict" where
  "golden_probe lib isfinite policies b ps =
     res_bind (score_bundle_frame lib (validate_bundle isfinite policies b) (mb_feature_schema b) ps canonical_golden_frame) (\<lambda>s.
       let probe = [(''calibrated_probability'', case bs_calibrated s of None \<Rightarrow> PNone | Some y \<Rightarrow> first_score y),
                    (''decision_score'', first_score (bs_decision_scores s)), (''features'', golden_features),
                    (''raw_score'', first_score (bs_raw_scores s)), (''tolerance'', PFloat GOLDEN_PROBE_TOLERANCE)]
       in res_bind (canonical_json_sha256 (PDict probe)) (\<lambda>h. Inr (probe @ [(''sha256'', PStr h)])))"

definition artifact_error :: "string \<Rightarrow> py_exc" where
  "artifact_error = PyError ''ArtifactVerificationError''"

definition is_artifact_error :: "py_exc \<Rightarrow> bool" where
  "is_artifact_error e = (case e of PyError n _ \<Rightarrow> n = ''ArtifactVerificationError'' | _ \<Rightarrow> False)"

text \<open>Every other exception of the probe becomes an \<open>ArtifactVerificationError\<close>.\<close>

definition probed :: "py_exc + 'a \<Rightarrow> py_exc + 'a" where
  "probed r =
     (case r of
        Inl e \<Rightarrow> Inl (if is_artifact_error e then e else artifact_error ''Bundle runtime compatibility probe failed.'')
      | Inr x \<Rightarrow> Inr x)"

definition probe_bundle_runtime ::
  "('p, 'x) library \<Rightarrow> (pyval \<Rightarrow> py_exc + bool) \<Rightarrow> py_exc + (string, pyval) dict \<Rightarrow> model_bundle \<Rightarrow> 'p payloads \<Rightarrow> py_exc + unit" where
  "probe_bundle_runtime lib isfinite policies b ps = res_bind (probed (golden_probe lib isfinite policies b ps)) (\<lambda>_. Inr ())"

text \<open>\<open>np.isclose(x, y, rtol=0.0, atol=GOLDEN_PROBE_TOLERANCE)\<close>.\<close>

definition isclose :: "pyfloat \<Rightarrow> pyfloat \<Rightarrow> bool" where
  "isclose x y = ((is_finite y \<and> fle (fabs (fsub x y)) GOLDEN_PROBE_TOLERANCE) \<or> feq x y)"

definition compare_scores :: "(string, pyval) dict \<Rightarrow> (string, pyval) dict \<Rightarrow> string \<Rightarrow> string \<Rightarrow> py_exc + unit" where
  "compare_scores actual expected key message =
     res_bind (py_float (py_get actual key)) (\<lambda>x.
     res_bind (py_float (py_get expected key)) (\<lambda>y.
       if isclose x y then Inr () else Inl (artifact_error message)))"

definition verify_bundle_golden_probe ::
  "('p, 'x) library \<Rightarrow> (pyval \<Rightarrow> py_exc + bool) \<Rightarrow> py_exc + (string, pyval) dict \<Rightarrow> model_bundle \<Rightarrow> 'p payloads \<Rightarrow>
   (string, pyval) dict \<Rightarrow> py_exc + unit" where
  "verify_bundle_golden_probe lib isfinite policies b ps expected =
     res_bind (probed (golden_probe lib isfinite policies b ps)) (\<lambda>actual.
     res_bind (compare_scores actual expected ''raw_score'' ''Bundle golden probe mismatch for raw_score.'') (\<lambda>_.
     res_bind (compare_scores actual expected ''decision_score'' ''Bundle golden probe mismatch for decision_score.'') (\<lambda>_.
       if (py_get actual ''calibrated_probability'' = PNone) \<noteq> (py_get expected ''calibrated_probability'' = PNone) then
         Inl (artifact_error ''Bundle golden calibration semantics mismatch.'')
       else if py_get actual ''calibrated_probability'' \<noteq> PNone then
         compare_scores actual expected ''calibrated_probability'' ''Bundle golden calibrated probability mismatch.''
       else Inr ())))"

end
