(* ===== verification/Bundle_Loader.thy ===== *)
theory Bundle_Loader
  imports Bundle_Scoring Fs_Tree
begin

text \<open>
  Reading model bundles and single joblib artifacts in \<open>src/src/artifacts/bundle.py\<close>: the walk
  below a trusted root, the reading of one file, the validation of the manifest, and the loaders.
  Deserialisation runs code, so a loader answers with the list of byte strings it handed to
  \<open>joblib.load\<close> (the argument \<open>lib_load\<close>) beside its result.
\<close>

section \<open>Trusted paths\<close>

definition trusted_relative_parts ::
  "(string \<Rightarrow> py_path option) \<Rightarrow> string list \<Rightarrow> string \<Rightarrow> string \<Rightarrow> py_exc + py_path \<times> string list" where
  "trusted_relative_parts home cwd path trusted_root =
     res_bind (expanduser home (parse_path trusted_root)) (\<lambda>expanded_root.
     res_bind (expanduser home (parse_path path)) (\<lambda>candidate_input.
       let root = abspath cwd expanded_root;
           working = abspath cwd candidate_input;
           candidate = (if pp_root candidate_input \<noteq> [] \<or> relative_to working root \<noteq> None then working
                        else root\<lparr>pp_parts := pp_parts root @ pp_parts candidate_input\<rparr>)
       in case relative_to candidate root of
            None \<Rightarrow> Inl (artifact_error (''Artifact path '' @ [CHR 0x27] @ path_str candidate @ [CHR 0x27] @ '' is outside trusted root '' @
                      [CHR 0x27] @ path_str root @ [CHR 0x27] @ ''.''))
          | Some parts \<Rightarrow>
              if parts = [] \<or> \<not> list_all plain_part parts then Inl (artifact_error ''Artifact path is malformed.'')
              else Inr (root, parts)))"

definition untrusted_component :: "string \<Rightarrow> py_exc" where
  "untrusted_component name =
     artifact_error (''Trusted path contains a missing, non-directory, or symbolic-link component: '' @ name @ ''.'')"

fun open_components :: "fs_node \<Rightarrow> string list \<Rightarrow> py_exc + fs_node" where
  "open_components d [] = Inr d"
| "open_components d (p # ps) =
     (case open_directory d p of None \<Rightarrow> Inl (untrusted_component p) | Some d' \<Rightarrow> open_components d' ps)"

text \<open>
  \<open>open_root\<close> is what opening the absolute path of the root with \<open>O_DIRECTORY | O_NOFOLLOW\<close> gives:
  \<^const>\<open>None\<close> unless it is a directory and no link.
\<close>

definition open_trusted_parent ::
  "(string \<Rightarrow> py_path option) \<Rightarrow> string list \<Rightarrow> (string \<Rightarrow> fs_node option) \<Rightarrow> string \<Rightarrow> string \<Rightarrow> py_exc + fs_node \<times> string" where
  "open_trusted_parent home cwd open_root path trusted_root =
     res_bind (trusted_relative_parts home cwd path trusted_root) (\<lambda>(root, parts).
       case open_root (path_str root) of
         None \<Rightarrow> Inl (untrusted_component (path_str root))
       | Some d \<Rightarrow> res_bind (open_components d (butlast parts)) (\<lambda>parent. Inr (parent, last parts)))"

definition read_regular_file_at :: "fs_node \<Rightarrow> string \<Rightarrow> string \<Rightarrow> py_exc + string" where
  "read_regular_file_at parent filename label =
     (case open_file parent filename of
        None \<Rightarrow> Inl (artifact_error (label @ '' is missing, unreadable, or a symbolic link.''))
      | Some (Fs_File r) \<Rightarrow>
          let encoded = read_all r
          in if fr_before r \<noteq> fr_after r \<or> int (length encoded) \<noteq> fi_size (fr_before r) then
               Inl (artifact_error (label @ '' changed while it was being read.''))
             else Inr encoded
      | Some _ \<Rightarrow> Inl (artifact_error (label @ '' must be a regular file.'')))"

section \<open>One verified artifact\<close>

text \<open>\<open>str.split()\<close> on ASCII white space.\<close>

fun split_words :: "string \<Rightarrow> string list" where
  "split_words [] = []"
| "split_words (c # cs) =
     (if is_space c then split_words cs
      else (case cs of
          [] \<Rightarrow> [[c]]
        | d # _ \<Rightarrow> if is_space d then [c] # split_words cs
                  else (case split_words cs of [] \<Rightarrow> [[c]] | w # ws \<Rightarrow> (c # w) # ws)))"

definition read_expected_checksum :: "string \<Rightarrow> string \<Rightarrow> py_exc + string" where
  "read_expected_checksum encoded artifact_name =
     (if list_ex (\<lambda>c. 128 \<le> (of_char c :: nat)) encoded then Inl (artifact_error ''Malformed checksum sidecar.'')
      else case split_words (strip_by is_space encoded) of
        [digest, name] \<Rightarrow> if name = artifact_name \<and> is_sha256 digest then Inr digest else Inl (artifact_error ''Malformed checksum sidecar.'')
      | _ \<Rightarrow> Inl (artifact_error ''Malformed checksum sidecar.''))"

definition checksum_sidecar_bytes :: "string \<Rightarrow> string \<Rightarrow> string" where
  "checksum_sidecar_bytes encoded filename = sha256_hex encoded @ ''  '' @ filename @ [char_of (10 :: nat)]"

text \<open>The attributes of a payload are the names \<open>hasattr\<close> finds.\<close>

definition load_verified_joblib ::
  "(string \<Rightarrow> py_path option) \<Rightarrow> string list \<Rightarrow> (string \<Rightarrow> fs_node option) \<Rightarrow> (string \<Rightarrow> py_exc + 'p) \<Rightarrow> ('p \<Rightarrow> string \<Rightarrow> bool) \<Rightarrow>
   string \<Rightarrow> string \<Rightarrow> string list \<Rightarrow> string list \<times> (py_exc + 'p)" where
  "load_verified_joblib home cwd open_root load has_attribute path trusted_root required =
     (if path_suffix (path_name (parse_path path)) \<noteq> ''.joblib'' then ([], Inl (artifact_error ''Only .joblib artifacts are accepted.''))
      else
        (case res_bind (open_trusted_parent home cwd open_root path trusted_root) (\<lambda>(parent, filename).
                res_bind (read_regular_file_at parent filename ''Joblib artifact'') (\<lambda>artifact.
                res_bind (read_regular_file_at parent (filename @ ''.sha256'') ''Checksum sidecar'') (\<lambda>sidecar.
                res_bind (read_expected_checksum sidecar filename) (\<lambda>expected.
                  if sha256_hex artifact \<noteq> expected then
                    Inl (artifact_error (''Checksum mismatch for '' @ [CHR 0x27] @ filename @ [CHR 0x27] @ '': expected '' @ expected @ '', got '' @
                      sha256_hex artifact @ ''.''))
                  else Inr artifact)))) of
           Inl e \<Rightarrow> ([], Inl e)
         | Inr artifact \<Rightarrow>
             ([artifact], res_bind (load artifact) (\<lambda>loaded.
                let missing = filter (\<lambda>a. \<not> has_attribute loaded a) required
                in if missing \<noteq> [] then
                     Inl (artifact_error (''Verified artifact payload is missing required attributes: '' @ repr_str_list missing @ ''.''))
                   else Inr loaded))))"

section \<open>Runtime\<close>

record runtime =
  rt_python :: string
  rt_python_implementation :: string
  rt_platform :: string
  rt_machine :: string
  rt_version :: "string \<Rightarrow> string option" \<comment> \<open>\<open>metadata.version\<close>\<close>

definition RUNTIME_PACKAGES :: "string list" where
  "RUNTIME_PACKAGES = [''joblib'', ''numpy'', ''pandas'', ''scikit-learn'', ''scipy'', ''xgboost'']"

definition package_version :: "runtime \<Rightarrow> string \<Rightarrow> py_exc + string" where
  "package_version rt p = (case rt_version rt p of None \<Rightarrow> Inl (PyError ''PackageNotFoundError'' p) | Some v \<Rightarrow> Inr v)"

definition runtime_versions :: "runtime \<Rightarrow> py_exc + (string \<times> string) list" where
  "runtime_versions rt =
     res_map (\<lambda>p.
       res_bind (if p = ''xgboost'' \<and> rt_version rt p = None then package_version rt ''xgboost-cpu'' else package_version rt p)
         (\<lambda>v. Inr (p, v))) RUNTIME_PACKAGES"

definition current_runtime :: "runtime \<Rightarrow> (string \<times> string) list" where
  "current_runtime rt =
     [(''python'', rt_python rt), (''python_implementation'', rt_python_implementation rt), (''platform'', rt_platform rt),
      (''machine'', rt_machine rt)]"

end
