(* ===== verification/Bundle_Manifest.thy ===== *)
theory Bundle_Manifest
  imports Bundle_Loader
begin

text \<open>
  The manifest of a model bundle in \<open>src/src/artifacts/bundle.py\<close>: \<open>_bundle_manifest\<close>,
  \<open>_validate_manifest\<close>, \<open>_load_model_bundle_from_directory_fd\<close>, \<open>load_model_bundle\<close> and the part of
  \<open>save_model_bundle\<close> that decides what the published directory contains.
\<close>

section \<open>\<open>str\<close> and \<open>repr\<close> of decoded values\<close>

function py_repr :: "pyval \<Rightarrow> string" where
  "py_repr PNone = ''None''"
| "py_repr (PBool b) = (if b then ''True'' else ''False'')"
| "py_repr (PInt i) = int_str i"
| "py_repr (PFloat x) = repr_float x"
| "py_repr (PStr s) = repr_str s"
| "py_repr (PList vs) = ''['' @ join '', '' (map py_repr vs) @ '']''"
| "py_repr (PDict d) = ''{'' @ join '', '' (map (\<lambda>kv. repr_str (fst kv) @ '': '' @ py_repr (snd kv)) d) @ ''}''"
  by pat_completeness auto
termination
proof (relation "measure size", goal_cases)
  case (2 vs v)
  then show ?case by (induction vs) auto
next
  case (3 d kv)
  then show ?case by (induction d) (auto split: prod.split)
qed simp

definition py_str :: "pyval \<Rightarrow> string" where
  "py_str v = (case v of PStr s \<Rightarrow> s | _ \<Rightarrow> py_repr v)"

section \<open>Manifest fields\<close>

definition BUNDLE_FORMAT_VERSION :: string where "BUNDLE_FORMAT_VERSION = ''3''"
definition MANIFEST_FILENAME :: string where "MANIFEST_FILENAME = ''manifest.json''"

definition BUNDLE_MANIFEST_FIELDS :: "string list" where
  "BUNDLE_MANIFEST_FIELDS = [''bundle_format_version'', ''model_version'', ''operating_threshold'', ''score_type'', ''feature_schema'',
     ''training_data_fingerprint'', ''positive_class_label'', ''positive_class_index'', ''golden_probe'', ''runtime'', ''artifacts'',
     ''intended_use'', ''threshold_provenance'', ''training_provenance'', ''historical_reference_provenance'']"

definition GOLDEN_FIELDS :: "string list" where
  "GOLDEN_FIELDS = [''calibrated_probability'', ''decision_score'', ''features'', ''raw_score'', ''sha256'', ''tolerance'']"

definition ARTIFACT_FIELDS :: "string list" where
  "ARTIFACT_FIELDS = [''filename'', ''sha256'', ''size_bytes'', ''python_type'']"

definition RUNTIME_FIELDS :: "string list" where
  "RUNTIME_FIELDS = [''python'', ''python_implementation'', ''platform'', ''machine'', ''dependencies'']"

definition artifact_entry :: "string \<Rightarrow> string \<Rightarrow> string \<Rightarrow> pyval" where
  "artifact_entry filename encoded python_type =
     PDict [(''filename'', PStr filename), (''sha256'', PStr (sha256_hex encoded)), (''size_bytes'', PInt (int (length encoded))),
            (''python_type'', PStr python_type)]"

definition runtime_dict :: "runtime \<Rightarrow> (string \<times> string) list \<Rightarrow> (string, pyval) dict" where
  "runtime_dict rt versions =
     map (\<lambda>(k, v). (k, PStr v)) (current_runtime rt) @ [(''dependencies'', PDict (map (\<lambda>(k, v). (k, PStr v)) versions))]"

definition bundle_manifest ::
  "runtime \<Rightarrow> model_bundle \<Rightarrow> (string, pyval) dict \<Rightarrow> (string, pyval) dict \<Rightarrow> py_exc + (string, pyval) dict" where
  "bundle_manifest rt b golden artifacts =
     res_bind (py_float (mb_operating_threshold b)) (\<lambda>threshold.
     res_bind (case mb_reference_provenance b of None \<Rightarrow> Inr PNone | Some h \<Rightarrow> res_bind (reference_dict h) (\<lambda>d. Inr (PDict d))) (\<lambda>reference.
     res_bind (case mb_model b of None \<Rightarrow> Inl (ValueError ''ModelBundle model must expose fitted classes_.'') | Some m \<Rightarrow> positive_class_index m ''model'') (\<lambda>index.
     res_bind (runtime_versions rt) (\<lambda>versions.
       Inr [(''bundle_format_version'', PStr BUNDLE_FORMAT_VERSION),
            (''model_version'', PStr (mb_model_version b)),
            (''operating_threshold'', PFloat threshold),
            (''score_type'', PStr (mb_score_type b)),
            (''feature_schema'', PList (map PStr (mb_feature_schema b))),
            (''training_data_fingerprint'', mb_training_data_fingerprint b),
            (''intended_use'', PDict (intended_use_dict (mb_intended_use b))),
            (''threshold_provenance'', PDict (threshold_dict (mb_threshold_provenance b))),
            (''training_provenance'', PDict (training_dict (mb_training_provenance b))),
            (''historical_reference_provenance'', reference),
            (''positive_class_label'', PInt POSITIVE_CLASS_LABEL),
            (''positive_class_index'', PInt index),
            (''golden_probe'', PDict golden),
            (''runtime'', PDict (runtime_dict rt versions)),
            (''artifacts'', PDict artifacts)]))))"

section \<open>Validation\<close>

text \<open>\<open>_SHA256_PATTERN.fullmatch(str(value))\<close>.\<close>

definition sha_text :: "pyval \<Rightarrow> bool" where
  "sha_text v = is_sha256 (py_str v)"

definition check_manifest_header :: "(pyval \<Rightarrow> py_exc + bool) \<Rightarrow> (string, pyval) dict \<Rightarrow> py_exc + unit" where
  "check_manifest_header isfinite m =
     (if map_of m ''bundle_format_version'' = None then Inl (artifact_error ''Bundle manifest is missing bundle_format_version.'')
      else if py_get m ''bundle_format_version'' \<noteq> PStr BUNDLE_FORMAT_VERSION then
        Inl (artifact_error ''Unsupported bundle_format_version.'')
      else if set (map fst m) \<noteq> set BUNDLE_MANIFEST_FIELDS then
        Inl (artifact_error ''Bundle manifest fields are incomplete or unexpected.'')
      else if \<not> is_text_value (py_get m ''model_version'') then Inl (artifact_error ''Invalid model_version.'')
      else if py_get m ''feature_schema'' \<noteq> PList (map PStr ALL_FEATURES) then
        Inl (artifact_error ''Bundle feature schema/order mismatch.'')
      else if \<not> py_eq (py_get m ''positive_class_label'') (PInt POSITIVE_CLASS_LABEL) \<or> \<not> py_eq (py_get m ''positive_class_index'') (PInt 1) then
        Inl (artifact_error ''Bundle positive-class mapping mismatch.'')
      else if \<not> sha_text (py_get m ''training_data_fingerprint'') then Inl (artifact_error ''Invalid training_data_fingerprint.'')
      else
        res_bind (threshold_in_range isfinite (py_get m ''operating_threshold'')) (\<lambda>ok.
          if \<not> ok then Inl (artifact_error ''Invalid operating_threshold.'')
          else
            res_bind (in_string_set (py_get m ''score_type'') [''raw_score'', ''calibrated_probability'']) (\<lambda>known.
              if \<not> known then Inl (artifact_error ''Unsupported bundle score_type.'') else Inr ())))"

record provenance =
  pv_intended_use :: intended_use
  pv_threshold :: threshold_provenance
  pv_training :: training_provenance
  pv_reference :: "reference_provenance option"

text \<open>The body of the \<open>try\<close> block: everything that must bind.\<close>

definition check_provenance ::
  "(pyval \<Rightarrow> py_exc + bool) \<Rightarrow> py_exc + (string, pyval) dict \<Rightarrow> py_exc + quarantine_anchor \<Rightarrow> (string, pyval) dict \<Rightarrow> py_exc + provenance" where
  "check_provenance isfinite policies anchor m =
     res_bind (parse_intended_use (py_get m ''intended_use'')) (\<lambda>u.
     res_bind (parse_threshold_provenance isfinite (py_get m ''threshold_provenance'')) (\<lambda>t.
     res_bind (parse_training_provenance anchor (py_get m ''training_provenance'')) (\<lambda>tr.
     res_bind (if py_get m ''historical_reference_provenance'' = PNone then Inr None
               else res_bind (parse_reference_provenance anchor (py_get m ''historical_reference_provenance'')) (\<lambda>h. Inr (Some h))) (\<lambda>h.
     res_bind (py_float (py_get m ''operating_threshold'')) (\<lambda>operating.
     res_bind (validate_policy_binding policies u t tr (py_str (py_get m ''model_version'')) operating (py_str (py_get m ''score_type''))) (\<lambda>_.
       if py_get m ''training_data_fingerprint'' \<noteq> PStr (tr_data_roles_sha256 tr) then
         Inl (ValueError ''training_data_fingerprint does not bind declared data roles.'')
       else
         res_bind (validate_reference_binding policies (iu_evidence_category u) h (tr_data_roles tr) (tr_quarantine tr)) (\<lambda>_.
           Inr \<lparr>pv_intended_use = u, pv_threshold = t, pv_training = tr, pv_reference = h\<rparr>)))))))"

text \<open>\<open>except ValueError\<close>.\<close>

definition catch_value_error :: "(string \<Rightarrow> py_exc) \<Rightarrow> py_exc + 'a \<Rightarrow> py_exc + 'a" where
  "catch_value_error f r = (case r of Inl (ValueError s) \<Rightarrow> Inl (f s) | _ \<Rightarrow> r)"

definition expected_artifacts :: "(string, pyval) dict \<Rightarrow> string list" where
  "expected_artifacts m =
     [''model'', ''preprocessor''] @ (if py_get m ''score_type'' = PStr ''calibrated_probability'' then [''calibrator''] else [])"

text \<open>The second comparison, of \<open>Path(filename).name\<close>, can not differ after the first.\<close>

definition check_artifact_entry :: "string \<times> pyval \<Rightarrow> py_exc + unit" where
  "check_artifact_entry kv =
     (let (name, v) = kv
      in case dict_of v of
           None \<Rightarrow> Inl (artifact_error (''Artifact entry fields are invalid for '' @ name @ ''.''))
         | Some e \<Rightarrow>
             if set (map fst e) \<noteq> set ARTIFACT_FIELDS then Inl (artifact_error (''Artifact entry fields are invalid for '' @ name @ ''.''))
             else if py_get e ''filename'' \<noteq> PStr (name @ ''.joblib'') then
               Inl (artifact_error (''Unsafe artifact filename for '' @ name @ ''.''))
             else if \<not> is_sha_value (py_get e ''sha256'') then Inl (artifact_error (''Invalid artifact checksum for '' @ name @ ''.''))
             else if (case int_of (py_get e ''size_bytes'') of None \<Rightarrow> True | Some n \<Rightarrow> n \<le> 0) then
               Inl (artifact_error (''Invalid artifact size for '' @ name @ ''.''))
             else if \<not> is_text_value (py_get e ''python_type'') then Inl (artifact_error (''Invalid artifact type for '' @ name @ ''.''))
             else Inr ())"

definition check_artifacts :: "(string, pyval) dict \<Rightarrow> string \<Rightarrow> py_exc + (string, pyval) dict" where
  "check_artifacts m category =
     (case dict_of (py_get m ''artifacts'') of
        None \<Rightarrow> Inl (artifact_error ''Bundle artifact set contradicts score_type.'')
      | Some artifacts \<Rightarrow>
          if set (map fst artifacts) \<noteq> set (expected_artifacts m) then
            Inl (artifact_error ''Bundle artifact set contradicts score_type.'')
          else
            res_bind (res_map check_artifact_entry artifacts) (\<lambda>_.
              if category = REFERENCE \<and> (py_get m ''score_type'' \<noteq> PStr ''raw_score'' \<or> map_of artifacts ''calibrator'' \<noteq> None) then
                Inl (artifact_error ''Historical-reference demo bundles must be uncalibrated raw-score bundles.'')
              else Inr artifacts))"

text \<open>\<open>isinstance(value, (int, float)) and np.isfinite(value)\<close>, for each value in turn.\<close>

fun all_finite :: "(pyval \<Rightarrow> py_exc + bool) \<Rightarrow> pyval list \<Rightarrow> py_exc + bool" where
  "all_finite isfinite [] = Inr True"
| "all_finite isfinite (v # vs) =
     (if (case v of PBool _ \<Rightarrow> True | PInt _ \<Rightarrow> True | PFloat _ \<Rightarrow> True | _ \<Rightarrow> False) then
        res_bind (isfinite v) (\<lambda>ok. if ok then all_finite isfinite vs else Inr False)
      else Inr False)"

definition check_golden :: "(pyval \<Rightarrow> py_exc + bool) \<Rightarrow> pyval \<Rightarrow> py_exc + (string, pyval) dict" where
  "check_golden isfinite v =
     (case dict_of v of
        None \<Rightarrow> Inl (artifact_error ''Bundle golden probe is incomplete.'')
      | Some g \<Rightarrow>
          if set (map fst g) \<noteq> set GOLDEN_FIELDS then Inl (artifact_error ''Bundle golden probe is incomplete.'')
          else
            res_bind (canonical_json_sha256 (PDict (filter (\<lambda>kv. fst kv \<noteq> ''sha256'') g))) (\<lambda>h.
              if py_get g ''sha256'' \<noteq> PStr h then Inl (artifact_error ''Bundle golden probe checksum mismatch.'')
              else if \<not> py_eq (py_get g ''features'') golden_features then
                Inl (artifact_error ''Bundle golden probe feature schema mismatch.'')
              else if \<not> py_eq (py_get g ''tolerance'') (PFloat GOLDEN_PROBE_TOLERANCE) then
                Inl (artifact_error ''Bundle golden probe tolerance mismatch.'')
              else
                res_bind (all_finite isfinite ([py_get g ''raw_score'', py_get g ''decision_score''] @
                    (if py_get g ''calibrated_probability'' \<noteq> PNone then [py_get g ''calibrated_probability''] else []))) (\<lambda>ok.
                  if ok then Inr g else Inl (artifact_error ''Bundle golden probe contains invalid scores.''))))"

definition check_runtime_fields :: "(string \<times> string) list \<Rightarrow> (string, pyval) dict \<Rightarrow> py_exc + unit" where
  "check_runtime_fields current r =
     res_bind (res_map (\<lambda>(field, value).
       if py_get r field = PStr value then Inr ()
       else Inl (artifact_error (''Runtime mismatch for '' @ field @ '': bundle '' @ py_repr (py_get r field) @ '', current '' @ repr_str value @ ''.''))) current)
     (\<lambda>_. Inr ())"

definition check_dependencies :: "(string \<times> string) list \<Rightarrow> (string, pyval) dict \<Rightarrow> py_exc + unit" where
  "check_dependencies current d =
     res_bind (res_map (\<lambda>(package, version).
       if py_get d package = PStr version then Inr ()
       else Inl (artifact_error (''Dependency mismatch for '' @ package @ '': bundle '' @ py_repr (py_get d package) @ '', current '' @ repr_str version @ ''.''))) current)
     (\<lambda>_. Inr ())"

text \<open>The source compares \<open>python\<close> a second time, which can not fail after the first loop.\<close>

definition check_runtime :: "runtime \<Rightarrow> pyval \<Rightarrow> py_exc + unit" where
  "check_runtime rt v =
     (case dict_of v of
        None \<Rightarrow> Inl (artifact_error ''Bundle runtime metadata is missing.'')
      | Some r \<Rightarrow>
          if set (map fst r) \<noteq> set RUNTIME_FIELDS then Inl (artifact_error ''Bundle runtime metadata is missing.'')
          else
            res_bind (check_runtime_fields (current_runtime rt) r) (\<lambda>_.
              case dict_of (py_get r ''dependencies'') of
                None \<Rightarrow> Inl (artifact_error ''Bundle runtime dependencies are missing.'')
              | Some d \<Rightarrow>
                  if set (map fst d) \<noteq> set RUNTIME_PACKAGES then Inl (artifact_error ''Bundle runtime dependencies are missing.'')
                  else res_bind (runtime_versions rt) (\<lambda>versions. check_dependencies versions d)))"

definition validate_manifest ::
  "(pyval \<Rightarrow> py_exc + bool) \<Rightarrow> py_exc + (string, pyval) dict \<Rightarrow> py_exc + quarantine_anchor \<Rightarrow> runtime \<Rightarrow> (string, pyval) dict \<Rightarrow>
   py_exc + provenance \<times> (string, pyval) dict \<times> (string, pyval) dict" where
  "validate_manifest isfinite policies anchor rt m =
     res_bind (check_manifest_header isfinite m) (\<lambda>_.
     res_bind (catch_value_error (\<lambda>s. artifact_error (''Bundle provenance validation failed: '' @ s))
                (check_provenance isfinite policies anchor m)) (\<lambda>pv.
     res_bind (check_artifacts m (iu_evidence_category (pv_intended_use pv))) (\<lambda>artifacts.
     res_bind (check_golden isfinite (py_get m ''golden_probe'')) (\<lambda>golden.
     res_bind (check_runtime rt (py_get m ''runtime'')) (\<lambda>_. Inr (pv, artifacts, golden))))))"

section \<open>Loading\<close>

definition PAYLOAD_ORDER :: "string list" where "PAYLOAD_ORDER = [''preprocessor'', ''model'', ''calibrator'']"

text \<open>What a loader needs beside the directory.\<close>

record ('p, 'x) load_env =
  le_library :: "('p, 'x) library"
  le_loads :: "string \<Rightarrow> string + pyval"
  le_isfinite :: "pyval \<Rightarrow> py_exc + bool"
  le_policies :: "py_exc + (string, pyval) dict"
  le_anchor :: "py_exc + quarantine_anchor"
  le_runtime :: runtime

definition load_manifest :: "('p, 'x) load_env \<Rightarrow> fs_node \<Rightarrow> py_exc + (string, pyval) dict \<times> provenance \<times> (string, pyval) dict \<times> (string, pyval) dict" where
  "load_manifest env dir =
     res_bind (read_regular_file_at dir MANIFEST_FILENAME ''Bundle manifest'') (\<lambda>encoded.
       catch_value_error (\<lambda>s. artifact_error (''Invalid bundle manifest: '' @ s))
         (res_bind (strict_json_object (le_loads env) encoded ''Bundle manifest'') (\<lambda>m.
          res_bind (validate_manifest (le_isfinite env) (le_policies env) (le_anchor env) (le_runtime env) m) (\<lambda>(pv, artifacts, golden).
            Inr (m, pv, artifacts, golden)))))"

definition entry_of :: "(string, pyval) dict \<Rightarrow> string \<Rightarrow> (string, pyval) dict" where
  "entry_of artifacts name = (case py_get artifacts name of PDict e \<Rightarrow> e | _ \<Rightarrow> [])"

definition read_artifact :: "fs_node \<Rightarrow> (string, pyval) dict \<Rightarrow> string \<Rightarrow> py_exc + string \<times> string" where
  "read_artifact dir artifacts name =
     (let e = entry_of artifacts name
      in res_bind (read_regular_file_at dir (py_str (py_get e ''filename'')) (''Bundle '' @ name @ '' artifact'')) (\<lambda>encoded.
           if \<not> py_eq (PInt (int (length encoded))) (py_get e ''size_bytes'') then Inl (artifact_error (''Artifact size mismatch for '' @ name @ ''.''))
           else if PStr (sha256_hex encoded) \<noteq> py_get e ''sha256'' then Inl (artifact_error (''Artifact checksum mismatch for '' @ name @ ''.''))
           else Inr (name, encoded)))"

definition read_artifacts :: "fs_node \<Rightarrow> (string, pyval) dict \<Rightarrow> py_exc + (string \<times> string) list" where
  "read_artifacts dir artifacts =
     res_map (read_artifact dir artifacts) (filter (\<lambda>name. map_of artifacts name \<noteq> None) PAYLOAD_ORDER)"

text \<open>The bytes handed to \<open>joblib.load\<close>, in order, up to the first failure.\<close>

fun deserialise :: "('p, 'x) library \<Rightarrow> (string, pyval) dict \<Rightarrow> (string \<times> string) list \<Rightarrow> string list \<times> (py_exc + (string \<times> 'p) list)" where
  "deserialise lib artifacts [] = ([], Inr [])"
| "deserialise lib artifacts ((name, encoded) # rest) =
     (case lib_load lib encoded of
        Inl e \<Rightarrow> ([encoded], Inl e)
      | Inr p \<Rightarrow>
          if PStr (lib_type lib p) \<noteq> py_get (entry_of artifacts name) ''python_type'' then
            ([encoded], Inl (artifact_error (''Payload type mismatch for '' @ name @ ''.'')))
          else (let (trace, r) = deserialise lib artifacts rest in (encoded # trace, res_bind r (\<lambda>ps. Inr ((name, p) # ps)))))"

definition payloads_of :: "(string \<times> 'p) list \<Rightarrow> py_exc + 'p payloads" where
  "payloads_of loaded =
     (case (map_of loaded ''preprocessor'', map_of loaded ''model'') of
        (None, _) \<Rightarrow> Inl (KeyError ''preprocessor'')
      | (Some _, None) \<Rightarrow> Inl (KeyError ''model'')
      | (Some pre, Some model) \<Rightarrow> Inr \<lparr>py_preprocessor = pre, py_model = model, py_calibrator = map_of loaded ''calibrator''\<rparr>)"

definition loaded_bundle :: "('p, 'x) library \<Rightarrow> (string, pyval) dict \<Rightarrow> provenance \<Rightarrow> (string, pyval) dict \<Rightarrow> 'p payloads \<Rightarrow> py_exc + model_bundle" where
  "loaded_bundle lib m pv artifacts ps =
     res_bind (py_float (py_get m ''operating_threshold'')) (\<lambda>threshold.
       Inr \<lparr>mb_preprocessor = Some (lib_attributes lib (py_preprocessor ps)), mb_model = Some (lib_attributes lib (py_model ps)),
            mb_calibrator = map_option (lib_attributes lib) (py_calibrator ps), mb_operating_threshold = PFloat threshold,
            mb_feature_schema = (case py_get m ''feature_schema'' of PList vs \<Rightarrow> map py_str vs | _ \<Rightarrow> []),
            mb_training_data_fingerprint = PStr (py_str (py_get m ''training_data_fingerprint'')),
            mb_model_version = py_str (py_get m ''model_version''), mb_intended_use = pv_intended_use pv,
            mb_threshold_provenance = pv_threshold pv, mb_training_provenance = pv_training pv,
            mb_score_type = py_str (py_get m ''score_type''), mb_reference_provenance = pv_reference pv,
            mb_model_artifact_sha256 = Some (PStr (py_str (py_get (entry_of artifacts ''model'') ''sha256'')))\<rparr>)"

definition semantic_failure :: "py_exc + 'a \<Rightarrow> py_exc + 'a" where
  "semantic_failure = catch_value_error (\<lambda>_. artifact_error ''Bundle semantic validation failed.'')"

definition finish_load :: "('p, 'x) load_env \<Rightarrow> (string, pyval) dict \<Rightarrow> provenance \<Rightarrow> (string, pyval) dict \<Rightarrow> (string, pyval) dict \<Rightarrow>
   (string \<times> 'p) list \<Rightarrow> py_exc + model_bundle \<times> 'p payloads" where
  "finish_load env m pv artifacts golden loaded =
     res_bind (payloads_of loaded) (\<lambda>ps.
     res_bind (loaded_bundle (le_library env) m pv artifacts ps) (\<lambda>b.
     res_bind (semantic_failure (validate_bundle (le_isfinite env) (le_policies env) b)) (\<lambda>_.
     res_bind (verify_bundle_golden_probe (le_library env) (le_isfinite env) (le_policies env) b ps golden) (\<lambda>_. Inr (b, ps)))))"

definition load_model_bundle_from_directory :: "('p, 'x) load_env \<Rightarrow> fs_node \<Rightarrow> string list \<times> (py_exc + model_bundle \<times> 'p payloads)" where
  "load_model_bundle_from_directory env dir =
     (case load_manifest env dir of
        Inl e \<Rightarrow> ([], Inl e)
      | Inr (m, pv, artifacts, golden) \<Rightarrow>
          (case read_artifacts dir artifacts of
             Inl e \<Rightarrow> ([], Inl e)
           | Inr files \<Rightarrow>
               (let (trace, r) = deserialise (le_library env) artifacts files
                in (trace, res_bind r (finish_load env m pv artifacts golden)))))"

definition load_model_bundle ::
  "('p, 'x) load_env \<Rightarrow> (string \<Rightarrow> py_path option) \<Rightarrow> string list \<Rightarrow> (string \<Rightarrow> fs_node option) \<Rightarrow> string \<Rightarrow> string \<Rightarrow>
   string list \<times> (py_exc + model_bundle \<times> 'p payloads)" where
  "load_model_bundle env home cwd open_root manifest_path trusted_root =
     (if path_name (parse_path manifest_path) \<noteq> MANIFEST_FILENAME then
        ([], Inl (artifact_error (''Expected manifest filename '' @ [CHR 0x27] @ MANIFEST_FILENAME @ [CHR 0x27] @ ''.'')))
      else case open_trusted_parent home cwd open_root manifest_path trusted_root of
        Inl e \<Rightarrow> ([], Inl e)
      | Inr (dir, filename) \<Rightarrow>
          if filename \<noteq> MANIFEST_FILENAME then
            ([], Inl (artifact_error (''Expected manifest filename '' @ [CHR 0x27] @ MANIFEST_FILENAME @ [CHR 0x27] @ ''.'')))
          else load_model_bundle_from_directory env dir)"

section \<open>Saving\<close>

text \<open>The files of the temporary directory, in the order they are written; \<open>dump\<close> stands for
  \<open>joblib.dump\<close> to bytes.\<close>

definition named_payloads :: "'p payloads \<Rightarrow> (string \<times> 'p) list" where
  "named_payloads ps =
     [(''preprocessor'', py_preprocessor ps), (''model'', py_model ps)] @ (case py_calibrator ps of None \<Rightarrow> [] | Some c \<Rightarrow> [(''calibrator'', c)])"

definition reserved_names :: "'p payloads \<Rightarrow> string list" where
  "reserved_names ps =
     [MANIFEST_FILENAME] @ map (\<lambda>(n, _). n @ ''.joblib'') (named_payloads ps) @ map (\<lambda>(n, _). n @ ''.joblib.sha256'') (named_payloads ps)"

text \<open>\<open>Path(filename).name != filename\<close>, the empty name, dots and both separators.\<close>

definition extra_name_ok :: "'p payloads \<Rightarrow> string \<Rightarrow> bool" where
  "extra_name_ok ps n =
     (path_name (parse_path n) = n \<and> n \<noteq> [] \<and> n \<noteq> ''.'' \<and> n \<noteq> ''..'' \<and> CHR ''/'' \<notin> set n \<and> CHR 0x5C \<notin> set n \<and>
      n \<notin> set (reserved_names ps))"

definition saved_manifest ::
  "('p, 'x) load_env \<Rightarrow> ('p \<Rightarrow> string) \<Rightarrow> model_bundle \<Rightarrow> 'p payloads \<Rightarrow> py_exc + (string, pyval) dict" where
  "saved_manifest env dump b ps =
     res_bind (validate_bundle (le_isfinite env) (le_policies env) b) (\<lambda>_.
     res_bind (golden_probe (le_library env) (le_isfinite env) (le_policies env) b ps) (\<lambda>golden.
       bundle_manifest (le_runtime env) b golden
         (map (\<lambda>(n, p). (n, artifact_entry (n @ ''.joblib'') (dump p) (lib_type (le_library env) p))) (named_payloads ps))))"

definition bundle_files ::
  "('p, 'x) load_env \<Rightarrow> ('p \<Rightarrow> string) \<Rightarrow> model_bundle \<Rightarrow> 'p payloads \<Rightarrow> (string \<times> string) list \<Rightarrow> py_exc + (string \<times> string) list" where
  "bundle_files env dump b ps extras =
     res_bind (saved_manifest env dump b ps) (\<lambda>m.
     res_bind (canonical_manifest_bytes m) (\<lambda>manifest_bytes.
       if \<not> list_all (\<lambda>(n, _). extra_name_ok ps n) extras then
         Inl (ValueError ''Additional bundle files must be unique basenames with byte values.'')
       else Inr (concat (map (\<lambda>(n, p). [(n @ ''.joblib'', dump p), (n @ ''.joblib.sha256'', checksum_sidecar_bytes (dump p) (n @ ''.joblib''))])
                          (named_payloads ps)) @
                 [(MANIFEST_FILENAME, manifest_bytes)] @ extras)))"

end
