(* ===== verification/Loader_Facts.thy ===== *)
theory Loader_Facts
  imports Bundle_Manifest
begin

text \<open>
  Loading model bundles: nothing is deserialised before every artifact of the directory has been
  verified against a valid manifest, no symbolic link is followed below the trusted base, and a
  bundle that loads is the one its manifest describes.
\<close>

section \<open>Files\<close>

lemma read_regular_file_at_Inr:
  assumes "read_regular_file_at d name label = Inr encoded"
  shows "\<exists>r. open_file d name = Some (Fs_File r) \<and> read_all r = encoded \<and> fr_before r = fr_after r \<and> int (length encoded) = fi_size (fr_before r)"
  using assms by (auto simp: read_regular_file_at_def Let_def split: option.splits fs_node.splits if_splits)

lemma open_components_Inr: "open_components d ps = Inr e \<Longrightarrow> open_directories d ps = Some e"
  by (induction ps arbitrary: d) (auto split: option.splits)

lemma trusted_parts_plain:
  assumes "trusted_relative_parts home cwd path trusted_root = Inr (base, parts)"
  shows "parts \<noteq> [] \<and> list_all plain_part parts"
  using assms by (auto simp: trusted_relative_parts_def Let_def res_bind_Inr_iff split: option.splits if_splits)

lemma open_trusted_parent_Inr:
  assumes "open_trusted_parent home cwd open_root path trusted_root = Inr (parent, filename)"
  obtains base dirs d where "trusted_relative_parts home cwd path trusted_root = Inr (base, dirs @ [filename])"
    "open_root (path_str base) = Some d" "open_directories d dirs = Some parent"
proof -
  obtain base parts d where *: "trusted_relative_parts home cwd path trusted_root = Inr (base, parts)"
    "open_root (path_str base) = Some d" "open_components d (butlast parts) = Inr parent" "filename = last parts"
    using assms by (auto simp: open_trusted_parent_def res_bind_Inr_iff split: option.splits)
  moreover have "parts = butlast parts @ [filename]" using trusted_parts_plain [OF *(1)] *(4) by simp
  ultimately show thesis using open_components_Inr [OF *(3)] by (intro that [of base "butlast parts" d]) simp_all
qed

section \<open>Artifacts\<close>

text \<open>One artifact of a directory matches its entry.\<close>

definition verified_artifact :: "fs_node \<Rightarrow> (string, pyval) dict \<Rightarrow> string \<Rightarrow> string \<Rightarrow> bool" where
  "verified_artifact dir artifacts name encoded \<longleftrightarrow>
     (\<exists>r. open_file dir (name @ ''.joblib'') = Some (Fs_File r) \<and> read_all r = encoded) \<and>
     py_get (entry_of artifacts name) ''sha256'' = PStr (sha256_hex encoded) \<and>
     py_get (entry_of artifacts name) ''size_bytes'' = PInt (int (length encoded))"

lemma check_artifact_entry_Inr:
  "check_artifact_entry (name, v) = Inr u \<Longrightarrow>
     \<exists>e n. v = PDict e \<and> py_get e ''filename'' = PStr (name @ ''.joblib'') \<and> py_get e ''size_bytes'' = PInt n"
  by (auto simp: check_artifact_entry_def split: option.splits if_splits)

lemma check_artifacts_Inr:
  assumes "check_artifacts m category = Inr artifacts"
  shows "set (map fst artifacts) = set (expected_artifacts m) \<and>
    (\<forall>name v. map_of artifacts name = Some v \<longrightarrow>
       (\<exists>n. py_get (entry_of artifacts name) ''filename'' = PStr (name @ ''.joblib'') \<and> py_get (entry_of artifacts name) ''size_bytes'' = PInt n))"
proof -
  obtain us where us: "set (map fst artifacts) = set (expected_artifacts m)" "res_map check_artifact_entry artifacts = Inr us"
    using assms by (auto simp: check_artifacts_def res_bind_Inr_iff split: option.splits if_splits)
  have "\<exists>n. py_get (entry_of artifacts name) ''filename'' = PStr (name @ ''.joblib'') \<and> py_get (entry_of artifacts name) ''size_bytes'' = PInt n"
    if v: "map_of artifacts name = Some v" for name v
  proof -
    have "\<exists>u. check_artifact_entry (name, v) = Inr u"
      using us(2) map_of_SomeD [OF v] by (auto simp: res_map_Inr_iff list_all2_conv_all_nth in_set_conv_nth)
    then obtain e n where "v = PDict e" "py_get e ''filename'' = PStr (name @ ''.joblib'')" "py_get e ''size_bytes'' = PInt n"
      using check_artifact_entry_Inr by blast
    moreover have "py_get artifacts name = v" using v by (simp add: py_get_def)
    ultimately show ?thesis by (simp add: entry_of_def)
  qed
  then show ?thesis using us(1) by blast
qed

lemma validate_manifest_Inr:
  assumes "validate_manifest isfinite policies anchor rt m = Inr (pv, artifacts, golden)"
  shows "check_manifest_header isfinite m = Inr () \<and> check_provenance isfinite policies anchor m = Inr pv \<and>
    check_artifacts m (iu_evidence_category (pv_intended_use pv)) = Inr artifacts \<and>
    check_golden isfinite (py_get m ''golden_probe'') = Inr golden \<and> check_runtime rt (py_get m ''runtime'') = Inr ()"
  using assms
  by (auto simp: validate_manifest_def res_bind_Inr_iff catch_value_error_def split: sum.splits py_exc.splits)

lemma catch_value_error_Inr [simp]: "catch_value_error f r = Inr x \<longleftrightarrow> r = Inr x"
  by (auto simp: catch_value_error_def split: sum.splits py_exc.splits)

lemma strict_json_object_Inr [simp]: "strict_json_object loads encoded label = Inr d \<longleftrightarrow> loads encoded = Inr (PDict d)"
  by (auto simp: strict_json_object_def split: sum.splits pyval.splits)

lemma load_manifest_Inr:
  assumes "load_manifest env dir = Inr (m, pv, artifacts, golden)"
  shows "\<exists>encoded. read_regular_file_at dir MANIFEST_FILENAME ''Bundle manifest'' = Inr encoded \<and> le_loads env encoded = Inr (PDict m) \<and>
    validate_manifest (le_isfinite env) (le_policies env) (le_anchor env) (le_runtime env) m = Inr (pv, artifacts, golden)"
  using assms unfolding load_manifest_def res_bind_Inr_iff catch_value_error_Inr strict_json_object_Inr by auto

lemma read_artifact_Inr:
  assumes "read_artifact dir artifacts name = Inr f"
    and "py_get (entry_of artifacts name) ''filename'' = PStr fn" and "py_get (entry_of artifacts name) ''size_bytes'' = PInt n"
  shows "\<exists>encoded. f = (name, encoded) \<and> read_regular_file_at dir fn (''Bundle '' @ name @ '' artifact'') = Inr encoded \<and>
    int (length encoded) = n \<and> py_get (entry_of artifacts name) ''sha256'' = PStr (sha256_hex encoded)"
  using assms(1) unfolding read_artifact_def Let_def res_bind_Inr_iff assms(2,3) py_str_def
  by (auto simp del: append.simps split: if_splits)

lemma read_artifacts_verified:
  assumes m: "validate_manifest isfinite policies anchor rt m = Inr (pv, artifacts, golden)"
    and files: "read_artifacts dir artifacts = Inr files"
  shows "map fst files = filter (\<lambda>name. name \<in> fst ` set artifacts) PAYLOAD_ORDER \<and>
    (\<forall>(name, encoded) \<in> set files. verified_artifact dir artifacts name encoded)"
proof -
  let ?names = "filter (\<lambda>name. map_of artifacts name \<noteq> None) PAYLOAD_ORDER"
  have entries: "\<exists>n. py_get (entry_of artifacts name) ''filename'' = PStr (name @ ''.joblib'') \<and> py_get (entry_of artifacts name) ''size_bytes'' = PInt n"
    if "map_of artifacts name = Some v" for name v
    using validate_manifest_Inr [OF m] check_artifacts_Inr that by blast
  have one: "fst f = name \<and> verified_artifact dir artifacts name (snd f)"
    if r: "read_artifact dir artifacts name = Inr f" and n: "map_of artifacts name \<noteq> None" for name f
  proof -
    obtain n where e: "py_get (entry_of artifacts name) ''filename'' = PStr (name @ ''.joblib'')" "py_get (entry_of artifacts name) ''size_bytes'' = PInt n"
      using entries n by blast
    from read_artifact_Inr [OF r e] e(2) show ?thesis unfolding verified_artifact_def
      by (auto dest!: read_regular_file_at_Inr simp del: append.simps)
  qed
  have "list_all2 (\<lambda>name f. read_artifact dir artifacts name = Inr f) ?names files"
    using files by (simp only: read_artifacts_def res_map_Inr_iff)
  then have l: "list_all2 (\<lambda>name f. fst f = name \<and> verified_artifact dir artifacts name (snd f)) ?names files"
    by (rule list.rel_mono_strong) (auto dest!: one)
  have "map fst files = ?names" using l by (induction rule: list_all2_induct) auto
  moreover have "\<forall>f \<in> set files. verified_artifact dir artifacts (fst f) (snd f)" using l by (induction rule: list_all2_induct) auto
  moreover have "?names = filter (\<lambda>name. name \<in> fst ` set artifacts) PAYLOAD_ORDER"
    by (simp add: map_of_eq_None_iff)
  ultimately show ?thesis by (simp add: split_beta)
qed

lemma deserialise_trace: "deserialise lib artifacts files = (trace, r) \<Longrightarrow> set trace \<subseteq> snd ` set files"
proof (induction lib artifacts files arbitrary: trace r rule: deserialise.induct)
  case (2 lib artifacts name encoded rest)
  then show ?case by (force split: sum.splits if_splits prod.splits)
qed simp

lemma load_directory_trace:
  assumes "load_model_bundle_from_directory env dir = (trace, r)" and "trace \<noteq> []"
  obtains m pv artifacts golden files where "load_manifest env dir = Inr (m, pv, artifacts, golden)"
    "read_artifacts dir artifacts = Inr files" "set trace \<subseteq> snd ` set files"
  using assms by (auto simp: load_model_bundle_from_directory_def Let_def split: sum.splits prod.splits dest: deserialise_trace)

text \<open>
  C35. No unverified byte is deserialised. Whenever a bundle loader hands bytes to \<open>joblib.load\<close> -
  even if the load fails later - the directory was reached from the trusted base through real
  directories only, its manifest passed the whole validation, and every artifact the manifest
  lists, not only the one being deserialised, is a regular file with the recorded size and
  digest; the bytes handed over are those of one of them.
\<close>

theorem nothing_unverified_is_deserialised:
  assumes "load_model_bundle env home cwd open_root path trusted_root = (trace, r)" and "encoded \<in> set trace"
  shows "\<exists>base dirs d dir m pv artifacts golden.
    trusted_relative_parts home cwd path trusted_root = Inr (base, dirs @ [MANIFEST_FILENAME]) \<and> list_all plain_part dirs \<and>
    open_root (path_str base) = Some d \<and> open_directories d dirs = Some dir \<and>
    load_manifest env dir = Inr (m, pv, artifacts, golden) \<and> set (map fst artifacts) = set (expected_artifacts m) \<and>
    (\<forall>name \<in> set (expected_artifacts m). \<exists>f bytes. node_at d (dirs @ [name @ ''.joblib'']) = Some (Fs_File f) \<and> read_all f = bytes \<and>
       py_get (entry_of artifacts name) ''sha256'' = PStr (sha256_hex bytes) \<and>
       py_get (entry_of artifacts name) ''size_bytes'' = PInt (int (length bytes))) \<and>
    (\<exists>name \<in> set (expected_artifacts m). \<exists>f. node_at d (dirs @ [name @ ''.joblib'']) = Some (Fs_File f) \<and> read_all f = encoded)"
proof -
  obtain dir where dir: "open_trusted_parent home cwd open_root path trusted_root = Inr (dir, MANIFEST_FILENAME)"
    "load_model_bundle_from_directory env dir = (trace, r)"
    using assms by (auto simp: load_model_bundle_def split: sum.splits if_splits)
  obtain base dirs d where walk: "trusted_relative_parts home cwd path trusted_root = Inr (base, dirs @ [MANIFEST_FILENAME])"
    "open_root (path_str base) = Some d" "open_directories d dirs = Some dir"
    using dir(1) by (rule open_trusted_parent_Inr)
  have "trace \<noteq> []" using assms(2) by auto
  then obtain m pv artifacts golden files where load: "load_manifest env dir = Inr (m, pv, artifacts, golden)"
    "read_artifacts dir artifacts = Inr files" "set trace \<subseteq> snd ` set files"
    using dir(2) by (rule_tac load_directory_trace)
  have v: "validate_manifest (le_isfinite env) (le_policies env) (le_anchor env) (le_runtime env) m = Inr (pv, artifacts, golden)"
    using load_manifest_Inr [OF load(1)] by blast
  have names: "set (map fst artifacts) = set (expected_artifacts m)"
    using validate_manifest_Inr [OF v] check_artifacts_Inr by blast
  have files: "map fst files = filter (\<lambda>name. name \<in> fst ` set artifacts) PAYLOAD_ORDER"
    and ver: "\<And>name bytes. (name, bytes) \<in> set files \<Longrightarrow> verified_artifact dir artifacts name bytes"
    using read_artifacts_verified [OF v load(2)] by auto
  have "set (expected_artifacts m) \<subseteq> set PAYLOAD_ORDER" by (auto simp: expected_artifacts_def PAYLOAD_ORDER_def)
  then have fst_files: "fst ` set files = set (expected_artifacts m)" using arg_cong [OF files, of set] names by auto
  have at: "\<exists>f. node_at d (dirs @ [name @ ''.joblib'']) = Some (Fs_File f) \<and> read_all f = bytes \<and>
      py_get (entry_of artifacts name) ''sha256'' = PStr (sha256_hex bytes) \<and>
      py_get (entry_of artifacts name) ''size_bytes'' = PInt (int (length bytes))" if "(name, bytes) \<in> set files" for name bytes
    using ver [OF that] open_directories_node [OF walk(3)] unfolding verified_artifact_def by blast
  have all: "\<forall>name \<in> set (expected_artifacts m). \<exists>f bytes. node_at d (dirs @ [name @ ''.joblib'']) = Some (Fs_File f) \<and> read_all f = bytes \<and>
      py_get (entry_of artifacts name) ''sha256'' = PStr (sha256_hex bytes) \<and>
      py_get (entry_of artifacts name) ''size_bytes'' = PInt (int (length bytes))"
  proof
    fix name assume "name \<in> set (expected_artifacts m)"
    then obtain bytes where "(name, bytes) \<in> set files" unfolding fst_files [symmetric] by force
    from at [OF this] show "\<exists>f bytes. node_at d (dirs @ [name @ ''.joblib'']) = Some (Fs_File f) \<and> read_all f = bytes \<and>
      py_get (entry_of artifacts name) ''sha256'' = PStr (sha256_hex bytes) \<and>
      py_get (entry_of artifacts name) ''size_bytes'' = PInt (int (length bytes))" by blast
  qed
  obtain name where n: "(name, encoded) \<in> set files" using assms(2) load(3) by force
  then have "name \<in> set (expected_artifacts m)" unfolding fst_files [symmetric] by force
  then have one: "\<exists>name \<in> set (expected_artifacts m). \<exists>f. node_at d (dirs @ [name @ ''.joblib'']) = Some (Fs_File f) \<and> read_all f = encoded"
    using at [OF n] by blast
  have "list_all plain_part dirs" using trusted_parts_plain [OF walk(1)] by simp
  then show ?thesis using walk load(1) names all one by blast
qed

end
