(* ===== verification/Canon_Json.thy ===== *)
theory Canon_Json
  imports Json_Text
begin

text \<open>
  Documents with sorted keys: what \<open>json.loads\<close> gives back of a text that \<open>json.dumps\<close> wrote with
  \<open>sort_keys=True\<close>. Reading an item and writing the document again are not affected.
\<close>

section \<open>Sorting the keys\<close>

definition canon_dict :: "(string, pyval) dict \<Rightarrow> (string, pyval) dict" where
  "canon_dict d = map (\<lambda>kv. (fst kv, canon (snd kv))) (sort_key fst d)"

lemma canon_PDict [simp]: "canon (PDict d) = PDict (canon_dict d)"
  by (simp add: canon_dict_def)

declare canon.simps(2) [simp del]

lemma canon_dict_keys [simp]: "fst ` set (canon_dict d) = fst ` set d"
  by (simp add: canon_dict_def image_image)

lemma dict_ok_canon: "dict_ok d \<Longrightarrow> dict_ok (canon_dict d)"
  by (simp add: canon_dict_def comp_def) (metis distinct_map distinct_sort inj_on_convol_ident set_sort)

lemma map_of_canon: "dict_ok d \<Longrightarrow> map_of (canon_dict d) k = map_option canon (map_of d k)"
  by (simp add: canon_dict_def map_of_map_snd map_of_sort_key)

lemma py_get_canon [simp]: "dict_ok d \<Longrightarrow> py_get (canon_dict d) k = canon (py_get d k)"
  by (simp add: py_get_def map_of_canon split: option.split)

lemma canon_iff [simp]:
  "canon v = PNone \<longleftrightarrow> v = PNone" "canon v = PBool b \<longleftrightarrow> v = PBool b" "canon v = PInt i \<longleftrightarrow> v = PInt i"
  "canon v = PStr s \<longleftrightarrow> v = PStr s" "canon v = PFloat x \<longleftrightarrow> v = PFloat x"
  by (cases v; simp)+

lemma canon_readers [simp]:
  "int_of (canon v) = int_of v" "str_of (canon v) = str_of v"
  "require_sha256 (canon v) l = require_sha256 v l" "require_nonnegative_int (canon v) l = require_nonnegative_int v l"
  "require_identifier (canon v) l = require_identifier v l" "py_float (canon v) = py_float v"
  by (cases v; simp add: int_of_def str_of_def require_sha256_def require_nonnegative_int_def require_identifier_def py_float_def)+

lemma in_string_set_canon [simp]: "in_string_set (canon v) xs = in_string_set v xs"
  by (cases v) (simp_all add: in_string_set_def)

section \<open>Writing a sorted document\<close>

lemma canon_dict_sorted: "sort_key fst (canon_dict d) = canon_dict d"
proof (rule sort_key_id_if_sorted)
  show "sorted (map fst (canon_dict d))" by (simp add: canon_dict_def comp_def)
qed

lemma res_map_map: "res_map f (map g xs) = res_map (f \<circ> g) xs"
  by (induction xs) simp_all

lemma json_dumps_canon: "json_dumps (canon v) = json_dumps v"
proof (induction v rule: canon.induct)
  case (1 vs)
  then have "res_map json_dumps (map canon vs) = res_map json_dumps vs"
    unfolding res_map_map by (intro res_map_cong) simp_all
  then show ?case by simp
next
  case (2 d)
  have "res_map (\<lambda>kv. res_bind (json_dumps (snd kv)) (\<lambda>t. Inr (json_str (fst kv) @ '':'' @ t))) (canon_dict d) =
      res_map (\<lambda>kv. res_bind (json_dumps (snd kv)) (\<lambda>t. Inr (json_str (fst kv) @ '':'' @ t))) (sort_key fst d)"
    unfolding canon_dict_def res_map_map by (rule res_map_cong) (simp_all add: 2)
  then show ?case by (simp add: canon_dict_sorted)
qed simp_all

lemma filter_canon: "filter (\<lambda>kv. fst kv \<noteq> k) (canon_dict d) = canon_dict (filter (\<lambda>kv. fst kv \<noteq> k) d)"
  by (simp add: canon_dict_def filter_map comp_def sort_key_filter)

end
