(* ===== verification/Bundle_Roundtrip.thy ===== *)
theory Bundle_Roundtrip
  imports Loader_Facts Policy_Facts Canon_Json
begin

text \<open>
  What is saved can be loaded: no reader of a provenance document depends on the order of keys,
  and the directory \<open>save_model_bundle\<close> fills is accepted by the loader, which gives back the
  bundle and its payloads.
\<close>

section \<open>Documents with sorted keys\<close>

declare canon.simps(2) [simp del]

lemma bool_of_canon [simp]: "bool_of (canon v) = bool_of v"
  by (cases v) (simp_all add: bool_of_def)

lemma finite_number_canon [simp]: "finite_number f (canon v) = finite_number f v"
  by (cases v) (simp_all add: finite_number_def)

lemma json_plain_get [simp]: "json_plain (PDict d) \<Longrightarrow> json_plain (py_get d k)"
  by (rule json_plain_item)

lemma require_exact_canon:
  assumes "json_plain v"
    and "\<And>d. v = PDict d \<Longrightarrow> dict_ok d \<Longrightarrow> (\<And>k. json_plain (py_get d k)) \<Longrightarrow> f (canon_dict d) = g d"
  shows "res_bind (require_exact_mapping (canon v) ks l) f = res_bind (require_exact_mapping v ks l) g"
proof (cases v)
  case (PDict d)
  then have "dict_ok d" "\<And>k. json_plain (py_get d k)" using assms(1) json_plain_get by simp_all
  then show ?thesis using assms(2) [OF PDict] by (simp add: require_exact_mapping_def PDict)
qed (simp_all add: require_exact_mapping_def)

section \<open>Readers ignore the order of keys\<close>

named_theorems order_free \<open>a reader of a document gives the same result after its keys are sorted\<close>

lemma parse_intended_use_canon [order_free]: "json_plain v \<Longrightarrow> parse_intended_use (canon v) = parse_intended_use v"
  unfolding parse_intended_use_def by (rule require_exact_canon) (simp_all cong: if_cong option.case_cong)

lemma parse_threshold_canon [order_free]: "json_plain v \<Longrightarrow> parse_threshold_provenance f (canon v) = parse_threshold_provenance f v"
  unfolding parse_threshold_provenance_def by (rule require_exact_canon) (simp_all cong: if_cong option.case_cong)

lemma parse_data_role_canon [order_free]: "json_plain v \<Longrightarrow> parse_data_role (canon v) l = parse_data_role v l"
  unfolding parse_data_role_def by (rule require_exact_canon) (simp_all cong: if_cong option.case_cong)

lemma parse_optional_role_canon:
  "dict_ok d \<Longrightarrow> json_plain (py_get d k) \<Longrightarrow> parse_optional_role (canon_dict d) k = parse_optional_role d k"
  by (simp add: parse_optional_role_def order_free cong: if_cong)

lemma parse_data_roles_canon [order_free]: "json_plain v \<Longrightarrow> parse_data_roles (canon v) = parse_data_roles v"
  unfolding parse_data_roles_def by (rule require_exact_canon) (simp_all add: order_free parse_optional_role_canon)

lemma parse_quarantine_canon [order_free]: "json_plain v \<Longrightarrow> parse_quarantine a (canon v) = parse_quarantine a v"
  unfolding parse_quarantine_def by (rule require_exact_canon) (simp_all cong: if_cong option.case_cong)

lemma parse_recipe_canon [order_free]: "json_plain v \<Longrightarrow> parse_recipe_provenance (canon v) = parse_recipe_provenance v"
  unfolding parse_recipe_provenance_def by (rule require_exact_canon) (simp_all cong: if_cong option.case_cong)

lemma parse_optional_quarantine_canon [order_free]:
  "json_plain v \<Longrightarrow> parse_optional_quarantine a (canon v) = parse_optional_quarantine a v"
  by (simp add: parse_optional_quarantine_def order_free cong: if_cong)

lemma parse_training_canon [order_free]: "json_plain v \<Longrightarrow> parse_training_provenance a (canon v) = parse_training_provenance a v"
  unfolding parse_training_provenance_def by (rule require_exact_canon) (simp_all add: order_free cong: if_cong)

lemma parse_reference_file_canon [order_free]: "json_plain v \<Longrightarrow> parse_reference_file (canon v) l e = parse_reference_file v l e"
  unfolding parse_reference_file_def by (rule require_exact_canon) (simp_all cong: if_cong option.case_cong)

lemma parse_fraud_count_canon [order_free]: "parse_fraud_count k (canon v) n = parse_fraud_count k v n"
  by (simp add: parse_fraud_count_def)

text \<open>Three values of a source are re-wrapped in declared order.\<close>

lemma reference_file_wrap:
  "parse_reference_file (PDict [(''filename'', canon x), (''sha256'', canon y), (''size_bytes'', canon z)]) l e =
     parse_reference_file (PDict [(''filename'', x), (''sha256'', y), (''size_bytes'', z)]) l e"
proof -
  have "require_exact_mapping (PDict [(''filename'', x), (''sha256'', y), (''size_bytes'', z)]) REFERENCE_FILE_FIELDS l =
      Inr [(''filename'', x), (''sha256'', y), (''size_bytes'', z)]" for x y z
    by (simp add: require_exact_mapping_def REFERENCE_FILE_FIELDS_def)
  then show ?thesis by (simp add: parse_reference_file_def) (simp add: py_get_def cong: if_cong option.case_cong)
qed

lemma parse_reference_source_canon:
  "dict_ok d \<Longrightarrow> (\<And>k. json_plain (py_get d k)) \<Longrightarrow> parse_reference_source (canon_dict d) kf = parse_reference_source d kf"
proof -
  assume d: "dict_ok d" "\<And>k. json_plain (py_get d k)"
  obtain k e where kf: "kf = (k, e)" by (cases kf)
  show ?thesis unfolding parse_reference_source_def kf Let_def prod.case py_get_canon [OF d(1)]
    by (rule require_exact_canon [OF d(2)]) (simp add: reference_file_wrap order_free cong: if_cong)
qed

lemma parse_reference_sources_canon [order_free]: "json_plain v \<Longrightarrow> parse_reference_sources (canon v) = parse_reference_sources v"
proof (cases v)
  case (PDict d)
  assume "json_plain v"
  then have d: "dict_ok d" "\<And>k. json_plain (py_get d k)" using json_plain_get by (simp_all add: PDict)
  have "parse_reference_source (canon_dict d) = parse_reference_source d"
    using parse_reference_source_canon [OF d] by blast
  then show ?thesis by (simp add: parse_reference_sources_def PDict cong: if_cong)
qed (simp_all add: parse_reference_sources_def dict_of_def)

lemma parse_filtering_canon [order_free]: "json_plain v \<Longrightarrow> parse_filtering (canon v) = parse_filtering v"
  unfolding parse_filtering_def by (rule require_exact_canon) simp_all

lemma parse_pool_canon [order_free]: "json_plain v \<Longrightarrow> parse_pool (canon v) = parse_pool v"
  unfolding parse_pool_def Let_def by (rule require_exact_canon) simp_all

lemma parse_reference_canon [order_free]: "json_plain v \<Longrightarrow> parse_reference_provenance a (canon v) = parse_reference_provenance a v"
  unfolding parse_reference_provenance_def by (rule require_exact_canon) (simp_all add: order_free cong: if_cong)

section \<open>The manifest with sorted keys\<close>

lemma list_all_zip_map: "(\<And>x. x \<in> set vs \<Longrightarrow> P (f x) x) \<Longrightarrow> list_all (\<lambda>(x, y). P x y) (zip (map f vs) vs)"
  by (induction vs) auto

lemma py_eq_canon:
  "json_plain v \<Longrightarrow> py_eq (canon v) v"
proof (induction v rule: canon.induct)
  case (1 vs)
  then show ?case using list_all_zip_map [of vs py_eq canon] by (simp add: list_all_iff [of json_plain])
next
  case (2 d)
  have "py_eq (PDict (canon_dict d)) (PDict d)"
  proof (rule py_eq_dictI)
    fix k u assume ku: "(k, u) \<in> set d"
    then have "py_get d k = u" using 2(2) by (simp add: py_get_def)
    then show "py_eq (py_get (canon_dict d) k) u" using 2 ku by (auto simp: list_all_iff simp del: py_eq.simps)
  qed (use 2(2) dict_ok_canon in auto)
  then show ?case by simp
qed (simp_all add: num_eq_def)

lemma artifact_entry_canon:
  "check_artifact_entry (name, v) = Inr () \<Longrightarrow> json_plain v \<Longrightarrow> check_artifact_entry (name, canon v) = Inr ()"
  by (cases v) (simp_all add: check_artifact_entry_def dict_of_def is_sha_value_def is_text_value_def split: if_splits option.splits pyval.splits)

section \<open>A validated bundle\<close>

definition carries :: "('p, 'x) library \<Rightarrow> 'p payloads \<Rightarrow> model_bundle \<Rightarrow> bool" where
  "carries lib ps b \<longleftrightarrow> mb_preprocessor b = Some (lib_attributes lib (py_preprocessor ps)) \<and>
     mb_model b = Some (lib_attributes lib (py_model ps)) \<and> mb_calibrator b = map_option (lib_attributes lib) (py_calibrator ps)"

text \<open>The bundle a load gives back: the threshold as a \<open>float\<close> and the digest of the model.\<close>

definition restored :: "pyfloat \<Rightarrow> string \<Rightarrow> model_bundle \<Rightarrow> model_bundle" where
  "restored x digest b = b\<lparr>mb_operating_threshold := PFloat x, mb_model_artifact_sha256 := Some (PStr digest)\<rparr>"

lemma restored_simps [simp]:
  "validate_components (restored x digest b) = validate_components b" "validate_scores (restored x digest b) = validate_scores b"
  "mb_preprocessor (restored x digest b) = mb_preprocessor b" "mb_model (restored x digest b) = mb_model b"
  "mb_calibrator (restored x digest b) = mb_calibrator b" "mb_operating_threshold (restored x digest b) = PFloat x"
  "mb_feature_schema (restored x digest b) = mb_feature_schema b"
  "mb_training_data_fingerprint (restored x digest b) = mb_training_data_fingerprint b"
  "mb_model_version (restored x digest b) = mb_model_version b" "mb_intended_use (restored x digest b) = mb_intended_use b"
  "mb_threshold_provenance (restored x digest b) = mb_threshold_provenance b"
  "mb_training_provenance (restored x digest b) = mb_training_provenance b" "mb_score_type (restored x digest b) = mb_score_type b"
  "mb_reference_provenance (restored x digest b) = mb_reference_provenance b"
  "mb_model_artifact_sha256 (restored x digest b) = Some (PStr digest)"
  by (simp_all add: restored_def validate_components_def validate_scores_def cong: option.case_cong if_cong)

lemma validate_bundle_Inr:
  assumes "validate_bundle isfinite policies b = Inr ()"
  shows "\<exists>pre model x fp i. validate_components b = Inr (pre, model) \<and> mb_model b = Some model \<and>
    threshold_in_range isfinite (mb_operating_threshold b) = Inr True \<and>
    mb_feature_schema b = ALL_FEATURES \<and> mb_training_data_fingerprint b = PStr fp \<and> is_sha256 fp \<and>
    strip_by is_space (mb_model_version b) \<noteq> [] \<and> validate_scores b = Inr () \<and> py_float (mb_operating_threshold b) = Inr x \<and>
    validate_policy_binding policies (mb_intended_use b) (mb_threshold_provenance b) (mb_training_provenance b) (mb_model_version b) x
      (mb_score_type b) = Inr () \<and> fp = tr_data_roles_sha256 (mb_training_provenance b) \<and>
    \<not> (iu_evidence_category (mb_intended_use b) = REFERENCE \<and> (mb_score_type b \<noteq> ''raw_score'' \<or> mb_calibrator b \<noteq> None)) \<and>
    validate_reference_binding policies (iu_evidence_category (mb_intended_use b)) (mb_reference_provenance b)
      (tr_data_roles (mb_training_provenance b)) (tr_quarantine (mb_training_provenance b)) = Inr () \<and>
    validate_component_identities pre model = Inr () \<and> positive_class_index model ''model'' = Inr i \<and>
    (\<forall>c. mb_calibrator b = Some c \<longrightarrow> es_predict_proba c \<longrightarrow> (\<exists>j. positive_class_index c ''calibrator'' = Inr j))"
proof -
  obtain pre model where c: "validate_components b = Inr (pre, model)" using assms by (auto simp: validate_bundle_def res_bind_Inr_iff)
  then have "mb_model b = Some model" by (auto simp: validate_components_def split: option.splits if_splits)
  then show ?thesis using assms c
    by (auto simp: validate_bundle_def res_bind_Inr_iff split: if_splits option.splits)
qed

lemma threshold_in_range_float:
  assumes "threshold_in_range isfinite v = Inr True" and "py_float v = Inr x"
  shows "fle (Fin 0) x \<and> fle x (Fin 1)"
  using assms by (auto simp: threshold_in_range_def res_bind_Inr_iff split: if_splits)

lemma unit_finite: "fle (Fin 0) x \<Longrightarrow> fle x (Fin 1) \<Longrightarrow> \<exists>q. x = Fin q"
  by (cases x) simp_all

lemma validate_restored:
  assumes "validate_bundle isfinite policies b = Inr ()" and "py_float (mb_operating_threshold b) = Inr x"
    and "\<And>y. isfinite (PFloat y) = Inr (is_finite y)" and "is_sha256 digest"
  shows "validate_bundle isfinite policies (restored x digest b) = Inr ()"
proof -
  obtain pre model fp i where v: "validate_components b = Inr (pre, model)"
    "threshold_in_range isfinite (mb_operating_threshold b) = Inr True"
    "mb_feature_schema b = ALL_FEATURES" "mb_training_data_fingerprint b = PStr fp" "is_sha256 fp"
    "strip_by is_space (mb_model_version b) \<noteq> []" "validate_scores b = Inr ()"
    "validate_policy_binding policies (mb_intended_use b) (mb_threshold_provenance b) (mb_training_provenance b) (mb_model_version b) x
      (mb_score_type b) = Inr ()" "fp = tr_data_roles_sha256 (mb_training_provenance b)"
    "\<not> (iu_evidence_category (mb_intended_use b) = REFERENCE \<and> (mb_score_type b \<noteq> ''raw_score'' \<or> mb_calibrator b \<noteq> None))"
    "validate_reference_binding policies (iu_evidence_category (mb_intended_use b)) (mb_reference_provenance b)
      (tr_data_roles (mb_training_provenance b)) (tr_quarantine (mb_training_provenance b)) = Inr ()"
    "validate_component_identities pre model = Inr ()" "positive_class_index model ''model'' = Inr i"
    "\<forall>c. mb_calibrator b = Some c \<longrightarrow> es_predict_proba c \<longrightarrow> (\<exists>j. positive_class_index c ''calibrator'' = Inr j)"
    using validate_bundle_Inr [OF assms(1)] assms(2) by auto
  have range: "fle (Fin 0) x" "fle x (Fin 1)" using threshold_in_range_float [OF v(2) assms(2)] by simp_all
  then obtain q where "x = Fin q" using unit_finite by blast
  then have t: "threshold_in_range isfinite (PFloat x) = Inr True"
    using range assms(3) by (simp add: threshold_in_range_def finite_number_def py_float_def is_finite_def)
  have cal: "(case mb_calibrator b of None \<Rightarrow> Inr () | Some c \<Rightarrow> if es_predict_proba c then res_bind (positive_class_index c ''calibrator'') (\<lambda>_. Inr ()) else Inr ())
      = Inr ()" using v(14) by (auto split: option.split)
  have p: "py_float (PFloat x) = Inr x" by (simp add: py_float_def)
  show ?thesis using t v(1,3-13) assms(4) cal
    by (simp add: validate_bundle_def p)
qed

section \<open>The golden probe\<close>

lemma positive_scores_finite: "positive_scores e out = Inr xs \<Longrightarrow> list_all is_finite xs"
  by (auto simp: positive_scores_def res_bind_Inr_iff Let_def list_all_iff list_ex_iff split: float_array.splits if_splits)

lemma checked_calibration_Inr: "checked_calibration raw ys = Inr zs \<Longrightarrow> zs = ys \<and> list_all is_finite ys \<and> length ys = length raw"
  by (auto simp: checked_calibration_def split: if_splits)

lemma calibrate_Inr:
  assumes "calibrate lib c raw = Inr zs"
  shows "list_all is_finite zs \<and> length zs = length raw"
proof -
  have "\<exists>ys. checked_calibration raw ys = Inr zs"
  proof (cases "es_predict_proba (lib_attributes lib c)")
    case True
    then obtain out where "lib_calibrator_proba lib c raw = Inr out" using assms by (auto simp: calibrate_def res_bind_Inr_iff)
    then show ?thesis using assms True by (cases out) (auto simp: calibrate_def res_bind_Inr_iff split: if_splits)
  qed (use assms in \<open>auto simp: calibrate_def res_bind_Inr_iff\<close>)
  then show ?thesis using checked_calibration_Inr by blast
qed

lemma score_bundle_finite:
  assumes "score_bundle_frame lib valid schema ps frame = Inr s"
  shows "list_all is_finite (bs_raw_scores s) \<and> length (bs_raw_scores s) = length (ff_rows frame)"
    and "bs_calibrated s = Some y \<Longrightarrow> list_all is_finite y \<and> length y = length (ff_rows frame)"
    and "bs_decision_scores s = (case bs_calibrated s of None \<Rightarrow> bs_raw_scores s | Some y \<Rightarrow> y)"
proof -
  obtain e out raw cal where raw: "positive_scores e out = Inr raw" "length raw = length (ff_rows frame)"
    and cal: "(case py_calibrator ps of None \<Rightarrow> Inr None | Some c \<Rightarrow> res_bind (calibrate lib c raw) (\<lambda>y. Inr (Some y))) = Inr cal"
    and s: "s = \<lparr>bs_raw_scores = raw, bs_calibrated = cal, bs_decision_scores = (case cal of None \<Rightarrow> raw | Some y \<Rightarrow> y)\<rparr>"
    using assms by (auto simp: score_bundle_frame_def res_bind_Inr_iff split: if_splits)
  show "list_all is_finite (bs_raw_scores s) \<and> length (bs_raw_scores s) = length (ff_rows frame)"
    using positive_scores_finite [OF raw(1)] raw(2) by (simp add: s)
  show "bs_decision_scores s = (case bs_calibrated s of None \<Rightarrow> bs_raw_scores s | Some y \<Rightarrow> y)"
    by (simp add: s cong: option.case_cong)
  assume "bs_calibrated s = Some y"
  then show "list_all is_finite y \<and> length y = length (ff_rows frame)"
    using cal raw(2) by (auto simp: s res_bind_Inr_iff dest!: calibrate_Inr split: option.splits)
qed

lemma golden_probe_Inr:
  assumes "golden_probe lib isfinite policies b ps = Inr g"
  shows "\<exists>r d c h. g = [(''calibrated_probability'', case c of None \<Rightarrow> PNone | Some q \<Rightarrow> PFloat (Fin q)), (''decision_score'', PFloat (Fin d)),
      (''features'', golden_features), (''raw_score'', PFloat (Fin r)), (''tolerance'', PFloat GOLDEN_PROBE_TOLERANCE), (''sha256'', PStr h)] \<and>
    canonical_json_sha256 (PDict (butlast g)) = Inr h"
proof -
  obtain s h where s: "score_bundle_frame lib (validate_bundle isfinite policies b) (mb_feature_schema b) ps canonical_golden_frame = Inr s"
    and h: "canonical_json_sha256 (PDict [(''calibrated_probability'', case bs_calibrated s of None \<Rightarrow> PNone | Some y \<Rightarrow> first_score y),
      (''decision_score'', first_score (bs_decision_scores s)), (''features'', golden_features),
      (''raw_score'', first_score (bs_raw_scores s)), (''tolerance'', PFloat GOLDEN_PROBE_TOLERANCE)]) = Inr h"
    and g: "g = [(''calibrated_probability'', case bs_calibrated s of None \<Rightarrow> PNone | Some y \<Rightarrow> first_score y),
      (''decision_score'', first_score (bs_decision_scores s)), (''features'', golden_features),
      (''raw_score'', first_score (bs_raw_scores s)), (''tolerance'', PFloat GOLDEN_PROBE_TOLERANCE), (''sha256'', PStr h)]"
    using assms by (auto simp: golden_probe_def res_bind_Inr_iff Let_def)
  have rows: "length (ff_rows canonical_golden_frame) = 1" by (simp add: canonical_golden_frame_def)
  have finite: "list_all is_finite (bs_raw_scores s) \<and> length (bs_raw_scores s) = 1" and
    cal: "\<And>y. bs_calibrated s = Some y \<Longrightarrow> list_all is_finite y \<and> length y = 1" and
    dec: "bs_decision_scores s = (case bs_calibrated s of None \<Rightarrow> bs_raw_scores s | Some y \<Rightarrow> y)"
    using score_bundle_finite [OF s] rows by simp_all
  obtain r where r: "bs_raw_scores s = [Fin r]" using finite by (cases "bs_raw_scores s") (auto simp: is_finite_def split: pyfloat.splits)
  show ?thesis
  proof (cases "bs_calibrated s")
    case None
    then show ?thesis using g h r dec by (intro exI [of _ r] exI [of _ r] exI [of _ None] exI [of _ h]) (simp add: first_score_def)
  next
    case (Some y)
    then obtain q where q: "y = [Fin q]" using cal by (cases y) (auto simp: is_finite_def split: pyfloat.splits)
    show ?thesis using g h r dec Some q
      by (intro exI [of _ r] exI [of _ q] exI [of _ "Some q"] exI [of _ h]) (simp add: first_score_def)
  qed
qed

lemma golden_tolerance_finite: "\<exists>q. GOLDEN_PROBE_TOLERANCE = Fin q"
  unfolding GOLDEN_PROBE_TOLERANCE_def by (rule fl_unit) simp_all

lemma golden_features_plain [simp]: "json_plain golden_features"
proof -
  have "distinct ALL_FEATURES" by code_simp
  then show ?thesis by (simp add: golden_features_def golden_values_def list_all_iff comp_def)
qed

text \<open>A golden probe that was computed is accepted, whatever the order of its keys.\<close>

lemma check_golden_computed:
  assumes "golden_probe lib isfinite policies b ps = Inr g" and "\<And>y. isfinite (PFloat y) = Inr (is_finite y)"
  shows "check_golden isfinite (PDict (canon_dict g)) = Inr (canon_dict g)" and "json_plain (PDict g)"
proof -
  obtain r d c h where g: "g = [(''calibrated_probability'', case c of None \<Rightarrow> PNone | Some q \<Rightarrow> PFloat (Fin q)), (''decision_score'', PFloat (Fin d)),
      (''features'', golden_features), (''raw_score'', PFloat (Fin r)), (''tolerance'', PFloat GOLDEN_PROBE_TOLERANCE), (''sha256'', PStr h)]"
    and h: "canonical_json_sha256 (PDict (butlast g)) = Inr h"
    using golden_probe_Inr [OF assms(1)] by blast
  obtain t where t: "GOLDEN_PROBE_TOLERANCE = Fin t" using golden_tolerance_finite by blast
  show plain: "json_plain (PDict g)" by (simp add: g t split: option.split)
  then have d: "dict_ok g" by simp
  have "filter (\<lambda>kv. fst kv \<noteq> ''sha256'') g = butlast g" by (simp add: g)
  then have "canonical_json_sha256 (PDict (filter (\<lambda>kv. fst kv \<noteq> ''sha256'') (canon_dict g))) = canonical_json_sha256 (canon (PDict (butlast g)))"
    by (simp only: filter_canon canon_PDict)
  then have sha: "canonical_json_sha256 (PDict (filter (\<lambda>kv. fst kv \<noteq> ''sha256'') (canon_dict g))) = Inr h"
    using h by (simp add: canonical_json_sha256_def json_dumps_canon del: canon_PDict)
  have keys: "fst ` set (canon_dict g) = set GOLDEN_FIELDS" by (simp add: g GOLDEN_FIELDS_def insert_commute)
  define cp where "cp = (case c of None \<Rightarrow> PNone | Some q \<Rightarrow> PFloat (Fin q))"
  have "py_get g ''sha256'' = PStr h" "py_get g ''features'' = golden_features" "py_get g ''tolerance'' = PFloat (Fin t)"
    "py_get g ''raw_score'' = PFloat (Fin r)" "py_get g ''decision_score'' = PFloat (Fin d)"
    "py_get g ''calibrated_probability'' = cp" "canon cp = cp"
    by (simp_all add: g py_get_def t cp_def split: option.split)
  then have get: "py_get (canon_dict g) ''sha256'' = PStr h" "py_get (canon_dict g) ''features'' = canon golden_features"
    "py_get (canon_dict g) ''tolerance'' = PFloat (Fin t)"
    "py_get (canon_dict g) ''raw_score'' = PFloat (Fin r)" "py_get (canon_dict g) ''decision_score'' = PFloat (Fin d)"
    "py_get (canon_dict g) ''calibrated_probability'' = cp"
    by (simp_all add: py_get_canon [OF d])
  have feat: "py_eq (canon golden_features) golden_features" by (rule py_eq_canon) simp
  have fin: "all_finite isfinite ([PFloat (Fin r), PFloat (Fin d)] @ (if cp \<noteq> PNone then [cp] else [])) = Inr True"
    using assms(2) by (simp add: is_finite_def cp_def split: option.split)
  have tol: "py_eq (PFloat (Fin t)) (PFloat GOLDEN_PROBE_TOLERANCE)" by (simp add: t num_eq_def)
  show "check_golden isfinite (PDict (canon_dict g)) = Inr (canon_dict g)"
    unfolding check_golden_def typed_of_Some option.case get sha fin res_bind_simps using keys feat tol by simp
qed

section \<open>The manifest\<close>

lemma sources_plain: "sources_dict ss = Inr v \<Longrightarrow> json_plain v"
proof -
  assume s: "sources_dict ss = Inr v"
  then have v: "v = PDict (map (\<lambda>(k, s). (k, PDict (reference_source_dict s))) (zip SOURCE_KEYS ss))" and l: "length ss = length SOURCE_KEYS"
    by (auto simp: sources_dict_def split: if_splits)
  have "map fst (map (\<lambda>(k, s). (k, PDict (reference_source_dict s))) (zip SOURCE_KEYS ss)) = SOURCE_KEYS"
    using l by (simp add: comp_def split_beta map_fst_zip [symmetric] del: map_fst_zip) (simp add: map_fst_zip)
  moreover have "distinct SOURCE_KEYS" by (simp add: SOURCE_KEYS_def)
  moreover have "json_plain (PDict (reference_source_dict s))" for s
    by (cases "rsrc_fraud_row_count s") (simp_all add: reference_source_dict_def opt_int_def)
  ultimately show ?thesis by (auto simp: v list_all_iff)
qed

lemma dicts_plain [simp]:
  "json_plain (PDict (quarantine_dict q))" "json_plain (PDict (filtering_dict f))" "json_plain (PDict (pool_dict p))"
  "json_plain (PDict (reference_file_dict r))" "json_plain (PDict (intended_use_dict u))" "json_plain (PDict (recipe_dict rc))"
  "json_plain (PDict (data_role_dict rl))"
  by (simp_all add: quarantine_dict_def filtering_dict_def pool_dict_def reference_file_dict_def intended_use_dict_def recipe_dict_def data_role_dict_def)

lemma opt_plain [simp]: "(\<And>x. json_plain (PDict (f x))) \<Longrightarrow> json_plain (opt_dict f y)"
  by (cases y) (simp_all add: opt_dict_def)

lemma threshold_plain: "tp_value t \<noteq> NaN \<Longrightarrow> json_plain (PDict (threshold_dict t))"
  by (simp add: threshold_dict_def)

lemma json_plain_PDict: "json_plain (PDict d) \<longleftrightarrow> dict_ok d \<and> (\<forall>(k, v) \<in> set d. json_plain v)"
  by (auto simp: list_all_iff)

lemma data_roles_plain [simp]: "json_plain (PDict (data_roles_dict rs))"
  unfolding json_plain_PDict by (simp add: data_roles_dict_def del: json_plain.simps)

lemma training_plain [simp]: "json_plain (PDict (training_dict t))"
  unfolding json_plain_PDict by (simp add: training_dict_def del: json_plain.simps(1-3))

lemma reference_plain: "reference_dict h = Inr d \<Longrightarrow> json_plain (PDict d)"
  unfolding json_plain_PDict
  by (auto simp: reference_dict_def res_bind_Inr_iff sources_plain simp del: json_plain.simps(3))

text \<open>Provenance as the builders make it: what the readers of a manifest ask of each record.\<close>

definition provenance_ok :: "py_exc + quarantine_anchor \<Rightarrow> model_bundle \<Rightarrow> bool" where
  "provenance_ok anchor b \<longleftrightarrow> iu_evidence_category (mb_intended_use b) \<in> set EVIDENCE_CATEGORIES \<and>
     is_identifier (tp_source (mb_threshold_provenance b)) \<and> is_identifier (tp_model_linkage (mb_threshold_provenance b)) \<and>
     is_identifier (tp_purpose (mb_threshold_provenance b)) \<and> training_ok anchor (mb_training_provenance b) \<and>
     (\<forall>h d. mb_reference_provenance b = Some h \<longrightarrow> reference_dict h = Inr d \<longrightarrow> parse_reference_provenance anchor (PDict d) = Inr h)"

lemma parse_intended_use_dict:
  assumes "is_identifier (iu_producer_policy u)" and "is_sha256 (iu_producer_policy_sha256 u)"
    and "iu_evidence_category u \<in> set EVIDENCE_CATEGORIES"
  shows "parse_intended_use (PDict (intended_use_dict u)) = Inr u"
proof -
  have g: "py_get (intended_use_dict u) ''producer_policy'' = PStr (iu_producer_policy u)"
    "py_get (intended_use_dict u) ''producer_policy_sha256'' = PStr (iu_producer_policy_sha256 u)"
    "py_get (intended_use_dict u) ''evidence_category'' = PStr (iu_evidence_category u)"
    "py_get (intended_use_dict u) ''historical_taint'' = PBool (iu_historical_taint u)"
    "py_get (intended_use_dict u) ''decision_eligible'' = PBool (iu_decision_eligible u)"
    "py_get (intended_use_dict u) ''historical_metrics_claimed'' = PBool (iu_historical_metrics_claimed u)"
    "py_get (intended_use_dict u) ''evaluation_performed'' = PBool (iu_evaluation_performed u)"
    by (simp_all add: intended_use_dict_def py_get_def)
  show ?thesis using assms by (simp add: parse_intended_use_def g in_string_set_def)
qed

lemma parse_threshold_dict:
  assumes "is_identifier (tp_source t)" and "is_identifier (tp_model_linkage t)" and "is_identifier (tp_purpose t)"
    and "tp_value t = Fin q" and "\<And>y. isfinite (PFloat y) = Inr (is_finite y)"
  shows "parse_threshold_provenance isfinite (PDict (threshold_dict t)) = Inr t"
proof -
  have g: "py_get (threshold_dict t) ''value'' = PFloat (Fin q)" "py_get (threshold_dict t) ''source'' = PStr (tp_source t)"
    "py_get (threshold_dict t) ''model_linkage'' = PStr (tp_model_linkage t)" "py_get (threshold_dict t) ''purpose'' = PStr (tp_purpose t)"
    "py_get (threshold_dict t) ''calibrated'' = PBool (tp_calibrated t)" "py_get (threshold_dict t) ''cost_optimal'' = PBool (tp_cost_optimal t)"
    "py_get (threshold_dict t) ''razorpay_approved'' = PBool (tp_razorpay_approved t)"
    "py_get (threshold_dict t) ''production_approved'' = PBool (tp_production_approved t)"
    by (simp_all add: threshold_dict_def py_get_def assms(4))
  show ?thesis using assms by (simp add: parse_threshold_provenance_def g finite_number_def py_float_def is_finite_def)
qed

text \<open>The fields of a manifest that was built, in canonical order.\<close>

lemma bundle_manifest_Inr:
  assumes "bundle_manifest rt b golden artifacts = Inr m"
  obtains x reference i versions where "py_float (mb_operating_threshold b) = Inr x"
    "(case mb_reference_provenance b of None \<Rightarrow> Inr PNone | Some h \<Rightarrow> res_bind (reference_dict h) (\<lambda>d. Inr (PDict d))) = Inr reference"
    "runtime_versions rt = Inr versions" "(\<exists>c. mb_model b = Some c \<and> positive_class_index c ''model'' = Inr i)"
    "m = [(''bundle_format_version'', PStr BUNDLE_FORMAT_VERSION), (''model_version'', PStr (mb_model_version b)),
          (''operating_threshold'', PFloat x), (''score_type'', PStr (mb_score_type b)),
          (''feature_schema'', PList (map PStr (mb_feature_schema b))), (''training_data_fingerprint'', mb_training_data_fingerprint b),
          (''intended_use'', PDict (intended_use_dict (mb_intended_use b))),
          (''threshold_provenance'', PDict (threshold_dict (mb_threshold_provenance b))),
          (''training_provenance'', PDict (training_dict (mb_training_provenance b))),
          (''historical_reference_provenance'', reference), (''positive_class_label'', PInt POSITIVE_CLASS_LABEL),
          (''positive_class_index'', PInt i), (''golden_probe'', PDict golden), (''runtime'', PDict (runtime_dict rt versions)),
          (''artifacts'', PDict artifacts)]"
  using assms unfolding bundle_manifest_def res_bind_Inr_iff
  by (elim exE conjE) (rule that, auto split: option.splits)

lemma positive_class_index_one: "positive_class_index c l = Inr i \<Longrightarrow> i = 1"
  by (auto simp: positive_class_index_def split: class_array.splits if_splits)

lemma runtime_versions_Inr: "runtime_versions rt = Inr versions \<Longrightarrow> map fst versions = RUNTIME_PACKAGES"
  by (auto simp: runtime_versions_def RUNTIME_PACKAGES_def res_bind_Inr_iff)

lemma fst_strings: "map fst (map (\<lambda>(k, v). (k, PStr v)) kvs) = map fst kvs"
  by (induction kvs) auto

lemma runtime_dict_plain:
  assumes "runtime_versions rt = Inr versions"
  shows "json_plain (PDict (runtime_dict rt versions))"
proof -
  have "dict_ok (map (\<lambda>(k, v). (k, PStr v)) versions)"
    by (simp only: fst_strings runtime_versions_Inr [OF assms]) (simp add: RUNTIME_PACKAGES_def)
  then have d: "json_plain (PDict (map (\<lambda>(k, v). (k, PStr v)) versions))"
    unfolding json_plain_PDict by (intro conjI) auto
  show ?thesis unfolding json_plain_PDict using d by (auto simp: runtime_dict_def current_runtime_def simp del: json_plain.simps(3))
qed

lemma map_of_strings: "map_of (map (\<lambda>(k, v). (k, PStr v)) kvs) k = map_option PStr (map_of kvs k)"
  by (induction kvs) auto

lemma check_runtime_same:
  assumes "runtime_versions rt = Inr versions"
  shows "check_runtime rt (canon (PDict (runtime_dict rt versions))) = Inr ()"
proof -
  let ?r = "runtime_dict rt versions" and ?d = "map (\<lambda>(k, v). (k, PStr v)) versions"
  have plain: "json_plain (PDict ?r)" by (rule runtime_dict_plain [OF assms])
  then have ok: "dict_ok ?r" by simp
  have dep: "py_get ?r ''dependencies'' = PDict ?d" by (simp add: runtime_dict_def current_runtime_def py_get_def)
  have okd: "dict_ok ?d" using json_plain_get [OF plain, of "''dependencies''"] by (simp add: dep)
  have v: "map fst versions = RUNTIME_PACKAGES" by (rule runtime_versions_Inr [OF assms])
  have keys: "fst ` set ?r = set RUNTIME_FIELDS" by (auto simp: runtime_dict_def current_runtime_def RUNTIME_FIELDS_def)
  have keysd: "fst ` set ?d = set RUNTIME_PACKAGES" using arg_cong [OF fst_strings, of set versions] v by (metis set_map)
  have cur: "check_runtime_fields (current_runtime rt) (canon_dict ?r) = Inr ()"
    using ok by (simp add: check_runtime_fields_def current_runtime_def) (simp add: runtime_dict_def current_runtime_def py_get_def)
  have deps: "py_get (canon_dict ?d) k = PStr w" if "(k, w) \<in> set versions" for k w
  proof -
    have "distinct (map fst versions)" by (simp add: v RUNTIME_PACKAGES_def)
    then have "map_of versions k = Some w" using that by simp
    then show ?thesis using okd by (simp add: py_get_canon) (simp add: py_get_def map_of_strings)
  qed
  have "res_map (\<lambda>(package, version). if py_get (canon_dict ?d) package = PStr version then Inr ()
       else Inl (artifact_error (''Dependency mismatch for '' @ package @ '': bundle '' @ py_repr (py_get (canon_dict ?d) package) @ '', current '' @ repr_str version @ ''.''))) versions
     = Inr (map (\<lambda>_. ()) versions)"
    by (rule res_map_total) (auto simp: deps)
  then have "check_dependencies versions (canon_dict ?d) = Inr ()" by (simp add: check_dependencies_def)
  then show ?thesis using ok keys keysd cur by (simp add: check_runtime_def dep assms)
qed

lemma check_artifacts_built:
  assumes "set (map fst artifacts) = set (expected_artifacts m)" and "dict_ok artifacts" and "json_plain (PDict artifacts)"
    and "\<And>name v. (name, v) \<in> set artifacts \<Longrightarrow> check_artifact_entry (name, v) = Inr ()"
    and "\<not> (category = REFERENCE \<and> (py_get m ''score_type'' \<noteq> PStr ''raw_score'' \<or> map_of artifacts ''calibrator'' \<noteq> None))"
    and "py_get m ''artifacts'' = PDict (canon_dict artifacts)"
  shows "check_artifacts m category = Inr (canon_dict artifacts)"
proof -
  have "check_artifact_entry kv = Inr ()" if "kv \<in> set (canon_dict artifacts)" for kv
  proof -
    obtain k v where kv: "kv = (k, canon v)" "(k, v) \<in> set artifacts" using \<open>kv \<in> _\<close> by (auto simp: canon_dict_def)
    have "json_plain v" using assms(3) kv(2) by (auto simp: list_all_iff)
    then show ?thesis using artifact_entry_canon assms(4) kv by blast
  qed
  then have "res_map check_artifact_entry (canon_dict artifacts) = Inr (map (\<lambda>_. ()) (canon_dict artifacts))"
    by (intro res_map_total) simp
  moreover have "map_of (canon_dict artifacts) ''calibrator'' \<noteq> None \<longleftrightarrow> map_of artifacts ''calibrator'' \<noteq> None"
    by (simp add: map_of_canon [OF assms(2)])
  ultimately show ?thesis using assms(1,5) by (simp add: check_artifacts_def assms(6))
qed

section \<open>The directory\<close>

definition stable_file :: "string \<Rightarrow> fs_node" where
  "stable_file bytes = (let i = \<lparr>fi_dev = 0, fi_ino = 0, fi_size = int (length bytes)\<rparr>
     in Fs_File \<lparr>fr_before = i, fr_chunks = [bytes], fr_after = i\<rparr>)"

definition directory_of :: "(string \<times> string) list \<Rightarrow> fs_node" where
  "directory_of files = Fs_Dir (map (\<lambda>(n, bytes). (n, stable_file bytes)) files)"

lemma read_stable: "map_of files n = Some bytes \<Longrightarrow> read_regular_file_at (directory_of files) n l = Inr bytes"
proof -
  assume n: "map_of files n = Some bytes"
  have "map_of (map (\<lambda>(n, bytes). (n, stable_file bytes)) files) n = map_option stable_file (map_of files n)"
    by (induction files) auto
  then have "open_file (directory_of files) n = Some (stable_file bytes)"
    by (simp add: open_file_def directory_of_def n stable_file_def Let_def)
  then show ?thesis by (simp add: read_regular_file_at_def stable_file_def read_all_def Let_def)
qed

definition artifact_files :: "('p \<Rightarrow> string) \<Rightarrow> 'p payloads \<Rightarrow> (string \<times> string) list" where
  "artifact_files dump ps =
     concat (map (\<lambda>(n, p). [(n @ ''.joblib'', dump p), (n @ ''.joblib.sha256'', checksum_sidecar_bytes (dump p) (n @ ''.joblib''))]) (named_payloads ps))"

lemma artifact_file_at:
  "(n, p) \<in> set (named_payloads ps) \<Longrightarrow> map_of (artifact_files dump ps @ rest) (n @ ''.joblib'') = Some (dump p)"
  "map_of (artifact_files dump ps @ (MANIFEST_FILENAME, t) # rest) MANIFEST_FILENAME = Some t"
  by (cases "py_calibrator ps"; auto simp: artifact_files_def named_payloads_def MANIFEST_FILENAME_def)+

section \<open>Loading what was saved\<close>

definition saved_artifacts :: "('p, 'x) load_env \<Rightarrow> ('p \<Rightarrow> string) \<Rightarrow> 'p payloads \<Rightarrow> (string, pyval) dict" where
  "saved_artifacts env dump ps =
     map (\<lambda>(n, p). (n, artifact_entry (n @ ''.joblib'') (dump p) (lib_type (le_library env) p))) (named_payloads ps)"

text \<open>What \<open>joblib\<close> is relied on for: a dumped payload loads as itself, from a file that is not empty.\<close>

definition payloads_survive :: "('p, 'x) library \<Rightarrow> ('p \<Rightarrow> string) \<Rightarrow> 'p payloads \<Rightarrow> bool" where
  "payloads_survive lib dump ps \<longleftrightarrow>
     (\<forall>(n, p) \<in> set (named_payloads ps). lib_load lib (dump p) = Inr p \<and> dump p \<noteq> [] \<and> is_text_value (PStr (lib_type lib p)))"

lemma named_payloads_keys: "distinct (map fst (named_payloads ps))"
  by (simp add: named_payloads_def split: option.split)

lemma fst_saved_artifacts: "map fst (saved_artifacts env dump ps) = map fst (named_payloads ps)"
  by (simp add: saved_artifacts_def comp_def split_beta)

lemma saved_artifacts_ok: "dict_ok (saved_artifacts env dump ps)"
  by (simp only: fst_saved_artifacts named_payloads_keys)

lemma artifact_entry_plain [simp]: "json_plain (artifact_entry n e ty)"
  by (simp add: artifact_entry_def)

lemma saved_artifacts_plain: "json_plain (PDict (saved_artifacts env dump ps))"
  unfolding json_plain_PDict using saved_artifacts_ok [of env dump ps] by (auto simp: saved_artifacts_def)

lemma saved_entry:
  assumes "(n, p) \<in> set (named_payloads ps)"
  shows "py_get (entry_of (canon_dict (saved_artifacts env dump ps)) n) ''filename'' = PStr (n @ ''.joblib'')"
    and "py_get (entry_of (canon_dict (saved_artifacts env dump ps)) n) ''sha256'' = PStr (sha256_hex (dump p))"
    and "py_get (entry_of (canon_dict (saved_artifacts env dump ps)) n) ''size_bytes'' = PInt (int (length (dump p)))"
    and "py_get (entry_of (canon_dict (saved_artifacts env dump ps)) n) ''python_type'' = PStr (lib_type (le_library env) p)"
proof -
  let ?e = "[(''filename'', PStr (n @ ''.joblib'')), (''sha256'', PStr (sha256_hex (dump p))), (''size_bytes'', PInt (int (length (dump p)))),
      (''python_type'', PStr (lib_type (le_library env) p))]"
  have "(n, artifact_entry (n @ ''.joblib'') (dump p) (lib_type (le_library env) p)) \<in> set (saved_artifacts env dump ps)"
    using assms by (force simp: saved_artifacts_def)
  then have "py_get (saved_artifacts env dump ps) n = PDict ?e"
    using saved_artifacts_ok [of env dump ps] by (simp add: py_get_def artifact_entry_def)
  then have e: "entry_of (canon_dict (saved_artifacts env dump ps)) n = canon_dict ?e"
    using saved_artifacts_ok [of env dump ps] by (simp add: entry_of_def)
  have "dict_ok ?e" by simp
  then show "py_get (entry_of (canon_dict (saved_artifacts env dump ps)) n) ''filename'' = PStr (n @ ''.joblib'')"
    "py_get (entry_of (canon_dict (saved_artifacts env dump ps)) n) ''sha256'' = PStr (sha256_hex (dump p))"
    "py_get (entry_of (canon_dict (saved_artifacts env dump ps)) n) ''size_bytes'' = PInt (int (length (dump p)))"
    "py_get (entry_of (canon_dict (saved_artifacts env dump ps)) n) ''python_type'' = PStr (lib_type (le_library env) p)"
    unfolding e by (simp_all only: py_get_canon) (simp_all add: py_get_def)
qed

lemma saved_artifact_name: "map_of (canon_dict (saved_artifacts env dump ps)) name \<noteq> None \<longleftrightarrow> name \<in> set (map fst (named_payloads ps))"
proof -
  have "map_of (canon_dict (saved_artifacts env dump ps)) name = None \<longleftrightarrow> name \<notin> set (map fst (saved_artifacts env dump ps))"
    unfolding map_of_canon [OF saved_artifacts_ok] by (simp add: map_of_eq_None_iff)
  then show ?thesis by (simp add: fst_saved_artifacts)
qed

lemma payload_order: "filter (\<lambda>name. map_of (canon_dict (saved_artifacts env dump ps)) name \<noteq> None) PAYLOAD_ORDER = map fst (named_payloads ps)"
  unfolding saved_artifact_name by (cases "py_calibrator ps") (simp_all add: PAYLOAD_ORDER_def named_payloads_def)

lemma read_saved_artifact:
  assumes "(n, p) \<in> set (named_payloads ps)"
  shows "read_artifact (directory_of (artifact_files dump ps @ rest)) (canon_dict (saved_artifacts env dump ps)) n = Inr (n, dump p)"
proof -
  have "read_regular_file_at (directory_of (artifact_files dump ps @ rest)) (n @ ''.joblib'') l = Inr (dump p)" for l
    by (rule read_stable [OF artifact_file_at(1) [OF assms]])
  then show ?thesis by (simp add: read_artifact_def Let_def saved_entry [OF assms] py_str_def num_eq_def)
qed

lemma read_saved_artifacts:
  "read_artifacts (directory_of (artifact_files dump ps @ rest)) (canon_dict (saved_artifacts env dump ps)) =
     Inr (map (\<lambda>(n, p). (n, dump p)) (named_payloads ps))"
  unfolding read_artifacts_def payload_order res_map_map
  by (rule res_map_total) (auto simp: read_saved_artifact)

lemma deserialise_saved:
  "(\<And>n p. (n, p) \<in> set nps \<Longrightarrow> lib_load lib (dump p) = Inr p \<and> py_get (entry_of artifacts n) ''python_type'' = PStr (lib_type lib p)) \<Longrightarrow>
     deserialise lib artifacts (map (\<lambda>(n, p). (n, dump p)) nps) = (map (dump \<circ> snd) nps, Inr nps)"
proof (induction nps)
  case (Cons np nps)
  obtain n p where np: "np = (n, p)" by (cases np)
  have "lib_load lib (dump p) = Inr p" "py_get (entry_of artifacts n) ''python_type'' = PStr (lib_type lib p)"
    using Cons.prems [of n p] by (simp_all add: np)
  moreover have "deserialise lib artifacts (map (\<lambda>(n, p). (n, dump p)) nps) = (map (dump \<circ> snd) nps, Inr nps)"
    by (rule Cons.IH, rule Cons.prems) simp
  ultimately show ?case by (simp add: np)
qed simp

lemma payloads_of_named: "payloads_of (named_payloads ps) = Inr ps"
  by (cases "py_calibrator ps") (simp_all add: payloads_of_def named_payloads_def)

section \<open>A saved bundle loads\<close>

text \<open>The manifest that was written, as the loader decodes it.\<close>

lemma saved_manifest_Inr:
  assumes "saved_manifest env dump b ps = Inr m"
  obtains g where "validate_bundle (le_isfinite env) (le_policies env) b = Inr ()"
    "golden_probe (le_library env) (le_isfinite env) (le_policies env) b ps = Inr g"
    "bundle_manifest (le_runtime env) b g (saved_artifacts env dump ps) = Inr m"
proof -
  obtain g where "validate_bundle (le_isfinite env) (le_policies env) b = Inr ()"
    "golden_probe (le_library env) (le_isfinite env) (le_policies env) b ps = Inr g"
    "bundle_manifest (le_runtime env) b g (saved_artifacts env dump ps) = Inr m"
    using assms unfolding saved_manifest_def saved_artifacts_def res_bind_Inr_iff by auto
  then show thesis by (rule that)
qed

lemma manifest_keys:
  "set [''bundle_format_version'', ''model_version'', ''operating_threshold'', ''score_type'', ''feature_schema'', ''training_data_fingerprint'',
     ''intended_use'', ''threshold_provenance'', ''training_provenance'', ''historical_reference_provenance'', ''positive_class_label'',
     ''positive_class_index'', ''golden_probe'', ''runtime'', ''artifacts''] = set BUNDLE_MANIFEST_FIELDS"
  by code_simp

lemma bundle_manifest_get:
  assumes "m = [(''bundle_format_version'', v1), (''model_version'', v2), (''operating_threshold'', v3), (''score_type'', v4),
    (''feature_schema'', v5), (''training_data_fingerprint'', v6), (''intended_use'', v7), (''threshold_provenance'', v8),
    (''training_provenance'', v9), (''historical_reference_provenance'', v10), (''positive_class_label'', v11),
    (''positive_class_index'', v12), (''golden_probe'', v13), (''runtime'', v14), (''artifacts'', v15)]"
  shows "dict_ok m" and "set (map fst m) = set BUNDLE_MANIFEST_FIELDS"
    and "py_get m ''bundle_format_version'' = v1" and "py_get m ''model_version'' = v2" and "py_get m ''operating_threshold'' = v3"
    and "py_get m ''score_type'' = v4" and "py_get m ''feature_schema'' = v5" and "py_get m ''training_data_fingerprint'' = v6"
    and "py_get m ''intended_use'' = v7" and "py_get m ''threshold_provenance'' = v8" and "py_get m ''training_provenance'' = v9"
    and "py_get m ''historical_reference_provenance'' = v10" and "py_get m ''positive_class_label'' = v11"
    and "py_get m ''positive_class_index'' = v12" and "py_get m ''golden_probe'' = v13" and "py_get m ''runtime'' = v14"
    and "py_get m ''artifacts'' = v15"
proof -
  show "set (map fst m) = set BUNDLE_MANIFEST_FIELDS" unfolding manifest_keys [symmetric] assms by (simp only: list.map fst_conv)
qed (simp_all add: assms py_get_def)

text \<open>A binding that holds fixes the identifier, the digest and the value of the threshold.\<close>

lemma policy_binding_readable:
  assumes "validate_policy_binding policies u t tr version (Fin q) score_type = Inr ()"
  shows "is_identifier (iu_producer_policy u)" and "is_sha256 (iu_producer_policy_sha256 u)" and "tp_value t = Fin q"
proof -
  obtain p where p: "producer_policy policies (iu_producer_policy u) = Inr p" "policy_sha256 p = Inr (iu_producer_policy_sha256 u)"
    "feq (tp_value t) (Fin q)"
    using policy_binding_Inr [OF assms] by blast
  show "is_identifier (iu_producer_policy u)" using p(1) by (auto simp: producer_policy_def res_bind_Inr_iff split: if_splits)
  show "is_sha256 (iu_producer_policy_sha256 u)" using p(2) unfolding policy_sha256_def by (rule canonical_json_is_sha256)
  show "tp_value t = Fin q" using p(3) by simp
qed

text \<open>What a successful save knows of the manifest it writes.\<close>

definition manifest_of :: "('p, 'x) load_env \<Rightarrow> ('p \<Rightarrow> string) \<Rightarrow> model_bundle \<Rightarrow> 'p payloads \<Rightarrow> rat \<Rightarrow> string \<Rightarrow> (string, pyval) dict \<Rightarrow>
   pyval \<Rightarrow> (string \<times> string) list \<Rightarrow> (string, pyval) dict \<Rightarrow> bool" where
  "manifest_of env dump b ps q fp g reference versions m \<longleftrightarrow>
     validate_bundle (le_isfinite env) (le_policies env) b = Inr () \<and>
     golden_probe (le_library env) (le_isfinite env) (le_policies env) b ps = Inr g \<and>
     py_float (mb_operating_threshold b) = Inr (Fin q) \<and> mb_training_data_fingerprint b = PStr fp \<and>
     (case mb_reference_provenance b of None \<Rightarrow> Inr PNone | Some h \<Rightarrow> res_bind (reference_dict h) (\<lambda>d. Inr (PDict d))) = Inr reference \<and>
     runtime_versions (le_runtime env) = Inr versions \<and>
     dict_ok m \<and> set (map fst m) = set BUNDLE_MANIFEST_FIELDS \<and> py_get m ''bundle_format_version'' = PStr BUNDLE_FORMAT_VERSION \<and>
     py_get m ''model_version'' = PStr (mb_model_version b) \<and> py_get m ''operating_threshold'' = PFloat (Fin q) \<and>
     py_get m ''score_type'' = PStr (mb_score_type b) \<and> py_get m ''feature_schema'' = PList (map PStr ALL_FEATURES) \<and>
     py_get m ''training_data_fingerprint'' = PStr fp \<and>
     py_get m ''intended_use'' = PDict (intended_use_dict (mb_intended_use b)) \<and>
     py_get m ''threshold_provenance'' = PDict (threshold_dict (mb_threshold_provenance b)) \<and>
     py_get m ''training_provenance'' = PDict (training_dict (mb_training_provenance b)) \<and>
     py_get m ''historical_reference_provenance'' = reference \<and> py_get m ''positive_class_label'' = PInt POSITIVE_CLASS_LABEL \<and>
     py_get m ''positive_class_index'' = PInt 1 \<and> py_get m ''golden_probe'' = PDict g \<and>
     py_get m ''runtime'' = PDict (runtime_dict (le_runtime env) versions) \<and>
     py_get m ''artifacts'' = PDict (saved_artifacts env dump ps)"

lemma saved_manifest_of:
  assumes "saved_manifest env dump b ps = Inr m"
  obtains q fp g reference versions where "manifest_of env dump b ps q fp g reference versions m"
proof -
  obtain g where v: "validate_bundle (le_isfinite env) (le_policies env) b = Inr ()"
    and g: "golden_probe (le_library env) (le_isfinite env) (le_policies env) b ps = Inr g"
    and m: "bundle_manifest (le_runtime env) b g (saved_artifacts env dump ps) = Inr m"
    using assms by (rule saved_manifest_Inr)
  obtain fp x0 where b: "mb_feature_schema b = ALL_FEATURES" "mb_training_data_fingerprint b = PStr fp"
    "threshold_in_range (le_isfinite env) (mb_operating_threshold b) = Inr True" "py_float (mb_operating_threshold b) = Inr x0"
    using validate_bundle_Inr [OF v] by blast
  obtain x reference i versions where f: "py_float (mb_operating_threshold b) = Inr x"
    "(case mb_reference_provenance b of None \<Rightarrow> Inr PNone | Some h \<Rightarrow> res_bind (reference_dict h) (\<lambda>d. Inr (PDict d))) = Inr reference"
    "runtime_versions (le_runtime env) = Inr versions" "\<exists>c. mb_model b = Some c \<and> positive_class_index c ''model'' = Inr i"
    and mm: "m = [(''bundle_format_version'', PStr BUNDLE_FORMAT_VERSION), (''model_version'', PStr (mb_model_version b)),
          (''operating_threshold'', PFloat x), (''score_type'', PStr (mb_score_type b)),
          (''feature_schema'', PList (map PStr (mb_feature_schema b))), (''training_data_fingerprint'', mb_training_data_fingerprint b),
          (''intended_use'', PDict (intended_use_dict (mb_intended_use b))),
          (''threshold_provenance'', PDict (threshold_dict (mb_threshold_provenance b))),
          (''training_provenance'', PDict (training_dict (mb_training_provenance b))),
          (''historical_reference_provenance'', reference), (''positive_class_label'', PInt POSITIVE_CLASS_LABEL),
          (''positive_class_index'', PInt i), (''golden_probe'', PDict g), (''runtime'', PDict (runtime_dict (le_runtime env) versions)),
          (''artifacts'', PDict (saved_artifacts env dump ps))]"
    using m by (rule bundle_manifest_Inr)
  have i: "i = 1" using f(4) positive_class_index_one by blast
  obtain q where q: "x = Fin q" using threshold_in_range_float [OF b(3) f(1)] unit_finite by blast
  have "manifest_of env dump b ps q fp g reference versions m"
    unfolding manifest_of_def bundle_manifest_get [OF mm] using v g b f(1-3) bundle_manifest_get(1,2) [OF mm] by (simp add: i q)
  then show thesis by (rule that)
qed

lemma header_saved:
  assumes "manifest_of env dump b ps q fp g reference versions m" and "\<And>y. le_isfinite env (PFloat y) = Inr (is_finite y)"
  shows "check_manifest_header (le_isfinite env) (canon_dict m) = Inr ()"
proof -
  note m = assms(1) [unfolded manifest_of_def]
  have d: "dict_ok m" using m by blast
  obtain pre model x where v: "threshold_in_range (le_isfinite env) (mb_operating_threshold b) = Inr True" "is_sha256 fp"
    "strip_by is_space (mb_model_version b) \<noteq> []" "validate_scores b = Inr ()"
    using validate_bundle_Inr m by fastforce
  have range: "fle (Fin 0) (Fin q)" "fle (Fin q) (Fin 1)" using threshold_in_range_float [OF v(1)] m by blast+
  then have t: "threshold_in_range (le_isfinite env) (PFloat (Fin q)) = Inr True"
    using assms(2) by (simp add: threshold_in_range_def finite_number_def py_float_def is_finite_def)
  have s: "in_string_set (PStr (mb_score_type b)) [''raw_score'', ''calibrated_probability''] = Inr True"
    using v(4) by (auto simp: validate_scores_def in_string_set_def split: if_splits)
  have keys: "set (map fst (canon_dict m)) = set BUNDLE_MANIFEST_FIELDS" using m by simp
  have bfv: "map_of (canon_dict m) ''bundle_format_version'' \<noteq> None"
  proof
    assume "map_of (canon_dict m) ''bundle_format_version'' = None"
    then have "py_get m ''bundle_format_version'' = PNone" by (simp add: map_of_canon [OF d] py_get_def)
    moreover have "py_get m ''bundle_format_version'' = PStr BUNDLE_FORMAT_VERSION" using m by blast
    ultimately show False by simp
  qed
  have mv: "is_text_value (PStr (mb_model_version b))" using v(3) by (simp add: is_text_value_def)
  have g: "py_get (canon_dict m) ''bundle_format_version'' = PStr BUNDLE_FORMAT_VERSION" "py_get (canon_dict m) ''model_version'' = PStr (mb_model_version b)"
    "py_get (canon_dict m) ''operating_threshold'' = PFloat (Fin q)" "py_get (canon_dict m) ''score_type'' = PStr (mb_score_type b)"
    "py_get (canon_dict m) ''feature_schema'' = PList (map PStr ALL_FEATURES)" "py_get (canon_dict m) ''training_data_fingerprint'' = PStr fp"
    "py_get (canon_dict m) ''positive_class_label'' = PInt POSITIVE_CLASS_LABEL" "py_get (canon_dict m) ''positive_class_index'' = PInt 1"
    unfolding py_get_canon [OF d] using m by (simp_all add: comp_def)
  show ?thesis unfolding check_manifest_header_def g t s using bfv keys mv v(2)
    by (simp add: sha_text_def py_str_def num_eq_def)
qed

lemma provenance_saved:
  assumes "manifest_of env dump b ps q fp g reference versions m" and "\<And>y. le_isfinite env (PFloat y) = Inr (is_finite y)"
    and "provenance_ok (le_anchor env) b"
  shows "check_provenance (le_isfinite env) (le_policies env) (le_anchor env) (canon_dict m) =
    Inr \<lparr>pv_intended_use = mb_intended_use b, pv_threshold = mb_threshold_provenance b, pv_training = mb_training_provenance b,
         pv_reference = mb_reference_provenance b\<rparr>"
proof -
  note m = assms(1) [unfolded manifest_of_def]
  note p = assms(3) [unfolded provenance_ok_def]
  have d: "dict_ok m" using m by blast
  have b: "validate_policy_binding (le_policies env) (mb_intended_use b) (mb_threshold_provenance b) (mb_training_provenance b)
      (mb_model_version b) (Fin q) (mb_score_type b) = Inr ()" "fp = tr_data_roles_sha256 (mb_training_provenance b)"
    "validate_reference_binding (le_policies env) (iu_evidence_category (mb_intended_use b)) (mb_reference_provenance b)
      (tr_data_roles (mb_training_provenance b)) (tr_quarantine (mb_training_provenance b)) = Inr ()"
    using validate_bundle_Inr [of "le_isfinite env" "le_policies env" b] m by auto
  note bound = policy_binding_readable [OF b(1)]
  have u: "parse_intended_use (canon (PDict (intended_use_dict (mb_intended_use b)))) = Inr (mb_intended_use b)"
    unfolding parse_intended_use_canon [OF dicts_plain(5)] using p bound by (blast intro: parse_intended_use_dict)
  have t: "parse_threshold_provenance (le_isfinite env) (canon (PDict (threshold_dict (mb_threshold_provenance b)))) = Inr (mb_threshold_provenance b)"
  proof -
    have "json_plain (PDict (threshold_dict (mb_threshold_provenance b)))" by (rule threshold_plain) (simp add: bound(3))
    then show ?thesis using parse_threshold_canon parse_threshold_dict [OF _ _ _ bound(3) assms(2)] p by metis
  qed
  have tr: "parse_training_provenance (le_anchor env) (canon (PDict (training_dict (mb_training_provenance b)))) = Inr (mb_training_provenance b)"
    unfolding parse_training_canon [OF training_plain] using p by (blast intro: parse_training_dict)
  have h: "(if canon reference = PNone then Inr None else res_bind (parse_reference_provenance (le_anchor env) (canon reference)) (\<lambda>h. Inr (Some h))) =
      Inr (mb_reference_provenance b)"
  proof (cases "mb_reference_provenance b")
    case None
    then have "reference = PNone" using m by simp
    then show ?thesis by (simp add: None)
  next
    case (Some h)
    then obtain r where r: "reference_dict h = Inr r" "reference = PDict r" using m by (auto simp: res_bind_Inr_iff)
    have "parse_reference_provenance (le_anchor env) (canon (PDict r)) = Inr h"
      unfolding parse_reference_canon [OF reference_plain [OF r(1)]] using p Some r(1) by blast
    then show ?thesis by (simp add: r(2) Some del: canon_PDict)
  qed
  have g: "py_get (canon_dict m) ''intended_use'' = canon (PDict (intended_use_dict (mb_intended_use b)))"
    "py_get (canon_dict m) ''threshold_provenance'' = canon (PDict (threshold_dict (mb_threshold_provenance b)))"
    "py_get (canon_dict m) ''training_provenance'' = canon (PDict (training_dict (mb_training_provenance b)))"
    "py_get (canon_dict m) ''historical_reference_provenance'' = canon reference"
    "py_get (canon_dict m) ''operating_threshold'' = PFloat (Fin q)" "py_get (canon_dict m) ''training_data_fingerprint'' = PStr fp"
    "py_get (canon_dict m) ''model_version'' = PStr (mb_model_version b)" "py_get (canon_dict m) ''score_type'' = PStr (mb_score_type b)"
    unfolding py_get_canon [OF d] using m by simp_all
  have s: "py_str (PStr x) = x" "py_float (PFloat y) = Inr y" for x y by (simp_all add: py_str_def py_float_def)
  show ?thesis unfolding check_provenance_def g u t tr h s res_bind_simps b(1) by (simp add: b(2) b(3) [unfolded b(2)])
qed

lemma saved_entry_ok:
  assumes "payloads_survive (le_library env) dump ps" and "(name, v) \<in> set (saved_artifacts env dump ps)"
  shows "check_artifact_entry (name, v) = Inr ()"
proof -
  obtain p where np: "(name, p) \<in> set (named_payloads ps)"
    and v: "v = artifact_entry (name @ ''.joblib'') (dump p) (lib_type (le_library env) p)"
    using assms(2) by (auto simp: saved_artifacts_def)
  then have p: "dump p \<noteq> []" "is_text_value (PStr (lib_type (le_library env) p))"
    using assms(1) by (auto simp: payloads_survive_def)
  have "0 < int (length (dump p))" using p(1) by simp
  then show ?thesis using p(2)
    by (simp add: check_artifact_entry_def v artifact_entry_def dict_of_def ARTIFACT_FIELDS_def py_get_def is_sha_value_def int_of_def insert_commute)
qed

lemma artifacts_saved:
  assumes "manifest_of env dump b ps q fp g reference versions m" and "carries (le_library env) ps b"
    and "payloads_survive (le_library env) dump ps"
  shows "check_artifacts (canon_dict m) (iu_evidence_category (mb_intended_use b)) = Inr (canon_dict (saved_artifacts env dump ps))"
proof -
  note m = assms(1) [unfolded manifest_of_def]
  have d: "dict_ok m" using m by blast
  have v: "validate_scores b = Inr ()"
    "\<not> (iu_evidence_category (mb_intended_use b) = REFERENCE \<and> (mb_score_type b \<noteq> ''raw_score'' \<or> mb_calibrator b \<noteq> None))"
    using validate_bundle_Inr [of "le_isfinite env" "le_policies env" b] m by blast+
  have cal: "mb_score_type b = (if py_calibrator ps = None then ''raw_score'' else ''calibrated_probability'')"
    using v(1) assms(2) by (auto simp: validate_scores_def carries_def split: if_splits)
  have g: "py_get (canon_dict m) ''score_type'' = PStr (mb_score_type b)"
    "py_get (canon_dict m) ''artifacts'' = PDict (canon_dict (saved_artifacts env dump ps))"
    unfolding py_get_canon [OF d] using m by simp_all
  have names: "set (map fst (saved_artifacts env dump ps)) = set (expected_artifacts (canon_dict m))"
    unfolding fst_saved_artifacts expected_artifacts_def g cal by (cases "py_calibrator ps") (auto simp: named_payloads_def)
  have "map_of (saved_artifacts env dump ps) ''calibrator'' \<noteq> None \<longleftrightarrow> ''calibrator'' \<in> set (map fst (saved_artifacts env dump ps))"
    by (simp add: map_of_eq_None_iff)
  also have "\<dots> \<longleftrightarrow> mb_calibrator b \<noteq> None"
    unfolding fst_saved_artifacts using assms(2) by (cases "py_calibrator ps") (simp_all add: named_payloads_def carries_def)
  finally have c: "map_of (saved_artifacts env dump ps) ''calibrator'' \<noteq> None \<longleftrightarrow> mb_calibrator b \<noteq> None" .
  have two: "\<not> (iu_evidence_category (mb_intended_use b) = REFERENCE \<and> (py_get (canon_dict m) ''score_type'' \<noteq> PStr ''raw_score'' \<or>
      map_of (saved_artifacts env dump ps) ''calibrator'' \<noteq> None))"
    using v(2) unfolding g c by simp
  show ?thesis using names saved_artifacts_ok saved_artifacts_plain saved_entry_ok [OF assms(3)] two g(2) by (rule check_artifacts_built)
qed

text \<open>The probe of the restored bundle is the probe of the saved one, and it compares equal to its document.\<close>

lemma golden_probe_restored:
  assumes "validate_bundle isfinite policies b = Inr ()" and "validate_bundle isfinite policies (restored x digest b) = Inr ()"
  shows "golden_probe lib isfinite policies (restored x digest b) ps = golden_probe lib isfinite policies b ps"
  unfolding golden_probe_def restored_simps assms by simp

lemma compare_same: "py_get actual key = PFloat (Fin r) \<Longrightarrow> py_get expected key = PFloat (Fin r) \<Longrightarrow> compare_scores actual expected key msg = Inr ()"
  by (simp add: compare_scores_def py_float_def isclose_def)

lemma golden_probe_accepted:
  assumes "golden_probe lib isfinite policies b ps = Inr g" and "json_plain (PDict g)"
  shows "verify_bundle_golden_probe lib isfinite policies b ps (canon_dict g) = Inr ()"
proof -
  obtain r d c h where g: "g = [(''calibrated_probability'', case c of None \<Rightarrow> PNone | Some q \<Rightarrow> PFloat (Fin q)), (''decision_score'', PFloat (Fin d)),
      (''features'', golden_features), (''raw_score'', PFloat (Fin r)), (''tolerance'', PFloat GOLDEN_PROBE_TOLERANCE), (''sha256'', PStr h)]"
    using golden_probe_Inr [OF assms(1)] by blast
  have e: "dict_ok g" using assms(2) by simp
  have a: "py_get g ''raw_score'' = PFloat (Fin r)" "py_get g ''decision_score'' = PFloat (Fin d)"
    "py_get g ''calibrated_probability'' = (case c of None \<Rightarrow> PNone | Some q \<Rightarrow> PFloat (Fin q))"
    by (simp_all add: g py_get_def)
  have k: "py_get (canon_dict g) ''raw_score'' = PFloat (Fin r)" "py_get (canon_dict g) ''decision_score'' = PFloat (Fin d)"
    "py_get (canon_dict g) ''calibrated_probability'' = (case c of None \<Rightarrow> PNone | Some q \<Rightarrow> PFloat (Fin q))"
    unfolding py_get_canon [OF e] a by (simp_all split: option.split)
  have one: "compare_scores g (canon_dict g) ''raw_score'' l = Inr ()" "compare_scores g (canon_dict g) ''decision_score'' l = Inr ()" for l
    using compare_same a k by blast+
  have cal: "(if (py_get g ''calibrated_probability'' = PNone) \<noteq> (py_get (canon_dict g) ''calibrated_probability'' = PNone) then l
      else if py_get g ''calibrated_probability'' \<noteq> PNone then compare_scores g (canon_dict g) ''calibrated_probability'' l' else Inr ()) = Inr ()" for l l'
    using a(3) k(3) compare_same [of g "''calibrated_probability''" _ "canon_dict g"] by (cases c) simp_all
  show ?thesis unfolding verify_bundle_golden_probe_def assms(1) probed_def sum.case res_bind_simps one using cal by simp
qed

lemma load_manifest_saved:
  assumes "manifest_of env dump b ps q fp g reference versions m" and "\<And>y. le_isfinite env (PFloat y) = Inr (is_finite y)"
    and "provenance_ok (le_anchor env) b" and "carries (le_library env) ps b" and "payloads_survive (le_library env) dump ps"
    and "le_loads env t = Inr (canon (PDict m))"
  shows "load_manifest env (directory_of (artifact_files dump ps @ (MANIFEST_FILENAME, t) # extras)) =
    Inr (canon_dict m, \<lparr>pv_intended_use = mb_intended_use b, pv_threshold = mb_threshold_provenance b,
           pv_training = mb_training_provenance b, pv_reference = mb_reference_provenance b\<rparr>,
         canon_dict (saved_artifacts env dump ps), canon_dict g)"
proof -
  note m = assms(1) [unfolded manifest_of_def]
  have d: "dict_ok m" using m by blast
  have gp: "golden_probe (le_library env) (le_isfinite env) (le_policies env) b ps = Inr g" "py_get m ''golden_probe'' = PDict g"
    using m by blast+
  then have golden: "check_golden (le_isfinite env) (py_get (canon_dict m) ''golden_probe'') = Inr (canon_dict g)"
    unfolding py_get_canon [OF d] using check_golden_computed(1) [OF gp(1) assms(2)] by simp
  have "py_get m ''runtime'' = PDict (runtime_dict (le_runtime env) versions)" "runtime_versions (le_runtime env) = Inr versions"
    using m by blast+
  then have rt: "check_runtime (le_runtime env) (py_get (canon_dict m) ''runtime'') = Inr ()"
    unfolding py_get_canon [OF d] using check_runtime_same by metis
  have read: "read_regular_file_at (directory_of (artifact_files dump ps @ (MANIFEST_FILENAME, t) # extras)) MANIFEST_FILENAME l = Inr t" for l
    by (rule read_stable [OF artifact_file_at(2)])
  have loads: "strict_json_object (le_loads env) t l = Inr (canon_dict m)" for l by (simp add: assms(6))
  have v: "validate_manifest (le_isfinite env) (le_policies env) (le_anchor env) (le_runtime env) (canon_dict m) =
      Inr (\<lparr>pv_intended_use = mb_intended_use b, pv_threshold = mb_threshold_provenance b,
             pv_training = mb_training_provenance b, pv_reference = mb_reference_provenance b\<rparr>,
           canon_dict (saved_artifacts env dump ps), canon_dict g)"
    unfolding validate_manifest_def header_saved [OF assms(1,2)] provenance_saved [OF assms(1-3)] golden rt
    by (simp add: catch_value_error_def artifacts_saved [OF assms(1,4,5)])
  show ?thesis unfolding load_manifest_def read res_bind_simps loads v by (simp add: catch_value_error_def)
qed

lemma loaded_bundle_saved:
  assumes "manifest_of env dump b ps q fp g reference versions m" and "carries (le_library env) ps b"
    and "(''model'', py_model ps) \<in> set (named_payloads ps)"
  shows "loaded_bundle (le_library env) (canon_dict m) \<lparr>pv_intended_use = mb_intended_use b, pv_threshold = mb_threshold_provenance b,
           pv_training = mb_training_provenance b, pv_reference = mb_reference_provenance b\<rparr> (canon_dict (saved_artifacts env dump ps)) ps =
    Inr (restored (Fin q) (sha256_hex (dump (py_model ps))) b)"
proof -
  note m = assms(1) [unfolded manifest_of_def]
  have d: "dict_ok m" using m by blast
  have b: "mb_feature_schema b = ALL_FEATURES" "mb_training_data_fingerprint b = PStr fp"
    using validate_bundle_Inr [of "le_isfinite env" "le_policies env" b] m by auto
  have g: "py_get (canon_dict m) ''model_version'' = PStr (mb_model_version b)"
    "py_get (canon_dict m) ''operating_threshold'' = PFloat (Fin q)" "py_get (canon_dict m) ''score_type'' = PStr (mb_score_type b)"
    "py_get (canon_dict m) ''feature_schema'' = PList (map PStr ALL_FEATURES)" "py_get (canon_dict m) ''training_data_fingerprint'' = PStr fp"
    unfolding py_get_canon [OF d] using m by (simp_all add: comp_def)
  have s: "py_str (PStr x) = x" "py_float (PFloat y) = Inr y" for x y by (simp_all add: py_str_def py_float_def)
  have "map py_str (map PStr ALL_FEATURES) = ALL_FEATURES" by (simp add: comp_def s)
  then show ?thesis unfolding loaded_bundle_def g s saved_entry(2) [OF assms(3)] res_bind_simps using assms(2) b
    by (simp add: restored_def carries_def)
qed

lemma save_then_load:
  assumes "saved_manifest env dump b ps = Inr m" and "canonical_manifest_bytes m = Inr t" and "le_loads env t = Inr (canon (PDict m))"
    and "carries (le_library env) ps b" and "provenance_ok (le_anchor env) b" and "payloads_survive (le_library env) dump ps"
    and "\<And>y. le_isfinite env (PFloat y) = Inr (is_finite y)" and "py_float (mb_operating_threshold b) = Inr x"
    and "list_all (\<lambda>(n, _). extra_name_ok ps n) extras"
  shows "\<exists>files. bundle_files env dump b ps extras = Inr files \<and>
    load_model_bundle_from_directory env (directory_of files) =
      (map (dump \<circ> snd) (named_payloads ps), Inr (restored x (sha256_hex (dump (py_model ps))) b, ps))"
proof -
  obtain q fp g reference versions where m: "manifest_of env dump b ps q fp g reference versions m"
    using assms(1) by (rule saved_manifest_of)
  note f = m [unfolded manifest_of_def]
  let ?files = "artifact_files dump ps @ (MANIFEST_FILENAME, t) # extras" and ?b = "restored (Fin q) (sha256_hex (dump (py_model ps))) b"
  let ?a = "canon_dict (saved_artifacts env dump ps)"
  have x: "x = Fin q" using f assms(8) by simp
  have files: "bundle_files env dump b ps extras = Inr ?files"
    by (simp add: bundle_files_def assms(1,2,9) artifact_files_def)
  have des: "deserialise (le_library env) ?a (map (\<lambda>(n, p). (n, dump p)) (named_payloads ps)) =
      (map (dump \<circ> snd) (named_payloads ps), Inr (named_payloads ps))"
  proof (rule deserialise_saved)
    fix n p assume np: "(n, p) \<in> set (named_payloads ps)"
    then have "lib_load (le_library env) (dump p) = Inr p" using assms(6) unfolding payloads_survive_def by blast
    then show "lib_load (le_library env) (dump p) = Inr p \<and> py_get (entry_of ?a n) ''python_type'' = PStr (lib_type (le_library env) p)"
      using saved_entry(4) [OF np] by blast
  qed
  have model: "(''model'', py_model ps) \<in> set (named_payloads ps)" by (simp add: named_payloads_def)
  have v: "validate_bundle (le_isfinite env) (le_policies env) ?b = Inr ()"
    using f by (intro validate_restored) (simp_all add: assms(7))
  have gp: "golden_probe (le_library env) (le_isfinite env) (le_policies env) b ps = Inr g"
    and vb: "validate_bundle (le_isfinite env) (le_policies env) b = Inr ()"
    using f by blast+
  have g: "verify_bundle_golden_probe (le_library env) (le_isfinite env) (le_policies env) ?b ps (canon_dict g) = Inr ()"
    using golden_probe_accepted [OF _ check_golden_computed(2) [OF gp assms(7)]] gp golden_probe_restored [OF vb v] by metis
  have "finish_load env (canon_dict m) \<lparr>pv_intended_use = mb_intended_use b, pv_threshold = mb_threshold_provenance b,
           pv_training = mb_training_provenance b, pv_reference = mb_reference_provenance b\<rparr> ?a (canon_dict g) (named_payloads ps) = Inr (?b, ps)"
    by (simp add: finish_load_def payloads_of_named loaded_bundle_saved [OF m assms(4) model] v g semantic_failure_def catch_value_error_def)
  then have "load_model_bundle_from_directory env (directory_of ?files) = (map (dump \<circ> snd) (named_payloads ps), Inr (?b, ps))"
    unfolding load_model_bundle_from_directory_def load_manifest_saved [OF m assms(7,5,4,6,3)] by (simp add: read_saved_artifacts des)
  then show ?thesis using files x by blast
qed

text \<open>
  C36. A saved bundle loads. The files a save writes - artifacts, side files, the manifest and any
  extra files - are accepted by the loader of the same runtime: every payload is deserialised, in
  order, and the result is the bundle that was saved with its payloads, its threshold read as a
  \<open>float\<close> and the digest of its model filled in.
\<close>

theorem saved_bundle_loads:
  assumes "saved_manifest env dump b ps = Inr m" and "canonical_manifest_bytes m = Inr t" and "le_loads env t = Inr (canon (PDict m))"
    and "carries (le_library env) ps b" and "provenance_ok (le_anchor env) b" and "payloads_survive (le_library env) dump ps"
    and "\<And>y. le_isfinite env (PFloat y) = Inr (is_finite y)" and "py_float (mb_operating_threshold b) = Inr x"
    and "list_all (\<lambda>(n, _). extra_name_ok ps n) extras"
  shows "\<exists>files. bundle_files env dump b ps extras = Inr files \<and>
    load_model_bundle_from_directory env (directory_of files) =
      (map (dump \<circ> snd) (named_payloads ps), Inr (restored x (sha256_hex (dump (py_model ps))) b, ps))"
  using assms by (rule save_then_load)

end
