(* ===== verification/Smoke_Bundle.thy ===== *)
theory Smoke_Bundle
  imports Bundle_Roundtrip
begin

text \<open>
  A concrete bundle under the synthetic smoke policy, saved and loaded again: the inputs at which
  the statements about saving and loading are applied.
\<close>

section \<open>Fitted objects\<close>

text \<open>A payload is the preprocessor or the model; the model scores every transaction one half.\<close>

definition smoke_estimator :: "bool \<Rightarrow> estimator" where
  "smoke_estimator pre = \<lparr>es_transform = pre, es_predict = False, es_predict_proba = \<not> pre, es_n_features_in = Some 30,
     es_feature_names_in = Some ALL_FEATURES, es_feature_names_out = (if pre then Some ALL_FEATURES else None),
     es_classes = (if pre then No_Classes else Vector [PInt 0, PInt 1])\<rparr>"

definition smoke_library :: "(bool, unit) library" where
  "smoke_library = \<lparr>lib_load = (\<lambda>s. Inr (s = ''p'')), lib_type = (\<lambda>_. ''fitted''), lib_attributes = smoke_estimator,
     lib_transform = (\<lambda>_ _. Inr ()), lib_predict_proba = (\<lambda>_ _. Inr (Matrix 2 [[Fin (1/2), Fin (1/2)]])),
     lib_calibrator_proba = (\<lambda>_ _. Inr Other_Rank), lib_calibrator_predict = (\<lambda>_ _. Inr [])\<rparr>"

definition smoke_dump :: "bool \<Rightarrow> string" where
  "smoke_dump pre = (if pre then ''p'' else ''m'')"

definition smoke_payloads :: "bool payloads" where
  "smoke_payloads = \<lparr>py_preprocessor = True, py_model = False, py_calibrator = None\<rparr>"

definition smoke_runtime :: runtime where
  "smoke_runtime = \<lparr>rt_python = ''3.12'', rt_python_implementation = ''CPython'', rt_platform = ''Linux'', rt_machine = ''x86_64'',
     rt_version = (\<lambda>_. Some ''1.0'')\<rparr>"

definition np_isfinite :: "pyval \<Rightarrow> py_exc + bool" where
  "np_isfinite v = (case v of PFloat y \<Rightarrow> Inr (is_finite y) | _ \<Rightarrow> Inr True)"

definition smoke_env :: "pyval \<Rightarrow> (bool, unit) load_env" where
  "smoke_env document = \<lparr>le_library = smoke_library, le_loads = (\<lambda>_. Inr document), le_isfinite = np_isfinite,
     le_policies = Inr tracked_policies, le_anchor = Inl OverflowError, le_runtime = smoke_runtime\<rparr>"

definition smoke_bundle :: "intended_use \<Rightarrow> threshold_provenance \<Rightarrow> training_provenance \<Rightarrow> model_bundle" where
  "smoke_bundle u t tr = \<lparr>mb_preprocessor = Some (smoke_estimator True), mb_model = Some (smoke_estimator False), mb_calibrator = None,
     mb_operating_threshold = PFloat REFERENCE_THRESHOLD, mb_feature_schema = ALL_FEATURES,
     mb_training_data_fingerprint = PStr (tr_data_roles_sha256 tr), mb_model_version = ''synthetic-smoke-1'', mb_intended_use = u,
     mb_threshold_provenance = t, mb_training_provenance = tr, mb_score_type = ''raw_score'', mb_reference_provenance = None,
     mb_model_artifact_sha256 = None\<rparr>"

section \<open>It is valid\<close>

lemma features_facts:
  "distinct ALL_FEATURES" "map (last_piece []) ALL_FEATURES = ALL_FEATURES" "TARGET_COLUMN \<notin> set ALL_FEATURES"
  "validate_features_for_preprocessing canonical_golden_frame ALL_FEATURES = Inr ()"
  by code_simp+

lemma smoke_identities: "validate_component_identities (smoke_estimator True) (smoke_estimator False) = Inr ()"
  by (simp add: validate_component_identities_def smoke_estimator_def n_features_def features_facts distinct_card)

lemma smoke_classes: "positive_class_index (smoke_estimator False) l = Inr 1"
  by (simp add: positive_class_index_def smoke_estimator_def POSITIVE_CLASS_LABEL_def num_eq_def)

lemma reference_threshold_unit: "fle (Fin 0) REFERENCE_THRESHOLD" "fle REFERENCE_THRESHOLD (Fin 1)"
  using fl_between [of 0 "53/100" 1] by (auto simp: REFERENCE_THRESHOLD_def)

lemma smoke_validates:
  assumes "validate_policy_binding (Inr tracked_policies) u t tr ''synthetic-smoke-1'' REFERENCE_THRESHOLD ''raw_score'' = Inr ()"
    and "iu_evidence_category u = SYNTHETIC" and "is_sha256 (tr_data_roles_sha256 tr)"
  shows "validate_bundle np_isfinite (Inr tracked_policies) (smoke_bundle u t tr) = Inr ()"
proof -
  obtain x where x: "REFERENCE_THRESHOLD = Fin x" using reference_threshold_finite by blast
  have c: "validate_components (smoke_bundle u t tr) = Inr (smoke_estimator True, smoke_estimator False)"
    by (simp add: validate_components_def smoke_bundle_def) (simp add: smoke_estimator_def)
  have t: "threshold_in_range np_isfinite (PFloat REFERENCE_THRESHOLD) = Inr True"
    using reference_threshold_unit unfolding x
    by (simp add: threshold_in_range_def finite_number_def py_float_def is_finite_def np_isfinite_def)
  have s: "validate_scores (smoke_bundle u t tr) = Inr ()" by (simp add: validate_scores_def smoke_bundle_def)
  have n: "strip_by is_space ''synthetic-smoke-1'' \<noteq> []" by code_simp
  have r: "validate_reference_binding (Inr tracked_policies) SYNTHETIC None roles q = Inr ()" for roles q
    by (simp add: validate_reference_binding_def SYNTHETIC_def REFERENCE_def)
  have k: "SYNTHETIC \<noteq> REFERENCE" by (simp add: SYNTHETIC_def REFERENCE_def)
  show ?thesis unfolding validate_bundle_def c
    using assms t s n r smoke_identities smoke_classes k
    by (simp add: smoke_bundle_def require_sha256_def py_float_def)
qed

section \<open>It can be saved\<close>

lemma json_indent_ok: "jsonable v \<Longrightarrow> \<exists>t. json_indent n v = Inr t"
proof (induction n v rule: json_indent.induct)
  case (6 n vs)
  have "\<exists>ts. res_map (json_indent (Suc n)) vs = Inr ts"
  proof (rule res_map_ex)
    fix v assume v: "v \<in> set vs"
    then have "vs \<noteq> []" "jsonable v" using 6(2) by (auto simp: list_all_iff)
    then show "\<exists>t. json_indent (Suc n) v = Inr t" using 6(1) v by blast
  qed
  then show ?case by auto
next
  case (7 n d)
  show ?case
  proof (cases "d = []")
    case False
    have "\<exists>ts. res_map (\<lambda>kv. res_bind (json_indent (Suc n) (snd kv)) (\<lambda>t. Inr (json_str (fst kv) @ '': '' @ t))) (sort_key fst d) = Inr ts"
    proof (rule res_map_ex)
      fix kv assume kv: "kv \<in> set (sort_key fst d)"
      then have "jsonable (snd kv)" using 7(2) by (simp add: list_all_iff)
      then obtain t where "json_indent (Suc n) (snd kv) = Inr t" using 7(1) False kv by blast
      then show "\<exists>y. res_bind (json_indent (Suc n) (snd kv)) (\<lambda>t. Inr (json_str (fst kv) @ '': '' @ t)) = Inr y" by simp
    qed
    then show ?thesis using False by auto
  qed simp
qed (simp_all split: pyfloat.splits)

lemma jsonable_golden: "jsonable golden_features"
  by (simp add: golden_features_def golden_values_def list_all_iff)

lemma smoke_score: "score_bundle_frame smoke_library (Inr ()) ALL_FEATURES smoke_payloads canonical_golden_frame =
    Inr \<lparr>bs_raw_scores = [Fin (1/2)], bs_calibrated = None, bs_decision_scores = [Fin (1/2)]\<rparr>"
proof -
  have "ff_columns canonical_golden_frame \<noteq> []" "length (ff_rows canonical_golden_frame) = 1"
    by (simp_all add: canonical_golden_frame_def ALL_FEATURES_def)
  moreover have "positive_scores (smoke_estimator False) (Matrix 2 [[Fin (1/2), Fin (1/2)]]) = Inr [Fin (1/2)]"
    by (simp add: positive_scores_def smoke_classes is_finite_def outside_unit_def)
  ultimately show ?thesis
    by (simp add: score_bundle_frame_def features_facts(4)) (auto simp: smoke_library_def smoke_payloads_def)
qed

lemma smoke_golden:
  assumes "validate_bundle np_isfinite (Inr tracked_policies) (smoke_bundle u t tr) = Inr ()"
  obtains g where "golden_probe smoke_library np_isfinite (Inr tracked_policies) (smoke_bundle u t tr) smoke_payloads = Inr g"
    and "jsonable (PDict g)"
proof -
  obtain tol where tol: "GOLDEN_PROBE_TOLERANCE = Fin tol" using golden_tolerance_finite by blast
  let ?p = "[(''calibrated_probability'', PNone), (''decision_score'', PFloat (Fin (1/2))), (''features'', golden_features),
      (''raw_score'', PFloat (Fin (1/2))), (''tolerance'', PFloat (Fin tol))]"
  have p: "jsonable (PDict ?p)" using jsonable_golden by simp
  then obtain h where h: "canonical_json_sha256 (PDict ?p) = Inr h"
    using json_dumps_ok by (fastforce simp: canonical_json_sha256_def simp del: json_dumps.simps)
  have "mb_feature_schema (smoke_bundle u t tr) = ALL_FEATURES" by (simp add: smoke_bundle_def)
  then have "golden_probe smoke_library np_isfinite (Inr tracked_policies) (smoke_bundle u t tr) smoke_payloads = Inr (?p @ [(''sha256'', PStr h)])"
    unfolding golden_probe_def assms using smoke_score h by (simp add: first_score_def tol)
  then show thesis by (rule that) (use p in simp)
qed

lemma json_parts:
  "jsonable (PDict (intended_use_dict u))" "jsonable (PDict (training_dict tr))"
  "tp_value t = Fin y \<Longrightarrow> jsonable (PDict (threshold_dict t))"
  "jsonable (PDict (saved_artifacts env dump ps))" "jsonable (PDict (runtime_dict rt versions))"
proof -
  show "jsonable (PDict (training_dict tr))" by (cases "tr_quarantine tr")
      (simp_all add: training_dict_def recipe_dict_def data_roles_dict_def opt_dict_def data_role_dict_def quarantine_dict_def split: option.split)
qed (auto simp: intended_use_dict_def threshold_dict_def saved_artifacts_def artifact_entry_def runtime_dict_def current_runtime_def list_all_iff)

lemma smoke_manifest:
  assumes "validate_bundle np_isfinite (Inr tracked_policies) (smoke_bundle u t tr) = Inr ()" and "tp_value t = REFERENCE_THRESHOLD"
  obtains m bytes where "\<And>document. saved_manifest (smoke_env document) smoke_dump (smoke_bundle u t tr) smoke_payloads = Inr m"
    and "canonical_manifest_bytes m = Inr bytes"
proof -
  obtain x where x: "REFERENCE_THRESHOLD = Fin x" using reference_threshold_finite by blast
  obtain g where g: "golden_probe smoke_library np_isfinite (Inr tracked_policies) (smoke_bundle u t tr) smoke_payloads = Inr g"
    "jsonable (PDict g)"
    using assms(1) by (rule smoke_golden)
  obtain versions where v: "runtime_versions smoke_runtime = Inr versions"
    by (auto simp: runtime_versions_def smoke_runtime_def package_version_def RUNTIME_PACKAGES_def)
  define a where "a = saved_artifacts (smoke_env PNone) smoke_dump smoke_payloads"
  have a: "saved_artifacts (smoke_env document) smoke_dump smoke_payloads = a" for document by (simp add: a_def saved_artifacts_def smoke_env_def)
  obtain m where m: "bundle_manifest smoke_runtime (smoke_bundle u t tr) g a = Inr m" "jsonable (PDict m)"
    using g(2) json_parts(1,2) json_parts(3) [of t x] json_parts(4) [of "smoke_env PNone" smoke_dump smoke_payloads]
      json_parts(5) [of smoke_runtime versions] assms(2)
    by (simp add: bundle_manifest_def smoke_bundle_def smoke_classes v py_float_def x a_def list_all_iff del: jsonable.simps(3))
      (simp add: list_all_iff)
  have "saved_manifest (smoke_env document) smoke_dump (smoke_bundle u t tr) smoke_payloads = Inr m" for document
    unfolding saved_manifest_def saved_artifacts_def [symmetric] a using assms(1) g(1) m(1) by (simp add: smoke_env_def)
  moreover obtain bytes where "canonical_manifest_bytes m = Inr bytes"
    using json_indent_ok [OF m(2), of 0] by (auto simp: canonical_manifest_bytes_def simp del: json_indent.simps)
  ultimately show thesis by (rule that)
qed

section \<open>Its provenance is readable\<close>

lemma smoke_threshold:
  assumes "threshold_provenance_metadata (Inr tracked_policies) smoke_key (PFloat (Fin x)) False = Inr t"
  shows "tp_value t = Fin x" and "is_identifier (tp_source t)" and "is_identifier (tp_model_linkage t)" and "is_identifier (tp_purpose t)"
proof -
  have t: "t = \<lparr>tp_value = Fin x, tp_source = ''synthetic_smoke_policy'', tp_model_linkage = ''synthetic_fixture_only'',
      tp_purpose = ''api_smoke_testing_only'', tp_calibrated = False, tp_cost_optimal = False, tp_razorpay_approved = False,
      tp_production_approved = False\<rparr>"
    using assms by (simp add: threshold_provenance_metadata_def smoke_producer_policy policy_section_def str_item_def bool_item_def typed_def py_float_def)
      (simp add: smoke_policy_def policy_threshold_def py_get_def py_item_def bool_of_def)
  have "is_identifier ''synthetic_smoke_policy''" "is_identifier ''synthetic_fixture_only''" "is_identifier ''api_smoke_testing_only''"
    by code_simp+
  then show "tp_value t = Fin x" "is_identifier (tp_source t)" "is_identifier (tp_model_linkage t)" "is_identifier (tp_purpose t)"
    by (simp_all add: t)
qed

lemma smoke_training:
  assumes "training_provenance_metadata (Inr tracked_policies) anchor smoke_key smoke_roles None = Inr tr"
  shows "training_ok anchor tr"
  using assms by (auto simp: training_provenance_metadata_def res_bind_Inr_iff dest!: parse_training_Inr)

lemma smoke_saved:
  obtains m bytes u t tr where "saved_manifest (smoke_env (canon (PDict m))) smoke_dump (smoke_bundle u t tr) smoke_payloads = Inr m"
    and "canonical_manifest_bytes m = Inr bytes" and "provenance_ok (Inl OverflowError) (smoke_bundle u t tr)"
proof -
  obtain u x t tr where m: "intended_use_metadata (Inr tracked_policies) smoke_key = Inr u" "iu_evidence_category u = SYNTHETIC"
    "Fin x = REFERENCE_THRESHOLD" "threshold_provenance_metadata (Inr tracked_policies) smoke_key (PFloat (Fin x)) False = Inr t"
    "training_provenance_metadata (Inr tracked_policies) (Inl OverflowError) smoke_key smoke_roles None = Inr tr"
    by (rule smoke_metadata)
  note t = smoke_threshold [OF m(4)] and tr = smoke_training [OF m(5)]
  have b: "validate_policy_binding (Inr tracked_policies) u t tr ''synthetic-smoke-1'' REFERENCE_THRESHOLD ''raw_score'' = Inr ()"
    unfolding m(3) [symmetric] by (rule built_metadata_bound [OF m(1,4,5) smoke_producer_policy smoke_pattern smoke_version])
      (simp_all add: m(2,3) smoke_roles_def SYNTHETIC_def DEVELOPMENT_def)
  have "is_sha256 (tr_data_roles_sha256 tr)"
    using tr canonical_json_is_sha256 by (auto simp: training_ok_def training_data_fingerprint_for_roles_def)
  then have v: "validate_bundle np_isfinite (Inr tracked_policies) (smoke_bundle u t tr) = Inr ()"
    using b m(2) by (intro smoke_validates)
  obtain m' bytes where s: "\<And>document. saved_manifest (smoke_env document) smoke_dump (smoke_bundle u t tr) smoke_payloads = Inr m'"
    "canonical_manifest_bytes m' = Inr bytes"
    using v t(1) m(3) by (metis smoke_manifest)
  have "SYNTHETIC \<in> set EVIDENCE_CATEGORIES" by (simp add: SYNTHETIC_def EVIDENCE_CATEGORIES_def)
  then have "provenance_ok (Inl OverflowError) (smoke_bundle u t tr)"
    using t tr m(2) by (simp add: provenance_ok_def smoke_bundle_def)
  then show thesis using that s by blast
qed

lemma smoke_type: "is_text_value (PStr ''fitted'')"
  by code_simp

lemma smoke_assumptions:
  "carries smoke_library smoke_payloads (smoke_bundle u t tr)" "payloads_survive smoke_library smoke_dump smoke_payloads"
  by (auto simp: carries_def payloads_survive_def smoke_library_def smoke_payloads_def smoke_bundle_def named_payloads_def smoke_dump_def smoke_type)

section \<open>Saving and loading it\<close>

lemma smoke_env_simps:
  "le_library (smoke_env d) = smoke_library" "le_anchor (smoke_env d) = Inl OverflowError"
  "le_loads (smoke_env d) s = Inr d" "le_isfinite (smoke_env d) (PFloat y) = Inr (is_finite y)"
  by (simp_all add: smoke_env_def np_isfinite_def)

lemma smoke_dumps: "map (smoke_dump \<circ> snd) (named_payloads smoke_payloads) = [''p'', ''m'']" "smoke_dump (py_model smoke_payloads) = ''m''"
  by (simp_all add: smoke_dump_def smoke_payloads_def named_payloads_def)

lemma smoke_loads:
  obtains document files b where "load_model_bundle_from_directory (smoke_env document) (directory_of files) = ([''p'', ''m''], Inr (b, smoke_payloads))"
proof -
  obtain m bytes u t tr where m: "saved_manifest (smoke_env (canon (PDict m))) smoke_dump (smoke_bundle u t tr) smoke_payloads = Inr m"
    "canonical_manifest_bytes m = Inr bytes" "provenance_ok (Inl OverflowError) (smoke_bundle u t tr)"
    by (rule smoke_saved)
  have th: "py_float (mb_operating_threshold (smoke_bundle u t tr)) = Inr REFERENCE_THRESHOLD" by (simp add: smoke_bundle_def py_float_def)
  have e: "list_all (\<lambda>(n, _). extra_name_ok smoke_payloads n) []" by simp
  show thesis
    using save_then_load [OF m(1,2) smoke_env_simps(3) _ _ _ smoke_env_simps(4) th e] m(3) smoke_assumptions
    unfolding smoke_env_simps smoke_dumps by (metis that)
qed

lemma smoke_path:
  "path_name (parse_path ''/srv/models/manifest.json'') = MANIFEST_FILENAME"
  "trusted_relative_parts (\<lambda>_. None) [''srv''] ''/srv/models/manifest.json'' ''/srv/models'' =
     Inr (\<lparr>pp_root = ''/'', pp_parts = [''srv'', ''models'']\<rparr>, [MANIFEST_FILENAME])"
  by code_simp+

theorem nothing_unverified_is_deserialised_witness:
  "\<exists>document d dirs name f. fst (load_model_bundle (smoke_env document) (\<lambda>_. None) [''srv''] (\<lambda>_. Some d) ''/srv/models/manifest.json'' ''/srv/models'') =
       [''p'', ''m''] \<and> node_at d (dirs @ [name @ ''.joblib'']) = Some (Fs_File f) \<and> read_all f = ''m''"
proof -
  obtain document files b where l: "load_model_bundle_from_directory (smoke_env document) (directory_of files) = ([''p'', ''m''], Inr (b, smoke_payloads))"
    by (rule smoke_loads)
  have "open_trusted_parent (\<lambda>_. None) [''srv''] (\<lambda>_. Some (directory_of files)) ''/srv/models/manifest.json'' ''/srv/models'' =
      Inr (directory_of files, MANIFEST_FILENAME)"
    by (simp add: open_trusted_parent_def smoke_path(2))
  then have load: "load_model_bundle (smoke_env document) (\<lambda>_. None) [''srv''] (\<lambda>_. Some (directory_of files)) ''/srv/models/manifest.json'' ''/srv/models'' =
      ([''p'', ''m''], Inr (b, smoke_payloads))"
    unfolding load_model_bundle_def smoke_path(1) using l by simp
  have "''m'' \<in> set [''p'', ''m'']" by simp
  from nothing_unverified_is_deserialised [OF load this] obtain base dirs d name f where
    "(\<lambda>_. Some (directory_of files)) (path_str base) = Some d" "node_at d (dirs @ [name @ ''.joblib'']) = Some (Fs_File f)" "read_all f = ''m''"
    by (elim exE conjE bexE) (rule that)
  moreover have "fst (load_model_bundle (smoke_env document) (\<lambda>_. None) [''srv''] (\<lambda>_. Some (directory_of files)) ''/srv/models/manifest.json''
      ''/srv/models'') = [''p'', ''m'']"
    by (simp only: load fst_conv)
  ultimately show ?thesis by (intro exI [of _ document] exI [of _ "directory_of files"] exI [of _ dirs] exI [of _ name] exI [of _ f]) simp
qed

theorem saved_bundle_loads_witness:
  "\<exists>document u t tr files b. bundle_files (smoke_env document) smoke_dump (smoke_bundle u t tr) smoke_payloads [(''NOTICE'', ''text'')] = Inr files \<and>
     load_model_bundle_from_directory (smoke_env document) (directory_of files) = ([''p'', ''m''], Inr (b, smoke_payloads)) \<and>
     mb_model_artifact_sha256 b = Some (PStr (sha256_hex ''m''))"
proof -
  obtain m bytes u t tr where m: "saved_manifest (smoke_env (canon (PDict m))) smoke_dump (smoke_bundle u t tr) smoke_payloads = Inr m"
    "canonical_manifest_bytes m = Inr bytes" "provenance_ok (Inl OverflowError) (smoke_bundle u t tr)"
    by (rule smoke_saved)
  have e: "list_all (\<lambda>(n, _). extra_name_ok smoke_payloads n) [(''NOTICE'', ''text'')]" by code_simp
  have th: "py_float (mb_operating_threshold (smoke_bundle u t tr)) = Inr REFERENCE_THRESHOLD" by (simp add: smoke_bundle_def py_float_def)
  show ?thesis
    using saved_bundle_loads [OF m(1,2) smoke_env_simps(3) _ _ _ smoke_env_simps(4) th e] m(3) smoke_assumptions
    unfolding smoke_env_simps smoke_dumps by (metis restored_simps(15))
qed

end
