(* ===== verification/Audit_Facts.thy ===== *)
theory Audit_Facts
  imports Audit_Log Canon_Json Hash_Chain
begin

text \<open>
  The audit log: what verification establishes, that an append extends the chain, that a torn
  append and a repeated request close the log, and that changes of its past are evident.
\<close>

section \<open>Lines\<close>

definition printable :: "string \<Rightarrow> bool" where
  "printable s \<longleftrightarrow> list_all (\<lambda>c. 32 \<le> (of_char c :: nat)) s"

lemma printable_append [simp]: "printable (s @ t) \<longleftrightarrow> printable s \<and> printable t"
  by (simp add: printable_def)

lemma printable_Cons [simp]: "printable (c # s) \<longleftrightarrow> 32 \<le> (of_char c :: nat) \<and> printable s"
  by (simp add: printable_def)

lemma printable_Nil [simp]: "printable []"
  by (simp add: printable_def)

lemma printable_concat: "(\<And>s. s \<in> set ss \<Longrightarrow> printable s) \<Longrightarrow> printable (concat ss)"
  by (induction ss) simp_all

lemma printable_join: "printable sep \<Longrightarrow> (\<And>s. s \<in> set ss \<Longrightarrow> printable s) \<Longrightarrow> printable (join sep ss)"
  by (cases ss) (auto simp: join_def intro!: printable_concat)

lemma printable_part: "printable s \<Longrightarrow> printable (take n s) \<and> printable (drop n s)"
  by (metis append_take_drop_id printable_append)

lemma printable_no_break: "printable s \<Longrightarrow> LF \<notin> set s \<and> CR \<notin> set s"
  by (auto simp: printable_def LF_def CR_def list_all_iff)

lemma printable_nat_str: "printable (nat_str n)"
proof -
  have "32 \<le> (of_char c :: nat)" if "is_digit c" for c using that by (auto simp: is_digit_def)
  then show ?thesis using nat_str_digits [of n] by (auto simp: printable_def list_all_iff)
qed

lemma printable_replicate: "32 \<le> (of_char c :: nat) \<Longrightarrow> printable (replicate n c)"
  by (induction n) simp_all

lemma printable_strip: "printable s \<Longrightarrow> printable (strip_zeros s)"
  by (auto simp: printable_def strip_zeros_def list_all_iff dest: set_dropWhileD)

lemma printable_float: "printable (float_repr x)"
proof -
  have "printable (float_repr_pos y)" for y
    using printable_nat_str printable_strip [OF printable_nat_str] printable_part [OF printable_strip [OF printable_nat_str]]
    by (auto simp: float_repr_pos_def Let_def printable_replicate split: prod.splits)
  then show ?thesis by (simp add: float_repr_def)
qed

lemma printable_json_char: "printable (json_char c)"
proof -
  have "32 \<le> (of_char (hex_char n) :: nat)" if "n < 16" for n using that by (simp add: hex_char_def)
  then have "printable (hex2 n)" if "n < 256" for n using that by (simp add: hex2_def)
  then show ?thesis by (auto simp: json_char_def Let_def)
qed

lemma printable_json_str: "printable (json_str s)"
  using printable_json_char by (auto simp: json_str_def intro!: printable_concat)

lemma printable_dumps: "json_dumps v = Inr t \<Longrightarrow> printable t"
proof (induction v arbitrary: t rule: json_dumps.induct)
  case (3 i)
  then show ?case using printable_nat_str by (auto simp: int_str_def)
next
  case (4 x)
  then show ?case using printable_float by (auto split: pyfloat.splits)
next
  case (6 vs)
  then obtain ts where ts: "res_map json_dumps vs = Inr ts" "t = ''['' @ join '','' ts @ '']''" by (auto simp: res_bind_Inr_iff)
  have "printable (join '','' ts)" using res_map_elem [OF ts(1)] 6(1) by (intro printable_join) (simp, blast)
  then show ?case by (simp add: ts(2))
next
  case (7 d)
  let ?f = "\<lambda>kv. res_bind (json_dumps (snd kv)) (\<lambda>t. Inr (json_str (fst kv) @ '':'' @ t))"
  obtain ts where ts: "res_map ?f (sort_key fst d) = Inr ts" "t = ''{'' @ join '','' ts @ ''}''" using 7(2) by (auto simp: res_bind_Inr_iff)
  have "printable u" if u: "u \<in> set ts" for u
  proof -
    obtain kv where kv: "kv \<in> set (sort_key fst d)" "?f kv = Inr u" using res_map_elem [OF ts(1) u] by blast
    then obtain w where "json_dumps (snd kv) = Inr w" "u = json_str (fst kv) @ '':'' @ w" by (auto simp: res_bind_Inr_iff)
    then show ?thesis using 7(1) [OF kv(1)] printable_json_str by simp
  qed
  then have "printable (join '','' ts)" by (intro printable_join) simp_all
  then show ?case by (simp add: ts(2))
qed (auto simp: printable_json_str)

lemma split_line: "LF \<notin> set l \<Longrightarrow> CR \<notin> set l \<Longrightarrow> split_lines acc (l @ LF # s) = (acc @ l) # split_lines [] s"
  by (induction l arbitrary: acc) auto

lemma split_concat: "\<forall>l \<in> set ls. printable l \<Longrightarrow> split_lines [] (concat (map (\<lambda>l. l @ [LF]) ls)) = ls"
  by (induction ls) (auto simp: split_line dest: printable_no_break)

lemma split_append:
  "(s = [] \<and> acc = []) \<or> (s \<noteq> [] \<and> last s = LF) \<Longrightarrow> split_lines acc (s @ t) = split_lines acc s @ split_lines [] t"
proof (induction acc s rule: split_lines.induct)
  case (2 acc c cs)
  then show ?case by (cases cs) (auto simp: LF_def CR_def split: if_splits)
qed simp

lemma split_nonempty: "s \<noteq> [] \<or> acc \<noteq> [] \<Longrightarrow> split_lines acc s \<noteq> []"
  by (induction acc s rule: split_lines.induct) auto

section \<open>What verification establishes\<close>

definition log_event :: "log_env \<Rightarrow> string \<Rightarrow> (string, pyval) dict" where
  "log_event env line = (case le_json env line of Inr (PDict d) \<Rightarrow> d | _ \<Rightarrow> [])"

text \<open>The events a log holds, as they are read.\<close>

definition logged :: "log_env \<Rightarrow> audit_files \<Rightarrow> (string, pyval) dict list" where
  "logged env f = map (log_event env) (split_lines [] (log_bytes (af_log f)))"

lemma audit_json_object_Inr [simp]: "audit_json_object env t l = Inr d \<longleftrightarrow> le_json env t = Inr (PDict d)"
  by (auto simp: audit_json_object_def split: sum.splits option.splits pyval.splits)

lemma read_event_Inr:
  "read_event env n line = Inr e \<longleftrightarrow>
     line \<noteq> [] \<and> le_json env line = Inr (PDict e) \<and> validate_log_event env e n = Inr () \<and> json_dumps (PDict e) = Inr line"
  by (auto simp: read_event_def res_bind_Inr_iff split: if_splits)

lemma log_event_read: "read_event env n line = Inr e \<Longrightarrow> log_event env line = e"
  by (simp add: read_event_Inr log_event_def)

lemma link_event_Inr:
  "link_event n e st = Inr st' \<longleftrightarrow>
     text_item e ''event_id'' \<notin> cs_event_ids st \<and> event_position e \<notin> cs_request_indexes st \<and>
     text_item e ''previous_hash'' = cs_previous st \<and> sha256_canonical (PDict (unsigned_event e)) = Inr (text_item e ''event_hash'') \<and>
     st' = \<lparr>cs_previous = text_item e ''event_hash'', cs_event_ids = insert (text_item e ''event_id'') (cs_event_ids st),
            cs_request_indexes = insert (event_position e) (cs_request_indexes st)\<rparr>"
  by (auto simp: link_event_def res_bind_Inr_iff split: if_splits)

lemma verify_lines_append:
  "verify_lines env n (ls @ ms) st = res_bind (verify_lines env n ls st) (verify_lines env (n + length ls) ms)"
proof (induction ls arbitrary: n st)
  case (Cons l ls)
  show ?case
  proof (cases "read_event env n l")
    case (Inr e)
    then show ?thesis by (cases "link_event n e st") (simp_all add: Cons)
  qed simp
qed simp

lemma verify_lines_Cons:
  "verify_lines env n (l # ls) st = Inr st' \<longleftrightarrow>
     (\<exists>e st1. read_event env n l = Inr e \<and> link_event n e st = Inr st1 \<and> verify_lines env (Suc n) ls st1 = Inr st')"
  by (auto simp: res_bind_Inr_iff)

lemma verify_lines_state:
  "verify_lines env n ls st = Inr st' \<Longrightarrow>
     cs_event_ids st' = cs_event_ids st \<union> (\<lambda>l. text_item (log_event env l) ''event_id'') ` set ls \<and>
     cs_request_indexes st' = cs_request_indexes st \<union> (\<lambda>l. event_position (log_event env l)) ` set ls"
proof (induction ls arbitrary: n st)
  case (Cons l ls)
  obtain e st1 where e: "read_event env n l = Inr e" "link_event n e st = Inr st1" "verify_lines env (Suc n) ls st1 = Inr st'"
    using Cons.prems unfolding verify_lines_Cons by blast
  have "log_event env l = e" by (rule log_event_read [OF e(1)])
  then show ?case using Cons.IH [OF e(3)] e(2) by (simp add: link_event_Inr)
qed simp

definition anchored :: "log_env \<Rightarrow> audit_file \<Rightarrow> nat \<Rightarrow> string \<Rightarrow> bool" where
  "anchored env a n h \<longleftrightarrow>
     (if file_exists a
      then \<exists>t d. a = Contents t \<and> t \<noteq> [] \<and> last t = LF \<and> le_json env (rev (dropWhile (\<lambda>c. c = LF) (rev t))) = Inr (PDict d) \<and>
        set (map fst d) = set ANCHOR_FIELDS \<and> json_dumps (PDict d) = Inr (butlast t) \<and>
        py_get d ''schema_version'' = PStr LOG_SCHEMA_VERSION \<and> py_get d ''event_count'' = PInt (int n) \<and> py_get d ''head_event_hash'' = PStr h \<and> is_sha256 h
      else n = 0)"

lemma int_of_Some [simp]: "int_of v = Some i \<longleftrightarrow> v = PInt i"
  by (cases v) (simp_all add: int_of_def)

lemma str_of_Some [simp]: "str_of v = Some s \<longleftrightarrow> v = PStr s"
  by (cases v) (simp_all add: str_of_def)

lemma require_value_sha256_Inr [simp]: "require_value_sha256 v l = Inr s \<longleftrightarrow> v = PStr s \<and> is_sha256 s"
  by (cases v) (auto simp: require_value_sha256_def str_of_def require_audit_sha256_def)

lemma verify_anchor_Inr:
  "verify_anchor env a n p = Inr (m, h) \<longleftrightarrow> m = n \<and> (if file_exists a then h = p \<and> anchored env a n p else n = 0 \<and> h = LOG_GENESIS_HASH)"
proof (cases "file_exists a")
  case True
  show ?thesis
  proof (cases a)
    case (Contents t)
    have butlast: "u @ [LF] = t \<longleftrightarrow> t \<noteq> [] \<and> last t = LF \<and> u = butlast t" for u by (metis append_butlast_last_id append_is_Nil_conv butlast_snoc last_snoc list.distinct(1))
    show ?thesis using True
      by (auto simp: verify_anchor_def Contents anchored_def read_audit_file_def res_bind_Inr_iff butlast split: if_splits option.splits)
  qed (use True in \<open>auto simp: verify_anchor_def anchored_def read_audit_file_def file_exists_def\<close>)
qed (auto simp: verify_anchor_def)

text \<open>A log that verifies, with the state in which the loop ends.\<close>

definition verified :: "log_env \<Rightarrow> audit_files \<Rightarrow> nat \<Rightarrow> string \<Rightarrow> chain_state \<Rightarrow> bool" where
  "verified env f n h st \<longleftrightarrow>
     (let s = log_bytes (af_log f)
      in (s = [] \<or> last s = LF) \<and> verify_lines env 1 (split_lines [] s) chain_start = Inr st \<and> n = length (split_lines [] s) \<and>
         h = cs_previous st \<and> anchored env (af_anchor f) n h \<and> (file_exists (af_log f) \<longrightarrow> af_log f = Contents s) \<and>
         (\<not> file_exists (af_log f) \<longrightarrow> \<not> file_exists (af_anchor f)))"

lemma verify_log_Inr: "verify_audit_log env f = Inr (n, h) \<longleftrightarrow> (\<exists>st. verified env f n h st)"
proof (cases "af_log f")
  case (Contents s)
  have g: "cs_previous chain_start = LOG_GENESIS_HASH" by (simp add: chain_start_def)
  have e: "length (split_lines [] s) = 0 \<Longrightarrow> verify_lines env 1 (split_lines [] s) chain_start = Inr st \<Longrightarrow> st = chain_start" for st
    by simp
  show ?thesis
    using e by (auto simp: verify_audit_log_def verified_def Contents file_exists_def [of "Contents s"] read_audit_file_def log_bytes_def
        Let_def res_bind_Inr_iff verify_anchor_Inr anchored_def g split: if_splits)
next
  case Absent
  then show ?thesis by (auto simp: verify_audit_log_def verified_def file_exists_def [of Absent] log_bytes_def anchored_def chain_start_def)
next
  case (Refused b)
  then show ?thesis
    by (auto simp: verify_audit_log_def verified_def file_exists_def [of "Refused b"] log_bytes_def anchored_def chain_start_def read_audit_file_def)
next
  case Not_Regular
  then show ?thesis by (auto simp: verify_audit_log_def verified_def file_exists_def [of Not_Regular] log_bytes_def read_audit_file_def)
qed

section \<open>Appending\<close>

lemma finite_value_canon [simp]: "finite_value (canon v) = finite_value v"
  by (cases v) (simp_all add: finite_value_def)

lemma canon_dict_get:
  assumes "dict_ok e"
  shows "text_item (canon_dict e) k = text_item e k" and "event_position (canon_dict e) = event_position e"
    and "require_finite (canon_dict e) l k = require_finite e l k" and "set (map fst (canon_dict e)) = set (map fst e)"
  using assms by (simp_all add: text_item_def event_position_def require_finite_def cong: if_cong)

lemma value_readers_canon [simp]:
  "is_event_id (canon v) = is_event_id v" "is_request_value (canon v) = is_request_value v"
  "validate_timestamp env (canon v) l = validate_timestamp env v l" "require_value_sha256 (canon v) l = require_value_sha256 v l"
  by (simp_all add: is_event_id_def is_request_value_def validate_timestamp_def require_value_sha256_def)

lemma validate_event_canon: "dict_ok e \<Longrightarrow> validate_log_event env (canon_dict e) n = validate_log_event env e n"
  unfolding validate_log_event_def Let_def canon_dict_get(4) by (simp add: canon_dict_get(3) cong: if_cong)

lemma sha256_canonical_canon: "sha256_canonical (canon v) = sha256_canonical v"
  by (simp add: sha256_canonical_def json_dumps_canon)

lemma unsigned_canon: "unsigned_event (canon_dict e) = canon_dict (unsigned_event e)"
  by (simp add: unsigned_event_def filter_canon)

lemma new_event_facts:
  assumes "e = new_event rq key occurred_at event_id index previous d @ [(''event_hash'', PStr h)]"
  shows "dict_ok e" and "unsigned_event e = new_event rq key occurred_at event_id index previous d"
    and "text_item e ''event_id'' = event_id" and "event_position e = (ap_request_id rq, int index)"
    and "text_item e ''previous_hash'' = previous" and "text_item e ''event_hash'' = h"
  by (simp_all add: assms new_event_def unsigned_event_def text_item_def event_position_def py_get_def str_of_def int_of_def)

lemma new_line_read:
  assumes "e = new_event rq key occurred_at event_id index previous d @ [(''event_hash'', PStr h)]"
    and "validate_log_event env e n = Inr ()" and "json_dumps (PDict e) = Inr line" and "le_json env line = Inr (canon (PDict e))"
  shows "read_event env n line = Inr (canon_dict e)"
proof -
  have "json_dumps (canon (PDict e)) = Inr line" using assms(3) by (simp only: json_dumps_canon)
  moreover have "line \<noteq> []" using assms(3) by (auto simp: res_bind_Inr_iff)
  ultimately show ?thesis using assms(2,4) validate_event_canon [OF new_event_facts(1) [OF assms(1)]] by (simp add: read_event_Inr)
qed

lemma new_line_links:
  assumes "e = new_event rq key occurred_at event_id index previous d @ [(''event_hash'', PStr h)]"
    and "sha256_canonical (PDict (new_event rq key occurred_at event_id index previous d)) = Inr h"
    and "event_id \<notin> cs_event_ids st" and "(ap_request_id rq, int index) \<notin> cs_request_indexes st" and "cs_previous st = previous"
  shows "link_event n (canon_dict e) st = Inr \<lparr>cs_previous = h, cs_event_ids = insert event_id (cs_event_ids st),
    cs_request_indexes = insert (ap_request_id rq, int index) (cs_request_indexes st)\<rparr>"
proof -
  note e = new_event_facts [OF assms(1)]
  have "sha256_canonical (PDict (unsigned_event (canon_dict e))) = Inr h"
    unfolding unsigned_canon e(2) using assms(2) sha256_canonical_canon [of "PDict (new_event rq key occurred_at event_id index previous d)"] by simp
  then show ?thesis using assms(3-5) unfolding link_event_Inr canon_dict_get(1,2) [OF e(1)] e(3-6) by simp
qed

lemma build_events_Cons:
  "build_events env rq key occurred_at start index previous ((event_id, d) # rest) = Inr es \<longleftrightarrow>
     (\<exists>h e line es'. is_sha256 (ad_model_fingerprint d) \<and>
        sha256_canonical (PDict (new_event rq key occurred_at event_id index previous d)) = Inr h \<and>
        e = new_event rq key occurred_at event_id index previous d @ [(''event_hash'', PStr h)] \<and>
        validate_log_event env e (start + index + 1) = Inr () \<and> json_dumps (PDict e) = Inr line \<and>
        build_events env rq key occurred_at start (Suc index) h rest = Inr es' \<and> es = (e, line, h) # es')"
  by (auto simp: res_bind_Inr_iff Let_def simp del: json_dumps.simps)

lemma build_events_length: "build_events env rq key occurred_at start index previous xs = Inr es \<Longrightarrow> length es = length xs"
proof (induction xs arbitrary: index previous es)
  case (Cons x xs)
  obtain event_id d where "x = (event_id, d)" by (cases x)
  then show ?case using Cons by (auto simp: build_events_Cons simp del: build_events.simps)
qed simp

lemma build_events_lines: "build_events env rq key occurred_at start index previous xs = Inr es \<Longrightarrow> (e, line, h) \<in> set es \<Longrightarrow> json_dumps (PDict e) = Inr line \<and> is_sha256 h"
proof (induction xs arbitrary: index previous es)
  case (Cons x xs)
  obtain event_id d where "x = (event_id, d)" by (cases x)
  then show ?case using Cons by (auto simp: build_events_Cons sha256_canonical_def res_bind_Inr_iff simp del: build_events.simps json_dumps.simps)
qed simp

lemma new_lines_verify:
  assumes "build_events env rq key occurred_at start index previous xs = Inr es"
    and "\<forall>(e, line, h) \<in> set es. le_json env line = Inr (canon (PDict e))"
    and "distinct (map fst xs)" and "set (map fst xs) \<inter> cs_event_ids st = {}"
    and "\<forall>i \<ge> index. (ap_request_id rq, int i) \<notin> cs_request_indexes st" and "cs_previous st = previous"
  shows "\<exists>st'. verify_lines env (start + index + 1) (map (fst \<circ> snd) es) st = Inr st' \<and>
    cs_previous st' = (if es = [] then previous else last (map (snd \<circ> snd) es))"
  using assms
proof (induction xs arbitrary: index previous es st)
  case (Cons x xs)
  obtain event_id d where x: "x = (event_id, d)" by (cases x)
  obtain h e line es' where b: "sha256_canonical (PDict (new_event rq key occurred_at event_id index previous d)) = Inr h"
    "e = new_event rq key occurred_at event_id index previous d @ [(''event_hash'', PStr h)]"
    "validate_log_event env e (start + index + 1) = Inr ()" "json_dumps (PDict e) = Inr line"
    "build_events env rq key occurred_at start (Suc index) h xs = Inr es'" "es = (e, line, h) # es'"
    using Cons.prems(1) unfolding x build_events_Cons by blast
  let ?st = "\<lparr>cs_previous = h, cs_event_ids = insert event_id (cs_event_ids st),
      cs_request_indexes = insert (ap_request_id rq, int index) (cs_request_indexes st)\<rparr>"
  have json: "le_json env line = Inr (canon (PDict e))" using Cons.prems(2) b(6) by simp
  have read: "read_event env (start + index + 1) line = Inr (canon_dict e)" by (rule new_line_read [OF b(2-4) json])
  have link: "link_event (start + index + 1) (canon_dict e) st = Inr ?st"
    using Cons.prems(4-6) by (intro new_line_links [OF b(2,1)]) (simp_all add: x)
  have "\<exists>st'. verify_lines env (start + Suc index + 1) (map (fst \<circ> snd) es') ?st = Inr st' \<and>
      cs_previous st' = (if es' = [] then h else last (map (snd \<circ> snd) es'))"
    using Cons.prems(2-5) by (intro Cons.IH [OF b(5)]) (auto simp: x b(6))
  then show ?case using read link by (auto simp: b(6) comp_def)
qed simp

text \<open>What an append that reaches the files has computed.\<close>

lemma append_cases:
  assumes "append_inference env rq occurred_at ids fault w f = (r, w', f')"
  obtains (refused) x where "r = Inl x" "w' = w" "f' = f"
  | (written) es anchor x where "verify_audit_log env f = Inr (aw_event_count w, aw_head_event_hash w)" "ap_decisions rq \<noteq> []"
      "is_request_id (ap_request_id rq)" "append_events env rq occurred_at ids w = Inr es"
      "anchor_bytes (aw_event_count w + length es) (last (map (snd \<circ> snd) es)) = Inr anchor"
      "write_evidence fault f (concat (map (\<lambda>l. l @ [LF]) (map (fst \<circ> snd) es))) anchor = (x, f')"
      "(r, w') = (case x of Inl y \<Rightarrow> (Inl y, w)
         | Inr _ \<Rightarrow> (Inr (map (snd \<circ> snd) es), \<lparr>aw_event_count = aw_event_count w + length es, aw_head_event_hash = last (map (snd \<circ> snd) es)\<rparr>))"
proof -
  have lines: "map (\<lambda>l. l @ [LF]) (map (fst \<circ> snd) es) = map (\<lambda>(_, line, _). line @ [LF]) es" for es :: "((string, pyval) dict \<times> string \<times> string) list"
    by (simp add: split_beta comp_def)
  show thesis
  proof (cases "prepare_append env rq occurred_at ids w f")
    case (Inl x)
    then show ?thesis using assms by (intro refused [of x]) (auto simp: append_inference_def)
  next
    case (Inr p)
    obtain es anchor where p: "p = (es, anchor)" by (cases p)
    obtain x f2 where x: "write_evidence fault f (concat (map (\<lambda>(_, line, _). line @ [LF]) es)) anchor = (x, f2)"
      by (cases "write_evidence fault f (concat (map (\<lambda>(_, line, _). line @ [LF]) es)) anchor")
    show ?thesis
    proof (rule written)
      show "(r, w') = (case x of Inl y \<Rightarrow> (Inl y, w)
         | Inr _ \<Rightarrow> (Inr (map (snd \<circ> snd) es), \<lparr>aw_event_count = aw_event_count w + length es, aw_head_event_hash = last (map (snd \<circ> snd) es)\<rparr>))"
        using assms by (cases x) (simp_all add: append_inference_def Inr p x)
      show "write_evidence fault f (concat (map (\<lambda>l. l @ [LF]) (map (fst \<circ> snd) es))) anchor = (x, f')"
        unfolding lines using assms x by (cases x) (simp_all add: append_inference_def Inr p)
    qed (use Inr in \<open>auto simp: prepare_append_def p res_bind_Inr_iff idempotency_key_sha256_def split: if_splits\<close>)
  qed
qed

text \<open>\<open>json.loads\<close> gives back what \<open>json.dumps\<close> wrote of this document, its keys sorted.\<close>

definition reads_back :: "log_env \<Rightarrow> (string, pyval) dict \<Rightarrow> bool" where
  "reads_back env d = (case json_dumps (PDict d) of Inr t \<Rightarrow> le_json env t = Inr (PDict (canon_dict d)) | Inl _ \<Rightarrow> True)"

definition text_of :: "((string, pyval) dict \<times> string \<times> string) list \<Rightarrow> string" where
  "text_of es = concat (map (\<lambda>l. l @ [LF]) (map (fst \<circ> snd) es))"

lemma append_events_build:
  "append_events env rq occurred_at ids w = Inr es \<Longrightarrow>
     \<exists>key. build_events env rq key occurred_at (aw_event_count w) 0 (aw_head_event_hash w) (zip ids (ap_decisions rq)) = Inr es"
  by (auto simp: append_events_def res_bind_Inr_iff)

lemma append_events_length:
  "append_events env rq occurred_at ids w = Inr es \<Longrightarrow> length ids = length (ap_decisions rq) \<Longrightarrow> length es = length (ap_decisions rq)"
  using append_events_build build_events_length by fastforce

lemma split_text:
  assumes "append_events env rq occurred_at ids w = Inr es"
  shows "split_lines [] (text_of es) = map (fst \<circ> snd) es" and "text_of es = [] \<longleftrightarrow> es = []" and "es \<noteq> [] \<Longrightarrow> last (text_of es) = LF"
proof -
  obtain key where b: "build_events env rq key occurred_at (aw_event_count w) 0 (aw_head_event_hash w) (zip ids (ap_decisions rq)) = Inr es"
    using append_events_build [OF assms] by blast
  have "printable l" if l: "l \<in> set (map (fst \<circ> snd) es)" for l
  proof -
    obtain x where "x \<in> set es" "l = fst (snd x)" using l by auto
    then have "(fst x, l, snd (snd x)) \<in> set es" by simp
    then show ?thesis using build_events_lines [OF b] printable_dumps by blast
  qed
  then show "split_lines [] (text_of es) = map (fst \<circ> snd) es" unfolding text_of_def by (intro split_concat) blast
  show "text_of es = [] \<longleftrightarrow> es = []" by (cases es) (auto simp: text_of_def)
  show "es \<noteq> [] \<Longrightarrow> last (text_of es) = LF" by (cases es rule: rev_cases) (auto simp: text_of_def)
qed

lemma anchor_written:
  assumes "anchor_bytes n h = Inr t" and "reads_back env (anchor_record n h)" and "is_sha256 h"
  shows "anchored env (Contents t) n h"
proof -
  obtain u where u: "json_dumps (PDict (anchor_record n h)) = Inr u" "t = u @ [LF]" using assms(1) by (auto simp: anchor_bytes_def res_bind_Inr_iff)
  have ne: "u \<noteq> []" using u(1) by (auto simp: res_bind_Inr_iff)
  have "LF \<notin> set u" using printable_no_break [OF printable_dumps [OF u(1)]] by blast
  then have "dropWhile (\<lambda>c. c = LF) (rev u) = rev u" using ne by (cases "rev u") auto
  then have strip: "rev (dropWhile (\<lambda>c. c = LF) (rev t)) = u" by (simp add: u(2))
  have ok: "dict_ok (anchor_record n h)" by (simp add: anchor_record_def)
  have "json_dumps (PDict (canon_dict (anchor_record n h))) = Inr u" using json_dumps_canon [of "PDict (anchor_record n h)"] u(1) by simp
  moreover have "le_json env u = Inr (PDict (canon_dict (anchor_record n h)))" using assms(2) u(1) by (simp add: reads_back_def del: json_dumps.simps)
  moreover have "set (map fst (canon_dict (anchor_record n h))) = set ANCHOR_FIELDS" by (simp add: anchor_record_def ANCHOR_FIELDS_def)
  moreover have "py_get (canon_dict (anchor_record n h)) ''schema_version'' = PStr LOG_SCHEMA_VERSION"
    "py_get (canon_dict (anchor_record n h)) ''event_count'' = PInt (int n)" "py_get (canon_dict (anchor_record n h)) ''head_event_hash'' = PStr h"
    unfolding py_get_canon [OF ok] by (simp_all add: anchor_record_def py_get_def)
  ultimately show ?thesis unfolding anchored_def using assms(3) strip by (auto simp: file_exists_def u(2) simp del: json_dumps.simps)
qed

lemma anchored_count: "anchored env a n h \<Longrightarrow> anchored env a m h' \<Longrightarrow> m = n"
  by (auto simp: anchored_def split: if_splits)

lemma written_log_verifies:
  assumes "verified env f (aw_event_count w) (aw_head_event_hash w) st" and es: "append_events env rq occurred_at ids w = Inr es" "es \<noteq> []"
    and "anchor_bytes (aw_event_count w + length es) (last (map (snd \<circ> snd) es)) = Inr anchor"
    and "list_all (reads_back env \<circ> fst) es"
    and "reads_back env (anchor_record (aw_event_count w + length es) (last (map (snd \<circ> snd) es)))"
    and "distinct ids" and "set ids \<inter> (\<lambda>e. text_item e ''event_id'') ` set (logged env f) = {}"
    and "ap_request_id rq \<notin> (\<lambda>e. text_item e ''request_id'') ` set (logged env f)"
    and f': "f' = f\<lparr>af_log := Contents (log_bytes (af_log f) @ text_of es), af_anchor := Contents anchor\<rparr>"
  shows "verify_audit_log env f' = Inr (aw_event_count w + length es, last (map (snd \<circ> snd) es))"
proof -
  let ?s = "log_bytes (af_log f)" and ?h = "last (map (snd \<circ> snd) es)"
  obtain key where b: "build_events env rq key occurred_at (aw_event_count w) 0 (aw_head_event_hash w) (zip ids (ap_decisions rq)) = Inr es"
    using append_events_build [OF es(1)] by blast
  have old: "?s = [] \<or> last ?s = LF" "verify_lines env 1 (split_lines [] ?s) chain_start = Inr st"
    "aw_event_count w = length (split_lines [] ?s)" "cs_previous st = aw_head_event_hash w"
    using assms(1) by (auto simp: verified_def Let_def)
  have seen: "cs_event_ids st = (\<lambda>e. text_item e ''event_id'') ` set (logged env f)" "cs_request_indexes st = event_position ` set (logged env f)"
    using verify_lines_state [OF old(2)] by (simp_all add: chain_start_def logged_def image_image)
  have json: "le_json env line = Inr (canon (PDict e))" if m: "(e, line, h) \<in> set es" for e line h
    using assms(5) m build_events_lines [OF b m] by (auto simp: list_all_iff reads_back_def)
  have fresh: "(ap_request_id rq, int i) \<notin> cs_request_indexes st" for i
    using assms(9) by (force simp: seen event_position_def)
  have "set (map fst (zip ids (ap_decisions rq))) \<subseteq> set ids" using set_zip_leftD by fastforce
  moreover have "distinct (map fst (zip ids (ap_decisions rq)))" using assms(7) by (simp add: map_fst_zip_take)
  ultimately obtain st' where new: "verify_lines env (aw_event_count w + 0 + 1) (map (fst \<circ> snd) es) st = Inr st'" "cs_previous st' = ?h"
    using new_lines_verify [OF b, of st] json fresh assms(8) es(2) by (simp add: seen(1) old(4)) blast
  have "split_lines [] (?s @ text_of es) = split_lines [] ?s @ map (fst \<circ> snd) es"
    using split_append [of ?s "[]" "text_of es"] old(1) split_text(1) [OF es(1)] by auto
  moreover have "is_sha256 ?h"
    using build_events_lines [OF b, of "fst (last es)" "fst (snd (last es))"] es(2) by (simp add: last_map)
  ultimately have "verified env f' (aw_event_count w + length es) ?h st'"
    using new old split_text(2,3) [OF es(1)] es(2) anchor_written [OF assms(4,6)]
    by (simp add: verified_def f' Let_def log_bytes_def verify_lines_append file_exists_def)
  then show ?thesis using verify_log_Inr by blast
qed

section \<open>The writes\<close>

lemma written_evidence:
  "write_evidence fault f enc anchor = (Inr u, f') \<Longrightarrow>
     f' = f\<lparr>af_log := Contents (log_bytes (af_log f) @ enc), af_anchor := Contents anchor\<rparr>"
  by (auto simp: write_evidence_def Let_def split: audit_file.splits write_fault.splits)

lemma stopped_evidence:
  "write_evidence fault f enc anchor = (Inl x, f') \<Longrightarrow>
     f' = f \<or> (\<exists>t. f' = f\<lparr>af_log := Contents (log_bytes (af_log f) @ t)\<rparr>) \<or>
     fault = Anchor_Unsynced \<and> f' = f\<lparr>af_log := Contents (log_bytes (af_log f) @ enc), af_anchor := Contents anchor\<rparr>"
  by (auto simp: write_evidence_def Let_def split: audit_file.splits write_fault.splits)

lemma append_written:
  assumes "append_inference env rq occurred_at ids fault w f = (Inr hs, w', f')"
  obtains es anchor st where "verified env f (aw_event_count w) (aw_head_event_hash w) st" "ap_decisions rq \<noteq> []"
    "append_events env rq occurred_at ids w = Inr es" "hs = map (snd \<circ> snd) es"
    "anchor_bytes (aw_event_count w + length es) (last (map (snd \<circ> snd) es)) = Inr anchor"
    "f' = f\<lparr>af_log := Contents (log_bytes (af_log f) @ text_of es), af_anchor := Contents anchor\<rparr>"
    "w' = \<lparr>aw_event_count = aw_event_count w + length es, aw_head_event_hash = last (map (snd \<circ> snd) es)\<rparr>"
  using assms
proof (cases rule: append_cases)
  case (written es anchor x)
  obtain st where "verified env f (aw_event_count w) (aw_head_event_hash w) st" using written(1) verify_log_Inr by blast
  moreover obtain u where "x = Inr u" using written(7) by (cases x) auto
  ultimately show ?thesis using written written_evidence [OF written(6) [folded text_of_def, unfolded \<open>x = Inr u\<close>]] by (intro that) auto
qed simp

lemma append_extends:
  assumes a: "append_inference env rq occurred_at ids fault w f = (Inr hs, w', f')" and n: "length ids = length (ap_decisions rq)"
    and "distinct ids" and "set ids \<inter> (\<lambda>e. text_item e ''event_id'') ` set (logged env f) = {}"
    and "ap_request_id rq \<notin> (\<lambda>e. text_item e ''request_id'') ` set (logged env f)"
    and es: "append_events env rq occurred_at ids w = Inr es" and "list_all (reads_back env \<circ> fst) es"
    and "reads_back env (anchor_record (aw_event_count w') (aw_head_event_hash w'))"
  shows "verify_audit_log env f' = Inr (aw_event_count w', aw_head_event_hash w') \<and>
    log_bytes (af_log f') = log_bytes (af_log f) @ text_of es \<and> hs = map (snd \<circ> snd) es \<and>
    aw_event_count w' = aw_event_count w + length (ap_decisions rq)"
proof -
  obtain anchor st where a: "verified env f (aw_event_count w) (aw_head_event_hash w) st" "ap_decisions rq \<noteq> []" "hs = map (snd \<circ> snd) es"
    "anchor_bytes (aw_event_count w + length es) (last (map (snd \<circ> snd) es)) = Inr anchor"
    "f' = f\<lparr>af_log := Contents (log_bytes (af_log f) @ text_of es), af_anchor := Contents anchor\<rparr>"
    "w' = \<lparr>aw_event_count = aw_event_count w + length es, aw_head_event_hash = last (map (snd \<circ> snd) es)\<rparr>"
  proof (rule append_written [OF a])
    fix anchor es' st
    assume es': "append_events env rq occurred_at ids w = Inr es'"
      and r: "verified env f (aw_event_count w) (aw_head_event_hash w) st" "ap_decisions rq \<noteq> []" "hs = map (snd \<circ> snd) es'"
        "anchor_bytes (aw_event_count w + length es') (last (map (snd \<circ> snd) es')) = Inr anchor"
        "f' = f\<lparr>af_log := Contents (log_bytes (af_log f) @ text_of es'), af_anchor := Contents anchor\<rparr>"
        "w' = \<lparr>aw_event_count = aw_event_count w + length es', aw_head_event_hash = last (map (snd \<circ> snd) es')\<rparr>"
    have "es' = es" using es es' by simp
    then show thesis using r by (intro that) blast+
  qed
  have len: "length es = length (ap_decisions rq)" by (rule append_events_length [OF es n])
  then have "es \<noteq> []" using a(2) by auto
  then have "verify_audit_log env f' = Inr (aw_event_count w + length es, last (map (snd \<circ> snd) es))"
    using assms(8) by (intro written_log_verifies [OF a(1) es _ a(4) assms(7) _ assms(3-5) a(5)]) (simp_all add: a(6))
  then show ?thesis using a(3,5,6) len by (simp add: log_bytes_def)
qed

text \<open>More lines than the anchor counts never verify.\<close>

lemma longer_log:
  assumes "verified env f n h st" and "verified env (f\<lparr>af_log := Contents (log_bytes (af_log f) @ t), af_anchor := a\<rparr>) m g st'"
  shows "m = n + length (split_lines [] t)" and "anchored env a m g"
    and "split_lines [] (log_bytes (af_log f) @ t) = split_lines [] (log_bytes (af_log f)) @ split_lines [] t"
proof -
  let ?s = "log_bytes (af_log f)"
  have old: "?s = [] \<or> last ?s = LF" "n = length (split_lines [] ?s)" using assms(1) by (auto simp: verified_def Let_def)
  show *: "split_lines [] (?s @ t) = split_lines [] ?s @ split_lines [] t" using old(1) by (intro split_append) auto
  show "m = n + length (split_lines [] t)" "anchored env a m g"
    using assms(2) * by (auto simp: verified_def Let_def log_bytes_def old(2))
qed

lemma longer_log_refused:
  assumes "verified env f n h st" and "t \<noteq> []"
  shows "\<exists>y. verify_audit_log env (f\<lparr>af_log := Contents (log_bytes (af_log f) @ t)\<rparr>) = Inl y"
proof (cases "verify_audit_log env (f\<lparr>af_log := Contents (log_bytes (af_log f) @ t)\<rparr>)")
  case (Inr r)
  obtain m g where r: "r = (m, g)" by (cases r)
  have "verify_audit_log env (f\<lparr>af_log := Contents (log_bytes (af_log f) @ t), af_anchor := af_anchor f\<rparr>) = Inr (m, g)" using Inr r by simp
  then obtain st' where v: "verified env (f\<lparr>af_log := Contents (log_bytes (af_log f) @ t), af_anchor := af_anchor f\<rparr>) m g st'"
    unfolding verify_log_Inr by blast
  have "anchored env (af_anchor f) n h" using assms(1) unfolding verified_def Let_def by blast
  then have "m = n" using anchored_count longer_log(2) [OF assms(1) v] by blast
  then show ?thesis using longer_log(1) [OF assms(1) v] split_nonempty [of t "[]"] assms(2) by simp
qed simp

lemma empty_log_verifies:
  assumes "verified env f n h st"
  shows "verify_audit_log env (f\<lparr>af_log := Contents (log_bytes (af_log f))\<rparr>) = verify_audit_log env f"
proof -
  have "verified env (f\<lparr>af_log := Contents (log_bytes (af_log f))\<rparr>) n h st" using assms by (auto simp: verified_def Let_def log_bytes_def file_exists_def)
  then show ?thesis using assms verify_log_Inr by metis
qed

lemma unverified_append_refused:
  assumes "\<forall>h. verify_audit_log env f \<noteq> Inr (aw_event_count w, h)"
  shows "\<exists>y. append_inference env rq occurred_at ids fault w f = (Inl y, w, f)"
proof -
  obtain r w' f' where r: "append_inference env rq occurred_at ids fault w f = (r, w', f')" by (metis surj_pair)
  from r show ?thesis by (cases rule: append_cases) (use r assms in auto)
qed

lemma torn_append:
  assumes a: "append_inference env rq occurred_at ids fault w f = (Inl x, w', f')" and n: "length ids = length (ap_decisions rq)"
  shows "w' = w \<and> (verify_audit_log env f' = verify_audit_log env f \<or>
    ((\<exists>y. verify_audit_log env f' = Inl y) \<or> fault = Anchor_Unsynced) \<and>
    (\<exists>y. append_inference env rq2 later ids2 fault2 w f' = (Inl y, w, f')))"
  using a
proof (cases rule: append_cases)
  case (written es anchor r)
  obtain st where v: "verified env f (aw_event_count w) (aw_head_event_hash w) st" using written(1) verify_log_Inr by blast
  have w: "w' = w" using written(7) by (cases r) auto
  have ev: "write_evidence fault f (text_of es) anchor = (Inl x, f')" using written(6,7) by (cases r) (auto simp: text_of_def)
  have es: "es \<noteq> []" using append_events_length [OF written(4) n] written(2) by auto
  from stopped_evidence [OF ev] consider (same) "f' = f" | (torn) t where "f' = f\<lparr>af_log := Contents (log_bytes (af_log f) @ t)\<rparr>"
    | (full) "fault = Anchor_Unsynced" "f' = f\<lparr>af_log := Contents (log_bytes (af_log f) @ text_of es), af_anchor := Contents anchor\<rparr>" by blast
  then show ?thesis
  proof cases
    case same
    then show ?thesis using w by simp
  next
    case (torn t)
    show ?thesis
    proof (cases "t = []")
      case True
      then show ?thesis using w empty_log_verifies [OF v] torn by simp
    next
      case False
      then obtain y where y: "verify_audit_log env f' = Inl y" using longer_log_refused [OF v] torn by blast
      then have "\<exists>y. append_inference env rq2 later ids2 fault2 w f' = (Inl y, w, f')" by (intro unverified_append_refused) simp
      then show ?thesis using w y by blast
    qed
  next
    case full
    have "verify_audit_log env f' \<noteq> Inr (aw_event_count w, h)" for h
    proof
      assume "verify_audit_log env f' = Inr (aw_event_count w, h)"
      then obtain st' where "verified env (f\<lparr>af_log := Contents (log_bytes (af_log f) @ text_of es), af_anchor := Contents anchor\<rparr>) (aw_event_count w) h st'"
        using verify_log_Inr unfolding full(2) by blast
      then show False using longer_log(1) [OF v] split_nonempty [of "text_of es" "[]"] es split_text(2) [OF written(4)] by fastforce
    qed
    then have "\<exists>y. append_inference env rq2 later ids2 fault2 w f' = (Inl y, w, f')" by (intro unverified_append_refused) blast
    then show ?thesis using w full(1) by blast
  qed
qed simp

lemma repeated_request:
  assumes a: "append_inference env rq occurred_at ids fault w f = (Inr hs, w', f')" and n: "length ids = length (ap_decisions rq)"
    and es: "append_events env rq occurred_at ids w = Inr es" and rb: "list_all (reads_back env \<circ> fst) es"
    and old: "(ap_request_id rq, 0) \<in> event_position ` set (logged env f)"
  shows "\<exists>y. verify_audit_log env f' = Inl y"
proof (cases "verify_audit_log env f'")
  case (Inr r)
  obtain es2 anchor st where a: "verified env f (aw_event_count w) (aw_head_event_hash w) st" "ap_decisions rq \<noteq> []"
    "append_events env rq occurred_at ids w = Inr es2"
    "f' = f\<lparr>af_log := Contents (log_bytes (af_log f) @ text_of es2), af_anchor := Contents anchor\<rparr>"
    by (rule append_written [OF a])
  have es2: "es2 = es" using es a(3) by simp
  obtain key where b: "build_events env rq key occurred_at (aw_event_count w) 0 (aw_head_event_hash w) (zip ids (ap_decisions rq)) = Inr es"
    using append_events_build [OF es] by blast
  obtain i ids' d ds where ne: "ids = i # ids'" "ap_decisions rq = d # ds" using a(2) n by (cases ids; cases "ap_decisions rq") auto
  obtain h e line es' where e: "e = new_event rq key occurred_at i 0 (aw_head_event_hash w) d @ [(''event_hash'', PStr h)]"
    "validate_log_event env e (aw_event_count w + 0 + 1) = Inr ()" "json_dumps (PDict e) = Inr line" "es = (e, line, h) # es'"
    using b unfolding ne zip_Cons_Cons build_events_Cons by blast
  have "le_json env line = Inr (canon (PDict e))" using rb e(3,4) by (simp add: reads_back_def del: json_dumps.simps)
  then have read: "read_event env (aw_event_count w + 0 + 1) line = Inr (canon_dict e)" by (rule new_line_read [OF e(1-3)])
  let ?s = "log_bytes (af_log f)"
  have s: "verify_lines env 1 (split_lines [] ?s) chain_start = Inr st" "aw_event_count w = length (split_lines [] ?s)"
    using a(1) by (auto simp: verified_def Let_def)
  obtain m g st' where v: "verified env (f\<lparr>af_log := Contents (?s @ text_of es), af_anchor := Contents anchor\<rparr>) m g st'"
    using Inr verify_log_Inr unfolding a(4) es2 by (metis surj_pair)
  have "split_lines [] (?s @ text_of es) = split_lines [] ?s @ line # map (fst \<circ> snd) es'"
    using longer_log(3) [OF a(1) v] split_text(1) [OF es] by (simp add: e(4))
  then have "verify_lines env 1 (split_lines [] ?s @ line # map (fst \<circ> snd) es') chain_start = Inr st'"
    using v by (simp add: verified_def Let_def log_bytes_def)
  then obtain st1 where "link_event (aw_event_count w + 0 + 1) (canon_dict e) st = Inr st1"
    using read s by (auto simp: verify_lines_append res_bind_Inr_iff simp del: verify_lines.simps(2)) (auto simp: res_bind_Inr_iff)
  moreover have "event_position (canon_dict e) = (ap_request_id rq, 0)" using canon_dict_get(2) new_event_facts(1,4) [OF e(1)] by simp
  moreover have "cs_request_indexes st = event_position ` set (logged env f)"
    using verify_lines_state [OF s(1)] by (simp add: chain_start_def logged_def image_image)
  ultimately show ?thesis using old by (simp add: link_event_Inr)
qed simp

text \<open>A first request, and the same request again after a restart with another decision.\<close>

definition first_decision :: "bool \<Rightarrow> audit_decision" where
  "first_decision b = \<lparr>ad_score = Fin (1 / 2), ad_threshold = Fin (1 / 2), ad_decision = (if b then ''below_review_threshold'' else ''human_review''), ad_model_version = ''v1'',
     ad_model_fingerprint = replicate 64 (CHR ''a'')\<rparr>"

definition first_request :: "bool \<Rightarrow> append_request" where
  "first_request b = \<lparr>ap_request_id = ''req-1'', ap_api_schema_version = ''1.0'', ap_input_digest = replicate 64 (CHR ''c''), ap_latency = Fin 0,
     ap_decisions = [first_decision b]\<rparr>"

definition first_time :: string where "first_time = ''2026-01-01T00:00:00.000000Z''"
definition first_ids :: "bool \<Rightarrow> string list" where "first_ids b = [replicate 32 (if b then CHR ''d'' else CHR ''b'')]"

definition first_unsigned :: "bool \<Rightarrow> string \<Rightarrow> (string, pyval) dict" where
  "first_unsigned b p = new_event (first_request b) (sha256_hex ''req-1'') first_time (hd (first_ids b)) 0 p (first_decision b)"

definition dumped :: "(string, pyval) dict \<Rightarrow> string" where
  "dumped d = (case json_dumps (PDict d) of Inr t \<Rightarrow> t | Inl _ \<Rightarrow> [])"

definition signed_hash :: "bool \<Rightarrow> string \<Rightarrow> string" where "signed_hash b p = sha256_hex (dumped (first_unsigned b p))"
definition first_event :: "bool \<Rightarrow> string \<Rightarrow> (string, pyval) dict" where "first_event b p = first_unsigned b p @ [(''event_hash'', PStr (signed_hash b p))]"
definition first_hash :: string where "first_hash = signed_hash False LOG_GENESIS_HASH"

definition first_env :: log_env where
  "first_env = \<lparr>le_json = (\<lambda>t. Inr (PDict (canon_dict (if take 4 t = ''{\"ev'' then anchor_record 1 first_hash else if t ! 40 = CHR ''b'' then first_event True first_hash else first_event False LOG_GENESIS_HASH)))), le_iso = (\<lambda>_. Some True)\<rparr>"

definition no_log :: audit_files where "no_log = \<lparr>af_log = Absent, af_anchor = Absent\<rparr>"
definition new_writer :: audit_writer where "new_writer = \<lparr>aw_event_count = 0, aw_head_event_hash = LOG_GENESIS_HASH\<rparr>"

lemma res_map_returns: "(\<And>x. x \<in> set xs \<Longrightarrow> \<exists>y. f x = Inr y) \<Longrightarrow> \<exists>ys. res_map f xs = Inr ys"
  by (induction xs) fastforce+

definition plain_item :: "pyval \<Rightarrow> bool" where
  "plain_item v = (case v of PStr _ \<Rightarrow> True | PInt _ \<Rightarrow> True | PFloat (Fin _) \<Rightarrow> True | _ \<Rightarrow> False)"

lemma dumps_dumped:
  assumes "list_all (plain_item \<circ> snd) d"
  shows "json_dumps (PDict d) = Inr (dumped d)"
proof -
  have "\<exists>y. res_bind (json_dumps (snd kv)) (\<lambda>t. Inr (json_str (fst kv) @ '':'' @ t)) = Inr y" if "kv \<in> set (sort_key fst d)" for kv
  proof -
    have "plain_item (snd kv)" using assms that by (auto simp: list_all_iff)
    then show ?thesis by (auto simp: plain_item_def split: pyval.splits pyfloat.splits)
  qed
  then have "\<exists>ts. res_map (\<lambda>kv. res_bind (json_dumps (snd kv)) (\<lambda>t. Inr (json_str (fst kv) @ '':'' @ t))) (sort_key fst d) = Inr ts"
    by (rule res_map_returns)
  then obtain ts where "res_map (\<lambda>kv. res_bind (json_dumps (snd kv)) (\<lambda>t. Inr (json_str (fst kv) @ '':'' @ t))) (sort_key fst d) = Inr ts"
    by (elim exE) (rule that)
  then have "json_dumps (PDict d) = Inr (''{'' @ join '','' ts @ ''}'')" by simp
  then show ?thesis by (simp add: dumped_def del: json_dumps.simps)
qed

lemma round3_0 [simp]: "round3 (Fin 0) = Fin 0"
  using round_half_even_int [of 0] by (simp add: round3_def)

lemma first_dumps:
  "json_dumps (PDict (first_unsigned b p)) = Inr (dumped (first_unsigned b p))" "json_dumps (PDict (first_event b p)) = Inr (dumped (first_event b p))"
  "json_dumps (PDict (anchor_record n h)) = Inr (dumped (anchor_record n h))"
  by (rule dumps_dumped; simp add: plain_item_def first_unsigned_def first_event_def new_event_def first_request_def first_decision_def anchor_record_def)+

lemma first_key: "idempotency_key_sha256 ''req-1'' = Inr (sha256_hex ''req-1'')"
  by (simp add: idempotency_key_sha256_def is_request_id_def is_request_id_char_def is_upper_def is_lower_def is_digit_def)

lemma first_digests [simp]:
  "is_sha256 (replicate 64 (CHR ''a''))" "is_sha256 (replicate 64 (CHR ''c''))" "is_sha256 LOG_GENESIS_HASH" "is_sha256 (signed_hash b p)" "is_sha256 first_hash"
proof -
  show "is_sha256 (signed_hash b p)" "is_sha256 first_hash" by (simp_all add: signed_hash_def first_hash_def)
qed (simp_all add: is_sha256_def is_hex_lower_def is_digit_def LOG_GENESIS_HASH_def list_all_iff)

lemma first_readers:
  "is_request_value (PStr ''req-1'')" "is_event_id (PStr (hd (first_ids b)))" "validate_timestamp first_env (PStr first_time) l = Inr ()"
  "is_sha256 h \<Longrightarrow> require_value_sha256 (PStr h) l = Inr h"
  by (simp_all add: is_request_value_def str_of_def is_request_id_def is_request_id_char_def is_upper_def is_lower_def is_digit_def is_event_id_def
      first_ids_def is_hex_lower_def list_all_iff validate_timestamp_def first_time_def first_env_def)

lemma first_valid: "is_sha256 p \<Longrightarrow> validate_log_event first_env (first_event b p) n = Inr ()"
  by (simp add: validate_log_event_def Let_def first_event_def first_unsigned_def new_event_def first_request_def first_decision_def
      AUDIT_EVENT_FIELDS_def py_get_def first_readers str_of_def int_of_def require_finite_def finite_value_def py_float_def is_finite_def in_string_set_def)

lemma first_events:
  assumes "is_sha256 p"
  shows "append_events first_env (first_request b) first_time (first_ids b) \<lparr>aw_event_count = n, aw_head_event_hash = p\<rparr> =
    Inr [(first_event b p, dumped (first_event b p), signed_hash b p)]"
proof -
  have h: "sha256_canonical (PDict (first_unsigned b p)) = Inr (signed_hash b p)"
    by (simp add: sha256_canonical_def first_dumps signed_hash_def del: json_dumps.simps)
  have "build_events first_env (first_request b) (sha256_hex ''req-1'') first_time n 0 p [(hd (first_ids b), first_decision b)] =
      Inr [(first_event b p, dumped (first_event b p), signed_hash b p)]"
    unfolding build_events_Cons first_unsigned_def [symmetric] using h first_valid [OF assms] first_dumps(2)
    by (simp add: first_event_def first_decision_def del: json_dumps.simps)
  moreover have "zip (first_ids b) (ap_decisions (first_request b)) = [(hd (first_ids b), first_decision b)]" "ap_request_id (first_request b) = ''req-1''"
    by (simp_all add: first_request_def first_ids_def)
  ultimately show ?thesis by (simp add: append_events_def first_key del: build_events.simps)
qed

definition one_event :: audit_files where
  "one_event = \<lparr>af_log = Contents (dumped (first_event False LOG_GENESIS_HASH) @ [LF]), af_anchor = Contents (dumped (anchor_record 1 first_hash) @ [LF])\<rparr>"

definition first_writer :: audit_writer where "first_writer = \<lparr>aw_event_count = 1, aw_head_event_hash = first_hash\<rparr>"

lemma first_append:
  assumes "verify_audit_log first_env f = Inr (n, p)" and "is_sha256 p" and "fault = No_Fault \<or> fault = Log_Short 7" and "af_log f = Absent \<or> af_log f = Contents s"
  shows "append_inference first_env (first_request b) first_time (first_ids b) fault \<lparr>aw_event_count = n, aw_head_event_hash = p\<rparr> f =
     (if fault = No_Fault
      then (Inr [signed_hash b p], \<lparr>aw_event_count = Suc n, aw_head_event_hash = signed_hash b p\<rparr>,
        f\<lparr>af_log := Contents (log_bytes (af_log f) @ dumped (first_event b p) @ [LF]),
          af_anchor := Contents (dumped (anchor_record (Suc n) (signed_hash b p)) @ [LF])\<rparr>)
      else (Inl os_error, \<lparr>aw_event_count = n, aw_head_event_hash = p\<rparr>,
        f\<lparr>af_log := Contents (log_bytes (af_log f) @ take 7 (dumped (first_event b p) @ [LF]))\<rparr>))"
proof -
  have rq: "ap_decisions (first_request b) \<noteq> []" "ap_api_schema_version (first_request b) = ''1.0''" "is_sha256 (ap_input_digest (first_request b))"
    "ap_request_id (first_request b) = ''req-1''" "ap_latency (first_request b) = Fin 0" by (simp_all add: first_request_def)
  have "prepare_append first_env (first_request b) first_time (first_ids b) \<lparr>aw_event_count = n, aw_head_event_hash = p\<rparr> f =
      Inr ([(first_event b p, dumped (first_event b p), signed_hash b p)], dumped (anchor_record (Suc n) (signed_hash b p)) @ [LF])"
    using first_events [OF assms(2), of b n]
    by (simp add: prepare_append_def assms(1) rq anchor_bytes_def first_dumps require_audit_sha256_def first_key is_finite_def del: json_dumps.simps)
  then show ?thesis using assms(3,4) by (auto simp: append_inference_def write_evidence_def Let_def)
qed

lemma first_reads_back:
  "reads_back first_env (first_event True first_hash)" "reads_back first_env (first_event False LOG_GENESIS_HASH)"
  "reads_back first_env (anchor_record 1 first_hash)"
proof -
  show "reads_back first_env (anchor_record 1 first_hash)"
    unfolding reads_back_def first_dumps by (simp add: first_env_def dumped_def anchor_record_def join_def json_str_def json_char_def)
  show "reads_back first_env (first_event True first_hash)" "reads_back first_env (first_event False LOG_GENESIS_HASH)"
    unfolding reads_back_def first_dumps
    by (simp_all add: first_env_def dumped_def first_event_def first_unsigned_def new_event_def join_def json_str_def json_char_def
        first_request_def first_decision_def LOG_SCHEMA_VERSION_def)
qed

lemma no_log_verifies: "verify_audit_log first_env no_log = Inr (0, LOG_GENESIS_HASH)"
  by (simp add: verify_audit_log_def no_log_def file_exists_def)

lemma first_written:
  "append_inference first_env (first_request False) first_time (first_ids False) No_Fault new_writer no_log = (Inr [first_hash], first_writer, one_event)"
  using first_append [OF no_log_verifies, of No_Fault _ False] by (simp add: new_writer_def first_writer_def first_hash_def one_event_def no_log_def log_bytes_def)

lemma first_verifies: "verify_audit_log first_env one_event = Inr (1, first_hash)"
  using append_extends [OF first_written, of "[(first_event False LOG_GENESIS_HASH, dumped (first_event False LOG_GENESIS_HASH), first_hash)]"]
    first_events [of LOG_GENESIS_HASH False 0] first_reads_back
  by (simp add: first_ids_def first_request_def logged_def no_log_def log_bytes_def first_writer_def first_hash_def new_writer_def)

section \<open>Properties\<close>

text \<open>C7. An append that succeeds extends the log: when its request identifier and its event
  identifiers are new to the log, the latter distinct, and \<open>json.loads\<close> reads
  back what was written, the files verify again, with the writer's new count and head; the old bytes
  are kept, one line follows for each decision, and the receipts are the hashes of the new events.\<close>

theorem append_extends_the_chain:
  assumes "append_inference env rq occurred_at ids fault w f = (Inr hs, w', f')" and "length ids = length (ap_decisions rq)"
    and "distinct ids" and "set ids \<inter> (\<lambda>e. text_item e ''event_id'') ` set (logged env f) = {}"
    and "ap_request_id rq \<notin> (\<lambda>e. text_item e ''request_id'') ` set (logged env f)"
    and "append_events env rq occurred_at ids w = Inr es" and "list_all (reads_back env \<circ> fst) es"
    and "reads_back env (anchor_record (aw_event_count w') (aw_head_event_hash w'))"
  shows "verify_audit_log env f' = Inr (aw_event_count w', aw_head_event_hash w') \<and>
    log_bytes (af_log f') = log_bytes (af_log f) @ text_of es \<and> hs = map (snd \<circ> snd) es \<and>
    aw_event_count w' = aw_event_count w + length (ap_decisions rq)"
  using assms by (rule append_extends)

lemma append_extends_the_chain_witness:
  "verify_audit_log first_env one_event = Inr (1, first_hash) \<and> log_bytes (af_log one_event) = dumped (first_event False LOG_GENESIS_HASH) @ [LF]"
  using append_extends_the_chain [OF first_written, of "[(first_event False LOG_GENESIS_HASH, dumped (first_event False LOG_GENESIS_HASH), first_hash)]"]
    first_events [of LOG_GENESIS_HASH False 0] first_reads_back
  by (simp add: first_ids_def first_request_def logged_def no_log_def log_bytes_def first_writer_def first_hash_def new_writer_def text_of_def)

text \<open>C23. An append that the operating system stops never passes for evidence: the writer keeps its
  count and head, and either the files verify as they did before, or they do not verify at all
  or, when only the last step on the anchor failed, they are ahead of the writer; in both of the last
  cases every later append by this writer is refused and leaves the files alone.\<close>

theorem torn_append_is_refused:
  assumes "append_inference env rq occurred_at ids fault w f = (Inl x, w', f')" and "length ids = length (ap_decisions rq)"
  shows "w' = w \<and> (verify_audit_log env f' = verify_audit_log env f \<or>
    ((\<exists>y. verify_audit_log env f' = Inl y) \<or> fault = Anchor_Unsynced) \<and>
    (\<exists>y. append_inference env rq2 later ids2 fault2 w f' = (Inl y, w, f')))"
  using assms by (rule torn_append)

lemma torn_append_is_refused_witness:
  "\<exists>y. append_inference first_env (first_request True) first_time (first_ids True) No_Fault first_writer
      (one_event\<lparr>af_log := Contents (log_bytes (af_log one_event) @ take 7 (dumped (first_event True first_hash) @ [LF]))\<rparr>) =
    (Inl y, first_writer, one_event\<lparr>af_log := Contents (log_bytes (af_log one_event) @ take 7 (dumped (first_event True first_hash) @ [LF]))\<rparr>)"
proof -
  let ?f = "one_event\<lparr>af_log := Contents (log_bytes (af_log one_event) @ take 7 (dumped (first_event True first_hash) @ [LF]))\<rparr>"
  have t: "append_inference first_env (first_request True) first_time (first_ids True) (Log_Short 7) first_writer one_event = (Inl os_error, first_writer, ?f)"
    using first_append [OF first_verifies, of "Log_Short 7" _ True] by (simp add: first_writer_def one_event_def)
  obtain st where v: "verified first_env one_event 1 first_hash st" using first_verifies verify_log_Inr by blast
  have "\<exists>y. verify_audit_log first_env ?f = Inl y" by (rule longer_log_refused [OF v]) simp
  then have "verify_audit_log first_env ?f \<noteq> verify_audit_log first_env one_event" using first_verifies by auto
  moreover have "length (first_ids True) = length (ap_decisions (first_request True))" by (simp add: first_ids_def first_request_def)
  ultimately show ?thesis using torn_append_is_refused [OF t] by blast
qed

text \<open>C24. The writer does not look for the request identifiers that the log already holds: an append
  for a request that was logged before (a retry after a restart) succeeds, and from then on the log
  does not verify, can not be opened again, and no append is accepted.\<close>

theorem repeated_request_closes_the_log:
  assumes "append_inference env rq occurred_at ids fault w f = (Inr hs, w', f')" and "length ids = length (ap_decisions rq)"
    and "append_events env rq occurred_at ids w = Inr es" and "list_all (reads_back env \<circ> fst) es"
    and "(ap_request_id rq, 0) \<in> event_position ` set (logged env f)"
  shows "(\<exists>y. verify_audit_log env f' = Inl y) \<and> (\<exists>y. audit_log_open env p q f' = Inl y) \<and>
    (\<exists>y. append_inference env rq2 later ids2 fault2 w2 f' = (Inl y, w2, f'))"
proof -
  obtain y where y: "verify_audit_log env f' = Inl y" using repeated_request [OF assms] by blast
  then have "\<exists>y. append_inference env rq2 later ids2 fault2 w2 f' = (Inl y, w2, f')" by (intro unverified_append_refused) simp
  then show ?thesis using y by (simp add: audit_log_open_def)
qed

lemma repeated_request_closes_the_log_witness:
  "\<exists>hs w f. append_inference first_env (first_request True) first_time (first_ids True) No_Fault first_writer one_event = (Inr hs, w, f) \<and>
     (\<exists>y. audit_log_open first_env True True f = Inl y)"
proof -
  obtain w f where t: "append_inference first_env (first_request True) first_time (first_ids True) No_Fault first_writer one_event =
      (Inr [signed_hash True first_hash], w, f)"
    using first_append [OF first_verifies, of No_Fault _ True] by (simp add: first_writer_def one_event_def)
  have es: "append_events first_env (first_request True) first_time (first_ids True) first_writer =
      Inr [(first_event True first_hash, dumped (first_event True first_hash), signed_hash True first_hash)]"
    using first_events [of first_hash True 1] by (simp add: first_writer_def)
  have "split_lines [] (log_bytes (af_log one_event)) = [dumped (first_event False LOG_GENESIS_HASH)]"
    using split_text(1) [OF first_events [of LOG_GENESIS_HASH False 0]] by (simp add: text_of_def one_event_def log_bytes_def)
  then have "logged first_env one_event = [canon_dict (first_event False LOG_GENESIS_HASH)]"
    using first_reads_back(2) unfolding reads_back_def first_dumps by (simp add: logged_def log_event_def)
  moreover have "event_position (canon_dict (first_event False LOG_GENESIS_HASH)) = (''req-1'', 0)"
    using canon_dict_get(2) new_event_facts(1,4) [of "first_event False LOG_GENESIS_HASH"] by (simp add: first_event_def first_unsigned_def first_request_def)
  ultimately have old: "(ap_request_id (first_request True), 0) \<in> event_position ` set (logged first_env one_event)" by (simp add: first_request_def)
  have "length (first_ids True) = length (ap_decisions (first_request True))" by (simp add: first_ids_def first_request_def)
  then have "\<exists>y. audit_log_open first_env True True f = Inl y"
    using repeated_request_closes_the_log [OF t _ es _ old] first_reads_back(1) by (simp add: list_all_iff)
  then show ?thesis using t by blast
qed

end
