(* ===== verification/Scenarios.thy ===== *)
theory Scenarios
  imports Feature_Families Py_Values
begin

text \<open>
  \<open>src/src/synthetic_realtime/scenarios.py\<close>: the nine scenario generators and their registry.
  \<open>random.Random\<close> is an argument: its state after seeding, and the two primitives that \<open>randint\<close>,
  \<open>choice\<close> and \<open>uniform\<close> draw from, a natural number below a bound and a float in the unit
  interval. Every generator is a function of that, the seed and the start.
\<close>

section \<open>Random numbers\<close>

record 'r random_lib =
  rd_seeded :: "int \<Rightarrow> 'r"
  rd_below :: "nat \<Rightarrow> 'r \<Rightarrow> nat \<times> 'r"
  rd_random :: "'r \<Rightarrow> rat \<times> 'r"

definition new_rng :: "'r random_lib \<Rightarrow> int \<Rightarrow> py_exc + 'r" where
  "new_rng R seed = res_bind (validate_seed seed) (\<lambda>s. Inr (rd_seeded R s))"

definition derived_rng :: "'r random_lib \<Rightarrow> int \<Rightarrow> string \<Rightarrow> py_exc + 'r" where
  "derived_rng R seed label = res_bind (derive_seed seed label) (new_rng R)"

definition rng_choice :: "'r random_lib \<Rightarrow> 'a list \<Rightarrow> 'r \<Rightarrow> 'a \<times> 'r" where
  "rng_choice R xs g = (let (i, g') = rd_below R (length xs) g in (xs ! i, g'))"

definition rng_uniform :: "'r random_lib \<Rightarrow> rat \<Rightarrow> rat \<Rightarrow> 'r \<Rightarrow> pyfloat \<times> 'r" where
  "rng_uniform R a b g =
     (let (u, g') = rd_random R g in (fadd (Fin a) (fmul (fsub (Fin b) (Fin a)) (Fin u)), g'))"

text \<open>\<open>round(x, 2)\<close> and the zero-padded formats \<open>:03d\<close>, \<open>:06d\<close>.\<close>

definition round2 :: "pyfloat \<Rightarrow> pyfloat" where
  "round2 x = (case x of Fin q \<Rightarrow> fl (of_int (round_half_even (q * 100)) / 100) | _ \<Rightarrow> x)"

definition padded :: "nat \<Rightarrow> nat \<Rightarrow> string" where
  "padded w n = (let s = nat_str n in replicate (w - length s) (CHR ''0'') @ s)"

section \<open>Constants\<close>

definition MIN_EVENT_COUNT :: int where "MIN_EVENT_COUNT = 1"
definition MAX_EVENT_COUNT :: int where "MAX_EVENT_COUNT = 500"
definition BASELINE_INTERVAL :: timedelta where "BASELINE_INTERVAL = seconds 30"
definition BASELINE_COUNTRIES :: "string list" where "BASELINE_COUNTRIES = [''IN'', ''US'', ''GB'']"
definition BASELINE_REGIONS :: "string list" where "BASELINE_REGIONS = [''APAC'', ''NA'', ''EMEA'']"
definition BASELINE_MIN_AMOUNT :: rat where "BASELINE_MIN_AMOUNT = 50"
definition BASELINE_MAX_AMOUNT :: rat where "BASELINE_MAX_AMOUNT = 5000"
definition BURST_INTERVAL :: timedelta where "BURST_INTERVAL = seconds 10"
definition BURST_EVENT_COUNT :: nat where "BURST_EVENT_COUNT = 6"
definition ADDRESS_FAN_OUT_INTERVAL :: timedelta where "ADDRESS_FAN_OUT_INTERVAL = seconds 5"
definition ADDRESS_FAN_OUT_EVENT_COUNT :: nat where "ADDRESS_FAN_OUT_EVENT_COUNT = ADDRESS_FAN_OUT_ACCOUNT_THRESHOLD + 2"
definition VPN_MISMATCH_INTERVAL :: timedelta where "VPN_MISMATCH_INTERVAL = seconds 30"
definition VPN_MISMATCH_EVENT_COUNT :: nat where "VPN_MISMATCH_EVENT_COUNT = 4"
definition RETRY_STORM_INTERVAL :: timedelta where "RETRY_STORM_INTERVAL = seconds 5"
definition RETRY_STORM_EVENT_COUNT :: nat where
  "RETRY_STORM_EVENT_COUNT = max RETRY_GROUP_SIZE_THRESHOLD ACCOUNT_FAILURE_COUNT_THRESHOLD + 2"
definition UNUSUAL_AMOUNT_INTERVAL :: timedelta where "UNUSUAL_AMOUNT_INTERVAL = seconds 600"
definition UNUSUAL_AMOUNT_BASELINE_COUNT :: nat where "UNUSUAL_AMOUNT_BASELINE_COUNT = 3"
definition UNUSUAL_AMOUNT_BASELINE_MIN :: rat where "UNUSUAL_AMOUNT_BASELINE_MIN = 50"
definition UNUSUAL_AMOUNT_BASELINE_MAX :: rat where "UNUSUAL_AMOUNT_BASELINE_MAX = 150"
definition UNUSUAL_AMOUNT_SPIKE_MULTIPLIER :: pyfloat where
  "UNUSUAL_AMOUNT_SPIKE_MULTIPLIER = fadd AMOUNT_DEVIATION_THRESHOLD_MULTIPLIER (Fin 2)"
definition UNUSUAL_AMOUNT_EVENT_COUNT :: nat where "UNUSUAL_AMOUNT_EVENT_COUNT = UNUSUAL_AMOUNT_BASELINE_COUNT + 1"
definition MERCHANT_DEVIATION_INTERVAL :: timedelta where "MERCHANT_DEVIATION_INTERVAL = seconds 60"
definition MERCHANT_DEVIATION_EVENT_COUNT :: nat where "MERCHANT_DEVIATION_EVENT_COUNT = MERCHANT_MIN_SAMPLE_SIZE + 2"

text \<open>\<open>round(x)\<close> of a float is the nearest integer, ties to even.\<close>

definition MERCHANT_DEVIATION_FAILING_COUNT :: nat where
  "MERCHANT_DEVIATION_FAILING_COUNT =
     min (nat (case fmul (float_of_int (int MERCHANT_DEVIATION_EVENT_COUNT)) MERCHANT_FAILURE_RATE_THRESHOLD of
                 Fin q \<Rightarrow> round_half_even q | _ \<Rightarrow> 0) + 1)
         MERCHANT_DEVIATION_EVENT_COUNT"

definition DUPLICATE_INTERVAL :: timedelta where "DUPLICATE_INTERVAL = seconds 20"
definition DUPLICATE_BASE_COUNT :: nat where "DUPLICATE_BASE_COUNT = 3"
definition DUPLICATE_EVENT_COUNT :: nat where "DUPLICATE_EVENT_COUNT = DUPLICATE_BASE_COUNT + 1"
definition OUT_OF_ORDER_OFFSETS_SECONDS :: "int list" where "OUT_OF_ORDER_OFFSETS_SECONDS = [0, 120, 30, 150]"
definition OUT_OF_ORDER_EVENT_COUNT :: nat where "OUT_OF_ORDER_EVENT_COUNT = length OUT_OF_ORDER_OFFSETS_SECONDS"

section \<open>Draws\<close>

definition scenario_token :: "'r random_lib \<Rightarrow> string \<Rightarrow> 'r \<Rightarrow> string \<times> 'r" where
  "scenario_token R prefix g = (let (n, g') = rd_below R 1000 g in (''syn_'' @ prefix @ ''_'' @ padded 3 n, g'))"

definition uniform_amount :: "'r random_lib \<Rightarrow> rat \<Rightarrow> rat \<Rightarrow> 'r \<Rightarrow> pyfloat \<times> 'r" where
  "uniform_amount R a b g = (let (x, g') = rng_uniform R a b g in (round2 x, g'))"

definition baseline_amount :: "'r random_lib \<Rightarrow> 'r \<Rightarrow> pyfloat \<times> 'r" where
  "baseline_amount R = uniform_amount R BASELINE_MIN_AMOUNT BASELINE_MAX_AMOUNT"

text \<open>A token from a stream of its own.\<close>

definition shared_token :: "'r random_lib \<Rightarrow> int \<Rightarrow> string \<Rightarrow> string \<Rightarrow> py_exc + string" where
  "shared_token R seed label prefix = res_bind (derived_rng R seed label) (\<lambda>g. Inr (fst (scenario_token R prefix g)))"

text \<open>The constructor call of every generator, with the arguments that are the same in all of them.\<close>

definition scenario_event ::
  "string \<Rightarrow> pydatetime \<Rightarrow> string \<Rightarrow> string \<Rightarrow> string \<Rightarrow> string \<Rightarrow> string \<Rightarrow> string \<Rightarrow> pyfloat \<Rightarrow> outcome \<Rightarrow>
   string \<Rightarrow> string \<Rightarrow> string \<Rightarrow> bool \<Rightarrow> string option \<Rightarrow> synthetic_event" where
  "scenario_event eid t acct dev pm mer addr ip amt oc home ctry region vpn retry =
     \<lparr>event_id = eid, event_time = t, account_id = acct, device_id = dev, payment_method_id = pm, merchant_id = mer,
      address_id = addr, ip_id = ip, amount = amt, ev_currency = INR, ev_outcome = oc, account_country = home,
      event_country = ctry, event_region = region, billing_shipping_match = True, vpn_or_proxy = vpn, retry_group_id = retry\<rparr>"

definition scenario_event_id :: "string \<Rightarrow> nat \<Rightarrow> string" where
  "scenario_event_id name index = ''evt_'' @ name @ ''_'' @ padded 6 index"

definition at_index :: "pydatetime \<Rightarrow> timedelta \<Rightarrow> nat \<Rightarrow> py_exc + pydatetime" where
  "at_index start interval index = dt_add start (interval * int index)"

section \<open>Generators\<close>

definition normal_baseline_event :: "'r random_lib \<Rightarrow> int \<Rightarrow> pydatetime \<Rightarrow> nat \<Rightarrow> py_exc + synthetic_event" where
  "normal_baseline_event R seed start index =
     res_bind (derived_rng R seed (''normal_baseline:'' @ nat_str index)) (\<lambda>g.
     res_bind (at_index start BASELINE_INTERVAL index) (\<lambda>t.
       let (country, g1) = rng_choice R BASELINE_COUNTRIES g;
           (region, g2) = rng_choice R BASELINE_REGIONS g1;
           (acct, g3) = scenario_token R ''acct'' g2;
           (dev, g4) = scenario_token R ''dev'' g3;
           (pm, g5) = scenario_token R ''pm'' g4;
           (mer, g6) = scenario_token R ''mer'' g5;
           (addr, g7) = scenario_token R ''addr'' g6;
           (ip, g8) = scenario_token R ''ip'' g7;
           (amt, g9) = baseline_amount R g8
       in make_event (scenario_event (scenario_event_id ''normal_baseline'' index) t acct dev pm mer addr ip amt Success country country region False None)))"

definition generate_normal_baseline :: "'r random_lib \<Rightarrow> int \<Rightarrow> pydatetime \<Rightarrow> nat \<Rightarrow> py_exc + synthetic_event list" where
  "generate_normal_baseline R seed start n = res_map (normal_baseline_event R seed start) [0..<n]"

definition new_device_burst_event :: "'r random_lib \<Rightarrow> int \<Rightarrow> pydatetime \<Rightarrow> string \<Rightarrow> nat \<Rightarrow> py_exc + synthetic_event" where
  "new_device_burst_event R seed start acct index =
     res_bind (derived_rng R seed (''new_device_burst:'' @ nat_str index)) (\<lambda>g.
     res_bind (at_index start BURST_INTERVAL index) (\<lambda>t.
       let (dev, g1) = scenario_token R ''dev'' g;
           (pm, g2) = scenario_token R ''pm'' g1;
           (mer, g3) = scenario_token R ''mer'' g2;
           (addr, g4) = scenario_token R ''addr'' g3;
           (ip, g5) = scenario_token R ''ip'' g4;
           (amt, g6) = baseline_amount R g5
       in make_event (scenario_event (scenario_event_id ''new_device_burst'' index) t acct dev pm mer addr ip amt Success ''IN'' ''IN'' ''APAC'' False None)))"

definition generate_new_device_burst :: "'r random_lib \<Rightarrow> int \<Rightarrow> pydatetime \<Rightarrow> py_exc + synthetic_event list" where
  "generate_new_device_burst R seed start =
     res_bind (shared_token R seed ''new_device_burst:account'' ''acct'') (\<lambda>acct.
       res_map (new_device_burst_event R seed start acct) [0..<BURST_EVENT_COUNT])"

definition address_fan_out_event :: "'r random_lib \<Rightarrow> int \<Rightarrow> pydatetime \<Rightarrow> string \<Rightarrow> nat \<Rightarrow> py_exc + synthetic_event" where
  "address_fan_out_event R seed start addr index =
     res_bind (derived_rng R seed (''address_fan_out:'' @ nat_str index)) (\<lambda>g.
     res_bind (at_index start ADDRESS_FAN_OUT_INTERVAL index) (\<lambda>t.
       let (acct, g1) = scenario_token R ''acct'' g;
           (dev, g2) = scenario_token R ''dev'' g1;
           (pm, g3) = scenario_token R ''pm'' g2;
           (mer, g4) = scenario_token R ''mer'' g3;
           (ip, g5) = scenario_token R ''ip'' g4;
           (amt, g6) = baseline_amount R g5
       in make_event (scenario_event (scenario_event_id ''address_fan_out'' index) t acct dev pm mer addr ip amt Success ''IN'' ''IN'' ''APAC'' False None)))"

definition generate_address_fan_out :: "'r random_lib \<Rightarrow> int \<Rightarrow> pydatetime \<Rightarrow> py_exc + synthetic_event list" where
  "generate_address_fan_out R seed start =
     res_bind (shared_token R seed ''address_fan_out:address'' ''addr'') (\<lambda>addr.
       res_map (address_fan_out_event R seed start addr) [0..<ADDRESS_FAN_OUT_EVENT_COUNT])"

definition vpn_geography_mismatch_event :: "'r random_lib \<Rightarrow> int \<Rightarrow> pydatetime \<Rightarrow> nat \<Rightarrow> py_exc + synthetic_event" where
  "vpn_geography_mismatch_event R seed start index =
     res_bind (derived_rng R seed (''vpn_geography_mismatch:'' @ nat_str index)) (\<lambda>g.
     res_bind (at_index start VPN_MISMATCH_INTERVAL index) (\<lambda>t.
       let (acct, g1) = scenario_token R ''acct'' g;
           (dev, g2) = scenario_token R ''dev'' g1;
           (pm, g3) = scenario_token R ''pm'' g2;
           (mer, g4) = scenario_token R ''mer'' g3;
           (addr, g5) = scenario_token R ''addr'' g4;
           (ip, g6) = scenario_token R ''ip'' g5;
           (amt, g7) = baseline_amount R g6
       in make_event (scenario_event (scenario_event_id ''vpn_geography_mismatch'' index) t acct dev pm mer addr ip amt Success ''IN'' ''US'' ''NA'' True None)))"

definition generate_vpn_geography_mismatch :: "'r random_lib \<Rightarrow> int \<Rightarrow> pydatetime \<Rightarrow> py_exc + synthetic_event list" where
  "generate_vpn_geography_mismatch R seed start =
     res_map (vpn_geography_mismatch_event R seed start) [0..<VPN_MISMATCH_EVENT_COUNT]"

definition retry_storm_event :: "'r random_lib \<Rightarrow> int \<Rightarrow> pydatetime \<Rightarrow> string \<Rightarrow> string \<Rightarrow> string \<Rightarrow> string \<Rightarrow> nat \<Rightarrow> py_exc + synthetic_event" where
  "retry_storm_event R seed start acct dev pm retry index =
     res_bind (derived_rng R seed (''retry_storm:'' @ nat_str index)) (\<lambda>g.
     res_bind (at_index start RETRY_STORM_INTERVAL index) (\<lambda>t.
       let (mer, g1) = scenario_token R ''mer'' g;
           (addr, g2) = scenario_token R ''addr'' g1;
           (ip, g3) = scenario_token R ''ip'' g2;
           (amt, g4) = baseline_amount R g3
       in make_event (scenario_event (scenario_event_id ''retry_storm'' index) t acct dev pm mer addr ip amt
           (if index = RETRY_STORM_EVENT_COUNT - 1 then Success else Declined) ''IN'' ''IN'' ''APAC'' False (Some retry))))"

definition generate_retry_storm :: "'r random_lib \<Rightarrow> int \<Rightarrow> pydatetime \<Rightarrow> py_exc + synthetic_event list" where
  "generate_retry_storm R seed start =
     res_bind (shared_token R seed ''retry_storm:account'' ''acct'') (\<lambda>acct.
     res_bind (shared_token R seed ''retry_storm:device'' ''dev'') (\<lambda>dev.
     res_bind (shared_token R seed ''retry_storm:pm'' ''pm'') (\<lambda>pm.
     res_bind (shared_token R seed ''retry_storm:group'' ''retry'') (\<lambda>retry.
       res_map (retry_storm_event R seed start acct dev pm retry) [0..<RETRY_STORM_EVENT_COUNT]))))"

definition unusual_amount_event :: "'r random_lib \<Rightarrow> int \<Rightarrow> pydatetime \<Rightarrow> string \<Rightarrow> nat \<Rightarrow> py_exc + synthetic_event" where
  "unusual_amount_event R seed start acct index =
     res_bind (derived_rng R seed (''unusual_amount:baseline:'' @ nat_str index)) (\<lambda>g.
     res_bind (at_index start UNUSUAL_AMOUNT_INTERVAL index) (\<lambda>t.
       let (amt, g1) = uniform_amount R UNUSUAL_AMOUNT_BASELINE_MIN UNUSUAL_AMOUNT_BASELINE_MAX g;
           (dev, g2) = scenario_token R ''dev'' g1;
           (pm, g3) = scenario_token R ''pm'' g2;
           (mer, g4) = scenario_token R ''mer'' g3;
           (addr, g5) = scenario_token R ''addr'' g4;
           (ip, g6) = scenario_token R ''ip'' g5
       in make_event (scenario_event (scenario_event_id ''unusual_amount'' index) t acct dev pm mer addr ip amt Success ''IN'' ''IN'' ''APAC'' False None)))"

text \<open>The spike is a multiple of the mean of the amounts before it.\<close>

definition unusual_amount_spike :: "'r random_lib \<Rightarrow> int \<Rightarrow> pydatetime \<Rightarrow> string \<Rightarrow> pyfloat \<Rightarrow> nat \<Rightarrow> py_exc + synthetic_event" where
  "unusual_amount_spike R seed start acct baseline_mean index =
     res_bind (derived_rng R seed ''unusual_amount:spike'') (\<lambda>g.
     res_bind (at_index start UNUSUAL_AMOUNT_INTERVAL index) (\<lambda>t.
       let (dev, g1) = scenario_token R ''dev'' g;
           (pm, g2) = scenario_token R ''pm'' g1;
           (mer, g3) = scenario_token R ''mer'' g2;
           (addr, g4) = scenario_token R ''addr'' g3;
           (ip, g5) = scenario_token R ''ip'' g4
       in make_event (scenario_event (scenario_event_id ''unusual_amount'' index) t acct dev pm mer addr ip
           (round2 (fmul baseline_mean UNUSUAL_AMOUNT_SPIKE_MULTIPLIER)) Success ''IN'' ''IN'' ''APAC'' False None)))"

definition generate_unusual_amount :: "'r random_lib \<Rightarrow> int \<Rightarrow> pydatetime \<Rightarrow> py_exc + synthetic_event list" where
  "generate_unusual_amount R seed start =
     res_bind (shared_token R seed ''unusual_amount:account'' ''acct'') (\<lambda>acct.
     res_bind (res_map (unusual_amount_event R seed start acct) [0..<UNUSUAL_AMOUNT_BASELINE_COUNT]) (\<lambda>events.
     res_bind (fdiv (py_sum (map amount events)) (float_of_int (int (length events)))) (\<lambda>baseline_mean.
     res_bind (unusual_amount_spike R seed start acct baseline_mean UNUSUAL_AMOUNT_BASELINE_COUNT) (\<lambda>spike.
       Inr (events @ [spike])))))"

definition merchant_deviation_event :: "'r random_lib \<Rightarrow> int \<Rightarrow> pydatetime \<Rightarrow> string \<Rightarrow> nat \<Rightarrow> py_exc + synthetic_event" where
  "merchant_deviation_event R seed start mer index =
     res_bind (derived_rng R seed (''merchant_deviation:'' @ nat_str index)) (\<lambda>g.
     res_bind (at_index start MERCHANT_DEVIATION_INTERVAL index) (\<lambda>t.
       let (acct, g1) = scenario_token R ''acct'' g;
           (dev, g2) = scenario_token R ''dev'' g1;
           (pm, g3) = scenario_token R ''pm'' g2;
           (addr, g4) = scenario_token R ''addr'' g3;
           (ip, g5) = scenario_token R ''ip'' g4;
           (amt, g6) = baseline_amount R g5
       in make_event (scenario_event (scenario_event_id ''merchant_deviation'' index) t acct dev pm mer addr ip amt
           (if index < MERCHANT_DEVIATION_FAILING_COUNT then Declined else Success) ''IN'' ''IN'' ''APAC'' False None)))"

definition generate_merchant_deviation :: "'r random_lib \<Rightarrow> int \<Rightarrow> pydatetime \<Rightarrow> py_exc + synthetic_event list" where
  "generate_merchant_deviation R seed start =
     res_bind (shared_token R seed ''merchant_deviation:merchant'' ''mer'') (\<lambda>mer.
       res_map (merchant_deviation_event R seed start mer) [0..<MERCHANT_DEVIATION_EVENT_COUNT])"

definition duplicate_event :: "'r random_lib \<Rightarrow> int \<Rightarrow> pydatetime \<Rightarrow> nat \<Rightarrow> py_exc + synthetic_event" where
  "duplicate_event R seed start index =
     res_bind (derived_rng R seed (''duplicate:'' @ nat_str index)) (\<lambda>g.
     res_bind (at_index start DUPLICATE_INTERVAL index) (\<lambda>t.
       let (acct, g1) = scenario_token R ''acct'' g;
           (dev, g2) = scenario_token R ''dev'' g1;
           (pm, g3) = scenario_token R ''pm'' g2;
           (mer, g4) = scenario_token R ''mer'' g3;
           (addr, g5) = scenario_token R ''addr'' g4;
           (ip, g6) = scenario_token R ''ip'' g5;
           (amt, g7) = baseline_amount R g6
       in make_event (scenario_event (scenario_event_id ''duplicate'' index) t acct dev pm mer addr ip amt Success ''IN'' ''IN'' ''APAC'' False None)))"

definition generate_duplicate :: "'r random_lib \<Rightarrow> int \<Rightarrow> pydatetime \<Rightarrow> py_exc + synthetic_event list" where
  "generate_duplicate R seed start =
     res_bind (res_map (duplicate_event R seed start) [0..<DUPLICATE_BASE_COUNT]) (\<lambda>events. Inr (events @ [hd events]))"

definition out_of_order_event :: "'r random_lib \<Rightarrow> int \<Rightarrow> pydatetime \<Rightarrow> nat \<Rightarrow> py_exc + synthetic_event" where
  "out_of_order_event R seed start index =
     res_bind (derived_rng R seed (''out_of_order:'' @ nat_str index)) (\<lambda>g.
     res_bind (dt_add start (seconds (OUT_OF_ORDER_OFFSETS_SECONDS ! index))) (\<lambda>t.
       let (acct, g1) = scenario_token R ''acct'' g;
           (dev, g2) = scenario_token R ''dev'' g1;
           (pm, g3) = scenario_token R ''pm'' g2;
           (mer, g4) = scenario_token R ''mer'' g3;
           (addr, g5) = scenario_token R ''addr'' g4;
           (ip, g6) = scenario_token R ''ip'' g5;
           (amt, g7) = baseline_amount R g6
       in make_event (scenario_event (scenario_event_id ''out_of_order'' index) t acct dev pm mer addr ip amt Success ''IN'' ''IN'' ''APAC'' False None)))"

definition generate_out_of_order :: "'r random_lib \<Rightarrow> int \<Rightarrow> pydatetime \<Rightarrow> py_exc + synthetic_event list" where
  "generate_out_of_order R seed start = res_map (out_of_order_event R seed start) [0..<OUT_OF_ORDER_EVENT_COUNT]"

section \<open>The registry\<close>

definition SCENARIO_GENERATORS ::
  "'r random_lib \<Rightarrow> (string, int \<Rightarrow> pydatetime \<Rightarrow> nat \<Rightarrow> py_exc + synthetic_event list) dict" where
  "SCENARIO_GENERATORS R =
     [(''normal_baseline'', \<lambda>seed start n. generate_normal_baseline R seed start n),
      (''new_device_burst'', \<lambda>seed start n. generate_new_device_burst R seed start),
      (''address_fan_out'', \<lambda>seed start n. generate_address_fan_out R seed start),
      (''vpn_geography_mismatch'', \<lambda>seed start n. generate_vpn_geography_mismatch R seed start),
      (''retry_storm'', \<lambda>seed start n. generate_retry_storm R seed start),
      (''unusual_amount'', \<lambda>seed start n. generate_unusual_amount R seed start),
      (''merchant_deviation'', \<lambda>seed start n. generate_merchant_deviation R seed start),
      (''duplicate'', \<lambda>seed start n. generate_duplicate R seed start),
      (''out_of_order'', \<lambda>seed start n. generate_out_of_order R seed start)]"

definition FIXED_NARRATIVE_SIZES :: "(string, nat) dict" where
  "FIXED_NARRATIVE_SIZES =
     [(''new_device_burst'', BURST_EVENT_COUNT),
      (''address_fan_out'', ADDRESS_FAN_OUT_EVENT_COUNT),
      (''vpn_geography_mismatch'', VPN_MISMATCH_EVENT_COUNT),
      (''retry_storm'', RETRY_STORM_EVENT_COUNT),
      (''unusual_amount'', UNUSUAL_AMOUNT_EVENT_COUNT),
      (''merchant_deviation'', MERCHANT_DEVIATION_EVENT_COUNT),
      (''duplicate'', DUPLICATE_EVENT_COUNT),
      (''out_of_order'', OUT_OF_ORDER_EVENT_COUNT)]"

definition available_scenarios :: "'r random_lib \<Rightarrow> string list" where
  "available_scenarios R = map fst (SCENARIO_GENERATORS R)"

definition unknown_scenario :: "'r random_lib \<Rightarrow> string \<Rightarrow> py_exc" where
  "unknown_scenario R scenario =
     ValueError (''Unknown scenario '' @ repr_str scenario @ ''. Known scenarios: ('' @
       join '', '' (map repr_str (available_scenarios R)) @ '')'')"

definition fixed_scenario_size :: "'r random_lib \<Rightarrow> string \<Rightarrow> py_exc + nat option" where
  "fixed_scenario_size R scenario =
     (if scenario \<notin> set (available_scenarios R) then Inl (unknown_scenario R scenario)
      else Inr (map_of FIXED_NARRATIVE_SIZES scenario))"

definition generate_events ::
  "'r random_lib \<Rightarrow> string \<Rightarrow> int \<Rightarrow> pydatetime \<Rightarrow> int \<Rightarrow> py_exc + synthetic_event list" where
  "generate_events R scenario seed start n =
     (case map_of (SCENARIO_GENERATORS R) scenario of
        None \<Rightarrow> Inl (unknown_scenario R scenario)
      | Some generator \<Rightarrow>
          if \<not> (MIN_EVENT_COUNT \<le> n \<and> n \<le> MAX_EVENT_COUNT) then
            Inl (ValueError (''event_count must be between '' @ int_str MIN_EVENT_COUNT @ '' and '' @ int_str MAX_EVENT_COUNT @ ''.''))
          else
            res_bind (require_timezone_aware start ''start'') (\<lambda>_.
              case map_of FIXED_NARRATIVE_SIZES scenario of
                Some minimum \<Rightarrow>
                  if n < int minimum then
                    Inl (ValueError (''Scenario '' @ repr_str scenario @ '' needs at least '' @ nat_str minimum @
                      '' events to demonstrate its pattern; got event_count='' @ int_str n @ ''.''))
                  else generator seed start (nat n)
              | None \<Rightarrow> generator seed start (nat n)))"

end
