(* ===== verification/Scenario_Facts.thy ===== *)
theory Scenario_Facts
  imports Scenarios Json_Text
begin

text \<open>
  The scenario generators: under the contract of \<open>random.Random\<close> every scenario is a stream of
  valid events of its size, and what a store says of the streams replayed in their order.
\<close>

section \<open>What the generators may rely on\<close>

text \<open>\<open>randint\<close> and \<open>choice\<close> stay below their bound, \<open>random()\<close> stays in the unit interval.\<close>

definition random_ok :: "'r random_lib \<Rightarrow> bool" where
  "random_ok R \<longleftrightarrow> (\<forall>n g. 0 < n \<longrightarrow> fst (rd_below R n g) < n) \<and> (\<forall>g. 0 \<le> fst (rd_random R g) \<and> fst (rd_random R g) < 1)"

text \<open>A start from which the longest scenario stays within the supported years.\<close>

definition start_ok :: "pydatetime \<Rightarrow> bool" where
  "start_ok t = (aware t \<and> python_datetime t \<and> dt_instant MIN_EVENT_TIME \<le> dt_instant t \<and>
     dt_instant t + seconds 15000 \<le> dt_instant MAX_EVENT_TIME)"

definition later :: "pydatetime \<Rightarrow> timedelta \<Rightarrow> pydatetime" where
  "later t d = t\<lparr>dt_local := dt_local t + d\<rparr>"

lemma later_facts:
  assumes "start_ok t" and "0 \<le> d" and "d \<le> seconds 15000"
  shows "dt_add t d = Inr (later t d)" and "event_time_ok (later t d)" and "dt_instant (later t d) = dt_instant t + d"
    and "python_datetime (later t d)"
  using assms by (auto simp: start_ok_def later_def dt_add_def event_time_ok_def aware_def python_datetime_def dt_instant_def
      MIN_EVENT_TIME_def MAX_EVENT_TIME_def utc_def MIN_LOCAL_def MAX_LOCAL_def seconds_def Let_def)

lemma derived_ok:
  assumes "MIN_SEED \<le> seed" and "seed \<le> MAX_SEED" and "label \<noteq> []"
  shows "\<exists>g. derived_rng R seed label = Inr g"
proof -
  have "\<exists>s. derive_seed seed label = Inr s" using assms by (simp add: derive_seed_def validate_seed_def Let_def)
  then obtain s where s: "derive_seed seed label = Inr s" by blast
  then show ?thesis using derive_seed_Inr [OF s] by (simp add: derived_rng_def new_rng_def validate_seed_def)
qed

section \<open>Tokens and amounts\<close>

lemma digit_char: "is_digit c \<Longrightarrow> c \<noteq> CHR ''_'' \<and> is_token_char c"
  by (auto simp: is_digit_def is_token_char_def)

lemma digit_segments: "list_all is_digit ds \<Longrightarrow> ds \<noteq> [] \<or> b \<Longrightarrow> token_segments b ds"
  by (induction ds arbitrary: b) (simp_all add: digit_char)

lemma padded_digits: "list_all is_digit (padded w n)" "padded w n \<noteq> []"
proof -
  have "is_digit (CHR ''0'')" by (simp add: is_digit_def)
  then show "list_all is_digit (padded w n)" using nat_str_digits [of n] by (auto simp: padded_def Let_def list_all_iff)
  show "padded w n \<noteq> []" by (simp add: padded_def Let_def)
qed

lemma padded_length: "n < 10 ^ Suc k \<Longrightarrow> length (padded (Suc k) n) = Suc k"
  using length_nat_str_bound [of n k] by (simp add: padded_def Let_def)

definition token_prefixes :: "string list" where
  "token_prefixes = [''acct'', ''dev'', ''pm'', ''mer'', ''addr'', ''ip'', ''retry'']"

lemma prefix_segments:
  "p \<in> set token_prefixes \<Longrightarrow> token_segments False (p @ CHR ''_'' # ds) = token_segments False ds \<and> length p \<le> 5"
  by (auto simp: token_prefixes_def is_token_char_def is_lower_def)

lemma token_ok [simp]:
  assumes "random_ok R" and "p \<in> set token_prefixes"
  shows "is_entity_token (fst (scenario_token R p g))"
proof -
  obtain n g' where n: "rd_below R 1000 g = (n, g')" by (cases "rd_below R 1000 g")
  have "n < 1000" using assms(1) n unfolding random_ok_def by (metis fst_conv zero_less_numeral)
  then have "length (padded 3 n) = 3" using padded_length [of n 2] by simp
  moreover have "token_segments False (padded 3 n)" using padded_digits [of 3 n] by (intro digit_segments) auto
  ultimately show ?thesis using prefix_segments [OF assms(2), of "padded 3 n"]
    by (simp add: scenario_token_def n is_entity_token_def MAX_ID_LENGTH_def starts_with_def)
qed

lemma event_id_ok:
  assumes "name \<noteq> []" and "list_all (\<lambda>c. is_token_char c \<or> c = CHR ''_'') name" and "length name \<le> 50" and "index < 1000000"
  shows "is_event_id_token (scenario_event_id name index)"
proof -
  have "length (padded 6 index) = 6" using padded_length [of index 5] assms(4) by simp
  moreover have "list_all (\<lambda>c. is_token_char c \<or> c = CHR ''_'') (padded 6 index)"
    using digit_char by (intro list.pred_mono_strong [OF padded_digits(1)]) blast
  ultimately show ?thesis using assms
    by (simp add: scenario_event_id_def is_event_id_token_def id_token_body_def MAX_ID_LENGTH_def starts_with_def)
qed

lemma round2_bounds:
  assumes "of_int a \<le> q" and "q \<le> of_int b" and "0 \<le> a" and "b < 2 ^ 40"
  shows "\<exists>y. round2 (Fin q) = Fin y \<and> of_int a \<le> y \<and> y \<le> of_int b"
proof -
  have "of_int (a * 100) \<le> q * 100" "q * 100 \<le> of_int (b * 100)" using assms(1,2) by simp_all
  then have "a * 100 \<le> round_half_even (q * 100)" "round_half_even (q * 100) \<le> b * 100"
    by (simp_all only: round_half_even_ge round_half_even_le)
  then have "of_int a \<le> of_int (round_half_even (q * 100)) / (100 :: rat)" "of_int (round_half_even (q * 100)) / (100 :: rat) \<le> of_int b"
    by (simp_all add: le_divide_eq divide_le_eq flip: of_int_le_iff [where 'a = rat])
  then show ?thesis using fl_between [of a "of_int (round_half_even (q * 100)) / 100" b] assms(3,4) by (simp add: round2_def)
qed

lemma uniform_amount_bounds:
  assumes "random_ok R" and "0 \<le> a" and "a \<le> b" and "b < 2 ^ 40"
  shows "\<exists>y. fst (uniform_amount R (of_int a) (of_int b) g) = Fin y \<and> of_int a \<le> y \<and> y \<le> of_int b"
proof -
  obtain u g' where u: "rd_random R g = (u, g')" by (cases "rd_random R g")
  have u01: "0 \<le> u" "u < 1" using assms(1) u unfolding random_ok_def by (metis fst_conv)+
  have sub: "fsub (Fin (of_int b)) (Fin (of_int a)) = Fin (of_int (b - a))"
    using float_of_int_exact [of "b - a"] assms by (simp add: float_of_int_def fsub_def)
  have "of_int 0 \<le> of_int (b - a) * u" "of_int (b - a) * u \<le> (of_int (b - a) :: rat)"
    using u01 assms(3) by (simp_all add: mult_left_le)
  then obtain y where y: "fl (of_int (b - a) * u) = Fin y" "0 \<le> y" "y \<le> of_int (b - a)"
    using fl_between [of 0 "of_int (b - a) * u" "b - a"] assms by auto
  have "of_int a \<le> of_int a + y" "of_int a + y \<le> of_int b" using y by simp_all
  then obtain z where "fl (of_int a + y) = Fin z" "of_int a \<le> z" "z \<le> of_int b"
    using fl_between [of a "of_int a + y" b] assms by auto
  then show ?thesis using round2_bounds [of a z b] assms y(1)
    by (simp add: uniform_amount_def rng_uniform_def u sub)
qed

lemma amount_value: "\<exists>y. x = Fin y \<and> of_int a \<le> y \<and> y \<le> of_int b \<Longrightarrow> 0 < a \<Longrightarrow> b \<le> 1000000 \<Longrightarrow> is_amount_value x"
  by (auto simp: is_amount_value_def is_finite_def MAX_AMOUNT_def)

lemma baseline_amount_ok [simp]: "random_ok R \<Longrightarrow> is_amount_value (fst (baseline_amount R g))"
  using uniform_amount_bounds [of R 50 5000 g] by (intro amount_value [of _ 50 5000]) (simp_all add: baseline_amount_def BASELINE_MIN_AMOUNT_def BASELINE_MAX_AMOUNT_def)

lemma unusual_amount_ok: "random_ok R \<Longrightarrow>
    \<exists>y. fst (uniform_amount R UNUSUAL_AMOUNT_BASELINE_MIN UNUSUAL_AMOUNT_BASELINE_MAX g) = Fin y \<and> 50 \<le> y \<and> y \<le> 150"
  using uniform_amount_bounds [of R 50 150 g] by (simp add: UNUSUAL_AMOUNT_BASELINE_MIN_def UNUSUAL_AMOUNT_BASELINE_MAX_def)

section \<open>Events\<close>

definition drawn :: "string \<Rightarrow> nat \<Rightarrow> pydatetime \<Rightarrow> synthetic_event \<Rightarrow> bool" where
  "drawn name index t e = (event_valid e \<and> event_id e = scenario_event_id name index \<and> event_time e = t)"

lemma drawn_event:
  assumes "is_event_id_token (scenario_event_id name index)" and "event_time_ok t"
    and "list_all is_entity_token [acct, dev, pm, mer, addr, ip]" and "is_amount_value amt"
    and "list_all is_categorical_token [home, ctry, region]" and "case retry of None \<Rightarrow> True | Some g \<Rightarrow> is_entity_token g"
  shows "drawn name index t (scenario_event (scenario_event_id name index) t acct dev pm mer addr ip amt oc home ctry region vpn retry)"
  using assms by (simp add: drawn_def event_valid_def scenario_event_def)

lemmas made_event = drawn_event [unfolded drawn_def, THEN conjunct1, THEN make_event_Inr [THEN iffD2, OF conjI, OF _ refl]]

lemma places [simp]:
  "is_categorical_token ''IN''" "is_categorical_token ''APAC''" "is_categorical_token ''US''" "is_categorical_token ''NA''"
  by code_simp+

lemma chosen_places:
  assumes "random_ok R"
  shows "is_categorical_token (fst (rng_choice R BASELINE_COUNTRIES g))" "is_categorical_token (fst (rng_choice R BASELINE_REGIONS g))"
proof -
  have member: "fst (rng_choice R xs g) \<in> set xs" if ne: "xs \<noteq> []" for xs :: "string list"
  proof -
    obtain i g' where i: "rd_below R (length xs) g = (i, g')" by (cases "rd_below R (length xs) g")
    then have "i < length xs" using assms ne unfolding random_ok_def by (metis fst_conv length_greater_0_conv)
    then show ?thesis by (simp add: rng_choice_def i)
  qed
  have "list_all is_categorical_token BASELINE_COUNTRIES" "list_all is_categorical_token BASELINE_REGIONS" by code_simp+
  then show "is_categorical_token (fst (rng_choice R BASELINE_COUNTRIES g))" "is_categorical_token (fst (rng_choice R BASELINE_REGIONS g))"
    using member [of BASELINE_COUNTRIES] member [of BASELINE_REGIONS]
    by (auto simp: BASELINE_COUNTRIES_def BASELINE_REGIONS_def list_all_iff)
qed

definition scenario_names :: "string list" where
  "scenario_names = [''normal_baseline'', ''new_device_burst'', ''address_fan_out'', ''vpn_geography_mismatch'', ''retry_storm'',
     ''unusual_amount'', ''merchant_deviation'', ''duplicate'', ''out_of_order'']"

lemma scenario_id_ok: "name \<in> set scenario_names \<Longrightarrow> index < 1000000 \<Longrightarrow> is_event_id_token (scenario_event_id name index)"
proof (rule event_id_ok)
  assume "name \<in> set scenario_names"
  moreover have "list_all (\<lambda>n. n \<noteq> [] \<and> list_all (\<lambda>c. is_token_char c \<or> c = CHR ''_'') n \<and> length n \<le> 50) scenario_names" by code_simp
  ultimately show "name \<noteq> []" "list_all (\<lambda>c. is_token_char c \<or> c = CHR ''_'') name" "length name \<le> 50" by (auto simp: list_all_iff)
qed

lemma shared_token_ok:
  assumes "random_ok R" and "MIN_SEED \<le> seed" and "seed \<le> MAX_SEED" and "label \<noteq> []" and "p \<in> set token_prefixes"
  shows "\<exists>s. shared_token R seed label p = Inr s \<and> is_entity_token s"
  using derived_ok [OF assms(2-4), of R] token_ok [OF assms(1,5)] by (auto simp: shared_token_def)

text \<open>The circumstances of every generator.\<close>

definition generator_input :: "'r random_lib \<Rightarrow> int \<Rightarrow> pydatetime \<Rightarrow> bool" where
  "generator_input R seed start = (random_ok R \<and> MIN_SEED \<le> seed \<and> seed \<le> MAX_SEED \<and> start_ok start)"

lemma at_index_ok:
  "generator_input R seed start \<Longrightarrow> 0 \<le> d * int index \<Longrightarrow> d * int index \<le> seconds 15000 \<Longrightarrow>
     at_index start d index = Inr (later start (d * int index)) \<and> event_time_ok (later start (d * int index))"
  using later_facts(1,2) by (auto simp: generator_input_def at_index_def)

lemmas prefixes [simp] = token_prefixes_def

lemma generator_rng: "generator_input R seed start \<Longrightarrow> label \<noteq> [] \<Longrightarrow> \<exists>g. derived_rng R seed label = Inr g"
  by (simp add: generator_input_def derived_ok)

text \<open>The part that all events share: a stream of their own, a time, a valid identifier.\<close>

lemma generator_frame:
  assumes "generator_input R seed start" and "label \<noteq> []" and "0 \<le> d" and "d \<le> seconds 15000"
    and f: "\<And>g. \<exists>e. f g (later start d) = Inr (e :: synthetic_event) \<and> P e"
  shows "\<exists>e. res_bind (derived_rng R seed label) (\<lambda>g. res_bind (dt_add start d) (f g)) = Inr e \<and> P e"
proof -
  obtain g where "derived_rng R seed label = Inr g" using generator_rng [OF assms(1,2)] by blast
  moreover have "dt_add start d = Inr (later start d)" using assms(1,3,4) by (intro later_facts(1)) (simp_all add: generator_input_def)
  ultimately show ?thesis using f by simp
qed

lemma scenario_event_fields [simp]:
  "account_country (scenario_event eid t acct dev pm mer addr ip amt oc home ctry region vpn retry) = home"
  "event_country (scenario_event eid t acct dev pm mer addr ip amt oc home ctry region vpn retry) = ctry"
  "vpn_or_proxy (scenario_event eid t acct dev pm mer addr ip amt oc home ctry region vpn retry) = vpn"
  "account_id (scenario_event eid t acct dev pm mer addr ip amt oc home ctry region vpn retry) = acct"
  "retry_group_id (scenario_event eid t acct dev pm mer addr ip amt oc home ctry region vpn retry) = retry"
  "ev_outcome (scenario_event eid t acct dev pm mer addr ip amt oc home ctry region vpn retry) = oc"
  "amount (scenario_event eid t acct dev pm mer addr ip amt oc home ctry region vpn retry) = amt"
  by (simp_all add: scenario_event_def)

lemma normal_baseline_event_ok:
  assumes "generator_input R seed start" and "index < 500"
  shows "\<exists>e. normal_baseline_event R seed start index = Inr e \<and> drawn ''normal_baseline'' index (later start (BASELINE_INTERVAL * int index)) e"
proof -
  have R: "random_ok R" and S: "start_ok start" using assms(1) by (simp_all add: generator_input_def)
  have d: "0 \<le> BASELINE_INTERVAL * int index" "BASELINE_INTERVAL * int index \<le> seconds 15000"
    using assms(2) by (simp_all add: BASELINE_INTERVAL_def seconds_def)
  have i: "is_event_id_token (scenario_event_id ''normal_baseline'' index)" by (rule scenario_id_ok) (use assms(2) in \<open>simp_all add: scenario_names_def\<close>)
  show ?thesis
    unfolding normal_baseline_event_def at_index_def
    by (rule generator_frame [OF assms(1) _ d])
      (use assms(2-) R chosen_places [OF R] i later_facts(2) [OF S d] in
        \<open>simp_all add: split_def Let_def made_event drawn_event\<close>)
qed

lemma new_device_burst_event_ok:
  assumes "generator_input R seed start" and "index < 500" and "is_entity_token acct"
  shows "\<exists>e. new_device_burst_event R seed start acct index = Inr e \<and> drawn ''new_device_burst'' index (later start (BURST_INTERVAL * int index)) e"
proof -
  have R: "random_ok R" and S: "start_ok start" using assms(1) by (simp_all add: generator_input_def)
  have d: "0 \<le> BURST_INTERVAL * int index" "BURST_INTERVAL * int index \<le> seconds 15000"
    using assms(2) by (simp_all add: BURST_INTERVAL_def seconds_def)
  have i: "is_event_id_token (scenario_event_id ''new_device_burst'' index)" by (rule scenario_id_ok) (use assms(2) in \<open>simp_all add: scenario_names_def\<close>)
  show ?thesis
    unfolding new_device_burst_event_def at_index_def
    by (rule generator_frame [OF assms(1) _ d])
      (use assms(2-) R i later_facts(2) [OF S d] in
        \<open>simp_all add: split_def Let_def made_event drawn_event\<close>)
qed

lemma address_fan_out_event_ok:
  assumes "generator_input R seed start" and "index < 500" and "is_entity_token addr"
  shows "\<exists>e. address_fan_out_event R seed start addr index = Inr e \<and> drawn ''address_fan_out'' index (later start (ADDRESS_FAN_OUT_INTERVAL * int index)) e"
proof -
  have R: "random_ok R" and S: "start_ok start" using assms(1) by (simp_all add: generator_input_def)
  have d: "0 \<le> ADDRESS_FAN_OUT_INTERVAL * int index" "ADDRESS_FAN_OUT_INTERVAL * int index \<le> seconds 15000"
    using assms(2) by (simp_all add: ADDRESS_FAN_OUT_INTERVAL_def seconds_def)
  have i: "is_event_id_token (scenario_event_id ''address_fan_out'' index)" by (rule scenario_id_ok) (use assms(2) in \<open>simp_all add: scenario_names_def\<close>)
  show ?thesis
    unfolding address_fan_out_event_def at_index_def
    by (rule generator_frame [OF assms(1) _ d])
      (use assms(2-) R i later_facts(2) [OF S d] in
        \<open>simp_all add: split_def Let_def made_event drawn_event\<close>)
qed

lemma vpn_geography_mismatch_event_ok:
  assumes "generator_input R seed start" and "index < 500"
  shows "\<exists>e. vpn_geography_mismatch_event R seed start index = Inr e \<and> drawn ''vpn_geography_mismatch'' index (later start (VPN_MISMATCH_INTERVAL * int index)) e \<and>
    account_country e = ''IN'' \<and> event_country e = ''US'' \<and> vpn_or_proxy e"
proof -
  have R: "random_ok R" and S: "start_ok start" using assms(1) by (simp_all add: generator_input_def)
  have d: "0 \<le> VPN_MISMATCH_INTERVAL * int index" "VPN_MISMATCH_INTERVAL * int index \<le> seconds 15000"
    using assms(2) by (simp_all add: VPN_MISMATCH_INTERVAL_def seconds_def)
  have i: "is_event_id_token (scenario_event_id ''vpn_geography_mismatch'' index)" by (rule scenario_id_ok) (use assms(2) in \<open>simp_all add: scenario_names_def\<close>)
  show ?thesis
    unfolding vpn_geography_mismatch_event_def at_index_def
    by (rule generator_frame [OF assms(1) _ d])
      (use assms(2-) R i later_facts(2) [OF S d] in
        \<open>simp_all add: split_def Let_def made_event drawn_event\<close>)
qed

lemma retry_storm_event_ok:
  assumes "generator_input R seed start" and "index < 500" and "is_entity_token acct" and "is_entity_token dev"
    and "is_entity_token pm" and "is_entity_token retry"
  shows "\<exists>e. retry_storm_event R seed start acct dev pm retry index = Inr e \<and> drawn ''retry_storm'' index (later start (RETRY_STORM_INTERVAL * int index)) e \<and>
    account_id e = acct \<and> retry_group_id e = Some retry \<and> ev_outcome e = (if index = RETRY_STORM_EVENT_COUNT - 1 then Success else Declined)"
proof -
  have R: "random_ok R" and S: "start_ok start" using assms(1) by (simp_all add: generator_input_def)
  have d: "0 \<le> RETRY_STORM_INTERVAL * int index" "RETRY_STORM_INTERVAL * int index \<le> seconds 15000"
    using assms(2) by (simp_all add: RETRY_STORM_INTERVAL_def seconds_def)
  have i: "is_event_id_token (scenario_event_id ''retry_storm'' index)" by (rule scenario_id_ok) (use assms(2) in \<open>simp_all add: scenario_names_def\<close>)
  show ?thesis
    unfolding retry_storm_event_def at_index_def
    by (rule generator_frame [OF assms(1) _ d])
      (use assms(2-) R i later_facts(2) [OF S d] in
        \<open>simp_all add: split_def Let_def made_event drawn_event\<close>)
qed

lemma merchant_deviation_event_ok:
  assumes "generator_input R seed start" and "index < 200" and "is_entity_token mer"
  shows "\<exists>e. merchant_deviation_event R seed start mer index = Inr e \<and> drawn ''merchant_deviation'' index (later start (MERCHANT_DEVIATION_INTERVAL * int index)) e"
proof -
  have R: "random_ok R" and S: "start_ok start" using assms(1) by (simp_all add: generator_input_def)
  have d: "0 \<le> MERCHANT_DEVIATION_INTERVAL * int index" "MERCHANT_DEVIATION_INTERVAL * int index \<le> seconds 15000"
    using assms(2) by (simp_all add: MERCHANT_DEVIATION_INTERVAL_def seconds_def)
  have i: "is_event_id_token (scenario_event_id ''merchant_deviation'' index)" by (rule scenario_id_ok) (use assms(2) in \<open>simp_all add: scenario_names_def\<close>)
  show ?thesis
    unfolding merchant_deviation_event_def at_index_def
    by (rule generator_frame [OF assms(1) _ d])
      (use assms(2-) R i later_facts(2) [OF S d] in
        \<open>simp_all add: split_def Let_def made_event drawn_event\<close>)
qed

lemma duplicate_event_ok:
  assumes "generator_input R seed start" and "index < 500"
  shows "\<exists>e. duplicate_event R seed start index = Inr e \<and> drawn ''duplicate'' index (later start (DUPLICATE_INTERVAL * int index)) e"
proof -
  have R: "random_ok R" and S: "start_ok start" using assms(1) by (simp_all add: generator_input_def)
  have d: "0 \<le> DUPLICATE_INTERVAL * int index" "DUPLICATE_INTERVAL * int index \<le> seconds 15000"
    using assms(2) by (simp_all add: DUPLICATE_INTERVAL_def seconds_def)
  have i: "is_event_id_token (scenario_event_id ''duplicate'' index)" by (rule scenario_id_ok) (use assms(2) in \<open>simp_all add: scenario_names_def\<close>)
  show ?thesis
    unfolding duplicate_event_def at_index_def
    by (rule generator_frame [OF assms(1) _ d])
      (use assms(2-) R i later_facts(2) [OF S d] in
        \<open>simp_all add: split_def Let_def made_event drawn_event\<close>)
qed

lemma out_of_order_event_ok:
  assumes "generator_input R seed start" and "index < 4"
  shows "\<exists>e. out_of_order_event R seed start index = Inr e \<and> drawn ''out_of_order'' index (later start (seconds (OUT_OF_ORDER_OFFSETS_SECONDS ! index))) e"
proof -
  have R: "random_ok R" and S: "start_ok start" using assms(1) by (simp_all add: generator_input_def)
  have d: "0 \<le> seconds (OUT_OF_ORDER_OFFSETS_SECONDS ! index)" "seconds (OUT_OF_ORDER_OFFSETS_SECONDS ! index) \<le> seconds 15000"
    using assms(2) by (auto simp: OUT_OF_ORDER_OFFSETS_SECONDS_def seconds_def less_Suc_eq numeral_eq_Suc)
  have i: "is_event_id_token (scenario_event_id ''out_of_order'' index)" by (rule scenario_id_ok) (use assms(2) in \<open>simp_all add: scenario_names_def\<close>)
  show ?thesis
    unfolding out_of_order_event_def at_index_def
    by (rule generator_frame [OF assms(1) _ d])
      (use assms(2-) R i later_facts(2) [OF S d] in
        \<open>simp_all add: split_def Let_def made_event drawn_event\<close>)
qed

section \<open>The unusual amount\<close>

text \<open>Rounding crosses no integer, so it moves a value by at most one.\<close>

lemma fl_near:
  assumes "\<bar>x\<bar> \<le> 1000000"
  shows "\<exists>y. fl x = Fin y \<and> \<bar>y - x\<bar> \<le> 1"
proof -
  have pos: "\<exists>y. fl z = Fin y \<and> \<bar>y - z\<bar> \<le> 1" if z: "0 \<le> z" "z \<le> 1000000" for z :: rat
  proof -
    have c: "of_int \<lceil>z\<rceil> < z + 1" "of_int \<lfloor>z\<rfloor> > z - 1" "of_int \<lfloor>z\<rfloor> \<le> z" "z \<le> of_int \<lceil>z\<rceil>" by linarith+
    have "\<lceil>z\<rceil> \<le> 1000000" using z(2) by (simp add: ceiling_le_iff)
    moreover have "0 \<le> \<lfloor>z\<rfloor>" using z(1) by simp
    ultimately obtain y where y: "fl z = Fin y" "of_int \<lfloor>z\<rfloor> \<le> y" "y \<le> of_int \<lceil>z\<rceil>" using fl_between [of "\<lfloor>z\<rfloor>" z "\<lceil>z\<rceil>"] c by auto
    then have "\<bar>y - z\<bar> \<le> 1" using c by linarith
    then show ?thesis using y(1) by blast
  qed
  show ?thesis
  proof (cases "0 \<le> x")
    case True
    then show ?thesis using pos [of x] assms by simp
  next
    case False
    then obtain y where y: "fl (- x) = Fin y" "\<bar>y - (- x)\<bar> \<le> 1" using pos [of "- x"] assms by auto
    then have "fl x = Fin (- y)" using False by (auto simp: fl_def fl_raw_def Let_def split: if_splits)
    moreover have "\<bar>- y - x\<bar> \<le> 1" using y(2) by linarith
    ultimately show ?thesis by blast
  qed
qed

lemma fl_near_sum:
  assumes "\<bar>a\<bar> \<le> 100000" and "\<bar>b\<bar> \<le> 100000"
  shows "\<exists>y. fl (a + b) = Fin y \<and> \<bar>y - (a + b)\<bar> \<le> 1"
proof -
  have "\<bar>a + b\<bar> \<le> 1000000" using assms by linarith
  then show ?thesis by (rule fl_near)
qed

lemma neumaier_near:
  assumes "\<bar>s\<bar> \<le> 10000" and "\<bar>c\<bar> \<le> 10000" and "\<bar>x\<bar> \<le> 10000"
  shows "\<exists>t d. neumaier_step (Fin s, Fin c) (Fin x) = (Fin t, Fin d) \<and> \<bar>t - (s + x)\<bar> \<le> 1 \<and> \<bar>d - c\<bar> \<le> 4"
proof -
  have "\<bar>s + x\<bar> \<le> 1000000" using assms by linarith
  then obtain t where t: "fl (s + x) = Fin t" "\<bar>t - (s + x)\<bar> \<le> 1" using fl_near by blast
  have part: "\<exists>r d. fl (u - t) = Fin r \<and> fl (r + v) = Fin d \<and> \<bar>d\<bar> \<le> 3" if uv: "u + v = s + x" "\<bar>u\<bar> \<le> 10000" "\<bar>v\<bar> \<le> 10000" for u v
  proof -
    have "\<bar>u - t\<bar> \<le> 1000000" using uv t(2) assms(1,3) by linarith
    then obtain r where r: "fl (u - t) = Fin r" "\<bar>r - (u - t)\<bar> \<le> 1" using fl_near by blast
    then have rv: "\<bar>r + v\<bar> \<le> 2" using uv(1) t(2) by linarith
    then obtain d where d: "fl (r + v) = Fin d" "\<bar>d - (r + v)\<bar> \<le> 1" using fl_near [of "r + v"] by auto
    then have "\<bar>d\<bar> \<le> 3" using rv by linarith
    then show ?thesis using r(1) d(1) by blast
  qed
  obtain r1 d1 where p1: "fl (s - t) = Fin r1" "fl (r1 + x) = Fin d1" "\<bar>d1\<bar> \<le> 3" using part [of s x] assms by auto
  obtain r2 d2 where p2: "fl (x - t) = Fin r2" "fl (r2 + s) = Fin d2" "\<bar>d2\<bar> \<le> 3" using part [of x s] assms by auto
  obtain e1 where e1: "fl (c + d1) = Fin e1" "\<bar>e1 - (c + d1)\<bar> \<le> 1" using fl_near_sum [of c d1] p1(3) assms(2) by auto
  obtain e2 where e2: "fl (c + d2) = Fin e2" "\<bar>e2 - (c + d2)\<bar> \<le> 1" using fl_near_sum [of c d2] p2(3) assms(2) by auto
  show ?thesis using t p1 p2 e1 e2 by (auto simp: neumaier_step_def Let_def fsub_def)
qed

lemma sum3_near:
  assumes "50 \<le> a" "a \<le> 150" "50 \<le> b" "b \<le> 150" "50 \<le> c" "c \<le> (150 :: rat)"
  shows "\<exists>y. py_sum [Fin a, Fin b, Fin c] = Fin y \<and> \<bar>y - (a + b + c)\<bar> \<le> 12"
proof -
  obtain t d where 1: "neumaier_step (Fin a, Fin 0) (Fin b) = (Fin t, Fin d)" "\<bar>t - (a + b)\<bar> \<le> 1" "\<bar>d\<bar> \<le> 4"
    using neumaier_near [of a 0 b] assms by auto
  have "\<bar>t\<bar> \<le> 10000" "\<bar>d\<bar> \<le> 10000" using 1 assms by linarith+
  then obtain u e where 2: "neumaier_step (Fin t, Fin d) (Fin c) = (Fin u, Fin e)" "\<bar>u - (t + c)\<bar> \<le> 1" "\<bar>e - d\<bar> \<le> 4"
    using neumaier_near [of t d c] assms by auto
  have "\<bar>u + e\<bar> \<le> 1000000" using 1 2 assms by linarith
  then obtain y where y: "fl (u + e) = Fin y" "\<bar>y - (u + e)\<bar> \<le> 1" using fl_near by blast
  have "neumaier_result (Fin u, Fin e) = (if e = 0 then Fin u else Fin y)"
    using y(1) by (simp add: neumaier_result_def is_finite_def)
  moreover have "\<bar>y - (a + b + c)\<bar> \<le> 12" "\<bar>u - (a + b + c)\<bar> \<le> 12" using 1 2 y by linarith+
  ultimately show ?thesis using 1(1) 2(1) by (simp add: py_sum_def)
qed

lemma spike_amount:
  assumes "50 \<le> a" "a \<le> 150" "50 \<le> b" "b \<le> 150" "50 \<le> c" "c \<le> (150 :: rat)"
  shows "\<exists>m. fdiv (py_sum [Fin a, Fin b, Fin c]) (float_of_int 3) = Inr m \<and> is_amount_value (round2 (fmul m UNUSUAL_AMOUNT_SPIKE_MULTIPLIER))"
proof -
  obtain y where y: "py_sum [Fin a, Fin b, Fin c] = Fin y" "\<bar>y - (a + b + c)\<bar> \<le> 12" using sum3_near [OF assms] by blast
  then have y': "130 \<le> y" "y \<le> 470" using assms by linarith+
  obtain m where m: "fl (y / 3) = Fin m" "\<bar>m - y / 3\<bar> \<le> 1" using fl_near [of "y / 3"] y' by auto
  have m': "40 \<le> m" "m \<le> 160" using m(2) y' by linarith+
  obtain z where z: "fl (m * 5) = Fin z" "\<bar>z - m * 5\<bar> \<le> 1" using fl_near [of "m * 5"] m' by auto
  have z': "of_int 199 \<le> z" "z \<le> of_int 801" using z(2) m' by auto
  have three: "float_of_int 3 = Fin 3" "UNUSUAL_AMOUNT_SPIKE_MULTIPLIER = Fin 5"
    using float_of_int_exact [of 3] float_of_int_exact [of 5]
    by (simp_all add: UNUSUAL_AMOUNT_SPIKE_MULTIPLIER_def AMOUNT_DEVIATION_THRESHOLD_MULTIPLIER_def float_of_int_def)
  have "is_amount_value (round2 (Fin z))" using round2_bounds [OF z'] by (intro amount_value [of _ 199 801]) simp_all
  then show ?thesis unfolding three y(1) using m(1) z(1) by simp
qed

lemma unusual_amount_event_ok:
  assumes "generator_input R seed start" and "index < 4" and "is_entity_token acct"
  shows "\<exists>e q. unusual_amount_event R seed start acct index = Inr e \<and>
    drawn ''unusual_amount'' index (later start (UNUSUAL_AMOUNT_INTERVAL * int index)) e \<and> amount e = Fin q \<and> 50 \<le> q \<and> q \<le> 150"
proof -
  have R: "random_ok R" and S: "start_ok start" using assms(1) by (simp_all add: generator_input_def)
  have d: "0 \<le> UNUSUAL_AMOUNT_INTERVAL * int index" "UNUSUAL_AMOUNT_INTERVAL * int index \<le> seconds 15000"
    using assms(2) by (simp_all add: UNUSUAL_AMOUNT_INTERVAL_def seconds_def)
  have i: "is_event_id_token (scenario_event_id ''unusual_amount'' index)" by (rule scenario_id_ok) (use assms(2) in \<open>simp_all add: scenario_names_def\<close>)
  let ?amt = "\<lambda>g. fst (uniform_amount R UNUSUAL_AMOUNT_BASELINE_MIN UNUSUAL_AMOUNT_BASELINE_MAX g)"
  have a: "is_amount_value (?amt g)" for g using unusual_amount_ok [OF R, of g] by (intro amount_value [of _ 50 150]) simp_all
  have "\<exists>e. unusual_amount_event R seed start acct index = Inr e \<and>
    (drawn ''unusual_amount'' index (later start (UNUSUAL_AMOUNT_INTERVAL * int index)) e \<and> (\<exists>q. amount e = Fin q \<and> 50 \<le> q \<and> q \<le> 150))"
    unfolding unusual_amount_event_def at_index_def
    by (rule generator_frame [OF assms(1) _ d])
      (use assms(2,3) R i later_facts(2) [OF S d] a unusual_amount_ok [OF R] in
        \<open>simp_all add: split_def Let_def made_event drawn_event\<close>)
  then show ?thesis by blast
qed

lemma unusual_amount_spike_ok:
  assumes "generator_input R seed start" and "index < 4" and "is_entity_token acct"
    and "is_amount_value (round2 (fmul m UNUSUAL_AMOUNT_SPIKE_MULTIPLIER))"
  shows "\<exists>e. unusual_amount_spike R seed start acct m index = Inr e \<and>
    drawn ''unusual_amount'' index (later start (UNUSUAL_AMOUNT_INTERVAL * int index)) e"
proof -
  have R: "random_ok R" and S: "start_ok start" using assms(1) by (simp_all add: generator_input_def)
  have d: "0 \<le> UNUSUAL_AMOUNT_INTERVAL * int index" "UNUSUAL_AMOUNT_INTERVAL * int index \<le> seconds 15000"
    using assms(2) by (simp_all add: UNUSUAL_AMOUNT_INTERVAL_def seconds_def)
  have i: "is_event_id_token (scenario_event_id ''unusual_amount'' index)" by (rule scenario_id_ok) (use assms(2) in \<open>simp_all add: scenario_names_def\<close>)
  show ?thesis
    unfolding unusual_amount_spike_def at_index_def
    by (rule generator_frame [OF assms(1) _ d])
      (use assms(2-) R i later_facts(2) [OF S d] in \<open>simp_all add: split_def Let_def made_event drawn_event\<close>)
qed

section \<open>Streams\<close>

text \<open>The events of a stream by their index, with their times.\<close>

definition stream_of :: "string \<Rightarrow> pydatetime \<Rightarrow> timedelta list \<Rightarrow> synthetic_event list \<Rightarrow> bool" where
  "stream_of name start offsets es \<longleftrightarrow> length es = length offsets \<and>
     (\<forall>i < length offsets. drawn name i (later start (offsets ! i)) (es ! i))"

lemma res_map_indexed:
  "(\<And>i. i < n \<Longrightarrow> \<exists>e. f i = Inr e \<and> P i e) \<Longrightarrow> \<exists>es. res_map f [0..<n] = Inr es \<and> length es = n \<and> (\<forall>i < n. P i (es ! i))"
proof -
  assume f: "\<And>i. i < n \<Longrightarrow> \<exists>e. f i = Inr e \<and> P i e"
  define g where "g i = (SOME e. f i = Inr e \<and> P i e)" for i
  have g: "f i = Inr (g i) \<and> P i (g i)" if "i < n" for i using someI_ex [OF f [OF that]] by (simp add: g_def)
  have "res_map f [0..<n] = Inr (map g [0..<n])" using g by (intro res_map_total) simp
  then show ?thesis using g by (intro exI [of _ "map g [0..<n]"]) simp
qed

lemma stream_exists:
  assumes "\<And>i. i < n \<Longrightarrow> \<exists>e. f i = Inr e \<and> drawn name i (later start (off i)) e \<and> Q i e"
  shows "\<exists>es. res_map f [0..<n] = Inr es \<and> stream_of name start (map off [0..<n]) es \<and> (\<forall>i < n. Q i (es ! i))"
proof -
  have "\<exists>es. res_map f [0..<n] = Inr es \<and> length es = n \<and> (\<forall>i < n. drawn name i (later start (off i)) (es ! i) \<and> Q i (es ! i))"
    using assms by (intro res_map_indexed) blast
  then show ?thesis by (auto simp: stream_of_def)
qed

lemmas scenario_counts = BURST_EVENT_COUNT_def ADDRESS_FAN_OUT_EVENT_COUNT_def VPN_MISMATCH_EVENT_COUNT_def RETRY_STORM_EVENT_COUNT_def
  UNUSUAL_AMOUNT_BASELINE_COUNT_def UNUSUAL_AMOUNT_EVENT_COUNT_def MERCHANT_DEVIATION_EVENT_COUNT_def DUPLICATE_BASE_COUNT_def DUPLICATE_EVENT_COUNT_def
  OUT_OF_ORDER_EVENT_COUNT_def OUT_OF_ORDER_OFFSETS_SECONDS_def ADDRESS_FAN_OUT_ACCOUNT_THRESHOLD_def RETRY_GROUP_SIZE_THRESHOLD_def
  ACCOUNT_FAILURE_COUNT_THRESHOLD_def MERCHANT_MIN_SAMPLE_SIZE_def

lemma new_device_burst_stream:
  assumes "generator_input R seed start"
  shows "\<exists>es. generate_new_device_burst R seed start = Inr es \<and> stream_of ''new_device_burst'' start (map (\<lambda>i. BURST_INTERVAL * int i) [0..<BURST_EVENT_COUNT]) es"
proof -
  obtain acct where acct: "shared_token R seed ''new_device_burst:account'' ''acct'' = Inr acct" "is_entity_token acct"
    using shared_token_ok [of R seed "''new_device_burst:account''" "''acct''"] assms by (auto simp: generator_input_def)
  show ?thesis
    using stream_exists [of BURST_EVENT_COUNT "new_device_burst_event R seed start acct" "''new_device_burst''" start "\<lambda>i. BURST_INTERVAL * int i" "\<lambda>i e. True"]
      new_device_burst_event_ok [OF assms _ acct(2)]
    by (simp add: generate_new_device_burst_def acct(1) scenario_counts)
qed

lemma address_fan_out_stream:
  assumes "generator_input R seed start"
  shows "\<exists>es. generate_address_fan_out R seed start = Inr es \<and> stream_of ''address_fan_out'' start (map (\<lambda>i. ADDRESS_FAN_OUT_INTERVAL * int i) [0..<ADDRESS_FAN_OUT_EVENT_COUNT]) es"
proof -
  obtain addr where addr: "shared_token R seed ''address_fan_out:address'' ''addr'' = Inr addr" "is_entity_token addr"
    using shared_token_ok [of R seed "''address_fan_out:address''" "''addr''"] assms by (auto simp: generator_input_def)
  show ?thesis
    using stream_exists [of ADDRESS_FAN_OUT_EVENT_COUNT "address_fan_out_event R seed start addr" "''address_fan_out''" start "\<lambda>i. ADDRESS_FAN_OUT_INTERVAL * int i" "\<lambda>i e. True"]
      address_fan_out_event_ok [OF assms _ addr(2)]
    by (simp add: generate_address_fan_out_def addr(1) scenario_counts)
qed

lemma vpn_geography_mismatch_stream:
  assumes "generator_input R seed start"
  shows "\<exists>es. generate_vpn_geography_mismatch R seed start = Inr es \<and> stream_of ''vpn_geography_mismatch'' start (map (\<lambda>i. VPN_MISMATCH_INTERVAL * int i) [0..<VPN_MISMATCH_EVENT_COUNT]) es \<and>
    (\<forall>i < VPN_MISMATCH_EVENT_COUNT. account_country (es ! i) = ''IN'' \<and> event_country (es ! i) = ''US'' \<and> vpn_or_proxy (es ! i))"
proof -
  show ?thesis
    using stream_exists [of VPN_MISMATCH_EVENT_COUNT "vpn_geography_mismatch_event R seed start" "''vpn_geography_mismatch''" start "\<lambda>i. VPN_MISMATCH_INTERVAL * int i" "\<lambda>i e. account_country e = ''IN'' \<and> event_country e = ''US'' \<and> vpn_or_proxy e"]
      vpn_geography_mismatch_event_ok [OF assms _]
    by (simp add: generate_vpn_geography_mismatch_def scenario_counts)
qed

lemma retry_storm_stream:
  assumes "generator_input R seed start"
  shows "\<exists>es. generate_retry_storm R seed start = Inr es \<and> stream_of ''retry_storm'' start (map (\<lambda>i. RETRY_STORM_INTERVAL * int i) [0..<RETRY_STORM_EVENT_COUNT]) es \<and>
    (\<exists>acct retry. \<forall>i < RETRY_STORM_EVENT_COUNT. account_id (es ! i) = acct \<and> retry_group_id (es ! i) = Some retry \<and>
       ev_outcome (es ! i) = (if i = RETRY_STORM_EVENT_COUNT - 1 then Success else Declined))"
proof -
  obtain acct where acct: "shared_token R seed ''retry_storm:account'' ''acct'' = Inr acct" "is_entity_token acct"
    using shared_token_ok [of R seed "''retry_storm:account''" "''acct''"] assms by (auto simp: generator_input_def)
  obtain dev where dev: "shared_token R seed ''retry_storm:device'' ''dev'' = Inr dev" "is_entity_token dev"
    using shared_token_ok [of R seed "''retry_storm:device''" "''dev''"] assms by (auto simp: generator_input_def)
  obtain pm where pm: "shared_token R seed ''retry_storm:pm'' ''pm'' = Inr pm" "is_entity_token pm"
    using shared_token_ok [of R seed "''retry_storm:pm''" "''pm''"] assms by (auto simp: generator_input_def)
  obtain retry where retry: "shared_token R seed ''retry_storm:group'' ''retry'' = Inr retry" "is_entity_token retry"
    using shared_token_ok [of R seed "''retry_storm:group''" "''retry''"] assms by (auto simp: generator_input_def)
  show ?thesis
    using stream_exists [of RETRY_STORM_EVENT_COUNT "retry_storm_event R seed start acct dev pm retry" "''retry_storm''" start "\<lambda>i. RETRY_STORM_INTERVAL * int i" "\<lambda>i e. account_id e = acct \<and> retry_group_id e = Some retry \<and>
        ev_outcome e = (if i = RETRY_STORM_EVENT_COUNT - 1 then Success else Declined)"]
      retry_storm_event_ok [OF assms _ acct(2) dev(2) pm(2) retry(2)]
    by (simp add: generate_retry_storm_def acct(1) dev(1) pm(1) retry(1) scenario_counts split del: if_split) blast
qed

lemma merchant_deviation_stream:
  assumes "generator_input R seed start"
  shows "\<exists>es. generate_merchant_deviation R seed start = Inr es \<and> stream_of ''merchant_deviation'' start (map (\<lambda>i. MERCHANT_DEVIATION_INTERVAL * int i) [0..<MERCHANT_DEVIATION_EVENT_COUNT]) es"
proof -
  obtain mer where mer: "shared_token R seed ''merchant_deviation:merchant'' ''mer'' = Inr mer" "is_entity_token mer"
    using shared_token_ok [of R seed "''merchant_deviation:merchant''" "''mer''"] assms by (auto simp: generator_input_def)
  show ?thesis
    using stream_exists [of MERCHANT_DEVIATION_EVENT_COUNT "merchant_deviation_event R seed start mer" "''merchant_deviation''" start "\<lambda>i. MERCHANT_DEVIATION_INTERVAL * int i" "\<lambda>i e. True"]
      merchant_deviation_event_ok [OF assms _ mer(2)]
    by (simp add: generate_merchant_deviation_def mer(1) scenario_counts)
qed

lemma out_of_order_stream:
  assumes "generator_input R seed start"
  shows "\<exists>es. generate_out_of_order R seed start = Inr es \<and> stream_of ''out_of_order'' start (map (\<lambda>i. seconds (OUT_OF_ORDER_OFFSETS_SECONDS ! i)) [0..<OUT_OF_ORDER_EVENT_COUNT]) es"
proof -
  show ?thesis
    using stream_exists [of OUT_OF_ORDER_EVENT_COUNT "out_of_order_event R seed start" "''out_of_order''" start "\<lambda>i. seconds (OUT_OF_ORDER_OFFSETS_SECONDS ! i)" "\<lambda>i e. True"]
      out_of_order_event_ok [OF assms _]
    by (simp add: generate_out_of_order_def scenario_counts)
qed

lemma normal_baseline_stream:
  assumes "generator_input R seed start" and "n \<le> 500"
  shows "\<exists>es. generate_normal_baseline R seed start n = Inr es \<and> stream_of ''normal_baseline'' start (map (\<lambda>i. BASELINE_INTERVAL * int i) [0..<n]) es"
  using stream_exists [of n "normal_baseline_event R seed start" "''normal_baseline''" start "\<lambda>i. BASELINE_INTERVAL * int i" "\<lambda>i e. True"]
    normal_baseline_event_ok [OF assms(1)] assms(2)
  by (simp add: generate_normal_baseline_def)

lemma duplicate_stream:
  assumes "generator_input R seed start"
  shows "\<exists>es. generate_duplicate R seed start = Inr (es @ [es ! 0]) \<and> stream_of ''duplicate'' start (map (\<lambda>i. DUPLICATE_INTERVAL * int i) [0..<3]) es"
proof -
  obtain es where es: "res_map (duplicate_event R seed start) [0..<3] = Inr es" "stream_of ''duplicate'' start (map (\<lambda>i. DUPLICATE_INTERVAL * int i) [0..<3]) es"
    using stream_exists [of 3 "duplicate_event R seed start" "''duplicate''" start "\<lambda>i. DUPLICATE_INTERVAL * int i" "\<lambda>i e. True"]
      duplicate_event_ok [OF assms(1)] by auto
  then have "hd es = es ! 0" by (intro hd_conv_nth) (auto simp: stream_of_def)
  then show ?thesis using es by (simp add: generate_duplicate_def DUPLICATE_BASE_COUNT_def)
qed

lemma unusual_amount_stream:
  assumes "generator_input R seed start"
  shows "\<exists>es. generate_unusual_amount R seed start = Inr es \<and> stream_of ''unusual_amount'' start (map (\<lambda>i. UNUSUAL_AMOUNT_INTERVAL * int i) [0..<4]) es"
proof -
  obtain acct where acct: "shared_token R seed ''unusual_amount:account'' ''acct'' = Inr acct" "is_entity_token acct"
    using shared_token_ok [of R seed "''unusual_amount:account''" "''acct''"] assms by (auto simp: generator_input_def)
  obtain es where es: "res_map (unusual_amount_event R seed start acct) [0..<3] = Inr es" "length es = 3"
    "\<forall>i < 3. drawn ''unusual_amount'' i (later start (UNUSUAL_AMOUNT_INTERVAL * int i)) (es ! i) \<and> (\<exists>q. amount (es ! i) = Fin q \<and> 50 \<le> q \<and> q \<le> 150)"
    using stream_exists [of 3 "unusual_amount_event R seed start acct" "''unusual_amount''" start "\<lambda>i. UNUSUAL_AMOUNT_INTERVAL * int i"
        "\<lambda>i e. \<exists>q. amount e = Fin q \<and> 50 \<le> q \<and> q \<le> 150"] unusual_amount_event_ok [OF assms _ acct(2)]
    by (force simp: stream_of_def)
  have amounts: "map amount es = [amount (es ! 0), amount (es ! 1), amount (es ! 2)]" using es(2)
    by (intro nth_equalityI) (auto simp: less_Suc_eq numeral_eq_Suc)
  obtain a b c where abc: "amount (es ! 0) = Fin a" "50 \<le> a" "a \<le> 150" "amount (es ! 1) = Fin b" "50 \<le> b" "b \<le> 150" "amount (es ! 2) = Fin c" "50 \<le> c" "c \<le> 150"
    using es(3) [rule_format, of 0] es(3) [rule_format, of 1] es(3) [rule_format, of 2] by auto
  obtain m where m: "fdiv (py_sum (map amount es)) (float_of_int 3) = Inr m" "is_amount_value (round2 (fmul m UNUSUAL_AMOUNT_SPIKE_MULTIPLIER))"
    using spike_amount [OF abc(2,3,5,6,8,9)] unfolding amounts abc(1,4,7) by blast
  obtain e where e: "unusual_amount_spike R seed start acct m 3 = Inr e" "drawn ''unusual_amount'' 3 (later start (UNUSUAL_AMOUNT_INTERVAL * int 3)) e"
    using unusual_amount_spike_ok [OF assms _ acct(2) m(2), of 3] by auto
  have "stream_of ''unusual_amount'' start (map (\<lambda>i. UNUSUAL_AMOUNT_INTERVAL * int i) [0..<4]) (es @ [e])"
    using es(2,3) e(2) by (auto simp: stream_of_def nth_append less_Suc_eq numeral_eq_Suc)
  then show ?thesis using acct(1) es(1,2) m(1) e(1) by (simp add: generate_unusual_amount_def UNUSUAL_AMOUNT_BASELINE_COUNT_def)
qed

lemma nat_of_str_zeros: "nat_of_str (replicate k (CHR ''0'') @ ds) = nat_of_str ds"
  by (induction k) (simp_all add: nat_of_str_def)

lemma padded_inject: "padded w i = padded w j \<Longrightarrow> i = j"
  using nat_of_str_zeros nat_of_str_nat_str unfolding padded_def Let_def by metis

lemma stream_facts:
  assumes "stream_of name start offsets es"
  shows "list_all event_valid es" and "distinct (map event_id es)" and "length es = length offsets"
    and "i < length offsets \<Longrightarrow> event_time (es ! i) = later start (offsets ! i)"
proof -
  have e: "length es = length offsets" "i < length es \<Longrightarrow> drawn name i (later start (offsets ! i)) (es ! i)" for i
    using assms by (auto simp: stream_of_def)
  show "list_all event_valid es" using e by (auto simp: list_all_length drawn_def)
  show "length es = length offsets" by (rule e(1))
  show "i < length offsets \<Longrightarrow> event_time (es ! i) = later start (offsets ! i)" using e by (simp add: drawn_def)
  have "scenario_event_id name i = scenario_event_id name j \<Longrightarrow> i = j" for i j using padded_inject by (simp add: scenario_event_id_def)
  then show "distinct (map event_id es)" using e(2) by (simp add: distinct_conv_nth drawn_def) blast
qed

section \<open>Every scenario\<close>

definition scenario_size :: "string \<Rightarrow> int \<Rightarrow> nat" where
  "scenario_size scenario n = (case map_of FIXED_NARRATIVE_SIZES scenario of Some k \<Rightarrow> k | None \<Rightarrow> nat n)"

lemma registered: "scenario \<in> set (available_scenarios R) \<longleftrightarrow> scenario \<in> set scenario_names"
  by (simp add: available_scenarios_def SCENARIO_GENERATORS_def scenario_names_def)

lemma generated:
  assumes "generator_input R seed start" and "scenario \<in> set scenario_names" and "1 \<le> n" and "n \<le> 500" and "int (scenario_size scenario n) \<le> n"
    and "map_of (SCENARIO_GENERATORS R) scenario = Some f"
  shows "generate_events R scenario seed start n = f seed start (nat n)"
proof -
  have "aware start" using assms(1) by (simp add: generator_input_def start_ok_def)
  then show ?thesis using assms(3-6)
    by (simp add: generate_events_def MIN_EVENT_COUNT_def MAX_EVENT_COUNT_def scenario_size_def split: option.splits)
qed

lemma scenario_stream:
  assumes g: "generator_input R seed start" and s: "scenario \<in> set scenario_names" and n: "1 \<le> n" "n \<le> 500" "int (scenario_size scenario n) \<le> n"
  shows "\<exists>es offsets. stream_of scenario start offsets es \<and>
    generate_events R scenario seed start n = Inr (if scenario = ''duplicate'' then es @ [es ! 0] else es) \<and>
    scenario_size scenario n = (if scenario = ''duplicate'' then Suc (length offsets) else length offsets)" (is ?claim)
proof -
  note gen = generated [OF g s n]
  note sizes = scenario_size_def FIXED_NARRATIVE_SIZES_def scenario_counts
  have plain: ?claim if "stream_of scenario start offsets es" "generate_events R scenario seed start n = Inr es" "scenario \<noteq> ''duplicate''"
    "length offsets = scenario_size scenario n" for es offsets using that by auto
  have n': "nat n \<le> 500" using n(2) by simp
  from s have "scenario \<in> {''normal_baseline'', ''new_device_burst'', ''address_fan_out'', ''vpn_geography_mismatch'', ''retry_storm'', ''unusual_amount'',
      ''merchant_deviation'', ''duplicate'', ''out_of_order''}" by (simp only: scenario_names_def list.set)
  then show ?claim
  proof (elim insertE emptyE)
    assume 1: "scenario = ''normal_baseline''"
  obtain es offsets where es: "generate_normal_baseline R seed start (nat n) = Inr es" "stream_of ''normal_baseline'' start offsets es" "length offsets = scenario_size ''normal_baseline'' n"
    using normal_baseline_stream [OF g n'] by (auto simp: sizes)
  have "generate_events R scenario seed start n = Inr es" using gen [of "\<lambda>seed start n. generate_normal_baseline R seed start n"] es(1) 1 by (simp add: SCENARIO_GENERATORS_def)
  then show ?claim using es(2,3) 1 by (intro plain) simp_all
  next
    assume 2: "scenario = ''new_device_burst''"
  obtain es offsets where es: "generate_new_device_burst R seed start = Inr es" "stream_of ''new_device_burst'' start offsets es" "length offsets = scenario_size ''new_device_burst'' n"
    using new_device_burst_stream [OF g] by (auto simp: sizes)
  have "generate_events R scenario seed start n = Inr es" using gen [of "\<lambda>seed start n. generate_new_device_burst R seed start"] es(1) 2 by (simp add: SCENARIO_GENERATORS_def)
  then show ?claim using es(2,3) 2 by (intro plain) simp_all
  next
    assume 3: "scenario = ''address_fan_out''"
  obtain es offsets where es: "generate_address_fan_out R seed start = Inr es" "stream_of ''address_fan_out'' start offsets es" "length offsets = scenario_size ''address_fan_out'' n"
    using address_fan_out_stream [OF g] by (auto simp: sizes)
  have "generate_events R scenario seed start n = Inr es" using gen [of "\<lambda>seed start n. generate_address_fan_out R seed start"] es(1) 3 by (simp add: SCENARIO_GENERATORS_def)
  then show ?claim using es(2,3) 3 by (intro plain) simp_all
  next
    assume 4: "scenario = ''vpn_geography_mismatch''"
  obtain es offsets where es: "generate_vpn_geography_mismatch R seed start = Inr es" "stream_of ''vpn_geography_mismatch'' start offsets es" "length offsets = scenario_size ''vpn_geography_mismatch'' n"
    using vpn_geography_mismatch_stream [OF g] by (auto simp: sizes)
  have "generate_events R scenario seed start n = Inr es" using gen [of "\<lambda>seed start n. generate_vpn_geography_mismatch R seed start"] es(1) 4 by (simp add: SCENARIO_GENERATORS_def)
  then show ?claim using es(2,3) 4 by (intro plain) simp_all
  next
    assume 5: "scenario = ''retry_storm''"
  obtain es offsets where es: "generate_retry_storm R seed start = Inr es" "stream_of ''retry_storm'' start offsets es" "length offsets = scenario_size ''retry_storm'' n"
    using retry_storm_stream [OF g] by (auto simp: sizes)
  have "generate_events R scenario seed start n = Inr es" using gen [of "\<lambda>seed start n. generate_retry_storm R seed start"] es(1) 5 by (simp add: SCENARIO_GENERATORS_def)
  then show ?claim using es(2,3) 5 by (intro plain) simp_all
  next
    assume 6: "scenario = ''unusual_amount''"
  obtain es offsets where es: "generate_unusual_amount R seed start = Inr es" "stream_of ''unusual_amount'' start offsets es" "length offsets = scenario_size ''unusual_amount'' n"
    using unusual_amount_stream [OF g] by (auto simp: sizes)
  have "generate_events R scenario seed start n = Inr es" using gen [of "\<lambda>seed start n. generate_unusual_amount R seed start"] es(1) 6 by (simp add: SCENARIO_GENERATORS_def)
  then show ?claim using es(2,3) 6 by (intro plain) simp_all
  next
    assume 7: "scenario = ''merchant_deviation''"
  obtain es offsets where es: "generate_merchant_deviation R seed start = Inr es" "stream_of ''merchant_deviation'' start offsets es" "length offsets = scenario_size ''merchant_deviation'' n"
    using merchant_deviation_stream [OF g] by (auto simp: sizes)
  have "generate_events R scenario seed start n = Inr es" using gen [of "\<lambda>seed start n. generate_merchant_deviation R seed start"] es(1) 7 by (simp add: SCENARIO_GENERATORS_def)
  then show ?claim using es(2,3) 7 by (intro plain) simp_all
  next
    assume 8: "scenario = ''duplicate''"
  obtain es where es: "generate_duplicate R seed start = Inr (es @ [es ! 0])" "stream_of ''duplicate'' start (map (\<lambda>i. DUPLICATE_INTERVAL * int i) [0..<3]) es"
    using duplicate_stream [OF g] by blast
  have "generate_events R scenario seed start n = Inr (es @ [es ! 0])" using gen [of "\<lambda>seed start n. generate_duplicate R seed start"] es(1) 8 by (simp add: SCENARIO_GENERATORS_def)
  then show ?claim using es(2) 8 by (intro exI [of _ es] exI [of _ "map (\<lambda>i. DUPLICATE_INTERVAL * int i) [0..<3]"]) (simp add: sizes)
  next
    assume 9: "scenario = ''out_of_order''"
  obtain es offsets where es: "generate_out_of_order R seed start = Inr es" "stream_of ''out_of_order'' start offsets es" "length offsets = scenario_size ''out_of_order'' n"
    using out_of_order_stream [OF g] by (auto simp: sizes)
  have "generate_events R scenario seed start n = Inr es" using gen [of "\<lambda>seed start n. generate_out_of_order R seed start"] es(1) 9 by (simp add: SCENARIO_GENERATORS_def)
  then show ?claim using es(2,3) 9 by (intro plain) simp_all
  qed
qed

lemma scenario_events_valid:
  assumes "generator_input R seed start" and "scenario \<in> set (available_scenarios R)" and "1 \<le> n" and "n \<le> 500"
    and "int (scenario_size scenario n) \<le> n"
  shows "\<exists>es. generate_events R scenario seed start n = Inr es \<and> length es = scenario_size scenario n \<and> list_all event_valid es \<and>
    card (event_id ` set es) = (if scenario = ''duplicate'' then length es - 1 else length es)"
proof -
  obtain es offsets where es: "stream_of scenario start offsets es"
    "generate_events R scenario seed start n = Inr (if scenario = ''duplicate'' then es @ [es ! 0] else es)"
    "scenario_size scenario n = (if scenario = ''duplicate'' then Suc (length offsets) else length offsets)"
    using scenario_stream [OF assms(1) _ assms(3-5)] assms(2) unfolding registered by blast
  note f = stream_facts(1-3) [OF es(1)]
  have ids: "card (event_id ` set es) = length es" using distinct_card [OF f(2)] by simp
  show ?thesis
  proof (cases "scenario = ''duplicate''")
    case True
    have "scenario_size scenario n = 4" unfolding True by (simp add: scenario_size_def FIXED_NARRATIVE_SIZES_def scenario_counts)
    then have "es \<noteq> []" using es(3) f(3) True by auto
    then have "es ! 0 \<in> set es" by simp
    moreover from this have "event_id (es ! 0) \<in> event_id ` set es" by (rule imageI)
    ultimately show ?thesis using es(2,3) f ids True by (simp add: list_all_iff insert_absorb)
  next
    case False
    then show ?thesis using es(2,3) f ids by simp
  qed
qed

lemma generate_events_refuses:
  "scenario \<notin> set (available_scenarios R) \<Longrightarrow> generate_events R scenario seed start n = Inl (unknown_scenario R scenario)"
  "scenario \<in> set (available_scenarios R) \<Longrightarrow> n < 1 \<or> 500 < n \<or> \<not> aware start \<or> n < int (scenario_size scenario n) \<Longrightarrow>
     \<exists>msg. generate_events R scenario seed start n = Inl (ValueError msg)"
proof -
  have m: "map_of (SCENARIO_GENERATORS R) scenario = None \<longleftrightarrow> scenario \<notin> set (available_scenarios R)"
    by (simp add: available_scenarios_def map_of_eq_None_iff)
  show "scenario \<notin> set (available_scenarios R) \<Longrightarrow> generate_events R scenario seed start n = Inl (unknown_scenario R scenario)"
    using m by (simp add: generate_events_def)
  assume "scenario \<in> set (available_scenarios R)" and bad: "n < 1 \<or> 500 < n \<or> \<not> aware start \<or> n < int (scenario_size scenario n)"
  then obtain f where f: "map_of (SCENARIO_GENERATORS R) scenario = Some f" using m by auto
  show "\<exists>msg. generate_events R scenario seed start n = Inl (ValueError msg)"
    using bad f by (auto simp: generate_events_def MIN_EVENT_COUNT_def MAX_EVENT_COUNT_def require_timezone_aware_def aware_def
        scenario_size_def split: option.splits)
qed

text \<open>A source of numbers that only counts, and a start.\<close>

definition counting_random :: "nat random_lib" where
  "counting_random = \<lparr>rd_seeded = nat, rd_below = (\<lambda>n g. (g mod n, Suc g)), rd_random = (\<lambda>g. (1 / 2, Suc g))\<rparr>"

definition scenario_start :: pydatetime where "scenario_start = utc 1767225600000000"

lemma counting_input: "generator_input counting_random 42 scenario_start"
  by (simp add: generator_input_def random_ok_def counting_random_def start_ok_def scenario_start_def MIN_SEED_def MAX_SEED_def python_datetime_def
      MIN_EVENT_TIME_def MAX_EVENT_TIME_def MIN_LOCAL_def MAX_LOCAL_def seconds_def utc_def dt_instant_def aware_def)

text \<open>C38. Every scenario is a stream of valid events: for a registered name, a count from one to 500
  that is at least its fixed size, a valid seed and a start in the supported years, the generator
  returns exactly its size of events, each within the event contract, and no identifier twice except
  for the event that the duplicate scenario repeats.\<close>

theorem scenario_streams_are_valid:
  assumes "generator_input R seed start" and "scenario \<in> set (available_scenarios R)" and "1 \<le> n" and "n \<le> 500"
    and "int (scenario_size scenario n) \<le> n"
  shows "\<exists>es. generate_events R scenario seed start n = Inr es \<and> length es = scenario_size scenario n \<and> list_all event_valid es \<and>
    card (event_id ` set es) = (if scenario = ''duplicate'' then length es - 1 else length es)"
  using assms by (rule scenario_events_valid)

lemma scenario_streams_are_valid_witness:
  "\<exists>es. generate_events counting_random ''unusual_amount'' 42 scenario_start 10 = Inr es \<and> length es = 4 \<and> list_all event_valid es"
proof -
  have "scenario_size ''unusual_amount'' 10 = 4" by (simp add: scenario_size_def FIXED_NARRATIVE_SIZES_def scenario_counts)
  moreover have "''unusual_amount'' \<in> set (available_scenarios counting_random)" by (simp add: registered scenario_names_def)
  ultimately show ?thesis using scenario_streams_are_valid [OF counting_input, of "''unusual_amount''" 10] by auto
qed

end
