(* ===== verification/Scenario_Replay.thy ===== *)
theory Scenario_Replay
  imports Scenario_Facts Feature_Facts
begin

text \<open>
  The scenarios replayed through a store under a fixed clock: what the store says of each event, and
  the signals that the feature families raise.
\<close>

section \<open>A replay\<close>

text \<open>The answers of a store to new events, by its watermark.\<close>

fun replay_answers :: "pydatetime option \<Rightarrow> synthetic_event list \<Rightarrow> (py_exc + record_result) list" where
  "replay_answers wm [] = []"
| "replay_answers wm (e # es) =
     Inr \<lparr>rr_duplicate_status = New, rr_ordering_status = late_against e wm, rr_stored_event = e\<rparr> #
     replay_answers (raise_watermark e wm) es"

fun replay_records :: "pydatetime option \<Rightarrow> synthetic_event list \<Rightarrow> (string, stored_record) dict" where
  "replay_records wm [] = []"
| "replay_records wm (e # es) =
     (event_id e, \<lparr>sr_event = e, sr_ordering_status = late_against e wm\<rparr>) # replay_records (raise_watermark e wm) es"

text \<open>A store with room for the events, at a time when none of them is expired.\<close>

definition room_for :: "event_store \<Rightarrow> pydatetime \<Rightarrow> synthetic_event list \<Rightarrow> bool" where
  "room_for s now es \<longleftrightarrow> store_inv s \<and> (\<exists>c. dt_add now (- es_retention s) = Inr c) \<and>
     int (length (es_records s) + length es) \<le> es_max_events s \<and>
     (\<forall>e \<in> set (retained_events s) \<union> set es. aware (event_time e) \<and> dt_instant now - es_retention s \<le> event_instant e)"

lemma replay_fresh:
  assumes "room_for s now es" and "distinct (map event_id es)" and "event_id ` set es \<inter> fst ` set (es_records s) = {}"
  shows "\<exists>s'. store_run s (map (Pair now) es) = (replay_answers (es_watermark s) es, s') \<and> room_for s' now [] \<and>
    retained_events s' = retained_events s @ es \<and> es_retention s' = es_retention s \<and> es_max_events s' = es_max_events s \<and>
    es_records s' = es_records s @ replay_records (es_watermark s) es"
  using assms
proof (induction es arbitrary: s)
  case Nil
  then show ?case by (simp add: room_for_def)
next
  case (Cons e es)
  obtain c where s: "store_inv s" "dt_add now (- es_retention s) = Inr c" "int (length (es_records s) + Suc (length es)) \<le> es_max_events s"
    using Cons.prems(1) by (auto simp: room_for_def)
  have all: "filter (unexpired s (dt_instant now)) (es_records s) = es_records s"
    using Cons.prems(1) by (auto simp: room_for_def unexpired_def retained_events_def intro!: filter_True)
  have fresh: "map_of (es_records (evicted s now)) (event_id e) = None" using Cons.prems(3) by (auto simp: all map_of_eq_None_iff)
  let ?s = "s\<lparr>es_records := es_records s @ [(event_id e, \<lparr>sr_event = e, sr_ordering_status = late_against e (es_watermark s)\<rparr>)],
      es_watermark := raise_watermark e (es_watermark s)\<rparr>"
  have r: "record_event s now e =
      (Inr \<lparr>rr_duplicate_status = New, rr_ordering_status = late_against e (es_watermark s), rr_stored_event = e\<rparr>, ?s)"
    using record_event_new [OF s(1,2) fresh] s(3) by (simp add: all)
  have "aware (event_time e)" using Cons.prems(1) by (simp add: room_for_def)
  then have "store_inv ?s" using record_event_inv [OF s(1), of e now] r by simp
  then have "room_for ?s now es" using Cons.prems(1) s(2) by (auto simp: room_for_def retained_events_def)
  moreover have "event_id ` set es \<inter> fst ` set (es_records ?s) = {}" using Cons.prems(2,3) by auto
  ultimately obtain s' where s': "store_run ?s (map (Pair now) es) = (replay_answers (es_watermark ?s) es, s')" "room_for s' now []"
    "retained_events s' = retained_events ?s @ es" "es_retention s' = es_retention ?s" "es_max_events s' = es_max_events ?s"
    "es_records s' = es_records ?s @ replay_records (es_watermark ?s) es"
    using Cons.IH [of ?s] Cons.prems(2) by auto
  then show ?case using r by (intro exI [of _ s']) (auto simp: retained_events_def)
qed

lemma store_run_append:
  "store_run s (xs @ ys) = (let (rs, s1) = store_run s xs; (qs, s2) = store_run s1 ys in (rs @ qs, s2))"
  by (induction xs arbitrary: s) (auto simp: split_def Let_def)

text \<open>An empty store under a fixed clock, with a day of retention around the scenario.\<close>

definition replay_setup :: "event_store \<Rightarrow> pydatetime \<Rightarrow> pydatetime \<Rightarrow> bool" where
  "replay_setup s now start \<longleftrightarrow> store_inv s \<and> es_records s = [] \<and> es_watermark s = None \<and> 10 \<le> es_max_events s \<and> es_max_events s \<le> 1000000 \<and>
     (\<exists>c. dt_add now (- es_retention s) = Inr c) \<and> dt_instant now - es_retention s \<le> dt_instant start"

lemma stream_times:
  assumes "stream_of name start offsets es" and "start_ok start" and "\<forall>d \<in> set offsets. 0 \<le> d \<and> d \<le> seconds 15000" and "i < length es"
  shows "event_instant (es ! i) = dt_instant start + offsets ! i" and "python_datetime (event_time (es ! i))" and "aware (event_time (es ! i))"
proof -
  have i: "i < length offsets" using assms(4) stream_facts(3) [OF assms(1)] by simp
  then have d: "0 \<le> offsets ! i" "offsets ! i \<le> seconds 15000" using assms(3) nth_mem by blast+
  have t: "event_time (es ! i) = later start (offsets ! i)" by (rule stream_facts(4) [OF assms(1) i])
  show "event_instant (es ! i) = dt_instant start + offsets ! i" "python_datetime (event_time (es ! i))"
    unfolding t using later_facts(3,4) [OF assms(2) d] by blast+
  show "aware (event_time (es ! i))" unfolding t using assms(2) by (simp add: start_ok_def later_def aware_def)
qed

lemma stream_replay:
  assumes "stream_of name start offsets es" and "start_ok start" and "\<forall>d \<in> set offsets. 0 \<le> d \<and> d \<le> seconds 15000"
    and "replay_setup s now start" and "length es \<le> 10"
  shows "\<exists>s'. store_run s (map (Pair now) es) = (replay_answers None es, s') \<and> room_for s' now [] \<and> retained_events s' = es \<and>
    es_records s' = replay_records None es"
proof -
  have "aware (event_time e) \<and> dt_instant now - es_retention s \<le> event_instant e" if "e \<in> set es" for e
  proof -
    obtain i where i: "i < length es" "e = es ! i" using \<open>e \<in> set es\<close> by (auto simp: in_set_conv_nth)
    have "0 \<le> offsets ! i" using assms(3) i(1) stream_facts(3) [OF assms(1)] nth_mem by metis
    then show ?thesis using stream_times [OF assms(1-3) i(1)] assms(4) unfolding i(2) replay_setup_def by linarith
  qed
  then have "room_for s now es" using assms(4,5) by (auto simp: room_for_def replay_setup_def retained_events_def)
  moreover have "event_id ` set es \<inter> fst ` set (es_records s) = {}" using assms(4) by (simp add: replay_setup_def)
  ultimately show ?thesis using replay_fresh [OF _ stream_facts(2) [OF assms(1)], of s now] assms(4)
    by (auto simp: replay_setup_def retained_events_def)
qed

section \<open>What a replay shows\<close>

definition answer_status :: "py_exc + record_result \<Rightarrow> (duplicate_status \<times> ordering_status) option" where
  "answer_status r = (case r of Inr q \<Rightarrow> Some (rr_duplicate_status q, rr_ordering_status q) | Inl _ \<Rightarrow> None)"

lemma list4: "length xs = 4 \<Longrightarrow> xs = [xs ! 0, xs ! 1, xs ! 2, xs ! 3]"
  by (intro nth_equalityI) (auto simp: less_Suc_eq numeral_eq_Suc)

lemma list3: "length xs = 3 \<Longrightarrow> xs = [xs ! 0, xs ! 1, xs ! 2]"
  by (intro nth_equalityI) (auto simp: less_Suc_eq numeral_eq_Suc)

lemma setup_start: "generator_input R seed start \<Longrightarrow> start_ok start"
  by (simp add: generator_input_def)

lemma out_of_order_replay:
  assumes g: "generator_input R seed start" and "replay_setup s now start" and "4 \<le> n" and "n \<le> 500"
  shows "\<exists>es s' rs. generate_events R ''out_of_order'' seed start n = Inr es \<and> store_run s (map (Pair now) es) = (rs, s') \<and>
    map answer_status rs = [Some (New, InOrder), Some (New, InOrder), Some (New, Late), Some (New, InOrder)]"
proof -
  let ?off = "map (\<lambda>i. seconds (OUT_OF_ORDER_OFFSETS_SECONDS ! i)) [0..<OUT_OF_ORDER_EVENT_COUNT]"
  obtain es where es: "generate_out_of_order R seed start = Inr es" "stream_of ''out_of_order'' start ?off es"
    using out_of_order_stream [OF g] by blast
  have off: "?off = [seconds 0, seconds 120, seconds 30, seconds 150]" by (simp add: OUT_OF_ORDER_OFFSETS_SECONDS_def OUT_OF_ORDER_EVENT_COUNT_def)
  have st: "\<forall>d \<in> set ?off. 0 \<le> d \<and> d \<le> seconds 15000" unfolding off by (simp add: seconds_def)
  have len: "length es = 4" using stream_facts(3) [OF es(2)] off by simp
  note t = stream_times(1) [OF es(2) setup_start [OF g] st]
  have "event_instant (es ! 0) = dt_instant start" "event_instant (es ! 1) = dt_instant start + seconds 120"
    "event_instant (es ! 2) = dt_instant start + seconds 30" "event_instant (es ! 3) = dt_instant start + seconds 150"
    using t [of 0] t [of 1] t [of 2] t [of 3] unfolding len off by (simp_all add: seconds_def)
  then have "map answer_status (replay_answers None [es ! 0, es ! 1, es ! 2, es ! 3]) =
      [Some (New, InOrder), Some (New, InOrder), Some (New, Late), Some (New, InOrder)]"
    by (simp add: answer_status_def late_against_def raise_watermark_def seconds_def)
  then have "map answer_status (replay_answers None es) = [Some (New, InOrder), Some (New, InOrder), Some (New, Late), Some (New, InOrder)]"
    by (simp only: list4 [OF len, symmetric])
  moreover obtain s' where "store_run s (map (Pair now) es) = (replay_answers None es, s')"
    using stream_replay [OF es(2) setup_start [OF g] st assms(2)] len by auto
  moreover have "generate_events R ''out_of_order'' seed start n = Inr es"
    using generated [OF g, of "''out_of_order''" n "\<lambda>seed start n. generate_out_of_order R seed start"] es(1) assms(3,4)
    by (simp add: scenario_names_def scenario_size_def FIXED_NARRATIVE_SIZES_def SCENARIO_GENERATORS_def scenario_counts)
  ultimately show ?thesis by (intro exI [of _ es] exI [of _ s'] exI [of _ "replay_answers None es"] conjI)
qed

lemma duplicate_replay:
  assumes g: "generator_input R seed start" and "replay_setup s now start" and "4 \<le> n" and "n \<le> 500"
  shows "\<exists>es s' rs. generate_events R ''duplicate'' seed start n = Inr es \<and> store_run s (map (Pair now) es) = (rs, s') \<and>
    map answer_status rs = [Some (New, InOrder), Some (New, InOrder), Some (New, InOrder), Some (Duplicate, InOrder)]"
proof -
  let ?off = "map (\<lambda>i. DUPLICATE_INTERVAL * int i) [0..<3]"
  obtain es where es: "generate_duplicate R seed start = Inr (es @ [es ! 0])" "stream_of ''duplicate'' start ?off es"
    using duplicate_stream [OF g] by blast
  have off: "?off = [0, seconds 20, seconds 40]" by (simp add: DUPLICATE_INTERVAL_def seconds_def upt_rec)
  have st: "\<forall>d \<in> set ?off. 0 \<le> d \<and> d \<le> seconds 15000" unfolding off by (simp add: seconds_def)
  have len: "length es = 3" using stream_facts(3) [OF es(2)] by simp
  note t = stream_times(1) [OF es(2) setup_start [OF g] st]
  have "event_instant (es ! 0) = dt_instant start" "event_instant (es ! 1) = dt_instant start + seconds 20"
    "event_instant (es ! 2) = dt_instant start + seconds 40"
    using t [of 0] t [of 1] t [of 2] unfolding len off by (simp_all add: seconds_def)
  then have "map answer_status (replay_answers None [es ! 0, es ! 1, es ! 2]) = [Some (New, InOrder), Some (New, InOrder), Some (New, InOrder)]"
    by (simp add: answer_status_def late_against_def raise_watermark_def seconds_def)
  then have first: "map answer_status (replay_answers None es) = [Some (New, InOrder), Some (New, InOrder), Some (New, InOrder)]"
    by (simp only: list3 [OF len, symmetric])
  obtain s' where s': "store_run s (map (Pair now) es) = (replay_answers None es, s')" "room_for s' now []" "es_records s' = replay_records None es"
    using stream_replay [OF es(2) setup_start [OF g] st assms(2)] len by auto
  let ?e = "es ! 0" and ?r = "\<lparr>sr_event = es ! 0, sr_ordering_status = InOrder\<rparr>"
  obtain c where inv: "store_inv s'" "dt_add now (- es_retention s') = Inr c" using s'(2) by (auto simp: room_for_def)
  have all: "filter (unexpired s' (dt_instant now)) (es_records s') = es_records s'"
    using s'(2) by (auto simp: room_for_def unexpired_def retained_events_def intro!: filter_True)
  have "map_of (replay_records None [es ! 0, es ! 1, es ! 2]) (event_id ?e) = Some ?r" by (simp add: late_against_def)
  then have "map_of (es_records (evicted s' now)) (event_id ?e) = Some ?r"
    unfolding list3 [OF len, symmetric] s'(3) [symmetric] by (simp add: all)
  then have again: "record_event s' now ?e = (Inr \<lparr>rr_duplicate_status = Duplicate, rr_ordering_status = InOrder, rr_stored_event = ?e\<rparr>, evicted s' now)"
    using record_event_known [OF inv] by simp
  have run: "store_run s (map (Pair now) (es @ [?e])) =
      (replay_answers None es @ [Inr \<lparr>rr_duplicate_status = Duplicate, rr_ordering_status = InOrder, rr_stored_event = ?e\<rparr>], evicted s' now)"
    using s'(1) again by (simp add: store_run_append)
  have "generate_events R ''duplicate'' seed start n = Inr (es @ [?e])"
    using generated [OF g, of "''duplicate''" n "\<lambda>seed start n. generate_duplicate R seed start"] es(1) assms(3,4)
    by (simp add: scenario_names_def scenario_size_def FIXED_NARRATIVE_SIZES_def SCENARIO_GENERATORS_def scenario_counts)
  then show ?thesis using run first by (auto simp: answer_status_def)
qed

lemma vpn_signals:
  assumes g: "generator_input R seed start" and "4 \<le> n" and "n \<le> 500"
  shows "\<exists>es. generate_events R ''vpn_geography_mismatch'' seed start n = Inr es \<and> length es = 4 \<and>
    list_all (\<lambda>e. \<forall>s. length (retained_events s) \<le> 1000000 \<longrightarrow> (\<exists>r. compute_geography_features s e = Inr r \<and>
      {''geography_country_mismatch'', ''geography_vpn_or_proxy''} \<subseteq> reason_code ` set (ff_triggered_signals r))) es"
proof -
  obtain es where es: "generate_vpn_geography_mismatch R seed start = Inr es"
    "stream_of ''vpn_geography_mismatch'' start (map (\<lambda>i. VPN_MISMATCH_INTERVAL * int i) [0..<VPN_MISMATCH_EVENT_COUNT]) es"
    "\<forall>i < VPN_MISMATCH_EVENT_COUNT. account_country (es ! i) = ''IN'' \<and> event_country (es ! i) = ''US'' \<and> vpn_or_proxy (es ! i)"
    using vpn_geography_mismatch_stream [OF g] by blast
  have len: "length es = 4" using stream_facts(3) [OF es(2)] by (simp add: VPN_MISMATCH_EVENT_COUNT_def)
  have st: "\<forall>d \<in> set (map (\<lambda>i. VPN_MISMATCH_INTERVAL * int i) [0..<VPN_MISMATCH_EVENT_COUNT]). 0 \<le> d \<and> d \<le> seconds 15000"
    by (auto simp: VPN_MISMATCH_INTERVAL_def VPN_MISMATCH_EVENT_COUNT_def seconds_def)
  have one: "\<exists>r. compute_geography_features s (es ! i) = Inr r \<and>
      {''geography_country_mismatch'', ''geography_vpn_or_proxy''} \<subseteq> reason_code ` set (ff_triggered_signals r)"
    if i: "i < length es" "length (retained_events s) \<le> 1000000" for i s
  proof -
    have "event_valid (es ! i)" using stream_facts(1) [OF es(2)] i(1) by (simp add: list_all_length)
    then have "family_input s (es ! i)" using stream_times(2) [OF es(2) setup_start [OF g] st i(1)] i(2) by (simp add: family_input_def)
    then obtain r where r: "compute_geography_features s (es ! i) = Inr r" "map reason_code (ff_triggered_signals r) = geography_codes s (es ! i)"
      using geography_family by blast
    have "set (geography_codes s (es ! i)) \<supseteq> {''geography_country_mismatch'', ''geography_vpn_or_proxy''}"
      using es(3) i(1) len by (simp add: geography_codes_def VPN_MISMATCH_EVENT_COUNT_def)
    moreover have "reason_code ` set (ff_triggered_signals r) = set (geography_codes s (es ! i))" using arg_cong [OF r(2), of set] by simp
    ultimately show ?thesis using r(1) by simp
  qed
  have "generate_events R ''vpn_geography_mismatch'' seed start n = Inr es"
    using generated [OF g, of "''vpn_geography_mismatch''" n "\<lambda>seed start n. generate_vpn_geography_mismatch R seed start"] es(1) assms(2,3)
    by (simp add: scenario_names_def scenario_size_def FIXED_NARRATIVE_SIZES_def SCENARIO_GENERATORS_def scenario_counts)
  then show ?thesis using one len by (auto simp: list_all_length)
qed

lemma retry_signals:
  assumes g: "generator_input R seed start" and su: "replay_setup s now start" and "5 \<le> n" and "n \<le> 500"
  shows "\<exists>es s' rs r. generate_events R ''retry_storm'' seed start n = Inr es \<and> store_run s (map (Pair now) es) = (rs, s') \<and>
    compute_retry_features s' (last es) = Inr r \<and>
    map reason_code (ff_triggered_signals r) = [''retry_group_size_high'', ''retry_account_failure_count_high'']"
proof -
  let ?off = "map (\<lambda>i. RETRY_STORM_INTERVAL * int i) [0..<RETRY_STORM_EVENT_COUNT]"
  have cnt: "RETRY_STORM_EVENT_COUNT = 5" by (simp add: scenario_counts)
  obtain es acct retry where es: "generate_retry_storm R seed start = Inr es" "stream_of ''retry_storm'' start ?off es"
    "\<forall>i < 5. account_id (es ! i) = acct \<and> retry_group_id (es ! i) = Some retry \<and> ev_outcome (es ! i) = (if i = 4 then Success else Declined)"
    using retry_storm_stream [OF g] unfolding cnt by auto
  have off: "?off = [0, seconds 5, seconds 10, seconds 15, seconds 20]" unfolding cnt by (simp add: RETRY_STORM_INTERVAL_def seconds_def upt_rec)
  have len: "length es = 5" using stream_facts(3) [OF es(2)] cnt by simp
  have st: "\<forall>d \<in> set ?off. 0 \<le> d \<and> d \<le> seconds 15000" unfolding off by (simp add: seconds_def)
  obtain s' where s': "store_run s (map (Pair now) es) = (replay_answers None es, s')" "retained_events s' = es"
    using stream_replay [OF es(2) setup_start [OF g] st su] len by auto
  let ?e = "es ! 4"
  have lst: "last es = ?e" using len by (subst last_conv_nth) auto
  have "event_valid ?e" using stream_facts(1) [OF es(2)] len by (simp add: list_all_length)
  then have "family_input s' ?e" using stream_times(2) [OF es(2) setup_start [OF g] st, of 4] len s'(2) by (simp add: family_input_def)
  then obtain r where r: "compute_retry_features s' ?e = Inr r" "map reason_code (ff_triggered_signals r) = retry_codes s' ?e"
    using retry_family by blast
  note t = stream_times(1) [OF es(2) setup_start [OF g] st]
  have times: "event_instant (es ! i) \<ge> event_instant ?e - seconds 3600 \<and> event_instant (es ! i) \<le> event_instant ?e" if i: "i < 5" for i
  proof -
    have "?off ! i \<in> set ?off" using i len stream_facts(3) [OF es(2)] by (metis nth_mem)
    then have "0 \<le> ?off ! i \<and> ?off ! i \<le> seconds 20" unfolding off by (auto simp: seconds_def)
    moreover have "?off ! 4 = seconds 20" unfolding off by simp
    ultimately show ?thesis using t [of i] t [of 4] i len by (simp add: seconds_def)
  qed
  have "filter (\<lambda>x. event_instant ?e - seconds 3600 \<le> event_instant x \<and> event_instant x \<le> event_instant ?e) es = es"
    using times len by (intro filter_True) (auto simp: in_set_conv_nth)
  then have hour: "recent s' ?e (seconds 3600) = sort_key event_instant es" by (simp add: recent_def s'(2))
  have list5: "es = [es ! 0, es ! 1, es ! 2, es ! 3, ?e]" using len by (intro nth_equalityI) (auto simp: less_Suc_eq numeral_eq_Suc)
  have count: "length (filter P (sort_key event_instant es)) = length (filter P es)" for P by (simp add: filter_sort)
  have "filter (\<lambda>x. retry_group_id x = Some retry) es = es" using es(3) len by (intro filter_True) (auto simp: in_set_conv_nth)
  moreover have "length (filter (\<lambda>x. account_id x = acct \<and> ev_outcome x \<in> {Declined, Failed}) es) = 4"
    by (subst list5) (use es(3) in simp)
  ultimately have "retry_codes s' ?e = [''retry_group_size_high'', ''retry_account_failure_count_high'']"
    using es(3) len by (simp add: retry_codes_def hour count)
  moreover have "generate_events R ''retry_storm'' seed start n = Inr es"
    using generated [OF g, of "''retry_storm''" n "\<lambda>seed start n. generate_retry_storm R seed start"] es(1) assms(3,4)
    by (simp add: scenario_names_def scenario_size_def FIXED_NARRATIVE_SIZES_def SCENARIO_GENERATORS_def scenario_counts)
  ultimately show ?thesis using s'(1) r lst by auto
qed

text \<open>C37. The scenarios show what they are named for. Replayed in their order through an empty store
  under a fixed clock, the out-of-order scenario has exactly its third event late and the duplicate
  scenario exactly its last one recognised as a duplicate; every event of the geography scenario
  raises both of its signals whatever the store holds (up to a million events), and the last event of the retry storm raises
  both retry signals.\<close>

theorem scenarios_show_their_pattern:
  assumes "generator_input R seed start" and "replay_setup s now start" and "5 \<le> n" and "n \<le> 500"
  shows "(\<exists>es s' rs. generate_events R ''out_of_order'' seed start n = Inr es \<and> store_run s (map (Pair now) es) = (rs, s') \<and>
      map answer_status rs = [Some (New, InOrder), Some (New, InOrder), Some (New, Late), Some (New, InOrder)]) \<and>
    (\<exists>es s' rs. generate_events R ''duplicate'' seed start n = Inr es \<and> store_run s (map (Pair now) es) = (rs, s') \<and>
      map answer_status rs = [Some (New, InOrder), Some (New, InOrder), Some (New, InOrder), Some (Duplicate, InOrder)]) \<and>
    (\<exists>es. generate_events R ''vpn_geography_mismatch'' seed start n = Inr es \<and> length es = 4 \<and>
      list_all (\<lambda>e. \<forall>s. length (retained_events s) \<le> 1000000 \<longrightarrow> (\<exists>r. compute_geography_features s e = Inr r \<and>
        {''geography_country_mismatch'', ''geography_vpn_or_proxy''} \<subseteq> reason_code ` set (ff_triggered_signals r))) es) \<and>
    (\<exists>es s' rs r. generate_events R ''retry_storm'' seed start n = Inr es \<and> store_run s (map (Pair now) es) = (rs, s') \<and>
      compute_retry_features s' (last es) = Inr r \<and>
      map reason_code (ff_triggered_signals r) = [''retry_group_size_high'', ''retry_account_failure_count_high''])"
  using out_of_order_replay [OF assms(1,2)] duplicate_replay [OF assms(1,2)] vpn_signals [OF assms(1)] retry_signals [OF assms] assms(3,4)
  by (intro conjI) simp_all

definition replay_store :: event_store where
  "replay_store = \<lparr>es_retention = seconds 86400, es_max_events = 1000, es_records = [], es_watermark = None\<rparr>"

lemma scenarios_show_their_pattern_witness:
  "\<exists>es s' rs r. generate_events counting_random ''retry_storm'' 42 scenario_start 10 = Inr es \<and>
     store_run replay_store (map (Pair (utc 1767225700000000)) es) = (rs, s') \<and> compute_retry_features s' (last es) = Inr r \<and>
     map reason_code (ff_triggered_signals r) = [''retry_group_size_high'', ''retry_account_failure_count_high'']"
proof -
  have "replay_setup replay_store (utc 1767225700000000) scenario_start"
    by (simp add: replay_setup_def replay_store_def store_inv_def seconds_def dt_add_def utc_def MIN_LOCAL_def MAX_LOCAL_def scenario_start_def
        dt_instant_def Let_def)
  from scenarios_show_their_pattern [OF counting_input this, of 10] show ?thesis by simp
qed

end
