(* ===== verification/Spec2Isabelle.thy ===== *)
theory Spec2Isabelle
  imports Windows Feature_Facts Order_Integrity Durable_Idempotency Postgres_Facts Lifecycle
    Partition_Facts Review_Capacity Api_Facts Feature_Contract_Facts Migrations
    Quarantine_Facts Policy_Facts Reference_Facts Smoke_Bundle Audit_Facts Scenario_Replay
begin

text \<open>
  SecureSwipe is a fraud-scoring service with evidence-keeping around it. This library models
  the parts of the Python code that carry its guarantees and proves those guarantees. File
  names below are relative to the repository, as \<open>src/...\<close>.

  \<^bold>\<open>Foundations.\<close> \<open>Prelude\<close> has exceptions as a datatype, results as sums with \<open>res_bind\<close> and
  \<open>res_map\<close>, Python dictionaries as association lists in insertion order, decimal rendering
  and character classes. A \<open>str\<close> is a list of characters that stand for the code points up
  to 255. \<open>Py_Float\<close> has binary64 arithmetic with round-half-even over exact rationals
  (\<open>fl\<close> rounds once; sums, quotients and formatting follow Python), \<open>Py_Values\<close> run-time
  typed values, \<open>repr\<close> and compact sorted JSON, \<open>Sha256\<close> the hash and HMAC functions as
  executable word arithmetic. Nothing is assumed about SHA-256: where a guarantee rests on
  it, the theorem names the two different documents of the code that would have one digest.

  \<^bold>\<open>Shared contracts.\<close> \<open>Write_Once\<close> is the locale of a store whose final outcomes never
  change; the SQLite store, the PostgreSQL store and the lifecycle record interpret it.
  \<open>Hash_Chain\<close> is the locale of a verified chain of digests; the PostgreSQL audit chain
  interprets it.

  \<^bold>\<open>Synthetic real-time stream\<close> (\<open>src/src/synthetic_realtime/\<close>). \<open>Clock\<close> models \<open>clock.py\<close>,
  \<open>Contracts\<close> the validated models of \<open>contracts.py\<close> (a model is its validity predicate),
  \<open>Event_Store\<close> the store of \<open>store.py\<close> with the clock's reading as an argument,
  \<open>Windows\<close> the windows of \<open>windows.py\<close>, \<open>Feature_Families\<close> the eight modules of
  \<open>features/\<close>. The lemmas show that every reachable store is well formed, that an event is
  late exactly when it is behind an earlier one, that eviction is first in, first out, that
  range queries and windows are exact, that a resubmission replays the original, and that
  the families' outputs meet the output contract - except the amount family, whose
  description can outgrow it, which is proved too. \<open>Scenarios\<close> has the nine generators of
  \<open>scenarios.py\<close> over an argument for \<open>random.Random\<close>, of which \<open>random_ok\<close> states that an index is
  below its bound and a float in the unit interval; \<open>Scenario_Facts\<close> shows that every scenario is
  a valid stream of its size, \<open>Scenario_Replay\<close> that the store and the families see in it the
  pattern it is named for.

  \<^bold>\<open>Order integrity\<close> (\<open>src/src/order_integrity/\<close>). \<open>Order_Integrity\<close> parses a client cart,
  rebuilds its amount from the catalog, issues quotes and judges confirmations against a
  ledger. The lemmas: no client price survives parsing, amount and digest ignore how lines
  are laid out, a verified confirmation agrees with everything the server knows, and a
  quote is verified at most once over any sequence of confirmations.

  \<^bold>\<open>Idempotency and audit\<close> (\<open>src/api/\<close>, \<open>src/src/operations/durable_idempotency.py\<close>).
  \<open>Durable_Idempotency\<close> is the SQLite store with process crashes and recovery.
  \<open>Bounded_Response\<close> is the score-free response of \<open>scale_response.py\<close> with its strict
  validation. \<open>Postgres_Audit\<close> and \<open>Postgres_Store\<close> are \<open>postgres_audit.py\<close> and
  \<open>postgres_idempotency.py\<close> over tables as lists of rows; a database step is one committed
  or rolled-back transaction, with faults before and after the commit. \<open>Postgres_Facts\<close>
  shows that every reachable database passes the full verification, that completion is
  atomic, ownership is granted once and a committed response is replayed for ever.
  \<open>Migrations\<close> is \<open>postgres_migrations.py\<close>: under faults at every point the recorded history
  stays a prefix of the migrations and the schema is what that prefix makes of the first
  one. \<open>Api_Service\<close> is the local profile of \<open>main.py\<close> with the registry of \<open>audit.py\<close>: an
  event is what one task does between two suspensions, and \<open>Api_Facts\<close> proves admission
  control, one prediction per request id, audit before release and the absence of orphaned
  waiters for every interleaving of requests, worker ends, timeouts and cancellations.
  \<open>Audit_Log\<close> is the append-only NDJSON log of \<open>audit.py\<close>: the verification of its lines and of
  the anchor beside it, and the writer, which the operating system may stop at every write.
  \<open>Audit_Facts\<close> shows that an append extends a log that verifies by exactly its events, that a
  torn append never passes for evidence, and that a request appended again after a restart
  closes the log for good; \<open>Canon_Json\<close> has what reading back a text with sorted keys changes.

  \<^bold>\<open>Second experiment\<close> (\<open>src/src/lane_a/\<close>). \<open>Lane_A_Partition\<close> and \<open>Partition_Facts\<close> are the
  roles and the chronological partition, in the program's own floating point;
  \<open>Feature_Contract\<close> the eligibility contract, the locked schema and the variants;
  \<open>Review_Capacity\<close> the review budget and its allocation; \<open>Lifecycle\<close> the one-time record of
  the final evaluation with interleaved runners, known by freeze commit and run id (two processes
  with one run id are not modelled), and failing writes.

  \<^bold>\<open>Historical quarantine\<close> (\<open>src/src/data/\<close>). \<open>Historical_Quarantine\<close> is the reader's side of
  \<open>historical_quarantine.py\<close>: the validation of a data frame, the hash of a row (its label
  byte and the bits of its features), the approval anchor, the manifest and the overlap check
  that guards every training run. \<open>Quarantine_Build\<close> is the builder's side. A file is what
  the code reads of it: whether it is a regular file and its bytes; \<open>json.loads\<close> and the
  reader of the tables are arguments. \<open>Quarantine_Facts\<close> shows that what the builder writes
  the reader accepts, that a loaded manifest is the approved one and that the overlap check
  rejects precisely the frames that share a row with the quarantined data.

  \<^bold>\<open>Historical reference\<close> (\<open>src/src/data/historical_reference.py\<close>). \<open>Fs_Tree\<close> has paths and the
  tree of files as descriptor-based readers see it. \<open>Reference_Recipe\<close> reads the fixed recipe
  from a retained file, \<open>Reference_Pool\<close> checks the splits, rejects contradictory labels, filters
  the quarantined rows, removes duplicates and builds one bundle. \<open>Reference_Facts\<close> shows that
  the label check is exact and that the fitted pool is precisely the first occurrence of every
  row that is not quarantined, with counts that account for each removed row.

  \<^bold>\<open>Model bundle\<close> (\<open>src/src/artifacts/bundle.py\<close>). \<open>Bundle_Provenance\<close> has the provenance
  records, their dictionaries and their parsers, \<open>Bundle_Policy\<close> the binding of metadata to a
  producer policy and to the historical reference, \<open>Model_Bundle\<close> the metadata builders and
  the validation of a bundle, whose estimators are known by the attributes the code reads.
  \<open>Py_Json\<close> holds the strict JSON checks shared with the quarantine and \<open>Json_Text\<close> shows
  that the canonical text of a document without floats determines the document.
  \<open>Provenance_Facts\<close> proves the round trip of training provenance and that the training
  fingerprint binds every data role, \<open>Policy_Facts\<close> what the tracked policy document lets a
  bundle claim. \<open>Bundle_Scoring\<close> is \<open>src/src/inference/batch_scoring.py\<close> and the golden probe;
  what a fitted object computes is a field of the record \<open>library\<close>. \<open>Bundle_Loader\<close> walks below
  a trusted root and reads single artifacts, \<open>Bundle_Manifest\<close> builds, validates and loads whole
  bundles; a loader answers with the byte strings it handed to \<open>joblib.load\<close> beside its result.
  \<open>Loader_Facts\<close> shows that no unverified byte is deserialised, \<open>Bundle_Roundtrip\<close> that no
  reader depends on the order of keys and that a saved bundle loads, and \<open>Smoke_Bundle\<close> runs
  both on a concrete bundle.

  \<^bold>\<open>Bounds.\<close> Every function is total and terminates by structure or by a proved measure; there
  is no fuel. Waiting loops (\<open>wait_for_reservation\<close>) consume a list of polled answers, one
  per poll, as long as the caller's deadline allows. Times are integers of microseconds,
  amounts integers of minor units, floats binary64 without the sign of a zero (so that a
  \<open>jsonb\<close> column, which drops it, keeps a document).

  \<^bold>\<open>Not modelled.\<close> HTTP framework wiring, connection pools, logging, timing
  instrumentation and command-line scripts are input and output around the modelled
  operations. Model training, metrics, explanation and data preparation are pandas,
  NumPy and scikit-learn computations whose meaning lies in those libraries; so are the
  pickling of estimators and the Parquet reader, which appear as arguments. The publication of
  quarantine files and bundles through directory descriptors is not modelled. PostgreSQL,
  SQLite and the file system appear as the state that the modelled statements change, with the
  faults they may report; the SQL of the migrations
  is a parameter. The environment parsing of \<open>scale_config.py\<close> is not
  modelled.
\<close>

end
